(* ===== verification/GimPrelude.thy ===== *)
theory GimPrelude
  imports Main "HOL-Library.AList" "HOL-Library.Word" "HOL-Library.Multiset"
begin

text \<open>
  The vocabulary the component theories share: names for the Go types (byte strings,
  addresses of heap objects, maps), the Go map operations with the laws the components
  use, the interface of such a map as a locale, and the lemma collections the automation
  of the development is driven by.
\<close>

section \<open>Names for the Go types\<close>

text \<open>
  A Go \<^verbatim>\<open>string\<close> and a \<^verbatim>\<open>[]byte\<close> are both sequences of bytes; a HOL character is a
  byte, so both are \<open>string\<close>. A pointer is an address; the heap it points into is a
  total function of the address, kept in the state of the component that owns it.
\<close>

type_synonym bytes = string
type_synonym cptr = nat
type_synonym kptr = nat
type_synonym gptr = nat

text \<open>
  The \<^verbatim>\<open>int\<close> and \<^verbatim>\<open>int64\<close> of the source are integers; an addition or a multiplication that may
  leave 64 bits is reduced to the value in two's complement.
\<close>

definition wrap64 :: "int \<Rightarrow> int" where
  "wrap64 i = signed_take_bit 63 i"

lemma wrap64_id: "- (2 ^ 63) \<le> i \<Longrightarrow> i < 2 ^ 63 \<Longrightarrow> wrap64 i = i"
  by (simp add: wrap64_def signed_take_bit_int_eq_self)

lemma wrap64_add [simp]: "wrap64 (wrap64 i + j) = wrap64 (i + j)" "wrap64 (i + wrap64 j) = wrap64 (i + j)"
  using signed_take_bit_add [of 63 "signed_take_bit 63 i" j] signed_take_bit_add [of 63 i "signed_take_bit 63 j"]
    signed_take_bit_add [of 63 i j]
  by (simp_all add: wrap64_def)

lemma wrap64_wrap64 [simp]: "wrap64 (wrap64 i) = wrap64 i"
  by (simp add: wrap64_def)

lemma wrap64_range: "- (2 ^ 63) \<le> wrap64 i" "wrap64 i < 2 ^ 63"
  using signed_take_bit_int_greater_eq_minus_exp [of 63 i] signed_take_bit_int_less_exp [of 63 i]
  by (simp_all add: wrap64_def)

text \<open>
  The collections: \<open>go_map\<close> for the laws of Go maps, \<open>ws_frame\<close> for the facts that an
  operation leaves a part of the state alone, \<open>ws_ops\<close> for the definitions of the
  websocket service that proofs unfold together.
\<close>

named_theorems go_map_simps
named_theorems ws_frame
named_theorems ws_ops

section \<open>Go maps\<close>

text \<open>
  A Go map is an association list with distinct keys: it can be ranged over and its
  length is the number of its keys, and lookup, insertion and deletion are those of the
  library's association lists. The order of the list is not observable in the model:
  where the source ranges over a map, the definitions take the order of the visit from a
  parameter.
\<close>

type_synonym ('k, 'v) gomap = "('k \<times> 'v) list"

abbreviation mget :: "('k, 'v) gomap \<Rightarrow> 'k \<Rightarrow> 'v option" where
  "mget m k \<equiv> map_of m k"

abbreviation mput :: "'k \<Rightarrow> 'v \<Rightarrow> ('k, 'v) gomap \<Rightarrow> ('k, 'v) gomap" where
  "mput k v m \<equiv> AList.update k v m"

abbreviation mdel :: "'k \<Rightarrow> ('k, 'v) gomap \<Rightarrow> ('k, 'v) gomap" where
  "mdel k m \<equiv> AList.delete k m"

abbreviation mkeys :: "('k, 'v) gomap \<Rightarrow> 'k list" where
  "mkeys m \<equiv> map fst m"

abbreviation mwf :: "('k, 'v) gomap \<Rightarrow> bool" where
  "mwf m \<equiv> distinct (map fst m)"

text \<open>Lookups stay lookups: they are not turned into membership of pairs.\<close>

declare map_of_eq_Some_iff [simp del] Some_eq_map_of_iff [simp del]

lemma mget_mput [simp, go_map_simps]: "map_of (AList.update k v m) = (map_of m)(k \<mapsto> v)"
  by (rule AList.update_conv')

lemma mget_mdel [simp, go_map_simps]: "map_of (AList.delete k m) = (map_of m)(k := None)"
  by (rule AList.delete_conv')

lemma mkeys_mput [simp, go_map_simps]: "fst ` set (AList.update k v m) = insert k (fst ` set m)"
  by (simp add: AList.dom_update)

lemma mkeys_mdel [simp, go_map_simps]: "fst ` set (AList.delete k m) = fst ` set m - {k}"
  by (auto simp: AList.delete_eq)

lemma mwf_mput [simp, intro]: "mwf m \<Longrightarrow> mwf (mput k v m)"
  by (rule AList.distinct_update)

lemma mwf_mdel [simp, intro]: "mwf m \<Longrightarrow> mwf (mdel k m)"
  by (rule AList.distinct_delete)

lemma mget_Some_key: "mget m k = Some v \<Longrightarrow> k \<in> fst ` set m"
  by (force dest: map_of_SomeD)

lemma mget_key_iff: "k \<in> fst ` set m \<longleftrightarrow> mget m k \<noteq> None"
  by (simp add: map_of_eq_None_iff)

lemma length_mdel:
  "mwf m \<Longrightarrow> length (mdel k m) = (if k \<in> fst ` set m then length m - 1 else length m)"
proof (induction m)
  case (Cons a m)
  have "k \<notin> fst ` set m \<Longrightarrow> mdel k m = m"
    by (simp add: AList.delete_idem)
  moreover have "k \<in> fst ` set m \<Longrightarrow> 0 < length m"
    by auto
  ultimately show ?case
    using Cons by (cases a) auto
qed simp

lemma length_mput:
  "length (mput k v m) = (if k \<in> fst ` set m then length m else Suc (length m))"
  by (induction m) auto

lemma mkeys_permutation_set: "mset xs = mset (mkeys m) \<Longrightarrow> set xs = fst ` set m"
  by (metis list.set_map mset_eq_setD)

lemma map_of_rev_distinct: "distinct (map fst xs) \<Longrightarrow> map_of (rev xs) = map_of xs"
  by (simp add: map_of_inject_set rev_map [symmetric])

text \<open>
  The interface a client of a map relies on. The clients of the development (the client
  table, the connection index, the group table and the member sets) rest on these laws
  only, whatever the representation.
\<close>

locale finite_map =
  fixes empty :: "'m"
    and put :: "'k \<Rightarrow> 'v \<Rightarrow> 'm \<Rightarrow> 'm"
    and del :: "'k \<Rightarrow> 'm \<Rightarrow> 'm"
    and get :: "'m \<Rightarrow> 'k \<Rightarrow> 'v option"
    and size_of :: "'m \<Rightarrow> nat"
    and keys :: "'m \<Rightarrow> 'k list"
    and wf :: "'m \<Rightarrow> bool"
  assumes get_empty: "get empty = (\<lambda>_. None)"
    and get_put: "get (put k v m) = (get m)(k \<mapsto> v)"
    and get_del: "get (del k m) = (get m)(k := None)"
    and keys_get: "set (keys m) = dom (get m)"
    and size_keys: "size_of m = length (keys m)"
    and keys_distinct: "wf m \<Longrightarrow> distinct (keys m)"
    and wf_empty: "wf empty"
    and wf_put: "wf m \<Longrightarrow> wf (put k v m)"
    and wf_del: "wf m \<Longrightarrow> wf (del k m)"
begin

lemma size_card: "wf m \<Longrightarrow> size_of m = card (dom (get m))"
  by (metis keys_distinct keys_get size_keys distinct_card)

lemma size_zero_iff: "size_of m = 0 \<longleftrightarrow> get m = (\<lambda>_. None)"
  by (metis dom_eq_empty_conv keys_get length_0_conv set_empty size_keys)

lemma get_fold_del: "get (fold del ks m) = (\<lambda>k. if k \<in> set ks then None else get m k)"
  by (induction ks arbitrary: m) (auto simp: get_del fun_eq_iff)

lemma fold_del_all: "set ks = set (keys m) \<Longrightarrow> get (fold del ks m) = (\<lambda>_. None)"
  by (auto simp: get_fold_del keys_get fun_eq_iff)

lemma put_size: "wf m \<Longrightarrow> get m k = None \<Longrightarrow> size_of (put k v m) = Suc (size_of m)"
proof -
  assume wf: "wf m" and k: "get m k = None"
  then have "dom (get (put k v m)) = insert k (dom (get m))" and "k \<notin> dom (get m)"
    by (auto simp: get_put)
  moreover have "finite (dom (get m))"
    using finite_set [of "keys m"] by (simp add: keys_get)
  ultimately show ?thesis
    using wf by (simp add: size_card wf_put)
qed

lemma put_size_old: "wf m \<Longrightarrow> get m k \<noteq> None \<Longrightarrow> size_of (put k v m) = size_of m"
  by (simp add: size_card wf_put get_put insert_absorb domIff)

lemma del_size: "wf m \<Longrightarrow> get m k \<noteq> None \<Longrightarrow> Suc (size_of (del k m)) = size_of m"
proof -
  assume wf: "wf m" and k: "get m k \<noteq> None"
  then have "dom (get (del k m)) = dom (get m) - {k}" and "k \<in> dom (get m)"
    by (auto simp: get_del)
  moreover have "finite (dom (get m))"
    using finite_set [of "keys m"] by (simp add: keys_get)
  ultimately show ?thesis
    using wf by (metis card_Suc_Diff1 size_card wf_del)
qed

end

interpretation gmap: finite_map "[]" AList.update AList.delete map_of length "map fst"
  "\<lambda>m. distinct (map fst m)"
  by unfold_locales (auto simp: dom_map_of_conv_image_fst)

section \<open>Lists\<close>

lemma fold_invariant:
  "P s \<Longrightarrow> (\<And>x s. x \<in> set xs \<Longrightarrow> P s \<Longrightarrow> P (f x s)) \<Longrightarrow> P (fold f xs s)"
  by (induction xs arbitrary: s) auto

lemma fold_frame:
  "(\<And>x s. x \<in> set xs \<Longrightarrow> g (f x s) = g s) \<Longrightarrow> g (fold f xs s) = g s"
  by (induction xs arbitrary: s) auto

end
