(* ===== verification/ImErr.thy ===== *)
theory ImErr
  imports GimPrelude
begin

text \<open>
  The package \<^verbatim>\<open>pkg/im_err\<close>: the error codes, their messages and the constructor of an
  \<^verbatim>\<open>ImError\<close>, and the type of the errors the model's operations return: an \<^verbatim>\<open>ImError\<close>,
  \<^verbatim>\<open>redis.Nil\<close>, an error of \<^verbatim>\<open>encoding/json\<close> or \<^verbatim>\<open>fmt.Errorf\<close>, or an error a
  library outside the repository reported.
\<close>

datatype go_error =
    ImError (Code: int) (Msg: string)
  | RedisNil
  | JsonError string
  | FmtError string
  | ExtError string

type_synonym 'a result = "go_error + 'a"

definition OK :: int where "OK = 200"
definition ErrUserOffline :: int where "ErrUserOffline = 10001"
definition ErrUserOnline :: int where "ErrUserOnline = 10002"
definition ErrRpcClientNotFound :: int where "ErrRpcClientNotFound = 20001"
definition ErrParams :: int where "ErrParams = 20002"
definition ErrJson :: int where "ErrJson = 20003"
definition ErrNoHandleMsg :: int where "ErrNoHandleMsg = 20004"
definition ErrSendChanFull :: int where "ErrSendChanFull = 20005"

lemmas err_codes = OK_def ErrUserOffline_def ErrUserOnline_def ErrRpcClientNotFound_def
  ErrParams_def ErrJson_def ErrNoHandleMsg_def ErrSendChanFull_def

definition CodeMsg :: "(int, string) gomap" where
  "CodeMsg =
     [(ErrUserOffline, ''USER_OFFLINE''),
      (ErrUserOnline, ''USER_ONLINE''),
      (ErrRpcClientNotFound, ''RPC_CLIENT_NOT_FOUND''),
      (ErrParams, ''PARAMS_ERROR''),
      (ErrJson, ''JSON_ERROR''),
      (ErrNoHandleMsg, ''NO_HANDLE_MSG''),
      (ErrSendChanFull, ''SEND_CHAN_FULL'')]"

text \<open>Indexing a map at an absent key gives the zero value, here the empty string.\<close>

definition NewImError :: "int \<Rightarrow> go_error" where
  "NewImError code = ImError code (case mget CodeMsg code of Some m \<Rightarrow> m | None \<Rightarrow> '''')"

text \<open>The method \<^verbatim>\<open>Error()\<close> of each kind of error.\<close>

fun error_string :: "go_error \<Rightarrow> string" where
  "error_string (ImError c m) = m"
| "error_string RedisNil = ''redis: nil''"
| "error_string (JsonError m) = m"
| "error_string (FmtError m) = m"
| "error_string (ExtError m) = m"

lemma NewImError_inject [simp]: "NewImError a = NewImError b \<longleftrightarrow> a = b"
  by (auto simp: NewImError_def)

lemma error_string_codes:
  "error_string (NewImError ErrUserOffline) = ''USER_OFFLINE''"
  "error_string (NewImError ErrUserOnline) = ''USER_ONLINE''"
  "error_string (NewImError ErrRpcClientNotFound) = ''RPC_CLIENT_NOT_FOUND''"
  "error_string (NewImError ErrJson) = ''JSON_ERROR''"
  "error_string (NewImError ErrNoHandleMsg) = ''NO_HANDLE_MSG''"
  "error_string (NewImError ErrSendChanFull) = ''SEND_CHAN_FULL''"
  by (simp_all add: NewImError_def CodeMsg_def err_codes)

end
