(* ===== verification/GoJson.thy ===== *)
theory GoJson
  imports ImErr "HOL-Library.Char_ord" "HOL-Library.List_Lexorder"
begin

text \<open>
  What the program uses of \<^verbatim>\<open>encoding/json\<close>: the compact text \<^verbatim>\<open>json.Marshal\<close> writes
  (with its HTML-safe escapes, struct fields in declaration order, map keys sorted) and
  the values \<^verbatim>\<open>json.Unmarshal\<close> reads. The main fact is the round trip: reading a printed
  value gives that value back.

  A number is kept as its literal; what becomes of a literal that is read into an \<^verbatim>\<open>interface{}\<close>,
  where it is a \<^verbatim>\<open>float64\<close>, is in \<open>GoFloat\<close>. Bytes above 127 are copied as they are, so a string is taken to be valid UTF-8 without the two separators U+2028 and U+2029.
\<close>

datatype jval =
    JNull
  | JBool bool
  | JNum string
  | JStr string
  | JArr "jval list"
  | JObj "(string \<times> jval) list"
  | JBad  \<comment> \<open>a value \<^verbatim>\<open>json.Marshal\<close> rejects: a channel, a function, a NaN\<close>

section \<open>Printing\<close>

definition hex_digit :: "nat \<Rightarrow> char" where
  "hex_digit n = char_of (if n < 10 then 48 + n else 87 + n)"

definition escape_char :: "char \<Rightarrow> string" where
  "escape_char c =
     (if c = CHR 0x22 then [CHR 0x5C, CHR 0x22]
      else if c = CHR 0x5C then [CHR 0x5C, CHR 0x5C]
      else if c = CHR 0x08 then [CHR 0x5C, CHR ''b'']
      else if c = CHR 0x0C then [CHR 0x5C, CHR ''f'']
      else if c = CHR 0x0A then [CHR 0x5C, CHR ''n'']
      else if c = CHR 0x0D then [CHR 0x5C, CHR ''r'']
      else if c = CHR 0x09 then [CHR 0x5C, CHR ''t'']
      else if of_char c < (32::nat) \<or> c = CHR ''<'' \<or> c = CHR ''>'' \<or> c = CHR ''&''
        then [CHR 0x5C, CHR ''u'', CHR ''0'', CHR ''0'',
              hex_digit (of_char c div 16), hex_digit (of_char c mod 16)]
      else [c])"

definition quote_string :: "string \<Rightarrow> string" where
  "quote_string s = CHR 0x22 # concat (map escape_char s) @ [CHR 0x22]"

text \<open>
  \<open>jprint_elems\<close> and \<open>jprint_mems\<close> print what follows the opening bracket of a non-empty
  array or object, the closing bracket included.
\<close>

fun jprint :: "jval \<Rightarrow> string"
  and jprint_elems :: "jval list \<Rightarrow> string"
  and jprint_mems :: "(string \<times> jval) list \<Rightarrow> string" where
  "jprint JNull = ''null''"
| "jprint (JBool b) = (if b then ''true'' else ''false'')"
| "jprint (JNum l) = l"
| "jprint (JStr s) = quote_string s"
| "jprint (JArr []) = ''[]''"
| "jprint (JArr (v # vs)) = CHR ''['' # jprint_elems (v # vs)"
| "jprint (JObj []) = ''{}''"
| "jprint (JObj (m # ms)) = CHR ''{'' # jprint_mems (m # ms)"
| "jprint JBad = ''''"
| "jprint_elems [] = '']''"
| "jprint_elems [v] = jprint v @ '']''"
| "jprint_elems (v # w # vs) = jprint v @ CHR '','' # jprint_elems (w # vs)"
| "jprint_mems [] = ''}''"
| "jprint_mems [(k, v)] = quote_string k @ CHR '':'' # jprint v @ ''}''"
| "jprint_mems ((k, v) # m # ms) =
     quote_string k @ CHR '':'' # jprint v @ CHR '','' # jprint_mems (m # ms)"

text \<open>The number literals of the JSON grammar.\<close>

definition is_digit :: "char \<Rightarrow> bool" where
  "is_digit c \<longleftrightarrow> of_char c \<in> {48..57::nat}"

fun digits1 :: "string \<Rightarrow> bool" where
  "digits1 s \<longleftrightarrow> s \<noteq> [] \<and> list_all is_digit s"

fun exp_ok :: "string \<Rightarrow> bool" where
  "exp_ok [] = True"
| "exp_ok (e # s) =
     ((e = CHR ''e'' \<or> e = CHR ''E'') \<and>
      (case s of [] \<Rightarrow> False
       | c # s' \<Rightarrow> if c = CHR ''+'' \<or> c = CHR ''-'' then digits1 s' else digits1 s))"

fun frac_ok :: "string \<Rightarrow> bool" where
  "frac_ok [] = True"
| "frac_ok (c # s) =
     (if c = CHR ''.''
      then digits1 (takeWhile is_digit s) \<and> exp_ok (dropWhile is_digit s)
      else exp_ok (c # s))"

fun unsigned_ok :: "string \<Rightarrow> bool" where
  "unsigned_ok [] = False"
| "unsigned_ok (c # s) =
     (if c = CHR ''0'' then frac_ok s
      else is_digit c \<and> frac_ok (dropWhile is_digit s))"

fun number_ok :: "string \<Rightarrow> bool" where
  "number_ok [] = False"
| "number_ok (c # s) = (if c = CHR ''-'' then unsigned_ok s else unsigned_ok (c # s))"

definition num_char :: "char \<Rightarrow> bool" where
  "num_char c \<longleftrightarrow> is_digit c \<or> c \<in> {CHR ''+'', CHR ''-'', CHR ''.'', CHR ''e'', CHR ''E''}"

text \<open>A value \<^verbatim>\<open>json.Marshal\<close> accepts.\<close>

fun jgood :: "jval \<Rightarrow> bool" where
  "jgood JBad = False"
| "jgood (JNum l) = (number_ok l \<and> list_all num_char l)"
| "jgood (JArr vs) = list_all jgood vs"
| "jgood (JObj ms) = list_all (\<lambda>(k, v). jgood v) ms"
| "jgood _ = True"

definition json_Marshal :: "jval \<Rightarrow> bytes result" where
  "json_Marshal v =
     (if jgood v then Inr (jprint v) else Inl (JsonError ''json: unsupported value''))"

text \<open>A Go map is printed with its keys in increasing order.\<close>

definition jmap :: "(string, jval) gomap \<Rightarrow> jval" where
  "jmap m = JObj (sort_key fst m)"

section \<open>Parsing\<close>

definition is_ws :: "char \<Rightarrow> bool" where
  "is_ws c \<longleftrightarrow> c \<in> {CHR '' '', CHR 0x09, CHR 0x0A, CHR 0x0D}"

definition skip_ws :: "string \<Rightarrow> string" where
  "skip_ws s = dropWhile is_ws s"

definition hex_val :: "char \<Rightarrow> nat option" where
  "hex_val c =
     (let n = of_char c in
      if 48 \<le> n \<and> n \<le> 57 then Some (n - 48)
      else if 97 \<le> n \<and> n \<le> 102 then Some (n - 87)
      else if 65 \<le> n \<and> n \<le> 70 then Some (n - 55)
      else None)"

definition hex4 :: "char \<Rightarrow> char \<Rightarrow> char \<Rightarrow> char \<Rightarrow> nat option" where
  "hex4 a b c d =
     (case (hex_val a, hex_val b, hex_val c, hex_val d) of
        (Some w, Some x, Some y, Some z) \<Rightarrow> Some (((w * 16 + x) * 16 + y) * 16 + z)
      | _ \<Rightarrow> None)"

definition utf8 :: "nat \<Rightarrow> string" where
  "utf8 n =
     (if n < 128 then [char_of n]
      else if n < 2048 then [char_of (192 + n div 64), char_of (128 + n mod 64)]
      else if n < 65536 then
        [char_of (224 + n div 4096), char_of (128 + n div 64 mod 64), char_of (128 + n mod 64)]
      else [char_of (240 + n div 262144), char_of (128 + n div 4096 mod 64),
            char_of (128 + n div 64 mod 64), char_of (128 + n mod 64)])"

definition unescape :: "char \<Rightarrow> char option" where
  "unescape e =
     (if e \<in> {CHR 0x22, CHR 0x5C, CHR ''/''} then Some e
      else if e = CHR ''b'' then Some (CHR 0x08)
      else if e = CHR ''f'' then Some (CHR 0x0C)
      else if e = CHR ''n'' then Some (CHR 0x0A)
      else if e = CHR ''r'' then Some (CHR 0x0D)
      else if e = CHR ''t'' then Some (CHR 0x09)
      else None)"

definition prepend :: "string \<Rightarrow> (string \<times> string) option \<Rightarrow> (string \<times> string) option" where
  "prepend p r = (case r of None \<Rightarrow> None | Some (s, rest) \<Rightarrow> Some (p @ s, rest))"

definition surrogate_high :: "nat \<Rightarrow> bool" where
  "surrogate_high n \<longleftrightarrow> 55296 \<le> n \<and> n < 56320"

definition surrogate_low :: "nat \<Rightarrow> bool" where
  "surrogate_low n \<longleftrightarrow> 56320 \<le> n \<and> n < 57344"

text \<open>
  The low half of a surrogate pair, if the text goes on with its escape; a half on its own
  is replaced by U+FFFD.
\<close>

definition low_half :: "string \<Rightarrow> nat option" where
  "low_half s =
     (case s of
        b # u # p # q # x # y # _ \<Rightarrow>
          (if b = CHR 0x5C \<and> u = CHR ''u''
           then (case hex4 p q x y of
                   Some n \<Rightarrow> if surrogate_low n then Some n else None
                 | None \<Rightarrow> None)
           else None)
      | _ \<Rightarrow> None)"

text \<open>The rest of a string literal after its opening quote.\<close>

function (sequential) parse_string :: "string \<Rightarrow> (string \<times> string) option" where
  "parse_string [] = None"
| "parse_string (c # r) =
     (if c = CHR 0x22 then Some ([], r)
      else if c = CHR 0x5C then
        (case r of
           [] \<Rightarrow> None
         | e # r1 \<Rightarrow>
             if e = CHR ''u'' then
               (case r1 of
                  w # x # y # z # r2 \<Rightarrow>
                    (case hex4 w x y z of
                       None \<Rightarrow> None
                     | Some n \<Rightarrow>
                         if surrogate_high n then
                           (case low_half r2 of
                              Some m \<Rightarrow>
                                prepend (utf8 (65536 + (n - 55296) * 1024 + (m - 56320)))
                                  (parse_string (drop 6 r2))
                            | None \<Rightarrow> prepend (utf8 65533) (parse_string r2))
                         else if surrogate_low n then prepend (utf8 65533) (parse_string r2)
                         else prepend (utf8 n) (parse_string r2))
                | _ \<Rightarrow> None)
             else
               (case unescape e of
                  None \<Rightarrow> None
                | Some d \<Rightarrow> prepend [d] (parse_string r1)))
      else if of_char c < (32::nat) then None
      else prepend [c] (parse_string r))"
  by pat_completeness auto
termination
  by (relation "measure length") auto

definition parse_number :: "string \<Rightarrow> (jval \<times> string) option" where
  "parse_number s =
     (let l = takeWhile num_char s in
      if number_ok l then Some (JNum l, dropWhile num_char s) else None)"

definition strip_prefix :: "string \<Rightarrow> string \<Rightarrow> string option" where
  "strip_prefix p s = (if take (length p) s = p then Some (drop (length p) s) else None)"

definition parse_word :: "string \<Rightarrow> jval \<Rightarrow> string \<Rightarrow> (jval \<times> string) option" where
  "parse_word p v s = map_option (\<lambda>r. (v, r)) (strip_prefix p s)"

text \<open>
  The recursive descent. Every call spends one unit of fuel; \<open>json_parse\<close> starts with more
  fuel than the text has characters, and every nested call of the descent consumes at
  least one character, so running out never happens on a printed value
  (\<open>parse_print\<close> below).
\<close>

fun parse_value :: "nat \<Rightarrow> string \<Rightarrow> (jval \<times> string) option"
  and parse_elems :: "nat \<Rightarrow> string \<Rightarrow> (jval list \<times> string) option"
  and parse_mems :: "nat \<Rightarrow> string \<Rightarrow> ((string \<times> jval) list \<times> string) option" where
  "parse_value 0 s = None"
| "parse_value (Suc n) s =
     (case skip_ws s of
        [] \<Rightarrow> None
      | c # r \<Rightarrow>
          if c = CHR 0x22 then map_option (\<lambda>(t, r'). (JStr t, r')) (parse_string r)
          else if c = CHR ''{'' then
            (case skip_ws r of
               d # r' \<Rightarrow>
                 if d = CHR ''}'' then Some (JObj [], r')
                 else map_option (\<lambda>(ms, r''). (JObj ms, r'')) (parse_mems n r)
             | [] \<Rightarrow> None)
          else if c = CHR ''['' then
            (case skip_ws r of
               d # r' \<Rightarrow>
                 if d = CHR '']'' then Some (JArr [], r')
                 else map_option (\<lambda>(vs, r''). (JArr vs, r'')) (parse_elems n r)
             | [] \<Rightarrow> None)
          else if c = CHR ''n'' then parse_word ''ull'' JNull r
          else if c = CHR ''t'' then parse_word ''rue'' (JBool True) r
          else if c = CHR ''f'' then parse_word ''alse'' (JBool False) r
          else parse_number (c # r))"
| "parse_elems 0 s = None"
| "parse_elems (Suc n) s =
     (case parse_value n s of
        None \<Rightarrow> None
      | Some (v, r) \<Rightarrow>
          (case skip_ws r of
             c # r' \<Rightarrow>
               if c = CHR '','' then map_option (\<lambda>(vs, r''). (v # vs, r'')) (parse_elems n r')
               else if c = CHR '']'' then Some ([v], r')
               else None
           | [] \<Rightarrow> None))"
| "parse_mems 0 s = None"
| "parse_mems (Suc n) s =
     (case skip_ws s of
        c # r \<Rightarrow>
          if c = CHR 0x22 then
            (case parse_string r of
               None \<Rightarrow> None
             | Some (k, r1) \<Rightarrow>
                 (case skip_ws r1 of
                    d # r2 \<Rightarrow>
                      if d = CHR '':'' then
                        (case parse_value n r2 of
                           None \<Rightarrow> None
                         | Some (v, r3) \<Rightarrow>
                             (case skip_ws r3 of
                                e # r4 \<Rightarrow>
                                  if e = CHR '','' then
                                    map_option (\<lambda>(ms, r5). ((k, v) # ms, r5)) (parse_mems n r4)
                                  else if e = CHR ''}'' then Some ([(k, v)], r4)
                                  else None
                              | [] \<Rightarrow> None))
                      else None
                  | [] \<Rightarrow> None))
          else None
      | [] \<Rightarrow> None)"

definition json_parse :: "bytes \<Rightarrow> jval option" where
  "json_parse s =
     (case parse_value (Suc (length s)) s of
        Some (v, r) \<Rightarrow> if skip_ws r = [] then Some v else None
      | None \<Rightarrow> None)"

section \<open>Reading back what was printed\<close>

lemma hex_val_digit: "n < 16 \<Longrightarrow> hex_val (hex_digit n) = Some n"
  by (auto simp: hex_val_def hex_digit_def Let_def)

lemma hex_val_0: "hex_val (CHR ''0'') = Some 0"
  by (simp add: hex_val_def)

lemma prepend_simps [simp]:
  "prepend p None = None"
  "prepend p (Some (s, r)) = Some (p @ s, r)"
  by (simp_all add: prepend_def)

lemma parse_string_plain:
  "c \<noteq> CHR 0x22 \<Longrightarrow> c \<noteq> CHR 0x5C \<Longrightarrow> 32 \<le> (of_char c :: nat) \<Longrightarrow>
     parse_string (c # r) = prepend [c] (parse_string r)"
  by simp

lemma parse_string_short:
  "unescape e = Some d \<Longrightarrow> e \<noteq> CHR ''u'' \<Longrightarrow>
     parse_string (CHR 0x5C # e # r) = prepend [d] (parse_string r)"
  by simp

lemma parse_string_u:
  assumes "hex4 w x y z = Some n" and "n < 128"
  shows "parse_string (CHR 0x5C # CHR ''u'' # w # x # y # z # r) =
     prepend [char_of n] (parse_string r)"
  using assms by (simp add: surrogate_high_def surrogate_low_def utf8_def)

lemma parse_string_escape: "parse_string (escape_char c @ r) = prepend [c] (parse_string r)"
proof -
  let ?n = "of_char c :: nat"
  have u: "parse_string (CHR 0x5C # CHR ''u'' # CHR ''0'' # CHR ''0'' #
      hex_digit (?n div 16) # hex_digit (?n mod 16) # r) = prepend [c] (parse_string r)"
    if "?n < 128"
  proof -
    have "hex4 (CHR ''0'') (CHR ''0'') (hex_digit (?n div 16)) (hex_digit (?n mod 16)) = Some ?n"
      using that by (simp add: hex4_def hex_val_0 hex_val_digit)
    then show ?thesis using that by (simp add: parse_string_u del: parse_string.simps)
  qed
  have lt: "?n < 128" if "?n < 32 \<or> c = CHR ''<'' \<or> c = CHR ''>'' \<or> c = CHR ''&''"
    using that by auto
  show ?thesis
    using u [OF lt]
    by (auto simp: escape_char_def parse_string_short parse_string_plain unescape_def
        simp del: parse_string.simps)
qed

lemma parse_string_escapes:
  "parse_string (concat (map escape_char s) @ CHR 0x22 # r) = Some (s, r)"
proof (induction s)
  case (Cons c s)
  then show ?case
    by (simp add: parse_string_escape del: parse_string.simps)
qed simp

declare parse_string.simps [simp del]

lemma skip_ws_Cons [simp]: "\<not> is_ws c \<Longrightarrow> skip_ws (c # s) = c # s"
  by (simp add: skip_ws_def)

lemma skip_ws_Nil [simp]: "skip_ws [] = []"
  by (simp add: skip_ws_def)

lemma not_ws [simp]:
  "\<not> is_ws (CHR 0x22)" "\<not> is_ws (CHR '','')" "\<not> is_ws (CHR '':'')" "\<not> is_ws (CHR ''['')"
  "\<not> is_ws (CHR '']'')" "\<not> is_ws (CHR ''{'')" "\<not> is_ws (CHR ''}'')" "\<not> is_ws (CHR ''n'')"
  "\<not> is_ws (CHR ''t'')" "\<not> is_ws (CHR ''f'')"
  by (simp_all add: is_ws_def)

lemma num_char_not_ws: "num_char c \<Longrightarrow> \<not> is_ws c"
  by (auto simp: num_char_def is_ws_def is_digit_def)

text \<open>What may follow a value in a text: a number literal ends where this begins.\<close>

definition stops :: "string \<Rightarrow> bool" where
  "stops r \<longleftrightarrow> (case r of [] \<Rightarrow> True | c # _ \<Rightarrow> \<not> num_char c)"

lemma stops_simps [simp]:
  "stops []" "stops (CHR '','' # r)" "stops (CHR '']'' # r)" "stops (CHR ''}'' # r)"
  by (simp_all add: stops_def num_char_def is_digit_def)

lemma takeWhile_stops:
  "list_all P l \<Longrightarrow> (case r of [] \<Rightarrow> True | c # _ \<Rightarrow> \<not> P c) \<Longrightarrow>
     takeWhile P (l @ r) = l \<and> dropWhile P (l @ r) = r"
  by (induction l) (auto split: list.splits)

lemma parse_number_print:
  "number_ok l \<Longrightarrow> list_all num_char l \<Longrightarrow> stops r \<Longrightarrow> parse_number (l @ r) = Some (JNum l, r)"
  using takeWhile_stops [of num_char l r] by (simp add: parse_number_def stops_def Let_def)

lemma number_head:
  "number_ok l \<Longrightarrow> \<exists>c l'. l = c # l' \<and> (c = CHR ''-'' \<or> is_digit c)"
  by (cases l) (auto simp: is_digit_def split: if_splits)

text \<open>The first character of a printed value.\<close>

lemma jprint_head:
  "jgood v \<Longrightarrow> \<exists>c t. jprint v = c # t \<and> \<not> is_ws c \<and> c \<notin> {CHR '']'', CHR ''}''}"
proof (cases v)
  case (JNum l)
  moreover assume "jgood v"
  ultimately show ?thesis
    using number_head [of l] by (auto simp: is_digit_def is_ws_def)
next
  case (JArr vs)
  then show ?thesis by (cases vs) auto
next
  case (JObj ms)
  then show ?thesis by (cases ms) auto
qed (auto simp: quote_string_def)

lemma parse_value_number:
  assumes "number_ok l" and "list_all num_char l" and "stops r"
  shows "parse_value (Suc n) (l @ r) = Some (JNum l, r)"
proof -
  obtain c l' where l: "l = c # l'" and c: "c = CHR ''-'' \<or> is_digit c"
    using number_head [OF assms(1)] by blast
  have "\<not> is_ws c"
    using c by (auto simp: is_ws_def is_digit_def)
  then have "skip_ws (l @ r) = c # (l' @ r)"
    using l by simp
  moreover have "parse_number (c # (l' @ r)) = Some (JNum l, r)"
    using parse_number_print [OF assms] l by simp
  moreover have "c \<noteq> CHR 0x22" "c \<noteq> CHR ''{''" "c \<noteq> CHR ''[''" "c \<noteq> CHR ''n''" "c \<noteq> CHR ''t''"
    "c \<noteq> CHR ''f''"
    using c by (auto simp: is_digit_def)
  ultimately show ?thesis by simp
qed

lemma skip_ws_print: "jgood v \<Longrightarrow> skip_ws (jprint v @ r) = jprint v @ r"
  using jprint_head [of v] by auto

lemma jprint_elems_head:
  "jgood v \<Longrightarrow> \<exists>c t. jprint_elems (v # vs) @ r = c # t \<and> \<not> is_ws c \<and> c \<noteq> CHR '']''"
  using jprint_head [of v] by (cases vs) auto

lemma jprint_mems_head: "\<exists>t. jprint_mems (m # ms) @ r = CHR 0x22 # t"
  by (cases m; cases ms) (auto simp: quote_string_def)

text \<open>
  With as much fuel as the printed text has characters, the descent reads back the value
  and stops right behind it.
\<close>

lemma parse_print:
  "jgood v \<Longrightarrow> stops r \<Longrightarrow> length (jprint v) \<le> n \<Longrightarrow> parse_value n (jprint v @ r) = Some (v, r)"
  "list_all jgood vs \<Longrightarrow> vs \<noteq> [] \<Longrightarrow> length (jprint_elems vs) \<le> n \<Longrightarrow>
     parse_elems n (jprint_elems vs @ r) = Some (vs, r)"
  "list_all (\<lambda>(k, v). jgood v) ms \<Longrightarrow> ms \<noteq> [] \<Longrightarrow> length (jprint_mems ms) \<le> n \<Longrightarrow>
     parse_mems n (jprint_mems ms @ r) = Some (ms, r)"
proof (induction v and vs and ms arbitrary: n r and n r and n r
    rule: jprint_jprint_elems_jprint_mems.induct)
  case (3 l)
  then obtain m where "n = Suc m" using number_head [of l] by (cases n) auto
  with 3 show ?case using parse_value_number [of l r m] by simp
next
  case (6 v vs)
  then obtain m where n: "n = Suc m" by (cases n) auto
  with 6 have "parse_elems m (jprint_elems (v # vs) @ r) = Some (v # vs, r)" by simp
  moreover obtain c t where "jprint_elems (v # vs) @ r = c # t" "\<not> is_ws c" "c \<noteq> CHR '']''"
    using jprint_elems_head [of v vs r] 6 by auto
  ultimately show ?case by (simp add: n)
next
  case (8 m ms)
  then obtain k where n: "n = Suc k" by (cases n) auto
  with 8 have "parse_mems k (jprint_mems (m # ms) @ r) = Some (m # ms, r)" by simp
  moreover obtain t where "jprint_mems (m # ms) @ r = CHR 0x22 # t"
    using jprint_mems_head [of m ms r] by auto
  ultimately show ?case by (simp add: n)
next
  case (11 v)
  then obtain m where n: "n = Suc m" by (cases n) auto
  with 11 show ?case by simp
next
  case (12 v w vs)
  then obtain m where n: "n = Suc m" by (cases n) auto
  with 12 show ?case by simp
next
  case (14 k v)
  then obtain m where n: "n = Suc m" by (cases n) (auto simp: quote_string_def)
  with 14 show ?case by (simp add: quote_string_def parse_string_escapes)
next
  case (15 k v m ms)
  then obtain i where n: "n = Suc i" by (cases n) (auto simp: quote_string_def)
  with 15 show ?case by (simp add: quote_string_def parse_string_escapes)
qed (auto simp: parse_word_def strip_prefix_def quote_string_def parse_string_escapes
    dest!: Suc_le_D)

theorem json_roundtrip: "jgood v \<Longrightarrow> json_parse (jprint v) = Some v"
  using parse_print(1) [of v "[]" "Suc (length (jprint v))"] by (simp add: json_parse_def)

lemma json_Marshal_roundtrip: "json_Marshal v = Inr b \<Longrightarrow> json_parse b = Some v"
  by (auto simp: json_Marshal_def json_roundtrip split: if_splits)

end
