(* ===== verification/GoLits.thy ===== *)
theory GoLits
  imports GoJson
begin

text \<open>
  Integer literals as \<^verbatim>\<open>strconv\<close> writes and reads them, and that they are numbers of the JSON
  grammar.
\<close>

section \<open>Integer literals\<close>

fun nat_lit :: "nat \<Rightarrow> string" where
  "nat_lit n = (if n < 10 then [char_of (48 + n)] else nat_lit (n div 10) @ [char_of (48 + n mod 10)])"

declare nat_lit.simps [simp del]

definition int_lit :: "int \<Rightarrow> string" where
  "int_lit i = (if i < 0 then CHR ''-'' # nat_lit (nat (- i)) else nat_lit (nat i))"

definition digits_val :: "string \<Rightarrow> nat" where
  "digits_val s = foldl (\<lambda>a c. 10 * a + (of_char c - 48)) 0 s"

text \<open>\<^verbatim>\<open>strconv.ParseInt\<close> on a literal, into a signed integer of \<open>w\<close> bits.\<close>

definition lit_int :: "nat \<Rightarrow> string \<Rightarrow> int option" where
  "lit_int w l =
     (let (neg, ds) = (case l of c # r \<Rightarrow> if c = CHR ''-'' then (True, r) else (False, l)
                       | [] \<Rightarrow> (False, l));
          i = (if neg then - int (digits_val ds) else int (digits_val ds))
      in if digits1 ds \<and> - (2 ^ (w - 1)) \<le> i \<and> i < 2 ^ (w - 1) then Some i else None)"

definition int_range :: "nat \<Rightarrow> int \<Rightarrow> bool" where
  "int_range w i \<longleftrightarrow> - (2 ^ (w - 1)) \<le> i \<and> i < 2 ^ (w - 1)"

lemma is_digit_char_of [simp]: "n < 10 \<Longrightarrow> is_digit (char_of (48 + n :: nat))"
  by (simp add: is_digit_def)

lemma nat_lit_digits: "list_all is_digit (nat_lit n)"
proof (induction n rule: nat_lit.induct)
  case (1 n)
  then show ?case
    by (subst nat_lit.simps) auto
qed

lemma nat_lit_nonempty [simp]: "nat_lit n \<noteq> []"
  by (subst nat_lit.simps) simp

lemma digits_val_nat_lit: "digits_val (nat_lit n) = n"
proof (induction n rule: nat_lit.induct)
  case (1 n)
  then show ?case
    by (subst nat_lit.simps) (auto simp: digits_val_def)
qed

lemma nat_lit_head: "0 < n \<Longrightarrow> hd (nat_lit n) \<noteq> CHR ''0''"
proof (induction n rule: nat_lit.induct)
  case (1 n)
  show ?case
  proof (cases "n < 10")
    case True
    have "char_of (48 + n) \<noteq> CHR ''0''"
    proof
      assume "char_of (48 + n) = CHR ''0''"
      then have "of_char (char_of (48 + n)) = (of_char (CHR ''0'') :: nat)" by (rule arg_cong)
      with True 1 show False by simp
    qed
    with True show ?thesis by (simp add: nat_lit.simps [of n])
  next
    case False
    then have "0 < n div 10" by simp
    with 1 False show ?thesis by (simp add: nat_lit.simps [of n])
  qed
qed

lemma unsigned_ok_nat_lit: "unsigned_ok (nat_lit n)"
proof (cases "n = 0")
  case True
  then show ?thesis by (simp add: nat_lit.simps [of 0] is_digit_def)
next
  case False
  obtain c r where l: "nat_lit n = c # r" by (cases "nat_lit n") auto
  with False nat_lit_head [of n] nat_lit_digits [of n]
  have "c \<noteq> CHR ''0''" "is_digit c" "list_all is_digit r" by auto
  moreover from this(3) have "frac_ok (dropWhile is_digit r)"
    by (induction r) auto
  ultimately show ?thesis unfolding l by simp
qed

lemma nat_lit_num: "nat_lit n = c # r \<Longrightarrow> c \<noteq> CHR ''-''"
  using nat_lit_digits [of n] by (auto simp: is_digit_def)

lemma number_ok_int_lit: "number_ok (int_lit i)"
proof (cases "i < 0")
  case False
  obtain c r where l: "nat_lit (nat i) = c # r" by (cases "nat_lit (nat i)") auto
  with unsigned_ok_nat_lit [of "nat i"] nat_lit_num [OF l] False show ?thesis
    by (simp add: int_lit_def)
qed (simp add: int_lit_def unsigned_ok_nat_lit)

lemma num_char_int_lit: "list_all num_char (int_lit i)"
proof -
  have "list_all num_char (nat_lit n)" for n
    using nat_lit_digits [of n] by (auto simp: num_char_def list_all_iff)
  then show ?thesis by (simp add: int_lit_def num_char_def)
qed

lemma lit_int_int_lit: "int_range w i \<Longrightarrow> lit_int w (int_lit i) = Some i"
proof (cases "i < 0")
  case False
  obtain c r where l: "nat_lit (nat i) = c # r" by (cases "nat_lit (nat i)") auto
  assume "int_range w i"
  with False nat_lit_num [OF l] nat_lit_digits [of "nat i"] digits_val_nat_lit [of "nat i"] l
  show ?thesis by (simp add: lit_int_def int_lit_def int_range_def)
next
  case True
  assume "int_range w i"
  with True nat_lit_digits [of "nat (- i)"] digits_val_nat_lit [of "nat (- i)"]
  show ?thesis by (simp add: lit_int_def int_lit_def int_range_def)
qed

definition jint :: "int \<Rightarrow> jval" where
  "jint i = JNum (int_lit i)"

lemma jgood_jint [simp]: "jgood (jint i)"
  by (simp add: jint_def number_ok_int_lit num_char_int_lit)

end
