(* ===== verification/GoFloat.thy ===== *)
theory GoFloat
  imports GoLits
begin

text \<open>
  Numbers that pass through a \<^verbatim>\<open>float64\<close>: \<^verbatim>\<open>encoding/json\<close> reads a number of an \<^verbatim>\<open>interface{}\<close> with
  \<^verbatim>\<open>strconv.ParseFloat\<close>, which rounds it to the nearest \<^verbatim>\<open>float64\<close>, ties to even, and is an error
  beyond the largest one, and prints it with the fewest decimal digits that read back as the
  same \<^verbatim>\<open>float64\<close>, in exponential form below \<^verbatim>\<open>1e-6\<close> and from \<^verbatim>\<open>1e21\<close> on. The computation is exact, on
  ratios of integers with a positive denominator.
\<close>

section \<open>Ratios\<close>

type_synonym ratio = "int \<times> int"

text \<open>\<open>scale b k r\<close> is \<open>r\<close> times the \<open>k\<close>-th power of \<open>b\<close>.\<close>

definition scale :: "int \<Rightarrow> int \<Rightarrow> ratio \<Rightarrow> ratio" where
  "scale b k r = (fst r * b ^ nat k, snd r * b ^ nat (- k))"

definition same_ratio :: "ratio \<Rightarrow> ratio \<Rightarrow> bool" where
  "same_ratio r q \<longleftrightarrow> fst r * snd q = fst q * snd r"

definition less_ratio :: "ratio \<Rightarrow> ratio \<Rightarrow> bool" where
  "less_ratio r q \<longleftrightarrow> fst r * snd q < fst q * snd r"

function digit_count :: "int \<Rightarrow> int \<Rightarrow> nat" where
  "digit_count b n = (if 1 < b \<and> 0 < n then digit_count b (n div b) + 1 else 0)"
  by pat_completeness auto
termination by (relation "measure (\<lambda>(b, n). nat n)") (auto simp: int_div_less_self)

declare digit_count.simps [simp del]

text \<open>The largest \<open>k\<close> such that the \<open>k\<close>-th power of \<open>b\<close> is not greater than a positive ratio.\<close>

definition ratio_log :: "int \<Rightarrow> ratio \<Rightarrow> int" where
  "ratio_log b r =
     (let e = int (digit_count b (fst r)) - int (digit_count b (snd r)); q = scale b (- e) r
      in if snd q \<le> fst q then e else e - 1)"

text \<open>The nearest integer, the even one of two.\<close>

definition half_even :: "ratio \<Rightarrow> int" where
  "half_even r =
     (let q = fst r div snd r; m = fst r mod snd r
      in if 2 * m < snd r \<or> 2 * m = snd r \<and> even q then q else q + 1)"

section \<open>Rounding to a float64\<close>

text \<open>
  The value is a multiple of the unit in the last place, \<open>2 ^ u\<close>: 53 bits for a normal number,
  and never less than \<open>2 ^ - 1074\<close>. \<open>None\<close> is a value beyond the largest \<^verbatim>\<open>float64\<close>.
\<close>

definition round64 :: "ratio \<Rightarrow> ratio option" where
  "round64 r =
     (if fst r = 0 then Some (0, 1)
      else
        let u = max (ratio_log 2 r - 52) (- 1074); x = scale 2 u (half_even (scale 2 (- u) r), 1)
        in if snd x * 2 ^ 1024 \<le> fst x then None else Some x)"

section \<open>Printing a float64\<close>

text \<open>
  The digits of \<open>x\<close> down to the one for \<open>10 ^ s\<close>, where one of the two neighbouring multiples of
  \<open>10 ^ s\<close> is read back as \<open>x\<close>; the nearer one where both are.
\<close>

definition reads_as :: "ratio \<Rightarrow> int \<Rightarrow> int \<Rightarrow> bool" where
  "reads_as x s c \<longleftrightarrow>
     0 < c \<and> (case round64 (scale 10 s (c, 1)) of None \<Rightarrow> False | Some y \<Rightarrow> same_ratio y x)"

definition digits_at :: "ratio \<Rightarrow> int \<Rightarrow> int option" where
  "digits_at x s =
     (let q = scale 10 (- s) x; dn = fst q div snd q in
      if reads_as x s dn \<and> reads_as x s (dn + 1) then Some (half_even q)
      else if reads_as x s dn then Some dn
      else if reads_as x s (dn + 1) then Some (dn + 1)
      else None)"

text \<open>One digit more as long as none is found; with 17 digits every \<^verbatim>\<open>float64\<close> is read back.\<close>

primrec shortest_from :: "ratio \<Rightarrow> int \<Rightarrow> nat \<Rightarrow> int \<times> int" where
  "shortest_from x s 0 = (half_even (scale 10 (- s) x), s)"
| "shortest_from x s (Suc j) =
     (case digits_at x s of Some n \<Rightarrow> (n, s) | None \<Rightarrow> shortest_from x (s - 1) j)"

definition shortest :: "ratio \<Rightarrow> int \<times> int" where
  "shortest x = shortest_from x (ratio_log 10 x) 16"

text \<open>The digits without zeros at the end, and the power of ten of the last one.\<close>

definition strip_zeros :: "int \<times> int \<Rightarrow> string \<times> int" where
  "strip_zeros d =
     (let ds = rev (nat_lit (nat (fst d)))
      in (rev (dropWhile (\<lambda>c. c = CHR ''0'') ds), snd d + int (length (takeWhile (\<lambda>c. c = CHR ''0'') ds))))"

definition plain_text :: "string \<Rightarrow> int \<Rightarrow> string" where
  "plain_text ds t =
     (let dp = int (length ds) + t in
      if 0 \<le> t then ds @ replicate (nat t) (CHR ''0'')
      else if 0 < dp then take (nat dp) ds @ CHR ''.'' # drop (nat dp) ds
      else ''0.'' @ replicate (nat (- dp)) (CHR ''0'') @ ds)"

definition exp_text :: "string \<Rightarrow> int \<Rightarrow> string" where
  "exp_text ds t =
     (let e = int (length ds) + t - 1 in
      take 1 ds @ (if length ds = 1 then [] else CHR ''.'' # drop 1 ds) @
      CHR ''e'' # (if e < 0 then CHR ''-'' else CHR ''+'') # nat_lit (nat \<bar>e\<bar>))"

definition positive_text :: "ratio \<Rightarrow> string" where
  "positive_text x =
     (let (ds, t) = strip_zeros (shortest x) in
      if less_ratio x (the (round64 (1, 10 ^ 6))) \<or> \<not> less_ratio x (10 ^ 21, 1)
      then exp_text ds t else plain_text ds t)"

section \<open>A literal through a float64\<close>

definition lit_exp :: "string \<Rightarrow> int" where
  "lit_exp s =
     (case s of
        [] \<Rightarrow> 0
      | e # r \<Rightarrow>
          (case r of
             [] \<Rightarrow> 0
           | c # r' \<Rightarrow>
               if c = CHR ''-'' then - int (digits_val r')
               else if c = CHR ''+'' then int (digits_val r')
               else int (digits_val r)))"

definition lit_ratio :: "string \<Rightarrow> ratio" where
  "lit_ratio l =
     (let ip = takeWhile is_digit l; r = dropWhile is_digit l;
          fp = (case r of c # r' \<Rightarrow> if c = CHR ''.'' then takeWhile is_digit r' else [] | [] \<Rightarrow> []);
          ep = (case r of c # r' \<Rightarrow> if c = CHR ''.'' then dropWhile is_digit r' else r | [] \<Rightarrow> [])
      in scale 10 (lit_exp ep - int (length fp)) (int (digits_val (ip @ fp)), 1))"

definition unsigned_text :: "string \<Rightarrow> string option" where
  "unsigned_text l =
     map_option (\<lambda>x. if fst x = 0 then ''0'' else positive_text x) (round64 (lit_ratio l))"

text \<open>The text of a number literal after it went through a \<^verbatim>\<open>float64\<close>; \<open>None\<close> is an error of the range.\<close>

definition float_text :: "string \<Rightarrow> string option" where
  "float_text l =
     (case l of
        [] \<Rightarrow> unsigned_text l
      | c # r \<Rightarrow> if c = CHR ''-'' then map_option (\<lambda>t. CHR ''-'' # t) (unsigned_text r) else unsigned_text l)"

section \<open>Facts about ratios\<close>

lemma digit_count_bounds:
  "1 < b \<Longrightarrow> 0 < n \<Longrightarrow> 0 < digit_count b n \<and> b ^ (digit_count b n - 1) \<le> n \<and> n < b ^ digit_count b n"
proof (induction b n rule: digit_count.induct)
  case (1 b n)
  have c: "digit_count b n = digit_count b (n div b) + 1" using 1 by (simp add: digit_count.simps [of b n])
  show ?case
  proof (cases "0 < n div b")
    case True
    let ?k = "digit_count b (n div b)"
    have IH: "0 < ?k" "b ^ (?k - 1) \<le> n div b" "n div b < b ^ ?k" using 1 True by auto
    have "b ^ ?k = b ^ (?k - 1) * b" using IH(1) by (metis Suc_diff_1 power_Suc2)
    also have "\<dots> \<le> n div b * b" using IH(2) 1(2) by (intro mult_right_mono) auto
    also have "\<dots> \<le> n" using 1(2) by (simp add: minus_mod_eq_div_mult [symmetric])
    finally have "b ^ ?k \<le> n" .
    moreover have "n < b ^ ?k * b"
    proof -
      have "n div b + 1 \<le> b ^ ?k" using IH(3) by simp
      then have "(n div b + 1) * b \<le> b ^ ?k * b" using 1(2) by (intro mult_right_mono) auto
      moreover have "(n div b + 1) * b = b * (n div b) + b" by (simp add: algebra_simps)
      then have "n < (n div b + 1) * b" using 1(2) pos_mod_bound [of b n] mult_div_mod_eq [of b n] by linarith
      ultimately show ?thesis by simp
    qed
    ultimately show ?thesis by (simp add: c mult.commute)
  next
    case False
    then have "digit_count b (n div b) = 0" by (simp add: digit_count.simps [of b "n div b"])
    moreover have "n < b" using False 1(2) by (simp add: pos_imp_zdiv_pos_iff)
    ultimately show ?thesis using 1 by (simp add: c)
  qed
qed

lemma power_split: "(b :: int) ^ m * b ^ n = b ^ k" if "k = m + n"
  using that by (simp add: power_add)

text \<open>The two bounds of the logarithm.\<close>

lemma ratio_log_le:
  assumes "1 < b" and "0 < n" and "0 < d"
  defines "L \<equiv> ratio_log b (n, d)"
  shows "d * b ^ nat L \<le> n * b ^ nat (- L)"
proof -
  define cn cd e where c: "cn = digit_count b n" "cd = digit_count b d" "e = int cn - int cd"
  note N = digit_count_bounds [OF assms(1,2), folded c] and D = digit_count_bounds [OF assms(1,3), folded c]
  have L: "L = (if d * b ^ nat e \<le> n * b ^ nat (- e) then e else e - 1)"
    by (simp add: L_def ratio_log_def scale_def c Let_def)
  show ?thesis
  proof (cases "d * b ^ nat e \<le> n * b ^ nat (- e)")
    case False
    then have L: "L = e - 1" using L by simp
    show ?thesis
    proof (cases "1 \<le> e")
      case True
      have "d * b ^ nat (e - 1) \<le> b ^ cd * b ^ nat (e - 1)" using D assms(1) by (intro mult_right_mono) auto
      also have "\<dots> = b ^ (cn - 1)" using True c(3) by (intro power_split) linarith
      also have "\<dots> \<le> n" using N by simp
      finally show ?thesis using True L by simp
    next
      case False
      have "d \<le> b ^ cd" using D by simp
      also have "b ^ cd = b ^ (cn - 1) * b ^ nat (1 - e)"
        using False c(3) N by (intro power_split [symmetric]) linarith
      also have "\<dots> \<le> n * b ^ nat (1 - e)" using N assms(1) by (intro mult_right_mono) auto
      finally show ?thesis using False L by simp
    qed
  qed (simp add: L)
qed

lemma ratio_log_less:
  assumes "1 < b" and "0 < n" and "0 < d"
  defines "L \<equiv> ratio_log b (n, d)"
  shows "n * b ^ nat (- (L + 1)) < d * b ^ nat (L + 1)"
proof -
  define cn cd e where c: "cn = digit_count b n" "cd = digit_count b d" "e = int cn - int cd"
  note N = digit_count_bounds [OF assms(1,2), folded c] and D = digit_count_bounds [OF assms(1,3), folded c]
  have L: "L = (if d * b ^ nat e \<le> n * b ^ nat (- e) then e else e - 1)"
    by (simp add: L_def ratio_log_def scale_def c Let_def)
  show ?thesis
  proof (cases "d * b ^ nat e \<le> n * b ^ nat (- e)")
    case True
    then have L: "L = e" using L by simp
    show ?thesis
    proof (cases "- 1 \<le> e")
      case True
      have "n < b ^ cn" using N by simp
      also have "b ^ cn = b ^ (cd - 1) * b ^ nat (e + 1)"
        using True c(3) D by (intro power_split [symmetric]) linarith
      also have "\<dots> \<le> d * b ^ nat (e + 1)" using D assms(1) by (intro mult_right_mono) auto
      finally show ?thesis using True L by simp
    next
      case False
      have "n * b ^ nat (- (e + 1)) < b ^ cn * b ^ nat (- (e + 1))"
        using N assms(1) by (intro mult_strict_right_mono) auto
      also have "\<dots> = b ^ (cd - 1)" using False c(3) by (intro power_split) linarith
      also have "\<dots> \<le> d" using D by simp
      finally show ?thesis using False L by simp
    qed
  next
    case False
    then show ?thesis by (simp add: L)
  qed
qed

lemma half_even_ge: "fst r div snd r \<le> half_even r"
  by (simp add: half_even_def Let_def)

lemma half_even_whole [simp]: "half_even (n, 1) = n"
  by (simp add: half_even_def)

text \<open>A \<^verbatim>\<open>float64\<close> has a positive denominator and is not negative.\<close>

lemma round64_form:
  "round64 r = Some x \<Longrightarrow> x = (0, 1) \<or> (\<exists>u. x = scale 2 u (half_even (scale 2 (- u) r), 1))"
  by (auto simp: round64_def Let_def split: if_splits)

lemma round64_pos:
  assumes "round64 r = Some x" and "0 \<le> fst r" and "0 < snd r"
  shows "0 \<le> fst x \<and> 0 < snd x"
proof -
  have h: "0 \<le> half_even (scale 2 k r)" for k
    using assms(2,3) by (intro order_trans [OF _ half_even_ge] pos_imp_zdiv_nonneg_iff [THEN iffD2]) (simp_all add: scale_def)
  from round64_form [OF assms(1)] show ?thesis
  proof (elim disjE exE)
    fix u assume "x = scale 2 u (half_even (scale 2 (- u) r), 1)"
    then show ?thesis using h [of "- u"] by (simp add: scale_def [of 2 u])
  qed simp
qed

section \<open>The text is a number\<close>

lemma digits_at_pos: "digits_at x s = Some n \<Longrightarrow> 0 < n"
  using half_even_ge [of "scale 10 (- s) x"]
  by (auto simp: digits_at_def reads_as_def Let_def split: if_splits)

lemma shortest_from_pos:
  "0 < half_even (scale 10 (int j - s) x) \<Longrightarrow> 0 < fst (shortest_from x s j)"
proof (induction j arbitrary: s)
  case (Suc j)
  have "int (Suc j) - s = int j - (s - 1)" by simp
  then have "0 < fst (shortest_from x (s - 1) j)" using Suc.prems Suc.IH [of "s - 1"] by metis
  then show ?case by (auto simp: digits_at_pos split: option.split)
qed simp

lemma shortest_pos:
  assumes "0 < fst x" and "0 < snd x"
  shows "0 < fst (shortest x)"
proof -
  let ?L = "ratio_log 10 x"
  have "snd x * 10 ^ nat ?L \<le> fst x * 10 ^ nat (- ?L)"
    using ratio_log_le [of 10 "fst x" "snd x"] assms by simp
  also have "\<dots> \<le> fst x * 10 ^ nat (16 - ?L)" using assms by (intro mult_left_mono power_increasing) auto
  finally have "snd x * 10 ^ nat (?L - 16) \<le> fst x * 10 ^ nat (16 - ?L)"
    using assms by (elim order_trans [rotated]) (intro mult_left_mono power_increasing, auto)
  then have "0 < half_even (scale 10 (16 - ?L) x)"
    using assms by (intro less_le_trans [OF _ half_even_ge]) (simp add: scale_def pos_imp_zdiv_pos_iff)
  then show ?thesis unfolding shortest_def by (intro shortest_from_pos) simp
qed

text \<open>Digits that do not begin with a zero.\<close>

definition lead_digits :: "string \<Rightarrow> bool" where
  "lead_digits ds \<longleftrightarrow> ds \<noteq> [] \<and> list_all is_digit ds \<and> hd ds \<noteq> CHR ''0''"

lemma strip_zeros_digits:
  "nat_lit (nat (fst d)) =
     fst (strip_zeros d) @ replicate (nat (snd (strip_zeros d) - snd d)) (CHR ''0'')"
proof -
  let ?P = "\<lambda>c. c = CHR ''0''" and ?ds = "rev (nat_lit (nat (fst d)))"
  have "takeWhile ?P xs = replicate (length (takeWhile ?P xs)) (CHR ''0'')" for xs
    by (induction xs) auto
  then have "?ds = replicate (length (takeWhile ?P ?ds)) (CHR ''0'') @ dropWhile ?P ?ds"
    by (metis takeWhile_dropWhile_id)
  then have "rev ?ds = rev (dropWhile ?P ?ds) @ replicate (length (takeWhile ?P ?ds)) (CHR ''0'')"
    by (metis rev_append rev_replicate)
  then show ?thesis by (simp add: strip_zeros_def Let_def)
qed

lemma strip_zeros_lead: "0 < fst d \<Longrightarrow> lead_digits (fst (strip_zeros d))"
proof -
  assume d: "0 < fst d"
  let ?r = "replicate (nat (snd (strip_zeros d) - snd d)) (CHR ''0'')"
  note n = strip_zeros_digits [of d]
  have "hd (nat_lit (nat (fst d))) \<noteq> CHR ''0''" using d by (intro nat_lit_head) simp
  moreover have "nat_lit (nat (fst d)) \<noteq> []" by simp
  ultimately have "fst (strip_zeros d) \<noteq> []" unfolding n by (cases "nat (snd (strip_zeros d) - snd d)") auto
  with \<open>hd (nat_lit (nat (fst d))) \<noteq> CHR ''0''\<close> nat_lit_digits [of "nat (fst d)"] show ?thesis
    unfolding n lead_digits_def by simp
qed

lemma not_digit [simp]: "\<not> is_digit (CHR ''.'')" "\<not> is_digit (CHR ''e'')" "is_digit (CHR ''0'')"
  by (simp_all add: is_digit_def)

lemma digits_all:
  "list_all is_digit ds \<Longrightarrow> dropWhile is_digit ds = []" "list_all is_digit ds \<Longrightarrow> takeWhile is_digit ds = ds"
  "list_all is_digit ds \<Longrightarrow> \<not> is_digit c \<Longrightarrow> dropWhile is_digit (ds @ c # r) = c # r"
  "list_all is_digit ds \<Longrightarrow> \<not> is_digit c \<Longrightarrow> takeWhile is_digit (ds @ c # r) = ds"
  by (simp_all add: list_all_iff takeWhile_tail)

lemma unsigned_ok_plain:
  assumes "lead_digits ds"
  shows "unsigned_ok (plain_text ds t)"
proof -
  obtain c r where ds: "ds = c # r" and c: "c \<noteq> CHR ''0''" "is_digit c" and r: "list_all is_digit r"
    using assms by (cases ds) (auto simp: lead_digits_def)
  let ?n = "nat (int (length ds) + t)"
  consider "0 \<le> t" | "t < 0" "0 < int (length ds) + t" | "t < 0" "int (length ds) + t \<le> 0" by linarith
  then show ?thesis
  proof cases
    case 1
    have "list_all is_digit (r @ replicate (nat t) (CHR ''0''))" using r by (auto simp: list_all_iff)
    then show ?thesis using 1 c by (simp add: plain_text_def ds digits_all)
  next
    case 2
    then obtain k where k: "?n = Suc k" by (metis Suc_pred zero_less_nat_eq)
    have "list_all is_digit (take k r)" "list_all is_digit (drop k r)" "drop k r \<noteq> []"
      using r k 2 by (auto simp: ds list_all_iff dest: in_set_takeD in_set_dropD)
    then show ?thesis using 2 c k by (simp add: plain_text_def ds digits_all Let_def)
  next
    case 3
    have "list_all is_digit (replicate m (CHR ''0'') @ ds)" for m
      using r c by (auto simp: ds list_all_iff)
    then show ?thesis using 3 by (simp add: plain_text_def Let_def digits_all) (simp add: ds)
  qed
qed

lemma unsigned_ok_exp:
  assumes "lead_digits ds"
  shows "unsigned_ok (exp_text ds t)"
proof -
  obtain c r where ds: "ds = c # r" and c: "c \<noteq> CHR ''0''" "is_digit c" and r: "list_all is_digit r"
    using assms by (cases ds) (auto simp: lead_digits_def)
  show ?thesis using c r nat_lit_digits by (simp add: exp_text_def ds digits_all Let_def)
qed

lemma num_char_text:
  assumes "lead_digits ds"
  shows "list_all num_char (plain_text ds t)" "list_all num_char (exp_text ds t)"
proof -
  have d: "is_digit c \<Longrightarrow> num_char c" for c by (simp add: num_char_def)
  have "list_all num_char ds" "list_all num_char (nat_lit n)" for n
    using assms nat_lit_digits [of n] d by (auto simp: lead_digits_def list_all_iff)
  moreover have "num_char (CHR ''0'')" "num_char (CHR ''.'')" "num_char (CHR ''e'')" "num_char (CHR ''-'')" "num_char (CHR ''+'')"
    by (simp_all add: num_char_def)
  ultimately show "list_all num_char (plain_text ds t)" "list_all num_char (exp_text ds t)"
    by (auto simp: plain_text_def exp_text_def Let_def list_all_iff dest: in_set_takeD in_set_dropD)
qed

lemma unsigned_number: "unsigned_ok s \<Longrightarrow> number_ok s"
  by (cases s) (auto simp: is_digit_def split: if_splits)

lemma lit_ratio_pos: "0 \<le> fst (lit_ratio l)" "0 < snd (lit_ratio l)"
  by (simp_all add: lit_ratio_def scale_def Let_def)

lemma unsigned_text_ok:
  assumes "unsigned_text l = Some t"
  shows "unsigned_ok t" "list_all num_char t"
proof -
  obtain x where x: "round64 (lit_ratio l) = Some x" and t: "t = (if fst x = 0 then ''0'' else positive_text x)"
    using assms by (auto simp: unsigned_text_def)
  have p: "0 \<le> fst x" "0 < snd x" using round64_pos [OF x] lit_ratio_pos by blast+
  show "unsigned_ok t" "list_all num_char t"
  proof -
    have l: "lead_digits (fst (strip_zeros (shortest x)))" if "fst x \<noteq> 0"
      using that p by (intro strip_zeros_lead shortest_pos) auto
    show "unsigned_ok t" "list_all num_char t"
      using l unsigned_ok_plain unsigned_ok_exp num_char_text
      by (auto simp: t positive_text_def num_char_def case_prod_unfold Let_def)
  qed
qed

lemma float_text_ok:
  assumes "float_text l = Some t"
  shows "number_ok t \<and> list_all num_char t"
proof -
  have m: "num_char (CHR ''-'')" by (simp add: num_char_def)
  show ?thesis
    using assms unsigned_text_ok unsigned_number m
    by (auto simp: float_text_def split: list.splits if_splits)
qed

section \<open>Integers below \<open>2 ^ 53\<close> are kept\<close>

lemma ratio_log2_int:
  assumes "0 < c"
  shows "0 \<le> ratio_log 2 (c, 1)" "2 ^ nat (ratio_log 2 (c, 1)) \<le> c" "c < 2 ^ (nat (ratio_log 2 (c, 1)) + 1)"
proof -
  let ?L = "ratio_log 2 (c, 1)"
  have 1: "2 ^ nat ?L \<le> c * 2 ^ nat (- ?L)" "c * 2 ^ nat (- (?L + 1)) < 2 ^ nat (?L + 1)"
    using ratio_log_le [of 2 c 1] ratio_log_less [of 2 c 1] assms by simp_all
  show L: "0 \<le> ?L"
  proof (rule ccontr)
    assume n: "\<not> 0 \<le> ?L"
    then have "nat (?L + 1) = 0" by simp
    with 1(2) have "c * 2 ^ nat (- (?L + 1)) < 1" by (simp only: power_0)
    moreover have "c * 1 \<le> c * 2 ^ nat (- (?L + 1))" using assms by (intro mult_left_mono) auto
    ultimately show False using assms by linarith
  qed
  then have "nat (?L + 1) = nat ?L + 1" "nat (- ?L) = 0" "nat (- (?L + 1)) = 0" by simp_all
  then show "2 ^ nat ?L \<le> c" "c < 2 ^ (nat ?L + 1)" using 1 by simp_all
qed

lemma round64_int:
  assumes "0 < c" and "c < 2 ^ 53"
  shows "\<exists>x. round64 (c, 1) = Some x \<and> 0 < snd x \<and> fst x = c * snd x"
proof -
  let ?L = "ratio_log 2 (c, 1)"
  note L = ratio_log2_int [OF assms(1)]
  have "nat ?L < 53"
  proof (rule ccontr)
    assume "\<not> nat ?L < 53"
    then have "(2::int) ^ 53 \<le> 2 ^ nat ?L" by (intro power_increasing) auto
    with L(2) assms(2) show False by linarith
  qed
  then have u: "max (?L - 52) (- 1074) = ?L - 52" "nat (?L - 52) = 0" using L(1) by auto
  let ?k = "nat (52 - ?L)"
  have m: "scale 2 (?L - 52) (half_even (scale 2 (- (?L - 52)) (c, 1)), 1) = (c * 2 ^ ?k, 2 ^ ?k)"
    using u(2) by (simp add: scale_def)
  have "c * 2 ^ ?k < 2 ^ 1024 * 2 ^ ?k"
    using assms(2) by (intro mult_strict_right_mono) (auto intro: less_trans)
  then have "round64 (c, 1) = Some (c * 2 ^ ?k, 2 ^ ?k)"
    using assms(1) u(1) m by (simp add: round64_def Let_def mult.commute)
  then show ?thesis by simp
qed

lemma round64_large:
  assumes "2 ^ 53 \<le> c" and "round64 (c, 1) = Some x"
  shows "2 ^ 53 * snd x \<le> fst x \<and> 0 < snd x"
proof -
  let ?L = "ratio_log 2 (c, 1)" and ?u = "ratio_log 2 (c, 1) - 52"
  have c: "0 < c" using assms(1) by (rule less_le_trans [rotated]) simp
  note L = ratio_log2_int [OF c]
  have "\<not> nat ?L + 1 \<le> 53"
  proof
    assume "nat ?L + 1 \<le> 53"
    then have "(2::int) ^ (nat ?L + 1) \<le> 2 ^ 53" by (intro power_increasing) auto
    with L(3) assms(1) show False by linarith
  qed
  then have u: "max ?u (- 1074) = ?u" "1 \<le> nat ?u" "nat (- ?u) = 0" "nat ?L = 52 + nat ?u" by auto
  let ?m = "half_even (c, 2 ^ nat ?u)"
  have "x = (?m * 2 ^ nat ?u, 1)"
    using assms(2) c u(1,3) by (auto simp: round64_def scale_def Let_def split: if_splits)
  moreover have "(2::int) ^ 52 \<le> ?m"
  proof -
    have "2 ^ 52 * 2 ^ nat ?u \<le> c" using L(2) u(4) by (simp add: power_add)
    then have "(2::int) ^ 52 \<le> c div 2 ^ nat ?u" using zdiv_mono1 [of "2 ^ 52 * 2 ^ nat ?u" c "2 ^ nat ?u"] by simp
    also have "\<dots> \<le> ?m" using half_even_ge [of "(c, 2 ^ nat ?u)"] by simp
    finally show ?thesis .
  qed
  moreover have "(2::int) ^ 1 \<le> 2 ^ nat ?u" using u(2) by (intro power_increasing) auto
  ultimately show ?thesis using mult_mono [of "2 ^ 52" ?m "2 ^ 1" "2 ^ nat ?u"] by simp
qed

lemma reads_as_int:
  assumes n: "0 < n" "n < 2 ^ 53" and x: "0 < snd x" "fst x = n * snd x" and s: "0 \<le> s"
  shows "reads_as x s c \<longleftrightarrow> c * 10 ^ nat s = n"
proof (cases "0 < c")
  case True
  let ?c = "c * 10 ^ nat s"
  have c: "0 < ?c" and sc: "scale 10 s (c, 1) = (?c, 1)" using True s by (simp_all add: scale_def)
  show ?thesis
  proof (cases "?c < 2 ^ 53")
    case t: True
    obtain y where y: "round64 (?c, 1) = Some y" "0 < snd y" "fst y = ?c * snd y"
      using round64_int [OF c t] by blast
    have "same_ratio y x \<longleftrightarrow> ?c * (snd y * snd x) = n * (snd y * snd x)"
      by (simp add: same_ratio_def y(3) x(2) mult.assoc mult.left_commute)
    also have "\<dots> \<longleftrightarrow> ?c = n" using y(2) x(1) by simp
    finally show ?thesis using True y(1) by (simp add: reads_as_def sc)
  next
    case f: False
    have "\<not> same_ratio y x" if "round64 (?c, 1) = Some y" for y
    proof
      assume "same_ratio y x"
      then have "fst y * snd x = (n * snd y) * snd x" by (simp add: same_ratio_def x(2) mult_ac)
      then have "fst y = n * snd y" using x(1) by simp
      moreover have "2 ^ 53 * snd y \<le> fst y" "0 < snd y" using round64_large [OF _ that] f by auto
      ultimately show False using n(2) mult_strict_right_mono [OF n(2), of "snd y"] by linarith
    qed
    with f n(2) show ?thesis by (auto simp: reads_as_def sc split: option.split)
  qed
next
  case False
  moreover have "c * 10 ^ nat s \<le> 0" using False by (simp add: mult_le_0_iff)
  ultimately show ?thesis using n(1) by (auto simp: reads_as_def)
qed

lemma digits_at_int:
  assumes n: "0 < n" "n < 2 ^ 53" and x: "0 < snd x" "fst x = n * snd x" and s: "0 \<le> s"
  shows "digits_at x s = (if 10 ^ nat s dvd n then Some (n div 10 ^ nat s) else None)"
proof -
  let ?p = "10 ^ nat s :: int"
  have q: "scale 10 (- s) x = (n * snd x, snd x * ?p)" using s x(2) by (simp add: scale_def)
  have "n * snd x div (snd x * ?p) = n div ?p"
    using x(1) by (simp add: zdiv_zmult2_eq)
  moreover have "n div ?p * ?p = n \<longleftrightarrow> ?p dvd n" by (metis dvd_div_mult_self dvd_triv_right)
  moreover have "(n div ?p + 1) * ?p \<noteq> n"
  proof
    assume "(n div ?p + 1) * ?p = n"
    then have "n div ?p = n div ?p + 1" by (metis nonzero_mult_div_cancel_right power_not_zero zero_neq_numeral)
    then show False by simp
  qed
  ultimately show ?thesis by (simp add: digits_at_def q reads_as_int [OF n x s] Let_def)
qed

lemma shortest_int:
  assumes n: "0 < n" "n < 2 ^ 53" and x: "0 < snd x" "fst x = n * snd x"
  shows "\<exists>k m. shortest x = (m, int k) \<and> m * 10 ^ k = n"
proof -
  have from_s: "\<exists>k m. shortest_from x (int s) j = (m, int k) \<and> m * 10 ^ k = n" if "s < j" for s j
    using that
  proof (induction j arbitrary: s)
    case (Suc j)
    have d: "digits_at x (int s) = (if 10 ^ s dvd n then Some (n div 10 ^ s) else None)"
      using digits_at_int [OF n x, of "int s"] by simp
    show ?case
    proof (cases "10 ^ s dvd n")
      case True
      then show ?thesis using d by auto
    next
      case False
      then obtain k where k: "s = Suc k" by (cases s) auto
      then have "shortest_from x (int s) (Suc j) = shortest_from x (int k) j" using False d by simp
      then show ?thesis using Suc.IH [of k] Suc.prems k by simp
    qed
  qed simp
  let ?L = "ratio_log 10 x"
  have f: "0 < fst x" using n(1) x by simp
  have b: "snd x * 10 ^ nat ?L \<le> fst x * 10 ^ nat (- ?L)" "fst x * 10 ^ nat (- (?L + 1)) < snd x * 10 ^ nat (?L + 1)"
    using ratio_log_le [OF _ f x(1), of 10] ratio_log_less [OF _ f x(1), of 10] by simp_all
  have L: "0 \<le> ?L"
  proof (rule ccontr)
    assume "\<not> 0 \<le> ?L"
    then have "nat (?L + 1) = 0" by simp
    with b(2) have "snd x * (n * 10 ^ nat (- (?L + 1))) < snd x * 1" by (simp add: x(2) mult_ac)
    then have "n * 10 ^ nat (- (?L + 1)) < 1" using x(1) by (simp add: mult_less_cancel_left_pos)
    moreover have "1 * 1 \<le> n * 10 ^ nat (- (?L + 1))" using n(1) by (intro mult_mono) auto
    ultimately show False by simp
  qed
  then have "snd x * 10 ^ nat ?L \<le> snd x * n" using b(1) by (simp add: x(2) mult.commute)
  then have "10 ^ nat ?L \<le> n" using x(1) by simp
  moreover have "nat ?L < 16"
  proof (rule ccontr)
    assume "\<not> nat ?L < 16"
    then have "(10::int) ^ 16 \<le> 10 ^ nat ?L" by (intro power_increasing) auto
    with \<open>10 ^ nat ?L \<le> n\<close> n(2) show False by simp
  qed
  ultimately show ?thesis using from_s [of "nat ?L" 16] L by (simp add: shortest_def)
qed

lemma char_of_zero: "char_of (48 :: nat) = CHR ''0''"
  by code_simp

lemma nat_lit_zeros: "0 < m \<Longrightarrow> nat_lit (m * 10 ^ k) = nat_lit m @ replicate k (CHR ''0'')"
proof (induction k)
  case (Suc k)
  have "nat_lit (m * 10 ^ Suc k) = nat_lit (m * 10 ^ k) @ ''0''"
    using Suc.prems by (subst nat_lit.simps) (simp add: mult.left_commute [of m 10] char_of_zero)
  with Suc show ?case by (simp add: replicate_append_same)
qed simp

lemma least_plain: "round64 (1, 1000000) = Some (4722366482869645, 2 ^ 72)"
  by (simp add: round64_def ratio_log_def scale_def half_even_def digit_count.simps Let_def)

lemma positive_text_int:
  assumes n: "0 < n" "n < 2 ^ 53" and x: "0 < snd x" "fst x = n * snd x"
  shows "positive_text x = nat_lit (nat n)"
proof -
  obtain k m where k: "shortest x = (m, int k)" "m * 10 ^ k = n" using shortest_int [OF assms] by blast
  have m: "0 < m" using k(2) n(1) by (metis zero_less_mult_pos2 zero_less_numeral zero_less_power)
  let ?ds = "fst (strip_zeros (m, int k))" and ?t = "snd (strip_zeros (m, int k))"
  have t: "int k \<le> ?t" by (simp add: strip_zeros_def Let_def)
  have "plain_text ?ds ?t = ?ds @ replicate (nat (?t - int k)) (CHR ''0'') @ replicate k (CHR ''0'')"
    using t by (simp add: plain_text_def Let_def flip: replicate_add)
  also have "\<dots> = nat_lit (nat m) @ replicate k (CHR ''0'')" using strip_zeros_digits [of "(m, int k)"] by simp
  also have "\<dots> = nat_lit (nat n)" using nat_lit_zeros [of "nat m" k] m k(2) by (simp add: nat_mult_distrib nat_power_eq flip: k(2))
  finally have p: "plain_text ?ds ?t = nat_lit (nat n)" .
  have "snd x * 1 \<le> snd x * n" using n(1) x(1) by (intro mult_left_mono) auto
  then have s: "\<not> less_ratio x (4722366482869645, 2 ^ 72)" using x by (simp add: less_ratio_def mult.commute [of _ "snd x"])
  have "snd x * n < snd x * 10 ^ 21" using n(2) x(1) by (intro mult_strict_left_mono) auto
  then have "less_ratio x (10 ^ 21, 1)" using x(2) by (simp add: less_ratio_def mult.commute)
  with p s show ?thesis by (simp add: positive_text_def least_plain k(1) case_prod_unfold Let_def)
qed

lemma lit_ratio_nat_lit: "lit_ratio (nat_lit n) = (int n, 1)"
  using nat_lit_digits [of n] by (simp add: lit_ratio_def digits_all lit_exp_def scale_def digits_val_nat_lit)

lemma float_text_nat: "float_text (int_lit (int n)) = unsigned_text (nat_lit n)"
proof -
  obtain c r where c: "nat_lit n = c # r" by (cases "nat_lit n") auto
  then show ?thesis using nat_lit_num [OF c] by (simp add: float_text_def int_lit_def)
qed

lemma float_text_int:
  assumes "\<bar>i\<bar> < 2 ^ 53"
  shows "float_text (int_lit i) = Some (int_lit i)"
proof -
  have u: "unsigned_text (nat_lit n) = Some (nat_lit n)" if n: "int n < 2 ^ 53" for n
  proof (cases "n = 0")
    case False
    obtain x where x: "round64 (int n, 1) = Some x" "0 < snd x" "fst x = int n * snd x"
      using round64_int [of "int n"] False n by auto
    then show ?thesis using positive_text_int [OF _ n x(2,3)] False by (simp add: unsigned_text_def lit_ratio_nat_lit)
  next
    case True
    have "unsigned_text (nat_lit 0) = Some ''0''" by (simp add: unsigned_text_def lit_ratio_nat_lit round64_def)
    then show ?thesis using True by (simp add: nat_lit.simps [of 0] char_of_zero)
  qed
  obtain c r where c: "nat_lit (nat i) = c # r" by (cases "nat_lit (nat i)") auto
  show ?thesis
    using u [of "nat i"] u [of "nat (- i)"] assms nat_lit_num [OF c] c
    by (cases "i < 0") (simp_all add: float_text_def int_lit_def)
qed

text \<open>From there on different integers become the same number.\<close>

lemma float_text_collides: "float_text (int_lit (2 ^ 53 + 1)) = float_text (int_lit (2 ^ 53))"
proof -
  have "round64 (2 ^ 53 + 1, 1) = round64 (2 ^ 53, 1)"
    by (simp add: round64_def ratio_log_def scale_def half_even_def digit_count.simps Let_def)
  then have u: "unsigned_text (nat_lit (2 ^ 53 + 1)) = unsigned_text (nat_lit (2 ^ 53))"
    by (simp add: unsigned_text_def lit_ratio_nat_lit)
  from float_text_nat [of "2 ^ 53 + 1"] float_text_nat [of "2 ^ 53"] u show ?thesis by simp
qed

lemma float_text_beyond: "float_text (int_lit (2 ^ 53 + 1)) \<noteq> None"
proof -
  have "round64 (2 ^ 53 + 1, 1) \<noteq> None"
    by (simp add: round64_def ratio_log_def scale_def half_even_def digit_count.simps Let_def)
  then show ?thesis using float_text_nat [of "2 ^ 53 + 1"] by (simp add: unsigned_text_def lit_ratio_nat_lit)
qed

lemma float_text_zero: "float_text ''0'' = Some ''0''"
  using float_text_int [of 0] by (simp add: int_lit_def nat_lit.simps [of 0] char_of_zero)

text \<open>A fraction keeps its digits.\<close>

lemma float_text_fraction: "float_text ''0.5'' = Some ''0.5''"
proof -
  note ev = round64_def ratio_log_def scale_def half_even_def digit_count.simps Let_def
  let ?x = "(4503599627370496, 9007199254740992) :: ratio"
  have r: "round64 (5, 10) = Some ?x" by (simp add: ev)
  have r6: "round64 (6, 10) = Some (5404319552844595, 9007199254740992)" by (simp add: ev)
  have L: "ratio_log 10 ?x = - 1" by (simp add: ev)
  have "reads_as ?x (- 1) 5" "\<not> reads_as ?x (- 1) 6"
    by (simp_all add: reads_as_def scale_def r r6 same_ratio_def)
  then have d: "digits_at ?x (- 1) = Some 5" by (simp add: digits_at_def scale_def Let_def)
  have "(16 :: nat) = Suc 15" by simp
  then have s: "shortest ?x = (5, - 1)" unfolding shortest_def L by (simp only: shortest_from.simps d option.case)
  have "nat_lit 5 = ''5''" by (subst nat_lit.simps) (simp, code_simp)
  then have "strip_zeros (5, - 1) = (''5'', - 1)" by (simp add: strip_zeros_def)
  then have "positive_text ?x = ''0.5''" by (simp add: positive_text_def s least_plain less_ratio_def plain_text_def)
  then show ?thesis
    by (simp add: float_text_def unsigned_text_def lit_ratio_def is_digit_def digits_val_def lit_exp_def scale_def r)
qed

text \<open>What is too large is an error.\<close>

lemma float_text_range:
  assumes "(2::int) ^ 1024 \<le> int n"
  shows "float_text (int_lit (int n)) = None"
proof -
  let ?c = "int n" and ?L = "ratio_log 2 (int n, 1)" and ?u = "ratio_log 2 (int n, 1) - 52"
  have c: "0 < ?c" using assms by (rule less_le_trans [rotated]) simp
  note L = ratio_log2_int [OF c]
  have "\<not> nat ?L + 1 \<le> 1024"
  proof
    assume "nat ?L + 1 \<le> 1024"
    then have "(2::int) ^ (nat ?L + 1) \<le> 2 ^ 1024" by (intro power_increasing) auto
    with L(3) assms show False by linarith
  qed
  then have u: "max ?u (- 1074) = ?u" "nat (- ?u) = 0" "nat ?L = 52 + nat ?u" "1024 \<le> nat ?L" by auto
  let ?m = "half_even (?c, 2 ^ nat ?u)"
  have "2 ^ 52 * 2 ^ nat ?u \<le> ?c" using L(2) u(3) by (simp add: power_add)
  then have "(2::int) ^ 52 \<le> ?c div 2 ^ nat ?u" using zdiv_mono1 [of "2 ^ 52 * 2 ^ nat ?u" ?c "2 ^ nat ?u"] by simp
  then have "(2::int) ^ 52 \<le> ?m" using half_even_ge [of "(?c, 2 ^ nat ?u)"] by simp
  then have m: "2 ^ 52 * 2 ^ nat ?u \<le> ?m * 2 ^ nat ?u" by (intro mult_right_mono) auto
  have "(2::int) ^ 1024 \<le> 2 ^ nat ?L" using u(4) by (rule power_increasing) simp
  also have "(2::int) ^ nat ?L = 2 ^ 52 * 2 ^ nat ?u" unfolding u(3) by (rule power_add)
  also note m
  finally have "2 ^ 1024 \<le> ?m * 2 ^ nat ?u" .
  then have "round64 (?c, 1) = None"
    using c u(1,2) by (simp add: round64_def scale_def Let_def)
  then show ?thesis by (simp add: float_text_nat unsigned_text_def lit_ratio_nat_lit)
qed

end
