(* ===== verification/GoJsonFields.thy ===== *)
theory GoJsonFields
  imports GoFloat
begin

text \<open>
  How \<^verbatim>\<open>encoding/json\<close> moves a struct in and out of a JSON object: the
  decoding of one member into a field, and the loop over the members. As in Go, a member
  of the wrong type is skipped and the first such error is reported after the whole
  object was read; a \<^verbatim>\<open>null\<close> leaves a string or integer field alone; a member name
  matches a field up to (ASCII) case; unknown members are ignored.
\<close>

section \<open>Decoding members into fields\<close>

text \<open>
  A value read into an \<^verbatim>\<open>interface{}\<close>: an object becomes a Go map, where the last of several
  members with one name wins and the order of the members is forgotten (the printer
  sorts them); a number becomes a \<^verbatim>\<open>float64\<close>, which is kept as the text it is printed as, and
  one that is too large is nil.
\<close>

definition mems_map :: "(string \<times> jval) list \<Rightarrow> (string, jval) gomap" where
  "mems_map ms = fold (\<lambda>(k, v). AList.update k v) ms []"

primrec canon :: "jval \<Rightarrow> jval" where
  "canon JNull = JNull"
| "canon (JBool b) = JBool b"
| "canon (JNum l) = (case float_text l of None \<Rightarrow> JNull | Some t \<Rightarrow> JNum t)"
| "canon (JStr s) = JStr s"
| "canon (JArr vs) = JArr (map canon vs)"
| "canon (JObj ms) = jmap (mems_map (map (map_prod id canon) ms))"
| "canon JBad = JBad"

text \<open>Whether all numbers of a value can be a \<^verbatim>\<open>float64\<close>; one that cannot is reported as an error.\<close>

primrec floats_ok :: "jval \<Rightarrow> bool" where
  "floats_ok JNull = True"
| "floats_ok (JBool b) = True"
| "floats_ok (JNum l) = (float_text l \<noteq> None)"
| "floats_ok (JStr s) = True"
| "floats_ok (JArr vs) = list_all floats_ok vs"
| "floats_ok (JObj ms) = list_all snd (map (map_prod id floats_ok) ms)"
| "floats_ok JBad = True"

definition type_error :: go_error where
  "type_error = JsonError ''json: cannot unmarshal value into Go struct field''"

definition syntax_error :: go_error where
  "syntax_error = JsonError ''invalid JSON syntax''"

definition dec_str :: "jval \<Rightarrow> string \<Rightarrow> string \<times> go_error option" where
  "dec_str v old =
     (case v of JStr t \<Rightarrow> (t, None) | JNull \<Rightarrow> (old, None) | _ \<Rightarrow> (old, Some type_error))"

definition dec_int :: "nat \<Rightarrow> jval \<Rightarrow> int \<Rightarrow> int \<times> go_error option" where
  "dec_int w v old =
     (case v of
        JNum l \<Rightarrow> (case lit_int w l of Some i \<Rightarrow> (i, None) | None \<Rightarrow> (old, Some type_error))
      | JNull \<Rightarrow> (old, None)
      | _ \<Rightarrow> (old, Some type_error))"

text \<open>A slice of strings: a \<^verbatim>\<open>null\<close> element is the empty string.\<close>

fun dec_strs_elems :: "jval list \<Rightarrow> string list \<times> go_error option" where
  "dec_strs_elems [] = ([], None)"
| "dec_strs_elems (v # vs) =
     (let (t, e) = dec_str v ''''; (ts, e') = dec_strs_elems vs
      in (t # ts, case e of None \<Rightarrow> e' | Some x \<Rightarrow> Some x))"

definition dec_strs :: "jval \<Rightarrow> string list \<Rightarrow> string list \<times> go_error option" where
  "dec_strs v old =
     (case v of
        JArr vs \<Rightarrow> dec_strs_elems vs
      | JNull \<Rightarrow> ([], None)
      | _ \<Rightarrow> (old, Some type_error))"

text \<open>
  A \<^verbatim>\<open>map[string]interface{}\<close> behind a pointer or not: \<open>None\<close> is the nil map, which prints
  as \<^verbatim>\<open>null\<close>; members are added to a map that is already there.
\<close>

definition dec_map ::
    "jval \<Rightarrow> (string, jval) gomap option \<Rightarrow> (string, jval) gomap option \<times> go_error option" where
  "dec_map v old =
     (case v of
        JNull \<Rightarrow> (None, None)
      | JObj ms \<Rightarrow>
          (Some (fold (\<lambda>(k, x). AList.update k x) (map (map_prod id canon) ms)
                  (case old of Some m \<Rightarrow> m | None \<Rightarrow> [])),
           if floats_ok v then None else Some type_error)
      | _ \<Rightarrow> (old, Some type_error))"

definition to_lower :: "char \<Rightarrow> char" where
  "to_lower c = (let n = of_char c in if 65 \<le> n \<and> n \<le> (90::nat) then char_of (n + 32) else c)"

definition name_eq :: "string \<Rightarrow> string \<Rightarrow> bool" where
  "name_eq k f \<longleftrightarrow> map to_lower k = map to_lower f"

definition first_error :: "go_error option \<Rightarrow> go_error option \<Rightarrow> go_error option" where
  "first_error e e' = (case e of Some x \<Rightarrow> Some x | None \<Rightarrow> e')"

text \<open>The loop over the members of an object, for a struct whose fields \<open>setf\<close> knows.\<close>

fun dec_mems ::
    "(string \<Rightarrow> jval \<Rightarrow> 's \<Rightarrow> 's \<times> go_error option) \<Rightarrow> (string \<times> jval) list \<Rightarrow>
     's \<times> go_error option \<Rightarrow> 's \<times> go_error option" where
  "dec_mems setf [] r = r"
| "dec_mems setf ((k, v) # ms) (s, e) =
     (let (s', e') = setf k v s in dec_mems setf ms (s', first_error e e'))"

definition dec_struct ::
    "(string \<Rightarrow> jval \<Rightarrow> 's \<Rightarrow> 's \<times> go_error option) \<Rightarrow> jval \<Rightarrow> 's \<Rightarrow> 's \<times> go_error option" where
  "dec_struct setf v s =
     (case v of
        JObj ms \<Rightarrow> dec_mems setf ms (s, None)
      | JNull \<Rightarrow> (s, None)
      | _ \<Rightarrow> (s, Some type_error))"

text \<open>
  \<^verbatim>\<open>json.Unmarshal\<close> into a struct: the text is checked first, so a syntax error leaves the
  struct alone; a type error leaves the fields that could be set.
\<close>

definition json_Unmarshal ::
    "(string \<Rightarrow> jval \<Rightarrow> 's \<Rightarrow> 's \<times> go_error option) \<Rightarrow> bytes \<Rightarrow> 's \<Rightarrow> 's \<times> go_error option" where
  "json_Unmarshal setf b s =
     (case json_parse b of
        None \<Rightarrow> (s, Some syntax_error)
      | Some v \<Rightarrow> dec_struct setf v s)"

section \<open>Facts about decoding\<close>

lemma dec_str_JStr [simp]: "dec_str (JStr t) old = (t, None)"
  by (simp add: dec_str_def)

lemma dec_int_jint [simp]: "int_range w i \<Longrightarrow> dec_int w (jint i) old = (i, None)"
  by (simp add: dec_int_def jint_def lit_int_int_lit)

lemma dec_strs_JArr [simp]: "dec_strs (JArr (map JStr ts)) old = (ts, None)"
proof -
  have "dec_strs_elems (map JStr ts) = (ts, None)" by (induction ts) auto
  then show ?thesis by (simp add: dec_strs_def)
qed

lemma dec_strs_JNull [simp]: "dec_strs JNull old = ([], None)"
  by (simp add: dec_strs_def)

lemma first_error_None [simp]: "first_error None e = e"
  by (simp add: first_error_def)

lemma fold_update_map_of:
  "map_of (fold (\<lambda>(k, v). AList.update k v) ms m) = map_of m ++ map_of (rev ms)"
  by (induction ms arbitrary: m) (auto simp: map_add_def fun_eq_iff split: option.splits)

lemma fold_update_wf: "mwf m \<Longrightarrow> mwf (fold (\<lambda>(k, v). AList.update k v) ms m)"
  by (induction ms arbitrary: m) auto

lemma mwf_mems_map [simp]: "mwf (mems_map ms)"
  by (simp add: mems_map_def fold_update_wf)

text \<open>Values that reading into an \<^verbatim>\<open>interface{}\<close> gives back up to their numbers.\<close>

primrec canonical :: "jval \<Rightarrow> bool" where
  "canonical JNull = True"
| "canonical (JBool b) = True"
| "canonical (JNum l) = True"
| "canonical (JStr s) = True"
| "canonical (JArr vs) = list_all canonical vs"
| "canonical (JObj ms) = (sorted (map fst ms) \<and> distinct (map fst ms) \<and>
     list_all (\<lambda>p. snd p) (map (map_prod id canonical) ms))"
| "canonical JBad = True"

lemma fold_update_distinct:
  "distinct (map fst m @ map fst ms) \<Longrightarrow> fold (\<lambda>(k, v). AList.update k v) ms m = m @ ms"
proof (induction ms arbitrary: m)
  case (Cons a ms)
  have upd: "k \<notin> fst ` set m \<Longrightarrow> AList.update k v m = m @ [(k, v)]" for k v
    by (induction m) auto
  from Cons show ?case by (cases a) (auto simp: upd)
qed simp

lemma mems_map_id: "distinct (map fst ms) \<Longrightarrow> mems_map ms = ms"
  by (simp add: mems_map_def fold_update_distinct)

text \<open>The value with every number as it is after it went through a \<^verbatim>\<open>float64\<close>.\<close>

primrec floats :: "jval \<Rightarrow> jval" where
  "floats JNull = JNull"
| "floats (JBool b) = JBool b"
| "floats (JNum l) = (case float_text l of None \<Rightarrow> JNull | Some t \<Rightarrow> JNum t)"
| "floats (JStr s) = JStr s"
| "floats (JArr vs) = JArr (map floats vs)"
| "floats (JObj ms) = JObj (map (map_prod id floats) ms)"
| "floats JBad = JBad"

lemma canon_canonical: "canonical v \<Longrightarrow> canon v = floats v"
proof (induction v)
  case (JArr vs)
  then show ?case by (auto simp: list_all_iff)
next
  case (JObj ms)
  then have "map (map_prod id canon) ms = map (map_prod id floats) ms"
    by (fastforce simp: list_all_iff)
  with JObj.prems show ?case
    by (simp add: mems_map_id jmap_def sorted_sort_id sort_key_id_if_sorted comp_def)
qed auto

lemma floats_good: "jgood v \<Longrightarrow> jgood (floats v)"
  by (induction v) (fastforce simp: list_all_iff dest: float_text_ok split: option.split)+

lemma floats_canonical: "canonical v \<Longrightarrow> canonical (floats v)"
  by (induction v) (fastforce simp: list_all_iff comp_def split: option.split)+

text \<open>A value whose numbers are integers below \<open>2 ^ 53\<close> is not changed.\<close>

primrec small_ints :: "jval \<Rightarrow> bool" where
  "small_ints JNull = True"
| "small_ints (JBool b) = True"
| "small_ints (JNum l) = (\<exists>i. l = int_lit i \<and> \<bar>i\<bar> < 2 ^ 53)"
| "small_ints (JStr s) = True"
| "small_ints (JArr vs) = list_all small_ints vs"
| "small_ints (JObj ms) = list_all snd (map (map_prod id small_ints) ms)"
| "small_ints JBad = True"

lemma floats_small_ints: "small_ints v \<Longrightarrow> floats v = v \<and> floats_ok v"
proof (induction v)
  case (JObj ms)
  then show ?case by (auto simp: list_all_iff intro!: map_idI)
qed (auto simp: list_all_iff float_text_int intro!: map_idI)

end
