(* ===== verification/MsgTypes.thy ===== *)
theory MsgTypes
  imports GoJsonFields
begin

text \<open>
  The package \<^verbatim>\<open>pkg/types\<close>: requests, responses, group and subscription messages, server
  addresses and system information, their constructors and the JSON they travel as.
  A Go pointer that may be nil is an option. A value of an \<^verbatim>\<open>AData\<close> map, a Go
  \<^verbatim>\<open>interface{}\<close>, is represented by the JSON value it stands for.
\<close>

type_synonym adata = "(string, jval) gomap"

definition MSG_TYPE_RESPONSE :: int where "MSG_TYPE_RESPONSE = 1"
definition MSG_TYPE_GROUP :: int where "MSG_TYPE_GROUP = 2"
definition MSG_TYPE_U2U :: int where "MSG_TYPE_U2U = 3"

lemmas msg_types = MSG_TYPE_RESPONSE_def MSG_TYPE_GROUP_def MSG_TYPE_U2U_def

section \<open>Responses\<close>

record response_data =
  rdS :: int
  rdA :: "adata option"

record response =
  rSeq :: string
  rCmd :: string
  rMsgType :: int
  rRData :: "response_data option"

definition NewResponse :: "string \<Rightarrow> string \<Rightarrow> int \<Rightarrow> response_data option \<Rightarrow> response" where
  "NewResponse seq cmd msgType rData =
     \<lparr>rSeq = seq, rCmd = cmd, rMsgType = msgType, rRData = rData\<rparr>"

text \<open>The JSON of a nil map or pointer is \<^verbatim>\<open>null\<close>.\<close>

definition adata_json :: "adata option \<Rightarrow> jval" where
  "adata_json a = (case a of None \<Rightarrow> JNull | Some m \<Rightarrow> jmap m)"

definition response_data_json :: "response_data option \<Rightarrow> jval" where
  "response_data_json r =
     (case r of None \<Rightarrow> JNull | Some d \<Rightarrow> JObj [(''s'', jint (rdS d)), (''a'', adata_json (rdA d))])"

definition response_json :: "response \<Rightarrow> jval" where
  "response_json r =
     JObj [(''seq'', JStr (rSeq r)), (''cmd'', JStr (rCmd r)), (''msgType'', jint (rMsgType r)),
           (''response'', response_data_json (rRData r))]"

definition Response_Bytes :: "response \<Rightarrow> bytes result" where
  "Response_Bytes r = json_Marshal (response_json r)"

definition Response_String :: "response \<Rightarrow> string" where
  "Response_String r = (case Response_Bytes r of Inl _ \<Rightarrow> '''' | Inr b \<Rightarrow> b)"

text \<open>The variadic argument is the list of the extra arguments.\<close>

definition NewResponseData :: "adata option \<Rightarrow> int list \<Rightarrow> response_data" where
  "NewResponseData a params =
     (let s = (if length params > 0 then params ! 0 else 1) in \<lparr>rdS = s, rdA = a\<rparr>)"

definition HandleAData :: "jval \<Rightarrow> string \<Rightarrow> string \<Rightarrow> adata" where
  "HandleAData ad mol ctrl = [(mol, jmap [(ctrl, ad)])]"

definition HandleMolAData :: "jval \<Rightarrow> string \<Rightarrow> adata" where
  "HandleMolAData ad mol = [(mol, ad)]"

definition NewCtrlResponseData :: "jval \<Rightarrow> string \<Rightarrow> string \<Rightarrow> response_data" where
  "NewCtrlResponseData ad mol ctrl =
     (let aData = HandleAData ad mol ctrl in NewResponseData (Some aData) [])"

definition NewMolResponseData :: "jval \<Rightarrow> string \<Rightarrow> response_data" where
  "NewMolResponseData ad mol =
     (let aData = HandleMolAData ad mol in NewResponseData (Some aData) [])"

record sys_error =
  seType :: int
  seMsg :: string

record system =
  Errror :: "sys_error option"

definition NewSystem :: "string \<Rightarrow> int list \<Rightarrow> system" where
  "NewSystem msg ty =
     (if msg \<noteq> '''' then
        (let err_type = (if length ty > 0 then ty ! 0 else 0)
         in \<lparr>Errror = Some \<lparr>seType = err_type, seMsg = msg\<rparr>\<rparr>)
      else \<lparr>Errror = None\<rparr>)"

definition system_json :: "system \<Rightarrow> jval" where
  "system_json s =
     JObj [(''errror'', case Errror s of None \<Rightarrow> JNull
             | Some e \<Rightarrow> JObj [(''type'', jint (seType e)), (''msg'', JStr (seMsg e))])]"

definition NewErrAData :: "string \<Rightarrow> int \<Rightarrow> adata" where
  "NewErrAData msg ty = [(''system'', system_json (NewSystem msg [ty]))]"

section \<open>Requests\<close>

record request =
  qSeq :: string
  qCmd :: string
  qData :: "adata option"

definition request0 :: request where
  "request0 = \<lparr>qSeq = '''', qCmd = '''', qData = None\<rparr>"

definition request_set :: "string \<Rightarrow> jval \<Rightarrow> request \<Rightarrow> request \<times> go_error option" where
  "request_set k v r =
     (if name_eq k ''seq'' then (let (x, e) = dec_str v (qSeq r) in (r\<lparr>qSeq := x\<rparr>, e))
      else if name_eq k ''cmd'' then (let (x, e) = dec_str v (qCmd r) in (r\<lparr>qCmd := x\<rparr>, e))
      else if name_eq k ''data'' then (let (x, e) = dec_map v (qData r) in (r\<lparr>qData := x\<rparr>, e))
      else (r, None))"

section \<open>Messages\<close>

record send_msg =
  smSync :: int
  smResponse :: response

definition NewSendMsg :: "response \<Rightarrow> int \<Rightarrow> send_msg" where
  "NewSendMsg response sync = \<lparr>smSync = sync, smResponse = response\<rparr>"

record group_msg =
  gmExceptUid :: string
  gmMsg :: bytes

definition NewGroupMsg :: "bytes \<Rightarrow> string \<Rightarrow> group_msg" where
  "NewGroupMsg msg exceptUid = \<lparr>gmExceptUid = exceptUid, gmMsg = msg\<rparr>"

definition GetResDataGroupMsg :: "response_data \<Rightarrow> string \<Rightarrow> group_msg result" where
  "GetResDataGroupMsg resData exceptUid =
     (let response = NewResponse '''' '''' MSG_TYPE_GROUP (Some resData)
      in case Response_Bytes response of
           Inl err \<Rightarrow> Inl err
         | Inr msgBytes \<Rightarrow> Inr (NewGroupMsg msgBytes exceptUid))"

record sub_msg =
  sTgid :: string
  sTgidList :: "string list"
  sMol :: string
  sCtrl :: string
  sData :: "adata option"
  sExceptUid :: string
  sCTime :: int
  sMsgType :: int
  sToUid :: string

definition sub_msg0 :: sub_msg where
  "sub_msg0 = \<lparr>sTgid = '''', sTgidList = [], sMol = '''', sCtrl = '''', sData = None,
     sExceptUid = '''', sCTime = 0, sMsgType = 0, sToUid = ''''\<rparr>"

text \<open>A nil slice prints as \<^verbatim>\<open>null\<close>; the program never stores an empty slice that is not nil.\<close>

definition sub_msg_json :: "sub_msg \<Rightarrow> jval" where
  "sub_msg_json m =
     JObj [(''tgid'', JStr (sTgid m)),
           (''tgid_list'', if sTgidList m = [] then JNull else JArr (map JStr (sTgidList m))),
           (''mol'', JStr (sMol m)), (''ctrl'', JStr (sCtrl m)),
           (''data'', adata_json (sData m)), (''except_uid'', JStr (sExceptUid m)),
           (''c_time'', jint (sCTime m)), (''msg_type'', jint (sMsgType m)),
           (''to_uid'', JStr (sToUid m))]"

definition sub_msg_set :: "string \<Rightarrow> jval \<Rightarrow> sub_msg \<Rightarrow> sub_msg \<times> go_error option" where
  "sub_msg_set k v m =
     (if name_eq k ''tgid'' then (let (x, e) = dec_str v (sTgid m) in (m\<lparr>sTgid := x\<rparr>, e))
      else if name_eq k ''tgid_list'' then
        (let (x, e) = dec_strs v (sTgidList m) in (m\<lparr>sTgidList := x\<rparr>, e))
      else if name_eq k ''mol'' then (let (x, e) = dec_str v (sMol m) in (m\<lparr>sMol := x\<rparr>, e))
      else if name_eq k ''ctrl'' then (let (x, e) = dec_str v (sCtrl m) in (m\<lparr>sCtrl := x\<rparr>, e))
      else if name_eq k ''data'' then (let (x, e) = dec_map v (sData m) in (m\<lparr>sData := x\<rparr>, e))
      else if name_eq k ''except_uid'' then
        (let (x, e) = dec_str v (sExceptUid m) in (m\<lparr>sExceptUid := x\<rparr>, e))
      else if name_eq k ''c_time'' then
        (let (x, e) = dec_int 64 v (sCTime m) in (m\<lparr>sCTime := x\<rparr>, e))
      else if name_eq k ''msg_type'' then
        (let (x, e) = dec_int 8 v (sMsgType m) in (m\<lparr>sMsgType := x\<rparr>, e))
      else if name_eq k ''to_uid'' then
        (let (x, e) = dec_str v (sToUid m) in (m\<lparr>sToUid := x\<rparr>, e))
      else (m, None))"

section \<open>Servers and system information\<close>

record server =
  Ip :: string
  Port :: string

definition NewServer :: "string \<Rightarrow> string \<Rightarrow> server" where
  "NewServer ip port = \<lparr>Ip = ip, Port = port\<rparr>"

definition Server_String :: "server option \<Rightarrow> string" where
  "Server_String s = (case s of None \<Rightarrow> '''' | Some v \<Rightarrow> Ip v @ '':'' @ Port v)"

record ws_manager_info =
  ClientsLen :: int
  TGroupLen :: int

record ws_msg_list =
  MsgNum :: int
  ConsumeNum :: int
  FreeCNum :: int

text \<open>The two \<^verbatim>\<open>float64\<close> fields are kept as the number literals they are printed as.\<close>

record sys_info =
  NumGoroutine :: int
  CPUPercent :: string
  MemPercent :: string
  NumCPU :: int
  ManagerInfo :: "ws_manager_info option"
  SubMsgList :: "ws_msg_list option"
  Name :: string
  Version :: string

definition sys_info0 :: sys_info where
  "sys_info0 = \<lparr>NumGoroutine = 0, CPUPercent = ''0'', MemPercent = ''0'', NumCPU = 0,
     ManagerInfo = None, SubMsgList = None, Name = '''', Version = ''''\<rparr>"

definition NewSysInfo :: sys_info where
  "NewSysInfo = sys_info0\<lparr>ManagerInfo := Some \<lparr>ClientsLen = 0, TGroupLen = 0\<rparr>\<rparr>"

record syc_collect_info =
  scSysInfo :: sys_info
  NodeNum :: int
  NodeList :: "sys_info list"

definition NewSycCollectInfo :: syc_collect_info where
  "NewSycCollectInfo = \<lparr>scSysInfo = NewSysInfo, NodeNum = 0, NodeList = []\<rparr>"

section \<open>Facts\<close>

text \<open>An \<^verbatim>\<open>AData\<close> in the form the model keeps it: keys sorted, values printable and canonical.\<close>

definition adata_ok :: "adata option \<Rightarrow> bool" where
  "adata_ok a = (case a of None \<Rightarrow> True | Some m \<Rightarrow> canonical (JObj m) \<and> jgood (JObj m))"

lemma jmap_sorted: "sorted (map fst m) \<Longrightarrow> jmap m = JObj m"
  by (simp add: jmap_def sort_key_id_if_sorted)

lemma jgood_jmap [simp]: "jgood (jmap m) = jgood (JObj m)"
  by (simp add: jmap_def list_all_iff)

lemma adata_json_good: "adata_ok a \<Longrightarrow> jgood (adata_json a)"
  by (auto simp: adata_ok_def adata_json_def split: option.splits simp del: jgood.simps(4))

text \<open>The data after its numbers went through a \<^verbatim>\<open>float64\<close>, and whether they all can.\<close>

definition adata_floats :: "adata option \<Rightarrow> adata option" where
  "adata_floats a = map_option (map (map_prod id floats)) a"

definition adata_floats_ok :: "adata option \<Rightarrow> bool" where
  "adata_floats_ok a = (case a of None \<Rightarrow> True | Some m \<Rightarrow> floats_ok (JObj m))"

lemma adata_ok_floats: "adata_ok a \<Longrightarrow> adata_ok (adata_floats a)"
  using floats_good [of "JObj (the a)"] floats_canonical [of "JObj (the a)"]
  by (cases a) (simp_all add: adata_ok_def adata_floats_def)

lemma dec_map_adata_json:
  assumes "adata_ok a" and "adata_floats_ok a"
  shows "dec_map (adata_json a) None = (adata_floats a, None)"
proof (cases a)
  case (Some m)
  then have c: "sorted (map fst m)" "distinct (map fst m)" "\<forall>p \<in> set m. canonical (snd p)"
    using assms(1) by (auto simp: adata_ok_def list_all_iff)
  have "map (map_prod id canon) m = map (map_prod id floats) m" using c(3) by (auto simp: canon_canonical)
  with c Some assms(2) show ?thesis
    by (simp add: adata_json_def jmap_sorted dec_map_def fold_update_distinct adata_floats_def adata_floats_ok_def comp_def)
qed (simp add: adata_json_def dec_map_def adata_floats_def)

lemma response_json_good:
  "jgood (response_json r) \<longleftrightarrow>
     (case rRData r of None \<Rightarrow> True | Some d \<Rightarrow> jgood (adata_json (rdA d)))"
  by (auto simp: response_json_def response_data_json_def split: option.splits)

lemma sub_msg_json_good: "adata_ok (sData m) \<Longrightarrow> jgood (sub_msg_json m)"
  by (auto simp: sub_msg_json_def adata_json_good list_all_iff)

lemma json_Unmarshal_print:
  "jgood v \<Longrightarrow> json_Unmarshal f (jprint v) s = dec_struct f v s"
  by (simp add: json_Unmarshal_def json_roundtrip)

text \<open>A subscription message that was published is read back as it was, up to its numbers.\<close>

lemma sub_msg_decode:
  assumes "adata_ok (sData m)" and "adata_floats_ok (sData m)"
    and "int_range 64 (sCTime m)" and "int_range 8 (sMsgType m)"
  shows "json_Unmarshal sub_msg_set (jprint (sub_msg_json m)) sub_msg0 =
     (m\<lparr>sData := adata_floats (sData m)\<rparr>, None)"
proof -
  have "dec_struct sub_msg_set (sub_msg_json m) sub_msg0 = (m\<lparr>sData := adata_floats (sData m)\<rparr>, None)"
    using assms
    by (simp add: dec_struct_def sub_msg_json_def sub_msg_set_def sub_msg0_def name_eq_def
        to_lower_def Let_def dec_map_adata_json)
  with assms show ?thesis
    by (simp add: json_Unmarshal_print sub_msg_json_good)
qed

end
