(* ===== verification/ServerHelper.thy ===== *)
theory ServerHelper
  imports GoJsonFields
begin

text \<open>
  The package \<^verbatim>\<open>pkg/helper\<close>: the choice of the address a node announces itself under, and
  the last segment of it, which names the node. The interfaces of the machine and their
  addresses come from the operating system and are an argument. A \<^verbatim>\<open>net.IP\<close> is its list of
  bytes, the empty list being nil.
\<close>

unbundle bit_operations_syntax

type_synonym net_ip = "8 word list"

datatype net_addr = IPNet net_ip | IPAddr net_ip | OtherAddr

record iface =
  ifFlags :: "32 word"
  ifAddrs :: "net_addr list result"

definition FlagUp :: "32 word" where "FlagUp = 1"
definition FlagLoopback :: "32 word" where "FlagLoopback = 4"

text \<open>\<^verbatim>\<open>net.IP.To4\<close>, \<^verbatim>\<open>net.IP.IsLoopback\<close> and \<^verbatim>\<open>net.IP.String\<close> on nil and four-byte addresses.\<close>

definition To4 :: "net_ip \<Rightarrow> net_ip" where
  "To4 ip =
     (if length ip = 4 then ip
      else if length ip = 16 \<and> take 10 ip = replicate 10 0 \<and> ip ! 10 = 255 \<and> ip ! 11 = 255
        then drop 12 ip
      else [])"

definition IsLoopback :: "net_ip \<Rightarrow> bool" where
  "IsLoopback ip =
     (let ip4 = To4 ip in
      if ip4 \<noteq> [] then ip4 ! 0 = 127 else ip = replicate 15 0 @ [1])"

fun join_dots :: "string list \<Rightarrow> string" where
  "join_dots [] = ''''"
| "join_dots [s] = s"
| "join_dots (s # t # ss) = s @ ''.'' @ join_dots (t # ss)"

definition ip_String :: "net_ip \<Rightarrow> string" where
  "ip_String ip = (if ip = [] then ''<nil>'' else join_dots (map (\<lambda>b. nat_lit (unat b)) ip))"

definition getIpFromAddr :: "net_addr \<Rightarrow> net_ip" where
  "getIpFromAddr addr =
     (let ip = (case addr of IPNet v \<Rightarrow> v | IPAddr v \<Rightarrow> v | OtherAddr \<Rightarrow> []) in
      if ip = [] \<or> IsLoopback ip then []
      else (let ip' = To4 ip in if ip' = [] then [] else ip'))"

text \<open>The inner loop: the first address of the interface that gives an IPv4 address.\<close>

fun first_ip :: "net_addr list \<Rightarrow> net_ip option" where
  "first_ip [] = None"
| "first_ip (addr # addrs) =
     (let ip = getIpFromAddr addr in if ip = [] then first_ip addrs else Some ip)"

fun scan_ifaces :: "iface list \<Rightarrow> net_ip result" where
  "scan_ifaces [] = Inr []"
| "scan_ifaces (i # is) =
     (if ifFlags i AND FlagUp = 0 then scan_ifaces is
      else if ifFlags i AND FlagLoopback \<noteq> 0 then scan_ifaces is
      else (case ifAddrs i of
              Inl err \<Rightarrow> Inl err
            | Inr addrs \<Rightarrow> (case first_ip addrs of Some ip \<Rightarrow> Inr ip | None \<Rightarrow> scan_ifaces is)))"

text \<open>
  After the loops the source returns nil together with the error of \<^verbatim>\<open>net.Interfaces\<close>,
  which is nil there: a nil address without an error.
\<close>

definition externalIP :: "iface list result \<Rightarrow> net_ip result" where
  "externalIP ifaces = (case ifaces of Inl err \<Rightarrow> Inl err | Inr is \<Rightarrow> scan_ifaces is)"

definition GetServerIp :: "iface list result \<Rightarrow> string" where
  "GetServerIp ifaces = (case externalIP ifaces of Inl _ \<Rightarrow> '''' | Inr ip \<Rightarrow> ip_String ip)"

text \<open>\<^verbatim>\<open>strings.Split\<close> at a one-character separator.\<close>

fun split_at :: "char \<Rightarrow> string \<Rightarrow> string list" where
  "split_at sep [] = [[]]"
| "split_at sep (c # s) =
     (if c = sep then [] # split_at sep s
      else (case split_at sep s of [] \<Rightarrow> [[c]] | p # ps \<Rightarrow> (c # p) # ps))"

definition GetLastSegmentOfIP :: "string \<Rightarrow> string" where
  "GetLastSegmentOfIP ip =
     (let parts = split_at CHR ''.'' ip in
      if length parts > 0 then parts ! (length parts - 1) else '''')"

text \<open>
  What the search is for: the IPv4 addresses, other than loopback ones, of the interfaces
  that are up and not loopback interfaces, in order.
\<close>

definition iface_up :: "iface \<Rightarrow> bool" where
  "iface_up i \<longleftrightarrow> ifFlags i AND FlagUp \<noteq> 0 \<and> ifFlags i AND FlagLoopback = 0"

definition iface_ips :: "iface \<Rightarrow> net_ip list" where
  "iface_ips i = (case ifAddrs i of Inl e \<Rightarrow> [] | Inr addrs \<Rightarrow> filter (\<lambda>ip. ip \<noteq> []) (map getIpFromAddr addrs))"

definition usable_ips :: "iface list \<Rightarrow> net_ip list" where
  "usable_ips is = concat (map iface_ips (filter iface_up is))"

section \<open>Facts\<close>

lemma split_at_nonempty [simp]: "split_at sep s \<noteq> []"
  by (induction s) (auto split: list.splits)

lemma split_at_no_sep: "sep \<notin> set s \<Longrightarrow> split_at sep s = [s]"
  by (induction s) auto

lemma split_at_append: "split_at sep (s @ sep # t) = split_at sep s @ split_at sep t"
proof (induction s)
  case (Cons c s)
  then show ?case by (cases "split_at sep s") auto
qed simp

lemma GetLastSegmentOfIP_last: "GetLastSegmentOfIP ip = last (split_at CHR ''.'' ip)"
  by (simp add: GetLastSegmentOfIP_def Let_def last_conv_nth)

lemma last_segment_append:
  "CHR ''.'' \<notin> set t \<Longrightarrow> GetLastSegmentOfIP (s @ CHR ''.'' # t) = t"
  by (simp add: GetLastSegmentOfIP_last split_at_append split_at_no_sep)

lemma dot_not_in_nat_lit: "CHR ''.'' \<notin> set (nat_lit n)"
  using nat_lit_digits [of n] by (auto simp: list_all_iff is_digit_def)

lemma getIpFromAddr_ok:
  "getIpFromAddr a = ip \<Longrightarrow> ip \<noteq> [] \<Longrightarrow> length ip = 4 \<and> ip ! 0 \<noteq> 127"
  by (auto simp: getIpFromAddr_def To4_def IsLoopback_def Let_def split: if_splits)

lemma first_ip_ok: "first_ip as = Some ip \<Longrightarrow> length ip = 4 \<and> ip ! 0 \<noteq> 127"
  by (induction as) (auto simp: Let_def getIpFromAddr_ok split: if_splits)

lemma scan_ifaces_ok:
  "scan_ifaces is = Inr ip \<Longrightarrow> ip \<noteq> [] \<Longrightarrow> length ip = 4 \<and> ip ! 0 \<noteq> 127"
  by (induction "is") (auto split: if_splits sum.splits option.splits simp: first_ip_ok)

lemma first_ip_filter:
  "first_ip addrs = (case filter (\<lambda>ip. ip \<noteq> []) (map getIpFromAddr addrs) of [] \<Rightarrow> None | ip # _ \<Rightarrow> Some ip)"
  by (induction addrs) (auto simp: Let_def)

lemma scan_ifaces_usable:
  assumes "\<And>i. i \<in> set is \<Longrightarrow> \<exists>addrs. ifAddrs i = Inr addrs"
  shows "scan_ifaces is = Inr (case usable_ips is of [] \<Rightarrow> [] | ip # _ \<Rightarrow> ip)"
  using assms
proof (induction "is")
  case (Cons i "is")
  then obtain addrs where a: "ifAddrs i = Inr addrs" by force
  have IH: "scan_ifaces is = Inr (case usable_ips is of [] \<Rightarrow> [] | ip # _ \<Rightarrow> ip)"
    using Cons by simp
  show ?case
  proof (cases "iface_up i")
    case True
    then have "usable_ips (i # is) = filter (\<lambda>ip. ip \<noteq> []) (map getIpFromAddr addrs) @ usable_ips is"
      using a by (simp add: usable_ips_def iface_ips_def)
    with True a IH show ?thesis
      by (cases "filter (\<lambda>ip. ip \<noteq> []) (map getIpFromAddr addrs)")
        (simp_all add: iface_up_def first_ip_filter)
  next
    case False
    with IH show ?thesis by (auto simp: usable_ips_def iface_up_def)
  qed
qed (simp add: usable_ips_def)

lemma usable_ip_ok: "ip \<in> set (usable_ips is) \<Longrightarrow> length ip = 4 \<and> ip ! 0 \<noteq> 127"
  by (auto simp: usable_ips_def iface_ips_def getIpFromAddr_ok split: sum.splits)

section \<open>A struct filled from a map\<close>

text \<open>
  A struct as its fields, in order; a value of the map may be a nil interface. \<open>conv\<close> is the
  conversion of the language from a value to a type: there may be none, and one from a slice to
  a longer array panics.
\<close>

record ('t, 'v) go_field =
  fName :: string
  fCanSet :: bool
  fType :: 't
  fValue :: 'v

datatype 'v conversion = NotConvertible | Converted 'v | ConversionPanic

text \<open>One round of the loop; \<open>None\<close> is a panic, also that of asking a nil value for its type.\<close>

definition set_field ::
    "('v \<Rightarrow> 't \<Rightarrow> 'v conversion) \<Rightarrow> (string \<rightharpoonup> 'v option) \<Rightarrow> ('t, 'v) go_field \<Rightarrow> ('t, 'v) go_field option" where
  "set_field conv m field =
     (case m (fName field) of
        None \<Rightarrow> Some field
      | Some value \<Rightarrow>
          if fCanSet field then
            (case value of
               None \<Rightarrow> None
             | Some fieldValue \<Rightarrow>
                 (case conv fieldValue (fType field) of
                    NotConvertible \<Rightarrow> Some field
                  | Converted x \<Rightarrow> Some (field\<lparr>fValue := x\<rparr>)
                  | ConversionPanic \<Rightarrow> None))
          else Some field)"

fun MapToStruct ::
    "('v \<Rightarrow> 't \<Rightarrow> 'v conversion) \<Rightarrow> (string \<rightharpoonup> 'v option) \<Rightarrow> ('t, 'v) go_field list \<Rightarrow>
     ('t, 'v) go_field list option" where
  "MapToStruct conv m [] = Some []"
| "MapToStruct conv m (field # fs) =
     (case set_field conv m field of
        None \<Rightarrow> None
      | Some field1 \<Rightarrow> map_option ((#) field1) (MapToStruct conv m fs))"

text \<open>
  It panics exactly when a field that can be set meets a nil value or a conversion that panics;
  otherwise the names and types stay and each field is set on its own.
\<close>

lemma MapToStruct_panics: "MapToStruct conv m fs = None \<longleftrightarrow> (\<exists>f \<in> set fs. set_field conv m f = None)"
  by (induction fs) (auto split: option.splits)

lemma MapToStruct_fields:
  "MapToStruct conv m fs = Some fs' \<Longrightarrow>
     length fs' = length fs \<and> (\<forall>i < length fs. set_field conv m (fs ! i) = Some (fs' ! i) \<and>
       fName (fs' ! i) = fName (fs ! i) \<and> fType (fs' ! i) = fType (fs ! i))"
proof (induction fs arbitrary: fs')
  case (Cons f fs)
  then obtain f1 fs1 where 1: "set_field conv m f = Some f1" "MapToStruct conv m fs = Some fs1" "fs' = f1 # fs1"
    by (auto split: option.splits)
  then have "fName f1 = fName f" "fType f1 = fType f"
    by (auto simp: set_field_def split: option.splits if_splits conversion.splits)
  with 1 Cons.IH [OF 1(2)] show ?case by (auto simp: nth_Cons split: nat.split)
qed simp

lemma MapToStruct_nil_panics:
  "f \<in> set fs \<Longrightarrow> fCanSet f \<Longrightarrow> m (fName f) = Some None \<Longrightarrow> MapToStruct conv m fs = None"
  unfolding MapToStruct_panics by (rule bexI [of _ f]) (simp_all add: set_field_def)

end
