(* ===== verification/GoChan.thy ===== *)
theory GoChan
  imports GimPrelude
begin

text \<open>
  Go's buffered channels, as the program uses them: a select with a default branch
  (\<^verbatim>\<open>Client.SafeSendMsg\<close>), a blocking send (\<^verbatim>\<open>TGroup.SendChan\<close>), a range loop that
  receives (\<^verbatim>\<open>SendMsgLoop\<close>, \<^verbatim>\<open>ListenSendChan\<close>) and close. A send on a closed channel
  and a second close panic.
\<close>

record 'a chan =
  cbuf :: "'a list"
  ccap :: nat
  cclosed :: bool

definition make_chan :: "nat \<Rightarrow> 'a chan" where
  "make_chan n = \<lparr>cbuf = [], ccap = n, cclosed = False\<rparr>"

text \<open>The outcome of trying to send: done, the buffer is full, or a panic.\<close>

datatype 'a send_result = Sent "'a chan" | ChanFull | SendPanic

definition try_send :: "'a chan \<Rightarrow> 'a \<Rightarrow> 'a send_result" where
  "try_send ch x =
     (if cclosed ch then SendPanic
      else if length (cbuf ch) < ccap ch then Sent (ch\<lparr>cbuf := cbuf ch @ [x]\<rparr>)
      else ChanFull)"

text \<open>The outcome of a receive: a value, nothing yet, or the end of a closed channel.\<close>

datatype 'a recv_result = Received 'a "'a chan" | RecvBlocked | RecvClosed

definition try_recv :: "'a chan \<Rightarrow> 'a recv_result" where
  "try_recv ch =
     (case cbuf ch of
        x # xs \<Rightarrow> Received x (ch\<lparr>cbuf := xs\<rparr>)
      | [] \<Rightarrow> if cclosed ch then RecvClosed else RecvBlocked)"

text \<open>\<open>None\<close> is the panic of closing a closed channel.\<close>

definition close_chan :: "'a chan \<Rightarrow> 'a chan option" where
  "close_chan ch = (if cclosed ch then None else Some (ch\<lparr>cclosed := True\<rparr>))"

definition chan_ok :: "'a chan \<Rightarrow> bool" where
  "chan_ok ch \<longleftrightarrow> length (cbuf ch) \<le> ccap ch"

section \<open>The bounded queue a channel is\<close>

text \<open>
  What the senders and the receiver of a channel rely on: a send appends if there is
  room, a receive takes the oldest message, nothing is lost or reordered in between.
\<close>

locale bounded_fifo =
  fixes send :: "'q \<Rightarrow> 'a \<Rightarrow> 'q option"
    and recv :: "'q \<Rightarrow> ('a \<times> 'q) option"
    and contents :: "'q \<Rightarrow> 'a list"
    and cap :: "'q \<Rightarrow> nat"
    and inv :: "'q \<Rightarrow> bool"
  assumes send_contents: "send q x = Some q' \<Longrightarrow> contents q' = contents q @ [x]"
    and send_inv: "inv q \<Longrightarrow> send q x = Some q' \<Longrightarrow> inv q'"
    and send_cap: "send q x = Some q' \<Longrightarrow> cap q' = cap q"
    and recv_contents: "recv q = Some (x, q') \<Longrightarrow> contents q = x # contents q'"
    and recv_inv: "inv q \<Longrightarrow> recv q = Some (x, q') \<Longrightarrow> inv q'"
    and recv_some: "contents q \<noteq> [] \<Longrightarrow> recv q \<noteq> None"
    and inv_bound: "inv q \<Longrightarrow> length (contents q) \<le> cap q"
begin

fun send_all :: "'q \<Rightarrow> 'a list \<Rightarrow> 'q option" where
  "send_all q [] = Some q"
| "send_all q (x # xs) = (case send q x of None \<Rightarrow> None | Some q' \<Rightarrow> send_all q' xs)"

fun recv_n :: "nat \<Rightarrow> 'q \<Rightarrow> ('a list \<times> 'q) option" where
  "recv_n 0 q = Some ([], q)"
| "recv_n (Suc n) q =
     (case recv q of
        None \<Rightarrow> None
      | Some (x, q') \<Rightarrow> (case recv_n n q' of None \<Rightarrow> None | Some (xs, q'') \<Rightarrow> Some (x # xs, q'')))"

lemma send_all_contents: "send_all q xs = Some q' \<Longrightarrow> contents q' = contents q @ xs"
  by (induction xs arbitrary: q) (auto split: option.splits dest: send_contents)

lemma send_all_inv: "send_all q xs = Some q' \<Longrightarrow> inv q \<Longrightarrow> inv q'"
  by (induction xs arbitrary: q) (auto split: option.splits dest: send_inv)

lemma send_all_cap: "send_all q xs = Some q' \<Longrightarrow> cap q' = cap q"
  by (induction xs arbitrary: q) (auto split: option.splits dest: send_cap)

lemma recv_n_contents:
  "n \<le> length (contents q) \<Longrightarrow>
     \<exists>q'. recv_n n q = Some (take n (contents q), q') \<and> contents q' = drop n (contents q)"
proof (induction n arbitrary: q)
  case (Suc n)
  then obtain x q' where r: "recv q = Some (x, q')"
    using recv_some [of q] by fastforce
  then have c: "contents q = x # contents q'" by (rule recv_contents)
  with Suc.prems have "n \<le> length (contents q')" by simp
  from Suc.IH [OF this] r c show ?case by auto
qed simp

lemma send_all_fits: "send_all q xs = Some q' \<Longrightarrow> inv q \<Longrightarrow> length (contents q) + length xs \<le> cap q"
  using inv_bound [of q'] send_all_contents [of q xs q'] send_all_inv [of q xs q']
    send_all_cap [of q xs q'] by simp

lemma fifo:
  assumes "send_all q xs = Some q'" and "contents q = []"
  shows "\<exists>q''. recv_n (length xs) q' = Some (xs, q'') \<and> contents q'' = []"
  using recv_n_contents [of "length xs" q'] send_all_contents [OF assms(1)] assms(2) by simp

end

definition chan_send :: "'a chan \<Rightarrow> 'a \<Rightarrow> 'a chan option" where
  "chan_send ch x = (case try_send ch x of Sent ch' \<Rightarrow> Some ch' | _ \<Rightarrow> None)"

definition chan_recv :: "'a chan \<Rightarrow> ('a \<times> 'a chan) option" where
  "chan_recv ch = (case try_recv ch of Received x ch' \<Rightarrow> Some (x, ch') | _ \<Rightarrow> None)"

interpretation gochan: bounded_fifo chan_send chan_recv cbuf ccap chan_ok
  by unfold_locales
    (auto simp: chan_send_def chan_recv_def try_send_def try_recv_def chan_ok_def
      split: if_splits list.splits)

lemma try_send_Sent_iff:
  "try_send ch x = Sent ch' \<longleftrightarrow>
     \<not> cclosed ch \<and> length (cbuf ch) < ccap ch \<and> ch' = ch\<lparr>cbuf := cbuf ch @ [x]\<rparr>"
  by (auto simp: try_send_def)

lemma try_send_ChanFull_iff:
  "try_send ch x = ChanFull \<longleftrightarrow> \<not> cclosed ch \<and> ccap ch \<le> length (cbuf ch)"
  by (auto simp: try_send_def)

lemma try_send_SendPanic_iff: "try_send ch x = SendPanic \<longleftrightarrow> cclosed ch"
  by (auto simp: try_send_def)

lemmas try_send_iffs = try_send_Sent_iff try_send_ChanFull_iff try_send_SendPanic_iff

lemma chan_ok_make [simp]: "chan_ok (make_chan n)"
  by (simp add: chan_ok_def make_chan_def)

lemma chan_ok_try_send: "chan_ok ch \<Longrightarrow> try_send ch x = Sent ch' \<Longrightarrow> chan_ok ch'"
  by (auto simp: try_send_Sent_iff chan_ok_def)

lemma chan_ok_close [simp]: "chan_ok (ch\<lparr>cclosed := b\<rparr>) = chan_ok ch"
  by (simp add: chan_ok_def)

end
