(* ===== verification/WsState.thy ===== *)
theory WsState
  imports MsgTypes ServerHelper GoChan
begin

text \<open>
  The state of one node of the websocket service (package \<^verbatim>\<open>service/ws\<close>): the
  configuration, the clients, the temporary groups, the two managers and what the node
  sees of the world outside the repository (sockets, redis, remote nodes).

  The libraries the service calls are a record of functions, the first argument of the
  operations that use them: the websocket connections of \<^verbatim>\<open>gws\<close>, the redis commands and
  the rpc calls to another node, with opaque types for their states. The order in which Go
  visits the keys of a map is such a function too.
\<close>

declare map_of_eq_Some_iff [simp del] Some_eq_map_of_iff [simp del]

section \<open>Configuration (init\_ws.go)\<close>

datatype run_mode = RunModeLocal | RunModeRedis

definition DefaultMsgChanMax :: int where
  "DefaultMsgChanMax = 500"

text \<open>
  A keep time is the \<^verbatim>\<open>int\<close> \<^verbatim>\<open>KeepTime\<close> of a configuration, a number of seconds. The type leaves out
  the ten largest values of \<^verbatim>\<open>int\<close>, to which the ten seconds of the entry in redis cannot be added.
\<close>

typedef keep_time = "{i :: int. - (2 ^ 63) \<le> i \<and> i + 10 < 2 ^ 63}" morphisms keep_seconds Keep_time
  by (rule exI [of _ 0]) simp

definition keep_of :: "int \<Rightarrow> keep_time" where
  "keep_of i = Keep_time (if - (2 ^ 63) \<le> i \<and> i + 10 < 2 ^ 63 then i else 0)"

lemma keep_seconds_keep_of [simp]:
  "- (2 ^ 63) \<le> i \<Longrightarrow> i + 10 < 2 ^ 63 \<Longrightarrow> keep_seconds (keep_of i) = i"
  by (simp add: keep_of_def Keep_time_inverse)

lemma keep_seconds_range: "- (2 ^ 63) \<le> keep_seconds t" "keep_seconds t + 10 < 2 ^ 63"
  using keep_seconds [of t] by simp_all

record ws_config =
  cfgRunMode :: run_mode
  cfgRedisPrefix :: string
  cfgRpcPort :: string
  cfgWsPort :: string
  cfgKeepTime :: keep_time
  cfgClientMsgChanMax :: int
  cfgGroupMsgChanMax :: int
  cfgVersion :: string

section \<open>Clients and groups (client.go, tgroup.go)\<close>

datatype client_state = StateOnline | StateOffline

datatype opcode = OpcodeText | OpcodeBinary

record client =
  cUserId :: string
  cRandUuid :: string
  cState :: client_state
  cSocket :: kptr
  cFirstTime :: "64 word"
  cHeartbeatTime :: "64 word"
  cTGroup :: "(string, bool) gomap"
  cMsgCode :: opcode
  cSendChan :: "bytes chan"
  cCloseOnce :: bool

record tgroup =
  gState :: int
  gUsers :: "(string, bool) gomap"
  gGid :: string
  gSend :: "group_msg chan"

text \<open>What a user's entry in redis holds (handler\_ws.go).\<close>

record user_online =
  AccIp :: string
  ClientArr :: string
  AccPort :: string
  RpcPort :: string
  UserId :: string
  RandUuid :: string

text \<open>The goroutines the service starts.\<close>

datatype goroutine = GoSendMsgLoop cptr | GoListenSendChan gptr | GoReadLoop kptr

section \<open>Requests and answers of the rpc service (api.thrift)\<close>

record send_msg_req =
  smqUid :: string
  smqMsg :: bytes

record send_msg_rsp =
  smrRetCode :: "32 word"

record send_msg_by_tgid_req =
  sbtUid :: string
  sbtTgid :: string
  sbtMsg :: bytes

record user_id_req =
  uirUid :: string

record stop_user_client_rsp =
  sucRes :: bool

record bytes_rsp =
  brData :: bytes

record join_group_req =
  jgqUid :: string
  jgqTgid :: string

record join_group_res =
  jgrRes :: bool

section \<open>The world outside\<close>

text \<open>A value of a session: the string the application stored, or something else.\<close>

datatype session_value = SessionStr string | SessionOther

datatype 'k write_result = Wrote 'k | WriteFailed 'k go_error | WritePanic 'k

record ('k, 'r, 'n) ws_env =
  WriteMessage :: "'k \<Rightarrow> opcode \<Rightarrow> bytes \<Rightarrow> 'k write_result"
  NetConnClose :: "'k \<Rightarrow> 'k"
  SetReadDeadline :: "'k \<Rightarrow> int \<Rightarrow> 'k"
  SessionLoad :: "'k \<Rightarrow> string \<Rightarrow> session_value option"
  RemoteAddr :: "'k \<Rightarrow> string"
  RangeOrder :: "string list \<Rightarrow> string list"
  redisGetSet :: "string \<Rightarrow> bytes \<Rightarrow> 'r \<Rightarrow> 'r \<times> bytes result"
  redisExpire :: "string \<Rightarrow> int \<Rightarrow> 'r \<Rightarrow> 'r \<times> unit result"
  redisDel :: "string \<Rightarrow> 'r \<Rightarrow> 'r \<times> unit result"
  redisGet :: "string \<Rightarrow> 'r \<Rightarrow> 'r \<times> bytes result"
  redisPublish :: "string \<Rightarrow> bytes \<Rightarrow> 'r \<Rightarrow> 'r \<times> go_error option"
  rpcNewClient :: "string \<Rightarrow> string \<Rightarrow> unit result"
  rpcSendMsgToUser :: "string \<Rightarrow> send_msg_req \<Rightarrow> 'n \<Rightarrow> 'n \<times> send_msg_rsp result"
  rpcSendMsgToUserByTgid :: "string \<Rightarrow> send_msg_by_tgid_req \<Rightarrow> 'n \<Rightarrow> 'n \<times> send_msg_rsp result"
  rpcStopUserClient :: "string \<Rightarrow> user_id_req \<Rightarrow> 'n \<Rightarrow> 'n \<times> stop_user_client_rsp result"
  rpcJoinGroup :: "string \<Rightarrow> join_group_req \<Rightarrow> 'n \<Rightarrow> 'n \<times> join_group_res result"
  rpcOutGroup :: "string \<Rightarrow> join_group_req \<Rightarrow> 'n \<Rightarrow> 'n \<times> join_group_res result"
  rpcGetSysInfo :: "string \<Rightarrow> 'n \<Rightarrow> 'n \<times> bytes_rsp result"

section \<open>The state of a node\<close>

text \<open>
  \<open>clients\<close>, \<open>tgroups\<close> and \<open>conns\<close> are the heap: the objects at their addresses;
  \<open>nextClient\<close> and \<open>nextGroup\<close> are the next fresh addresses. \<open>Clients\<close> and
  \<open>ConnClientIdx\<close> are the fields of the client manager, \<open>TGroups\<close> that of the group
  manager, \<open>rpcClients\<close> the rpc clients by registry key with the address each dials.
  \<open>gos\<close> lists the goroutines that were started, \<open>clock\<close> is the time
  in milliseconds since the epoch; \<open>connKeepTime\<close> is in nanoseconds, as are the read
  deadlines.
\<close>

record ('k, 'r, 'n) ws =
  Config :: ws_config
  serverIp :: string
  ServerName :: string
  connKeepTime :: int
  conns :: "kptr \<Rightarrow> 'k"
  clients :: "cptr \<Rightarrow> client"
  nextClient :: cptr
  tgroups :: "gptr \<Rightarrow> tgroup"
  nextGroup :: gptr
  Clients :: "(string, cptr) gomap"
  ConnClientIdx :: "(kptr, cptr) gomap"
  TGroups :: "(string, gptr) gomap"
  ServiceName :: string
  rpcClients :: "(string, string) gomap"
  redis :: 'r
  net :: 'n
  gos :: "goroutine list"
  clock :: int

definition upd_client :: "cptr \<Rightarrow> (client \<Rightarrow> client) \<Rightarrow> ('k, 'r, 'n) ws \<Rightarrow> ('k, 'r, 'n) ws" where
  "upd_client c f w = w\<lparr>clients := (clients w)(c := f (clients w c))\<rparr>"

definition upd_group :: "gptr \<Rightarrow> (tgroup \<Rightarrow> tgroup) \<Rightarrow> ('k, 'r, 'n) ws \<Rightarrow> ('k, 'r, 'n) ws" where
  "upd_group g f w = w\<lparr>tgroups := (tgroups w)(g := f (tgroups w g))\<rparr>"

definition set_conn :: "kptr \<Rightarrow> 'k \<Rightarrow> ('k, 'r, 'n) ws \<Rightarrow> ('k, 'r, 'n) ws" where
  "set_conn k x w = w\<lparr>conns := (conns w)(k := x)\<rparr>"

lemma upd_client_simps [simp]:
  "clients (upd_client c f w) = (clients w)(c := f (clients w c))"
  "Config (upd_client c f w) = Config w"
  "serverIp (upd_client c f w) = serverIp w"
  "ServerName (upd_client c f w) = ServerName w"
  "connKeepTime (upd_client c f w) = connKeepTime w"
  "conns (upd_client c f w) = conns w"
  "nextClient (upd_client c f w) = nextClient w"
  "tgroups (upd_client c f w) = tgroups w"
  "nextGroup (upd_client c f w) = nextGroup w"
  "Clients (upd_client c f w) = Clients w"
  "ConnClientIdx (upd_client c f w) = ConnClientIdx w"
  "TGroups (upd_client c f w) = TGroups w"
  "ServiceName (upd_client c f w) = ServiceName w"
  "rpcClients (upd_client c f w) = rpcClients w"
  "redis (upd_client c f w) = redis w"
  "net (upd_client c f w) = net w"
  "gos (upd_client c f w) = gos w"
  "clock (upd_client c f w) = clock w"
  by (simp_all add: upd_client_def)

lemma upd_group_simps [simp]:
  "tgroups (upd_group g f w) = (tgroups w)(g := f (tgroups w g))"
  "Config (upd_group g f w) = Config w"
  "serverIp (upd_group g f w) = serverIp w"
  "ServerName (upd_group g f w) = ServerName w"
  "connKeepTime (upd_group g f w) = connKeepTime w"
  "conns (upd_group g f w) = conns w"
  "clients (upd_group g f w) = clients w"
  "nextClient (upd_group g f w) = nextClient w"
  "nextGroup (upd_group g f w) = nextGroup w"
  "Clients (upd_group g f w) = Clients w"
  "ConnClientIdx (upd_group g f w) = ConnClientIdx w"
  "TGroups (upd_group g f w) = TGroups w"
  "ServiceName (upd_group g f w) = ServiceName w"
  "rpcClients (upd_group g f w) = rpcClients w"
  "redis (upd_group g f w) = redis w"
  "net (upd_group g f w) = net w"
  "gos (upd_group g f w) = gos w"
  "clock (upd_group g f w) = clock w"
  by (simp_all add: upd_group_def)

lemma upd_group_twice: "upd_group g f (upd_group g h w) = upd_group g (\<lambda>x. f (h x)) w"
  by (simp add: upd_group_def)

lemma upd_group_cong: "f (tgroups w g) = h (tgroups w g) \<Longrightarrow> upd_group g f w = upd_group g h w"
  by (simp add: upd_group_def)

lemma upd_group_TGroups: "(upd_group g f w)\<lparr>TGroups := t\<rparr> = upd_group g f (w\<lparr>TGroups := t\<rparr>)"
  by (simp add: upd_group_def)

lemma set_conn_simps [simp]:
  "conns (set_conn k x w) = (conns w)(k := x)"
  "Config (set_conn k x w) = Config w"
  "serverIp (set_conn k x w) = serverIp w"
  "ServerName (set_conn k x w) = ServerName w"
  "connKeepTime (set_conn k x w) = connKeepTime w"
  "clients (set_conn k x w) = clients w"
  "nextClient (set_conn k x w) = nextClient w"
  "tgroups (set_conn k x w) = tgroups w"
  "nextGroup (set_conn k x w) = nextGroup w"
  "Clients (set_conn k x w) = Clients w"
  "ConnClientIdx (set_conn k x w) = ConnClientIdx w"
  "TGroups (set_conn k x w) = TGroups w"
  "ServiceName (set_conn k x w) = ServiceName w"
  "rpcClients (set_conn k x w) = rpcClients w"
  "redis (set_conn k x w) = redis w"
  "net (set_conn k x w) = net w"
  "gos (set_conn k x w) = gos w"
  "clock (set_conn k x w) = clock w"
  by (simp_all add: set_conn_def)

text \<open>
  What the service relies on of the order of a range loop: each key is visited once.
\<close>

definition range_ok :: "('k, 'r, 'n) ws_env \<Rightarrow> bool" where
  "range_ok env \<longleftrightarrow> (\<forall>xs. mset (RangeOrder env xs) = mset xs)"

lemma range_ok_set: "range_ok env \<Longrightarrow> set (RangeOrder env xs) = set xs"
  by (metis range_ok_def mset_eq_setD)

lemma range_ok_distinct: "range_ok env \<Longrightarrow> distinct (RangeOrder env xs) = distinct xs"
  by (metis range_ok_def mset_eq_imp_distinct_iff)

end
