(* ===== verification/WsCache.thy ===== *)
theory WsCache
  imports WsState
begin

text \<open>
  The users' online entries in redis (\<^verbatim>\<open>service/ws/cache.go\<close> and the entry type of
  \<^verbatim>\<open>handler_ws.go\<close>): key layout, expiry, and the operations that set, refresh, delete and
  read an entry. Redis is the parameter of the environment; what is used of it is the
  predicate \<open>redis_ok\<close>.
\<close>

definition userOnlinePrefix :: string where
  "userOnlinePrefix = ''_mws:user:online:''"

definition userOnlineCacheTime :: int where
  "userOnlineCacheTime = 10"

definition getUserOnlineKey :: "string \<Rightarrow> ('k, 'r, 'n) ws \<Rightarrow> string" where
  "getUserOnlineKey userKey w = cfgRedisPrefix (Config w) @ userOnlinePrefix @ userKey"

section \<open>The JSON of an entry\<close>

definition user_online0 :: user_online where
  "user_online0 = \<lparr>AccIp = '''', ClientArr = '''', AccPort = '''', RpcPort = '''', UserId = '''',
     RandUuid = ''''\<rparr>"

definition user_online_json :: "user_online \<Rightarrow> jval" where
  "user_online_json u =
     JObj [(''accIp'', JStr (AccIp u)), (''clientArr'', JStr (ClientArr u)),
           (''accPort'', JStr (AccPort u)), (''rpcPort'', JStr (RpcPort u)),
           (''userId'', JStr (UserId u)), (''randUuid'', JStr (RandUuid u))]"

definition user_online_set :: "string \<Rightarrow> jval \<Rightarrow> user_online \<Rightarrow> user_online \<times> go_error option" where
  "user_online_set k v u =
     (if name_eq k ''accIp'' then (let (x, e) = dec_str v (AccIp u) in (u\<lparr>AccIp := x\<rparr>, e))
      else if name_eq k ''clientArr'' then
        (let (x, e) = dec_str v (ClientArr u) in (u\<lparr>ClientArr := x\<rparr>, e))
      else if name_eq k ''accPort'' then (let (x, e) = dec_str v (AccPort u) in (u\<lparr>AccPort := x\<rparr>, e))
      else if name_eq k ''rpcPort'' then (let (x, e) = dec_str v (RpcPort u) in (u\<lparr>RpcPort := x\<rparr>, e))
      else if name_eq k ''userId'' then (let (x, e) = dec_str v (UserId u) in (u\<lparr>UserId := x\<rparr>, e))
      else if name_eq k ''randUuid'' then
        (let (x, e) = dec_str v (RandUuid u) in (u\<lparr>RandUuid := x\<rparr>, e))
      else (u, None))"

section \<open>The operations\<close>

definition GetUserOnlineExpTime :: "('k, 'r, 'n) ws \<Rightarrow> int" where
  "GetUserOnlineExpTime w =
     (if keep_seconds (cfgKeepTime (Config w)) > 0
      then wrap64 (keep_seconds (cfgKeepTime (Config w)) + userOnlineCacheTime) else 3600)"

text \<open>
  Sets the entry and returns the old one, if there was one. The old text that does not
  decode is an error, and the pointer to the partly read entry is returned with it.
\<close>

definition GetSetUserOnlineInfo ::
    "('k, 'r, 'n) ws_env \<Rightarrow> string \<Rightarrow> user_online \<Rightarrow> ('k, 'r, 'n) ws \<Rightarrow>
     ('k, 'r, 'n) ws \<times> user_online option \<times> go_error option" where
  "GetSetUserOnlineInfo env userKey userOnline w =
     (let key = getUserOnlineKey userKey w in
      case json_Marshal (user_online_json userOnline) of
        Inl err \<Rightarrow> (w, None, Some err)
      | Inr valueByte \<Rightarrow>
          (let (r1, res) = redisGetSet env key valueByte (redis w); w1 = w\<lparr>redis := r1\<rparr> in
           case (case res of Inr d \<Rightarrow> Inr d | Inl e \<Rightarrow> if e = RedisNil then Inr '''' else Inl e) of
             Inl err \<Rightarrow> (w1, None, Some err)
           | Inr oldData \<Rightarrow>
               (let expTime = GetUserOnlineExpTime w1;
                    (r2, _) = redisExpire env key expTime (redis w1);
                    w2 = w1\<lparr>redis := r2\<rparr>
                in if oldData \<noteq> '''' then
                     (let (old, err) = json_Unmarshal user_online_set oldData user_online0
                      in (w2, Some old, err))
                   else (w2, None, None))))"

definition ResetUserOnlineExpTime ::
    "('k, 'r, 'n) ws_env \<Rightarrow> string \<Rightarrow> ('k, 'r, 'n) ws \<Rightarrow> ('k, 'r, 'n) ws \<times> go_error option" where
  "ResetUserOnlineExpTime env userKey w =
     (let key = getUserOnlineKey userKey w;
          expTime = GetUserOnlineExpTime w;
          (r, res) = redisExpire env key expTime (redis w)
      in (w\<lparr>redis := r\<rparr>, case res of Inl e \<Rightarrow> Some e | Inr _ \<Rightarrow> None))"

definition DelUserOnlineInfo ::
    "('k, 'r, 'n) ws_env \<Rightarrow> string \<Rightarrow> ('k, 'r, 'n) ws \<Rightarrow> ('k, 'r, 'n) ws \<times> go_error option" where
  "DelUserOnlineInfo env userKey w =
     (let key = getUserOnlineKey userKey w; (r, res) = redisDel env key (redis w)
      in (w\<lparr>redis := r\<rparr>, case res of Inl e \<Rightarrow> Some e | Inr _ \<Rightarrow> None))"

definition GetUserOnlineInfo ::
    "('k, 'r, 'n) ws_env \<Rightarrow> string \<Rightarrow> ('k, 'r, 'n) ws \<Rightarrow>
     ('k, 'r, 'n) ws \<times> user_online option \<times> go_error option" where
  "GetUserOnlineInfo env userKey w =
     (let key = getUserOnlineKey userKey w; (r, res) = redisGet env key (redis w);
          w1 = w\<lparr>redis := r\<rparr>
      in case res of
           Inl err \<Rightarrow> (w1, None, Some err)
         | Inr data \<Rightarrow>
             (let (u, err) = json_Unmarshal user_online_set data user_online0
              in (w1, Some u, err)))"

text \<open>When there is no error the entry is there, so the field accesses are of a real entry.\<close>

definition GetUserRpcServer ::
    "('k, 'r, 'n) ws_env \<Rightarrow> string \<Rightarrow> ('k, 'r, 'n) ws \<Rightarrow> ('k, 'r, 'n) ws \<times> server result" where
  "GetUserRpcServer env uid w =
     (case GetUserOnlineInfo env uid w of
        (w1, _, Some err) \<Rightarrow> (w1, Inl err)
      | (w1, None, None) \<Rightarrow> (w1, Inl (ExtError ''invalid memory address or nil pointer dereference''))
      | (w1, Some userInfo, None) \<Rightarrow>
          if AccIp userInfo = '''' \<or> RpcPort userInfo = ''''
          then (w1, Inl (NewImError ErrUserOffline))
          else (w1, Inr (NewServer (AccIp userInfo) (RpcPort userInfo))))"

section \<open>What is used of redis\<close>

text \<open>
  The documented behaviour of the commands on a server that answers: \<open>kv\<close> reads the
  string keys of the redis state; \<^verbatim>\<open>GETSET\<close> stores and returns the old value or nil,
  \<^verbatim>\<open>EXPIRE\<close> with a positive time and \<^verbatim>\<open>PUBLISH\<close> keep the values, \<^verbatim>\<open>DEL\<close> removes one key.
\<close>

definition redis_ok :: "('k, 'r, 'n) ws_env \<Rightarrow> ('r \<Rightarrow> string \<Rightarrow> bytes option) \<Rightarrow> bool" where
  "redis_ok env kv \<longleftrightarrow>
     (\<forall>k v r. kv (fst (redisGetSet env k v r)) = (kv r)(k \<mapsto> v) \<and>
        snd (redisGetSet env k v r) = (case kv r k of None \<Rightarrow> Inl RedisNil | Some x \<Rightarrow> Inr x)) \<and>
     (\<forall>k t r. 0 < t \<longrightarrow> kv (fst (redisExpire env k t r)) = kv r) \<and>
     (\<forall>k r. kv (fst (redisDel env k r)) = (kv r)(k := None)) \<and>
     (\<forall>k r. kv (fst (redisGet env k r)) = kv r \<and>
        snd (redisGet env k r) = (case kv r k of None \<Rightarrow> Inl RedisNil | Some x \<Rightarrow> Inr x)) \<and>
     (\<forall>c m r. kv (fst (redisPublish env c m r)) = kv r)"

lemma redis_ok_dests:
  assumes "redis_ok env kv"
  shows "redisGetSet env k v r = (r', res) \<Longrightarrow> kv r' = (kv r)(k \<mapsto> v)"
    and "redisGetSet env k v r = (r', res) \<Longrightarrow>
      res = (case kv r k of None \<Rightarrow> Inl RedisNil | Some x \<Rightarrow> Inr x)"
    and "redisExpire env k t r = (r', u) \<Longrightarrow> 0 < t \<Longrightarrow> kv r' = kv r"
    and "redisDel env k r = (r', u) \<Longrightarrow> kv r' = (kv r)(k := None)"
    and "redisGet env k r = (r', res) \<Longrightarrow> kv r' = kv r"
    and "redisGet env k r = (r', res) \<Longrightarrow>
      res = (case kv r k of None \<Rightarrow> Inl RedisNil | Some x \<Rightarrow> Inr x)"
    and "redisPublish env ch m r = (r', e) \<Longrightarrow> kv r' = kv r"
  using assms unfolding redis_ok_def by (metis fst_conv snd_conv)+

section \<open>Facts\<close>

lemma getUserOnlineKey_inject [simp]:
  "getUserOnlineKey a w = getUserOnlineKey b w \<longleftrightarrow> a = b"
  by (simp add: getUserOnlineKey_def)

lemma getUserOnlineKey_cong: "Config w' = Config w \<Longrightarrow> getUserOnlineKey u w' = getUserOnlineKey u w"
  by (simp add: getUserOnlineKey_def)

lemma GetUserOnlineExpTime_pos: "0 < GetUserOnlineExpTime w"
  using keep_seconds_range(2) [of "cfgKeepTime (Config w)"]
  by (simp add: GetUserOnlineExpTime_def userOnlineCacheTime_def wrap64_id)

lemma user_online_json_good [simp]: "jgood (user_online_json u)"
  by (simp add: user_online_json_def)

lemma user_online_decode:
  "json_Unmarshal user_online_set (jprint (user_online_json u)) user_online0 = (u, None)"
proof -
  have "dec_struct user_online_set (user_online_json u) user_online0 = (u, None)"
    by (simp add: dec_struct_def user_online_json_def user_online_set_def user_online0_def
        name_eq_def to_lower_def Let_def)
  then show ?thesis by (simp add: json_Unmarshal_print)
qed

lemma user_online_print_nonempty [simp]: "jprint (user_online_json u) \<noteq> ''''"
  by (simp add: user_online_json_def)

text \<open>The redis operations change nothing but the redis state.\<close>

lemma GetSetUserOnlineInfo_frame [simp, ws_frame]:
  "Config (fst (GetSetUserOnlineInfo env uid u w)) = Config w"
  "serverIp (fst (GetSetUserOnlineInfo env uid u w)) = serverIp w"
  "ServerName (fst (GetSetUserOnlineInfo env uid u w)) = ServerName w"
  "connKeepTime (fst (GetSetUserOnlineInfo env uid u w)) = connKeepTime w"
  "conns (fst (GetSetUserOnlineInfo env uid u w)) = conns w"
  "clients (fst (GetSetUserOnlineInfo env uid u w)) = clients w"
  "nextClient (fst (GetSetUserOnlineInfo env uid u w)) = nextClient w"
  "tgroups (fst (GetSetUserOnlineInfo env uid u w)) = tgroups w"
  "nextGroup (fst (GetSetUserOnlineInfo env uid u w)) = nextGroup w"
  "Clients (fst (GetSetUserOnlineInfo env uid u w)) = Clients w"
  "ConnClientIdx (fst (GetSetUserOnlineInfo env uid u w)) = ConnClientIdx w"
  "TGroups (fst (GetSetUserOnlineInfo env uid u w)) = TGroups w"
  "ServiceName (fst (GetSetUserOnlineInfo env uid u w)) = ServiceName w"
  "rpcClients (fst (GetSetUserOnlineInfo env uid u w)) = rpcClients w"
  "net (fst (GetSetUserOnlineInfo env uid u w)) = net w"
  "gos (fst (GetSetUserOnlineInfo env uid u w)) = gos w"
  "clock (fst (GetSetUserOnlineInfo env uid u w)) = clock w"
  by (simp_all add: GetSetUserOnlineInfo_def json_Marshal_def Let_def split: prod.splits sum.splits)

lemma ResetUserOnlineExpTime_frame [simp, ws_frame]:
  "Config (fst (ResetUserOnlineExpTime env uid w)) = Config w"
  "serverIp (fst (ResetUserOnlineExpTime env uid w)) = serverIp w"
  "ServerName (fst (ResetUserOnlineExpTime env uid w)) = ServerName w"
  "connKeepTime (fst (ResetUserOnlineExpTime env uid w)) = connKeepTime w"
  "conns (fst (ResetUserOnlineExpTime env uid w)) = conns w"
  "clients (fst (ResetUserOnlineExpTime env uid w)) = clients w"
  "nextClient (fst (ResetUserOnlineExpTime env uid w)) = nextClient w"
  "tgroups (fst (ResetUserOnlineExpTime env uid w)) = tgroups w"
  "nextGroup (fst (ResetUserOnlineExpTime env uid w)) = nextGroup w"
  "Clients (fst (ResetUserOnlineExpTime env uid w)) = Clients w"
  "ConnClientIdx (fst (ResetUserOnlineExpTime env uid w)) = ConnClientIdx w"
  "TGroups (fst (ResetUserOnlineExpTime env uid w)) = TGroups w"
  "ServiceName (fst (ResetUserOnlineExpTime env uid w)) = ServiceName w"
  "rpcClients (fst (ResetUserOnlineExpTime env uid w)) = rpcClients w"
  "net (fst (ResetUserOnlineExpTime env uid w)) = net w"
  "gos (fst (ResetUserOnlineExpTime env uid w)) = gos w"
  "clock (fst (ResetUserOnlineExpTime env uid w)) = clock w"
  by (simp_all add: ResetUserOnlineExpTime_def Let_def split: prod.splits)

lemma DelUserOnlineInfo_frame [simp, ws_frame]:
  "Config (fst (DelUserOnlineInfo env uid w)) = Config w"
  "serverIp (fst (DelUserOnlineInfo env uid w)) = serverIp w"
  "ServerName (fst (DelUserOnlineInfo env uid w)) = ServerName w"
  "connKeepTime (fst (DelUserOnlineInfo env uid w)) = connKeepTime w"
  "conns (fst (DelUserOnlineInfo env uid w)) = conns w"
  "clients (fst (DelUserOnlineInfo env uid w)) = clients w"
  "nextClient (fst (DelUserOnlineInfo env uid w)) = nextClient w"
  "tgroups (fst (DelUserOnlineInfo env uid w)) = tgroups w"
  "nextGroup (fst (DelUserOnlineInfo env uid w)) = nextGroup w"
  "Clients (fst (DelUserOnlineInfo env uid w)) = Clients w"
  "ConnClientIdx (fst (DelUserOnlineInfo env uid w)) = ConnClientIdx w"
  "TGroups (fst (DelUserOnlineInfo env uid w)) = TGroups w"
  "ServiceName (fst (DelUserOnlineInfo env uid w)) = ServiceName w"
  "rpcClients (fst (DelUserOnlineInfo env uid w)) = rpcClients w"
  "net (fst (DelUserOnlineInfo env uid w)) = net w"
  "gos (fst (DelUserOnlineInfo env uid w)) = gos w"
  "clock (fst (DelUserOnlineInfo env uid w)) = clock w"
  by (simp_all add: DelUserOnlineInfo_def Let_def split: prod.splits)

lemma GetUserOnlineInfo_frame [simp, ws_frame]:
  "Config (fst (GetUserOnlineInfo env uid w)) = Config w"
  "serverIp (fst (GetUserOnlineInfo env uid w)) = serverIp w"
  "ServerName (fst (GetUserOnlineInfo env uid w)) = ServerName w"
  "connKeepTime (fst (GetUserOnlineInfo env uid w)) = connKeepTime w"
  "conns (fst (GetUserOnlineInfo env uid w)) = conns w"
  "clients (fst (GetUserOnlineInfo env uid w)) = clients w"
  "nextClient (fst (GetUserOnlineInfo env uid w)) = nextClient w"
  "tgroups (fst (GetUserOnlineInfo env uid w)) = tgroups w"
  "nextGroup (fst (GetUserOnlineInfo env uid w)) = nextGroup w"
  "Clients (fst (GetUserOnlineInfo env uid w)) = Clients w"
  "ConnClientIdx (fst (GetUserOnlineInfo env uid w)) = ConnClientIdx w"
  "TGroups (fst (GetUserOnlineInfo env uid w)) = TGroups w"
  "ServiceName (fst (GetUserOnlineInfo env uid w)) = ServiceName w"
  "rpcClients (fst (GetUserOnlineInfo env uid w)) = rpcClients w"
  "net (fst (GetUserOnlineInfo env uid w)) = net w"
  "gos (fst (GetUserOnlineInfo env uid w)) = gos w"
  "clock (fst (GetUserOnlineInfo env uid w)) = clock w"
  by (simp_all add: GetUserOnlineInfo_def Let_def split: prod.splits sum.splits)

lemma GetUserRpcServer_state: "fst (GetUserRpcServer env uid w) = fst (GetUserOnlineInfo env uid w)"
  by (simp add: GetUserRpcServer_def split: prod.splits option.splits)

text \<open>What the operations do to the values in redis.\<close>

lemma DelUserOnlineInfo_kv:
  "redis_ok env kv \<Longrightarrow>
     kv (redis (fst (DelUserOnlineInfo env uid w))) = (kv (redis w))(getUserOnlineKey uid w := None)"
  by (auto simp: DelUserOnlineInfo_def Let_def redis_ok_dests split: prod.splits)

lemma ResetUserOnlineExpTime_kv:
  "redis_ok env kv \<Longrightarrow> kv (redis (fst (ResetUserOnlineExpTime env uid w))) = kv (redis w)"
  by (auto simp: ResetUserOnlineExpTime_def Let_def redis_ok_dests GetUserOnlineExpTime_pos
      split: prod.splits)

lemma GetUserOnlineInfo_kv:
  "redis_ok env kv \<Longrightarrow> kv (redis (fst (GetUserOnlineInfo env uid w))) = kv (redis w)"
  by (auto simp: GetUserOnlineInfo_def Let_def redis_ok_dests split: prod.splits sum.splits)

text \<open>
  Setting an entry where the key holds a printed entry or nothing: the new entry is
  stored and the old one is returned.
\<close>

lemma GetSetUserOnlineInfo_spec:
  assumes "redis_ok env kv"
    and "kv (redis w) (getUserOnlineKey uid w) = map_option (\<lambda>u. jprint (user_online_json u)) old"
  shows "snd (GetSetUserOnlineInfo env uid u w) = (old, None)"
    and "kv (redis (fst (GetSetUserOnlineInfo env uid u w))) =
       (kv (redis w))(getUserOnlineKey uid w \<mapsto> jprint (user_online_json u))"
proof -
  let ?k = "getUserOnlineKey uid w" and ?v = "jprint (user_online_json u)"
  obtain r1 res where gs: "redisGetSet env ?k ?v (redis w) = (r1, res)" by fastforce
  obtain r2 x where ex: "redisExpire env ?k (GetUserOnlineExpTime (w\<lparr>redis := r1\<rparr>)) r1 = (r2, x)"
    by fastforce
  note k1 = redis_ok_dests(1) [OF assms(1) gs] and res = redis_ok_dests(2) [OF assms(1) gs]
  have k2: "kv r2 = kv r1"
    by (rule redis_ok_dests(3) [OF assms(1) ex GetUserOnlineExpTime_pos])
  show "snd (GetSetUserOnlineInfo env uid u w) = (old, None)"
    using assms(2) gs ex res
    by (cases old) (simp_all add: GetSetUserOnlineInfo_def json_Marshal_def user_online_decode Let_def)
  show "kv (redis (fst (GetSetUserOnlineInfo env uid u w))) = (kv (redis w))(?k \<mapsto> ?v)"
    using assms(2) gs ex res k1 k2
    by (cases old) (simp_all add: GetSetUserOnlineInfo_def json_Marshal_def user_online_decode Let_def)
qed

end
