(* ===== verification/WsClient.thy ===== *)
theory WsClient
  imports WsCache
begin

text \<open>
  A connected user (\<^verbatim>\<open>service/ws/client.go\<close>) and the client manager
  (\<^verbatim>\<open>service/ws/client_manager.go\<close>): construction, sending in the two modes, the send loop,
  closing, heartbeats, and the two tables of the manager. The client's group operations
  and its \<^verbatim>\<open>OnClose\<close> are in \<open>WsGroup\<close>, after the groups they call.

  A method that takes a lock and releases it before it returns is one atomic step here;
  the theory \<open>WsConcurrency\<close> looks at the places where locks are taken one after another.
\<close>

section \<open>The client\<close>

text \<open>A negative capacity makes \<^verbatim>\<open>make\<close> panic; \<^verbatim>\<open>InitWs\<close> has made it positive.\<close>

definition NewClient ::
    "kptr \<Rightarrow> string \<Rightarrow> string \<Rightarrow> opcode \<Rightarrow> ('k, 'r, 'n) ws \<Rightarrow> ('k, 'r, 'n) ws \<times> cptr" where
  "NewClient socket uid randUuid msgCode w =
     (let cTime = word_of_int (clock w div 1000);
          c = nextClient w;
          client = \<lparr>cUserId = uid, cRandUuid = randUuid, cState = StateOnline, cSocket = socket,
            cFirstTime = cTime, cHeartbeatTime = cTime, cTGroup = [], cMsgCode = msgCode,
            cSendChan = make_chan (nat (cfgClientMsgChanMax (Config w))), cCloseOnce = False\<rparr>
      in (w\<lparr>clients := (clients w)(c := client), nextClient := Suc c\<rparr>, c))"

definition IsInTGroup :: "cptr \<Rightarrow> string \<Rightarrow> ('k, 'r, 'n) ws \<Rightarrow> bool" where
  "IsInTGroup c group_id w \<longleftrightarrow> mget (cTGroup (clients w c)) group_id \<noteq> None"

definition GetKey :: "cptr \<Rightarrow> ('k, 'r, 'n) ws \<Rightarrow> string" where
  "GetKey c w = cUserId (clients w c)"

definition Client_Close ::
    "('k, 'r, 'n) ws_env \<Rightarrow> cptr \<Rightarrow> ('k, 'r, 'n) ws \<Rightarrow> ('k, 'r, 'n) ws" where
  "Client_Close env c w =
     (if cState (clients w c) = StateOffline then w
      else
        let w1 = upd_client c (\<lambda>x. x\<lparr>cState := StateOffline\<rparr>) w;
            k = cSocket (clients w c)
        in set_conn k (NetConnClose env (conns w1 k)) w1)"

text \<open>
  A panic while sending is recovered: the client is closed and the function returns the
  zero value of its result, no error. The error of a synchronous write is dropped.
\<close>

definition SafeSendMsg ::
    "('k, 'r, 'n) ws_env \<Rightarrow> cptr \<Rightarrow> bytes \<Rightarrow> int \<Rightarrow> ('k, 'r, 'n) ws \<Rightarrow>
     ('k, 'r, 'n) ws \<times> go_error option" where
  "SafeSendMsg env c msg sendType w =
     (let x = clients w c; k = cSocket x in
      if cState x \<noteq> StateOnline then (w, Some (NewImError ErrUserOffline))
      else if sendType = 1 then
        (case WriteMessage env (conns w k) (cMsgCode x) msg of
           Wrote k' \<Rightarrow> (set_conn k k' w, None)
         | WriteFailed k' err \<Rightarrow> (set_conn k k' w, None)
         | WritePanic k' \<Rightarrow> (Client_Close env c (set_conn k k' w), None))
      else
        (case try_send (cSendChan x) msg of
           Sent ch \<Rightarrow> (upd_client c (\<lambda>y. y\<lparr>cSendChan := ch\<rparr>) w, None)
         | ChanFull \<Rightarrow> (Client_Close env c w, Some (NewImError ErrSendChanFull))
         | SendPanic \<Rightarrow> (Client_Close env c w, None)))"

definition SendMsg ::
    "('k, 'r, 'n) ws_env \<Rightarrow> cptr \<Rightarrow> bytes \<Rightarrow> ('k, 'r, 'n) ws \<Rightarrow> ('k, 'r, 'n) ws \<times> go_error option" where
  "SendMsg env c msg w = SafeSendMsg env c msg 1 w"

definition SendMsgAsync ::
    "('k, 'r, 'n) ws_env \<Rightarrow> cptr \<Rightarrow> bytes \<Rightarrow> ('k, 'r, 'n) ws \<Rightarrow> ('k, 'r, 'n) ws \<times> go_error option" where
  "SendMsgAsync env c msg w = SafeSendMsg env c msg 2 w"

definition SendResponseMsg ::
    "('k, 'r, 'n) ws_env \<Rightarrow> cptr \<Rightarrow> response \<Rightarrow> int \<Rightarrow> ('k, 'r, 'n) ws \<Rightarrow>
     ('k, 'r, 'n) ws \<times> go_error option" where
  "SendResponseMsg env c response sync w =
     (case Response_Bytes response of
        Inl err \<Rightarrow> (w, Some err)
      | Inr headByte \<Rightarrow> SafeSendMsg env c headByte sync w)"

definition SendResponseData ::
    "('k, 'r, 'n) ws_env \<Rightarrow> cptr \<Rightarrow> response_data \<Rightarrow> string \<Rightarrow> string \<Rightarrow> int \<Rightarrow> ('k, 'r, 'n) ws \<Rightarrow>
     ('k, 'r, 'n) ws \<times> go_error option" where
  "SendResponseData env c rData seq cmd mstType w =
     (let response = NewResponse seq cmd mstType (Some rData)
      in SendResponseMsg env c response 1 w)"

definition SendErr ::
    "('k, 'r, 'n) ws_env \<Rightarrow> cptr \<Rightarrow> string \<Rightarrow> int \<Rightarrow> string \<Rightarrow> string \<Rightarrow> ('k, 'r, 'n) ws \<Rightarrow>
     ('k, 'r, 'n) ws \<times> go_error option" where
  "SendErr env c errMsg errType seq cmd w =
     (let a = NewErrAData errMsg errType;
          rData = NewResponseData (Some a) []
      in SendResponseData env c rData seq cmd MSG_TYPE_RESPONSE w)"

text \<open>
  The send loop, run for at most \<open>fuel\<close> messages. It waits on an empty open channel, ends
  on a closed one or at the first write that fails, closing the client; a panic of the
  library is not recovered here.
\<close>

datatype loop_status = LoopRunning | LoopWaiting | LoopExited | LoopPanicked

fun SendMsgLoop ::
    "('k, 'r, 'n) ws_env \<Rightarrow> nat \<Rightarrow> cptr \<Rightarrow> ('k, 'r, 'n) ws \<Rightarrow> ('k, 'r, 'n) ws \<times> loop_status" where
  "SendMsgLoop env 0 c w = (w, LoopRunning)"
| "SendMsgLoop env (Suc fuel) c w =
     (case try_recv (cSendChan (clients w c)) of
        RecvBlocked \<Rightarrow> (w, LoopWaiting)
      | RecvClosed \<Rightarrow> (Client_Close env c w, LoopExited)
      | Received msg ch \<Rightarrow>
          (let w1 = upd_client c (\<lambda>x. x\<lparr>cSendChan := ch\<rparr>) w; k = cSocket (clients w c) in
           case WriteMessage env (conns w1 k) (cMsgCode (clients w c)) msg of
             Wrote k' \<Rightarrow> SendMsgLoop env fuel c (set_conn k k' w1)
           | WriteFailed k' err \<Rightarrow> (Client_Close env c (set_conn k k' w1), LoopExited)
           | WritePanic k' \<Rightarrow> (Client_Close env c (set_conn k k' w1), LoopPanicked)))"

definition SetConnDeadLine ::
    "('k, 'r, 'n) ws_env \<Rightarrow> cptr \<Rightarrow> ('k, 'r, 'n) ws \<Rightarrow> ('k, 'r, 'n) ws" where
  "SetConnDeadLine env c w =
     (if connKeepTime w > 0 then
        (let k = cSocket (clients w c)
         in set_conn k (SetReadDeadline env (conns w k) (clock w * 1000000 + connKeepTime w)) w)
      else w)"

definition Heartbeat ::
    "('k, 'r, 'n) ws_env \<Rightarrow> cptr \<Rightarrow> ('k, 'r, 'n) ws \<Rightarrow> ('k, 'r, 'n) ws" where
  "Heartbeat env c w =
     (let w1 = fst (ResetUserOnlineExpTime env (cUserId (clients w c)) w);
          w2 = SetConnDeadLine env c w1
      in upd_client c (\<lambda>x. x\<lparr>cHeartbeatTime := word_of_int (clock w2 div 1000)\<rparr>) w2)"

section \<open>The client manager\<close>

definition AddClient :: "cptr \<Rightarrow> ('k, 'r, 'n) ws \<Rightarrow> ('k, 'r, 'n) ws" where
  "AddClient c w = w\<lparr>Clients := mput (cUserId (clients w c)) c (Clients w)\<rparr>"

definition AddClientConn :: "cptr \<Rightarrow> ('k, 'r, 'n) ws \<Rightarrow> ('k, 'r, 'n) ws" where
  "AddClientConn c w = w\<lparr>ConnClientIdx := mput (cSocket (clients w c)) c (ConnClientIdx w)\<rparr>"

definition OnConnect :: "cptr \<Rightarrow> ('k, 'r, 'n) ws \<Rightarrow> ('k, 'r, 'n) ws" where
  "OnConnect c w = AddClientConn c (AddClient c w)"

definition DelClient :: "string \<Rightarrow> ('k, 'r, 'n) ws \<Rightarrow> ('k, 'r, 'n) ws" where
  "DelClient uid w = w\<lparr>Clients := mdel uid (Clients w)\<rparr>"

definition DelClientConn :: "cptr \<Rightarrow> ('k, 'r, 'n) ws \<Rightarrow> ('k, 'r, 'n) ws" where
  "DelClientConn c w = w\<lparr>ConnClientIdx := mdel (cSocket (clients w c)) (ConnClientIdx w)\<rparr>"

definition GetClient :: "string \<Rightarrow> ('k, 'r, 'n) ws \<Rightarrow> cptr option" where
  "GetClient uid w = mget (Clients w) uid"

definition GetClientByConn :: "kptr \<Rightarrow> ('k, 'r, 'n) ws \<Rightarrow> cptr option" where
  "GetClientByConn conn w = mget (ConnClientIdx w) conn"

definition CloseClient ::
    "('k, 'r, 'n) ws_env \<Rightarrow> string \<Rightarrow> ('k, 'r, 'n) ws \<Rightarrow> ('k, 'r, 'n) ws" where
  "CloseClient env uid w =
     (case GetClient uid w of None \<Rightarrow> w | Some client \<Rightarrow> Client_Close env client w)"

definition StopClient ::
    "('k, 'r, 'n) ws_env \<Rightarrow> string \<Rightarrow> ('k, 'r, 'n) ws \<Rightarrow> ('k, 'r, 'n) ws" where
  "StopClient env uid w =
     (case GetClient uid w of Some client \<Rightarrow> Client_Close env client w | None \<Rightarrow> w)"

definition SendResponseToUser ::
    "('k, 'r, 'n) ws_env \<Rightarrow> string \<Rightarrow> response \<Rightarrow> ('k, 'r, 'n) ws \<Rightarrow>
     ('k, 'r, 'n) ws \<times> go_error option" where
  "SendResponseToUser env uid response w =
     (case GetClient uid w of
        None \<Rightarrow> (w, Some (NewImError ErrUserOffline))
      | Some client \<Rightarrow> SendResponseMsg env client response 2 w)"

definition SendResponseToUserByTgid ::
    "('k, 'r, 'n) ws_env \<Rightarrow> string \<Rightarrow> string \<Rightarrow> response \<Rightarrow> ('k, 'r, 'n) ws \<Rightarrow>
     ('k, 'r, 'n) ws \<times> go_error option" where
  "SendResponseToUserByTgid env uid tgid response w =
     (case GetClient uid w of
        None \<Rightarrow> (w, Some (NewImError ErrUserOffline))
      | Some client \<Rightarrow>
          if \<not> IsInTGroup client tgid w then (w, None)
          else SendResponseMsg env client response 2 w)"

definition ClientM_SendMsgToUser ::
    "('k, 'r, 'n) ws_env \<Rightarrow> string \<Rightarrow> bytes \<Rightarrow> ('k, 'r, 'n) ws \<Rightarrow>
     ('k, 'r, 'n) ws \<times> go_error option" where
  "ClientM_SendMsgToUser env uid msg w =
     (case GetClient uid w of
        None \<Rightarrow> (w, Some (NewImError ErrUserOffline))
      | Some client \<Rightarrow> SafeSendMsg env client msg 2 w)"

definition ClientM_SendMsgToUserByTgid ::
    "('k, 'r, 'n) ws_env \<Rightarrow> string \<Rightarrow> string \<Rightarrow> bytes \<Rightarrow> ('k, 'r, 'n) ws \<Rightarrow>
     ('k, 'r, 'n) ws \<times> go_error option" where
  "ClientM_SendMsgToUserByTgid env uid tgid msg w =
     (case GetClient uid w of
        None \<Rightarrow> (w, Some (NewImError ErrUserOffline))
      | Some client \<Rightarrow>
          if \<not> IsInTGroup client tgid w then (w, None)
          else SafeSendMsg env client msg 2 w)"

definition HasUser :: "string \<Rightarrow> ('k, 'r, 'n) ws \<Rightarrow> bool" where
  "HasUser uid w \<longleftrightarrow> GetClient uid w \<noteq> None"

definition GetClientsLen :: "('k, 'r, 'n) ws \<Rightarrow> int" where
  "GetClientsLen w = int (length (Clients w))"

definition GetManagerInfo :: "('k, 'r, 'n) ws \<Rightarrow> ws_manager_info" where
  "GetManagerInfo w = \<lparr>ClientsLen = GetClientsLen w, TGroupLen = int (length (TGroups w))\<rparr>"

text \<open>\<^verbatim>\<open>InitStart\<close> starts the send loop, registers the client and sets the deadline.\<close>

definition InitStart ::
    "('k, 'r, 'n) ws_env \<Rightarrow> cptr \<Rightarrow> ('k, 'r, 'n) ws \<Rightarrow> ('k, 'r, 'n) ws" where
  "InitStart env c w =
     (let w1 = w\<lparr>gos := gos w @ [GoSendMsgLoop c]\<rparr>; w2 = OnConnect c w1
      in SetConnDeadLine env c w2)"

section \<open>Frames: what the operations leave alone\<close>

lemma Client_Close_frame [simp, ws_frame]:
  "Config (Client_Close env c w) = Config w"
  "serverIp (Client_Close env c w) = serverIp w"
  "ServerName (Client_Close env c w) = ServerName w"
  "connKeepTime (Client_Close env c w) = connKeepTime w"
  "nextClient (Client_Close env c w) = nextClient w"
  "tgroups (Client_Close env c w) = tgroups w"
  "nextGroup (Client_Close env c w) = nextGroup w"
  "Clients (Client_Close env c w) = Clients w"
  "ConnClientIdx (Client_Close env c w) = ConnClientIdx w"
  "TGroups (Client_Close env c w) = TGroups w"
  "ServiceName (Client_Close env c w) = ServiceName w"
  "rpcClients (Client_Close env c w) = rpcClients w"
  "redis (Client_Close env c w) = redis w"
  "net (Client_Close env c w) = net w"
  "gos (Client_Close env c w) = gos w"
  "clock (Client_Close env c w) = clock w"
  by (simp_all add: Client_Close_def Let_def)

lemma SafeSendMsg_frame [simp, ws_frame]:
  "Config (fst (SafeSendMsg env c m t w)) = Config w"
  "serverIp (fst (SafeSendMsg env c m t w)) = serverIp w"
  "ServerName (fst (SafeSendMsg env c m t w)) = ServerName w"
  "connKeepTime (fst (SafeSendMsg env c m t w)) = connKeepTime w"
  "nextClient (fst (SafeSendMsg env c m t w)) = nextClient w"
  "tgroups (fst (SafeSendMsg env c m t w)) = tgroups w"
  "nextGroup (fst (SafeSendMsg env c m t w)) = nextGroup w"
  "Clients (fst (SafeSendMsg env c m t w)) = Clients w"
  "ConnClientIdx (fst (SafeSendMsg env c m t w)) = ConnClientIdx w"
  "TGroups (fst (SafeSendMsg env c m t w)) = TGroups w"
  "ServiceName (fst (SafeSendMsg env c m t w)) = ServiceName w"
  "rpcClients (fst (SafeSendMsg env c m t w)) = rpcClients w"
  "redis (fst (SafeSendMsg env c m t w)) = redis w"
  "net (fst (SafeSendMsg env c m t w)) = net w"
  "gos (fst (SafeSendMsg env c m t w)) = gos w"
  "clock (fst (SafeSendMsg env c m t w)) = clock w"
  by (simp_all add: SafeSendMsg_def Let_def split: send_result.splits write_result.splits)

lemma SetConnDeadLine_frame [simp, ws_frame]:
  "Config (SetConnDeadLine env c w) = Config w"
  "serverIp (SetConnDeadLine env c w) = serverIp w"
  "ServerName (SetConnDeadLine env c w) = ServerName w"
  "connKeepTime (SetConnDeadLine env c w) = connKeepTime w"
  "clients (SetConnDeadLine env c w) = clients w"
  "nextClient (SetConnDeadLine env c w) = nextClient w"
  "tgroups (SetConnDeadLine env c w) = tgroups w"
  "nextGroup (SetConnDeadLine env c w) = nextGroup w"
  "Clients (SetConnDeadLine env c w) = Clients w"
  "ConnClientIdx (SetConnDeadLine env c w) = ConnClientIdx w"
  "TGroups (SetConnDeadLine env c w) = TGroups w"
  "ServiceName (SetConnDeadLine env c w) = ServiceName w"
  "rpcClients (SetConnDeadLine env c w) = rpcClients w"
  "redis (SetConnDeadLine env c w) = redis w"
  "net (SetConnDeadLine env c w) = net w"
  "gos (SetConnDeadLine env c w) = gos w"
  "clock (SetConnDeadLine env c w) = clock w"
  by (simp_all add: SetConnDeadLine_def Let_def)

lemma SendResponseMsg_frame [simp, ws_frame]:
  "Config (fst (SendResponseMsg env c r t w)) = Config w"
  "serverIp (fst (SendResponseMsg env c r t w)) = serverIp w"
  "ServerName (fst (SendResponseMsg env c r t w)) = ServerName w"
  "connKeepTime (fst (SendResponseMsg env c r t w)) = connKeepTime w"
  "nextClient (fst (SendResponseMsg env c r t w)) = nextClient w"
  "tgroups (fst (SendResponseMsg env c r t w)) = tgroups w"
  "nextGroup (fst (SendResponseMsg env c r t w)) = nextGroup w"
  "Clients (fst (SendResponseMsg env c r t w)) = Clients w"
  "ConnClientIdx (fst (SendResponseMsg env c r t w)) = ConnClientIdx w"
  "TGroups (fst (SendResponseMsg env c r t w)) = TGroups w"
  "ServiceName (fst (SendResponseMsg env c r t w)) = ServiceName w"
  "rpcClients (fst (SendResponseMsg env c r t w)) = rpcClients w"
  "redis (fst (SendResponseMsg env c r t w)) = redis w"
  "net (fst (SendResponseMsg env c r t w)) = net w"
  "gos (fst (SendResponseMsg env c r t w)) = gos w"
  "clock (fst (SendResponseMsg env c r t w)) = clock w"
  by (simp_all add: SendResponseMsg_def split: sum.splits)

lemma Heartbeat_frame [simp, ws_frame]:
  "Config (Heartbeat env c w) = Config w"
  "serverIp (Heartbeat env c w) = serverIp w"
  "ServerName (Heartbeat env c w) = ServerName w"
  "connKeepTime (Heartbeat env c w) = connKeepTime w"
  "nextClient (Heartbeat env c w) = nextClient w"
  "tgroups (Heartbeat env c w) = tgroups w"
  "nextGroup (Heartbeat env c w) = nextGroup w"
  "Clients (Heartbeat env c w) = Clients w"
  "ConnClientIdx (Heartbeat env c w) = ConnClientIdx w"
  "TGroups (Heartbeat env c w) = TGroups w"
  "ServiceName (Heartbeat env c w) = ServiceName w"
  "rpcClients (Heartbeat env c w) = rpcClients w"
  "net (Heartbeat env c w) = net w"
  "gos (Heartbeat env c w) = gos w"
  "clock (Heartbeat env c w) = clock w"
  by (simp_all add: Heartbeat_def Let_def)

lemma Client_Close_shape: "\<exists>C K. Client_Close env c w = w\<lparr>clients := C, conns := K\<rparr>"
proof (cases "cState (clients w c) = StateOffline")
  case True
  then have "Client_Close env c w = w\<lparr>clients := clients w, conns := conns w\<rparr>"
    by (simp add: Client_Close_def)
  then show ?thesis by blast
qed (auto simp: Client_Close_def upd_client_def set_conn_def Let_def)

lemma SendMsgLoop_shape: "\<exists>C K. fst (SendMsgLoop env n c w) = w\<lparr>clients := C, conns := K\<rparr>"
proof (induction n arbitrary: w)
  case 0
  have "w = w\<lparr>clients := clients w, conns := conns w\<rparr>" by simp
  then show ?case by (metis SendMsgLoop.simps(1) fst_conv)
next
  case (Suc n)
  have id: "\<exists>C K. w = w\<lparr>clients := C, conns := K\<rparr>"
    by (rule exI [of _ "clients w"], rule exI [of _ "conns w"]) simp
  have step: "\<exists>C K. x = w\<lparr>clients := C, conns := K\<rparr>"
    if "\<exists>C K. x = (set_conn k y (upd_client c f w))\<lparr>clients := C, conns := K\<rparr>" for x k y f
    using that by (auto simp: set_conn_def upd_client_def)
  show ?case
  proof (cases "try_recv (cSendChan (clients w c))")
    case (Received m ch)
    then show ?thesis
      using Suc.IH Client_Close_shape
      by (auto simp: Let_def intro!: step split: write_result.splits)
  next
    case RecvBlocked
    with id show ?thesis by simp
  next
    case RecvClosed
    with Client_Close_shape show ?thesis by simp
  qed
qed

lemma SendMsgLoop_frame [simp, ws_frame]:
  "Config (fst (SendMsgLoop env n c w)) = Config w"
  "serverIp (fst (SendMsgLoop env n c w)) = serverIp w"
  "ServerName (fst (SendMsgLoop env n c w)) = ServerName w"
  "connKeepTime (fst (SendMsgLoop env n c w)) = connKeepTime w"
  "nextClient (fst (SendMsgLoop env n c w)) = nextClient w"
  "tgroups (fst (SendMsgLoop env n c w)) = tgroups w"
  "nextGroup (fst (SendMsgLoop env n c w)) = nextGroup w"
  "Clients (fst (SendMsgLoop env n c w)) = Clients w"
  "ConnClientIdx (fst (SendMsgLoop env n c w)) = ConnClientIdx w"
  "TGroups (fst (SendMsgLoop env n c w)) = TGroups w"
  "ServiceName (fst (SendMsgLoop env n c w)) = ServiceName w"
  "rpcClients (fst (SendMsgLoop env n c w)) = rpcClients w"
  "redis (fst (SendMsgLoop env n c w)) = redis w"
  "net (fst (SendMsgLoop env n c w)) = net w"
  "gos (fst (SendMsgLoop env n c w)) = gos w"
  "clock (fst (SendMsgLoop env n c w)) = clock w"
  using SendMsgLoop_shape [of env n c w] by auto

lemma Client_Close_client [simp, ws_frame]:
  "cUserId (clients (Client_Close env c w) d) = cUserId (clients w d)"
  "cRandUuid (clients (Client_Close env c w) d) = cRandUuid (clients w d)"
  "cSocket (clients (Client_Close env c w) d) = cSocket (clients w d)"
  "cFirstTime (clients (Client_Close env c w) d) = cFirstTime (clients w d)"
  "cTGroup (clients (Client_Close env c w) d) = cTGroup (clients w d)"
  "cMsgCode (clients (Client_Close env c w) d) = cMsgCode (clients w d)"
  "cCloseOnce (clients (Client_Close env c w) d) = cCloseOnce (clients w d)"
  "cHeartbeatTime (clients (Client_Close env c w) d) = cHeartbeatTime (clients w d)"
  "cSendChan (clients (Client_Close env c w) d) = cSendChan (clients w d)"
  by (auto simp: Client_Close_def Let_def)

lemma SafeSendMsg_client [simp, ws_frame]:
  "cUserId (clients (fst (SafeSendMsg env c m t w)) d) = cUserId (clients w d)"
  "cRandUuid (clients (fst (SafeSendMsg env c m t w)) d) = cRandUuid (clients w d)"
  "cSocket (clients (fst (SafeSendMsg env c m t w)) d) = cSocket (clients w d)"
  "cFirstTime (clients (fst (SafeSendMsg env c m t w)) d) = cFirstTime (clients w d)"
  "cTGroup (clients (fst (SafeSendMsg env c m t w)) d) = cTGroup (clients w d)"
  "cMsgCode (clients (fst (SafeSendMsg env c m t w)) d) = cMsgCode (clients w d)"
  "cCloseOnce (clients (fst (SafeSendMsg env c m t w)) d) = cCloseOnce (clients w d)"
  "cHeartbeatTime (clients (fst (SafeSendMsg env c m t w)) d) = cHeartbeatTime (clients w d)"
  by (auto simp: SafeSendMsg_def Let_def split: send_result.splits write_result.splits)

lemma SendResponseMsg_client [simp, ws_frame]:
  "cUserId (clients (fst (SendResponseMsg env c r t w)) d) = cUserId (clients w d)"
  "cRandUuid (clients (fst (SendResponseMsg env c r t w)) d) = cRandUuid (clients w d)"
  "cSocket (clients (fst (SendResponseMsg env c r t w)) d) = cSocket (clients w d)"
  "cFirstTime (clients (fst (SendResponseMsg env c r t w)) d) = cFirstTime (clients w d)"
  "cTGroup (clients (fst (SendResponseMsg env c r t w)) d) = cTGroup (clients w d)"
  "cMsgCode (clients (fst (SendResponseMsg env c r t w)) d) = cMsgCode (clients w d)"
  "cCloseOnce (clients (fst (SendResponseMsg env c r t w)) d) = cCloseOnce (clients w d)"
  "cHeartbeatTime (clients (fst (SendResponseMsg env c r t w)) d) = cHeartbeatTime (clients w d)"
  by (auto simp: SendResponseMsg_def split: sum.splits)

lemma Heartbeat_client [simp, ws_frame]:
  "cUserId (clients (Heartbeat env c w) d) = cUserId (clients w d)"
  "cRandUuid (clients (Heartbeat env c w) d) = cRandUuid (clients w d)"
  "cSocket (clients (Heartbeat env c w) d) = cSocket (clients w d)"
  "cFirstTime (clients (Heartbeat env c w) d) = cFirstTime (clients w d)"
  "cTGroup (clients (Heartbeat env c w) d) = cTGroup (clients w d)"
  "cMsgCode (clients (Heartbeat env c w) d) = cMsgCode (clients w d)"
  "cCloseOnce (clients (Heartbeat env c w) d) = cCloseOnce (clients w d)"
  "cSendChan (clients (Heartbeat env c w) d) = cSendChan (clients w d)"
  "cState (clients (Heartbeat env c w) d) = cState (clients w d)"
  by (auto simp: Heartbeat_def Let_def SetConnDeadLine_def)

lemma SetConnDeadLine_clients [simp]: "clients (SetConnDeadLine env c w) = clients w"
  by (simp add: SetConnDeadLine_def Let_def)

lemma Client_Close_state [simp]:
  "cState (clients (Client_Close env c w) d) = (if d = c then StateOffline else cState (clients w d))"
  by (auto simp: Client_Close_def Let_def)

lemma Client_Close_idem [simp]: "Client_Close env c (Client_Close env c w) = Client_Close env c w"
  by (simp add: Client_Close_def [of env c "Client_Close env c w"])

lemma SafeSendMsg_other:
  "d \<noteq> c \<Longrightarrow> clients (fst (SafeSendMsg env c m t w)) d = clients w d"
  by (auto simp: SafeSendMsg_def Client_Close_def Let_def
      split: send_result.splits write_result.splits)

lemma SafeSendMsg_closed [simp]:
  "cclosed (cSendChan (clients (fst (SafeSendMsg env c m t w)) d)) = cclosed (cSendChan (clients w d))"
  by (auto simp: SafeSendMsg_def try_send_iffs Let_def
      split: send_result.splits write_result.splits)

lemma SafeSendMsg_chan_ok:
  "chan_ok (cSendChan (clients w d)) \<Longrightarrow> chan_ok (cSendChan (clients (fst (SafeSendMsg env c m t w)) d))"
  by (auto simp: SafeSendMsg_def Let_def dest: chan_ok_try_send
      split: send_result.splits write_result.splits)

text \<open>A client that is offline never comes back.\<close>

lemma SafeSendMsg_offline:
  "cState (clients w d) = StateOffline \<Longrightarrow>
     cState (clients (fst (SafeSendMsg env c m t w)) d) = StateOffline"
  by (auto simp: SafeSendMsg_def Let_def split: send_result.splits write_result.splits)

lemma client_state_not [simp]:
  "(s \<noteq> StateOnline) = (s = StateOffline)" "(s \<noteq> StateOffline) = (s = StateOnline)"
  by (cases s; simp)+

end
