(* ===== verification/WsGroup.thy ===== *)
theory WsGroup
  imports WsClient
begin

text \<open>
  Temporary groups (\<^verbatim>\<open>service/ws/tgroup.go\<close>), their manager
  (\<^verbatim>\<open>service/ws/tgroup_manager.go\<close>) and the operations of a client on groups together with
  its \<^verbatim>\<open>OnClose\<close> (\<^verbatim>\<open>service/ws/client.go\<close>).

  A call that can block or retry without end returns an option: \<open>None\<close> is a call that
  does not return.
\<close>

section \<open>Groups\<close>

definition NewTGroup :: "string \<Rightarrow> ('k, 'r, 'n) ws \<Rightarrow> ('k, 'r, 'n) ws \<times> gptr" where
  "NewTGroup gid w =
     (let g = nextGroup w;
          tGroup = \<lparr>gState = 1, gUsers = [], gGid = gid,
            gSend = make_chan (nat (cfgGroupMsgChanMax (Config w)))\<rparr>
      in (w\<lparr>tgroups := (tgroups w)(g := tGroup), nextGroup := Suc g,
            gos := gos w @ [GoListenSendChan g]\<rparr>, g))"

definition UserJoin :: "gptr \<Rightarrow> string \<Rightarrow> ('k, 'r, 'n) ws \<Rightarrow> ('k, 'r, 'n) ws \<times> bool" where
  "UserJoin g uid w =
     (if gState (tgroups w g) = 2 then (w, False)
      else (upd_group g (\<lambda>x. x\<lparr>gUsers := mput uid True (gUsers x)\<rparr>) w, True))"

text \<open>The manager's part of a deletion: only the group the table holds is removed.\<close>

definition TGroupM_DeleteTGroup :: "gptr \<Rightarrow> ('k, 'r, 'n) ws \<Rightarrow> ('k, 'r, 'n) ws" where
  "TGroupM_DeleteTGroup g w =
     (case mget (TGroups w) (gGid (tgroups w g)) of
        None \<Rightarrow> w
      | Some oTGroup \<Rightarrow>
          if oTGroup \<noteq> g then w
          else w\<lparr>TGroups := mdel (gGid (tgroups w g)) (TGroups w)\<rparr>)"

text \<open>Closing a closed channel panics; the panic is recovered, with the state already set.\<close>

definition CloseSend :: "gptr \<Rightarrow> ('k, 'r, 'n) ws \<Rightarrow> ('k, 'r, 'n) ws" where
  "CloseSend g w =
     (if gState (tgroups w g) = 2 then w
      else
        let w1 = upd_group g (\<lambda>x. x\<lparr>gState := 2\<rparr>) w in
        case close_chan (gSend (tgroups w1 g)) of
          None \<Rightarrow> w1
        | Some ch \<Rightarrow> upd_group g (\<lambda>x. x\<lparr>gSend := ch\<rparr>) w1)"

definition DeleteTGroup :: "gptr \<Rightarrow> ('k, 'r, 'n) ws \<Rightarrow> ('k, 'r, 'n) ws" where
  "DeleteTGroup g w = CloseSend g (TGroupM_DeleteTGroup g w)"

definition UserLeave :: "gptr \<Rightarrow> string \<Rightarrow> ('k, 'r, 'n) ws \<Rightarrow> ('k, 'r, 'n) ws" where
  "UserLeave g uid w =
     (let w1 = upd_group g (\<lambda>x. x\<lparr>gUsers := mdel uid (gUsers x)\<rparr>) w in
      if length (gUsers (tgroups w1 g)) = 0 then DeleteTGroup g w1 else w1)"

text \<open>A send on a full channel blocks: the call does not return until the listener reads.\<close>

definition SendChan :: "gptr \<Rightarrow> group_msg \<Rightarrow> ('k, 'r, 'n) ws \<Rightarrow> ('k, 'r, 'n) ws option" where
  "SendChan g groupMsg w =
     (if gState (tgroups w g) = 2 then Some w
      else
        case try_send (gSend (tgroups w g)) groupMsg of
          Sent ch \<Rightarrow> Some (upd_group g (\<lambda>x. x\<lparr>gSend := ch\<rparr>) w)
        | ChanFull \<Rightarrow> None
        | SendPanic \<Rightarrow> Some w)"

text \<open>One round of the loop over the members.\<close>

definition send_to_user ::
    "('k, 'r, 'n) ws_env \<Rightarrow> group_msg \<Rightarrow> string \<Rightarrow> ('k, 'r, 'n) ws \<Rightarrow> ('k, 'r, 'n) ws" where
  "send_to_user env groupMsg uid w =
     (if uid = gmExceptUid groupMsg then w
      else
        case GetClient uid w of
          None \<Rightarrow> w
        | Some client \<Rightarrow> fst (SafeSendMsg env client (gmMsg groupMsg) 2 w))"

definition SendToUsers ::
    "('k, 'r, 'n) ws_env \<Rightarrow> gptr \<Rightarrow> group_msg \<Rightarrow> ('k, 'r, 'n) ws \<Rightarrow> ('k, 'r, 'n) ws" where
  "SendToUsers env g groupMsg w =
     (if gState (tgroups w g) = 2 then w
      else fold (send_to_user env groupMsg) (RangeOrder env (mkeys (gUsers (tgroups w g)))) w)"

text \<open>The listener of a group, run for at most \<open>fuel\<close> messages.\<close>

fun ListenSendChan ::
    "('k, 'r, 'n) ws_env \<Rightarrow> nat \<Rightarrow> gptr \<Rightarrow> ('k, 'r, 'n) ws \<Rightarrow> ('k, 'r, 'n) ws \<times> loop_status" where
  "ListenSendChan env 0 g w = (w, LoopRunning)"
| "ListenSendChan env (Suc fuel) g w =
     (case try_recv (gSend (tgroups w g)) of
        RecvBlocked \<Rightarrow> (w, LoopWaiting)
      | RecvClosed \<Rightarrow> (DeleteTGroup g w, LoopExited)
      | Received m ch \<Rightarrow>
          (let w1 = upd_group g (\<lambda>x. x\<lparr>gSend := ch\<rparr>) w
           in ListenSendChan env fuel g (SendToUsers env g m w1)))"

section \<open>The group manager\<close>

definition GetTGroup :: "string \<Rightarrow> ('k, 'r, 'n) ws \<Rightarrow> gptr option" where
  "GetTGroup gid w = mget (TGroups w) gid"

definition GetOrCreateTGroup :: "string \<Rightarrow> ('k, 'r, 'n) ws \<Rightarrow> ('k, 'r, 'n) ws \<times> gptr" where
  "GetOrCreateTGroup gid w =
     (case GetTGroup gid w of
        Some tGroup \<Rightarrow> (w, tGroup)
      | None \<Rightarrow>
          (case mget (TGroups w) gid of
             Some tGroup \<Rightarrow> (w, tGroup)
           | None \<Rightarrow>
               (let (w1, tGroup) = NewTGroup gid w
                in (w1\<lparr>TGroups := mput gid tGroup (TGroups w1)\<rparr>, tGroup))))"

text \<open>Joining retries with the group table's current group as long as the group is deleted.\<close>

partial_function (option) UserJoinTGroup ::
    "string \<Rightarrow> string \<Rightarrow> ('k, 'r, 'n) ws \<Rightarrow> (('k, 'r, 'n) ws \<times> bool) option" where
  "UserJoinTGroup gid uid w =
     (let (w1, tGroup) = GetOrCreateTGroup gid w;
          (w2, ok) = UserJoin tGroup uid w1
      in if ok then Some (w2, ok) else UserJoinTGroup gid uid w2)"

definition UserOutTGroup :: "string \<Rightarrow> string \<Rightarrow> ('k, 'r, 'n) ws \<Rightarrow> ('k, 'r, 'n) ws \<times> bool" where
  "UserOutTGroup gid uid w =
     (case GetTGroup gid w of
        None \<Rightarrow> (w, False)
      | Some tGroup \<Rightarrow> (UserLeave tGroup uid w, True))"

definition SendMessageToTGroup ::
    "string \<Rightarrow> group_msg \<Rightarrow> ('k, 'r, 'n) ws \<Rightarrow> (('k, 'r, 'n) ws \<times> go_error option) option" where
  "SendMessageToTGroup gid groupMsg w =
     (case GetTGroup gid w of
        None \<Rightarrow> Some (w, None)
      | Some tGroup \<Rightarrow> map_option (\<lambda>w1. (w1, None)) (SendChan tGroup groupMsg w))"

section \<open>The groups of a client, and its end\<close>

definition InTGroup :: "cptr \<Rightarrow> string \<Rightarrow> ('k, 'r, 'n) ws \<Rightarrow> ('k, 'r, 'n) ws option" where
  "InTGroup c group_id w =
     (case UserJoinTGroup group_id (cUserId (clients w c)) w of
        None \<Rightarrow> None
      | Some (w1, _) \<Rightarrow> Some (upd_client c (\<lambda>x. x\<lparr>cTGroup := mput group_id True (cTGroup x)\<rparr>) w1))"

definition OutTGroup :: "cptr \<Rightarrow> string \<Rightarrow> ('k, 'r, 'n) ws \<Rightarrow> ('k, 'r, 'n) ws" where
  "OutTGroup c group_id w =
     (let w1 = fst (UserOutTGroup group_id (cUserId (clients w c)) w)
      in upd_client c (\<lambda>x. x\<lparr>cTGroup := mdel group_id (cTGroup x)\<rparr>) w1)"

text \<open>The variant that is called with the lock of the client's groups held.\<close>

definition outTGroup_locked :: "cptr \<Rightarrow> string \<Rightarrow> ('k, 'r, 'n) ws \<Rightarrow> ('k, 'r, 'n) ws" where
  "outTGroup_locked c group_id w =
     (let w1 = fst (UserOutTGroup group_id (cUserId (clients w c)) w)
      in upd_client c (\<lambda>x. x\<lparr>cTGroup := mdel group_id (cTGroup x)\<rparr>) w1)"

text \<open>
  The loop removes the key it is visiting, which Go allows; every key that was there at
  the start is visited once.
\<close>

definition OutAllTGroup ::
    "('k, 'r, 'n) ws_env \<Rightarrow> cptr \<Rightarrow> ('k, 'r, 'n) ws \<Rightarrow> ('k, 'r, 'n) ws" where
  "OutAllTGroup env c w =
     fold (outTGroup_locked c) (RangeOrder env (mkeys (cTGroup (clients w c)))) w"

text \<open>
  The once-only end of a client. \<open>cb\<close> is the application's callback, nil or not. A panic
  of the close of the channel is recovered: the callback is skipped and the result is
  false.
\<close>

definition Client_OnClose ::
    "('k, 'r, 'n) ws_env \<Rightarrow> (cptr \<Rightarrow> ('k, 'r, 'n) ws \<Rightarrow> ('k, 'r, 'n) ws) option \<Rightarrow> cptr \<Rightarrow>
     ('k, 'r, 'n) ws \<Rightarrow> ('k, 'r, 'n) ws \<times> bool" where
  "Client_OnClose env cb c w =
     (if cCloseOnce (clients w c) then (w, False)
      else
        let w1 = upd_client c (\<lambda>x. x\<lparr>cCloseOnce := True, cState := StateOffline\<rparr>) w;
            w2 = OutAllTGroup env c w1;
            w3 = DelClient (GetKey c w2) w2;
            w4 = DelClientConn c w3;
            w5 = fst (DelUserOnlineInfo env (GetKey c w4) w4)
        in case close_chan (cSendChan (clients w5 c)) of
             None \<Rightarrow> (w5, False)
           | Some ch \<Rightarrow>
               (let w6 = upd_client c (\<lambda>x. x\<lparr>cSendChan := ch\<rparr>) w5
                in (case cb of None \<Rightarrow> w6 | Some f \<Rightarrow> f c w6, True)))"

section \<open>Frames\<close>

lemma TGroupM_DeleteTGroup_frame [simp, ws_frame]:
  "Config (TGroupM_DeleteTGroup g w) = Config w"
  "serverIp (TGroupM_DeleteTGroup g w) = serverIp w"
  "ServerName (TGroupM_DeleteTGroup g w) = ServerName w"
  "connKeepTime (TGroupM_DeleteTGroup g w) = connKeepTime w"
  "conns (TGroupM_DeleteTGroup g w) = conns w"
  "clients (TGroupM_DeleteTGroup g w) = clients w"
  "nextClient (TGroupM_DeleteTGroup g w) = nextClient w"
  "tgroups (TGroupM_DeleteTGroup g w) = tgroups w"
  "nextGroup (TGroupM_DeleteTGroup g w) = nextGroup w"
  "Clients (TGroupM_DeleteTGroup g w) = Clients w"
  "ConnClientIdx (TGroupM_DeleteTGroup g w) = ConnClientIdx w"
  "ServiceName (TGroupM_DeleteTGroup g w) = ServiceName w"
  "rpcClients (TGroupM_DeleteTGroup g w) = rpcClients w"
  "redis (TGroupM_DeleteTGroup g w) = redis w"
  "net (TGroupM_DeleteTGroup g w) = net w"
  "gos (TGroupM_DeleteTGroup g w) = gos w"
  "clock (TGroupM_DeleteTGroup g w) = clock w"
  by (simp_all add: TGroupM_DeleteTGroup_def split: option.splits)

lemma CloseSend_frame [simp, ws_frame]:
  "Config (CloseSend g w) = Config w"
  "serverIp (CloseSend g w) = serverIp w"
  "ServerName (CloseSend g w) = ServerName w"
  "connKeepTime (CloseSend g w) = connKeepTime w"
  "conns (CloseSend g w) = conns w"
  "clients (CloseSend g w) = clients w"
  "nextClient (CloseSend g w) = nextClient w"
  "nextGroup (CloseSend g w) = nextGroup w"
  "Clients (CloseSend g w) = Clients w"
  "ConnClientIdx (CloseSend g w) = ConnClientIdx w"
  "TGroups (CloseSend g w) = TGroups w"
  "ServiceName (CloseSend g w) = ServiceName w"
  "rpcClients (CloseSend g w) = rpcClients w"
  "redis (CloseSend g w) = redis w"
  "net (CloseSend g w) = net w"
  "gos (CloseSend g w) = gos w"
  "clock (CloseSend g w) = clock w"
  by (simp_all add: CloseSend_def Let_def split: option.splits)

lemma DeleteTGroup_frame [simp, ws_frame]:
  "Config (DeleteTGroup g w) = Config w"
  "serverIp (DeleteTGroup g w) = serverIp w"
  "ServerName (DeleteTGroup g w) = ServerName w"
  "connKeepTime (DeleteTGroup g w) = connKeepTime w"
  "conns (DeleteTGroup g w) = conns w"
  "clients (DeleteTGroup g w) = clients w"
  "nextClient (DeleteTGroup g w) = nextClient w"
  "nextGroup (DeleteTGroup g w) = nextGroup w"
  "Clients (DeleteTGroup g w) = Clients w"
  "ConnClientIdx (DeleteTGroup g w) = ConnClientIdx w"
  "ServiceName (DeleteTGroup g w) = ServiceName w"
  "rpcClients (DeleteTGroup g w) = rpcClients w"
  "redis (DeleteTGroup g w) = redis w"
  "net (DeleteTGroup g w) = net w"
  "gos (DeleteTGroup g w) = gos w"
  "clock (DeleteTGroup g w) = clock w"
  by (simp_all add: DeleteTGroup_def)

lemma UserLeave_frame [simp, ws_frame]:
  "Config (UserLeave g u w) = Config w"
  "serverIp (UserLeave g u w) = serverIp w"
  "ServerName (UserLeave g u w) = ServerName w"
  "connKeepTime (UserLeave g u w) = connKeepTime w"
  "conns (UserLeave g u w) = conns w"
  "clients (UserLeave g u w) = clients w"
  "nextClient (UserLeave g u w) = nextClient w"
  "nextGroup (UserLeave g u w) = nextGroup w"
  "Clients (UserLeave g u w) = Clients w"
  "ConnClientIdx (UserLeave g u w) = ConnClientIdx w"
  "ServiceName (UserLeave g u w) = ServiceName w"
  "rpcClients (UserLeave g u w) = rpcClients w"
  "redis (UserLeave g u w) = redis w"
  "net (UserLeave g u w) = net w"
  "gos (UserLeave g u w) = gos w"
  "clock (UserLeave g u w) = clock w"
  by (simp_all add: UserLeave_def Let_def)

lemma UserJoin_frame [simp, ws_frame]:
  "Config (fst (UserJoin g u w)) = Config w"
  "serverIp (fst (UserJoin g u w)) = serverIp w"
  "ServerName (fst (UserJoin g u w)) = ServerName w"
  "connKeepTime (fst (UserJoin g u w)) = connKeepTime w"
  "conns (fst (UserJoin g u w)) = conns w"
  "clients (fst (UserJoin g u w)) = clients w"
  "nextClient (fst (UserJoin g u w)) = nextClient w"
  "nextGroup (fst (UserJoin g u w)) = nextGroup w"
  "Clients (fst (UserJoin g u w)) = Clients w"
  "ConnClientIdx (fst (UserJoin g u w)) = ConnClientIdx w"
  "TGroups (fst (UserJoin g u w)) = TGroups w"
  "ServiceName (fst (UserJoin g u w)) = ServiceName w"
  "rpcClients (fst (UserJoin g u w)) = rpcClients w"
  "redis (fst (UserJoin g u w)) = redis w"
  "net (fst (UserJoin g u w)) = net w"
  "gos (fst (UserJoin g u w)) = gos w"
  "clock (fst (UserJoin g u w)) = clock w"
  by (simp_all add: UserJoin_def)

lemma GetOrCreateTGroup_frame [simp, ws_frame]:
  "Config (fst (GetOrCreateTGroup gid w)) = Config w"
  "serverIp (fst (GetOrCreateTGroup gid w)) = serverIp w"
  "ServerName (fst (GetOrCreateTGroup gid w)) = ServerName w"
  "connKeepTime (fst (GetOrCreateTGroup gid w)) = connKeepTime w"
  "conns (fst (GetOrCreateTGroup gid w)) = conns w"
  "clients (fst (GetOrCreateTGroup gid w)) = clients w"
  "nextClient (fst (GetOrCreateTGroup gid w)) = nextClient w"
  "Clients (fst (GetOrCreateTGroup gid w)) = Clients w"
  "ConnClientIdx (fst (GetOrCreateTGroup gid w)) = ConnClientIdx w"
  "ServiceName (fst (GetOrCreateTGroup gid w)) = ServiceName w"
  "rpcClients (fst (GetOrCreateTGroup gid w)) = rpcClients w"
  "redis (fst (GetOrCreateTGroup gid w)) = redis w"
  "net (fst (GetOrCreateTGroup gid w)) = net w"
  "clock (fst (GetOrCreateTGroup gid w)) = clock w"
  by (simp_all add: GetOrCreateTGroup_def NewTGroup_def Let_def split: option.splits)

lemma UserOutTGroup_frame [simp, ws_frame]:
  "Config (fst (UserOutTGroup gid u w)) = Config w"
  "serverIp (fst (UserOutTGroup gid u w)) = serverIp w"
  "ServerName (fst (UserOutTGroup gid u w)) = ServerName w"
  "connKeepTime (fst (UserOutTGroup gid u w)) = connKeepTime w"
  "conns (fst (UserOutTGroup gid u w)) = conns w"
  "clients (fst (UserOutTGroup gid u w)) = clients w"
  "nextClient (fst (UserOutTGroup gid u w)) = nextClient w"
  "nextGroup (fst (UserOutTGroup gid u w)) = nextGroup w"
  "Clients (fst (UserOutTGroup gid u w)) = Clients w"
  "ConnClientIdx (fst (UserOutTGroup gid u w)) = ConnClientIdx w"
  "ServiceName (fst (UserOutTGroup gid u w)) = ServiceName w"
  "rpcClients (fst (UserOutTGroup gid u w)) = rpcClients w"
  "redis (fst (UserOutTGroup gid u w)) = redis w"
  "net (fst (UserOutTGroup gid u w)) = net w"
  "gos (fst (UserOutTGroup gid u w)) = gos w"
  "clock (fst (UserOutTGroup gid u w)) = clock w"
  by (simp_all add: UserOutTGroup_def split: option.splits)

lemma send_to_user_frame [simp, ws_frame]:
  "Config (send_to_user env m u w) = Config w"
  "serverIp (send_to_user env m u w) = serverIp w"
  "ServerName (send_to_user env m u w) = ServerName w"
  "connKeepTime (send_to_user env m u w) = connKeepTime w"
  "nextClient (send_to_user env m u w) = nextClient w"
  "tgroups (send_to_user env m u w) = tgroups w"
  "nextGroup (send_to_user env m u w) = nextGroup w"
  "Clients (send_to_user env m u w) = Clients w"
  "ConnClientIdx (send_to_user env m u w) = ConnClientIdx w"
  "TGroups (send_to_user env m u w) = TGroups w"
  "ServiceName (send_to_user env m u w) = ServiceName w"
  "rpcClients (send_to_user env m u w) = rpcClients w"
  "redis (send_to_user env m u w) = redis w"
  "net (send_to_user env m u w) = net w"
  "gos (send_to_user env m u w) = gos w"
  "clock (send_to_user env m u w) = clock w"
  by (simp_all add: send_to_user_def split: option.splits)

lemma SendToUsers_frame [simp, ws_frame]:
  "Config (SendToUsers env g m w) = Config w"
  "serverIp (SendToUsers env g m w) = serverIp w"
  "ServerName (SendToUsers env g m w) = ServerName w"
  "connKeepTime (SendToUsers env g m w) = connKeepTime w"
  "nextClient (SendToUsers env g m w) = nextClient w"
  "tgroups (SendToUsers env g m w) = tgroups w"
  "nextGroup (SendToUsers env g m w) = nextGroup w"
  "Clients (SendToUsers env g m w) = Clients w"
  "ConnClientIdx (SendToUsers env g m w) = ConnClientIdx w"
  "TGroups (SendToUsers env g m w) = TGroups w"
  "ServiceName (SendToUsers env g m w) = ServiceName w"
  "rpcClients (SendToUsers env g m w) = rpcClients w"
  "redis (SendToUsers env g m w) = redis w"
  "net (SendToUsers env g m w) = net w"
  "gos (SendToUsers env g m w) = gos w"
  "clock (SendToUsers env g m w) = clock w"
  by (simp_all add: SendToUsers_def fold_frame [where f = "send_to_user env m" and g = Config]
      fold_frame [where f = "send_to_user env m" and g = serverIp]
      fold_frame [where f = "send_to_user env m" and g = ServerName]
      fold_frame [where f = "send_to_user env m" and g = connKeepTime]
      fold_frame [where f = "send_to_user env m" and g = nextClient]
      fold_frame [where f = "send_to_user env m" and g = tgroups]
      fold_frame [where f = "send_to_user env m" and g = nextGroup]
      fold_frame [where f = "send_to_user env m" and g = Clients]
      fold_frame [where f = "send_to_user env m" and g = ConnClientIdx]
      fold_frame [where f = "send_to_user env m" and g = TGroups]
      fold_frame [where f = "send_to_user env m" and g = ServiceName]
      fold_frame [where f = "send_to_user env m" and g = rpcClients]
      fold_frame [where f = "send_to_user env m" and g = redis]
      fold_frame [where f = "send_to_user env m" and g = net]
      fold_frame [where f = "send_to_user env m" and g = gos]
      fold_frame [where f = "send_to_user env m" and g = clock])

lemma OutTGroup_frame [simp, ws_frame]:
  "Config (OutTGroup c gid w) = Config w"
  "serverIp (OutTGroup c gid w) = serverIp w"
  "ServerName (OutTGroup c gid w) = ServerName w"
  "connKeepTime (OutTGroup c gid w) = connKeepTime w"
  "conns (OutTGroup c gid w) = conns w"
  "nextClient (OutTGroup c gid w) = nextClient w"
  "nextGroup (OutTGroup c gid w) = nextGroup w"
  "Clients (OutTGroup c gid w) = Clients w"
  "ConnClientIdx (OutTGroup c gid w) = ConnClientIdx w"
  "ServiceName (OutTGroup c gid w) = ServiceName w"
  "rpcClients (OutTGroup c gid w) = rpcClients w"
  "redis (OutTGroup c gid w) = redis w"
  "net (OutTGroup c gid w) = net w"
  "gos (OutTGroup c gid w) = gos w"
  "clock (OutTGroup c gid w) = clock w"
  by (simp_all add: OutTGroup_def Let_def)

lemma outTGroup_locked_eq: "outTGroup_locked c gid w = OutTGroup c gid w"
  by (simp add: outTGroup_locked_def OutTGroup_def)

lemma OutAllTGroup_frame [simp, ws_frame]:
  "Config (OutAllTGroup env c w) = Config w"
  "serverIp (OutAllTGroup env c w) = serverIp w"
  "ServerName (OutAllTGroup env c w) = ServerName w"
  "connKeepTime (OutAllTGroup env c w) = connKeepTime w"
  "conns (OutAllTGroup env c w) = conns w"
  "nextClient (OutAllTGroup env c w) = nextClient w"
  "nextGroup (OutAllTGroup env c w) = nextGroup w"
  "Clients (OutAllTGroup env c w) = Clients w"
  "ConnClientIdx (OutAllTGroup env c w) = ConnClientIdx w"
  "ServiceName (OutAllTGroup env c w) = ServiceName w"
  "rpcClients (OutAllTGroup env c w) = rpcClients w"
  "redis (OutAllTGroup env c w) = redis w"
  "net (OutAllTGroup env c w) = net w"
  "gos (OutAllTGroup env c w) = gos w"
  "clock (OutAllTGroup env c w) = clock w"
  by (simp_all add: OutAllTGroup_def outTGroup_locked_eq
      fold_frame [where f = "outTGroup_locked c" and g = Config]
      fold_frame [where f = "outTGroup_locked c" and g = serverIp]
      fold_frame [where f = "outTGroup_locked c" and g = ServerName]
      fold_frame [where f = "outTGroup_locked c" and g = connKeepTime]
      fold_frame [where f = "outTGroup_locked c" and g = conns]
      fold_frame [where f = "outTGroup_locked c" and g = nextClient]
      fold_frame [where f = "outTGroup_locked c" and g = nextGroup]
      fold_frame [where f = "outTGroup_locked c" and g = Clients]
      fold_frame [where f = "outTGroup_locked c" and g = ConnClientIdx]
      fold_frame [where f = "outTGroup_locked c" and g = ServiceName]
      fold_frame [where f = "outTGroup_locked c" and g = rpcClients]
      fold_frame [where f = "outTGroup_locked c" and g = redis]
      fold_frame [where f = "outTGroup_locked c" and g = net]
      fold_frame [where f = "outTGroup_locked c" and g = gos]
      fold_frame [where f = "outTGroup_locked c" and g = clock])

lemma OutTGroup_client [simp, ws_frame]:
  "cUserId (clients (OutTGroup c gid w) d) = cUserId (clients w d)"
  "cState (clients (OutTGroup c gid w) d) = cState (clients w d)"
  "cSocket (clients (OutTGroup c gid w) d) = cSocket (clients w d)"
  "cSendChan (clients (OutTGroup c gid w) d) = cSendChan (clients w d)"
  "cCloseOnce (clients (OutTGroup c gid w) d) = cCloseOnce (clients w d)"
  by (simp_all add: OutTGroup_def Let_def)

lemma OutAllTGroup_client [simp, ws_frame]:
  "cUserId (clients (OutAllTGroup env c w) d) = cUserId (clients w d)"
  "cState (clients (OutAllTGroup env c w) d) = cState (clients w d)"
  "cSocket (clients (OutAllTGroup env c w) d) = cSocket (clients w d)"
  "cSendChan (clients (OutAllTGroup env c w) d) = cSendChan (clients w d)"
  "cCloseOnce (clients (OutAllTGroup env c w) d) = cCloseOnce (clients w d)"
  by (simp_all add: OutAllTGroup_def outTGroup_locked_eq
      fold_frame [where f = "outTGroup_locked c" and g = "\<lambda>w. cUserId (clients w d)"]
      fold_frame [where f = "outTGroup_locked c" and g = "\<lambda>w. cState (clients w d)"]
      fold_frame [where f = "outTGroup_locked c" and g = "\<lambda>w. cSocket (clients w d)"]
      fold_frame [where f = "outTGroup_locked c" and g = "\<lambda>w. cSendChan (clients w d)"]
      fold_frame [where f = "outTGroup_locked c" and g = "\<lambda>w. cCloseOnce (clients w d)"])

lemma OutAllTGroup_TGroup:
  "range_ok env \<Longrightarrow> mget (cTGroup (clients (OutAllTGroup env c w) c)) = Map.empty"
proof -
  assume r: "range_ok env"
  have "cTGroup (clients (fold (outTGroup_locked c) ks w) c) = fold AList.delete ks (cTGroup (clients w c))"
    for ks
    by (induction ks arbitrary: w) (simp_all add: outTGroup_locked_def Let_def)
  then show ?thesis
    using r by (simp add: OutAllTGroup_def gmap.fold_del_all range_ok_set)
qed

end
