(* ===== verification/WsGroupSpec.thy ===== *)
theory WsGroupSpec
  imports WsGroup
begin

text \<open>
  The group manager against its specification. Abstractly the manager keeps one set of
  users per group id; a group exists exactly while its set is not empty. The concrete
  state refines this: the table holds only live groups, every live group is in the table,
  and a deleted group has its channel closed.
\<close>

section \<open>The invariant of the groups\<close>

definition group_ok :: "('k, 'r, 'n) ws \<Rightarrow> gptr \<Rightarrow> bool" where
  "group_ok w g \<longleftrightarrow>
     mwf (gUsers (tgroups w g)) \<and> chan_ok (gSend (tgroups w g)) \<and>
     gState (tgroups w g) \<in> {1, 2} \<and>
     (cclosed (gSend (tgroups w g)) \<longleftrightarrow> gState (tgroups w g) = 2) \<and>
     (gState (tgroups w g) = 1 \<longrightarrow> mget (TGroups w) (gGid (tgroups w g)) = Some g)"

definition groups_inv :: "('k, 'r, 'n) ws \<Rightarrow> bool" where
  "groups_inv w \<longleftrightarrow>
     mwf (TGroups w) \<and>
     (\<forall>gid g. mget (TGroups w) gid = Some g \<longrightarrow>
        g < nextGroup w \<and> gGid (tgroups w g) = gid \<and> gState (tgroups w g) = 1 \<and>
        gUsers (tgroups w g) \<noteq> []) \<and>
     (\<forall>g < nextGroup w. group_ok w g)"

text \<open>The users of a group id, the abstract state of the manager.\<close>

definition members :: "('k, 'r, 'n) ws \<Rightarrow> string \<Rightarrow> string set" where
  "members w gid =
     (case mget (TGroups w) gid of None \<Rightarrow> {} | Some g \<Rightarrow> fst ` set (gUsers (tgroups w g)))"

lemma groups_invD:
  assumes "groups_inv w"
  shows "mwf (TGroups w)"
    and "mget (TGroups w) gid = Some g \<Longrightarrow> g < nextGroup w"
    and "mget (TGroups w) gid = Some g \<Longrightarrow> gGid (tgroups w g) = gid"
    and "mget (TGroups w) gid = Some g \<Longrightarrow> gState (tgroups w g) = 1"
    and "mget (TGroups w) gid = Some g \<Longrightarrow> gUsers (tgroups w g) \<noteq> []"
    and "g < nextGroup w \<Longrightarrow> group_ok w g"
  using assms by (auto simp: groups_inv_def)

lemma groups_inv_cong:
  "TGroups w' = TGroups w \<Longrightarrow> tgroups w' = tgroups w \<Longrightarrow> nextGroup w' = nextGroup w \<Longrightarrow>
     groups_inv w' = groups_inv w"
  by (simp add: groups_inv_def group_ok_def)

lemma members_cong:
  "TGroups w' = TGroups w \<Longrightarrow> tgroups w' = tgroups w \<Longrightarrow> members w' = members w"
  by (rule ext) (simp add: members_def split: option.split)

section \<open>Joining\<close>

lemma UserJoinTGroup_existing:
  assumes "mget (TGroups w) gid = Some g" and "gState (tgroups w g) \<noteq> 2"
  shows "UserJoinTGroup gid uid w =
     Some (upd_group g (\<lambda>x. x\<lparr>gUsers := mput uid True (gUsers x)\<rparr>) w, True)"
  using assms
  by (subst UserJoinTGroup.simps) (simp add: GetOrCreateTGroup_def GetTGroup_def UserJoin_def)

definition fresh_group :: "string \<Rightarrow> string \<Rightarrow> ('k, 'r, 'n) ws \<Rightarrow> tgroup" where
  "fresh_group gid uid w = \<lparr>gState = 1, gUsers = [(uid, True)], gGid = gid,
     gSend = make_chan (nat (cfgGroupMsgChanMax (Config w)))\<rparr>"

lemma UserJoinTGroup_new:
  assumes "mget (TGroups w) gid = None"
  shows "UserJoinTGroup gid uid w =
     Some (w\<lparr>tgroups := (tgroups w)(nextGroup w := fresh_group gid uid w),
             nextGroup := Suc (nextGroup w),
             TGroups := mput gid (nextGroup w) (TGroups w),
             gos := gos w @ [GoListenSendChan (nextGroup w)]\<rparr>, True)"
  using assms
  by (subst UserJoinTGroup.simps)
    (simp add: GetOrCreateTGroup_def GetTGroup_def NewTGroup_def UserJoin_def upd_group_def
      fresh_group_def Let_def)

text \<open>
  If the table held a deleted group, joining would never return: every retry finds the
  same group again. The invariant excludes this.
\<close>

lemma UserJoinTGroup_stuck:
  assumes "mget (TGroups w) gid = Some g" and "gState (tgroups w g) = 2"
  shows "UserJoinTGroup gid uid w = None"
proof -
  have "\<not> (\<exists>g. mget (TGroups w) gid = Some g \<and> gState (tgroups w g) = 2)"
    if "UserJoinTGroup gid uid w = Some r" for r
  proof (rule UserJoinTGroup.raw_induct
      [where P = "\<lambda>gid uid w r. \<not> (\<exists>g. mget (TGroups w) gid = Some g \<and> gState (tgroups w g) = 2)",
        OF _ that])
    fix f gid uid w and r :: "('a, 'b, 'c) ws \<times> bool"
    assume IH: "\<And>gid uid w r. f gid uid w = Some r \<Longrightarrow>
        \<not> (\<exists>g. mget (TGroups w) gid = Some g \<and> gState (tgroups w g) = 2)"
      and eq: "(let (w1, tGroup) = GetOrCreateTGroup gid w; (w2, ok) = UserJoin tGroup uid w1
          in if ok then Some (w2, ok) else f gid uid w2) = Some r"
    show "\<not> (\<exists>g. mget (TGroups w) gid = Some g \<and> gState (tgroups w g) = 2)"
    proof
      assume "\<exists>g. mget (TGroups w) gid = Some g \<and> gState (tgroups w g) = 2"
      then obtain g where g: "mget (TGroups w) gid = Some g" "gState (tgroups w g) = 2" by blast
      with eq have "f gid uid w = Some r"
        by (simp add: GetOrCreateTGroup_def GetTGroup_def UserJoin_def)
      with IH g show False by blast
    qed
  qed
  with assms show ?thesis by (cases "UserJoinTGroup gid uid w") auto
qed

lemma fst_set_update_ne [simp]: "AList.update k v m \<noteq> []"
  by (cases m) auto

lemma groups_inv_join_existing:
  assumes inv: "groups_inv w" and g: "mget (TGroups w) gid = Some g"
  shows "groups_inv (upd_group g (\<lambda>x. x\<lparr>gUsers := mput uid True (gUsers x)\<rparr>) w)"
  using inv unfolding groups_inv_def group_ok_def by simp

lemma groups_inv_join_new:
  assumes inv: "groups_inv w" and g: "mget (TGroups w) gid = None"
  shows "groups_inv (w\<lparr>tgroups := (tgroups w)(nextGroup w := fresh_group gid uid w),
             nextGroup := Suc (nextGroup w),
             TGroups := mput gid (nextGroup w) (TGroups w),
             gos := gos w @ [GoListenSendChan (nextGroup w)]\<rparr>)" (is "groups_inv ?w")
proof -
  have old: "h \<noteq> nextGroup w" if "mget (TGroups w) i = Some h" for i h
    using groups_invD(2) [OF inv that] by simp
  have "group_ok ?w h" if "h < Suc (nextGroup w)" for h
  proof (cases "h = nextGroup w")
    case True
    then show ?thesis by (simp add: group_ok_def fresh_group_def make_chan_def chan_ok_def)
  next
    case False
    with that have "group_ok w h" using groups_invD(6) [OF inv] by simp
    moreover from this have "gState (tgroups w h) = 1 \<Longrightarrow> gGid (tgroups w h) \<noteq> gid"
      using g by (auto simp: group_ok_def)
    ultimately show ?thesis using False by (auto simp: group_ok_def)
  qed
  moreover have "i < Suc (nextGroup w) \<and> gGid (tgroups ?w i) = k \<and> gState (tgroups ?w i) = 1 \<and>
      gUsers (tgroups ?w i) \<noteq> []" if "mget (TGroups ?w) k = Some i" for k i
    using that groups_invD(2-5) [OF inv, of k i] old [of k i]
    by (auto simp: fresh_group_def split: if_splits)
  ultimately show ?thesis
    using groups_invD(1) [OF inv] unfolding groups_inv_def by simp
qed

lemma UserJoinTGroup_spec:
  assumes inv: "groups_inv w"
  shows "\<exists>w'. UserJoinTGroup gid uid w = Some (w', True) \<and> groups_inv w' \<and>
     members w' = (members w)(gid := insert uid (members w gid))"
proof (cases "mget (TGroups w) gid")
  case None
  have "members (w\<lparr>tgroups := (tgroups w)(nextGroup w := fresh_group gid uid w),
             nextGroup := Suc (nextGroup w), TGroups := mput gid (nextGroup w) (TGroups w),
             gos := gos w @ [GoListenSendChan (nextGroup w)]\<rparr>) =
      (members w)(gid := insert uid (members w gid))"
    using None groups_invD(2) [OF inv]
    by (force simp: members_def fun_eq_iff fresh_group_def split: option.splits)
  with UserJoinTGroup_new [OF None] groups_inv_join_new [OF inv None] show ?thesis by auto
next
  case (Some g)
  let ?w = "upd_group g (\<lambda>x. x\<lparr>gUsers := mput uid True (gUsers x)\<rparr>) w"
  have "h \<noteq> g" if "mget (TGroups w) i = Some h" "i \<noteq> gid" for i h
    using groups_invD(3) [OF inv that(1)] groups_invD(3) [OF inv Some] that(2) by auto
  then have "members ?w = (members w)(gid := insert uid (members w gid))"
    using Some by (fastforce simp: members_def fun_eq_iff split: option.splits)
  with UserJoinTGroup_existing [OF Some] groups_invD(4) [OF inv Some]
    groups_inv_join_existing [OF inv Some]
  show ?thesis by auto
qed

text \<open>Joining touches the groups only.\<close>

lemma UserJoinTGroup_frame:
  assumes inv: "groups_inv w" and j: "UserJoinTGroup gid uid w = Some (w1, ok)"
  shows "Clients w1 = Clients w" and "ConnClientIdx w1 = ConnClientIdx w"
    and "clients w1 = clients w" and "nextClient w1 = nextClient w" and "conns w1 = conns w"
    and "Config w1 = Config w" and "redis w1 = redis w" and "net w1 = net w"
    and "rpcClients w1 = rpcClients w" and "serverIp w1 = serverIp w"
proof -
  consider (new) "mget (TGroups w) gid = None" | (old) g where "mget (TGroups w) gid = Some g"
    by fastforce
  then have "Clients w1 = Clients w \<and> ConnClientIdx w1 = ConnClientIdx w \<and> clients w1 = clients w \<and>
    nextClient w1 = nextClient w \<and> conns w1 = conns w \<and> Config w1 = Config w \<and>
    redis w1 = redis w \<and> net w1 = net w \<and> rpcClients w1 = rpcClients w \<and> serverIp w1 = serverIp w"
  proof cases
    case new
    from UserJoinTGroup_new [OF this, of uid] j show ?thesis by auto
  next
    case old
    with groups_invD(4) [OF inv old] have "gState (tgroups w g) \<noteq> 2" by simp
    from UserJoinTGroup_existing [OF old this, of uid] j show ?thesis by auto
  qed
  then show "Clients w1 = Clients w" and "ConnClientIdx w1 = ConnClientIdx w"
    and "clients w1 = clients w" and "nextClient w1 = nextClient w" and "conns w1 = conns w"
    and "Config w1 = Config w" and "redis w1 = redis w" and "net w1 = net w"
    and "rpcClients w1 = rpcClients w" and "serverIp w1 = serverIp w"
    by simp_all
qed

section \<open>Leaving\<close>

text \<open>Deleting the live group the table holds.\<close>

lemma DeleteTGroup_live:
  assumes "mget (TGroups w) (gGid (tgroups w g)) = Some g" and "gState (tgroups w g) = 1"
    and "\<not> cclosed (gSend (tgroups w g))"
  shows "DeleteTGroup g w =
     upd_group g (\<lambda>x. x\<lparr>gState := 2, gSend := (gSend x)\<lparr>cclosed := True\<rparr>\<rparr>)
       (w\<lparr>TGroups := mdel (gGid (tgroups w g)) (TGroups w)\<rparr>)"
  using assms
  by (simp add: DeleteTGroup_def TGroupM_DeleteTGroup_def CloseSend_def close_chan_def Let_def
      upd_group_def)

text \<open>Deleting a group that is already deleted and not in the table does nothing.\<close>

lemma DeleteTGroup_dead:
  assumes "gState (tgroups w g) = 2" and "mget (TGroups w) (gGid (tgroups w g)) \<noteq> Some g"
  shows "DeleteTGroup g w = w"
  using assms
  by (auto simp: DeleteTGroup_def TGroupM_DeleteTGroup_def CloseSend_def split: option.splits)

lemma groups_inv_dead:
  "groups_inv w \<Longrightarrow> g < nextGroup w \<Longrightarrow> gState (tgroups w g) = 2 \<Longrightarrow> mget (TGroups w) gid \<noteq> Some g"
  using groups_invD(4) [of w gid g] by auto

lemma mdel_empty_iff: "mdel k m = [] \<longleftrightarrow> fst ` set m \<subseteq> {k}"
  by (metis Diff_eq_empty_iff image_is_empty mkeys_mdel set_empty)

lemma groups_inv_upd_users:
  assumes "groups_inv w" and "mwf us" and "us \<noteq> []"
  shows "groups_inv (upd_group g (\<lambda>x. x\<lparr>gUsers := us\<rparr>) w)"
  using assms unfolding groups_inv_def group_ok_def by simp

lemma groups_inv_delete:
  assumes inv: "groups_inv w" and g: "mget (TGroups w) gid = Some g"
  shows "groups_inv (upd_group g
     (\<lambda>x. x\<lparr>gUsers := [], gState := 2, gSend := (gSend x)\<lparr>cclosed := True\<rparr>\<rparr>)
     (w\<lparr>TGroups := mdel gid (TGroups w)\<rparr>))" (is "groups_inv ?w")
proof -
  have id: "gGid (tgroups w g) = gid" using groups_invD(3) [OF inv g] .
  have other: "i = gid" if "mget (TGroups w) i = Some g" for i
    using groups_invD(3) [OF inv that] id by simp
  have "group_ok ?w h" if "h < nextGroup w" for h
  proof (cases "h = g")
    case True
    with groups_invD(6) [OF inv that] show ?thesis by (simp add: group_ok_def)
  next
    case False
    with groups_invD(6) [OF inv that] g show ?thesis by (auto simp: group_ok_def)
  qed
  moreover have "i < nextGroup w \<and> gGid (tgroups ?w i) = k \<and> gState (tgroups ?w i) = 1 \<and>
      gUsers (tgroups ?w i) \<noteq> []" if "mget (TGroups ?w) k = Some i" for k i
    using that groups_invD(2-5) [OF inv, of k i] other [of k] by (auto split: if_splits)
  ultimately show ?thesis
    using groups_invD(1) [OF inv] unfolding groups_inv_def by simp
qed

lemma UserLeave_table:
  assumes inv: "groups_inv w" and g: "mget (TGroups w) gid = Some g"
  shows "UserLeave g uid w =
     (let us = mdel uid (gUsers (tgroups w g)) in
      if us = [] then
        upd_group g (\<lambda>x. x\<lparr>gUsers := [], gState := 2, gSend := (gSend x)\<lparr>cclosed := True\<rparr>\<rparr>)
          (w\<lparr>TGroups := mdel gid (TGroups w)\<rparr>)
      else upd_group g (\<lambda>x. x\<lparr>gUsers := us\<rparr>) w)"
proof -
  let ?us = "mdel uid (gUsers (tgroups w g))"
  let ?w = "upd_group g (\<lambda>x. x\<lparr>gUsers := ?us\<rparr>) w"
  have id: "gGid (tgroups w g) = gid" and st: "gState (tgroups w g) = 1"
    and op: "\<not> cclosed (gSend (tgroups w g))"
    using groups_invD(2-4) [OF inv g] groups_invD(6) [OF inv, of g] by (auto simp: group_ok_def)
  have eq: "upd_group g (\<lambda>x. x\<lparr>gUsers := mdel uid (gUsers x)\<rparr>) w = ?w"
    by (rule upd_group_cong) simp
  have "DeleteTGroup g ?w = upd_group g (\<lambda>x. x\<lparr>gState := 2, gSend := (gSend x)\<lparr>cclosed := True\<rparr>\<rparr>)
      (?w\<lparr>TGroups := mdel gid (TGroups w)\<rparr>)"
    by (subst DeleteTGroup_live) (simp_all add: g id st op)
  also have "\<dots> = upd_group g
      (\<lambda>x. x\<lparr>gUsers := ?us, gState := 2, gSend := (gSend x)\<lparr>cclosed := True\<rparr>\<rparr>)
      (w\<lparr>TGroups := mdel gid (TGroups w)\<rparr>)"
    by (simp add: upd_group_TGroups upd_group_twice)
  finally have del: "DeleteTGroup g ?w = upd_group g
      (\<lambda>x. x\<lparr>gUsers := ?us, gState := 2, gSend := (gSend x)\<lparr>cclosed := True\<rparr>\<rparr>)
      (w\<lparr>TGroups := mdel gid (TGroups w)\<rparr>)" .
  show ?thesis
    unfolding UserLeave_def Let_def eq using del by (cases "?us = []") simp_all
qed

lemma UserOutTGroup_spec:
  assumes inv: "groups_inv w"
  shows "groups_inv (fst (UserOutTGroup gid uid w))"
    and "members (fst (UserOutTGroup gid uid w)) = (members w)(gid := members w gid - {uid})"
proof -
  have "groups_inv (fst (UserOutTGroup gid uid w)) \<and>
    members (fst (UserOutTGroup gid uid w)) = (members w)(gid := members w gid - {uid})"
  proof (cases "mget (TGroups w) gid")
    case None
    then have "members w gid = {}" by (simp add: members_def)
    with None inv show ?thesis by (auto simp: UserOutTGroup_def GetTGroup_def fun_upd_idem)
  next
    case (Some g)
    let ?us = "mdel uid (gUsers (tgroups w g))"
    have wf: "mwf ?us"
      using groups_invD(2) [OF inv Some] groups_invD(6) [OF inv, of g] by (auto simp: group_ok_def)
    have other: "h \<noteq> g" if "mget (TGroups w) i = Some h" "i \<noteq> gid" for i h
      using groups_invD(3) [OF inv that(1)] groups_invD(3) [OF inv Some] that(2) by auto
    have out: "fst (UserOutTGroup gid uid w) = UserLeave g uid w"
      using Some by (simp add: UserOutTGroup_def GetTGroup_def)
    show ?thesis
    proof (cases "?us = []")
      case True
      then have "fst ` set (gUsers (tgroups w g)) - {uid} = {}"
        by (metis (no_types) mkeys_mdel image_empty list.set(1))
      with True show ?thesis
        unfolding out UserLeave_table [OF inv Some]
        using groups_inv_delete [OF inv Some] Some other
        by (fastforce simp: members_def fun_eq_iff Let_def split: option.splits)
    next
      case False
      then show ?thesis
        unfolding out UserLeave_table [OF inv Some]
        using groups_inv_upd_users [OF inv wf False] Some other
        by (fastforce simp: members_def fun_eq_iff Let_def split: option.splits)
    qed
  qed
  then show "groups_inv (fst (UserOutTGroup gid uid w))"
    and "members (fst (UserOutTGroup gid uid w)) = (members w)(gid := members w gid - {uid})"
    by auto
qed

section \<open>The manager as a registry of sets\<close>

text \<open>
  What the clients of the group manager rely on: joining always returns and adds the user
  to the group's set, leaving removes it, and the manager's invariant is kept.
\<close>

locale group_registry =
  fixes join :: "'g \<Rightarrow> 'u \<Rightarrow> 's \<Rightarrow> 's option"
    and out :: "'g \<Rightarrow> 'u \<Rightarrow> 's \<Rightarrow> 's"
    and mem :: "'s \<Rightarrow> 'g \<Rightarrow> 'u set"
    and inv :: "'s \<Rightarrow> bool"
  assumes join_spec: "inv s \<Longrightarrow> \<exists>s'. join g u s = Some s' \<and> inv s' \<and>
      mem s' = (mem s)(g := insert u (mem s g))"
    and out_inv: "inv s \<Longrightarrow> inv (out g u s)"
    and out_mem: "inv s \<Longrightarrow> mem (out g u s) = (mem s)(g := mem s g - {u})"
begin

lemma join_returns: "inv s \<Longrightarrow> join g u s \<noteq> None"
  using join_spec [of s g u] by auto

lemma joinD: "inv s \<Longrightarrow> join g u s = Some s' \<Longrightarrow> inv s' \<and> mem s' = (mem s)(g := insert u (mem s g))"
  using join_spec [of s g u] by auto

lemma join_out:
  "inv s \<Longrightarrow> join g u s = Some s' \<Longrightarrow> mem (out g u s') = (mem s)(g := mem s g - {u})"
  using joinD [of s g u s'] by (simp add: out_mem)

lemma join_idem:
  "inv s \<Longrightarrow> join g u s = Some s' \<Longrightarrow> join g u s' = Some s'' \<Longrightarrow> mem s'' = mem s'"
  using joinD [of s g u s'] joinD [of s' g u s''] by simp

lemma join_commute:
  assumes "inv s" "join g u s = Some s1" "join h v s1 = Some s2"
    "join h v s = Some t1" "join g u t1 = Some t2"
  shows "mem s2 = mem t2"
proof -
  have "inv s1" "inv t1" using assms joinD by blast+
  then have "mem s2 = (mem s1)(h := insert v (mem s1 h))" "mem t2 = (mem t1)(g := insert u (mem t1 g))"
    using assms joinD by blast+
  moreover have "mem s1 = (mem s)(g := insert u (mem s g))" "mem t1 = (mem s)(h := insert v (mem s h))"
    using assms joinD by blast+
  ultimately show ?thesis by (auto simp: fun_eq_iff)
qed

lemma out_all:
  "inv s \<Longrightarrow> inv (fold (\<lambda>g. out g u) gs s) \<and>
     mem (fold (\<lambda>g. out g u) gs s) = (\<lambda>g. if g \<in> set gs then mem s g - {u} else mem s g)"
  by (induction gs arbitrary: s) (auto simp: out_inv out_mem fun_eq_iff)

end

interpretation tgm: group_registry "\<lambda>gid uid w. map_option fst (UserJoinTGroup gid uid w)"
  "\<lambda>gid uid w. fst (UserOutTGroup gid uid w)" members groups_inv
proof unfold_locales
  fix w :: "('k, 'r, 'n) ws" and gid uid
  assume inv: "groups_inv w"
  show "\<exists>w'. map_option fst (UserJoinTGroup gid uid w) = Some w' \<and> groups_inv w' \<and>
      members w' = (members w)(gid := insert uid (members w gid))"
    using UserJoinTGroup_spec [OF inv, of gid uid] by auto
  show "groups_inv (fst (UserOutTGroup gid uid w))"
    "members (fst (UserOutTGroup gid uid w)) = (members w)(gid := members w gid - {uid})"
    by (rule UserOutTGroup_spec [OF inv])+
qed

end
