(* ===== verification/WsInvariant.thy ===== *)
theory WsInvariant
  imports WsGroupSpec
begin

text \<open>
  The invariant of a node and the operations that keep it: the two tables of the client
  manager agree, a registered client was not closed, the channels are closed exactly when
  their owner is, and a user is a member of a group exactly when the user's registered
  client lists the group.
\<close>

section \<open>The invariant\<close>

definition client_ok :: "client \<Rightarrow> bool" where
  "client_ok x \<longleftrightarrow>
     (cclosed (cSendChan x) \<longleftrightarrow> cCloseOnce x) \<and> (cCloseOnce x \<longrightarrow> cState x = StateOffline) \<and>
     chan_ok (cSendChan x) \<and> mwf (cTGroup x)"

definition clients_inv :: "('k, 'r, 'n) ws \<Rightarrow> bool" where
  "clients_inv w \<longleftrightarrow>
     mwf (Clients w) \<and> mwf (ConnClientIdx w) \<and>
     (\<forall>uid c. mget (Clients w) uid = Some c \<longrightarrow>
        c < nextClient w \<and> cUserId (clients w c) = uid \<and> \<not> cCloseOnce (clients w c) \<and>
        mget (ConnClientIdx w) (cSocket (clients w c)) = Some c) \<and>
     (\<forall>k c. mget (ConnClientIdx w) k = Some c \<longrightarrow>
        c < nextClient w \<and> cSocket (clients w c) = k \<and>
        mget (Clients w) (cUserId (clients w c)) = Some c) \<and>
     (\<forall>c < nextClient w. client_ok (clients w c))"

text \<open>The user is connected and the client lists the group.\<close>

definition in_group :: "('k, 'r, 'n) ws \<Rightarrow> string \<Rightarrow> string \<Rightarrow> bool" where
  "in_group w uid gid \<longleftrightarrow>
     (case mget (Clients w) uid of
        None \<Rightarrow> False
      | Some c \<Rightarrow> mget (cTGroup (clients w c)) gid \<noteq> None)"

definition member_inv :: "('k, 'r, 'n) ws \<Rightarrow> bool" where
  "member_inv w \<longleftrightarrow> (\<forall>gid uid. uid \<in> members w gid \<longleftrightarrow> in_group w uid gid)"

definition ws_inv :: "('k, 'r, 'n) ws \<Rightarrow> bool" where
  "ws_inv w \<longleftrightarrow> clients_inv w \<and> groups_inv w \<and> member_inv w"

lemma clients_invD:
  assumes "clients_inv w"
  shows "mwf (Clients w)" and "mwf (ConnClientIdx w)"
    and "mget (Clients w) uid = Some c \<Longrightarrow> c < nextClient w"
    and "mget (Clients w) uid = Some c \<Longrightarrow> cUserId (clients w c) = uid"
    and "mget (Clients w) uid = Some c \<Longrightarrow> \<not> cCloseOnce (clients w c)"
    and "mget (Clients w) uid = Some c \<Longrightarrow> mget (ConnClientIdx w) (cSocket (clients w c)) = Some c"
    and "mget (ConnClientIdx w) k = Some c \<Longrightarrow> c < nextClient w"
    and "mget (ConnClientIdx w) k = Some c \<Longrightarrow> cSocket (clients w c) = k"
    and "mget (ConnClientIdx w) k = Some c \<Longrightarrow> mget (Clients w) (cUserId (clients w c)) = Some c"
    and "c < nextClient w \<Longrightarrow> client_ok (clients w c)"
  using assms by (simp_all add: clients_inv_def)

lemma clients_inv_mono:
  assumes "clients_inv w" and "Clients w' = Clients w" and "ConnClientIdx w' = ConnClientIdx w"
    and "nextClient w' = nextClient w" and "\<And>d. cUserId (clients w' d) = cUserId (clients w d)"
    and "\<And>d. cSocket (clients w' d) = cSocket (clients w d)"
    and "\<And>d. cCloseOnce (clients w' d) = cCloseOnce (clients w d)"
    and "\<And>d. client_ok (clients w d) \<Longrightarrow> client_ok (clients w' d)"
  shows "clients_inv w'"
  using assms by (simp add: clients_inv_def)

lemma ws_invD:
  assumes "ws_inv w"
  shows "clients_inv w" and "groups_inv w" and "member_inv w"
  using assms by (simp_all add: ws_inv_def)

text \<open>A user that is not connected is in no group.\<close>

lemma in_group_None: "mget (Clients w) uid = None \<Longrightarrow> \<not> in_group w uid gid"
  by (simp add: in_group_def)

lemma in_group_Some:
  "mget (Clients w) uid = Some c \<Longrightarrow> in_group w uid gid \<longleftrightarrow> mget (cTGroup (clients w c)) gid \<noteq> None"
  by (simp add: in_group_def)

lemma in_group_cong:
  "Clients w' = Clients w \<Longrightarrow> (\<And>d. cTGroup (clients w' d) = cTGroup (clients w d)) \<Longrightarrow>
     in_group w' u i = in_group w u i"
  by (simp add: in_group_def split: option.split)

lemma not_connected_no_member:
  "member_inv w \<Longrightarrow> mget (Clients w) uid = None \<Longrightarrow> uid \<notin> members w gid"
  by (simp add: member_inv_def in_group_None)

section \<open>Operations on one client\<close>

text \<open>
  Sending, closing and heartbeats change the state, the channel and the time stamps of
  clients only; what the invariant says of a client is kept by these changes.
\<close>

definition client_le :: "client \<Rightarrow> client \<Rightarrow> bool" where
  "client_le x y \<longleftrightarrow>
     cUserId y = cUserId x \<and> cSocket y = cSocket x \<and> cTGroup y = cTGroup x \<and>
     cCloseOnce y = cCloseOnce x \<and> cclosed (cSendChan y) = cclosed (cSendChan x) \<and>
     (chan_ok (cSendChan x) \<longrightarrow> chan_ok (cSendChan y)) \<and>
     (cState x = StateOffline \<longrightarrow> cState y = StateOffline)"

lemma client_le_refl [simp]: "client_le x x"
  by (simp add: client_le_def)

lemma client_le_trans: "client_le x y \<Longrightarrow> client_le y z \<Longrightarrow> client_le x z"
  by (simp add: client_le_def)

definition ws_le :: "('k, 'r, 'n) ws \<Rightarrow> ('k, 'r, 'n) ws \<Rightarrow> bool" where
  "ws_le w w' \<longleftrightarrow>
     Clients w' = Clients w \<and> ConnClientIdx w' = ConnClientIdx w \<and> nextClient w' = nextClient w \<and>
     TGroups w' = TGroups w \<and> tgroups w' = tgroups w \<and> nextGroup w' = nextGroup w \<and>
     (\<forall>c. client_le (clients w c) (clients w' c))"

lemma ws_le_refl [simp]: "ws_le w w"
  by (simp add: ws_le_def)

lemma ws_le_trans: "ws_le w1 w2 \<Longrightarrow> ws_le w2 w3 \<Longrightarrow> ws_le w1 w3"
  by (auto simp: ws_le_def intro: client_le_trans)

lemma client_ok_le: "client_le x y \<Longrightarrow> client_ok x \<Longrightarrow> client_ok y"
  by (auto simp: client_le_def client_ok_def)

lemma ws_inv_le: "ws_le w w' \<Longrightarrow> ws_inv w \<Longrightarrow> ws_inv w'"
proof -
  assume le: "ws_le w w'" and inv: "ws_inv w"
  have c: "cUserId (clients w' d) = cUserId (clients w d)"
    "cSocket (clients w' d) = cSocket (clients w d)"
    "cTGroup (clients w' d) = cTGroup (clients w d)"
    "cCloseOnce (clients w' d) = cCloseOnce (clients w d)" for d
    using le by (auto simp: ws_le_def client_le_def)
  have "client_ok (clients w' d)" if "client_ok (clients w d)" for d
    using le that by (auto simp: ws_le_def intro: client_ok_le)
  moreover have "groups_inv w'" "members w' = members w"
    using le inv groups_inv_cong [of w' w] members_cong [of w' w] by (auto simp: ws_le_def ws_inv_def)
  moreover have "in_group w' u i = in_group w u i" for u i
    using le c(3) by (intro in_group_cong) (auto simp: ws_le_def)
  ultimately show ?thesis
    using le inv by (simp add: ws_inv_def clients_inv_def member_inv_def c ws_le_def)
qed

lemma ws_le_Client_Close [intro, simp]: "ws_le w (Client_Close env c w)"
  by (simp add: ws_le_def client_le_def)

lemma ws_le_set_conn [intro, simp]: "ws_le w (set_conn k x w)"
  by (simp add: ws_le_def)

lemma ws_le_SafeSendMsg [intro, simp]: "ws_le w (fst (SafeSendMsg env c m t w))"
  by (simp add: ws_le_def client_le_def SafeSendMsg_chan_ok SafeSendMsg_offline)

lemma ws_le_SendResponseMsg [intro, simp]: "ws_le w (fst (SendResponseMsg env c r t w))"
  by (simp add: SendResponseMsg_def split: sum.splits)

lemma ws_le_SendErr [intro, simp]: "ws_le w (fst (SendErr env c m t s d w))"
  by (simp add: SendErr_def SendResponseData_def Let_def)

lemma ws_le_SendResponseData [intro, simp]: "ws_le w (fst (SendResponseData env c d s m t w))"
  by (simp add: SendResponseData_def Let_def)

lemma ws_le_Heartbeat [intro, simp]: "ws_le w (Heartbeat env c w)"
  by (simp add: ws_le_def client_le_def)

lemma ws_le_StopClient [intro, simp]: "ws_le w (StopClient env uid w)"
  by (simp add: StopClient_def split: option.splits)

lemma ws_le_recv:
  assumes "try_recv (cSendChan (clients w c)) = Received m ch"
  shows "ws_le w (upd_client c (\<lambda>x. x\<lparr>cSendChan := ch\<rparr>) w)"
  using assms by (auto simp: ws_le_def client_le_def try_recv_def chan_ok_def split: list.splits if_splits)

lemma ws_le_then_Close: "ws_le w v \<Longrightarrow> ws_le w (Client_Close env c v)"
  by (rule ws_le_trans [OF _ ws_le_Client_Close])

lemma ws_le_SendMsgLoop [intro, simp]: "ws_le w (fst (SendMsgLoop env n c w))"
proof (induction n arbitrary: w)
  case (Suc n)
  show ?case
  proof (cases "try_recv (cSendChan (clients w c))")
    case (Received m ch)
    let ?w = "upd_client c (\<lambda>x. x\<lparr>cSendChan := ch\<rparr>) w"
    have "ws_le w (set_conn k x ?w)" for k x
      using ws_le_recv [OF Received] ws_le_set_conn [of ?w k x] by (rule ws_le_trans)
    then show ?thesis
      using Received Suc.IH
      by (auto simp: Let_def intro: ws_le_trans ws_le_then_Close split: write_result.splits)
  qed auto
qed simp

section \<open>Messages to groups\<close>

lemma ws_le_send_to_user [intro, simp]: "ws_le w (send_to_user env m u w)"
  by (simp add: send_to_user_def split: option.splits)

lemma ws_le_fold_send_to_user: "ws_le w (fold (send_to_user env m) us w)"
proof (induction us arbitrary: w)
  case (Cons u us)
  show ?case
    using ws_le_trans [OF ws_le_send_to_user Cons.IH, of w] by simp
qed simp

lemma ws_le_SendToUsers [intro, simp]: "ws_le w (SendToUsers env g m w)"
  by (simp add: SendToUsers_def ws_le_fold_send_to_user)

text \<open>A change of a group's channel that keeps its bound and does not close it.\<close>

lemma ws_inv_set_send:
  assumes inv: "ws_inv w" and ok: "chan_ok (gSend (tgroups w g)) \<Longrightarrow> chan_ok ch"
    and closed: "cclosed ch = cclosed (gSend (tgroups w g))"
  shows "ws_inv (upd_group g (\<lambda>x. x\<lparr>gSend := ch\<rparr>) w)" (is "ws_inv ?w")
proof -
  have "members ?w = members w"
    by (rule ext) (simp add: members_def split: option.split)
  moreover have "groups_inv ?w"
    using ws_invD(2) [OF inv] ok closed unfolding groups_inv_def group_ok_def by simp
  ultimately show ?thesis
    using inv by (simp add: ws_inv_def clients_inv_def member_inv_def in_group_cong [of ?w w])
qed

lemma ws_inv_SendChan:
  assumes "ws_inv w" and "SendChan g m w = Some w'"
  shows "ws_inv w'"
  using assms
  by (auto simp: SendChan_def try_send_iffs chan_ok_def intro!: ws_inv_set_send
      split: if_splits send_result.splits)

lemma ws_inv_SendMessageToTGroup:
  "ws_inv w \<Longrightarrow> SendMessageToTGroup gid m w = Some (w', e) \<Longrightarrow> ws_inv w'"
  by (auto simp: SendMessageToTGroup_def ws_inv_SendChan split: option.splits)

lemma ws_inv_recv_group:
  assumes "ws_inv w" and "try_recv (gSend (tgroups w g)) = Received m ch"
  shows "ws_inv (upd_group g (\<lambda>x. x\<lparr>gSend := ch\<rparr>) w)"
  using assms
  by (intro ws_inv_set_send) (auto simp: try_recv_def chan_ok_def split: list.splits if_splits)

lemma ws_inv_ListenSendChan:
  "ws_inv w \<Longrightarrow> g < nextGroup w \<Longrightarrow> ws_inv (fst (ListenSendChan env n g w))"
proof (induction n arbitrary: w)
  case (Suc n)
  show ?case
  proof (cases "try_recv (gSend (tgroups w g))")
    case (Received m ch)
    then have "ws_inv (SendToUsers env g m (upd_group g (\<lambda>x. x\<lparr>gSend := ch\<rparr>) w))"
      using Suc.prems ws_inv_recv_group ws_inv_le [OF ws_le_SendToUsers] by blast
    with Received Suc show ?thesis by (simp add: Let_def)
  next
    case RecvClosed
    then have "cclosed (gSend (tgroups w g))" by (auto simp: try_recv_def split: list.splits if_splits)
    with Suc.prems have "gState (tgroups w g) = 2"
      using groups_invD(6) ws_invD(2) by (auto simp: group_ok_def)
    moreover from this have "DeleteTGroup g w = w"
      using Suc.prems groups_inv_dead ws_invD(2) by (intro DeleteTGroup_dead) blast+
    ultimately show ?thesis using RecvClosed Suc.prems by simp
  qed (use Suc.prems in simp)
qed simp

section \<open>Joining and leaving through a registered client\<close>

lemma ws_inv_InTGroup:
  assumes inv: "ws_inv w" and c: "mget (Clients w) uid = Some c"
  shows "\<exists>w'. InTGroup c gid w = Some w' \<and> ws_inv w' \<and>
     members w' = (members w)(gid := insert uid (members w gid)) \<and>
     Clients w' = Clients w"
proof -
  note ci = ws_invD(1) [OF inv]
  have id: "cUserId (clients w c) = uid" using clients_invD(4) [OF ci c] .
  obtain w1 where j: "UserJoinTGroup gid uid w = Some (w1, True)" and g1: "groups_inv w1"
    and m1: "members w1 = (members w)(gid := insert uid (members w gid))"
    using UserJoinTGroup_spec [OF ws_invD(2) [OF inv], of gid uid] by blast
  have fr: "Clients w1 = Clients w" "ConnClientIdx w1 = ConnClientIdx w" "clients w1 = clients w"
    "nextClient w1 = nextClient w"
    using UserJoinTGroup_frame [OF ws_invD(2) [OF inv] j] by simp_all
  let ?w = "upd_client c (\<lambda>x. x\<lparr>cTGroup := mput gid True (cTGroup x)\<rparr>) w1"
  have "clients_inv ?w"
    using ci by (rule clients_inv_mono) (auto simp: fr client_ok_def)
  moreover have "groups_inv ?w" "members ?w = members w1"
    using g1 groups_inv_cong [of ?w w1] members_cong [of ?w w1] by simp_all
  moreover have "member_inv ?w"
    unfolding member_inv_def
  proof (intro allI)
    fix i u
    have "u \<noteq> uid \<Longrightarrow> mget (Clients w) u \<noteq> Some c"
      using clients_invD(4) [OF ci, of u c] id by auto
    then have "in_group ?w u i \<longleftrightarrow> in_group w u i \<or> (u = uid \<and> i = gid)"
      using c fr by (auto simp: in_group_def split: option.split)
    then show "u \<in> members ?w i \<longleftrightarrow> in_group ?w u i"
      using ws_invD(3) [OF inv] calculation(3) m1 by (auto simp: member_inv_def)
  qed
  ultimately show ?thesis
    using j m1 fr id by (simp add: InTGroup_def ws_inv_def)
qed

lemma OutTGroup_groups:
  assumes "groups_inv w"
  shows "groups_inv (OutTGroup c gid w)"
    and "members (OutTGroup c gid w) = (members w)(gid := members w gid - {cUserId (clients w c)})"
proof -
  let ?v = "fst (UserOutTGroup gid (cUserId (clients w c)) w)"
  have "groups_inv (OutTGroup c gid w) = groups_inv ?v" "members (OutTGroup c gid w) = members ?v"
    using groups_inv_cong [of "OutTGroup c gid w" ?v] members_cong [of "OutTGroup c gid w" ?v]
    by (simp_all add: OutTGroup_def Let_def)
  then show "groups_inv (OutTGroup c gid w)"
    and "members (OutTGroup c gid w) = (members w)(gid := members w gid - {cUserId (clients w c)})"
    using UserOutTGroup_spec [OF assms] by simp_all
qed

lemma OutTGroup_clients:
  "clients (OutTGroup c gid w) =
     (clients w)(c := (clients w c)\<lparr>cTGroup := mdel gid (cTGroup (clients w c))\<rparr>)"
  by (simp add: OutTGroup_def Let_def)

lemma ws_inv_OutTGroup:
  assumes inv: "ws_inv w" and c: "mget (Clients w) uid = Some c"
  shows "ws_inv (OutTGroup c gid w)"
    and "members (OutTGroup c gid w) = (members w)(gid := members w gid - {uid})"
proof -
  note ci = ws_invD(1) [OF inv]
  have id: "cUserId (clients w c) = uid" using clients_invD(4) [OF ci c] .
  show m: "members (OutTGroup c gid w) = (members w)(gid := members w gid - {uid})"
    using OutTGroup_groups(2) [OF ws_invD(2) [OF inv]] id by simp
  have "clients_inv (OutTGroup c gid w)"
    using ci by (rule clients_inv_mono) (auto simp: client_ok_def OutTGroup_clients)
  moreover have "member_inv (OutTGroup c gid w)"
    unfolding member_inv_def
  proof (intro allI)
    fix i u
    have "u \<noteq> uid \<Longrightarrow> mget (Clients w) u \<noteq> Some c"
      using clients_invD(4) [OF ci, of u c] id by auto
    then have "in_group (OutTGroup c gid w) u i \<longleftrightarrow> in_group w u i \<and> \<not> (u = uid \<and> i = gid)"
      using c by (auto simp: in_group_def OutTGroup_clients split: option.split)
    then show "u \<in> members (OutTGroup c gid w) i \<longleftrightarrow> in_group (OutTGroup c gid w) u i"
      using ws_invD(3) [OF inv] m by (auto simp: member_inv_def)
  qed
  ultimately show "ws_inv (OutTGroup c gid w)"
    using OutTGroup_groups(1) [OF ws_invD(2) [OF inv]] by (simp add: ws_inv_def)
qed

section \<open>The end of a client\<close>

lemma OutAll_groups:
  assumes "groups_inv w"
  shows "groups_inv (fold (outTGroup_locked c) gs w) \<and>
     members (fold (outTGroup_locked c) gs w) =
       (\<lambda>gid. if gid \<in> set gs then members w gid - {cUserId (clients w c)} else members w gid)"
  using assms
proof (induction gs arbitrary: w)
  case (Cons g gs)
  from Cons.IH [of "OutTGroup c g w"] Cons.prems OutTGroup_groups [OF Cons.prems, of c g]
  show ?case by (auto simp: outTGroup_locked_eq fun_eq_iff)
qed simp

lemma OutAllTGroup_clients_other:
  "d \<noteq> c \<Longrightarrow> clients (OutAllTGroup env c w) d = clients w d"
  unfolding OutAllTGroup_def
  by (rule fold_frame [where g = "\<lambda>w. clients w d"]) (simp add: outTGroup_locked_eq OutTGroup_clients)

lemma OutAllTGroup_mwf:
  "mwf (cTGroup (clients w c)) \<Longrightarrow> mwf (cTGroup (clients (OutAllTGroup env c w) c))"
  unfolding OutAllTGroup_def
  by (rule fold_invariant [where P = "\<lambda>w. mwf (cTGroup (clients w c))"])
    (auto simp: outTGroup_locked_eq OutTGroup_clients)

text \<open>
  Closing a registered client: the callback, if there is one, is called last, on a state
  without any trace of the client; the state before it is \<open>closed_client\<close>.
\<close>

definition closed_client :: "('k, 'r, 'n) ws_env \<Rightarrow> cptr \<Rightarrow> ('k, 'r, 'n) ws \<Rightarrow> ('k, 'r, 'n) ws" where
  "closed_client env c w = fst (Client_OnClose env None c w)"

lemma Client_OnClose_cb:
  assumes "ws_inv w" and c: "mget (Clients w) uid = Some c"
  shows "Client_OnClose env cb c w =
     ((case cb of None \<Rightarrow> closed_client env c w | Some f \<Rightarrow> f c (closed_client env c w)), True)"
proof -
  note ci = ws_invD(1) [OF assms(1)]
  have "\<not> cCloseOnce (clients w c)" "\<not> cclosed (cSendChan (clients w c))"
    using clients_invD(3,5) [OF ci c] clients_invD(10) [OF ci, of c] by (auto simp: client_ok_def)
  then show ?thesis
    by (simp add: closed_client_def Client_OnClose_def Let_def DelClient_def DelClientConn_def
        close_chan_def split: option.split)
qed

lemma closed_client_tables:
  assumes inv: "ws_inv w" and c: "mget (Clients w) uid = Some c"
  shows "Clients (closed_client env c w) = mdel uid (Clients w)"
    and "ConnClientIdx (closed_client env c w) = mdel (cSocket (clients w c)) (ConnClientIdx w)"
    and "nextClient (closed_client env c w) = nextClient w"
    and "d \<noteq> c \<Longrightarrow> clients (closed_client env c w) d = clients w d"
    and "TGroups (closed_client env c w) =
       TGroups (OutAllTGroup env c (upd_client c (\<lambda>x. x\<lparr>cCloseOnce := True, cState := StateOffline\<rparr>) w))"
    and "tgroups (closed_client env c w) =
       tgroups (OutAllTGroup env c (upd_client c (\<lambda>x. x\<lparr>cCloseOnce := True, cState := StateOffline\<rparr>) w))"
    and "nextGroup (closed_client env c w) = nextGroup w"
    and "Config (closed_client env c w) = Config w"
proof -
  note ci = ws_invD(1) [OF inv]
  have "\<not> cCloseOnce (clients w c)" "\<not> cclosed (cSendChan (clients w c))"
    and "cUserId (clients w c) = uid"
    using clients_invD(3-5) [OF ci c] clients_invD(10) [OF ci, of c] by (auto simp: client_ok_def)
  then show "Clients (closed_client env c w) = mdel uid (Clients w)"
    and "ConnClientIdx (closed_client env c w) = mdel (cSocket (clients w c)) (ConnClientIdx w)"
    and "nextClient (closed_client env c w) = nextClient w"
    and "d \<noteq> c \<Longrightarrow> clients (closed_client env c w) d = clients w d"
    and "TGroups (closed_client env c w) =
       TGroups (OutAllTGroup env c (upd_client c (\<lambda>x. x\<lparr>cCloseOnce := True, cState := StateOffline\<rparr>) w))"
    and "tgroups (closed_client env c w) =
       tgroups (OutAllTGroup env c (upd_client c (\<lambda>x. x\<lparr>cCloseOnce := True, cState := StateOffline\<rparr>) w))"
    and "nextGroup (closed_client env c w) = nextGroup w"
    and "Config (closed_client env c w) = Config w"
    by (simp_all add: closed_client_def Client_OnClose_def Let_def DelClient_def DelClientConn_def
        close_chan_def GetKey_def OutAllTGroup_clients_other)
qed

lemma closed_client_self:
  assumes inv: "ws_inv w" and c: "mget (Clients w) uid = Some c"
  shows "cCloseOnce (clients (closed_client env c w) c)"
    and "cState (clients (closed_client env c w) c) = StateOffline"
    and "cclosed (cSendChan (clients (closed_client env c w) c))"
    and "cbuf (cSendChan (clients (closed_client env c w) c)) = cbuf (cSendChan (clients w c))"
    and "client_ok (clients (closed_client env c w) c)"
    and "range_ok env \<Longrightarrow> mget (cTGroup (clients (closed_client env c w) c)) = Map.empty"
proof -
  let ?v = "upd_client c (\<lambda>x. x\<lparr>cCloseOnce := True, cState := StateOffline\<rparr>) w"
  note ci = ws_invD(1) [OF inv]
  have n: "\<not> cCloseOnce (clients w c)" "\<not> cclosed (cSendChan (clients w c))"
    "chan_ok (cSendChan (clients w c))" "mwf (cTGroup (clients w c))"
    using clients_invD(3,5) [OF ci c] clients_invD(10) [OF ci, of c] by (auto simp: client_ok_def)
  have eq: "clients (closed_client env c w) c =
      (clients (OutAllTGroup env c ?v) c)\<lparr>cSendChan := (cSendChan (clients w c))\<lparr>cclosed := True\<rparr>\<rparr>"
    using n by (simp add: closed_client_def Client_OnClose_def Let_def DelClient_def DelClientConn_def
        close_chan_def)
  show "cCloseOnce (clients (closed_client env c w) c)"
    and "cState (clients (closed_client env c w) c) = StateOffline"
    and "cclosed (cSendChan (clients (closed_client env c w) c))"
    and "cbuf (cSendChan (clients (closed_client env c w) c)) = cbuf (cSendChan (clients w c))"
    by (simp_all add: eq)
  show "client_ok (clients (closed_client env c w) c)"
    using n OutAllTGroup_mwf [of ?v c env] by (simp add: eq client_ok_def)
  show "range_ok env \<Longrightarrow> mget (cTGroup (clients (closed_client env c w) c)) = Map.empty"
    using OutAllTGroup_TGroup [of env c ?v] by (simp add: eq)
qed

lemma closed_client_members:
  assumes inv: "ws_inv w" and c: "mget (Clients w) uid = Some c" and r: "range_ok env"
  shows "groups_inv (closed_client env c w)"
    and "members (closed_client env c w) gid = members w gid - {uid}"
proof -
  let ?v = "upd_client c (\<lambda>x. x\<lparr>cCloseOnce := True, cState := StateOffline\<rparr>) w"
  let ?u = "OutAllTGroup env c ?v"
  let ?ks = "RangeOrder env (mkeys (cTGroup (clients w c)))"
  note ci = ws_invD(1) [OF inv]
  have id: "cUserId (clients w c) = uid" using clients_invD(4) [OF ci c] .
  have v: "groups_inv ?v" "members ?v = members w"
    using ws_invD(2) [OF inv] groups_inv_cong [of ?v w] members_cong [of ?v w] by simp_all
  have u: "groups_inv ?u" "members ?u = (\<lambda>gid. if gid \<in> set ?ks then members w gid - {uid} else members w gid)"
    using OutAll_groups [OF v(1), of c ?ks] v(2) id by (simp_all add: OutAllTGroup_def cong: if_cong)
  have "uid \<notin> members w gid" if "gid \<notin> set ?ks"
    using that ws_invD(3) [OF inv] c r
    by (simp add: member_inv_def in_group_Some range_ok_set mget_key_iff)
  then have "members ?u gid = members w gid - {uid}"
    by (simp add: u(2))
  moreover have t: "TGroups (closed_client env c w) = TGroups ?u"
      "tgroups (closed_client env c w) = tgroups ?u"
      "nextGroup (closed_client env c w) = nextGroup ?u"
    using closed_client_tables [OF inv c] by simp_all
  ultimately show "members (closed_client env c w) gid = members w gid - {uid}"
    using members_cong [of "closed_client env c w" ?u] by simp
  show "groups_inv (closed_client env c w)"
    using u(1) groups_inv_cong [OF t] by simp
qed

lemma clients_inv_closed:
  assumes inv: "ws_inv w" and c: "mget (Clients w) uid = Some c"
  shows "clients_inv (closed_client env c w)"
proof -
  note ci = ws_invD(1) [OF inv] and t = closed_client_tables [OF inv c, where env = env]
  have other: "d \<noteq> c" if "mget (Clients w) u = Some d" "u \<noteq> uid" for u d
    using clients_invD(4) [OF ci that(1)] clients_invD(4) [OF ci c] that(2) by auto
  have conn: "d \<noteq> c \<and> cUserId (clients w d) \<noteq> uid"
    if "mget (ConnClientIdx w) k = Some d" "k \<noteq> cSocket (clients w c)" for k d
    using clients_invD(8,9) [OF ci that(1)] c that(2) by auto
  have sock: "cSocket (clients w d) \<noteq> cSocket (clients w c)"
    if "mget (Clients w) u = Some d" "u \<noteq> uid" for u d
    using clients_invD(6) [OF ci that(1)] clients_invD(6) [OF ci c] other [OF that] by auto
  have "client_ok (clients (closed_client env c w) d)" if "d < nextClient w" for d
    using closed_client_self(5) [OF inv c] clients_invD(10) [OF ci that] t(4) [of d]
    by (cases "d = c") auto
  moreover have "c' < nextClient w \<and> cUserId (clients (closed_client env c w) c') = u \<and>
      \<not> cCloseOnce (clients (closed_client env c w) c') \<and>
      mget (ConnClientIdx (closed_client env c w)) (cSocket (clients (closed_client env c w) c')) = Some c'"
    if "mget (Clients (closed_client env c w)) u = Some c'" for u c'
    using that clients_invD(3-6) [OF ci, of u c'] other [of u c'] sock [of u c']
    by (simp add: t split: if_splits)
  moreover have "c' < nextClient w \<and> cSocket (clients (closed_client env c w) c') = k \<and>
      mget (Clients (closed_client env c w)) (cUserId (clients (closed_client env c w) c')) = Some c'"
    if "mget (ConnClientIdx (closed_client env c w)) k = Some c'" for k c'
    using that clients_invD(7-9) [OF ci, of k c'] conn [of k c']
    by (simp add: t split: if_splits)
  ultimately show ?thesis
    using clients_invD(1,2) [OF ci] unfolding clients_inv_def by (simp add: t)
qed

lemma ws_inv_closed_client:
  assumes inv: "ws_inv w" and c: "mget (Clients w) uid = Some c" and r: "range_ok env"
  shows "ws_inv (closed_client env c w)"
proof -
  note t = closed_client_tables [OF inv c, where env = env]
  have "in_group (closed_client env c w) u i \<longleftrightarrow> in_group w u i \<and> u \<noteq> uid" for u i
  proof (cases "u = uid \<or> mget (Clients w) u = None")
    case True
    then show ?thesis by (auto simp: in_group_def t)
  next
    case False
    then obtain d where d: "mget (Clients w) u = Some d" "u \<noteq> uid" by auto
    then have "d \<noteq> c"
      using clients_invD(4) [OF ws_invD(1) [OF inv]] c by metis
    with d show ?thesis by (simp add: in_group_def t)
  qed
  then have "member_inv (closed_client env c w)"
    using ws_invD(3) [OF inv] closed_client_members(2) [OF inv c r] by (simp add: member_inv_def)
  then show ?thesis
    using clients_inv_closed [OF inv c] closed_client_members(1) [OF inv c r] by (simp add: ws_inv_def)
qed

lemma closed_client_kv:
  assumes inv: "ws_inv w" and c: "mget (Clients w) uid = Some c" and r: "redis_ok env kv"
  shows "kv (redis (closed_client env c w)) = (kv (redis w))(getUserOnlineKey uid w := None)"
proof -
  note ci = ws_invD(1) [OF inv]
  have "\<not> cCloseOnce (clients w c)" "\<not> cclosed (cSendChan (clients w c))"
    and "cUserId (clients w c) = uid"
    using clients_invD(3-5) [OF ci c] clients_invD(10) [OF ci, of c] by (auto simp: client_ok_def)
  then show ?thesis
    using r by (simp add: closed_client_def Client_OnClose_def Let_def DelClient_def DelClientConn_def
        close_chan_def GetKey_def DelUserOnlineInfo_kv getUserOnlineKey_def fun_upd_def)
qed

section \<open>A new client\<close>

lemma register_tables:
  assumes "NewClient k uid ru mc w = (w1, c)"
  shows "Clients (InitStart env c w1) = mput uid c (Clients w)" "ConnClientIdx (InitStart env c w1) = mput k c (ConnClientIdx w)"
    "nextClient (InitStart env c w1) = Suc c" "TGroups (InitStart env c w1) = TGroups w" "tgroups (InitStart env c w1) = tgroups w"
    "nextGroup (InitStart env c w1) = nextGroup w" "d \<noteq> c \<Longrightarrow> clients (InitStart env c w1) d = clients w d"
    "cUserId (clients (InitStart env c w1) c) = uid" "cSocket (clients (InitStart env c w1) c) = k" "cTGroup (clients (InitStart env c w1) c) = []"
    "\<not> cCloseOnce (clients (InitStart env c w1) c)" "client_ok (clients (InitStart env c w1) c)"
  using assms by (auto simp: NewClient_def InitStart_def OnConnect_def AddClient_def AddClientConn_def
      client_ok_def make_chan_def chan_ok_def Let_def)

lemma ws_inv_register:
  assumes inv: "ws_inv w" and u: "mget (Clients w) uid = None" and k: "mget (ConnClientIdx w) k = None"
    and n: "NewClient k uid ru mc w = (w1, c)"
  shows "ws_inv (InitStart env c w1)"
    and "mget (Clients (InitStart env c w1)) uid = Some c"
    and "members (InitStart env c w1) = members w"
proof -
  let ?w = "InitStart env c w1"
  note ci = ws_invD(1) [OF inv]
  have c: "c = nextClient w" using n by (simp add: NewClient_def Let_def)
  note t = register_tables [OF n, where env = env]
  have old: "d < Suc c \<and> d \<noteq> c \<and> u \<noteq> uid" if "mget (Clients w) u = Some d" for u d
    using clients_invD(3) [OF ci that] that u c by auto
  have oldk: "d < Suc c \<and> d \<noteq> c \<and> j \<noteq> k" if "mget (ConnClientIdx w) j = Some d" for j d
    using clients_invD(7) [OF ci that] that k c by auto
  have sock: "cSocket (clients w d) \<noteq> k" if "mget (Clients w) u = Some d" for u d
    using clients_invD(6) [OF ci that] k by auto
  have user: "cUserId (clients w d) \<noteq> uid" if "mget (ConnClientIdx w) j = Some d" for j d
    using clients_invD(9) [OF ci that] u by auto
  have "client_ok (clients ?w d)" if "d < Suc c" for d
    using that clients_invD(10) [OF ci, of d] t(7) [of d] t(12) c by (cases "d = c") auto
  moreover have "d < Suc c \<and> cUserId (clients ?w d) = v \<and> \<not> cCloseOnce (clients ?w d) \<and>
      mget (ConnClientIdx ?w) (cSocket (clients ?w d)) = Some d" if "mget (Clients ?w) v = Some d" for v d
    using that old [of v d] sock [of v d] clients_invD(4-6) [OF ci, of v d] t(1,2,8,9,11)
    by (cases "v = uid") (simp_all add: t(7))
  moreover have "d < Suc c \<and> cSocket (clients ?w d) = j \<and>
      mget (Clients ?w) (cUserId (clients ?w d)) = Some d" if "mget (ConnClientIdx ?w) j = Some d" for j d
    using that oldk [of j d] user [of j d] clients_invD(8,9) [OF ci, of j d] t(1,2,8,9)
    by (cases "j = k") (simp_all add: t(7))
  ultimately have "clients_inv ?w"
    using clients_invD(1,2) [OF ci] unfolding clients_inv_def by (simp add: t)
  moreover have m: "members ?w = members w" "groups_inv ?w"
    using ws_invD(2) [OF inv] groups_inv_cong [of ?w w] members_cong [of ?w w] t(4-6) by simp_all
  moreover have "in_group ?w v i = in_group w v i" for v i
  proof (cases "v = uid")
    case True
    then show ?thesis using u by (simp add: in_group_def t)
  next
    case False
    then show ?thesis
      using old [of v] by (cases "mget (Clients w) v") (simp_all add: in_group_def t(1,7))
  qed
  ultimately show "ws_inv ?w" "mget (Clients ?w) uid = Some c" "members ?w = members w"
    using ws_invD(3) [OF inv] by (simp_all add: ws_inv_def member_inv_def t(1))
qed

end
