(* ===== verification/EtcdRegistry.thy ===== *)
theory EtcdRegistry
  imports ImErr
begin

text \<open>
  Service discovery and registration (\<^verbatim>\<open>pkg/etcd_registry\<close>). Etcd is outside the
  repository: the answers of its client are arguments. The discovery calls back into the
  rpc client table, which is the state \<open>'s\<close> the callbacks act on.
\<close>

section \<open>Discovery (discovery.go)\<close>

record kv =
  kvKey :: string
  kvValue :: string

datatype ev_type = PUT | DELETE

record event =
  evType :: ev_type
  evKv :: kv

record 's service_discovery =
  sdName :: string
  onRegister_fn :: "kv \<Rightarrow> 's \<Rightarrow> 's"
  onUnregister_fn :: "kv \<Rightarrow> 's \<Rightarrow> 's"

definition NewServiceDiscovery ::
    "string \<Rightarrow> (kv \<Rightarrow> 's \<Rightarrow> 's) \<Rightarrow> (kv \<Rightarrow> 's \<Rightarrow> 's) \<Rightarrow> 's service_discovery" where
  "NewServiceDiscovery name onRegister onUnregister =
     \<lparr>sdName = name, onRegister_fn = onRegister, onUnregister_fn = onUnregister\<rparr>"

definition handle_event :: "'s service_discovery \<Rightarrow> event \<Rightarrow> 's \<Rightarrow> 's" where
  "handle_event s ev st =
     (case evType ev of
        PUT \<Rightarrow> onRegister_fn s (evKv ev) st
      | DELETE \<Rightarrow> onUnregister_fn s (evKv ev) st)"

text \<open>
  What etcd answers: to a query for a prefix the keys and the revision they were read at, or
  an error; to a watch of a prefix from a revision the responses delivered so far.
\<close>

record etcd_reads =
  etcdGet :: "string \<Rightarrow> (kv list \<times> int) result"
  etcdWatch :: "string \<Rightarrow> int \<Rightarrow> event list list"

definition watcherFromRevision :: "etcd_reads \<Rightarrow> 's service_discovery \<Rightarrow> int \<Rightarrow> 's \<Rightarrow> 's" where
  "watcherFromRevision E s revision st =
     fold (\<lambda>evs. fold (handle_event s) evs) (etcdWatch E (sdName s) revision) st"

text \<open>The older loop, without a start revision, which is revision 0 for etcd.\<close>

definition watcher :: "etcd_reads \<Rightarrow> 's service_discovery \<Rightarrow> 's \<Rightarrow> 's" where
  "watcher E s st = fold (\<lambda>evs. fold (handle_event s) evs) (etcdWatch E (sdName s) 0) st"

text \<open>
  \<^verbatim>\<open>WatchService\<close> registers the keys of the query and starts the watch one revision later; the
  new state is the one after the watch responses so far.
\<close>

definition WatchService ::
    "etcd_reads \<Rightarrow> 's service_discovery \<Rightarrow> 's \<Rightarrow> 's \<times> go_error option" where
  "WatchService E s st =
     (case etcdGet E (sdName s) of
        Inl err \<Rightarrow> (st, Some err)
      | Inr (kvs, revision) \<Rightarrow>
          (watcherFromRevision E s (wrap64 (revision + 1)) (fold (onRegister_fn s) kvs st), None))"

section \<open>What is used of etcd\<close>

text \<open>
  A store with revisions: the history lists the changes with the revision of each, in
  increasing order; revisions are positive. A query for a prefix returns the live keys of the
  changes under the prefix up to the revision of the query, each once; a watch of a prefix
  from a positive revision delivers, in some batching, the changes under the prefix from that
  revision on. What a watch from revision 0 or below delivers is not used.
\<close>

type_synonym history = "(int \<times> event) list"

fun apply_event :: "event \<Rightarrow> (string \<Rightarrow> string option) \<Rightarrow> (string \<Rightarrow> string option)" where
  "apply_event ev m =
     (case evType ev of
        PUT \<Rightarrow> m(kvKey (evKv ev) \<mapsto> kvValue (evKv ev))
      | DELETE \<Rightarrow> m(kvKey (evKv ev) := None))"

definition registry :: "history \<Rightarrow> (string \<Rightarrow> string option)" where
  "registry h = fold (\<lambda>(r, ev). apply_event ev) h Map.empty"

definition upto_rev :: "int \<Rightarrow> history \<Rightarrow> history" where
  "upto_rev r h = filter (\<lambda>(r', ev). r' \<le> r) h"

definition under_prefix :: "string \<Rightarrow> history \<Rightarrow> history" where
  "under_prefix p h = filter (\<lambda>(r, ev). take (length p) (kvKey (evKv ev)) = p) h"

definition etcd_get_ok :: "history \<Rightarrow> int \<Rightarrow> etcd_reads \<Rightarrow> bool" where
  "etcd_get_ok h r E \<longleftrightarrow> 0 < r \<and>
     (\<forall>p. \<exists>kvs. etcdGet E p = Inr (kvs, r) \<and> distinct (map kvKey kvs) \<and>
        map_of (map (\<lambda>x. (kvKey x, kvValue x)) kvs) = registry (upto_rev r (under_prefix p h)))"

definition etcd_watch_ok :: "history \<Rightarrow> etcd_reads \<Rightarrow> bool" where
  "etcd_watch_ok h E \<longleftrightarrow> sorted (map fst h) \<and>
     (\<forall>p from. 0 < from \<longrightarrow>
        concat (etcdWatch E p from) = map snd (filter (\<lambda>(r, ev). from \<le> r) (under_prefix p h)))"

section \<open>Registration (registry.go)\<close>

text \<open>
  The state of a registration. \<open>srLog\<close> records the keys this process put into etcd, with
  the lease of each.
\<close>

record service_register =
  srLease :: int
  srStatus :: int
  srLeaseID :: int
  srName :: string
  srAddr :: string
  srLog :: "(string \<times> string \<times> int) list"

text \<open>
  What etcd answered to one registration attempt: the lease, the put and the keep-alive
  request, each of which may fail.
\<close>

record lease_answers =
  laGrant :: "int result"
  laPut :: "go_error option"
  laKeepAlive :: "go_error option"

definition putKeyWithLease ::
    "lease_answers \<Rightarrow> service_register \<Rightarrow> service_register \<times> go_error option" where
  "putKeyWithLease a s =
     (case laGrant a of
        Inl err \<Rightarrow> (s, Some err)
      | Inr lid \<Rightarrow>
          (case laPut a of
             Some err \<Rightarrow> (s, Some err)
           | None \<Rightarrow>
               (let s1 = s\<lparr>srLog := srLog s @ [(srName s, srAddr s, lid)]\<rparr> in
                case laKeepAlive a of
                  Some err \<Rightarrow> (s1, Some err)
                | None \<Rightarrow> (s1\<lparr>srLeaseID := lid, srStatus := 2\<rparr>, None))))"

definition NewServiceRegister ::
    "string \<Rightarrow> string \<Rightarrow> int \<Rightarrow> lease_answers \<Rightarrow> service_register result" where
  "NewServiceRegister name addr lease a =
     (let ser = \<lparr>srLease = lease, srStatus = 1, srLeaseID = 0, srName = name, srAddr = addr,
            srLog = []\<rparr>
      in case putKeyWithLease a ser of
           (_, Some err) \<Rightarrow> Inl err
         | (ser', None) \<Rightarrow> Inr ser')"

text \<open>
  The retry loop of \<^verbatim>\<open>ListenLeaseRespChan\<close>, entered when the keep-alive channel was closed.
  Another goroutine may close the registration meanwhile: for each round it is given whether
  and when \<^verbatim>\<open>Close\<close> sets the status, before the round looks at it, while \<^verbatim>\<open>putKeyWithLease\<close> runs
  (which does not look at the status and sets it at its end, if it succeeds), or after that.
  The loop sleeps after a failed attempt and goes on; \<open>None\<close> says that it is still retrying
  when the given rounds are used up. The second component of the result says whether a new
  listener was started.
\<close>

datatype close_point = NotClosed | ClosedBefore | ClosedDuring | ClosedAfter

definition close_if :: "bool \<Rightarrow> service_register \<Rightarrow> service_register" where
  "close_if b s = (if b then s\<lparr>srStatus := 3\<rparr> else s)"

fun relisten ::
    "(close_point \<times> lease_answers) list \<Rightarrow> service_register \<Rightarrow> (service_register \<times> bool) option" where
  "relisten [] s = None"
| "relisten ((p, a) # rest) s =
     (let s1 = close_if (p = ClosedBefore) s in
      if srStatus s1 = 3 then Some (s1, False)
      else
        (let (s2, err) = putKeyWithLease a (close_if (p = ClosedDuring) s1);
             s3 = close_if (p = ClosedAfter) s2
         in case err of
              Some e \<Rightarrow> relisten rest s3
            | None \<Rightarrow> Some (s3, True)))"

text \<open>The arguments are the answers of revoking the lease and of closing the etcd client.\<close>

definition ServiceRegister_Close ::
    "go_error option \<Rightarrow> go_error option \<Rightarrow> service_register \<Rightarrow>
     service_register \<times> go_error option" where
  "ServiceRegister_Close revoke cliClose s =
     (let s1 = s\<lparr>srStatus := 3\<rparr> in
      case revoke of Some err \<Rightarrow> (s1, Some err) | None \<Rightarrow> (s1, cliClose))"

section \<open>Facts\<close>

lemma watcherFromRevision_concat:
  "watcherFromRevision E s r st = fold (handle_event s) (concat (etcdWatch E (sdName s) r)) st"
proof -
  have "fold (\<lambda>evs. fold (handle_event s) evs) xs st = fold (handle_event s) (concat xs) st" for xs
    by (induction xs arbitrary: st) simp_all
  then show ?thesis by (simp add: watcherFromRevision_def)
qed

lemma registry_append: "registry (h @ h') = fold (\<lambda>(r, ev). apply_event ev) h' (registry h)"
  by (simp add: registry_def)

lemma split_history:
  "sorted (map fst h) \<Longrightarrow> upto_rev r h @ filter (\<lambda>(r', ev). r + 1 \<le> r') h = h"
proof (induction h)
  case (Cons a h)
  obtain r' ev where a: "a = (r', ev)" by fastforce
  show ?case
  proof (cases "r' \<le> r")
    case True
    with Cons a show ?thesis by (auto simp: upto_rev_def)
  next
    case False
    with Cons.prems a have "\<forall>x \<in> set h. r + 1 \<le> fst x" by auto
    then have "filter (\<lambda>(q, ev). q \<le> r) h = []" "filter (\<lambda>(q, ev). r + 1 \<le> q) h = h"
      by (auto simp: filter_empty_conv intro!: filter_True)
    with False a show ?thesis by (simp add: upto_rev_def)
  qed
qed (simp add: upto_rev_def)

lemma split_under:
  "sorted (map fst h) \<Longrightarrow>
   upto_rev r (under_prefix p h) @ filter (\<lambda>(r', ev). r + 1 \<le> r') (under_prefix p h) = under_prefix p h"
  using split_history [of "under_prefix p h" r] sorted_filter [of fst h] by (simp add: under_prefix_def)

text \<open>What is registered under a prefix.\<close>

lemma registry_under:
  "registry (under_prefix p h) k = (if take (length p) k = p then registry h k else None)"
proof (induction h rule: rev_induct)
  case (snoc x h)
  obtain r ev where x: "x = (r, ev)" by fastforce
  have "under_prefix p (h @ [x]) = under_prefix p h @ (if take (length p) (kvKey (evKv ev)) = p then [x] else [])"
    by (simp add: under_prefix_def x)
  with snoc show ?case
    by (simp add: registry_append x split: ev_type.split)
qed (simp add: registry_def under_prefix_def)

text \<open>
  The discovery contract: if the callbacks keep a table that follows puts and deletes,
  then reading the table once and watching from the next revision gives the table of
  the whole history, with nothing missed and nothing applied twice.
\<close>

locale discovery_client =
  fixes onReg :: "kv \<Rightarrow> 's \<Rightarrow> 's"
    and onUnreg :: "kv \<Rightarrow> 's \<Rightarrow> 's"
    and table :: "'s \<Rightarrow> string \<Rightarrow> string option"
    and ok :: "'s \<Rightarrow> bool"
  assumes reg_table: "ok st \<Longrightarrow> table (onReg x st) = (table st)(kvKey x \<mapsto> kvValue x)"
    and unreg_table: "ok st \<Longrightarrow> table (onUnreg x st) = (table st)(kvKey x := None)"
    and reg_ok: "ok st \<Longrightarrow> ok (onReg x st)"
    and unreg_ok: "ok st \<Longrightarrow> ok (onUnreg x st)"
begin

lemma reg_all:
  "ok st \<Longrightarrow> ok (fold onReg xs st) \<and>
     table (fold onReg xs st) = table st ++ map_of (map (\<lambda>x. (kvKey x, kvValue x)) (rev xs))"
  by (induction xs arbitrary: st)
    (auto simp: reg_table reg_ok map_add_def fun_eq_iff split: option.splits)

lemma events_table:
  "ok st \<Longrightarrow> ok (fold (handle_event (NewServiceDiscovery n onReg onUnreg)) evs st) \<and>
     table (fold (handle_event (NewServiceDiscovery n onReg onUnreg)) evs st) =
       fold apply_event evs (table st)"
  by (induction evs arbitrary: st)
    (auto simp: handle_event_def NewServiceDiscovery_def reg_table unreg_table reg_ok unreg_ok
      split: ev_type.splits)

lemma discovery_complete:
  assumes ok: "ok st" and empty: "table st = Map.empty"
    and get: "etcd_get_ok h r E" and rev: "r + 1 < 2 ^ 63" and watch: "etcd_watch_ok h E"
  shows "let (st1, err) = WatchService E (NewServiceDiscovery n onReg onUnreg) st
         in err = None \<and> table st1 = registry (under_prefix n h)"
proof -
  let ?s = "NewServiceDiscovery n onReg onUnreg"
  obtain kvs where kvs: "etcdGet E n = Inr (kvs, r)" "distinct (map kvKey kvs)"
    "map_of (map (\<lambda>x. (kvKey x, kvValue x)) kvs) = registry (upto_rev r (under_prefix n h))" and r: "0 < r"
    using get unfolding etcd_get_ok_def by blast
  let ?st1 = "fold onReg kvs st"
  have d: "distinct (map fst (map (\<lambda>x. (kvKey x, kvValue x)) kvs))"
    using kvs(2) by (simp add: comp_def)
  have t1: "ok ?st1" "table ?st1 = registry (upto_rev r (under_prefix n h))"
    using reg_all [OF ok, of kvs] empty kvs(3) d
    by (simp_all add: rev_map [symmetric] map_of_rev_distinct)
  have "fold apply_event (map snd (filter (\<lambda>(q, ev). r + 1 \<le> q) (under_prefix n h))) (registry (upto_rev r (under_prefix n h))) =
      registry (upto_rev r (under_prefix n h) @ filter (\<lambda>(q, ev). r + 1 \<le> q) (under_prefix n h))"
    by (simp add: registry_append fold_map comp_def case_prod_unfold)
  also have "\<dots> = registry (under_prefix n h)"
    using watch by (simp add: split_under etcd_watch_ok_def)
  finally have w: "fold apply_event (concat (etcdWatch E n (r + 1))) (registry (upto_rev r (under_prefix n h))) =
      registry (under_prefix n h)"
    using watch r by (simp add: etcd_watch_ok_def)
  have 1: "wrap64 (r + 1) = r + 1" using r rev by (intro wrap64_id) simp_all
  show ?thesis
    using events_table [OF t1(1), of n "concat (etcdWatch E n (r + 1))"] t1(2) w kvs(1) 1
    by (simp add: WatchService_def NewServiceDiscovery_def watcherFromRevision_concat)
qed

end

end
