(* ===== verification/ApiClient.thy ===== *)
theory ApiClient
  imports WsState EtcdRegistry
begin

text \<open>
  The rpc client of a node (\<^verbatim>\<open>service/api/client/client.go\<close>): the table of the clients of the
  other nodes, kept by service discovery, and the calls to another node. A client object
  of the rpc library is identified by the address it dials; the calls themselves are
  functions of the environment.
\<close>

declare map_of_eq_Some_iff [simp del] Some_eq_map_of_iff [simp del]

section \<open>The table of rpc clients\<close>

definition onRegister ::
    "('k, 'r, 'n) ws_env \<Rightarrow> kv \<Rightarrow> ('k, 'r, 'n) ws \<Rightarrow> ('k, 'r, 'n) ws" where
  "onRegister env x w =
     (let addr = kvValue x; key = kvKey x in
      if mget (rpcClients w) key = Some addr then w
      else
        case rpcNewClient env (ServiceName w) addr of
          Inl err \<Rightarrow> w
        | Inr _ \<Rightarrow> w\<lparr>rpcClients := mput key addr (rpcClients w)\<rparr>)"

definition onUnregister :: "kv \<Rightarrow> ('k, 'r, 'n) ws \<Rightarrow> ('k, 'r, 'n) ws" where
  "onUnregister x w = (let key = kvKey x in w\<lparr>rpcClients := mdel key (rpcClients w)\<rparr>)"

text \<open>\<^verbatim>\<open>InitClient\<close> runs the discovery; an error of the query is not looked at.\<close>

definition InitClient ::
    "('k, 'r, 'n) ws_env \<Rightarrow> string \<Rightarrow> etcd_reads \<Rightarrow> ('k, 'r, 'n) ws \<Rightarrow> ('k, 'r, 'n) ws" where
  "InitClient env serviceName E w =
     (let w1 = w\<lparr>ServiceName := serviceName, rpcClients := []\<rparr>;
          etcdDiscovery = NewServiceDiscovery serviceName (onRegister env) onUnregister
      in fst (WatchService E etcdDiscovery w1))"

definition GetClientByAddr :: "string \<Rightarrow> ('k, 'r, 'n) ws \<Rightarrow> string result" where
  "GetClientByAddr addr w =
     (let key = ServiceName w @ addr in
      case mget (rpcClients w) key of
        None \<Rightarrow> Inl (NewImError ErrRpcClientNotFound)
      | Some client \<Rightarrow> Inr client)"

section \<open>The calls\<close>

definition rpc_SendMsgToUser ::
    "('k, 'r, 'n) ws_env \<Rightarrow> server \<Rightarrow> string \<Rightarrow> bytes \<Rightarrow> ('k, 'r, 'n) ws \<Rightarrow>
     ('k, 'r, 'n) ws \<times> bool \<times> go_error option" where
  "rpc_SendMsgToUser env server uid sendMsg w =
     (case GetClientByAddr (Server_String (Some server)) w of
        Inl err \<Rightarrow> (w, False, Some err)
      | Inr client \<Rightarrow>
          (let sendReq = \<lparr>smqUid = uid, smqMsg = sendMsg\<rparr>;
               (n, res) = rpcSendMsgToUser env client sendReq (net w);
               w1 = w\<lparr>net := n\<rparr>
           in case res of
                Inl err \<Rightarrow> (w1, False, Some err)
              | Inr rsp \<Rightarrow> if sint (smrRetCode rsp) \<noteq> OK then (w1, False, None) else (w1, True, None)))"

definition rpc_SendMsgToUserByTgid ::
    "('k, 'r, 'n) ws_env \<Rightarrow> server \<Rightarrow> string \<Rightarrow> string \<Rightarrow> bytes \<Rightarrow> ('k, 'r, 'n) ws \<Rightarrow>
     ('k, 'r, 'n) ws \<times> bool \<times> go_error option" where
  "rpc_SendMsgToUserByTgid env server uid tgid sendMsg w =
     (case GetClientByAddr (Server_String (Some server)) w of
        Inl err \<Rightarrow> (w, False, Some err)
      | Inr client \<Rightarrow>
          (let sendReq = \<lparr>sbtUid = uid, sbtTgid = tgid, sbtMsg = sendMsg\<rparr>;
               (n, res) = rpcSendMsgToUserByTgid env client sendReq (net w);
               w1 = w\<lparr>net := n\<rparr>
           in case res of
                Inl err \<Rightarrow> (w1, False, Some err)
              | Inr rsp \<Rightarrow> if sint (smrRetCode rsp) \<noteq> OK then (w1, False, None) else (w1, True, None)))"

definition rpc_StopUserClient ::
    "('k, 'r, 'n) ws_env \<Rightarrow> server \<Rightarrow> string \<Rightarrow> ('k, 'r, 'n) ws \<Rightarrow>
     ('k, 'r, 'n) ws \<times> bool \<times> go_error option" where
  "rpc_StopUserClient env server uid w =
     (case GetClientByAddr (Server_String (Some server)) w of
        Inl err \<Rightarrow> (w, False, Some err)
      | Inr client \<Rightarrow>
          (let sendReq = \<lparr>uirUid = uid\<rparr>;
               (n, res) = rpcStopUserClient env client sendReq (net w);
               w1 = w\<lparr>net := n\<rparr>
           in case res of
                Inl err \<Rightarrow> (w1, False, Some err)
              | Inr _ \<Rightarrow> (w1, True, None)))"

definition rpc_JoinGroup ::
    "('k, 'r, 'n) ws_env \<Rightarrow> server \<Rightarrow> string \<Rightarrow> string \<Rightarrow> ('k, 'r, 'n) ws \<Rightarrow>
     ('k, 'r, 'n) ws \<times> bool \<times> go_error option" where
  "rpc_JoinGroup env server uid tgid w =
     (case GetClientByAddr (Server_String (Some server)) w of
        Inl err \<Rightarrow> (w, False, Some err)
      | Inr client \<Rightarrow>
          (let sendReq = \<lparr>jgqUid = uid, jgqTgid = tgid\<rparr>;
               (n, res) = rpcJoinGroup env client sendReq (net w);
               w1 = w\<lparr>net := n\<rparr>
           in case res of
                Inl err \<Rightarrow> (w1, False, Some err)
              | Inr rsp \<Rightarrow> (w1, jgrRes rsp, None)))"

definition rpc_OutGroup ::
    "('k, 'r, 'n) ws_env \<Rightarrow> server \<Rightarrow> string \<Rightarrow> string \<Rightarrow> ('k, 'r, 'n) ws \<Rightarrow>
     ('k, 'r, 'n) ws \<times> bool \<times> go_error option" where
  "rpc_OutGroup env server uid tgid w =
     (case GetClientByAddr (Server_String (Some server)) w of
        Inl err \<Rightarrow> (w, False, Some err)
      | Inr client \<Rightarrow>
          (let sendReq = \<lparr>jgqUid = uid, jgqTgid = tgid\<rparr>;
               (n, res) = rpcOutGroup env client sendReq (net w);
               w1 = w\<lparr>net := n\<rparr>
           in case res of
                Inl err \<Rightarrow> (w1, False, Some err)
              | Inr rsp \<Rightarrow> (w1, jgrRes rsp, None)))"

section \<open>Frames\<close>

lemma rpc_SendMsgToUser_frame [simp, ws_frame]:
  "Config (fst (rpc_SendMsgToUser env s uid m w)) = Config w"
  "serverIp (fst (rpc_SendMsgToUser env s uid m w)) = serverIp w"
  "ServerName (fst (rpc_SendMsgToUser env s uid m w)) = ServerName w"
  "connKeepTime (fst (rpc_SendMsgToUser env s uid m w)) = connKeepTime w"
  "conns (fst (rpc_SendMsgToUser env s uid m w)) = conns w"
  "clients (fst (rpc_SendMsgToUser env s uid m w)) = clients w"
  "nextClient (fst (rpc_SendMsgToUser env s uid m w)) = nextClient w"
  "tgroups (fst (rpc_SendMsgToUser env s uid m w)) = tgroups w"
  "nextGroup (fst (rpc_SendMsgToUser env s uid m w)) = nextGroup w"
  "Clients (fst (rpc_SendMsgToUser env s uid m w)) = Clients w"
  "ConnClientIdx (fst (rpc_SendMsgToUser env s uid m w)) = ConnClientIdx w"
  "TGroups (fst (rpc_SendMsgToUser env s uid m w)) = TGroups w"
  "ServiceName (fst (rpc_SendMsgToUser env s uid m w)) = ServiceName w"
  "rpcClients (fst (rpc_SendMsgToUser env s uid m w)) = rpcClients w"
  "redis (fst (rpc_SendMsgToUser env s uid m w)) = redis w"
  "gos (fst (rpc_SendMsgToUser env s uid m w)) = gos w"
  "clock (fst (rpc_SendMsgToUser env s uid m w)) = clock w"
  by (simp_all add: rpc_SendMsgToUser_def Let_def split: sum.splits prod.splits)

lemma rpc_SendMsgToUserByTgid_frame [simp, ws_frame]:
  "Config (fst (rpc_SendMsgToUserByTgid env s uid gid m w)) = Config w"
  "serverIp (fst (rpc_SendMsgToUserByTgid env s uid gid m w)) = serverIp w"
  "ServerName (fst (rpc_SendMsgToUserByTgid env s uid gid m w)) = ServerName w"
  "connKeepTime (fst (rpc_SendMsgToUserByTgid env s uid gid m w)) = connKeepTime w"
  "conns (fst (rpc_SendMsgToUserByTgid env s uid gid m w)) = conns w"
  "clients (fst (rpc_SendMsgToUserByTgid env s uid gid m w)) = clients w"
  "nextClient (fst (rpc_SendMsgToUserByTgid env s uid gid m w)) = nextClient w"
  "tgroups (fst (rpc_SendMsgToUserByTgid env s uid gid m w)) = tgroups w"
  "nextGroup (fst (rpc_SendMsgToUserByTgid env s uid gid m w)) = nextGroup w"
  "Clients (fst (rpc_SendMsgToUserByTgid env s uid gid m w)) = Clients w"
  "ConnClientIdx (fst (rpc_SendMsgToUserByTgid env s uid gid m w)) = ConnClientIdx w"
  "TGroups (fst (rpc_SendMsgToUserByTgid env s uid gid m w)) = TGroups w"
  "ServiceName (fst (rpc_SendMsgToUserByTgid env s uid gid m w)) = ServiceName w"
  "rpcClients (fst (rpc_SendMsgToUserByTgid env s uid gid m w)) = rpcClients w"
  "redis (fst (rpc_SendMsgToUserByTgid env s uid gid m w)) = redis w"
  "gos (fst (rpc_SendMsgToUserByTgid env s uid gid m w)) = gos w"
  "clock (fst (rpc_SendMsgToUserByTgid env s uid gid m w)) = clock w"
  by (simp_all add: rpc_SendMsgToUserByTgid_def Let_def split: sum.splits prod.splits)

lemma rpc_StopUserClient_frame [simp, ws_frame]:
  "Config (fst (rpc_StopUserClient env s uid w)) = Config w"
  "serverIp (fst (rpc_StopUserClient env s uid w)) = serverIp w"
  "ServerName (fst (rpc_StopUserClient env s uid w)) = ServerName w"
  "connKeepTime (fst (rpc_StopUserClient env s uid w)) = connKeepTime w"
  "conns (fst (rpc_StopUserClient env s uid w)) = conns w"
  "clients (fst (rpc_StopUserClient env s uid w)) = clients w"
  "nextClient (fst (rpc_StopUserClient env s uid w)) = nextClient w"
  "tgroups (fst (rpc_StopUserClient env s uid w)) = tgroups w"
  "nextGroup (fst (rpc_StopUserClient env s uid w)) = nextGroup w"
  "Clients (fst (rpc_StopUserClient env s uid w)) = Clients w"
  "ConnClientIdx (fst (rpc_StopUserClient env s uid w)) = ConnClientIdx w"
  "TGroups (fst (rpc_StopUserClient env s uid w)) = TGroups w"
  "ServiceName (fst (rpc_StopUserClient env s uid w)) = ServiceName w"
  "rpcClients (fst (rpc_StopUserClient env s uid w)) = rpcClients w"
  "redis (fst (rpc_StopUserClient env s uid w)) = redis w"
  "gos (fst (rpc_StopUserClient env s uid w)) = gos w"
  "clock (fst (rpc_StopUserClient env s uid w)) = clock w"
  by (simp_all add: rpc_StopUserClient_def Let_def split: sum.splits prod.splits)

lemma rpc_JoinGroup_frame [simp, ws_frame]:
  "Config (fst (rpc_JoinGroup env s uid gid w)) = Config w"
  "serverIp (fst (rpc_JoinGroup env s uid gid w)) = serverIp w"
  "ServerName (fst (rpc_JoinGroup env s uid gid w)) = ServerName w"
  "connKeepTime (fst (rpc_JoinGroup env s uid gid w)) = connKeepTime w"
  "conns (fst (rpc_JoinGroup env s uid gid w)) = conns w"
  "clients (fst (rpc_JoinGroup env s uid gid w)) = clients w"
  "nextClient (fst (rpc_JoinGroup env s uid gid w)) = nextClient w"
  "tgroups (fst (rpc_JoinGroup env s uid gid w)) = tgroups w"
  "nextGroup (fst (rpc_JoinGroup env s uid gid w)) = nextGroup w"
  "Clients (fst (rpc_JoinGroup env s uid gid w)) = Clients w"
  "ConnClientIdx (fst (rpc_JoinGroup env s uid gid w)) = ConnClientIdx w"
  "TGroups (fst (rpc_JoinGroup env s uid gid w)) = TGroups w"
  "ServiceName (fst (rpc_JoinGroup env s uid gid w)) = ServiceName w"
  "rpcClients (fst (rpc_JoinGroup env s uid gid w)) = rpcClients w"
  "redis (fst (rpc_JoinGroup env s uid gid w)) = redis w"
  "gos (fst (rpc_JoinGroup env s uid gid w)) = gos w"
  "clock (fst (rpc_JoinGroup env s uid gid w)) = clock w"
  by (simp_all add: rpc_JoinGroup_def Let_def split: sum.splits prod.splits)

lemma rpc_OutGroup_frame [simp, ws_frame]:
  "Config (fst (rpc_OutGroup env s uid gid w)) = Config w"
  "serverIp (fst (rpc_OutGroup env s uid gid w)) = serverIp w"
  "ServerName (fst (rpc_OutGroup env s uid gid w)) = ServerName w"
  "connKeepTime (fst (rpc_OutGroup env s uid gid w)) = connKeepTime w"
  "conns (fst (rpc_OutGroup env s uid gid w)) = conns w"
  "clients (fst (rpc_OutGroup env s uid gid w)) = clients w"
  "nextClient (fst (rpc_OutGroup env s uid gid w)) = nextClient w"
  "tgroups (fst (rpc_OutGroup env s uid gid w)) = tgroups w"
  "nextGroup (fst (rpc_OutGroup env s uid gid w)) = nextGroup w"
  "Clients (fst (rpc_OutGroup env s uid gid w)) = Clients w"
  "ConnClientIdx (fst (rpc_OutGroup env s uid gid w)) = ConnClientIdx w"
  "TGroups (fst (rpc_OutGroup env s uid gid w)) = TGroups w"
  "ServiceName (fst (rpc_OutGroup env s uid gid w)) = ServiceName w"
  "rpcClients (fst (rpc_OutGroup env s uid gid w)) = rpcClients w"
  "redis (fst (rpc_OutGroup env s uid gid w)) = redis w"
  "gos (fst (rpc_OutGroup env s uid gid w)) = gos w"
  "clock (fst (rpc_OutGroup env s uid gid w)) = clock w"
  by (simp_all add: rpc_OutGroup_def Let_def split: sum.splits prod.splits)

section \<open>The table follows etcd\<close>

text \<open>The library's constructor of a client does not fail.\<close>

definition rpc_dial_ok :: "('k, 'r, 'n) ws_env \<Rightarrow> bool" where
  "rpc_dial_ok env \<longleftrightarrow> (\<forall>s a. rpcNewClient env s a = Inr ())"

text \<open>
  The two callbacks satisfy the contract of the discovery; where dialling can fail the
  discovery's callback is the identity on such a key, so the contract is that of the
  environments in which it does not.
\<close>

definition dial_all :: "('k, 'r, 'n) ws_env \<Rightarrow> ('k, 'r, 'n) ws_env" where
  "dial_all env = env\<lparr>rpcNewClient := \<lambda>_ _. Inr ()\<rparr>"

interpretation api: discovery_client "onRegister (dial_all env)" onUnregister
  "\<lambda>w. map_of (rpcClients w)" "\<lambda>_. True"
  by unfold_locales (auto simp: onRegister_def onUnregister_def dial_all_def Let_def fun_upd_idem)

lemma dial_all_id: "rpc_dial_ok env \<Longrightarrow> dial_all env = env"
proof -
  assume "rpc_dial_ok env"
  then have "rpcNewClient env = (\<lambda>_ _. Inr ())" by (simp add: rpc_dial_ok_def fun_eq_iff)
  then have "env\<lparr>rpcNewClient := \<lambda>_ _. Inr ()\<rparr> = env\<lparr>rpcNewClient := rpcNewClient env\<rparr>" by simp
  then show ?thesis by (simp add: dial_all_def)
qed

lemma InitClient_table:
  assumes "rpc_dial_ok env" and "etcd_get_ok h r E" and "r + 1 < 2 ^ 63" and "etcd_watch_ok h E"
  shows "map_of (rpcClients (InitClient env name E w)) = registry (under_prefix name h)"
  using api.discovery_complete [of "w\<lparr>ServiceName := name, rpcClients := []\<rparr>" h r E name env] assms
  by (simp add: InitClient_def dial_all_id case_prod_unfold Let_def)

lemma onRegister_ServiceName [simp]: "ServiceName (onRegister env x w) = ServiceName w"
  by (simp add: onRegister_def Let_def split: sum.splits)

lemma handle_event_ServiceName:
  "ServiceName (handle_event (NewServiceDiscovery n (onRegister env) onUnregister) ev w) = ServiceName w"
  by (simp add: handle_event_def NewServiceDiscovery_def onUnregister_def Let_def split: ev_type.splits)

lemma InitClient_ServiceName: "ServiceName (InitClient env name E w) = name"
  by (auto simp: InitClient_def Let_def WatchService_def watcherFromRevision_concat
      NewServiceDiscovery_def [symmetric] fold_frame [where g = ServiceName] handle_event_ServiceName
      split: sum.splits) (simp_all add: NewServiceDiscovery_def fold_frame [where g = ServiceName])

end
