(* ===== verification/WsProxy.thy ===== *)
theory WsProxy
  imports WsInvariant ApiClient
begin

text \<open>
  The two implementations of the \<^verbatim>\<open>RunProxy\<close> interface: \<^verbatim>\<open>LocalProxy\<close>
  (\<^verbatim>\<open>service/ws/local_proxy.go\<close>) for a single node and \<^verbatim>\<open>RedisProxy\<close>
  (\<^verbatim>\<open>service/ws/redis_proxy.go\<close>) for a cluster, the choice between them
  (\<^verbatim>\<open>service/ws/proxy.go\<close>), and the rpc handlers of a node
  (\<^verbatim>\<open>service/api/server/handler.go\<close>), which are the local proxy seen from another node.
\<close>

declare map_of_eq_Some_iff [simp del] Some_eq_map_of_iff [simp del]

section \<open>The local proxy\<close>

definition LP_SendResDataToLocalGroup ::
    "string \<Rightarrow> response_data \<Rightarrow> string \<Rightarrow> ('k, 'r, 'n) ws \<Rightarrow> (('k, 'r, 'n) ws \<times> go_error option) option" where
  "LP_SendResDataToLocalGroup gid resData exceptUid w =
     (case GetResDataGroupMsg resData exceptUid of
        Inl err \<Rightarrow> Some (w, Some err)
      | Inr groupMsg \<Rightarrow> SendMessageToTGroup gid groupMsg w)"

definition LP_SendResDataToGroup ::
    "string \<Rightarrow> response_data \<Rightarrow> string \<Rightarrow> ('k, 'r, 'n) ws \<Rightarrow> (('k, 'r, 'n) ws \<times> go_error option) option" where
  "LP_SendResDataToGroup gid resData exceptUid w = LP_SendResDataToLocalGroup gid resData exceptUid w"

definition LP_SendMsgToLocalGroup ::
    "string \<Rightarrow> group_msg \<Rightarrow> ('k, 'r, 'n) ws \<Rightarrow> (('k, 'r, 'n) ws \<times> go_error option) option" where
  "LP_SendMsgToLocalGroup gid groupMsg w = SendMessageToTGroup gid groupMsg w"

definition LP_SendResDataToLocalUser ::
    "('k, 'r, 'n) ws_env \<Rightarrow> string \<Rightarrow> response_data \<Rightarrow> ('k, 'r, 'n) ws \<Rightarrow> ('k, 'r, 'n) ws \<times> go_error option" where
  "LP_SendResDataToLocalUser env uid resData w =
     (let response = NewResponse '''' '''' MSG_TYPE_U2U (Some resData)
      in SendResponseToUser env uid response w)"

definition LP_SendResDataToUser ::
    "('k, 'r, 'n) ws_env \<Rightarrow> string \<Rightarrow> response_data \<Rightarrow> ('k, 'r, 'n) ws \<Rightarrow> ('k, 'r, 'n) ws \<times> go_error option" where
  "LP_SendResDataToUser env uid resData w = LP_SendResDataToLocalUser env uid resData w"

definition LP_SendResDataToLocalUserByTgid ::
    "('k, 'r, 'n) ws_env \<Rightarrow> string \<Rightarrow> string \<Rightarrow> response_data \<Rightarrow> ('k, 'r, 'n) ws \<Rightarrow> ('k, 'r, 'n) ws \<times> go_error option" where
  "LP_SendResDataToLocalUserByTgid env uid tgid resData w =
     (let response = NewResponse '''' '''' MSG_TYPE_U2U (Some resData)
      in SendResponseToUserByTgid env uid tgid response w)"

definition LP_SendResDataToUserByTgid ::
    "('k, 'r, 'n) ws_env \<Rightarrow> string \<Rightarrow> string \<Rightarrow> response_data \<Rightarrow> ('k, 'r, 'n) ws \<Rightarrow> ('k, 'r, 'n) ws \<times> go_error option" where
  "LP_SendResDataToUserByTgid env uid tgid resData w =
     LP_SendResDataToLocalUserByTgid env uid tgid resData w"

definition LP_SendMsgToLocalUser ::
    "('k, 'r, 'n) ws_env \<Rightarrow> string \<Rightarrow> bytes \<Rightarrow> ('k, 'r, 'n) ws \<Rightarrow> ('k, 'r, 'n) ws \<times> go_error option" where
  "LP_SendMsgToLocalUser env uid msg w = ClientM_SendMsgToUser env uid msg w"

definition LP_SendMsgToUser ::
    "('k, 'r, 'n) ws_env \<Rightarrow> string \<Rightarrow> bytes \<Rightarrow> ('k, 'r, 'n) ws \<Rightarrow> ('k, 'r, 'n) ws \<times> go_error option" where
  "LP_SendMsgToUser env uid msg w = LP_SendMsgToLocalUser env uid msg w"

definition LP_SendMsgToLocalUserByTgid ::
    "('k, 'r, 'n) ws_env \<Rightarrow> string \<Rightarrow> string \<Rightarrow> bytes \<Rightarrow> ('k, 'r, 'n) ws \<Rightarrow> ('k, 'r, 'n) ws \<times> go_error option" where
  "LP_SendMsgToLocalUserByTgid env uid tgid msg w = ClientM_SendMsgToUserByTgid env uid tgid msg w"

definition LP_SendMsgToUserByTgid ::
    "('k, 'r, 'n) ws_env \<Rightarrow> string \<Rightarrow> string \<Rightarrow> bytes \<Rightarrow> ('k, 'r, 'n) ws \<Rightarrow> ('k, 'r, 'n) ws \<times> go_error option" where
  "LP_SendMsgToUserByTgid env uid tgid msg w = LP_SendMsgToLocalUserByTgid env uid tgid msg w"

definition LP_StopLocalUserClient :: "('k, 'r, 'n) ws_env \<Rightarrow> string \<Rightarrow> ('k, 'r, 'n) ws \<Rightarrow> ('k, 'r, 'n) ws" where
  "LP_StopLocalUserClient env uid w = StopClient env uid w"

definition LP_StopUserClient :: "('k, 'r, 'n) ws_env \<Rightarrow> user_online \<Rightarrow> ('k, 'r, 'n) ws \<Rightarrow> ('k, 'r, 'n) ws" where
  "LP_StopUserClient env userOnline w = LP_StopLocalUserClient env (UserId userOnline) w"

definition JoinLockGroup :: "string \<Rightarrow> string \<Rightarrow> ('k, 'r, 'n) ws \<Rightarrow> (('k, 'r, 'n) ws \<times> bool) option" where
  "JoinLockGroup uid tgid w =
     (case GetClient uid w of
        None \<Rightarrow> Some (w, False)
      | Some client \<Rightarrow> map_option (\<lambda>w1. (w1, True)) (InTGroup client tgid w))"

definition LP_JoinGroup :: "string \<Rightarrow> string \<Rightarrow> ('k, 'r, 'n) ws \<Rightarrow> (('k, 'r, 'n) ws \<times> bool) option" where
  "LP_JoinGroup uid tgid w = JoinLockGroup uid tgid w"

definition OutLockGroup :: "string \<Rightarrow> string \<Rightarrow> ('k, 'r, 'n) ws \<Rightarrow> ('k, 'r, 'n) ws \<times> bool" where
  "OutLockGroup uid gid w =
     (case GetClient uid w of
        None \<Rightarrow> (w, False)
      | Some client \<Rightarrow> (OutTGroup client gid w, True))"

definition LP_OutGroup :: "string \<Rightarrow> string \<Rightarrow> ('k, 'r, 'n) ws \<Rightarrow> ('k, 'r, 'n) ws \<times> bool" where
  "LP_OutGroup uid gid w = OutLockGroup uid gid w"

section \<open>Publishing (proxy\_msg\_queue.go)\<close>

definition GlobalKey :: "('k, 'r, 'n) ws \<Rightarrow> string" where
  "GlobalKey w = cfgRedisPrefix (Config w) @ ''_gim:sub:global''"

definition LocalKey :: "('k, 'r, 'n) ws \<Rightarrow> string" where
  "LocalKey w = cfgRedisPrefix (Config w) @ ''_gim:sub:local:'' @ serverIp w @ '':'' @ cfgWsPort (Config w)"

definition PublishGlobalMsg ::
    "('k, 'r, 'n) ws_env \<Rightarrow> sub_msg \<Rightarrow> ('k, 'r, 'n) ws \<Rightarrow> ('k, 'r, 'n) ws \<times> go_error option" where
  "PublishGlobalMsg env subMsg w =
     (case json_Marshal (sub_msg_json subMsg) of
        Inl err \<Rightarrow> (w, Some err)
      | Inr subMsgByte \<Rightarrow>
          (let (r, err) = redisPublish env (GlobalKey w) subMsgByte (redis w)
           in (w\<lparr>redis := r\<rparr>, err)))"

section \<open>The redis proxy\<close>

definition RP_SendResDataToGroup ::
    "('k, 'r, 'n) ws_env \<Rightarrow> string \<Rightarrow> response_data \<Rightarrow> string \<Rightarrow> ('k, 'r, 'n) ws \<Rightarrow> ('k, 'r, 'n) ws \<times> go_error option" where
  "RP_SendResDataToGroup env gid resData exceptUid w =
     (let subMsg = \<lparr>sTgid = gid, sTgidList = [], sMol = '''', sCtrl = '''', sData = rdA resData,
            sExceptUid = exceptUid, sCTime = clock w, sMsgType = MSG_TYPE_GROUP,
            sToUid = ''''\<rparr>
      in PublishGlobalMsg env subMsg w)"

definition RP_SendResDataToUser ::
    "('k, 'r, 'n) ws_env \<Rightarrow> string \<Rightarrow> response_data \<Rightarrow> ('k, 'r, 'n) ws \<Rightarrow> ('k, 'r, 'n) ws \<times> go_error option" where
  "RP_SendResDataToUser env uid resData w =
     (if HasUser uid w then LP_SendResDataToLocalUser env uid resData w
      else
        case GetUserRpcServer env uid w of
          (w1, Inl err) \<Rightarrow> (w1, Some err)
        | (w1, Inr server) \<Rightarrow>
            (let response = NewResponse '''' '''' MSG_TYPE_U2U (Some resData) in
             case Response_Bytes response of
               Inl err \<Rightarrow> (w1, Some err)
             | Inr msgBytes \<Rightarrow>
                 (case rpc_SendMsgToUser env server uid msgBytes w1 of (w2, _, err) \<Rightarrow> (w2, err))))"

definition RP_SendResDataToUserByTgid ::
    "('k, 'r, 'n) ws_env \<Rightarrow> string \<Rightarrow> string \<Rightarrow> response_data \<Rightarrow> ('k, 'r, 'n) ws \<Rightarrow> ('k, 'r, 'n) ws \<times> go_error option" where
  "RP_SendResDataToUserByTgid env uid tgid resData w =
     (if HasUser uid w then LP_SendResDataToLocalUserByTgid env uid tgid resData w
      else
        let response = NewResponse '''' '''' MSG_TYPE_U2U (Some resData) in
        case Response_Bytes response of
          Inl err \<Rightarrow> (w, Some err)
        | Inr msgBytes \<Rightarrow>
            (case GetUserRpcServer env uid w of
               (w1, Inl err) \<Rightarrow> (w1, Some err)
             | (w1, Inr server) \<Rightarrow>
                 (case rpc_SendMsgToUserByTgid env server uid tgid msgBytes w1 of
                    (w2, _, err) \<Rightarrow> (w2, err))))"

definition RP_SendMsgToUser ::
    "('k, 'r, 'n) ws_env \<Rightarrow> string \<Rightarrow> bytes \<Rightarrow> ('k, 'r, 'n) ws \<Rightarrow> ('k, 'r, 'n) ws \<times> go_error option" where
  "RP_SendMsgToUser env uid msg w =
     (if HasUser uid w then LP_SendMsgToLocalUser env uid msg w
      else
        case GetUserRpcServer env uid w of
          (w1, Inl err) \<Rightarrow> (w1, Some err)
        | (w1, Inr server) \<Rightarrow>
            (case rpc_SendMsgToUser env server uid msg w1 of (w2, _, err) \<Rightarrow> (w2, err)))"

definition RP_SendMsgToUserByTgid ::
    "('k, 'r, 'n) ws_env \<Rightarrow> string \<Rightarrow> string \<Rightarrow> bytes \<Rightarrow> ('k, 'r, 'n) ws \<Rightarrow> ('k, 'r, 'n) ws \<times> go_error option" where
  "RP_SendMsgToUserByTgid env uid tgid sendMsg w =
     (if HasUser uid w then ClientM_SendMsgToUserByTgid env uid tgid sendMsg w
      else
        case GetUserRpcServer env uid w of
          (w1, Inl err) \<Rightarrow> (w1, Some err)
        | (w1, Inr server) \<Rightarrow>
            (case rpc_SendMsgToUserByTgid env server uid tgid sendMsg w1 of
               (w2, _, err) \<Rightarrow> (w2, err)))"

definition UserIsLocal :: "user_online \<Rightarrow> ('k, 'r, 'n) ws \<Rightarrow> bool" where
  "UserIsLocal u w \<longleftrightarrow> AccIp u = serverIp w \<and> AccPort u = cfgWsPort (Config w)"

definition RP_StopUserClient :: "('k, 'r, 'n) ws_env \<Rightarrow> user_online \<Rightarrow> ('k, 'r, 'n) ws \<Rightarrow> ('k, 'r, 'n) ws" where
  "RP_StopUserClient env userOnline w =
     (if UserIsLocal userOnline w then LP_StopLocalUserClient env (UserId userOnline) w
      else if RpcPort userOnline = '''' then w
      else
        (let server = NewServer (AccIp userOnline) (RpcPort userOnline)
         in fst (rpc_StopUserClient env server (UserId userOnline) w)))"

definition RP_JoinGroup :: "('k, 'r, 'n) ws_env \<Rightarrow> string \<Rightarrow> string \<Rightarrow> ('k, 'r, 'n) ws \<Rightarrow> (('k, 'r, 'n) ws \<times> bool) option" where
  "RP_JoinGroup env uid tgid w =
     (if HasUser uid w then JoinLockGroup uid tgid w
      else
        case GetUserRpcServer env uid w of
          (w1, Inl err) \<Rightarrow> Some (w1, False)
        | (w1, Inr server) \<Rightarrow>
            (case rpc_JoinGroup env server uid tgid w1 of (w2, ok, _) \<Rightarrow> Some (w2, ok)))"

definition RP_OutGroup :: "('k, 'r, 'n) ws_env \<Rightarrow> string \<Rightarrow> string \<Rightarrow> ('k, 'r, 'n) ws \<Rightarrow> ('k, 'r, 'n) ws \<times> bool" where
  "RP_OutGroup env uid tgid w =
     (if HasUser uid w then OutLockGroup uid tgid w
      else
        case GetUserRpcServer env uid w of
          (w1, Inl err) \<Rightarrow> (w1, False)
        | (w1, Inr server) \<Rightarrow>
            (case rpc_OutGroup env server uid tgid w1 of (w2, ok, _) \<Rightarrow> (w2, ok)))"

section \<open>The proxy in use (proxy.go)\<close>

text \<open>
  \<^verbatim>\<open>InitProxy\<close> stores the implementation the run mode asks for; the configuration does not
  change afterwards, so each call goes to the implementation of the mode.
\<close>

definition Proxy_SendResDataToUser ::
    "('k, 'r, 'n) ws_env \<Rightarrow> string \<Rightarrow> response_data \<Rightarrow> ('k, 'r, 'n) ws \<Rightarrow> ('k, 'r, 'n) ws \<times> go_error option" where
  "Proxy_SendResDataToUser env uid resData w =
     (if cfgRunMode (Config w) = RunModeLocal then LP_SendResDataToUser env uid resData w
      else RP_SendResDataToUser env uid resData w)"

definition Proxy_SendResDataToUserByTgid ::
    "('k, 'r, 'n) ws_env \<Rightarrow> string \<Rightarrow> string \<Rightarrow> response_data \<Rightarrow> ('k, 'r, 'n) ws \<Rightarrow> ('k, 'r, 'n) ws \<times> go_error option" where
  "Proxy_SendResDataToUserByTgid env uid tgid resData w =
     (if cfgRunMode (Config w) = RunModeLocal then LP_SendResDataToUserByTgid env uid tgid resData w
      else RP_SendResDataToUserByTgid env uid tgid resData w)"

definition Proxy_SendResDataToGroup ::
    "('k, 'r, 'n) ws_env \<Rightarrow> string \<Rightarrow> response_data \<Rightarrow> string \<Rightarrow> ('k, 'r, 'n) ws \<Rightarrow> (('k, 'r, 'n) ws \<times> go_error option) option" where
  "Proxy_SendResDataToGroup env gid resData exceptUid w =
     (if cfgRunMode (Config w) = RunModeLocal then LP_SendResDataToGroup gid resData exceptUid w
      else Some (RP_SendResDataToGroup env gid resData exceptUid w))"

definition Proxy_SendMsgToUser ::
    "('k, 'r, 'n) ws_env \<Rightarrow> string \<Rightarrow> bytes \<Rightarrow> ('k, 'r, 'n) ws \<Rightarrow> ('k, 'r, 'n) ws \<times> go_error option" where
  "Proxy_SendMsgToUser env uid msg w =
     (if cfgRunMode (Config w) = RunModeLocal then LP_SendMsgToUser env uid msg w
      else RP_SendMsgToUser env uid msg w)"

definition Proxy_SendMsgToUserByTgid ::
    "('k, 'r, 'n) ws_env \<Rightarrow> string \<Rightarrow> string \<Rightarrow> bytes \<Rightarrow> ('k, 'r, 'n) ws \<Rightarrow> ('k, 'r, 'n) ws \<times> go_error option" where
  "Proxy_SendMsgToUserByTgid env uid tgid msg w =
     (if cfgRunMode (Config w) = RunModeLocal then LP_SendMsgToUserByTgid env uid tgid msg w
      else RP_SendMsgToUserByTgid env uid tgid msg w)"

definition Proxy_StopUserClient :: "('k, 'r, 'n) ws_env \<Rightarrow> user_online \<Rightarrow> ('k, 'r, 'n) ws \<Rightarrow> ('k, 'r, 'n) ws" where
  "Proxy_StopUserClient env userOnline w =
     (if cfgRunMode (Config w) = RunModeLocal then LP_StopUserClient env userOnline w
      else RP_StopUserClient env userOnline w)"

definition Proxy_JoinGroup :: "('k, 'r, 'n) ws_env \<Rightarrow> string \<Rightarrow> string \<Rightarrow> ('k, 'r, 'n) ws \<Rightarrow> (('k, 'r, 'n) ws \<times> bool) option" where
  "Proxy_JoinGroup env uid tgid w =
     (if cfgRunMode (Config w) = RunModeLocal then LP_JoinGroup uid tgid w
      else RP_JoinGroup env uid tgid w)"

definition Proxy_OutGroup :: "('k, 'r, 'n) ws_env \<Rightarrow> string \<Rightarrow> string \<Rightarrow> ('k, 'r, 'n) ws \<Rightarrow> ('k, 'r, 'n) ws \<times> bool" where
  "Proxy_OutGroup env uid tgid w =
     (if cfgRunMode (Config w) = RunModeLocal then LP_OutGroup uid tgid w
      else RP_OutGroup env uid tgid w)"

section \<open>The rpc handlers (handler.go)\<close>

text \<open>A handler returns its answer and its error; the rpc library sends one of the two.\<close>

definition ImRpc_SendMsgToUser ::
    "('k, 'r, 'n) ws_env \<Rightarrow> send_msg_req \<Rightarrow> ('k, 'r, 'n) ws \<Rightarrow> ('k, 'r, 'n) ws \<times> send_msg_rsp \<times> go_error option" where
  "ImRpc_SendMsgToUser env req w =
     (let uid = smqUid req; (w1, err) = LP_SendMsgToLocalUser env uid (smqMsg req) w
      in (w1, \<lparr>smrRetCode = (if err \<noteq> None then 0 else word_of_int OK)\<rparr>, err))"

definition ImRpc_SendMsgToUserByTgid ::
    "('k, 'r, 'n) ws_env \<Rightarrow> send_msg_by_tgid_req \<Rightarrow> ('k, 'r, 'n) ws \<Rightarrow> ('k, 'r, 'n) ws \<times> send_msg_rsp \<times> go_error option" where
  "ImRpc_SendMsgToUserByTgid env req w =
     (let uid = sbtUid req;
          (w1, err) = LP_SendMsgToLocalUserByTgid env uid (sbtTgid req) (sbtMsg req) w
      in (w1, \<lparr>smrRetCode = (if err \<noteq> None then 0 else word_of_int OK)\<rparr>, err))"

definition ImRpc_StopUserClient ::
    "('k, 'r, 'n) ws_env \<Rightarrow> user_id_req \<Rightarrow> ('k, 'r, 'n) ws \<Rightarrow> ('k, 'r, 'n) ws \<times> stop_user_client_rsp \<times> go_error option" where
  "ImRpc_StopUserClient env req w =
     (LP_StopLocalUserClient env (uirUid req) w, \<lparr>sucRes = True\<rparr>, None)"

definition ImRpc_JoinGroup ::
    "join_group_req \<Rightarrow> ('k, 'r, 'n) ws \<Rightarrow> (('k, 'r, 'n) ws \<times> join_group_res \<times> go_error option) option" where
  "ImRpc_JoinGroup req w =
     map_option (\<lambda>(w1, ok). (w1, \<lparr>jgrRes = ok\<rparr>, None)) (JoinLockGroup (jgqUid req) (jgqTgid req) w)"

definition ImRpc_OutGroup ::
    "join_group_req \<Rightarrow> ('k, 'r, 'n) ws \<Rightarrow> ('k, 'r, 'n) ws \<times> join_group_res \<times> go_error option" where
  "ImRpc_OutGroup req w =
     (let (w1, ok) = OutLockGroup (jgqUid req) (jgqTgid req) w in (w1, \<lparr>jgrRes = ok\<rparr>, None))"

section \<open>The contract of the interface\<close>

text \<open>
  What a caller of \<^verbatim>\<open>RunProxy\<close> relies on, whichever implementation runs: a user connected
  to this node is served on this node, exactly as the local operations do it.
\<close>

locale run_proxy =
  fixes send_user :: "string \<Rightarrow> bytes \<Rightarrow> 'w \<Rightarrow> 'w \<times> go_error option"
    and send_user_tgid :: "string \<Rightarrow> string \<Rightarrow> bytes \<Rightarrow> 'w \<Rightarrow> 'w \<times> go_error option"
    and join_group :: "string \<Rightarrow> string \<Rightarrow> 'w \<Rightarrow> ('w \<times> bool) option"
    and out_group :: "string \<Rightarrow> string \<Rightarrow> 'w \<Rightarrow> 'w \<times> bool"
    and local_send :: "string \<Rightarrow> bytes \<Rightarrow> 'w \<Rightarrow> 'w \<times> go_error option"
    and local_send_tgid :: "string \<Rightarrow> string \<Rightarrow> bytes \<Rightarrow> 'w \<Rightarrow> 'w \<times> go_error option"
    and local_join :: "string \<Rightarrow> string \<Rightarrow> 'w \<Rightarrow> ('w \<times> bool) option"
    and local_out :: "string \<Rightarrow> string \<Rightarrow> 'w \<Rightarrow> 'w \<times> bool"
    and has_user :: "string \<Rightarrow> 'w \<Rightarrow> bool"
    and inv :: "'w \<Rightarrow> bool"
    and in_grp :: "'w \<Rightarrow> string \<Rightarrow> string \<Rightarrow> bool"
  assumes send_local: "has_user uid w \<Longrightarrow> send_user uid m w = local_send uid m w"
    and send_tgid_local: "has_user uid w \<Longrightarrow> send_user_tgid uid gid m w = local_send_tgid uid gid m w"
    and join_local: "has_user uid w \<Longrightarrow> join_group uid gid w = local_join uid gid w"
    and out_local: "has_user uid w \<Longrightarrow> out_group uid gid w = local_out uid gid w"
    and local_join_ok: "inv w \<Longrightarrow> has_user uid w \<Longrightarrow>
      \<exists>w'. local_join uid gid w = Some (w', True) \<and> inv w' \<and> has_user uid w' \<and> in_grp w' uid gid"
    and local_out_ok: "inv w \<Longrightarrow> has_user uid w \<Longrightarrow>
      inv (fst (local_out uid gid w)) \<and> snd (local_out uid gid w) \<and>
      has_user uid (fst (local_out uid gid w)) \<and> \<not> in_grp (fst (local_out uid gid w)) uid gid"
    and tgid_gate: "inv w \<Longrightarrow> has_user uid w \<Longrightarrow> local_send_tgid uid gid m w =
      (if in_grp w uid gid then local_send uid m w else (w, None))"
begin

lemma join_then_send:
  assumes "inv w" and "has_user uid w"
  shows "\<exists>w'. join_group uid gid w = Some (w', True) \<and> inv w' \<and>
     send_user_tgid uid gid m w' = send_user uid m w'"
proof -
  obtain w' where "local_join uid gid w = Some (w', True)" "inv w'" "has_user uid w'"
    "in_grp w' uid gid"
    using local_join_ok [OF assms, of gid] by blast
  then show ?thesis
    using assms by (auto simp: join_local send_tgid_local send_local tgid_gate)
qed

lemma out_then_send:
  assumes "inv w" and "has_user uid w"
  shows "send_user_tgid uid gid m (fst (out_group uid gid w)) = (fst (out_group uid gid w), None)"
  using local_out_ok [OF assms, of gid] assms by (simp add: out_local send_tgid_local tgid_gate)

end

lemma HasUser_iff: "HasUser uid w \<longleftrightarrow> (\<exists>c. mget (Clients w) uid = Some c)"
  by (auto simp: HasUser_def GetClient_def)

lemma member_invD: "member_inv w \<Longrightarrow> uid \<in> members w gid \<longleftrightarrow> in_group w uid gid"
  by (simp add: member_inv_def)

lemma JoinLockGroup_ok:
  assumes "ws_inv w" and "HasUser uid w"
  shows "\<exists>w'. JoinLockGroup uid gid w = Some (w', True) \<and> ws_inv w' \<and> HasUser uid w' \<and>
     in_group w' uid gid \<and> members w' = (members w)(gid := insert uid (members w gid))"
proof -
  obtain c where c: "mget (Clients w) uid = Some c" using assms(2) by (auto simp: HasUser_iff)
  obtain w' where w': "InTGroup c gid w = Some w'" "ws_inv w'"
    "members w' = (members w)(gid := insert uid (members w gid))" "Clients w' = Clients w"
    using ws_inv_InTGroup [OF assms(1) c, of gid] by blast
  then have "in_group w' uid gid"
    using member_invD [OF ws_invD(3) [OF w'(2)], of uid gid] by simp
  then show ?thesis using w' c by (auto simp: JoinLockGroup_def GetClient_def HasUser_iff)
qed

lemma OutLockGroup_ok:
  assumes "ws_inv w" and "HasUser uid w"
  shows "ws_inv (fst (OutLockGroup uid gid w)) \<and> snd (OutLockGroup uid gid w) \<and>
     HasUser uid (fst (OutLockGroup uid gid w)) \<and> \<not> in_group (fst (OutLockGroup uid gid w)) uid gid \<and>
     members (fst (OutLockGroup uid gid w)) = (members w)(gid := members w gid - {uid})"
proof -
  obtain c where c: "mget (Clients w) uid = Some c" using assms(2) by (auto simp: HasUser_iff)
  note o = ws_inv_OutTGroup [OF assms(1) c, of gid]
  have "\<not> in_group (OutTGroup c gid w) uid gid"
    using member_invD [OF ws_invD(3) [OF o(1)], of uid gid] o(2) by simp
  then show ?thesis using o c by (simp add: OutLockGroup_def GetClient_def HasUser_iff)
qed

lemma tgid_gate_ok:
  "ws_inv w \<Longrightarrow> HasUser uid w \<Longrightarrow> LP_SendMsgToLocalUserByTgid env uid gid m w =
     (if in_group w uid gid then LP_SendMsgToLocalUser env uid m w else (w, None))"
  by (auto simp: LP_SendMsgToLocalUserByTgid_def LP_SendMsgToLocalUser_def HasUser_iff
      ClientM_SendMsgToUserByTgid_def ClientM_SendMsgToUser_def GetClient_def IsInTGroup_def
      in_group_Some)

interpretation lproxy: run_proxy "LP_SendMsgToUser env" "LP_SendMsgToUserByTgid env" LP_JoinGroup
  LP_OutGroup "LP_SendMsgToLocalUser env" "LP_SendMsgToLocalUserByTgid env" JoinLockGroup OutLockGroup
  HasUser ws_inv in_group
  for env :: "('k, 'r, 'n) ws_env"
proof unfold_locales
  fix w :: "('k, 'r, 'n) ws" and uid gid m
  show "ws_inv w \<Longrightarrow> HasUser uid w \<Longrightarrow> \<exists>w'. JoinLockGroup uid gid w = Some (w', True) \<and> ws_inv w' \<and>
      HasUser uid w' \<and> in_group w' uid gid"
    using JoinLockGroup_ok by blast
  show "ws_inv w \<Longrightarrow> HasUser uid w \<Longrightarrow> ws_inv (fst (OutLockGroup uid gid w)) \<and>
      snd (OutLockGroup uid gid w) \<and> HasUser uid (fst (OutLockGroup uid gid w)) \<and>
      \<not> in_group (fst (OutLockGroup uid gid w)) uid gid"
    using OutLockGroup_ok by blast
  show "ws_inv w \<Longrightarrow> HasUser uid w \<Longrightarrow> LP_SendMsgToLocalUserByTgid env uid gid m w =
      (if in_group w uid gid then LP_SendMsgToLocalUser env uid m w else (w, None))"
    by (rule tgid_gate_ok)
qed (simp_all add: LP_SendMsgToUser_def LP_SendMsgToUserByTgid_def LP_JoinGroup_def LP_OutGroup_def)

interpretation rproxy: run_proxy "RP_SendMsgToUser env" "RP_SendMsgToUserByTgid env" "RP_JoinGroup env"
  "RP_OutGroup env" "LP_SendMsgToLocalUser env" "LP_SendMsgToLocalUserByTgid env" JoinLockGroup
  OutLockGroup HasUser ws_inv in_group
  for env :: "('k, 'r, 'n) ws_env"
proof unfold_locales
  fix w :: "('k, 'r, 'n) ws" and uid gid m
  show "ws_inv w \<Longrightarrow> HasUser uid w \<Longrightarrow> \<exists>w'. JoinLockGroup uid gid w = Some (w', True) \<and> ws_inv w' \<and>
      HasUser uid w' \<and> in_group w' uid gid"
    using JoinLockGroup_ok by blast
  show "ws_inv w \<Longrightarrow> HasUser uid w \<Longrightarrow> ws_inv (fst (OutLockGroup uid gid w)) \<and>
      snd (OutLockGroup uid gid w) \<and> HasUser uid (fst (OutLockGroup uid gid w)) \<and>
      \<not> in_group (fst (OutLockGroup uid gid w)) uid gid"
    using OutLockGroup_ok by blast
  show "ws_inv w \<Longrightarrow> HasUser uid w \<Longrightarrow> LP_SendMsgToLocalUserByTgid env uid gid m w =
      (if in_group w uid gid then LP_SendMsgToLocalUser env uid m w else (w, None))"
    by (rule tgid_gate_ok)
qed (simp_all add: RP_SendMsgToUser_def RP_SendMsgToUserByTgid_def RP_JoinGroup_def RP_OutGroup_def
    LP_SendMsgToLocalUserByTgid_def)

end
