(* ===== verification/WsHandler.thy ===== *)
theory WsHandler
  imports WsProxy
begin

text \<open>
  The websocket events (\<^verbatim>\<open>service/ws/handler_ws.go\<close>): pings, messages, the end of a
  connection, and the upgrade of an http request to a connection with the unique login of
  its user. The events are called by the websocket library; the handling of a request is
  the application's function, \<open>None\<close> when it is not set.
\<close>

declare map_of_eq_Some_iff [simp del] Some_eq_map_of_iff [simp del]

section \<open>Events\<close>

text \<open>The application's handler returns its data and its error, or panics.\<close>

datatype 'w handle_result = HandleRet 'w "adata option" "go_error option" | HandlePanic 'w

type_synonym 'w request_handler = "(cptr \<Rightarrow> request \<Rightarrow> 'w \<Rightarrow> 'w handle_result) option"

definition GetUid :: "('k, 'r, 'n) ws_env \<Rightarrow> kptr \<Rightarrow> ('k, 'r, 'n) ws \<Rightarrow> string" where
  "GetUid env socket w =
     (case SessionLoad env (conns w socket) ''uid'' of
        None \<Rightarrow> ''''
      | Some SessionOther \<Rightarrow> ''''
      | Some (SessionStr uidStr) \<Rightarrow> if uidStr = '''' then '''' else uidStr)"

definition conn_close ::
    "('k, 'r, 'n) ws_env \<Rightarrow> kptr \<Rightarrow> ('k, 'r, 'n) ws \<Rightarrow> ('k, 'r, 'n) ws" where
  "conn_close env socket w = set_conn socket (NetConnClose env (conns w socket)) w"

definition Handler_OnPing ::
    "('k, 'r, 'n) ws_env \<Rightarrow> kptr \<Rightarrow> ('k, 'r, 'n) ws \<Rightarrow> ('k, 'r, 'n) ws" where
  "Handler_OnPing env socket w =
     (case GetClient (GetUid env socket w) w of
        Some client \<Rightarrow> Heartbeat env client w
      | None \<Rightarrow> conn_close env socket w)"

text \<open>A panic of the application's handler is recovered; the requester gets no answer then.\<close>

definition Handler_OnMessage ::
    "('k, 'r, 'n) ws_env \<Rightarrow> ('k, 'r, 'n) ws request_handler \<Rightarrow> kptr \<Rightarrow> bytes \<Rightarrow>
     ('k, 'r, 'n) ws \<Rightarrow> ('k, 'r, 'n) ws" where
  "Handler_OnMessage env handleRequestMsg socket message w =
     (case GetClientByConn socket w of
        None \<Rightarrow> conn_close env socket w
      | Some client \<Rightarrow>
          (case handleRequestMsg of
             None \<Rightarrow>
               fst (SendErr env client (error_string (NewImError ErrNoHandleMsg)) 0 '''' '''' w)
           | Some handle \<Rightarrow>
               (case json_Unmarshal request_set message request0 of
                  (request, Some err) \<Rightarrow>
                    fst (SendErr env client (error_string (NewImError ErrJson)) 0
                           (qSeq request) (qCmd request) w)
                | (request, None) \<Rightarrow>
                    (case handle client request w of
                       HandlePanic w1 \<Rightarrow> w1
                     | HandleRet w1 aData (Some err) \<Rightarrow>
                         fst (SendErr env client (error_string err) 0 (qSeq request) (qCmd request) w1)
                     | HandleRet w1 aData None \<Rightarrow>
                         (let responseData = NewResponseData aData []
                          in fst (SendResponseData env client responseData (qSeq request)
                                    (qCmd request) MSG_TYPE_RESPONSE w1))))))"

text \<open>The result is the flag the code logs.\<close>

definition Handler_OnClose ::
    "('k, 'r, 'n) ws_env \<Rightarrow> (cptr \<Rightarrow> ('k, 'r, 'n) ws \<Rightarrow> ('k, 'r, 'n) ws) option \<Rightarrow> kptr \<Rightarrow>
     ('k, 'r, 'n) ws \<Rightarrow> ('k, 'r, 'n) ws \<times> bool" where
  "Handler_OnClose env cb socket w =
     (case GetClient (GetUid env socket w) w of
        Some client \<Rightarrow> Client_OnClose env cb client w
      | None \<Rightarrow> (w, False))"

section \<open>Login\<close>

definition NewUserOnline :: "string \<Rightarrow> string \<Rightarrow> string \<Rightarrow> ('k, 'r, 'n) ws \<Rightarrow> user_online" where
  "NewUserOnline uid randUuid clientAddr w =
     \<lparr>AccIp = serverIp w, ClientArr = clientAddr, AccPort = cfgWsPort (Config w),
      RpcPort = cfgRpcPort (Config w), UserId = uid, RandUuid = randUuid\<rparr>"

text \<open>\<open>ulid\<close> is the identifier the ulid library generates for this call.\<close>

definition uniqueLogin ::
    "('k, 'r, 'n) ws_env \<Rightarrow> string \<Rightarrow> string \<Rightarrow> kptr \<Rightarrow> ('k, 'r, 'n) ws \<Rightarrow>
     ('k, 'r, 'n) ws \<times> user_online result" where
  "uniqueLogin env ulid uid socket w =
     (case GetClient uid w of
        Some client \<Rightarrow> (Client_Close env client w, Inl (NewImError ErrUserOnline))
      | None \<Rightarrow>
          (let clientAddr = RemoteAddr env (conns w socket);
               userOnline = NewUserOnline uid ulid clientAddr w;
               (w1, oldUserOnline, err) = GetSetUserOnlineInfo env uid userOnline w
           in case err of
                Some e \<Rightarrow> (fst (DelUserOnlineInfo env uid w1), Inl e)
              | None \<Rightarrow>
                  (case oldUserOnline of
                     None \<Rightarrow> (w1, Inr userOnline)
                   | Some old \<Rightarrow>
                       if RandUuid old \<noteq> RandUuid userOnline then
                         (let w2 = fst (DelUserOnlineInfo env uid w1)
                          in (Proxy_StopUserClient env old w2, Inl (NewImError ErrUserOnline)))
                       else (w1, Inr userOnline))))"

text \<open>
  \<open>upgrade\<close> is what the library's upgrade returned, the address of the new connection or
  an error; \<open>getMsgCode\<close> is the query parameter of the request.
\<close>

definition HandlerUp ::
    "('k, 'r, 'n) ws_env \<Rightarrow> string \<Rightarrow> kptr result \<Rightarrow> string \<Rightarrow> ('k, 'r, 'n) ws \<Rightarrow> ('k, 'r, 'n) ws" where
  "HandlerUp env ulid upgrade getMsgCode w =
     (case upgrade of
        Inl err \<Rightarrow> w
      | Inr socket \<Rightarrow>
          (let uid = GetUid env socket w in
           if uid = '''' then conn_close env socket w
           else
             case uniqueLogin env ulid uid socket w of
               (w1, Inl err) \<Rightarrow> conn_close env socket w1
             | (w1, Inr userOnline) \<Rightarrow>
                 (let msgCode = (if getMsgCode = ''1'' then OpcodeText else OpcodeBinary);
                      (w2, client) = NewClient socket uid (RandUuid userOnline) msgCode w1;
                      w3 = InitStart env client w2
                  in w3\<lparr>gos := gos w3 @ [GoReadLoop socket]\<rparr>)))"

section \<open>The events keep the invariant\<close>

lemma ws_le_conn_close [intro, simp]: "ws_le w (conn_close env k w)"
  by (simp add: conn_close_def)

lemma ws_le_OnPing: "ws_le w (Handler_OnPing env k w)"
  by (simp add: Handler_OnPing_def split: option.splits)

lemma ws_le_Proxy_StopUserClient [intro, simp]: "ws_le w (Proxy_StopUserClient env u w)"
proof -
  have "ws_le w (fst (rpc_StopUserClient env s uid w))" for s uid
    by (simp add: ws_le_def)
  then show ?thesis
    by (simp add: Proxy_StopUserClient_def LP_StopUserClient_def RP_StopUserClient_def
        LP_StopLocalUserClient_def Let_def)
qed

lemma ws_le_DelUserOnlineInfo [intro, simp]: "ws_le w (fst (DelUserOnlineInfo env uid w))"
  by (simp add: ws_le_def)

lemma ws_le_GetSetUserOnlineInfo [intro, simp]: "ws_le w (fst (GetSetUserOnlineInfo env uid u w))"
  by (simp add: ws_le_def)

lemma ws_le_uniqueLogin: "ws_le w (fst (uniqueLogin env ulid uid k w))"
proof -
  obtain w1 old e where g: "GetSetUserOnlineInfo env uid (NewUserOnline uid ulid
      (RemoteAddr env (conns w k)) w) w = (w1, old, e)"
    by (metis surj_pair)
  have 1: "ws_le w w1"
    using ws_le_GetSetUserOnlineInfo g by (metis fst_conv)
  then have 2: "ws_le w (fst (DelUserOnlineInfo env uid w1))"
    using ws_le_trans ws_le_DelUserOnlineInfo by blast
  then have "ws_le w (Proxy_StopUserClient env u (fst (DelUserOnlineInfo env uid w1)))" for u
    using ws_le_trans ws_le_Proxy_StopUserClient by blast
  with 1 2 show ?thesis
    by (simp add: uniqueLogin_def g Let_def split: option.split)
qed

text \<open>A login that succeeds found no client of the user and only changed redis.\<close>

lemma uniqueLogin_ok:
  assumes "uniqueLogin env ulid uid k w = (w1, Inr u)"
  shows "GetClient uid w = None"
    and "u = NewUserOnline uid ulid (RemoteAddr env (conns w k)) w"
    and "w1 = fst (GetSetUserOnlineInfo env uid u w)"
  using assms by (auto simp: uniqueLogin_def Let_def split: option.splits prod.splits if_splits)

lemma ws_inv_gos: "ws_inv (w\<lparr>gos := x\<rparr>) = ws_inv w"
  using ws_inv_le [of w "w\<lparr>gos := x\<rparr>"] ws_inv_le [of "w\<lparr>gos := x\<rparr>" w] by (auto simp: ws_le_def)

lemma members_gos: "members (w\<lparr>gos := x\<rparr>) = members w"
  by (rule members_cong) simp_all

lemma ws_inv_HandlerUp:
  assumes inv: "ws_inv w" and fresh: "\<And>k. up = Inr k \<Longrightarrow> mget (ConnClientIdx w) k = None"
  shows "ws_inv (HandlerUp env ulid up mc w)"
proof (cases up)
  case (Inr k)
  let ?u = "GetUid env k w"
  obtain w1 r where l: "uniqueLogin env ulid ?u k w = (w1, r)" by fastforce
  then have le: "ws_le w w1" using ws_le_uniqueLogin by (metis fst_conv)
  have inv1: "ws_inv w1" by (rule ws_inv_le [OF le inv])
  show ?thesis
  proof (cases "?u = '''' \<or> (\<exists>e. r = Inl e)")
    case True
    then show ?thesis
      using Inr l inv inv1 ws_inv_le [OF ws_le_conn_close]
      by (auto simp: HandlerUp_def Let_def)
  next
    case False
    then obtain u where r: "r = Inr u" by (cases r) auto
    have "mget (Clients w1) ?u = None" "mget (ConnClientIdx w1) k = None"
      using uniqueLogin_ok(1) [OF l [unfolded r]] le fresh [OF Inr]
      by (simp_all add: GetClient_def ws_le_def)
    then have "ws_inv (InitStart env c w2)" if "NewClient k ?u (RandUuid u) m w1 = (w2, c)" for m c w2
      using ws_inv_register(1) [OF inv1 _ _ that] by blast
    then show ?thesis
      using Inr False l r by (auto simp: HandlerUp_def Let_def ws_inv_gos split: prod.splits)
  qed
qed (simp add: HandlerUp_def inv)

end
