(* ===== verification/WsQueue.thy ===== *)
theory WsQueue
  imports WsHandler
begin

text \<open>
  The subscription of a node to the messages other nodes publish
  (\<^verbatim>\<open>service/ws/proxy_msg_queue.go\<close>, \<^verbatim>\<open>proxy.go\<close>): the handler of a message, the reader of
  the subscription with its bounded queue to the workers, and the end of the workers. The
  worker pool is the library \<^verbatim>\<open>gmq/task_worker\<close>, a parameter.
\<close>

declare map_of_eq_Some_iff [simp del] Some_eq_map_of_iff [simp del]

section \<open>Handling a message\<close>

text \<open>The embedded local proxy serves \<^verbatim>\<open>SendResDataToLocalGroup\<close> in both modes.\<close>

definition sendResDataToGroup ::
    "('k, 'r, 'n) ws_env \<Rightarrow> string \<Rightarrow> response_data \<Rightarrow> sub_msg \<Rightarrow> ('k, 'r, 'n) ws \<Rightarrow>
     ('k, 'r, 'n) ws option" where
  "sendResDataToGroup env tgid responseData subMsg w =
     (if sToUid subMsg \<noteq> '''' then
        Some (fst (Proxy_SendResDataToUserByTgid env (sToUid subMsg) tgid responseData w))
      else map_option fst (LP_SendResDataToLocalGroup tgid responseData (sExceptUid subMsg) w))"

text \<open>The loop over the list of groups; empty ids are skipped.\<close>

fun send_group_list ::
    "('k, 'r, 'n) ws_env \<Rightarrow> string list \<Rightarrow> response_data \<Rightarrow> sub_msg \<Rightarrow> ('k, 'r, 'n) ws \<Rightarrow>
     ('k, 'r, 'n) ws option" where
  "send_group_list env [] responseData subMsg w = Some w"
| "send_group_list env (tgid # tgids) responseData subMsg w =
     (if tgid \<noteq> '''' then
        (case sendResDataToGroup env tgid responseData subMsg w of
           None \<Rightarrow> None
         | Some w1 \<Rightarrow> send_group_list env tgids responseData subMsg w1)
      else send_group_list env tgids responseData subMsg w)"

definition sub_response :: "sub_msg \<Rightarrow> response_data" where
  "sub_response subMsg =
     (if sMol subMsg = '''' then NewResponseData (sData subMsg) []
      else if sCtrl subMsg = '''' then NewMolResponseData (adata_json (sData subMsg)) (sMol subMsg)
      else NewCtrlResponseData (adata_json (sData subMsg)) (sMol subMsg) (sCtrl subMsg))"

definition handleSubMsg ::
    "('k, 'r, 'n) ws_env \<Rightarrow> bytes \<Rightarrow> ('k, 'r, 'n) ws \<Rightarrow> ('k, 'r, 'n) ws option" where
  "handleSubMsg env msg w =
     (case json_Unmarshal sub_msg_set msg sub_msg0 of
        (subMsg, Some err) \<Rightarrow> Some w
      | (subMsg, None) \<Rightarrow>
          (let responseData = sub_response subMsg in
           if sTgid subMsg \<noteq> '''' then sendResDataToGroup env (sTgid subMsg) responseData subMsg w
           else if length (sTgidList subMsg) > 0 then
             send_group_list env (sTgidList subMsg) responseData subMsg w
           else if sToUid subMsg \<noteq> '''' then
             Some (fst (Proxy_SendResDataToUser env (sToUid subMsg) responseData w))
           else Some w))"

section \<open>The reader of the subscription\<close>

text \<open>
  What is used of the worker pool: the channel of its messages, the operation that puts a
  message into it (\<open>None\<close> when it does not return), its end and its counters.
\<close>

record 'q worker_env =
  wmChan :: "'q \<Rightarrow> bytes chan"
  wmSetChan :: "bytes chan \<Rightarrow> 'q \<Rightarrow> 'q"
  wmPushMsg :: "bytes \<Rightarrow> 'q \<Rightarrow> 'q option"
  wmStop :: "'q \<Rightarrow> 'q"
  wmGetChanMsgLen :: "'q \<Rightarrow> int"
  wmGetTotalCNum :: "'q \<Rightarrow> int"
  wmGetFreeCNum :: "'q \<Rightarrow> int"

definition msgChanMaxLen :: nat where
  "msgChanMaxLen = 1000"

text \<open>
  The timed push. \<open>progress\<close> is what the workers do while the select waits; \<open>expired\<close> tells
  that the timer won although there is room. \<open>None\<close> is the panic of a send on a closed
  channel; the flag of the result tells whether the message was dropped.
\<close>

definition pubMsgWithTimeout ::
    "'q worker_env \<Rightarrow> bytes \<Rightarrow> ('q \<Rightarrow> 'q) \<Rightarrow> bool \<Rightarrow> 'q \<Rightarrow> ('q \<times> bool) option" where
  "pubMsgWithTimeout wm msg progress expired q =
     (let q1 = progress q in
      case try_send (wmChan wm q1) msg of
        SendPanic \<Rightarrow> None
      | Sent ch \<Rightarrow> if expired then Some (q1, True) else Some (wmSetChan wm ch q1, False)
      | ChanFull \<Rightarrow> Some (q1, True))"

text \<open>What one round of the reading loop meets.\<close>

datatype 'q sub_event =
    SubCtxDone
  | SubErrClosed
  | SubError
  | SubRecv bytes "'q \<Rightarrow> 'q" bool

record 'q sub_reader =
  srErrCount :: int
  srSleeps :: nat
  srQueue :: 'q

text \<open>
  The loop over the rounds met so far: \<open>LoopRunning\<close> means that it waits for the next one.
  A panic is recovered and ends the reader; a push that does not return stops it.
\<close>

fun readSubMsg ::
    "'q worker_env \<Rightarrow> 'q sub_event list \<Rightarrow> 'q sub_reader \<Rightarrow> 'q sub_reader \<times> loop_status" where
  "readSubMsg wm [] s = (s, LoopRunning)"
| "readSubMsg wm (SubCtxDone # es) s = (s, LoopExited)"
| "readSubMsg wm (SubErrClosed # es) s = (s, LoopExited)"
| "readSubMsg wm (SubError # es) s =
     (let s1 = (if srErrCount s > 0 then s\<lparr>srSleeps := Suc (srSleeps s)\<rparr> else s)
      in readSubMsg wm es (s1\<lparr>srErrCount := srErrCount s1 + 1\<rparr>))"
| "readSubMsg wm (SubRecv payload progress expired # es) s =
     (let s1 = s\<lparr>srErrCount := 0\<rparr> in
      if length (cbuf (wmChan wm (srQueue s1))) \<ge> msgChanMaxLen then
        (case pubMsgWithTimeout wm payload progress expired (srQueue s1) of
           None \<Rightarrow> (s1, LoopExited)
         | Some (q, dropped) \<Rightarrow> readSubMsg wm es (s1\<lparr>srQueue := q\<rparr>))
      else
        (case wmPushMsg wm payload (srQueue s1) of
           None \<Rightarrow> (s1, LoopWaiting)
         | Some q \<Rightarrow> readSubMsg wm es (s1\<lparr>srQueue := q\<rparr>)))"

text \<open>Closing a closed channel panics.\<close>

definition StopWorkerM :: "'q worker_env \<Rightarrow> 'q \<Rightarrow> 'q option" where
  "StopWorkerM wm q =
     (case close_chan (wmChan wm q) of
        None \<Rightarrow> None
      | Some ch \<Rightarrow> Some (wmStop wm (wmSetChan wm ch q)))"

definition stopProxyWM :: "'q worker_env \<Rightarrow> 'q option \<Rightarrow> 'q option option" where
  "stopProxyWM wm mq = (case mq of None \<Rightarrow> Some None | Some q \<Rightarrow> map_option Some (StopWorkerM wm q))"

definition GetSubMsgList :: "'q worker_env \<Rightarrow> 'q option \<Rightarrow> ws_msg_list" where
  "GetSubMsgList wm mq =
     (case mq of
        None \<Rightarrow> \<lparr>MsgNum = 0, ConsumeNum = 0, FreeCNum = 0\<rparr>
      | Some q \<Rightarrow> \<lparr>MsgNum = wmGetChanMsgLen wm q, ConsumeNum = wmGetTotalCNum wm q,
          FreeCNum = wmGetFreeCNum wm q\<rparr>)"

section \<open>Sending to users and groups keeps the invariant\<close>

lemma ws_le_GetUserRpcServer [intro, simp]: "ws_le w (fst (GetUserRpcServer env uid w))"
  by (simp add: ws_le_def GetUserRpcServer_state)

lemma ws_le_rpc [intro, simp]:
  "ws_le w (fst (rpc_SendMsgToUser env s uid m w))"
  "ws_le w (fst (rpc_SendMsgToUserByTgid env s uid gid m w))"
  by (simp_all add: ws_le_def)

lemma ws_le_SendResponseToUser [intro, simp]:
  "ws_le w (fst (SendResponseToUser env uid r w))"
  "ws_le w (fst (SendResponseToUserByTgid env uid gid r w))"
  by (simp_all add: SendResponseToUser_def SendResponseToUserByTgid_def split: option.splits)

lemma ws_le_remote:
  assumes "GetUserRpcServer env uid w = (w1, Inr s)"
  shows "rpc_SendMsgToUser env s uid m w1 = (w2, b, e) \<Longrightarrow> ws_le w w2"
    and "rpc_SendMsgToUserByTgid env s uid gid m w1 = (w2, b, e) \<Longrightarrow> ws_le w w2"
  using assms ws_le_GetUserRpcServer [of w env uid] ws_le_rpc [of w1]
  by (metis fst_conv ws_le_trans)+

lemma ws_le_GetUserRpcServerD: "GetUserRpcServer env uid w = (w1, r) \<Longrightarrow> ws_le w w1"
  using ws_le_GetUserRpcServer by (metis fst_conv)

lemma ws_le_Proxy_SendResDataToUser [intro, simp]: "ws_le w (fst (Proxy_SendResDataToUser env uid d w))"
  by (auto simp: Proxy_SendResDataToUser_def LP_SendResDataToUser_def LP_SendResDataToLocalUser_def
      RP_SendResDataToUser_def Let_def ws_le_remote ws_le_GetUserRpcServerD
      split: sum.splits prod.splits)

lemma ws_le_Proxy_SendResDataToUserByTgid [intro, simp]:
  "ws_le w (fst (Proxy_SendResDataToUserByTgid env uid gid d w))"
  by (auto simp: Proxy_SendResDataToUserByTgid_def LP_SendResDataToUserByTgid_def
      LP_SendResDataToLocalUserByTgid_def RP_SendResDataToUserByTgid_def Let_def
      ws_le_remote ws_le_GetUserRpcServerD split: sum.splits prod.splits)

lemma ws_inv_LP_group:
  "ws_inv w \<Longrightarrow> LP_SendResDataToLocalGroup gid d ex w = Some (w', e) \<Longrightarrow> ws_inv w'"
  by (auto simp: LP_SendResDataToLocalGroup_def ws_inv_SendMessageToTGroup split: sum.splits)

lemma ws_inv_sendResDataToGroup:
  "ws_inv w \<Longrightarrow> sendResDataToGroup env gid d m w = Some w' \<Longrightarrow> ws_inv w'"
  by (auto simp: sendResDataToGroup_def ws_inv_LP_group
      intro: ws_inv_le [OF ws_le_Proxy_SendResDataToUserByTgid] split: if_splits)

lemma ws_inv_send_group_list:
  "ws_inv w \<Longrightarrow> send_group_list env gids d m w = Some w' \<Longrightarrow> ws_inv w'"
proof (induction gids arbitrary: w)
  case (Cons gid gids)
  then show ?case
    by (auto dest: ws_inv_sendResDataToGroup split: if_splits option.splits)
qed simp

lemma ws_inv_handleSubMsg:
  assumes "ws_inv w" and "handleSubMsg env msg w = Some w'"
  shows "ws_inv w'"
proof -
  obtain m e where d: "json_Unmarshal sub_msg_set msg sub_msg0 = (m, e)" by fastforce
  have "ws_inv (fst (Proxy_SendResDataToUser env uid r w))" for uid r
    using assms(1) by (rule ws_inv_le [OF ws_le_Proxy_SendResDataToUser])
  then show ?thesis
    using assms ws_inv_sendResDataToGroup [OF assms(1)] ws_inv_send_group_list [OF assms(1)]
    by (cases e) (auto simp: handleSubMsg_def d Let_def split: if_splits)
qed

section \<open>What is published is handled\<close>

lemma handleSubMsg_printed:
  assumes "adata_ok (sData p)" and "adata_floats_ok (sData p)"
    and "int_range 64 (sCTime p)" and "int_range 8 (sMsgType p)"
    and m: "m = p\<lparr>sData := adata_floats (sData p)\<rparr>"
  shows "handleSubMsg env (jprint (sub_msg_json p)) w =
     (if sTgid m \<noteq> '''' then sendResDataToGroup env (sTgid m) (sub_response m) m w
      else if sTgidList m \<noteq> [] then send_group_list env (sTgidList m) (sub_response m) m w
      else if sToUid m \<noteq> '''' then
        Some (fst (Proxy_SendResDataToUser env (sToUid m) (sub_response m) w))
      else Some w)"
  unfolding handleSubMsg_def sub_msg_decode [OF assms(1-4)] m [symmetric] by (simp add: Let_def)

text \<open>The message a cluster node publishes for a group.\<close>

definition group_sub_msg :: "string \<Rightarrow> response_data \<Rightarrow> string \<Rightarrow> int \<Rightarrow> sub_msg" where
  "group_sub_msg gid d ex t =
     \<lparr>sTgid = gid, sTgidList = [], sMol = '''', sCtrl = '''', sData = rdA d, sExceptUid = ex,
      sCTime = t, sMsgType = MSG_TYPE_GROUP, sToUid = ''''\<rparr>"

lemma RP_SendResDataToGroup_publishes:
  assumes "adata_ok (rdA d)"
  shows "RP_SendResDataToGroup env gid d ex w =
     (let (r, e) = redisPublish env (GlobalKey w) (jprint (sub_msg_json (group_sub_msg gid d ex (clock w))))
            (redis w)
      in (w\<lparr>redis := r\<rparr>, e))"
proof -
  have "jgood (sub_msg_json (group_sub_msg gid d ex (clock w)))"
    using assms by (intro sub_msg_json_good) (simp add: group_sub_msg_def)
  then show ?thesis
    by (simp add: RP_SendResDataToGroup_def PublishGlobalMsg_def group_sub_msg_def json_Marshal_def
        Let_def)
qed

lemma handleSubMsg_group:
  assumes "adata_ok (rdA d)" and "adata_floats_ok (rdA d)" and "int_range 64 t" and "gid \<noteq> ''''"
  shows "handleSubMsg env (jprint (sub_msg_json (group_sub_msg gid d ex t))) w =
     map_option fst (LP_SendResDataToLocalGroup gid (d\<lparr>rdS := 1, rdA := adata_floats (rdA d)\<rparr>) ex w)"
proof -
  let ?m = "(group_sub_msg gid d ex t)\<lparr>sData := adata_floats (rdA d)\<rparr>"
  have "sub_response ?m = d\<lparr>rdS := 1, rdA := adata_floats (rdA d)\<rparr>"
    by (simp add: sub_response_def group_sub_msg_def NewResponseData_def)
  then show ?thesis
    using assms handleSubMsg_printed [of "group_sub_msg gid d ex t" ?m env w]
    by (simp add: group_sub_msg_def sendResDataToGroup_def int_range_def msg_types)
qed

section \<open>The reader loses no message it could queue\<close>

text \<open>What is used of the pool: its push appends where there is room.\<close>

definition worker_ok :: "'q worker_env \<Rightarrow> bool" where
  "worker_ok wm \<longleftrightarrow>
     (\<forall>ch q. wmChan wm (wmSetChan wm ch q) = ch) \<and>
     (\<forall>m q ch. try_send (wmChan wm q) m = Sent ch \<longrightarrow> wmPushMsg wm m q = Some (wmSetChan wm ch q))"

definition is_recv :: "'q sub_event \<Rightarrow> bool" where
  "is_recv e = (case e of SubRecv _ _ _ \<Rightarrow> True | _ \<Rightarrow> False)"

fun payload :: "'q sub_event \<Rightarrow> bytes" where
  "payload (SubRecv m _ _) = m"
| "payload _ = ''''"

lemma readSubMsg_queues:
  assumes wm: "worker_ok wm" and "\<forall>e \<in> set es. e = SubError \<or> is_recv e"
    and "\<not> cclosed (wmChan wm (srQueue s))"
    and "length (cbuf (wmChan wm (srQueue s))) + length (filter is_recv es) \<le> ccap (wmChan wm (srQueue s))"
    and "ccap (wmChan wm (srQueue s)) \<le> msgChanMaxLen"
  shows "snd (readSubMsg wm es s) = LoopRunning \<and>
     cbuf (wmChan wm (srQueue (fst (readSubMsg wm es s)))) =
       cbuf (wmChan wm (srQueue s)) @ map payload (filter is_recv es)"
  using assms(2-)
proof (induction es arbitrary: s)
  case (Cons e es)
  show ?case
  proof (cases e)
    case SubError
    then show ?thesis using Cons by (auto simp: Let_def is_recv_def)
  next
    case (SubRecv m p x)
    let ?ch = "wmChan wm (srQueue s)" and ?s = "s\<lparr>srErrCount := 0\<rparr>"
    let ?ch' = "?ch\<lparr>cbuf := cbuf ?ch @ [m]\<rparr>"
    let ?q = "wmSetChan wm ?ch' (srQueue s)"
    have room: "length (cbuf ?ch) < ccap ?ch" using Cons.prems(3) SubRecv by (simp add: is_recv_def)
    then have "try_send ?ch m = Sent ?ch'" using Cons.prems(2) by (simp add: try_send_def)
    then have "wmPushMsg wm m (srQueue s) = Some ?q" "wmChan wm ?q = ?ch'"
      using wm by (auto simp: worker_ok_def)
    then show ?thesis
      using Cons.IH [of "?s\<lparr>srQueue := ?q\<rparr>"] Cons.prems room SubRecv
      by (simp add: Let_def is_recv_def)
  qed (use Cons.prems in \<open>auto simp: is_recv_def\<close>)
qed simp

end
