(* ===== verification/WsDelivery.thy ===== *)
theory WsDelivery
  imports WsQueue
begin

text \<open>
  Where messages go: the effect of an asynchronous send on a client, the fan-out of a
  group message over the members, the run of a group's listener over its queue and the
  run of a client's send loop over its socket.
\<close>

declare map_of_eq_Some_iff [simp del] Some_eq_map_of_iff [simp del]

section \<open>One asynchronous send\<close>

text \<open>What an asynchronous send makes of a client: queued, disconnected when full, or ignored.\<close>

definition deliver :: "bytes \<Rightarrow> client \<Rightarrow> client" where
  "deliver m x =
     (if cState x = StateOffline then x
      else case try_send (cSendChan x) m of
             Sent ch \<Rightarrow> x\<lparr>cSendChan := ch\<rparr>
           | _ \<Rightarrow> x\<lparr>cState := StateOffline\<rparr>)"

lemma Client_Close_clients:
  "clients (Client_Close env c w) = (clients w)(c := (clients w c)\<lparr>cState := StateOffline\<rparr>)"
proof (cases "cState (clients w c) = StateOffline")
  case True
  then have "(clients w c)\<lparr>cState := StateOffline\<rparr> = clients w c"
    by (metis client.surjective client.update_convs(3))
  moreover have "Client_Close env c w = w" using True by (simp add: Client_Close_def)
  ultimately show ?thesis by (simp only: fun_upd_triv)
qed (simp add: Client_Close_def Let_def)

lemma SafeSendMsg_deliver:
  "clients (fst (SafeSendMsg env c m 2 w)) = (clients w)(c := deliver m (clients w c))"
  by (auto simp: SafeSendMsg_def deliver_def Let_def Client_Close_clients fun_eq_iff
      split: send_result.splits)

lemma SafeSendMsg_async_error:
  assumes "client_ok (clients w c)" and "cState (clients w c) = StateOnline"
  shows "snd (SafeSendMsg env c m 2 w) =
     (if length (cbuf (cSendChan (clients w c))) < ccap (cSendChan (clients w c)) then None
      else Some (NewImError ErrSendChanFull))"
proof -
  have "\<not> cclosed (cSendChan (clients w c))"
    using assms by (auto simp: client_ok_def)
  then show ?thesis
    using assms(2) by (simp add: SafeSendMsg_def try_send_def Let_def)
qed

lemma deliver_room:
  "client_ok x \<Longrightarrow> cState x = StateOnline \<Longrightarrow> length (cbuf (cSendChan x)) < ccap (cSendChan x) \<Longrightarrow>
     deliver m x = x\<lparr>cSendChan := (cSendChan x)\<lparr>cbuf := cbuf (cSendChan x) @ [m]\<rparr>\<rparr>"
  by (auto simp: deliver_def try_send_def client_ok_def)

lemma deliver_user [simp]: "cUserId (deliver m x) = cUserId x"
  by (simp add: deliver_def split: send_result.splits)

lemma clients_inv_le:
  assumes le: "ws_le w w'" and inv: "clients_inv w"
  shows "clients_inv w'"
proof (rule clients_inv_mono [OF inv])
  show "client_ok (clients w d) \<Longrightarrow> client_ok (clients w' d)" for d
    using le client_ok_le by (auto simp: ws_le_def)
qed (use le in \<open>simp_all add: ws_le_def client_le_def\<close>)

section \<open>The fan-out of a group message\<close>

text \<open>The messages of a list that a user gets: those that do not except the user.\<close>

definition for_user :: "string \<Rightarrow> group_msg list \<Rightarrow> bytes list" where
  "for_user uid ms = map gmMsg (filter (\<lambda>m. gmExceptUid m \<noteq> uid) ms)"

lemma send_to_user_clients:
  "clients (send_to_user env m uid w) =
     (case mget (Clients w) uid of
        None \<Rightarrow> clients w
      | Some c \<Rightarrow> (clients w)(c := fold deliver (for_user uid [m]) (clients w c)))"
  by (simp add: send_to_user_def GetClient_def SafeSendMsg_deliver for_user_def split: option.split)

lemma fan_out:
  assumes inv: "clients_inv w" and d: "distinct us"
  shows "clients (fold (send_to_user env m) us w) c =
     (if mget (Clients w) (cUserId (clients w c)) = Some c \<and> cUserId (clients w c) \<in> set us
      then fold deliver (for_user (cUserId (clients w c)) [m]) (clients w c)
      else clients w c)"
  using d inv
proof (induction us arbitrary: w)
  case (Cons u us)
  let ?w = "send_to_user env m u w"
  have fr: "Clients ?w = Clients w" by simp
  have user: "cUserId (clients ?w e) = cUserId (clients w e)" for e
    by (auto simp: send_to_user_clients for_user_def split: option.split)
  have inv': "clients_inv ?w"
    by (rule clients_inv_le [OF ws_le_send_to_user Cons.prems(2)])
  have one: "clients ?w c = (if mget (Clients w) u = Some c
      then fold deliver (for_user u [m]) (clients w c) else clients w c)"
    by (auto simp: send_to_user_clients split: option.split)
  have distinct_us: "distinct us" using Cons.prems(1) by simp
  have ih: "clients (fold (send_to_user env m) us ?w) c =
     (if mget (Clients w) (cUserId (clients w c)) = Some c \<and> cUserId (clients w c) \<in> set us
      then fold deliver (for_user (cUserId (clients w c)) [m]) (clients ?w c)
      else clients ?w c)"
    using Cons.IH [OF distinct_us inv'] unfolding fr user .
  show ?case
  proof (cases "mget (Clients w) u = Some c")
    case True
    then have "cUserId (clients w c) = u" by (rule clients_invD(4) [OF Cons.prems(2)])
    with True Cons.prems(1) ih one show ?thesis by simp
  next
    case False
    then have "mget (Clients w) (cUserId (clients w c)) = Some c \<Longrightarrow> cUserId (clients w c) \<noteq> u" by auto
    with False ih one show ?thesis by (simp cong: conj_cong)
  qed
qed simp

lemma fan_out_frame:
  "tgroups (SendToUsers env g m w) = tgroups w" "Clients (SendToUsers env g m w) = Clients w"
  using ws_le_SendToUsers [of w env g m] by (simp_all add: ws_le_def)

text \<open>
  A message to a live group reaches the queue of every member's client but the excepted
  user's, once, whatever the order of the loop, and no other client.
\<close>

lemma SendToUsers_clients:
  assumes inv: "ws_inv w" and r: "range_ok env" and g: "mget (TGroups w) gid = Some g"
  shows "clients (SendToUsers env g m w) c =
     (if mget (Clients w) (cUserId (clients w c)) = Some c \<and> cUserId (clients w c) \<in> members w gid
      then fold deliver (for_user (cUserId (clients w c)) [m]) (clients w c)
      else clients w c)"
proof -
  have "gState (tgroups w g) = 1" "g < nextGroup w"
    using groups_invD(2,4) [OF ws_invD(2) [OF inv] g] by auto
  moreover have "mwf (gUsers (tgroups w g))"
    using groups_invD(6) [OF ws_invD(2) [OF inv]] calculation(2) by (simp add: group_ok_def)
  moreover have "set (RangeOrder env (mkeys (gUsers (tgroups w g)))) = members w gid"
    using g by (simp add: members_def range_ok_set [OF r])
  ultimately show ?thesis
    using fan_out [OF ws_invD(1) [OF inv], of "RangeOrder env (mkeys (gUsers (tgroups w g)))" env m c]
    by (simp add: SendToUsers_def range_ok_distinct [OF r])
qed

section \<open>The listener of a group\<close>

lemma members_SendToUsers: "members (SendToUsers env g m w) = members w"
  using ws_le_SendToUsers [of w env g m] members_cong [of "SendToUsers env g m w" w]
  by (simp add: ws_le_def)

lemma members_set_send: "members (upd_group g (\<lambda>x. x\<lparr>gSend := ch\<rparr>) w) = members w"
  by (rule ext) (simp add: members_def split: option.split)

text \<open>A client after the members of the group got the messages.\<close>

abbreviation got :: "string \<Rightarrow> group_msg list \<Rightarrow> ('k, 'r, 'n) ws \<Rightarrow> cptr \<Rightarrow> client" where
  "got gid ms w c \<equiv>
     (if mget (Clients w) (cUserId (clients w c)) = Some c \<and> cUserId (clients w c) \<in> members w gid
      then fold deliver (for_user (cUserId (clients w c)) ms) (clients w c)
      else clients w c)"

text \<open>
  With enough rounds the listener of a live group takes every queued message, in order,
  to the members, and waits for the next one.
\<close>

lemma listener_drains:
  assumes "ws_inv w" and "range_ok env" and "mget (TGroups w) gid = Some g"
    and "length (cbuf (gSend (tgroups w g))) < n"
  shows "\<exists>w'. ListenSendChan env n g w = (w', LoopWaiting) \<and> ws_inv w' \<and>
     cbuf (gSend (tgroups w' g)) = [] \<and>
     (\<forall>c. clients w' c = got gid (cbuf (gSend (tgroups w g))) w c)"
  using assms
proof (induction "cbuf (gSend (tgroups w g))" arbitrary: w n)
  case Nil
  then have "\<not> cclosed (gSend (tgroups w g))"
    using groups_invD(2,4,6) [OF ws_invD(2)] by (fastforce simp: group_ok_def)
  moreover obtain n' where "n = Suc n'" using Nil by (cases n) auto
  ultimately show ?case
    using Nil by (simp add: try_recv_def for_user_def Nil(1) [symmetric])
next
  case (Cons m ms)
  obtain n' where n: "n = Suc n'" using Cons.prems(4) by (cases n) auto
  let ?ch = "(gSend (tgroups w g))\<lparr>cbuf := ms\<rparr>"
  let ?w1 = "upd_group g (\<lambda>x. x\<lparr>gSend := ?ch\<rparr>) w"
  let ?w2 = "SendToUsers env g m ?w1"
  have rc: "try_recv (gSend (tgroups w g)) = Received m ?ch"
    by (simp add: try_recv_def Cons(2) [symmetric])
  have inv1: "ws_inv ?w1" by (rule ws_inv_recv_group [OF Cons.prems(1) rc])
  have inv2: "ws_inv ?w2" by (rule ws_inv_le [OF ws_le_SendToUsers inv1])
  have g1: "mget (TGroups ?w1) gid = Some g" using Cons.prems(3) by simp
  have g2: "mget (TGroups ?w2) gid = Some g"
    using Cons.prems(3) ws_le_SendToUsers [of ?w1 env g m] by (simp add: ws_le_def)
  have t2: "tgroups ?w2 g = (tgroups w g)\<lparr>gSend := ?ch\<rparr>" "Clients ?w2 = Clients w"
    "members ?w2 = members w"
    by (simp_all add: fan_out_frame members_SendToUsers members_set_send)
  have c2: "clients ?w2 c = got gid [m] w c" for c
    using SendToUsers_clients [OF inv1 Cons.prems(2) g1, of m c] by (simp add: members_set_send)
  have u2: "cUserId (clients ?w2 c) = cUserId (clients w c)" for c
    by (simp add: c2 for_user_def)
  obtain w' where w': "ListenSendChan env n' g ?w2 = (w', LoopWaiting)" "ws_inv w'"
      "cbuf (gSend (tgroups w' g)) = []"
    and c': "\<forall>c. clients w' c = got gid (cbuf (gSend (tgroups ?w2 g))) ?w2 c"
    using Cons.hyps(1) [OF _ inv2 Cons.prems(2) g2, of n'] Cons.prems(4) n by (auto simp: t2 simp flip: Cons(2))
  have "clients w' c = got gid (m # ms) w c" for c
    using c' [rule_format, of c] unfolding t2 u2 by (simp add: c2 for_user_def)
  with w' rc n show ?case by (simp add: Let_def Cons(2) [symmetric])
qed

text \<open>A listener that still waits has left the table alone and only taken messages.\<close>

lemma ListenSendChan_waiting:
  "ListenSendChan env n g w = (w', LoopWaiting) \<Longrightarrow>
     TGroups w' = TGroups w \<and> ccap (gSend (tgroups w' g)) = ccap (gSend (tgroups w g))"
proof (induction n arbitrary: w)
  case (Suc n)
  show ?case
  proof (cases "try_recv (gSend (tgroups w g))")
    case (Received m ch)
    let ?w1 = "upd_group g (\<lambda>x. x\<lparr>gSend := ch\<rparr>) w"
    have "ccap ch = ccap (gSend (tgroups w g))"
      using Received by (auto simp: try_recv_def split: list.splits if_splits)
    then show ?thesis
      using Suc.IH [of "SendToUsers env g m ?w1"] Suc.prems Received ws_le_SendToUsers [of ?w1 env g m]
      by (simp add: Let_def ws_le_def)
  qed (use Suc.prems in simp_all)
qed simp

section \<open>The send loop of a client\<close>

text \<open>The writes of the messages to a socket, one after another, as long as they succeed.\<close>

fun write_all :: "('k, 'r, 'n) ws_env \<Rightarrow> opcode \<Rightarrow> bytes list \<Rightarrow> 'k \<Rightarrow> 'k option" where
  "write_all env op [] k = Some k"
| "write_all env op (m # ms) k =
     (case WriteMessage env k op m of Wrote k' \<Rightarrow> write_all env op ms k' | _ \<Rightarrow> None)"

text \<open>
  If the socket takes the queued messages, the loop writes all of them in the order they
  were queued and waits, or ends when the channel is closed.
\<close>

lemma send_loop_drains:
  assumes "write_all env (cMsgCode (clients w c)) (cbuf (cSendChan (clients w c)))
      (conns w (cSocket (clients w c))) = Some k"
    and "length (cbuf (cSendChan (clients w c))) < n" and "\<not> cclosed (cSendChan (clients w c))"
  shows "\<exists>w'. SendMsgLoop env n c w = (w', LoopWaiting) \<and>
     conns w' = (conns w)(cSocket (clients w c) := k) \<and> cbuf (cSendChan (clients w' c)) = [] \<and>
     cState (clients w' c) = cState (clients w c)"
  using assms
proof (induction "cbuf (cSendChan (clients w c))" arbitrary: w n)
  case Nil
  then obtain n' where "n = Suc n'" by (cases n) auto
  with Nil show ?case by (auto simp: try_recv_def)
next
  case (Cons m ms)
  obtain n' where n: "n = Suc n'" using Cons.prems(2) by (cases n) auto
  let ?x = "clients w c"
  let ?ch = "(cSendChan ?x)\<lparr>cbuf := ms\<rparr>"
  let ?w1 = "upd_client c (\<lambda>x. x\<lparr>cSendChan := ?ch\<rparr>) w"
  obtain k1 where k1: "WriteMessage env (conns w (cSocket ?x)) (cMsgCode ?x) m = Wrote k1"
    "write_all env (cMsgCode ?x) ms k1 = Some k"
    using Cons.prems(1) by (auto simp flip: Cons(2) split: write_result.splits)
  let ?w2 = "set_conn (cSocket ?x) k1 ?w1"
  have "\<exists>w'. SendMsgLoop env n' c ?w2 = (w', LoopWaiting) \<and>
     conns w' = (conns ?w2)(cSocket (clients ?w2 c) := k) \<and> cbuf (cSendChan (clients w' c)) = [] \<and>
     cState (clients w' c) = cState (clients ?w2 c)"
    using k1 Cons.prems(2,3) n by (intro Cons.hyps(1)) (simp_all flip: Cons(2))
  then obtain w' where "SendMsgLoop env n' c ?w2 = (w', LoopWaiting)"
     "conns w' = (conns w)(cSocket ?x := k)" "cbuf (cSendChan (clients w' c)) = []"
     "cState (clients w' c) = cState ?x"
    by auto
  moreover have "try_recv (cSendChan ?x) = Received m ?ch"
    by (simp add: try_recv_def flip: Cons(2))
  ultimately show ?case using n k1 by (simp add: Let_def)
qed

text \<open>
  The first write that fails ends the loop and disconnects the client: the messages
  queued behind it stay in the channel and are never written.
\<close>

lemma send_loop_fails:
  assumes "cbuf (cSendChan (clients w c)) = ms @ m # rest"
    and "write_all env (cMsgCode (clients w c)) ms (conns w (cSocket (clients w c))) = Some k"
    and "WriteMessage env k (cMsgCode (clients w c)) m = WriteFailed k' e"
    and "length ms < n"
  shows "\<exists>w'. SendMsgLoop env n c w = (w', LoopExited) \<and> cbuf (cSendChan (clients w' c)) = rest \<and>
     cState (clients w' c) = StateOffline"
  using assms
proof (induction ms arbitrary: w n)
  case Nil
  then obtain n' where "n = Suc n'" by (cases n) auto
  with Nil show ?case by (simp add: try_recv_def Let_def Client_Close_clients)
next
  case (Cons a ms)
  obtain n' where n: "n = Suc n'" using Cons.prems(4) by (cases n) auto
  let ?x = "clients w c"
  let ?w1 = "upd_client c (\<lambda>x. x\<lparr>cSendChan := (cSendChan ?x)\<lparr>cbuf := ms @ m # rest\<rparr>\<rparr>) w"
  obtain k1 where k1: "WriteMessage env (conns w (cSocket ?x)) (cMsgCode ?x) a = Wrote k1"
    "write_all env (cMsgCode ?x) ms k1 = Some k"
    using Cons.prems(2) by (auto split: write_result.splits)
  let ?w2 = "set_conn (cSocket ?x) k1 ?w1"
  have "\<exists>w'. SendMsgLoop env n' c ?w2 = (w', LoopExited) \<and> cbuf (cSendChan (clients w' c)) = rest \<and>
     cState (clients w' c) = StateOffline"
    using k1 Cons.prems(3,4) n by (intro Cons.IH) simp_all
  moreover have "try_recv (cSendChan ?x) = Received a ((cSendChan ?x)\<lparr>cbuf := ms @ m # rest\<rparr>)"
    using Cons.prems(1) by (simp add: try_recv_def)
  ultimately show ?case using n k1 by (simp add: Let_def)
qed

end
