(* ===== verification/GimServer.thy ===== *)
theory GimServer
  imports WsQueue
begin

text \<open>
  The start of a node: \<^verbatim>\<open>service/ws/init_ws.go\<close>, \<^verbatim>\<open>service/api/server/server.go\<close> and
  \<^verbatim>\<open>server.go\<close>. What the operating system, etcd and the rpc library answer are arguments. The
  process around it, with its end, is in \<open>GimProcess\<close>.
\<close>

declare map_of_eq_Some_iff [simp del] Some_eq_map_of_iff [simp del]

section \<open>The websocket service\<close>

text \<open>The state of a process that has not been initialised.\<close>

definition ws_config0 :: ws_config where
  "ws_config0 = \<lparr>cfgRunMode = RunModeLocal, cfgRedisPrefix = '''', cfgRpcPort = '''', cfgWsPort = '''',
     cfgKeepTime = keep_of 0, cfgClientMsgChanMax = 0, cfgGroupMsgChanMax = 0, cfgVersion = ''''\<rparr>"

definition client0 :: client where
  "client0 = \<lparr>cUserId = '''', cRandUuid = '''', cState = StateOffline, cSocket = 0, cFirstTime = 0,
     cHeartbeatTime = 0, cTGroup = [], cMsgCode = OpcodeBinary, cSendChan = make_chan 0,
     cCloseOnce = False\<rparr>"

definition tgroup0 :: tgroup where
  "tgroup0 = \<lparr>gState = 0, gUsers = [], gGid = '''', gSend = make_chan 0\<rparr>"

definition ws0 :: "(kptr \<Rightarrow> 'k) \<Rightarrow> 'r \<Rightarrow> 'n \<Rightarrow> int \<Rightarrow> ('k, 'r, 'n) ws" where
  "ws0 ks r n t =
     \<lparr>Config = ws_config0, serverIp = '''', ServerName = '''', connKeepTime = 0, conns = ks,
      clients = (\<lambda>_. client0), nextClient = 0, tgroups = (\<lambda>_. tgroup0), nextGroup = 0,
      Clients = [], ConnClientIdx = [], TGroups = [], ServiceName = '''', rpcClients = [],
      redis = r, net = n, gos = [], clock = t\<rparr>"

definition NewClientManager :: "('k, 'r, 'n) ws \<Rightarrow> ('k, 'r, 'n) ws" where
  "NewClientManager w = w\<lparr>Clients := [], ConnClientIdx := []\<rparr>"

definition NewTGroupManager :: "('k, 'r, 'n) ws \<Rightarrow> ('k, 'r, 'n) ws" where
  "NewTGroupManager w = w\<lparr>TGroups := []\<rparr>"

text \<open>A missing option is a panic, \<open>None\<close>; the keep time is only set when it is positive.\<close>

definition InitWs ::
    "iface list result \<Rightarrow> bool \<Rightarrow> ws_config \<Rightarrow> ('k, 'r, 'n) ws \<Rightarrow> ('k, 'r, 'n) ws option" where
  "InitWs ifaces optionSet c w =
     (if \<not> optionSet then None
      else
        let c1 = (if cfgClientMsgChanMax c \<le> 0 then c\<lparr>cfgClientMsgChanMax := DefaultMsgChanMax\<rparr> else c);
            c2 = (if cfgGroupMsgChanMax c1 \<le> 0 then c1\<lparr>cfgGroupMsgChanMax := DefaultMsgChanMax\<rparr> else c1);
            w1 = w\<lparr>serverIp := GetServerIp ifaces, Config := c2\<rparr>;
            w2 = NewTGroupManager (NewClientManager w1);
            w3 = (if keep_seconds (cfgKeepTime (Config w2)) > 0
                  then w2\<lparr>connKeepTime := wrap64 (keep_seconds (cfgKeepTime (Config w2)) * 1000000000)\<rparr> else w2)
        in Some (w3\<lparr>ServerName := GetLastSegmentOfIP (serverIp w3) @ '':'' @ cfgWsPort (Config w3)\<rparr>))"

definition ws_GetServerIp :: "('k, 'r, 'n) ws \<Rightarrow> string" where
  "ws_GetServerIp w = serverIp w"

text \<open>The channels the node's queue subscribes to.\<close>

definition subMsg_keys :: "('k, 'r, 'n) ws \<Rightarrow> string list" where
  "subMsg_keys w = [GlobalKey w, LocalKey w]"

definition ws_CloseServer :: "'q worker_env \<Rightarrow> 'q option \<Rightarrow> 'q option option" where
  "ws_CloseServer wm mq = stopProxyWM wm mq"

section \<open>The rpc server\<close>

text \<open>A registration that fails is a panic with the error.\<close>

definition rpc_InitServer :: "string \<Rightarrow> string \<Rightarrow> lease_answers \<Rightarrow> service_register result" where
  "rpc_InitServer serverName ipAddr a =
     (let name = serverName @ ipAddr in NewServiceRegister name ipAddr 5 a)"

section \<open>The server\<close>

datatype init_panic = NoLogger | NoOption | NoEtcdClient | NoRpcPort | RegisterFailed go_error

definition rpc_service_name :: "ws_config \<Rightarrow> string" where
  "rpc_service_name c = cfgRedisPrefix c @ ''/'' @ ''rpc'' @ ''/''"

definition InitServer ::
    "('k, 'r, 'n) ws_env \<Rightarrow> bool \<Rightarrow> iface list result \<Rightarrow> bool \<Rightarrow> ws_config \<Rightarrow> bool \<Rightarrow> lease_answers \<Rightarrow>
     etcd_reads \<Rightarrow> ('k, 'r, 'n) ws \<Rightarrow>
     init_panic + ('k, 'r, 'n) ws \<times> service_register option" where
  "InitServer env isInitLogger ifaces optionSet config etcdSet a E w =
     (if \<not> isInitLogger then Inl NoLogger
      else
        case InitWs ifaces optionSet config w of
          None \<Rightarrow> Inl NoOption
        | Some w1 \<Rightarrow>
            if cfgRunMode config = RunModeRedis then
              if \<not> etcdSet then Inl NoEtcdClient
              else if cfgRpcPort config = '''' then Inl NoRpcPort
              else
                let serverName = rpc_service_name config;
                    addr = ws_GetServerIp w1 @ '':'' @ cfgRpcPort config
                in case rpc_InitServer serverName addr a of
                     Inl err \<Rightarrow> Inl (RegisterFailed err)
                   | Inr reg \<Rightarrow> Inr (InitClient env serverName E w1, Some reg)
            else Inr (w1, None))"

section \<open>Facts\<close>

lemma InitWs_fields:
  assumes "InitWs ifaces opt c w = Some w'"
  shows "Clients w' = []" "ConnClientIdx w' = []" "TGroups w' = []"
    and "serverIp w' = GetServerIp ifaces"
    and "ServerName w' = GetLastSegmentOfIP (GetServerIp ifaces) @ '':'' @ cfgWsPort c"
    and "0 < cfgClientMsgChanMax (Config w')" "0 < cfgGroupMsgChanMax (Config w')"
    and "cfgRunMode (Config w') = cfgRunMode c" "cfgRedisPrefix (Config w') = cfgRedisPrefix c"
    and "cfgRpcPort (Config w') = cfgRpcPort c" "cfgWsPort (Config w') = cfgWsPort c"
    and "nextClient w' = nextClient w" "nextGroup w' = nextGroup w"
    and "redis w' = redis w"
  using assms
  by (auto simp: InitWs_def NewClientManager_def NewTGroupManager_def DefaultMsgChanMax_def Let_def
      split: if_splits)

lemma ws_inv_empty:
  "Clients w = [] \<Longrightarrow> ConnClientIdx w = [] \<Longrightarrow> TGroups w = [] \<Longrightarrow> nextClient w = 0 \<Longrightarrow>
     nextGroup w = 0 \<Longrightarrow> ws_inv w"
  by (simp add: ws_inv_def clients_inv_def groups_inv_def member_inv_def members_def in_group_def)

lemma ws_inv_InitWs: "InitWs ifaces opt c (ws0 ks r n t) = Some w \<Longrightarrow> ws_inv w"
  using InitWs_fields [of ifaces opt c "ws0 ks r n t" w] by (intro ws_inv_empty) (simp_all add: ws0_def)

text \<open>The node's name ends its address.\<close>

lemma ServerName_ip:
  assumes "InitWs ifaces opt c w = Some w'" and "GetServerIp ifaces = s @ ''.'' @ nat_lit n"
  shows "ServerName w' = nat_lit n @ '':'' @ cfgWsPort c"
  using InitWs_fields(5) [OF assms(1)] assms(2)
  by (simp add: last_segment_append dot_not_in_nat_lit)

text \<open>The key a node registers under is the key the other nodes look it up by.\<close>

lemma rpc_InitServer_key:
  assumes "rpc_InitServer (rpc_service_name c) addr a = Inr reg"
  shows "srName reg = rpc_service_name c @ addr" and "srAddr reg = addr" and "srStatus reg = 2"
    and "(srName reg, srAddr reg, srLeaseID reg) \<in> set (srLog reg)"
  using assms
  by (auto simp: rpc_InitServer_def NewServiceRegister_def putKeyWithLease_def Let_def
      split: sum.splits option.splits)

end
