(* ===== verification/WsSteps.thy ===== *)
theory WsSteps
  imports WsDelivery GimServer
begin

text \<open>
  A node as a state machine. \<open>api_step\<close> are the calls the application makes through the
  proxy and on a connected client; \<open>node_step\<close> are the events the node reacts to: new
  connections, pings, requests, ends of connections, rounds of the loops it started,
  messages of the subscription, calls of other nodes, and the world moving on. The
  invariant of \<open>WsInvariant\<close> holds in every reachable state.
\<close>

declare map_of_eq_Some_iff [simp del] Some_eq_map_of_iff [simp del]

section \<open>The calls of the application\<close>

inductive api_step :: "('k, 'r, 'n) ws_env \<Rightarrow> ('k, 'r, 'n) ws \<Rightarrow> ('k, 'r, 'n) ws \<Rightarrow> bool"
  for env where
  send_user: "api_step env w (fst (Proxy_SendMsgToUser env uid m w))"
| send_user_tgid: "api_step env w (fst (Proxy_SendMsgToUserByTgid env uid gid m w))"
| send_data: "api_step env w (fst (Proxy_SendResDataToUser env uid d w))"
| send_data_tgid: "api_step env w (fst (Proxy_SendResDataToUserByTgid env uid gid d w))"
| send_group: "Proxy_SendResDataToGroup env gid d ex w = Some (w', e) \<Longrightarrow> api_step env w w'"
| send_group_msg: "LP_SendMsgToLocalGroup gid m w = Some (w', e) \<Longrightarrow> api_step env w w'"
| join: "Proxy_JoinGroup env uid gid w = Some (w', ok) \<Longrightarrow> api_step env w w'"
| out: "api_step env w (fst (Proxy_OutGroup env uid gid w))"
| stop: "api_step env w (Proxy_StopUserClient env u w)"
| client_send: "api_step env w (fst (SafeSendMsg env c m t w))"
| client_data: "api_step env w (fst (SendResponseData env c d s cmd t w))"
| client_close: "api_step env w (Client_Close env c w)"
| client_in: "GetClient uid w = Some c \<Longrightarrow> InTGroup c gid w = Some w' \<Longrightarrow> api_step env w w'"
| client_out: "GetClient uid w = Some c \<Longrightarrow> api_step env w (OutTGroup c gid w)"
| close_user: "api_step env w (CloseClient env uid w)"

text \<open>
  The application's functions: what they do to the state of the node they do through
  these calls.
\<close>

definition handler_ok :: "('k, 'r, 'n) ws_env \<Rightarrow> ('k, 'r, 'n) ws request_handler \<Rightarrow> bool" where
  "handler_ok env h \<longleftrightarrow>
     (\<forall>f c q w. h = Some f \<longrightarrow>
        (case f c q w of HandleRet w' a e \<Rightarrow> (api_step env)\<^sup>*\<^sup>* w w' | HandlePanic w' \<Rightarrow> (api_step env)\<^sup>*\<^sup>* w w'))"

definition callback_ok ::
    "('k, 'r, 'n) ws_env \<Rightarrow> (cptr \<Rightarrow> ('k, 'r, 'n) ws \<Rightarrow> ('k, 'r, 'n) ws) option \<Rightarrow> bool" where
  "callback_ok env cb \<longleftrightarrow> (\<forall>f c w. cb = Some f \<longrightarrow> (api_step env)\<^sup>*\<^sup>* w (f c w))"

section \<open>The events of a node\<close>

text \<open>Those that neither open nor end a connection.\<close>

inductive inner_event ::
    "('k, 'r, 'n) ws_env \<Rightarrow> ('k, 'r, 'n) ws request_handler \<Rightarrow> ('k, 'r, 'n) ws \<Rightarrow> ('k, 'r, 'n) ws \<Rightarrow> bool"
  for env h where
  api: "api_step env w w' \<Longrightarrow> inner_event env h w w'"
| ping: "inner_event env h w (Handler_OnPing env k w)"
| message: "inner_event env h w (Handler_OnMessage env h k m w)"
| send_loop: "inner_event env h w (fst (SendMsgLoop env n c w))"
| group_loop: "g < nextGroup w \<Longrightarrow> inner_event env h w (fst (ListenSendChan env n g w))"
| sub_msg: "handleSubMsg env m w = Some w' \<Longrightarrow> inner_event env h w w'"
| rpc_send: "inner_event env h w (fst (ImRpc_SendMsgToUser env q w))"
| rpc_send_tgid: "inner_event env h w (fst (ImRpc_SendMsgToUserByTgid env q' w))"
| rpc_stop: "inner_event env h w (fst (ImRpc_StopUserClient env u w))"
| rpc_join: "ImRpc_JoinGroup j w = Some (w', r) \<Longrightarrow> inner_event env h w w'"
| rpc_out: "inner_event env h w (fst (ImRpc_OutGroup j w))"
| register: "inner_event env h w (onRegister env kv w)"
| unregister: "inner_event env h w (onUnregister kv w)"

inductive node_event ::
    "('k, 'r, 'n) ws_env \<Rightarrow> ('k, 'r, 'n) ws request_handler \<Rightarrow>
     (cptr \<Rightarrow> ('k, 'r, 'n) ws \<Rightarrow> ('k, 'r, 'n) ws) option \<Rightarrow>
     ('k, 'r, 'n) ws \<Rightarrow> ('k, 'r, 'n) ws \<Rightarrow> bool"
  for env h cb where
  inner: "inner_event env h w w' \<Longrightarrow> node_event env h cb w w'"
| up_failed: "node_event env h cb w (HandlerUp env ulid (Inl err) mc w)"
| up: "mget (ConnClientIdx w) k = None \<Longrightarrow>
    node_event env h cb w (HandlerUp env ulid (Inr k) mc (set_conn k x w))"
| close: "node_event env h cb w (fst (Handler_OnClose env cb k w))"

text \<open>Redis, the network and the clock change under the node as well.\<close>

inductive node_step ::
    "('k, 'r, 'n) ws_env \<Rightarrow> ('k, 'r, 'n) ws request_handler \<Rightarrow>
     (cptr \<Rightarrow> ('k, 'r, 'n) ws \<Rightarrow> ('k, 'r, 'n) ws) option \<Rightarrow>
     ('k, 'r, 'n) ws \<Rightarrow> ('k, 'r, 'n) ws \<Rightarrow> bool"
  for env h cb where
  event: "node_event env h cb w w' \<Longrightarrow> node_step env h cb w w'"
| world: "node_step env h cb w (w\<lparr>redis := r, net := n, clock := t\<rparr>)"

text \<open>The states a node can be in, from the start of the process on.\<close>

definition reachable ::
    "('k, 'r, 'n) ws_env \<Rightarrow> ('k, 'r, 'n) ws request_handler \<Rightarrow>
     (cptr \<Rightarrow> ('k, 'r, 'n) ws \<Rightarrow> ('k, 'r, 'n) ws) option \<Rightarrow> ('k, 'r, 'n) ws \<Rightarrow> bool" where
  "reachable env h cb w \<longleftrightarrow>
     (\<exists>ifaces c ks r n t w0. InitWs ifaces True c (ws0 ks r n t) = Some w0 \<and>
        (node_step env h cb)\<^sup>*\<^sup>* w0 w)"

section \<open>The invariant is kept\<close>

lemma ws_le_ClientM_send [intro, simp]:
  "ws_le w (fst (ClientM_SendMsgToUser env uid m w))"
  "ws_le w (fst (ClientM_SendMsgToUserByTgid env uid gid m w))"
  by (simp_all add: ClientM_SendMsgToUser_def ClientM_SendMsgToUserByTgid_def split: option.splits)

lemma ws_le_Proxy_SendMsgToUser [intro, simp]:
  "ws_le w (fst (Proxy_SendMsgToUser env uid m w))"
  "ws_le w (fst (Proxy_SendMsgToUserByTgid env uid gid m w))"
  by (auto simp: Proxy_SendMsgToUser_def LP_SendMsgToUser_def LP_SendMsgToLocalUser_def
      RP_SendMsgToUser_def Proxy_SendMsgToUserByTgid_def LP_SendMsgToUserByTgid_def
      LP_SendMsgToLocalUserByTgid_def RP_SendMsgToUserByTgid_def ws_le_remote ws_le_GetUserRpcServerD
      split: prod.splits sum.splits)

lemma ws_le_rpc_groups:
  "rpc_JoinGroup env s uid gid w = (w1, r1) \<Longrightarrow> ws_le w w1"
  "rpc_OutGroup env s uid gid w = (w1, r1) \<Longrightarrow> ws_le w w1"
  using rpc_JoinGroup_frame [of env s uid gid w] rpc_OutGroup_frame [of env s uid gid w]
  by (simp_all add: ws_le_def)

lemma ws_le_RP_out_remote:
  assumes "\<not> HasUser uid w"
  shows "ws_le w (fst (RP_OutGroup env uid gid w))"
proof -
  obtain w1 r where g: "GetUserRpcServer env uid w = (w1, r)" by fastforce
  have 1: "ws_le w w1" by (rule ws_le_GetUserRpcServerD [OF g])
  have "ws_le w w2" if "rpc_OutGroup env s uid gid w1 = (w2, x)" for s w2 x
    using 1 ws_le_rpc_groups(2) [OF that] by (rule ws_le_trans)
  with 1 assms show ?thesis by (cases r) (auto simp: RP_OutGroup_def g split: prod.split)
qed

lemma ws_le_RP_join_remote:
  assumes "\<not> HasUser uid w" and "RP_JoinGroup env uid gid w = Some (w', ok)"
  shows "ws_le w w'"
proof -
  obtain w1 r where g: "GetUserRpcServer env uid w = (w1, r)" by fastforce
  have 1: "ws_le w w1" by (rule ws_le_GetUserRpcServerD [OF g])
  have "ws_le w w2" if "rpc_JoinGroup env s uid gid w1 = (w2, x)" for s w2 x
    using 1 ws_le_rpc_groups(1) [OF that] by (rule ws_le_trans)
  with 1 assms show ?thesis by (cases r) (auto simp: RP_JoinGroup_def g split: prod.splits)
qed

lemma JoinLockGroup_absent: "\<not> HasUser uid w \<Longrightarrow> JoinLockGroup uid gid w = Some (w, False)"
  by (simp add: JoinLockGroup_def HasUser_def)

lemma OutLockGroup_absent: "\<not> HasUser uid w \<Longrightarrow> OutLockGroup uid gid w = (w, False)"
  by (simp add: OutLockGroup_def HasUser_def)

lemma ws_inv_JoinLockGroup: "ws_inv w \<Longrightarrow> JoinLockGroup uid gid w = Some (w', ok) \<Longrightarrow> ws_inv w'"
  using JoinLockGroup_ok [of w uid gid] JoinLockGroup_absent [of uid w gid]
  by (cases "HasUser uid w") auto

lemma ws_inv_OutLockGroup: "ws_inv w \<Longrightarrow> ws_inv (fst (OutLockGroup uid gid w))"
  using OutLockGroup_ok [of w uid gid] OutLockGroup_absent [of uid w gid]
  by (cases "HasUser uid w") auto

lemma ws_inv_Proxy_JoinGroup:
  assumes "ws_inv w" and "Proxy_JoinGroup env uid gid w = Some (w', ok)"
  shows "ws_inv w'"
proof (cases "HasUser uid w \<or> cfgRunMode (Config w) = RunModeLocal")
  case True
  with assms(2) have "JoinLockGroup uid gid w = Some (w', ok)"
    by (auto simp: Proxy_JoinGroup_def LP_JoinGroup_def RP_JoinGroup_def split: if_splits)
  with assms(1) show ?thesis by (rule ws_inv_JoinLockGroup)
next
  case False
  with assms(2) have "ws_le w w'"
    using ws_le_RP_join_remote by (auto simp: Proxy_JoinGroup_def)
  with assms(1) show ?thesis using ws_inv_le by blast
qed

lemma ws_inv_Proxy_OutGroup:
  assumes "ws_inv w"
  shows "ws_inv (fst (Proxy_OutGroup env uid gid w))"
proof (cases "HasUser uid w \<or> cfgRunMode (Config w) = RunModeLocal")
  case True
  then have "Proxy_OutGroup env uid gid w = OutLockGroup uid gid w"
    by (auto simp: Proxy_OutGroup_def LP_OutGroup_def RP_OutGroup_def)
  with assms show ?thesis by (simp add: ws_inv_OutLockGroup)
next
  case False
  then show ?thesis
    using assms ws_inv_le ws_le_RP_out_remote by (fastforce simp: Proxy_OutGroup_def)
qed

lemma ws_inv_Proxy_group:
  assumes "ws_inv w" and "Proxy_SendResDataToGroup env gid d ex w = Some (w', e)"
  shows "ws_inv w'"
proof (cases "cfgRunMode (Config w) = RunModeLocal")
  case True
  with assms show ?thesis
    by (auto simp: Proxy_SendResDataToGroup_def LP_SendResDataToGroup_def ws_inv_LP_group)
next
  case False
  with assms(2) have "ws_le w w'"
    by (auto simp: Proxy_SendResDataToGroup_def RP_SendResDataToGroup_def PublishGlobalMsg_def ws_le_def
        Let_def split: sum.splits prod.splits)
  with assms(1) show ?thesis using ws_inv_le by blast
qed

lemma ws_le_CloseClient [intro, simp]: "ws_le w (CloseClient env uid w)"
  by (simp add: CloseClient_def split: option.split)

lemmas ws_inv_les = ws_inv_le [OF ws_le_Proxy_SendMsgToUser(1)]
  ws_inv_le [OF ws_le_Proxy_SendMsgToUser(2)] ws_inv_le [OF ws_le_Proxy_SendResDataToUser]
  ws_inv_le [OF ws_le_Proxy_SendResDataToUserByTgid] ws_inv_le [OF ws_le_Proxy_StopUserClient]
  ws_inv_le [OF ws_le_SafeSendMsg] ws_inv_le [OF ws_le_SendResponseData]
  ws_inv_le [OF ws_le_Client_Close] ws_inv_le [OF ws_le_CloseClient]

lemma ws_inv_InTGroup_registered:
  "ws_inv w \<Longrightarrow> GetClient uid w = Some c \<Longrightarrow> InTGroup c gid w = Some w' \<Longrightarrow> ws_inv w'"
  using ws_inv_JoinLockGroup [of w uid gid w' True] by (simp add: JoinLockGroup_def)

lemma ws_inv_OutTGroup_registered:
  "ws_inv w \<Longrightarrow> GetClient uid w = Some c \<Longrightarrow> ws_inv (OutTGroup c gid w)"
  using ws_inv_OutLockGroup [of w uid gid] by (simp add: OutLockGroup_def)

lemma api_step_inv: "api_step env w w' \<Longrightarrow> ws_inv w \<Longrightarrow> ws_inv w'"
proof (induction rule: api_step.induct)
  case (send_group gid d ex w w' e)
  then show ?case using ws_inv_Proxy_group by blast
next
  case (send_group_msg gid m w w' e)
  then show ?case using ws_inv_SendMessageToTGroup by (auto simp: LP_SendMsgToLocalGroup_def)
next
  case (join uid gid w w' ok)
  then show ?case using ws_inv_Proxy_JoinGroup by blast
next
  case (out w uid gid)
  then show ?case by (rule ws_inv_Proxy_OutGroup)
next
  case (client_in uid w c gid w')
  then show ?case using ws_inv_InTGroup_registered by blast
next
  case (client_out uid w c gid)
  then show ?case using ws_inv_OutTGroup_registered by blast
qed (simp_all add: ws_inv_les)

lemma api_steps_inv: "(api_step env)\<^sup>*\<^sup>* w w' \<Longrightarrow> ws_inv w \<Longrightarrow> ws_inv w'"
  by (induction rule: rtranclp_induct) (auto dest: api_step_inv)

lemma ws_inv_OnMessage:
  assumes "handler_ok env h" and "ws_inv w"
  shows "ws_inv (Handler_OnMessage env h k m w)"
proof -
  note le = ws_inv_le [OF ws_le_conn_close] ws_inv_le [OF ws_le_SendErr]
    ws_inv_le [OF ws_le_SendResponseData]
  have f: "ws_inv w'" if "h = Some f" "f c q w = HandleRet w' a e \<or> f c q w = HandlePanic w'" for f c q w' a e
  proof -
    have "(api_step env)\<^sup>*\<^sup>* w w'"
      using assms(1) that unfolding handler_ok_def by (metis handle_result.simps(5,6))
    then show ?thesis using assms(2) by (rule api_steps_inv)
  qed
  show ?thesis
    unfolding Handler_OnMessage_def Let_def
    by (auto split: option.split prod.split handle_result.split intro: le assms(2) f)
qed

lemma ws_inv_OnClose:
  assumes "callback_ok env cb" and "range_ok env" and "ws_inv w"
  shows "ws_inv (fst (Handler_OnClose env cb k w))"
proof (cases "mget (Clients w) (GetUid env k w)")
  case (Some c)
  note inv = ws_inv_closed_client [OF assms(3) Some assms(2)]
  have "ws_inv (f c (closed_client env c w))" if "cb = Some f" for f
    using assms(1) that inv api_steps_inv unfolding callback_ok_def by blast
  with inv show ?thesis
    using Client_OnClose_cb [OF assms(3) Some, of env cb] Some
    by (auto simp: Handler_OnClose_def GetClient_def split: option.split)
qed (simp add: Handler_OnClose_def GetClient_def assms(3))

text \<open>The calls of other nodes.\<close>

lemma ws_inv_ImRpc:
  assumes "ws_inv w"
  shows "ws_inv (fst (ImRpc_SendMsgToUser env q w))" "ws_inv (fst (ImRpc_SendMsgToUserByTgid env q' w))"
    and "ws_inv (fst (ImRpc_StopUserClient env u w))" "ws_inv (fst (ImRpc_OutGroup j w))"
    and "ImRpc_JoinGroup j w = Some (w', r) \<Longrightarrow> ws_inv w'"
  using assms ws_inv_le [OF ws_le_ClientM_send(1)] ws_inv_le [OF ws_le_ClientM_send(2)]
    ws_inv_le [OF ws_le_StopClient] ws_inv_OutLockGroup ws_inv_JoinLockGroup
  by (auto simp: ImRpc_SendMsgToUser_def ImRpc_SendMsgToUserByTgid_def ImRpc_StopUserClient_def
      ImRpc_OutGroup_def ImRpc_JoinGroup_def LP_SendMsgToLocalUser_def LP_SendMsgToLocalUserByTgid_def
      LP_StopLocalUserClient_def Let_def case_prod_unfold)

lemma ws_le_discovery [intro, simp]: "ws_le w (onRegister env kv w)" "ws_le w (onUnregister kv w)"
  by (simp_all add: onRegister_def onUnregister_def ws_le_def Let_def split: sum.split)

lemma inner_event_inv: "inner_event env h w w' \<Longrightarrow> handler_ok env h \<Longrightarrow> ws_inv w \<Longrightarrow> ws_inv w'"
proof (induction rule: inner_event.induct)
  case (api w w')
  then show ?case using api_step_inv by blast
next
  case (message w k m)
  then show ?case using ws_inv_OnMessage by blast
next
  case (group_loop g w n)
  then show ?case using ws_inv_ListenSendChan by blast
next
  case (sub_msg m w w')
  then show ?case using ws_inv_handleSubMsg by blast
qed (auto intro: ws_inv_ImRpc ws_inv_le [OF ws_le_OnPing] ws_inv_le [OF ws_le_SendMsgLoop]
    ws_inv_le [OF ws_le_discovery(1)] ws_inv_le [OF ws_le_discovery(2)])

lemma node_event_inv:
  assumes "node_event env h cb w w'" and "handler_ok env h" and "callback_ok env cb"
    and "range_ok env" and "ws_inv w"
  shows "ws_inv w'"
  using assms
proof (induction rule: node_event.induct)
  case (inner w w')
  then show ?case using inner_event_inv by blast
next
  case (up_failed w ulid err mc)
  then show ?case by (simp add: HandlerUp_def)
next
  case (up w k ulid mc x)
  then show ?case
    by (intro ws_inv_HandlerUp) (auto intro: ws_inv_le [OF ws_le_set_conn])
next
  case (close w k)
  then show ?case using ws_inv_OnClose by blast
qed

lemma node_step_inv:
  assumes "node_step env h cb w w'" and "handler_ok env h" and "callback_ok env cb"
    and "range_ok env" and "ws_inv w"
  shows "ws_inv w'"
  using assms(1)
proof cases
  case event
  then show ?thesis using assms(2-5) by (rule node_event_inv)
next
  case (world r n t)
  have "ws_le w w'" by (simp add: ws_le_def world)
  then show ?thesis using assms(5) by (rule ws_inv_le)
qed

lemma reachable_inv:
  assumes "reachable env h cb w" and "handler_ok env h" and "callback_ok env cb" and "range_ok env"
  shows "ws_inv w"
proof -
  obtain ifaces c ks r n t w0 where w0: "InitWs ifaces True c (ws0 ks r n t) = Some w0"
    and steps: "(node_step env h cb)\<^sup>*\<^sup>* w0 w"
    using assms(1) by (auto simp: reachable_def)
  show ?thesis
    using steps ws_inv_InitWs [OF w0] assms(2-4)
    by (induction rule: rtranclp_induct) (auto intro: node_step_inv)
qed

end
