(* ===== verification/WsInstance.thy ===== *)
theory WsInstance
  imports WsSteps
begin

text \<open>
  A concrete environment and a concrete node for the hypotheses of the theorems: sockets
  that record what is written, redis as a table, a network that answers every call, map
  iteration in the order of insertion; two users, connected and in one group.
\<close>

declare map_of_eq_Some_iff [simp del] Some_eq_map_of_iff [simp del]

record ex_conn =
  xUid :: string
  xOut :: "bytes list"
  xClosed :: bool

definition ex_env :: "(ex_conn, (string, bytes) gomap, unit) ws_env" where
  "ex_env =
     \<lparr>WriteMessage = (\<lambda>k op m. if xClosed k then WriteFailed k (ExtError ''closed'')
        else Wrote (k\<lparr>xOut := xOut k @ [m]\<rparr>)),
      NetConnClose = (\<lambda>k. k\<lparr>xClosed := True\<rparr>),
      SetReadDeadline = (\<lambda>k t. k),
      SessionLoad = (\<lambda>k name. if name = ''uid'' then Some (SessionStr (xUid k)) else None),
      RemoteAddr = (\<lambda>k. ''10.0.0.9:5000''),
      RangeOrder = (\<lambda>ks. ks),
      redisGetSet = (\<lambda>k v r. (mput k v r, case mget r k of None \<Rightarrow> Inl RedisNil | Some x \<Rightarrow> Inr x)),
      redisExpire = (\<lambda>k t r. (r, Inr ())),
      redisDel = (\<lambda>k r. (mdel k r, Inr ())),
      redisGet = (\<lambda>k r. (r, case mget r k of None \<Rightarrow> Inl RedisNil | Some x \<Rightarrow> Inr x)),
      redisPublish = (\<lambda>ch m r. (r, None)),
      rpcNewClient = (\<lambda>s a. Inr ()),
      rpcSendMsgToUser = (\<lambda>a q n. (n, Inr \<lparr>smrRetCode = 200\<rparr>)),
      rpcSendMsgToUserByTgid = (\<lambda>a q n. (n, Inr \<lparr>smrRetCode = 200\<rparr>)),
      rpcStopUserClient = (\<lambda>a q n. (n, Inr \<lparr>sucRes = True\<rparr>)),
      rpcJoinGroup = (\<lambda>a q n. (n, Inr \<lparr>jgrRes = True\<rparr>)),
      rpcOutGroup = (\<lambda>a q n. (n, Inr \<lparr>jgrRes = True\<rparr>)),
      rpcGetSysInfo = (\<lambda>a n. (n, Inl (ExtError ''no answer'')))\<rparr>"

lemma ex_env_simps [simp]:
  "WriteMessage ex_env k op m = (if xClosed k then WriteFailed k (ExtError ''closed'')
     else Wrote (k\<lparr>xOut := xOut k @ [m]\<rparr>))"
  "NetConnClose ex_env k = k\<lparr>xClosed := True\<rparr>"
  "SetReadDeadline ex_env k t = k"
  "SessionLoad ex_env k ''uid'' = Some (SessionStr (xUid k))"
  "RemoteAddr ex_env k = ''10.0.0.9:5000''"
  "RangeOrder ex_env ks = ks"
  "redisGetSet ex_env x v r = (mput x v r, case mget r x of None \<Rightarrow> Inl RedisNil | Some y \<Rightarrow> Inr y)"
  "redisExpire ex_env x t r = (r, Inr ())"
  "redisDel ex_env x r = (mdel x r, Inr ())"
  "redisGet ex_env x r = (r, case mget r x of None \<Rightarrow> Inl RedisNil | Some y \<Rightarrow> Inr y)"
  "redisPublish ex_env ch b r = (r, None)"
  "rpcSendMsgToUser ex_env a q n = (n, Inr \<lparr>smrRetCode = 200\<rparr>)"
  by (simp_all add: ex_env_def)

lemma ex_range_ok [simp]: "range_ok ex_env"
  by (simp add: range_ok_def)

lemma ex_redis_ok [simp]: "redis_ok ex_env mget"
  by (auto simp: redis_ok_def ex_env_def)

lemma ex_dial_ok [simp]: "rpc_dial_ok ex_env"
  by (simp add: rpc_dial_ok_def ex_env_def)

definition ex_cfg :: ws_config where
  "ex_cfg = \<lparr>cfgRunMode = RunModeRedis, cfgRedisPrefix = ''im'', cfgRpcPort = ''8889'',
     cfgWsPort = ''8080'', cfgKeepTime = keep_of 60, cfgClientMsgChanMax = 2, cfgGroupMsgChanMax = 2,
     cfgVersion = ''1''\<rparr>"

definition ex_client :: "string \<Rightarrow> kptr \<Rightarrow> bytes list \<Rightarrow> client" where
  "ex_client uid k q = \<lparr>cUserId = uid, cRandUuid = ''r'', cState = StateOnline, cSocket = k,
     cFirstTime = 0, cHeartbeatTime = 0, cTGroup = [(''room'', True)], cMsgCode = OpcodeText,
     cSendChan = \<lparr>cbuf = q, ccap = 2, cclosed = False\<rparr>, cCloseOnce = False\<rparr>"

definition ex_group :: tgroup where
  "ex_group = \<lparr>gState = 1, gUsers = [(''alice'', True), (''bob'', True)], gGid = ''room'',
     gSend = \<lparr>cbuf = [], ccap = 2, cclosed = False\<rparr>\<rparr>"

definition ex_ws :: "(ex_conn, (string, bytes) gomap, unit) ws" where
  "ex_ws =
     \<lparr>Config = ex_cfg, serverIp = ''10.0.0.7'', ServerName = ''7:8080'', connKeepTime = 60000000000,
      conns = (\<lambda>k. \<lparr>xUid = (if k = 0 then ''alice'' else if k = 1 then ''bob'' else ''carol''),
        xOut = [], xClosed = False\<rparr>),
      clients = (\<lambda>c. if c = 0 then ex_client ''alice'' 0 [] else if c = 1 then ex_client ''bob'' 1 []
        else client0), nextClient = 2,
      tgroups = (\<lambda>g. if g = 0 then ex_group else tgroup0), nextGroup = 1,
      Clients = [(''alice'', 0), (''bob'', 1)], ConnClientIdx = [(0, 0), (1, 1)],
      TGroups = [(''room'', 0)], ServiceName = ''im/rpc/'', rpcClients = [],
      redis = [], net = (), gos = [GoSendMsgLoop 0, GoSendMsgLoop 1, GoListenSendChan 0],
      clock = 1700000000000\<rparr>"

lemma ex_ws_simps [simp]:
  "Config ex_ws = ex_cfg" "serverIp ex_ws = ''10.0.0.7''" "connKeepTime ex_ws = 60000000000"
  "conns ex_ws k = \<lparr>xUid = (if k = 0 then ''alice'' else if k = 1 then ''bob'' else ''carol''),
     xOut = [], xClosed = False\<rparr>"
  "clients ex_ws c = (if c = 0 then ex_client ''alice'' 0 [] else if c = 1 then ex_client ''bob'' 1 []
     else client0)"
  "nextClient ex_ws = 2" "tgroups ex_ws g = (if g = 0 then ex_group else tgroup0)"
  "nextGroup ex_ws = 1" "Clients ex_ws = [(''alice'', 0), (''bob'', 1)]"
  "ConnClientIdx ex_ws = [(0, 0), (1, 1)]" "TGroups ex_ws = [(''room'', 0)]"
  "ServiceName ex_ws = ''im/rpc/''" "rpcClients ex_ws = []" "redis ex_ws = []"
  "clock ex_ws = 1700000000000"
  by (simp_all add: ex_ws_def)

lemma ex_cfg_simps [simp]:
  "cfgRunMode ex_cfg = RunModeRedis" "cfgRedisPrefix ex_cfg = ''im''" "cfgRpcPort ex_cfg = ''8889''"
  "cfgWsPort ex_cfg = ''8080''"
  by (simp_all add: ex_cfg_def)

lemma ex_client_simps [simp]:
  "cUserId (ex_client u k q) = u" "cState (ex_client u k q) = StateOnline"
  "cSocket (ex_client u k q) = k" "cTGroup (ex_client u k q) = [(''room'', True)]"
  "cMsgCode (ex_client u k q) = OpcodeText"
  "cSendChan (ex_client u k q) = \<lparr>cbuf = q, ccap = 2, cclosed = False\<rparr>"
  "\<not> cCloseOnce (ex_client u k q)"
  by (simp_all add: ex_client_def)

lemma ex_members: "members ex_ws gid = (if gid = ''room'' then {''alice'', ''bob''} else {})"
  by (simp add: members_def ex_group_def)

lemma ex_ws_inv [simp]: "ws_inv ex_ws"
proof -
  have "clients_inv ex_ws"
    by (auto simp: clients_inv_def client_ok_def chan_ok_def less_Suc_eq numeral_2_eq_2 split: if_splits)
  moreover have "groups_inv ex_ws"
    by (auto simp: groups_inv_def group_ok_def ex_group_def chan_ok_def split: if_splits)
  moreover have "member_inv ex_ws"
    by (auto simp: member_inv_def ex_members in_group_def split: option.splits if_splits)
  ultimately show ?thesis by (simp add: ws_inv_def)
qed

end
