(* ===== verification/WsProps.thy ===== *)
theory WsProps
  imports WsInstance
begin

text \<open>
  The properties of a node: its invariant, groups, the end of a connection, sending and
  delivery, login. Each is stated over the operations of the code, for every environment
  that behaves as documented, with an instance on the node of \<open>WsInstance\<close>.
\<close>

declare map_of_eq_Some_iff [simp del] Some_eq_map_of_iff [simp del]

section \<open>Reachable states\<close>

text \<open>A node right after its start, and after the connection of its first user.\<close>

definition ex_start :: "(ex_conn, (string, bytes) gomap, unit) ws" where
  "ex_start = the (InitWs (Inr []) True ex_cfg
     (ws0 (\<lambda>_. \<lparr>xUid = ''dan'', xOut = [], xClosed = False\<rparr>) [] () 0))"

definition ex_dan :: "(ex_conn, (string, bytes) gomap, unit) ws" where
  "ex_dan = HandlerUp ex_env ''u1'' (Inr 0) ''1''
     (set_conn 0 \<lparr>xUid = ''dan'', xOut = [], xClosed = False\<rparr> ex_start)"

lemma ex_start_init:
  "InitWs (Inr []) True ex_cfg (ws0 (\<lambda>_. \<lparr>xUid = ''dan'', xOut = [], xClosed = False\<rparr>) [] () 0) =
     Some ex_start"
  by (simp add: ex_start_def InitWs_def Let_def)

lemma ex_dan_reachable: "reachable ex_env None None ex_dan"
proof -
  have "node_step ex_env None None ex_start ex_dan"
    unfolding ex_dan_def by (intro node_step.event node_event.up) (simp add: InitWs_fields [OF ex_start_init])
  with ex_start_init show ?thesis unfolding reachable_def by blast
qed

lemma ex_dan_user: "HasUser ''dan'' ex_dan"
proof -
  have e: "GetUid ex_env 0 (set_conn 0 \<lparr>xUid = ''dan'', xOut = [], xClosed = False\<rparr> ex_start) = ''dan''"
    by (simp add: GetUid_def)
  show ?thesis
    by (simp add: ex_dan_def HandlerUp_def e uniqueLogin_def GetClient_def InitWs_fields [OF ex_start_init]
        Let_def GetSetUserOnlineInfo_def json_Marshal_def NewClient_def InitStart_def OnConnect_def
        AddClient_def AddClientConn_def HasUser_iff ws0_def)
qed

text \<open>
  C1: In every state a node can reach from its start, by any sequence of connections,
  requests, pings, closes, loop rounds, subscription messages, rpc calls and application
  calls, the two client tables agree, a registered client has not ended, a channel is
  closed exactly when its owner ended, the group table holds exactly the live groups, none
  of them empty, and a user is a member of a group exactly when the user's registered
  client lists the group.
\<close>

theorem node_invariant:
  assumes "reachable env h cb w" and "handler_ok env h" and "callback_ok env cb" and "range_ok env"
  shows "ws_inv w"
  using reachable_inv [OF assms] .

theorem node_invariant_witness: "ws_inv ex_dan"
  by (rule node_invariant [OF ex_dan_reachable]) (simp_all add: handler_ok_def callback_ok_def)

text \<open>
  C10: A connected user's request to join a group always returns, in every reachable state
  and in both run modes: the retry on a deleted group ends. Afterwards the members of the
  group are the old ones and the user, and no other group has changed.
\<close>

theorem join_group_returns:
  assumes "reachable env h cb w" and "handler_ok env h" and "callback_ok env cb" and "range_ok env"
    and "HasUser uid w"
  shows "\<exists>w'. Proxy_JoinGroup env uid gid w = Some (w', True) \<and>
     members w' = (members w)(gid := insert uid (members w gid)) \<and>
     IsInTGroup (the (GetClient uid w')) gid w'"
proof -
  have inv: "ws_inv w" using reachable_inv [OF assms(1-4)] .
  obtain w' where w': "JoinLockGroup uid gid w = Some (w', True)" "HasUser uid w'" "in_group w' uid gid"
    "members w' = (members w)(gid := insert uid (members w gid))"
    using JoinLockGroup_ok [OF inv assms(5), of gid] by blast
  moreover have "Proxy_JoinGroup env uid gid w = JoinLockGroup uid gid w"
    using assms(5) lproxy.join_local [of uid w gid] rproxy.join_local [of uid w env gid] by (simp add: Proxy_JoinGroup_def)
  ultimately show ?thesis
    by (auto simp: HasUser_iff GetClient_def IsInTGroup_def in_group_Some)
qed

theorem join_group_returns_witness:
  "HasUser ''dan'' ex_dan \<and> (\<exists>w'. Proxy_JoinGroup ex_env ''dan'' ''room'' ex_dan = Some (w', True) \<and>
     members w' = (members ex_dan)(''room'' := insert ''dan'' (members ex_dan ''room'')) \<and>
     IsInTGroup (the (GetClient ''dan'' w')) ''room'' w')"
  using join_group_returns [OF ex_dan_reachable, of "''dan''" "''room''"] ex_dan_user
  by (simp add: handler_ok_def callback_ok_def)

section \<open>Groups and the end of a connection\<close>

lemma UserLeave_gGid: "gGid (tgroups (UserLeave g' u w) g) = gGid (tgroups w g)"
  by (auto simp: UserLeave_def DeleteTGroup_def CloseSend_def Let_def split: option.splits)

lemma OutTGroup_gGid: "gGid (tgroups (OutTGroup c gid w) g) = gGid (tgroups w g)"
  by (simp add: OutTGroup_def UserOutTGroup_def Let_def UserLeave_gGid split: option.split)

lemma members_empty_table: "groups_inv w \<Longrightarrow> members w gid = {} \<Longrightarrow> mget (TGroups w) gid = None"
  using groups_invD(5) [of w gid] by (auto simp: members_def split: option.splits)

lemma unlisted_group_closed:
  assumes "groups_inv w" and "g < nextGroup w" and "gGid (tgroups w g) = gid"
    and "mget (TGroups w) gid = None"
  shows "cclosed (gSend (tgroups w g))"
  using groups_invD(6) [OF assms(1,2)] assms(3,4) by (auto simp: group_ok_def)

text \<open>
  C21: Leaving a group removes the user from it and from no other group; when the last
  member leaves, the group is gone from the table and its channel is closed, which ends
  its listener.
\<close>

theorem leave_group:
  assumes "ws_inv w" and "HasUser uid w"
  shows "snd (Proxy_OutGroup env uid gid w) \<and>
      members (fst (Proxy_OutGroup env uid gid w)) = (members w)(gid := members w gid - {uid}) \<and>
      (members w gid = {uid} \<longrightarrow> GetTGroup gid (fst (Proxy_OutGroup env uid gid w)) = None \<and>
        cclosed (gSend (tgroups (fst (Proxy_OutGroup env uid gid w)) (the (GetTGroup gid w)))))"
proof -
  have eq: "Proxy_OutGroup env uid gid w = OutLockGroup uid gid w"
    using assms(2) lproxy.out_local [of uid w gid] rproxy.out_local [of uid w env gid]
    by (simp add: Proxy_OutGroup_def)
  note o = OutLockGroup_ok [OF assms, of gid]
  obtain c where c: "mget (Clients w) uid = Some c" using assms(2) by (auto simp: HasUser_iff)
  let ?w = "fst (OutLockGroup uid gid w)"
  have w': "?w = OutTGroup c gid w" using c by (simp add: OutLockGroup_def GetClient_def)
  have "mget (TGroups ?w) gid = None \<and> cclosed (gSend (tgroups ?w (the (mget (TGroups w) gid))))"
    if m: "members w gid = {uid}"
  proof -
    obtain g where g: "mget (TGroups w) gid = Some g"
      using m by (cases "mget (TGroups w) gid") (auto simp: members_def)
    have gi: "groups_inv ?w" using o ws_invD(2) by blast
    have n: "mget (TGroups ?w) gid = None"
      using gi o m by (intro members_empty_table) auto
    moreover have "cclosed (gSend (tgroups ?w g))"
      using groups_invD(2,3) [OF ws_invD(2) [OF assms(1)] g] n
      by (intro unlisted_group_closed [OF gi]) (simp_all add: w' OutTGroup_gGid)
    ultimately show ?thesis using g by simp
  qed
  then show ?thesis using eq o by (simp add: GetTGroup_def)
qed

theorem leave_group_witness:
  "members (fst (Proxy_OutGroup ex_env ''bob'' ''room'' ex_ws)) ''room'' = {''alice''}"
  using leave_group [OF ex_ws_inv, of "''bob''" ex_env "''room''"]
  by (auto simp: HasUser_iff ex_members)

text \<open>
  C4: The end of a registered client removes every trace of it: the two table entries, all
  group memberships, the entry in redis; the client is offline, its channel is closed, and
  the other users' clients stay registered. The state keeps its invariant.
\<close>

theorem close_removes_trace:
  assumes "ws_inv w" and "GetClient uid w = Some c" and "range_ok env" and "redis_ok env kv"
    and "Client_OnClose env None c w = (w', closed)"
  shows "closed \<and> ws_inv w' \<and> GetClient uid w' = None \<and>
     GetClientByConn (cSocket (clients w c)) w' = None \<and> (\<forall>gid. members w' gid = members w gid - {uid}) \<and>
     kv (redis w') (getUserOnlineKey uid w) = None \<and> cState (clients w' c) = StateOffline \<and>
     cclosed (cSendChan (clients w' c)) \<and> (\<forall>v. v \<noteq> uid \<longrightarrow> GetClient v w' = GetClient v w)"
proof -
  have c: "mget (Clients w) uid = Some c" using assms(2) by (simp add: GetClient_def)
  have w': "w' = closed_client env c w" "closed"
    using Client_OnClose_cb [OF assms(1) c, of env None] assms(5) by simp_all
  show ?thesis
    using closed_client_tables(1,2) [OF assms(1) c, of env] closed_client_self(2,3) [OF assms(1) c, of env]
      closed_client_members(2) [OF assms(1) c assms(3)] closed_client_kv [OF assms(1) c assms(4)]
      ws_inv_closed_client [OF assms(1) c assms(3)]
    by (simp add: w' GetClient_def GetClientByConn_def)
qed

theorem close_removes_trace_witness:
  "\<exists>w'. Client_OnClose ex_env None 0 ex_ws = (w', True) \<and> GetClient ''alice'' w' = None \<and>
     members w' ''room'' = {''bob''} \<and> mget (redis w') (getUserOnlineKey ''alice'' ex_ws) = None"
proof -
  obtain w' b where w': "Client_OnClose ex_env None 0 ex_ws = (w', b)" by fastforce
  show ?thesis
    using close_removes_trace [OF ex_ws_inv _ ex_range_ok ex_redis_ok w', of "''alice''"] w'
    by (auto simp: GetClient_def ex_members)
qed

text \<open>
  A client ends once: whatever the application's callback is, a second end changes
  nothing and reports false.
\<close>

lemma close_once:
  "Client_OnClose env cb c (fst (Client_OnClose env None c w)) = (fst (Client_OnClose env None c w), False)"
proof -
  have "cCloseOnce (clients (fst (Client_OnClose env None c w)) c)"
    by (simp add: Client_OnClose_def Let_def DelClient_def DelClientConn_def close_chan_def split: option.split)
  then show ?thesis by (simp add: Client_OnClose_def [of env cb])
qed

section \<open>Sending\<close>

lemma SendMsgAsync_outcomes:
  assumes "client_ok (clients w c)"
  shows "SendMsgAsync env c m w =
     (let x = clients w c; k = cSocket x in
      if cState x = StateOffline then (w, Some (NewImError ErrUserOffline))
      else if length (cbuf (cSendChan x)) < ccap (cSendChan x)
      then (upd_client c (\<lambda>x. x\<lparr>cSendChan := (cSendChan x)\<lparr>cbuf := cbuf (cSendChan x) @ [m]\<rparr>\<rparr>) w, None)
      else (set_conn k (NetConnClose env (conns w k)) (upd_client c (\<lambda>x. x\<lparr>cState := StateOffline\<rparr>) w),
            Some (NewImError ErrSendChanFull)))"
proof (cases "cState (clients w c)")
  case StateOnline
  then have "\<not> cclosed (cSendChan (clients w c))" using assms by (auto simp: client_ok_def)
  with StateOnline show ?thesis
    by (simp add: SendMsgAsync_def SafeSendMsg_def Let_def try_send_def upd_client_def Client_Close_def)
qed (simp add: SendMsgAsync_def SafeSendMsg_def)

text \<open>A number of messages sent to a client one after the other, with the caller's errors.\<close>

fun send_all :: "('k, 'r, 'n) ws_env \<Rightarrow> cptr \<Rightarrow> bytes list \<Rightarrow> ('k, 'r, 'n) ws \<Rightarrow>
    ('k, 'r, 'n) ws \<times> go_error option list" where
  "send_all env c [] w = (w, [])"
| "send_all env c (m # ms) w =
     (let (w1, e) = SendMsgAsync env c m w; (w2, es) = send_all env c ms w1 in (w2, e # es))"

lemma send_all_offline:
  "cState (clients w c) = StateOffline \<Longrightarrow>
     send_all env c ms w = (w, replicate (length ms) (Some (NewImError ErrUserOffline)))"
  by (induction ms) (simp_all add: SendMsgAsync_def SafeSendMsg_def)

text \<open>
  C20: Messages sent to a connected client while its send loop does not run: as many as the
  queue has room for are queued, in order and without an error. If there are more, the first
  one too many disconnects the client: its sender is told that the queue is full, the socket is
  closed and the client offline, the messages already queued stay in the queue, and every later
  sender is told that the user is offline. Nothing else changes.
\<close>

theorem send_burst:
  assumes "client_ok (clients w c)" and "cState (clients w c) = StateOnline"
    and "room = ccap (cSendChan (clients w c)) - length (cbuf (cSendChan (clients w c)))"
  shows "send_all env c ms w =
     (let k = cSocket (clients w c);
          w1 = upd_client c (\<lambda>x. x\<lparr>cSendChan := (cSendChan x)\<lparr>cbuf := cbuf (cSendChan x) @ take room ms\<rparr>\<rparr>) w
      in if length ms \<le> room then (w1, replicate (length ms) None)
         else (set_conn k (NetConnClose env (conns w k)) (upd_client c (\<lambda>x. x\<lparr>cState := StateOffline\<rparr>) w1),
               replicate room None @ Some (NewImError ErrSendChanFull) #
                 replicate (length ms - room - 1) (Some (NewImError ErrUserOffline))))"
  using assms
proof (induction ms arbitrary: w room)
  case Nil
  then show ?case by (simp add: upd_client_def)
next
  case (Cons m ms)
  show ?case
  proof (cases room)
    case 0
    let ?w = "set_conn (cSocket (clients w c)) (NetConnClose env (conns w (cSocket (clients w c))))
        (upd_client c (\<lambda>x. x\<lparr>cState := StateOffline\<rparr>) w)"
    have "SendMsgAsync env c m w = (?w, Some (NewImError ErrSendChanFull))"
      using Cons.prems 0 by (simp add: SendMsgAsync_outcomes Let_def)
    then show ?thesis using 0 send_all_offline [of ?w c env ms] by (simp add: upd_client_def Let_def)
  next
    case (Suc n)
    let ?w = "upd_client c (\<lambda>x. x\<lparr>cSendChan := (cSendChan x)\<lparr>cbuf := cbuf (cSendChan x) @ [m]\<rparr>\<rparr>) w"
    have s: "SendMsgAsync env c m w = (?w, None)"
      using Cons.prems Suc by (simp add: SendMsgAsync_outcomes Let_def)
    have "client_ok (clients ?w c)" "cState (clients ?w c) = StateOnline"
      "n = ccap (cSendChan (clients ?w c)) - length (cbuf (cSendChan (clients ?w c)))"
      using Cons.prems Suc by (auto simp: client_ok_def chan_ok_def)
    from Cons.IH [OF this] s Suc show ?thesis by (simp add: upd_client_def Let_def)
  qed
qed

text \<open>At the witness the queue has room for two messages and four are sent.\<close>

theorem send_burst_witness:
  "snd (send_all ex_env 1 [''a'', ''b'', ''c'', ''d''] ex_ws) =
     [None, None, Some (NewImError ErrSendChanFull), Some (NewImError ErrUserOffline)] \<and>
   cbuf (cSendChan (clients (fst (send_all ex_env 1 [''a'', ''b'', ''c'', ''d''] ex_ws)) 1)) = [''a'', ''b'']"
  using send_burst [of ex_ws 1 2 ex_env "[''a'', ''b'', ''c'', ''d'']"]
  by (simp add: client_ok_def chan_ok_def numeral_2_eq_2)

lemma group_send_delivers:
  assumes inv: "ws_inv w" and r: "range_ok env" and g: "GetTGroup gid w = Some g"
    and room: "length (cbuf (gSend (tgroups w g))) < ccap (gSend (tgroups w g))"
    and n: "length (cbuf (gSend (tgroups w g))) + 1 < n"
  shows "\<exists>w1 w2. SendMessageToTGroup gid m w = Some (w1, None) \<and>
     ListenSendChan env n g w1 = (w2, LoopWaiting) \<and> ws_inv w2 \<and> cbuf (gSend (tgroups w2 g)) = [] \<and>
     (\<forall>uid c. GetClient uid w = Some c \<longrightarrow> clients w2 c =
        (if uid \<in> members w gid
         then fold deliver (for_user uid (cbuf (gSend (tgroups w g)) @ [m])) (clients w c)
         else clients w c))"
proof -
  have g': "mget (TGroups w) gid = Some g" using g by (simp add: GetTGroup_def)
  have live: "gState (tgroups w g) = 1" "g < nextGroup w"
    using groups_invD(2,4) [OF ws_invD(2) [OF inv] g'] by auto
  then have open_ch: "\<not> cclosed (gSend (tgroups w g))"
    using groups_invD(6) [OF ws_invD(2) [OF inv]] by (auto simp: group_ok_def)
  let ?w1 = "upd_group g (\<lambda>x. x\<lparr>gSend := (gSend x)\<lparr>cbuf := cbuf (gSend x) @ [m]\<rparr>\<rparr>) w"
  have s: "SendMessageToTGroup gid m w = Some (?w1, None)"
    using g live open_ch room by (simp add: SendMessageToTGroup_def SendChan_def try_send_def upd_group_def)
  have inv1: "ws_inv ?w1" by (rule ws_inv_SendMessageToTGroup [OF inv s])
  have m1: "members ?w1 = members w"
    by (rule ext) (simp add: members_def split: option.split)
  have g1: "mget (TGroups ?w1) gid = Some g" using g' by simp
  have n1: "length (cbuf (gSend (tgroups ?w1 g))) < n" using n by simp
  obtain w2 where w2: "ListenSendChan env n g ?w1 = (w2, LoopWaiting)" "ws_inv w2"
      "cbuf (gSend (tgroups w2 g)) = []"
    and c2: "\<forall>c. clients w2 c =
        (if mget (Clients ?w1) (cUserId (clients ?w1 c)) = Some c \<and> cUserId (clients ?w1 c) \<in> members ?w1 gid
         then fold deliver (for_user (cUserId (clients ?w1 c)) (cbuf (gSend (tgroups ?w1 g)))) (clients ?w1 c)
         else clients ?w1 c)"
    using listener_drains [OF inv1 r g1 n1] by blast
  have "clients w2 c = (if uid \<in> members w gid
      then fold deliver (for_user uid (cbuf (gSend (tgroups w g)) @ [m])) (clients w c) else clients w c)"
    if "mget (Clients w) uid = Some c" for uid c
    using c2 [rule_format, of c] that clients_invD(4) [OF ws_invD(1) [OF inv] that] unfolding m1 by simp
  then show ?thesis using s w2 unfolding GetClient_def by blast
qed

text \<open>
  C3: A message sent to a live group whose queue has room is accepted, and when the
  group's listener has run, every connected member but the excepted user has it appended
  to the queue of the connection, behind the messages that were queued for the group
  before; clients that are not members are untouched. The order in which the members are
  visited does not matter.
\<close>

theorem group_message_delivered:
  assumes inv: "ws_inv w" and r: "range_ok env" and g: "GetTGroup gid w = Some g"
    and room: "length (cbuf (gSend (tgroups w g))) < ccap (gSend (tgroups w g))"
    and n: "length (cbuf (gSend (tgroups w g))) + 1 < n"
  shows "\<exists>w1 w2. SendMessageToTGroup gid m w = Some (w1, None) \<and>
     ListenSendChan env n g w1 = (w2, LoopWaiting) \<and> ws_inv w2 \<and> cbuf (gSend (tgroups w2 g)) = [] \<and>
     (\<forall>uid c. GetClient uid w = Some c \<longrightarrow> clients w2 c =
        (if uid \<in> members w gid
         then fold deliver (for_user uid (cbuf (gSend (tgroups w g)) @ [m])) (clients w c)
         else clients w c))"
  using group_send_delivers [OF assms] .

theorem group_message_delivered_witness:
  "\<exists>w1 w2. SendMessageToTGroup ''room'' \<lparr>gmExceptUid = ''alice'', gmMsg = ''hi''\<rparr> ex_ws = Some (w1, None) \<and>
     ListenSendChan ex_env 2 0 w1 = (w2, LoopWaiting) \<and>
     cbuf (cSendChan (clients w2 0)) = [] \<and> cbuf (cSendChan (clients w2 1)) = [''hi'']"
proof -
  obtain w1 w2 where w: "SendMessageToTGroup ''room'' \<lparr>gmExceptUid = ''alice'', gmMsg = ''hi''\<rparr> ex_ws = Some (w1, None)"
      "ListenSendChan ex_env 2 0 w1 = (w2, LoopWaiting)"
    and c: "\<forall>uid c. GetClient uid ex_ws = Some c \<longrightarrow> clients w2 c =
        (if uid \<in> members ex_ws ''room''
         then fold deliver (for_user uid [\<lparr>gmExceptUid = ''alice'', gmMsg = ''hi''\<rparr>]) (clients ex_ws c)
         else clients ex_ws c)"
    using group_message_delivered [OF ex_ws_inv ex_range_ok, of "''room''" 0 2
        "\<lparr>gmExceptUid = ''alice'', gmMsg = ''hi''\<rparr>"]
    by (auto simp: GetTGroup_def ex_group_def)
  have "clients w2 0 = ex_client ''alice'' 0 []" "clients w2 1 = deliver ''hi'' (ex_client ''bob'' 1 [])"
    using c [rule_format, of "''alice''" 0] c [rule_format, of "''bob''" 1]
    by (simp_all add: GetClient_def ex_members for_user_def)
  with w show ?thesis by (auto simp: deliver_def try_send_def)
qed

text \<open>
  C19: The send loop of a client writes the queued messages to its socket in the order in
  which they were queued, all of them, as long as the socket takes them, and then waits
  for the next one with an empty queue.
\<close>

theorem send_loop_in_order:
  assumes "write_all env (cMsgCode (clients w c)) (cbuf (cSendChan (clients w c)))
      (conns w (cSocket (clients w c))) = Some k"
    and "length (cbuf (cSendChan (clients w c))) < n" and "\<not> cclosed (cSendChan (clients w c))"
  shows "\<exists>w'. SendMsgLoop env n c w = (w', LoopWaiting) \<and> conns w' = (conns w)(cSocket (clients w c) := k) \<and>
     cbuf (cSendChan (clients w' c)) = [] \<and> cState (clients w' c) = cState (clients w c)"
  using send_loop_drains [OF assms] .

definition ex_two :: "(ex_conn, (string, bytes) gomap, unit) ws" where
  "ex_two = upd_client 0 (\<lambda>x. x\<lparr>cSendChan := (cSendChan x)\<lparr>cbuf := [''a'', ''b'']\<rparr>\<rparr>) ex_ws"

theorem send_loop_in_order_witness:
  "\<exists>w'. SendMsgLoop ex_env 3 0 ex_two = (w', LoopWaiting) \<and> xOut (conns w' 0) = [''a'', ''b'']"
proof -
  have "write_all ex_env (cMsgCode (clients ex_two 0)) (cbuf (cSendChan (clients ex_two 0)))
      (conns ex_two (cSocket (clients ex_two 0))) =
      Some \<lparr>xUid = ''alice'', xOut = [''a'', ''b''], xClosed = False\<rparr>"
    by (simp add: ex_two_def)
  from send_loop_in_order [OF this, of 3] show ?thesis by (auto simp: ex_two_def)
qed

text \<open>
  C30: The first write that fails ends the send loop: the client is disconnected, and the
  messages queued behind the failed one stay in the queue unsent.
\<close>

theorem send_loop_stops_at_failure:
  assumes "cbuf (cSendChan (clients w c)) = ms @ m # rest"
    and "write_all env (cMsgCode (clients w c)) ms (conns w (cSocket (clients w c))) = Some k"
    and "WriteMessage env k (cMsgCode (clients w c)) m = WriteFailed k' e"
    and "length ms < n"
  shows "\<exists>w'. SendMsgLoop env n c w = (w', LoopExited) \<and> cbuf (cSendChan (clients w' c)) = rest \<and>
     cState (clients w' c) = StateOffline"
  using send_loop_fails [OF assms] .

definition ex_broken :: "(ex_conn, (string, bytes) gomap, unit) ws" where
  "ex_broken = set_conn 0 \<lparr>xUid = ''alice'', xOut = [], xClosed = True\<rparr> ex_two"

theorem send_loop_stops_at_failure_witness:
  "\<exists>w'. SendMsgLoop ex_env 3 0 ex_broken = (w', LoopExited) \<and> cbuf (cSendChan (clients w' 0)) = [''b'']"
  using send_loop_stops_at_failure [of ex_broken 0 "[]" "''a''" "[''b'']" ex_env
      "\<lparr>xUid = ''alice'', xOut = [], xClosed = True\<rparr>" "\<lparr>xUid = ''alice'', xOut = [], xClosed = True\<rparr>"
      "ExtError ''closed''" 3]
  by (auto simp: ex_broken_def ex_two_def)

text \<open>
  C29: Sending to a group never fails but blocks while the group's queue is full: the call
  does not return exactly when the group is live and its queue is full, and it returns
  once the listener has taken the queue.
\<close>

theorem group_send_blocks_when_full:
  assumes inv: "ws_inv w" and r: "range_ok env" and g: "GetTGroup gid w = Some g"
    and cap: "0 < ccap (gSend (tgroups w g))"
  shows "(SendMessageToTGroup gid m w = None \<longleftrightarrow> ccap (gSend (tgroups w g)) \<le> length (cbuf (gSend (tgroups w g)))) \<and>
     (\<exists>w1 w2. ListenSendChan env (Suc (length (cbuf (gSend (tgroups w g))))) g w = (w1, LoopWaiting) \<and>
        SendMessageToTGroup gid m w1 = Some (w2, None))"
proof -
  have g': "mget (TGroups w) gid = Some g" using g by (simp add: GetTGroup_def)
  have live: "gState (tgroups w g) = 1" "g < nextGroup w"
    using groups_invD(2,4) [OF ws_invD(2) [OF inv] g'] by auto
  then have "\<not> cclosed (gSend (tgroups w g))"
    using groups_invD(6) [OF ws_invD(2) [OF inv]] by (auto simp: group_ok_def)
  then have 1: "SendMessageToTGroup gid m w = None \<longleftrightarrow>
      ccap (gSend (tgroups w g)) \<le> length (cbuf (gSend (tgroups w g)))"
    using g live by (auto simp: SendMessageToTGroup_def SendChan_def try_send_def)
  obtain w1 where w1: "ListenSendChan env (Suc (length (cbuf (gSend (tgroups w g))))) g w = (w1, LoopWaiting)"
      "ws_inv w1" "cbuf (gSend (tgroups w1 g)) = []"
    using listener_drains [OF inv r g'] by (metis lessI)
  have tab: "TGroups w1 = TGroups w" "ccap (gSend (tgroups w1 g)) = ccap (gSend (tgroups w g))"
    using ListenSendChan_waiting [OF w1(1)] by simp_all
  have g1: "mget (TGroups w1) gid = Some g" using g' tab by simp
  have "gState (tgroups w1 g) = 1" "\<not> cclosed (gSend (tgroups w1 g))"
    using groups_invD(2,4) [OF ws_invD(2) [OF w1(2)] g1] groups_invD(6) [OF ws_invD(2) [OF w1(2)], of g]
    by (auto simp: group_ok_def)
  then have "\<exists>w2. SendMessageToTGroup gid m w1 = Some (w2, None)"
    using g1 cap tab w1(3) by (auto simp: SendMessageToTGroup_def SendChan_def try_send_def GetTGroup_def)
  with 1 w1(1) show ?thesis by blast
qed

theorem group_send_blocks_when_full_witness:
  "SendMessageToTGroup ''room'' \<lparr>gmExceptUid = '''', gmMsg = ''x''\<rparr> ex_ws \<noteq> None"
  using group_send_blocks_when_full [OF ex_ws_inv ex_range_ok, of "''room''" 0
      "\<lparr>gmExceptUid = '''', gmMsg = ''x''\<rparr>"]
  by (simp add: GetTGroup_def ex_group_def)

end
