(* ===== verification/LoginProps.thy ===== *)
theory LoginProps
  imports WsProps
begin

text \<open>
  Properties of the websocket events: the connection of a user with its single login, the
  answers to requests, the heartbeat, and what the end of a connection does to the entry
  of the user in redis.
\<close>

declare map_of_eq_Some_iff [simp del] Some_eq_map_of_iff [simp del]

section \<open>Connecting\<close>

text \<open>The login of a user with no client here and no entry in redis.\<close>

lemma uniqueLogin_first:
  assumes "redis_ok env kv" and "GetClient uid w = None"
    and "kv (redis w) (getUserOnlineKey uid w) = None"
  shows "uniqueLogin env ulid uid k w =
     (let u = NewUserOnline uid ulid (RemoteAddr env (conns w k)) w
      in (fst (GetSetUserOnlineInfo env uid u w), Inr u))"
proof -
  let ?u = "NewUserOnline uid ulid (RemoteAddr env (conns w k)) w"
  have "snd (GetSetUserOnlineInfo env uid ?u w) = (None, None)"
    using GetSetUserOnlineInfo_spec(1) [OF assms(1), of w uid None ?u] assms(3) by simp
  then have "GetSetUserOnlineInfo env uid ?u w = (fst (GetSetUserOnlineInfo env uid ?u w), None, None)"
    by (metis prod.collapse)
  then show ?thesis
    unfolding uniqueLogin_def Let_def assms(2) by (metis (no_types, lifting) case_prod_conv option.simps(4))
qed

lemma HandlerUp_first:
  assumes inv: "ws_inv w" and r: "redis_ok env kv" and u: "GetUid env k w = uid" "uid \<noteq> ''''"
    and n: "GetClient uid w = None" and e: "kv (redis w) (getUserOnlineKey uid w) = None"
    and k: "GetClientByConn k w = None" and w': "HandlerUp env ulid (Inr k) mc w = w'"
  shows "ws_inv w' \<and> members w' = members w \<and>
     (\<exists>c. GetClient uid w' = Some c \<and> GetClientByConn k w' = Some c \<and>
        cState (clients w' c) = StateOnline \<and> cUserId (clients w' c) = uid \<and>
        cSocket (clients w' c) = k \<and> cRandUuid (clients w' c) = ulid \<and> cTGroup (clients w' c) = [] \<and>
        cbuf (cSendChan (clients w' c)) = [] \<and>
        {GoSendMsgLoop c, GoReadLoop k} \<subseteq> set (gos w')) \<and>
     kv (redis w') = (kv (redis w))(getUserOnlineKey uid w \<mapsto>
        jprint (user_online_json (NewUserOnline uid ulid (RemoteAddr env (conns w k)) w))) \<and>
     (\<forall>v. v \<noteq> uid \<longrightarrow> GetClient v w' = GetClient v w)"
proof -
  let ?u = "NewUserOnline uid ulid (RemoteAddr env (conns w k)) w"
  let ?m = "if mc = ''1'' then OpcodeText else OpcodeBinary"
  define w1 where "w1 = fst (GetSetUserOnlineInfo env uid ?u w)"
  have kv1: "kv (redis w1) = (kv (redis w))(getUserOnlineKey uid w \<mapsto> jprint (user_online_json ?u))"
    unfolding w1_def using GetSetUserOnlineInfo_spec(2) [OF r, of w uid None ?u] e by simp
  have l: "uniqueLogin env ulid uid k w = (w1, Inr ?u)"
    using uniqueLogin_first [OF r n e, of ulid k] by (simp add: Let_def w1_def)
  obtain w2 c where nc: "NewClient k uid ulid ?m w1 = (w2, c)" by fastforce
  have w'': "w' = (InitStart env c w2)\<lparr>gos := gos (InitStart env c w2) @ [GoReadLoop k]\<rparr>"
    using w' l nc u by (simp add: HandlerUp_def Let_def NewUserOnline_def)
  have fr: "Clients w1 = Clients w" "ConnClientIdx w1 = ConnClientIdx w" "members w1 = members w"
    by (simp_all add: w1_def members_cong [of w "fst (GetSetUserOnlineInfo env uid ?u w)"])
  have inv1: "ws_inv w1" unfolding w1_def by (rule ws_inv_le [OF ws_le_GetSetUserOnlineInfo inv])
  have tabs: "mget (Clients w1) uid = None" "mget (ConnClientIdx w1) k = None"
    using n k by (simp_all add: fr GetClient_def GetClientByConn_def)
  have "ws_inv w'" "members w' = members w"
    using ws_inv_register(1,3) [OF inv1 tabs nc, of env]
    by (simp_all add: w'' ws_inv_gos members_gos fr)
  moreover have "GetClient uid w' = Some c" "GetClientByConn k w' = Some c"
    "cState (clients w' c) = StateOnline" "cUserId (clients w' c) = uid" "cSocket (clients w' c) = k"
    "cRandUuid (clients w' c) = ulid" "cTGroup (clients w' c) = []" "cbuf (cSendChan (clients w' c)) = []"
    "{GoSendMsgLoop c, GoReadLoop k} \<subseteq> set (gos w')" "redis w' = redis w1"
    "v \<noteq> uid \<Longrightarrow> GetClient v w' = GetClient v w" for v
    using nc by (auto simp: w'' NewClient_def InitStart_def OnConnect_def AddClient_def AddClientConn_def
        make_chan_def Let_def GetClient_def GetClientByConn_def fr)
  ultimately show ?thesis using kv1 by auto
qed

text \<open>
  C11: A user who connects with no client on this node and no entry in redis is registered
  under the user and under the socket by one new online client with an empty queue and no
  groups, whose loops are started; redis has the entry of this login, with this node's
  address; nobody else's client and no group changes.
\<close>

theorem connect_registers:
  assumes inv: "ws_inv w" and r: "redis_ok env kv" and u: "GetUid env k w = uid" "uid \<noteq> ''''"
    and n: "GetClient uid w = None" and e: "kv (redis w) (getUserOnlineKey uid w) = None"
    and k: "GetClientByConn k w = None" and w': "HandlerUp env ulid (Inr k) mc w = w'"
  shows "ws_inv w' \<and> members w' = members w \<and>
     (\<exists>c. GetClient uid w' = Some c \<and> GetClientByConn k w' = Some c \<and>
        cState (clients w' c) = StateOnline \<and> cUserId (clients w' c) = uid \<and>
        cSocket (clients w' c) = k \<and> cRandUuid (clients w' c) = ulid \<and> cTGroup (clients w' c) = [] \<and>
        cbuf (cSendChan (clients w' c)) = [] \<and>
        {GoSendMsgLoop c, GoReadLoop k} \<subseteq> set (gos w')) \<and>
     kv (redis w') = (kv (redis w))(getUserOnlineKey uid w \<mapsto>
        jprint (user_online_json (NewUserOnline uid ulid (RemoteAddr env (conns w k)) w))) \<and>
     (\<forall>v. v \<noteq> uid \<longrightarrow> GetClient v w' = GetClient v w)"
  using HandlerUp_first [OF assms] .

theorem connect_registers_witness:
  "\<exists>c. GetClient ''carol'' (HandlerUp ex_env ''id1'' (Inr 2) ''1'' ex_ws) = Some c"
  using connect_registers [OF ex_ws_inv ex_redis_ok, of 2 "''carol''" "''id1''" "''1''"]
  by (auto simp: GetUid_def GetClient_def GetClientByConn_def)

text \<open>The login of a user who has a client on this node.\<close>

lemma HandlerUp_local_duplicate:
  assumes "GetUid env k w = uid" and "uid \<noteq> ''''" and "GetClient uid w = Some c"
  shows "HandlerUp env ulid (Inr k) mc w = conn_close env k (Client_Close env c w)"
  using assms by (simp add: HandlerUp_def uniqueLogin_def Let_def)

text \<open>
  C12: A second connection of a user who is connected to this node is refused, and it ends
  the first one too: both sockets are closed, the first client is offline and stays
  registered until its end is reported; redis, the groups and the queues do not change.
\<close>

theorem connect_refuses_second:
  assumes "GetUid env k w = uid" and "uid \<noteq> ''''" and "GetClient uid w = Some c"
    and "cState (clients w c) = StateOnline" and "cSocket (clients w c) = j" and "j \<noteq> k"
    and "HandlerUp env ulid (Inr k) mc w = w'"
  shows "conns w' = (conns w)(j := NetConnClose env (conns w j), k := NetConnClose env (conns w k)) \<and>
     clients w' = (clients w)(c := (clients w c)\<lparr>cState := StateOffline\<rparr>) \<and>
     GetClient uid w' = Some c \<and> GetClientByConn k w' = GetClientByConn k w \<and>
     redis w' = redis w \<and> members w' = members w"
proof -
  have w': "w' = conn_close env k (Client_Close env c w)"
    using HandlerUp_local_duplicate [OF assms(1-3), of ulid mc] assms(7) by simp
  have "members w' = members w" by (rule members_cong) (simp_all add: w' conn_close_def)
  with assms show ?thesis
    by (simp add: w' conn_close_def Client_Close_def upd_client_def set_conn_def GetClient_def
        GetClientByConn_def Let_def)
qed

theorem connect_refuses_second_witness:
  "GetClient ''carol'' ex_ws = None \<and>
   GetClient ''bob'' (HandlerUp ex_env ''id'' (Inr 5) '''' (set_conn 5 \<lparr>xUid = ''bob'', xOut = [], xClosed = False\<rparr> ex_ws)) = Some 1"
  using connect_refuses_second [of ex_env 5 "set_conn 5 \<lparr>xUid = ''bob'', xOut = [], xClosed = False\<rparr> ex_ws"
      "''bob''" 1 1 "''id''" "''''"]
  by (simp add: GetUid_def GetClient_def)

lemma closed_client_conns [simp]: "conns (closed_client env c w) = conns w"
  by (simp add: closed_client_def Client_OnClose_def Let_def DelClient_def DelClientConn_def split: option.split)

text \<open>
  C14: A user whose connection was refused because of an older one on the same node can
  connect again as soon as the end of the older one was handled: the refused attempt, the
  close event of the old socket and the new attempt in a row register the user with the
  new socket. The session of a socket is assumed to survive its close.
\<close>

theorem reconnect_after_refusal:
  assumes inv: "ws_inv w" and r: "redis_ok env kv" and o: "range_ok env"
    and ses: "\<And>x n. SessionLoad env (NetConnClose env x) n = SessionLoad env x n"
    and u: "uid \<noteq> ''''" "GetClient uid w = Some c" "cSocket (clients w c) = j"
    and uids: "GetUid env j w = uid" "GetUid env k w = uid" "GetUid env i w = uid"
    and new: "GetClientByConn i w = None" "i \<noteq> k" "i \<noteq> j"
    and w1: "HandlerUp env ul (Inr k) mc w = w1" and w2: "fst (Handler_OnClose env None j w1) = w2"
    and w3: "HandlerUp env ul' (Inr i) mc w2 = w3"
  shows "GetClient uid w2 = None \<and> (\<exists>d. GetClient uid w3 = Some d \<and> cSocket (clients w3 d) = i \<and>
     cState (clients w3 d) = StateOnline \<and> cRandUuid (clients w3 d) = ul')"
proof -
  have w1': "w1 = conn_close env k (Client_Close env c w)"
    using HandlerUp_local_duplicate [OF uids(2) u(1,2), of ul mc] w1 by simp
  have le: "ws_le w w1"
    unfolding w1' by (intro ws_le_trans [OF ws_le_Client_Close ws_le_conn_close])
  have inv1: "ws_inv w1" by (rule ws_inv_le [OF le inv])
  have ses1: "SessionLoad env (conns w1 x) n = SessionLoad env (conns w x) n" for x n
    by (simp add: w1' conn_close_def Client_Close_def Let_def ses)
  have c1: "mget (Clients w1) uid = Some c" using u(2) by (simp add: w1' conn_close_def GetClient_def)
  have j1: "GetUid env j w1 = uid" using uids(1) by (simp add: GetUid_def ses1)
  have w2': "w2 = closed_client env c w1"
    using w2 Client_OnClose_cb [OF inv1 c1, of env None] j1 c1
    by (simp add: Handler_OnClose_def GetClient_def)
  note t = closed_client_tables [OF inv1 c1, where env = env]
  have inv2: "ws_inv w2" unfolding w2' by (rule ws_inv_closed_client [OF inv1 c1 o])
  have i2: "GetUid env i w2 = uid" using uids(3) by (simp add: GetUid_def w2' ses1)
  have n2: "GetClient uid w2 = None" by (simp add: w2' t GetClient_def)
  have e2: "kv (redis w2) (getUserOnlineKey uid w2) = None"
    using closed_client_kv [OF inv1 c1 r] getUserOnlineKey_cong [OF t(8)] by (simp add: w2')
  have "ConnClientIdx w1 = ConnClientIdx w" by (simp add: w1' conn_close_def)
  then have k2: "GetClientByConn i w2 = None"
    using new(1) by (simp add: w2' t GetClientByConn_def)
  show ?thesis
    using HandlerUp_first [OF inv2 r i2 u(1) n2 e2 k2 w3] n2 by blast
qed

definition ex_bobs :: "(ex_conn, (string, bytes) gomap, unit) ws" where
  "ex_bobs = ex_ws\<lparr>conns := (\<lambda>k. \<lparr>xUid = ''bob'', xOut = [], xClosed = False\<rparr>)\<rparr>"

lemma ex_bobs_inv: "ws_inv ex_bobs"
  by (rule ws_inv_le [OF _ ex_ws_inv]) (simp add: ws_le_def ex_bobs_def)

lemma ex_session: "SessionLoad ex_env (NetConnClose ex_env x) n = SessionLoad ex_env x n"
  by (simp add: ex_env_def)

theorem reconnect_after_refusal_witness:
  "\<exists>d. GetClient ''bob'' (HandlerUp ex_env ''id2'' (Inr 6) ''1''
     (fst (Handler_OnClose ex_env None 1 (HandlerUp ex_env ''id1'' (Inr 5) ''1'' ex_bobs)))) = Some d"
  using reconnect_after_refusal [OF ex_bobs_inv ex_redis_ok ex_range_ok ex_session _ _ _ _ _ _ _ _ _
      refl refl refl, of "''bob''" 1 1 5 6 "''id1''" "''1''" "''id2''"]
  by (auto simp: ex_bobs_def GetUid_def GetClient_def GetClientByConn_def)

section \<open>Logins on other nodes\<close>

lemma uniqueLogin_elsewhere:
  assumes "redis_ok env kv" and "GetClient uid w = None"
    and "kv (redis w) (getUserOnlineKey uid w) = Some (jprint (user_online_json old))"
    and "RandUuid old \<noteq> ulid"
  shows "\<exists>r. uniqueLogin env ulid uid k w =
       (Proxy_StopUserClient env old (w\<lparr>redis := r\<rparr>), Inl (NewImError ErrUserOnline)) \<and>
     kv r = (kv (redis w))(getUserOnlineKey uid w := None)"
proof -
  define u where "u = NewUserOnline uid ulid (RemoteAddr env (conns w k)) w"
  have "snd (GetSetUserOnlineInfo env uid u w) = (Some old, None)"
    using GetSetUserOnlineInfo_spec(1) [OF assms(1), of w uid "Some old" u] assms(3) by simp
  then obtain w1 where g: "GetSetUserOnlineInfo env uid u w = (w1, Some old, None)"
    by (metis prod.collapse)
  let ?w2 = "fst (DelUserOnlineInfo env uid w1)"
  have c: "Config w1 = Config w" using g GetSetUserOnlineInfo_frame(1) [of env uid u w] by simp
  have "kv (redis w1) = (kv (redis w))(getUserOnlineKey uid w \<mapsto> jprint (user_online_json u))"
    using GetSetUserOnlineInfo_spec(2) [OF assms(1), of w uid "Some old" u] assms(3) g by simp
  then have kv2: "kv (redis ?w2) = (kv (redis w))(getUserOnlineKey uid w := None)"
    using DelUserOnlineInfo_kv [OF assms(1), of uid w1] getUserOnlineKey_cong [OF c, of uid] by simp
  have "?w2 = w\<lparr>redis := redis ?w2\<rparr>" using g GetSetUserOnlineInfo_frame [of env uid u w] by simp
  moreover have "RandUuid u = ulid" by (simp add: u_def NewUserOnline_def)
  then have "uniqueLogin env ulid uid k w =
      (Proxy_StopUserClient env old ?w2, Inl (NewImError ErrUserOnline))"
    using assms(2,4) by (simp add: uniqueLogin_def Let_def g flip: u_def)
  ultimately show ?thesis using kv2 by metis
qed

text \<open>
  C13: In a cluster, a connection of a user whom redis reports on another node is refused:
  the socket is closed and nothing is registered, the entry in redis is removed, and the
  other node is asked, over rpc, to stop the user's client.
\<close>

theorem connect_stops_remote:
  assumes r: "redis_ok env kv" and u: "GetUid env k w = uid" "uid \<noteq> ''''"
    and n: "GetClient uid w = None" and m: "cfgRunMode (Config w) = RunModeRedis"
    and e: "kv (redis w) (getUserOnlineKey uid w) = Some (jprint (user_online_json old))"
    and old: "RandUuid old \<noteq> ulid" "\<not> UserIsLocal old w" "RpcPort old \<noteq> ''''"
    and a: "GetClientByAddr (AccIp old @ '':'' @ RpcPort old) w = Inr a"
    and w': "HandlerUp env ulid (Inr k) mc w = w'"
  shows "GetClient uid w' = None \<and> clients w' = clients w \<and>
     conns w' = (conns w)(k := NetConnClose env (conns w k)) \<and>
     kv (redis w') = (kv (redis w))(getUserOnlineKey uid w := None) \<and>
     net w' = fst (rpcStopUserClient env a \<lparr>uirUid = UserId old\<rparr> (net w))"
proof -
  obtain x where l: "uniqueLogin env ulid uid k w =
      (Proxy_StopUserClient env old (w\<lparr>redis := x\<rparr>), Inl (NewImError ErrUserOnline))"
    and x: "kv x = (kv (redis w))(getUserOnlineKey uid w := None)"
    using uniqueLogin_elsewhere [OF r n e old(1), of k] by blast
  have "Proxy_StopUserClient env old (w\<lparr>redis := x\<rparr>) =
      w\<lparr>redis := x, net := fst (rpcStopUserClient env a \<lparr>uirUid = UserId old\<rparr> (net w))\<rparr>"
    using m old a
    by (auto simp: Proxy_StopUserClient_def RP_StopUserClient_def UserIsLocal_def rpc_StopUserClient_def
        GetClientByAddr_def Server_String_def NewServer_def Let_def split: prod.splits sum.splits)
  then show ?thesis
    using l u n x w' by (auto simp: HandlerUp_def Let_def conn_close_def GetClient_def)
qed

definition ex_elsewhere :: user_online where
  "ex_elsewhere = \<lparr>AccIp = ''10.0.0.8'', ClientArr = ''c'', AccPort = ''8080'', RpcPort = ''8889'',
     UserId = ''carol'', RandUuid = ''id0''\<rparr>"

definition ex_peer :: "(ex_conn, (string, bytes) gomap, unit) ws" where
  "ex_peer = ex_ws\<lparr>rpcClients := [(''im/rpc/10.0.0.8:8889'', ''10.0.0.8:8889'')],
     redis := [(getUserOnlineKey ''carol'' ex_ws, jprint (user_online_json ex_elsewhere))]\<rparr>"

theorem connect_stops_remote_witness:
  "GetClient ''carol'' (HandlerUp ex_env ''id1'' (Inr 2) ''1'' ex_peer) = None \<and>
   mget (redis (HandlerUp ex_env ''id1'' (Inr 2) ''1'' ex_peer)) (getUserOnlineKey ''carol'' ex_ws) = None"
  using connect_stops_remote [OF ex_redis_ok, of 2 ex_peer "''carol''" ex_elsewhere "''id1''"
      "''10.0.0.8:8889''" "''1''"]
  by (simp add: ex_peer_def ex_elsewhere_def GetUid_def GetClient_def UserIsLocal_def GetClientByAddr_def
      getUserOnlineKey_def)

section \<open>Ends of connections that overlap with others\<close>

text \<open>
  C37: A request to join a group looks its client up and then joins through it. When the
  client ends in between, the join still succeeds, and the user stays a member of the
  group without a client: the group is never emptied by the end of that client, which is
  over already.
\<close>

theorem late_join_leaves_member:
  assumes inv: "ws_inv w" and o: "range_ok env" and c: "GetClient uid w = Some c"
    and w1: "Client_OnClose env None c w = (w1, closed)"
  shows "\<exists>w2. InTGroup c gid w1 = Some w2 \<and> uid \<in> members w2 gid \<and> GetClient uid w2 = None \<and>
     \<not> ws_inv w2 \<and> fst (Client_OnClose env None c w2) = w2"
proof -
  have c': "mget (Clients w) uid = Some c" using c by (simp add: GetClient_def)
  have w1': "w1 = closed_client env c w" using w1 by (simp add: closed_client_def)
  have g1: "groups_inv w1" unfolding w1' by (rule closed_client_members(1) [OF inv c' o])
  have id: "cUserId (clients w1 c) = uid"
    using clients_invD(4) [OF ws_invD(1) [OF inv] c'] closed_client_self(5)
    by (simp add: w1' closed_client_def Client_OnClose_def Let_def DelClient_def DelClientConn_def
        split: option.split)
  obtain w2 where j: "UserJoinTGroup gid uid w1 = Some (w2, True)"
    and m: "members w2 = (members w1)(gid := insert uid (members w1 gid))"
    using UserJoinTGroup_spec [OF g1, of gid uid] by blast
  note fr = UserJoinTGroup_frame [OF g1 j]
  let ?w = "upd_client c (\<lambda>x. x\<lparr>cTGroup := mput gid True (cTGroup x)\<rparr>) w2"
  have i: "InTGroup c gid w1 = Some ?w" using j id by (simp add: InTGroup_def)
  have m2: "uid \<in> members ?w gid"
    using m members_cong [of ?w w2] by simp
  have n: "mget (Clients ?w) uid = None"
    using fr closed_client_tables(1) [OF inv c', of env] by (simp add: w1')
  have "\<not> ws_inv ?w" using m2 n ws_invD(3) [of ?w] by (auto simp: member_inv_def in_group_def)
  moreover have "cCloseOnce (clients ?w c)"
    using fr closed_client_self(1) [OF inv c', of env] by (simp add: w1')
  then have "fst (Client_OnClose env None c ?w) = ?w" by (simp add: Client_OnClose_def)
  ultimately show ?thesis using i m2 n by (auto simp: GetClient_def)
qed

theorem late_join_leaves_member_witness:
  "\<exists>w2. InTGroup 0 ''game'' (fst (Client_OnClose ex_env None 0 ex_ws)) = Some w2 \<and>
     ''alice'' \<in> members w2 ''game'' \<and> GetClient ''alice'' w2 = None"
  using late_join_leaves_member [OF ex_ws_inv ex_range_ok, of "''alice''" 0
      "fst (Client_OnClose ex_env None 0 ex_ws)" "snd (Client_OnClose ex_env None 0 ex_ws)" "''game''"]
  by (auto simp: GetClient_def)

section \<open>Requests and pings\<close>

text \<open>The answer to a request: its sequence and command, with the data or the error.\<close>

definition answer :: "string \<Rightarrow> string \<Rightarrow> adata option \<Rightarrow> go_error option \<Rightarrow> response" where
  "answer seq cmd a e =
     \<lparr>rSeq = seq, rCmd = cmd, rMsgType = 1,
      rRData = Some \<lparr>rdS = 1, rdA = (case e of None \<Rightarrow> a
        | Some err \<Rightarrow> Some (NewErrAData (error_string err) 0))\<rparr>\<rparr>"

lemma NewErrAData_good: "jgood (adata_json (Some (NewErrAData m t)))"
  by (simp add: NewErrAData_def adata_json_def system_json_def NewSystem_def)

lemma answer_good: "adata_ok a \<Longrightarrow> jgood (response_json (answer seq cmd a e))"
  unfolding response_json_good answer_def
  by (cases e) (simp_all add: adata_json_good NewErrAData_good)

lemma SendResponseData_answer:
  assumes "cState (clients w c) = StateOnline" and "adata_ok a"
    and "WriteMessage env (conns w (cSocket (clients w c))) (cMsgCode (clients w c))
      (jprint (response_json (answer seq cmd a None))) = Wrote x"
  shows "fst (SendResponseData env c (NewResponseData a []) seq cmd MSG_TYPE_RESPONSE w) =
    set_conn (cSocket (clients w c)) x w"
  using assms answer_good [OF assms(2), of seq cmd None]
  by (simp add: SendResponseData_def SendResponseMsg_def Response_Bytes_def json_Marshal_def SafeSendMsg_def
      NewResponse_def NewResponseData_def answer_def MSG_TYPE_RESPONSE_def Let_def)

lemma SendErr_answer:
  assumes "cState (clients w c) = StateOnline"
    and "WriteMessage env (conns w (cSocket (clients w c))) (cMsgCode (clients w c))
      (jprint (response_json (answer seq cmd a (Some err)))) = Wrote x"
  shows "fst (SendErr env c (error_string err) 0 seq cmd w) = set_conn (cSocket (clients w c)) x w"
  using assms answer_good [of None seq cmd "Some err"]
  by (simp add: SendErr_def SendResponseData_def SendResponseMsg_def Response_Bytes_def json_Marshal_def
      SafeSendMsg_def NewResponse_def NewResponseData_def answer_def MSG_TYPE_RESPONSE_def adata_ok_def Let_def)

text \<open>
  C22: A request that decodes is answered once, on the socket it came from, after the
  application's handler has run: the answer carries the request's sequence and command,
  and the handler's data or, when the handler fails, its error text. Nothing else changes.
\<close>

theorem request_answered:
  assumes c: "GetClientByConn k w = Some c"
    and q: "json_Unmarshal request_set m request0 = (q, None)"
    and h: "h c q w = HandleRet w1 a e" and a: "adata_ok a"
    and on: "cState (clients w1 c) = StateOnline"
    and wr: "WriteMessage env (conns w1 (cSocket (clients w1 c))) (cMsgCode (clients w1 c))
      (jprint (response_json (answer (qSeq q) (qCmd q) a e))) = Wrote x"
  shows "Handler_OnMessage env (Some h) k m w = set_conn (cSocket (clients w1 c)) x w1"
proof (cases e)
  case None
  with SendResponseData_answer [OF on a, of env "qSeq q" "qCmd q" x] wr c q h show ?thesis
    by (simp add: Handler_OnMessage_def Let_def)
next
  case (Some err)
  with SendErr_answer [OF on, of env "qSeq q" "qCmd q" a err x] wr c q h show ?thesis
    by (simp add: Handler_OnMessage_def)
qed

definition ex_handler :: "cptr \<Rightarrow> request \<Rightarrow> (ex_conn, (string, bytes) gomap, unit) ws \<Rightarrow>
    (ex_conn, (string, bytes) gomap, unit) ws handle_result" where
  "ex_handler c q w = HandleRet w (qData q) None"

definition ex_request :: bytes where
  "ex_request = jprint (JObj [(''seq'', JStr ''1''), (''cmd'', JStr ''echo'')])"

lemma ex_request_decode:
  "json_Unmarshal request_set ex_request request0 = (\<lparr>qSeq = ''1'', qCmd = ''echo'', qData = None\<rparr>, None)"
  unfolding ex_request_def
  by (subst json_Unmarshal_print)
    (simp_all add: dec_struct_def request_set_def request0_def name_eq_def to_lower_def)

theorem request_answered_witness:
  "xOut (conns (Handler_OnMessage ex_env (Some ex_handler) 0 ex_request ex_ws) 0) =
     [jprint (response_json (answer ''1'' ''echo'' None None))]"
  using request_answered [OF _ ex_request_decode, of 0 ex_ws 0 ex_handler ex_ws None None ex_env
      "\<lparr>xUid = ''alice'', xOut = [jprint (response_json (answer ''1'' ''echo'' None None))], xClosed = False\<rparr>"]
  by (simp add: GetClientByConn_def ex_handler_def adata_ok_def)

text \<open>
  C23: A message that is not a request, or that comes while no handler is set, is answered
  with an error on the socket it came from and changes nothing else; any message, good or bad
  and whatever handler is set, on a socket without a client closes that socket, changes nothing
  else and runs no handler.
\<close>

theorem bad_request_answered:
  assumes "GetClientByConn k w = None \<or>
      h = None \<and> e = NewImError ErrNoHandleMsg \<and> q = request0 \<or>
      h \<noteq> None \<and> e = NewImError ErrJson \<and> (\<exists>err. json_Unmarshal request_set m request0 = (q, Some err))"
    and "\<And>c. GetClientByConn k w = Some c \<Longrightarrow> cState (clients w c) = StateOnline \<and>
      WriteMessage env (conns w (cSocket (clients w c))) (cMsgCode (clients w c))
        (jprint (response_json (answer (qSeq q) (qCmd q) None (Some e)))) = Wrote x"
  shows "Handler_OnMessage env h k m w =
     (case GetClientByConn k w of
        Some c \<Rightarrow> set_conn (cSocket (clients w c)) x w
      | None \<Rightarrow> set_conn k (NetConnClose env (conns w k)) w)"
proof (cases "GetClientByConn k w")
  case None
  then show ?thesis by (simp add: Handler_OnMessage_def conn_close_def)
next
  case (Some c)
  note s = SendErr_answer [of w c env "qSeq q" "qCmd q" None e x]
  from assms(1) Some have "h = None \<and> e = NewImError ErrNoHandleMsg \<and> q = request0 \<or>
      h \<noteq> None \<and> e = NewImError ErrJson \<and> (\<exists>err. json_Unmarshal request_set m request0 = (q, Some err))"
    by simp
  then show ?thesis
    using Some s assms(2) [OF Some]
    by (elim disjE conjE exE) (auto simp: Handler_OnMessage_def request0_def)
qed

theorem bad_request_answered_witness:
  "xOut (conns (Handler_OnMessage ex_env None 0 ''{'' ex_ws) 0) =
     [jprint (response_json (answer '''' '''' None (Some (NewImError ErrNoHandleMsg))))] \<and>
   Handler_OnMessage ex_env (Some ex_handler) 7 ex_request ex_ws = set_conn 7 (NetConnClose ex_env (conns ex_ws 7)) ex_ws"
  using bad_request_answered [of 0 ex_ws None "NewImError ErrNoHandleMsg" request0 "''{''" ex_env
      "\<lparr>xUid = ''alice'', xOut = [jprint (response_json (answer '''' '''' None
         (Some (NewImError ErrNoHandleMsg))))], xClosed = False\<rparr>"]
    bad_request_answered [of 7 ex_ws "Some ex_handler" "NewImError ErrJson" request0 ex_request ex_env "conns ex_ws 7"]
  by (simp add: GetClientByConn_def request0_def)

text \<open>
  C31: On a node that was started with a keep time of at most 9223372036 seconds, which is what
  a duration in nanoseconds can hold, a ping of a connected user moves the read deadline of
  the user's socket to the keep time from now, renews the entry in redis with a time that is
  longer than that, so that the entry outlives the connection, and notes the time of the ping;
  a ping on a socket without a client closes the socket.
\<close>

theorem ping_renews:
  assumes "InitWs ifaces True cfg w0 = Some w1" and "K = keep_seconds (cfgKeepTime cfg)"
    and "0 < K" and "K \<le> 9223372036"
    and "Config w = Config w1" and "connKeepTime w = connKeepTime w1"
    and "GetUid env k w = uid"
  shows "\<exists>t. K < t \<and> t < 2 ^ 63 \<and>
     Handler_OnPing env k w =
       (case GetClient uid w of
          None \<Rightarrow> set_conn k (NetConnClose env (conns w k)) w
        | Some c \<Rightarrow>
            (let j = cSocket (clients w c);
                 r = fst (redisExpire env (getUserOnlineKey (cUserId (clients w c)) w) t (redis w))
             in upd_client c (\<lambda>x. x\<lparr>cHeartbeatTime := word_of_int (clock w div 1000)\<rparr>)
                  (set_conn j (SetReadDeadline env (conns w j) (clock w * 1000000 + K * 1000000000))
                    (w\<lparr>redis := r\<rparr>))))"
proof -
  have k: "connKeepTime w = wrap64 (K * 1000000000)" "keep_seconds (cfgKeepTime (Config w)) = K"
    using assms(1-6) by (auto simp: InitWs_def Let_def NewClientManager_def NewTGroupManager_def
        split: if_splits)
  have w: "wrap64 (K * 1000000000) = K * 1000000000" "wrap64 (K + 10) = K + 10"
    using assms(3,4) by (simp_all add: wrap64_id)
  have t: "GetUserOnlineExpTime w = K + 10"
    using k(2) w(2) assms(3) by (simp add: GetUserOnlineExpTime_def userOnlineCacheTime_def)
  have "Handler_OnPing env k w =
       (case GetClient uid w of
          None \<Rightarrow> set_conn k (NetConnClose env (conns w k)) w
        | Some c \<Rightarrow>
            (let j = cSocket (clients w c);
                 r = fst (redisExpire env (getUserOnlineKey (cUserId (clients w c)) w) (K + 10) (redis w))
             in upd_client c (\<lambda>x. x\<lparr>cHeartbeatTime := word_of_int (clock w div 1000)\<rparr>)
                  (set_conn j (SetReadDeadline env (conns w j) (clock w * 1000000 + K * 1000000000))
                    (w\<lparr>redis := r\<rparr>))))"
    using assms(3,7) k(1) w(1) t
    by (auto simp: Handler_OnPing_def conn_close_def Heartbeat_def ResetUserOnlineExpTime_def
        SetConnDeadLine_def Let_def split: option.split prod.split)
  then show ?thesis using assms(4) by (intro exI [of _ "K + 10"]) simp
qed

theorem ping_renews_witness:
  "cHeartbeatTime (clients (Handler_OnPing ex_env 0 ex_ws) 0) = 1700000000"
proof -
  obtain w1 where w1: "InitWs (Inr []) True ex_cfg ex_ws = Some w1" by (simp add: InitWs_def Let_def)
  have k: "60 = keep_seconds (cfgKeepTime ex_cfg)" by (simp add: ex_cfg_def)
  have "Config ex_ws = Config w1" "connKeepTime ex_ws = connKeepTime w1"
    using w1 by (auto simp: InitWs_def Let_def NewClientManager_def NewTGroupManager_def ex_cfg_def wrap64_id)
  then have "Handler_OnPing ex_env 0 ex_ws = upd_client 0 (\<lambda>x. x\<lparr>cHeartbeatTime := 1700000000\<rparr>)
      (set_conn 0 (conns ex_ws 0) (ex_ws\<lparr>redis := redis ex_ws\<rparr>))"
    using ping_renews [OF w1 k _ _ _ _ refl, of ex_ws ex_env 0]
    by (auto simp: GetUid_def GetClient_def)
  then show ?thesis by simp
qed

end
