(* ===== verification/ThriftCodec.thy ===== *)
theory ThriftCodec
  imports ImErr GoJsonFields
begin

text \<open>
  The reading loop that every \<^verbatim>\<open>FastRead\<close> method of the generated rpc types shares
  (\<^verbatim>\<open>kitex_gen/im/rpc/k-api.go\<close>), over the primitives of the library's binary protocol,
  which are a parameter, and the contract of a struct's codec. A writer is the bytes it
  puts at the front of the buffer; the number it returns is their length.
\<close>

section \<open>The binary protocol\<close>

definition STOP :: int where "STOP = 0"
definition BOOL :: int where "BOOL = 2"
definition I32 :: int where "I32 = 8"
definition STRING :: int where "STRING = 11"
definition STRUCT :: int where "STRUCT = 12"

lemmas ttypes = STOP_def BOOL_def I32_def STRING_def STRUCT_def

record thrift =
  tReadFieldBegin :: "bytes \<Rightarrow> int \<times> int \<times> nat \<times> go_error option"
  tSkip :: "bytes \<Rightarrow> int \<Rightarrow> nat \<times> go_error option"
  tReadString :: "bytes \<Rightarrow> (string \<times> nat) result"
  tReadBinary :: "bytes \<Rightarrow> (bytes \<times> nat) result"
  tReadI32 :: "bytes \<Rightarrow> (32 word \<times> nat) result"
  tReadBool :: "bytes \<Rightarrow> (bool \<times> nat) result"
  tWriteFieldBegin :: "int \<Rightarrow> int \<Rightarrow> bytes"
  tWriteFieldStop :: bytes
  tWriteString :: "string \<Rightarrow> bytes"
  tWriteBinary :: "bytes \<Rightarrow> bytes"
  tWriteI32 :: "32 word \<Rightarrow> bytes"
  tWriteBool :: "bool \<Rightarrow> bytes"
  tFieldBeginLength :: nat
  tFieldStopLength :: nat
  tStringLength :: "string \<Rightarrow> nat"
  tBinaryLength :: "bytes \<Rightarrow> nat"
  tI32Length :: nat
  tBoolLength :: nat
  tPrependError :: "string \<Rightarrow> go_error \<Rightarrow> go_error"

text \<open>
  What is used of it: what was written is read back, the length functions give the length
  of what is written, reading or skipping something takes no more bytes than there are, and
  reading the beginning of a field takes at least one.
\<close>

definition size_ok :: "'a list \<Rightarrow> bool" where
  "size_ok s \<longleftrightarrow> length s < 2 ^ 31"

definition thrift_ok :: "thrift \<Rightarrow> bool" where
  "thrift_ok T \<longleftrightarrow>
     (\<forall>t fid rest. t \<noteq> STOP \<longrightarrow> 0 \<le> t \<and> t < 128 \<longrightarrow> 0 \<le> fid \<and> fid < 32768 \<longrightarrow>
        tReadFieldBegin T (tWriteFieldBegin T t fid @ rest) =
          (t, fid, length (tWriteFieldBegin T t fid), None)) \<and>
     (\<forall>rest. tReadFieldBegin T (tWriteFieldStop T @ rest) = (STOP, 0, length (tWriteFieldStop T), None)) \<and>
     (\<forall>s rest. size_ok s \<longrightarrow>
        tReadString T (tWriteString T s @ rest) = Inr (s, length (tWriteString T s)) \<and>
        tSkip T (tWriteString T s @ rest) STRING = (length (tWriteString T s), None)) \<and>
     (\<forall>s rest. size_ok s \<longrightarrow>
        tReadBinary T (tWriteBinary T s @ rest) = Inr (s, length (tWriteBinary T s)) \<and>
        tSkip T (tWriteBinary T s @ rest) STRING = (length (tWriteBinary T s), None)) \<and>
     (\<forall>i rest. tReadI32 T (tWriteI32 T i @ rest) = Inr (i, length (tWriteI32 T i)) \<and>
        tSkip T (tWriteI32 T i @ rest) I32 = (length (tWriteI32 T i), None)) \<and>
     (\<forall>b rest. tReadBool T (tWriteBool T b @ rest) = Inr (b, length (tWriteBool T b)) \<and>
        tSkip T (tWriteBool T b @ rest) BOOL = (length (tWriteBool T b), None)) \<and>
     (\<forall>t fid. tFieldBeginLength T = length (tWriteFieldBegin T t fid)) \<and>
     tFieldStopLength T = length (tWriteFieldStop T) \<and>
     (\<forall>s. tStringLength T s = length (tWriteString T s) \<and> tBinaryLength T s = length (tWriteBinary T s)) \<and>
     (\<forall>i. tI32Length T = length (tWriteI32 T i)) \<and> (\<forall>b. tBoolLength T = length (tWriteBool T b)) \<and>
     (\<forall>b t fid l. tReadFieldBegin T b = (t, fid, l, None) \<longrightarrow> (t \<noteq> STOP \<longrightarrow> 0 < l) \<and> l \<le> length b) \<and>
     (\<forall>b v l. tReadString T b = Inr (v, l) \<longrightarrow> l \<le> length b) \<and>
     (\<forall>b v l. tReadBinary T b = Inr (v, l) \<longrightarrow> l \<le> length b) \<and>
     (\<forall>b v l. tReadI32 T b = Inr (v, l) \<longrightarrow> l \<le> length b) \<and>
     (\<forall>b v l. tReadBool T b = Inr (v, l) \<longrightarrow> l \<le> length b) \<and>
     (\<forall>b t l. tSkip T b t = (l, None) \<longrightarrow> l \<le> length b)"

section \<open>The reading loop\<close>

text \<open>
  A struct's switch: for a field id the type it expects and the method that reads it. The
  result of a method is the struct, the number of bytes taken and the error; \<open>None\<close> is a
  call that does not return, or that panics because an offset is beyond the end of the buffer.
\<close>

type_synonym 'p reader = "'p \<Rightarrow> bytes \<Rightarrow> ('p \<times> nat \<times> go_error option) option"

type_synonym 'p field_table = "int \<Rightarrow> (int \<times> 'p reader) option"

definition begin_error :: "string \<Rightarrow> int \<Rightarrow> string" where
  "begin_error tn fid = tn @ '' read field '' @ int_lit fid @ '' begin error: ''"

definition field_error :: "string \<Rightarrow> (int \<Rightarrow> string) \<Rightarrow> int \<Rightarrow> string" where
  "field_error tn names fid = tn @ '' read field '' @ int_lit fid @ '' '' @ [CHR 0x27] @ names fid @ [CHR 0x27] @ '' error: ''"

definition skip_error :: "string \<Rightarrow> int \<Rightarrow> int \<Rightarrow> string" where
  "skip_error tn fid ft = tn @ '' field '' @ int_lit fid @ '' skip type '' @ int_lit ft @ '' error: ''"

definition skip_field :: "thrift \<Rightarrow> string \<Rightarrow> int \<Rightarrow> int \<Rightarrow> 'p reader" where
  "skip_field T tn ft fid p b =
     (let (l, e) = tSkip T b ft in Some (p, l, map_option (tPrependError T (skip_error tn fid ft)) e))"

definition read_or_skip ::
    "thrift \<Rightarrow> string \<Rightarrow> (int \<Rightarrow> string) \<Rightarrow> 'p field_table \<Rightarrow> int \<Rightarrow> int \<Rightarrow> 'p reader" where
  "read_or_skip T tn names tbl ft fid p b =
     (case tbl fid of
        None \<Rightarrow> skip_field T tn ft fid p b
      | Some (t, rd) \<Rightarrow>
          if ft = t then
            (case rd p b of
               None \<Rightarrow> None
             | Some (p1, l, e) \<Rightarrow> Some (p1, l, map_option (tPrependError T (field_error tn names fid)) e))
          else skip_field T tn ft fid p b)"

partial_function (option) fast_read ::
    "thrift \<Rightarrow> string \<Rightarrow> (int \<Rightarrow> string) \<Rightarrow> 'p field_table \<Rightarrow> 'p \<Rightarrow> bytes \<Rightarrow> nat \<Rightarrow>
     ('p \<times> nat \<times> go_error option) option" where
  "fast_read T tn names tbl p buf offset =
     (if length buf < offset then None
      else case tReadFieldBegin T (drop offset buf) of
        (ft, fid, l, Some e) \<Rightarrow> Some (p, offset + l, Some (tPrependError T (begin_error tn fid) e))
      | (ft, fid, l, None) \<Rightarrow>
          if ft = STOP then Some (p, offset + l, None)
          else if length buf < offset + l then None
          else
            (case read_or_skip T tn names tbl ft fid p (drop (offset + l) buf) of
               None \<Rightarrow> None
             | Some (p1, l1, Some e) \<Rightarrow> Some (p1, offset + l + l1, Some e)
             | Some (p1, l1, None) \<Rightarrow> fast_read T tn names tbl p1 buf (offset + l + l1)))"

section \<open>Reading what was written\<close>

lemma thrift_okD:
  assumes "thrift_ok T"
  shows "t \<noteq> STOP \<Longrightarrow> 0 \<le> t \<Longrightarrow> t < 128 \<Longrightarrow> 0 \<le> fid \<Longrightarrow> fid < 32768 \<Longrightarrow>
      tReadFieldBegin T (tWriteFieldBegin T t fid @ rest) =
        (t, fid, length (tWriteFieldBegin T t fid), None)"
    and "tReadFieldBegin T (tWriteFieldStop T @ rest) = (STOP, 0, length (tWriteFieldStop T), None)"
    and "size_ok s \<Longrightarrow> tReadString T (tWriteString T s @ rest) = Inr (s, length (tWriteString T s))"
    and "size_ok b \<Longrightarrow> tReadBinary T (tWriteBinary T b @ rest) = Inr (b, length (tWriteBinary T b))"
    and "tReadI32 T (tWriteI32 T i @ rest) = Inr (i, length (tWriteI32 T i))"
    and "tReadBool T (tWriteBool T x @ rest) = Inr (x, length (tWriteBool T x))"
    and "tFieldBeginLength T = length (tWriteFieldBegin T t fid)"
    and "tFieldStopLength T = length (tWriteFieldStop T)"
    and "tStringLength T s = length (tWriteString T s)" and "tBinaryLength T b = length (tWriteBinary T b)"
    and "tI32Length T = length (tWriteI32 T i)" and "tBoolLength T = length (tWriteBool T x)"
    and "size_ok s \<Longrightarrow> tSkip T (tWriteString T s @ rest) STRING = (length (tWriteString T s), None)"
  using assms unfolding thrift_ok_def by metis+

lemma thrift_ok_bounds:
  assumes "thrift_ok T"
  shows "tReadFieldBegin T b = (t, fid, l, None) \<Longrightarrow> l \<le> length b"
    and "tReadFieldBegin T b = (t, fid, l, None) \<Longrightarrow> t \<noteq> STOP \<Longrightarrow> 0 < l"
    and "tSkip T b t = (l, None) \<Longrightarrow> l \<le> length b"
    and "tReadString T b = Inr (s, l) \<Longrightarrow> l \<le> length b" and "tReadBinary T b = Inr (s, l) \<Longrightarrow> l \<le> length b"
    and "tReadI32 T b = Inr (i, l) \<Longrightarrow> l \<le> length b" and "tReadBool T b = Inr (x, l) \<Longrightarrow> l \<le> length b"
  using assms unfolding thrift_ok_def by blast+

lemmas thrift_lengths = thrift_okD(7-12) [symmetric]

text \<open>
  A field as it is written: its id and type, the bytes of its value, and what reading the
  value does to the struct.
\<close>

type_synonym 'p wfield = "int \<times> int \<times> bytes \<times> ('p \<Rightarrow> 'p)"

fun field_bytes :: "thrift \<Rightarrow> 'p wfield \<Rightarrow> bytes" where
  "field_bytes T (fid, t, body, f) = tWriteFieldBegin T t fid @ body"

fun field_ok :: "thrift \<Rightarrow> string \<Rightarrow> (int \<Rightarrow> string) \<Rightarrow> 'p field_table \<Rightarrow> 'p wfield \<Rightarrow> bool" where
  "field_ok T tn names tbl (fid, t, body, f) \<longleftrightarrow>
     t \<noteq> STOP \<and> 0 \<le> t \<and> t < 128 \<and> 0 \<le> fid \<and> fid < 32768 \<and>
     (\<forall>p rest. read_or_skip T tn names tbl t fid p (body @ rest) = Some (f p, length body, None))"

lemma fast_read_field:
  assumes "thrift_ok T" and "field_ok T tn names tbl (fid, t, body, f)"
  shows "fast_read T tn names tbl p (pre @ tWriteFieldBegin T t fid @ body @ rest) (length pre) =
     fast_read T tn names tbl (f p) (pre @ tWriteFieldBegin T t fid @ body @ rest)
       (length (pre @ tWriteFieldBegin T t fid @ body))"
  using assms
  by (subst fast_read.simps) (simp add: thrift_okD(1) add.assoc)

lemma fast_read_stop:
  assumes "thrift_ok T"
  shows "fast_read T tn names tbl p (pre @ tWriteFieldStop T @ rest) (length pre) =
     Some (p, length (pre @ tWriteFieldStop T), None)"
  using assms by (subst fast_read.simps) (simp add: thrift_okD(2))

lemma fast_read_fields_from:
  assumes "thrift_ok T" and "list_all (field_ok T tn names tbl) fs"
  shows "fast_read T tn names tbl p (pre @ concat (map (field_bytes T) fs) @ tWriteFieldStop T @ rest) (length pre) =
     Some (fold (\<lambda>(fid, t, body, f). f) fs p,
       length (pre @ concat (map (field_bytes T) fs) @ tWriteFieldStop T), None)"
  using assms(2)
proof (induction fs arbitrary: p pre)
  case Nil
  then show ?case using fast_read_stop [OF assms(1), of tn names tbl p pre rest] by simp
next
  case (Cons x fs)
  obtain fid t body f where x: "x = (fid, t, body, f)" by (metis surj_pair)
  let ?r = "concat (map (field_bytes T) fs) @ tWriteFieldStop T @ rest"
  have "field_ok T tn names tbl (fid, t, body, f)" using Cons.prems x by simp
  from fast_read_field [OF assms(1) this, of p pre ?r] Cons.IH [of "f p" "pre @ tWriteFieldBegin T t fid @ body"]
  show ?case using Cons.prems x by (simp add: case_prod_beta)
qed

lemma fast_read_fields:
  assumes "thrift_ok T" and "list_all (field_ok T tn names tbl) fs"
  shows "fast_read T tn names tbl p (concat (map (field_bytes T) fs) @ tWriteFieldStop T @ rest) 0 =
     Some (fold (\<lambda>(fid, t, body, f). f) fs p,
       length (concat (map (field_bytes T) fs) @ tWriteFieldStop T), None)"
  using fast_read_fields_from [OF assms, of p "[]" rest] by simp

section \<open>The loop ends\<close>

text \<open>A reader that returns on every buffer, and when it succeeds has not taken more than there is.\<close>

definition reader_ends :: "'p reader \<Rightarrow> bool" where
  "reader_ends rd \<longleftrightarrow> (\<forall>p b. \<exists>p1 l e. rd p b = Some (p1, l, e) \<and> (e = None \<longrightarrow> l \<le> length b))"

definition table_ends :: "'p field_table \<Rightarrow> bool" where
  "table_ends tbl \<longleftrightarrow> (\<forall>fid t rd. tbl fid = Some (t, rd) \<longrightarrow> reader_ends rd)"

lemma read_or_skip_ends:
  assumes T: "thrift_ok T" and tbl: "table_ends tbl"
  shows "reader_ends (read_or_skip T tn names tbl ft fid)"
proof -
  have skip: "reader_ends (skip_field T tn ft fid)"
    unfolding reader_ends_def skip_field_def using thrift_ok_bounds(3) [OF T]
    by (auto split: prod.split)
  show ?thesis
  proof (cases "tbl fid")
    case (Some x)
    obtain t rd where x: "x = (t, rd)" by fastforce
    then have "reader_ends rd" using tbl Some unfolding table_ends_def by blast
    show ?thesis
      unfolding reader_ends_def
    proof (intro allI)
      fix p b
      obtain p1 l e where "rd p b = Some (p1, l, e)" "e = None \<longrightarrow> l \<le> length b"
        using \<open>reader_ends rd\<close> unfolding reader_ends_def by blast
      then show "\<exists>p1 l e. read_or_skip T tn names tbl ft fid p b = Some (p1, l, e) \<and> (e = None \<longrightarrow> l \<le> length b)"
        using Some x skip unfolding reader_ends_def by (cases "ft = t") (auto simp: read_or_skip_def)
    qed
  qed (use skip in \<open>simp add: read_or_skip_def reader_ends_def\<close>)
qed

lemma fast_read_ends_from:
  assumes T: "thrift_ok T" and tbl: "table_ends tbl" and "offset \<le> length buf"
  shows "\<exists>p1 l e. fast_read T tn names tbl p buf offset = Some (p1, l, e) \<and> (e = None \<longrightarrow> l \<le> length buf)"
  using assms(3)
proof (induction "length buf - offset" arbitrary: p offset rule: less_induct)
  case less
  obtain ft fid l e where r: "tReadFieldBegin T (drop offset buf) = (ft, fid, l, e)" by (metis surj_pair)
  have l: "e = None \<Longrightarrow> offset + l \<le> length buf" "e = None \<Longrightarrow> ft \<noteq> STOP \<Longrightarrow> 0 < l"
    using thrift_ok_bounds(1,2) [OF T] r less.prems by fastforce+
  obtain p1 l1 e1 where s: "read_or_skip T tn names tbl ft fid p (drop (offset + l) buf) = Some (p1, l1, e1)"
    "e1 = None \<longrightarrow> l1 \<le> length (drop (offset + l) buf)"
    using read_or_skip_ends [OF T tbl, of tn names ft fid] unfolding reader_ends_def by blast
  show ?case
  proof (cases "e = None \<and> ft \<noteq> STOP \<and> e1 = None")
    case True
    then have "0 < l" "offset + l + l1 \<le> length buf" using l s(2) by auto
    moreover from this have "length buf - (offset + l + l1) < length buf - offset" by linarith
    moreover have "fast_read T tn names tbl p buf offset = fast_read T tn names tbl p1 buf (offset + l + l1)"
      using True r s(1) l less.prems by (subst fast_read.simps) simp
    ultimately show ?thesis using less.hyps [of "offset + l + l1" p1] by simp
  next
    case False
    then show ?thesis
      using r s(1) l less.prems by (subst fast_read.simps) (auto split: option.splits)
  qed
qed

lemma fast_read_ends:
  assumes "thrift_ok T" and "table_ends tbl"
  shows "reader_ends (\<lambda>p buf. fast_read T tn names tbl p buf 0)"
  unfolding reader_ends_def using fast_read_ends_from [OF assms] by blast

section \<open>The contract of a struct's codec\<close>

text \<open>
  The argument and result structs of the methods differ in the type they carry only. A
  struct behind a pointer field is read into a fresh struct, and the field is set when the
  whole struct was read.
\<close>

record 'a rpc_args =
  Req :: "'a option"

record 'a rpc_result =
  Success :: "'a option"

definition read_nested :: "'a reader \<Rightarrow> 'a \<Rightarrow> ('a \<Rightarrow> 'p \<Rightarrow> 'p) \<Rightarrow> 'p reader" where
  "read_nested rd new upd p buf =
     (case rd new buf of
        None \<Rightarrow> None
      | Some (v, l, Some e) \<Rightarrow> Some (p, 0, Some e)
      | Some (v, l, None) \<Rightarrow> Some (upd v p, l, None))"

lemma read_nested_ends: "reader_ends rd \<Longrightarrow> reader_ends (read_nested rd new upd)"
  unfolding reader_ends_def read_nested_def by (fastforce split: option.splits)

text \<open>
  What the code that sends and receives a struct relies on: the length is that of the
  bytes written, and reading them into a fresh struct gives the struct back and takes
  exactly those bytes.
\<close>

locale struct_codec =
  fixes wr :: "thrift \<Rightarrow> 'p option \<Rightarrow> bytes"
    and blen :: "thrift \<Rightarrow> 'p option \<Rightarrow> nat"
    and rd :: "thrift \<Rightarrow> 'p reader"
    and new :: 'p
    and ok :: "'p \<Rightarrow> bool"
  assumes blen: "thrift_ok T \<Longrightarrow> blen T q = length (wr T q)"
    and read_back: "thrift_ok T \<Longrightarrow> ok p \<Longrightarrow>
      rd T new (wr T (Some p) @ rest) = Some (p, length (wr T (Some p)), None)"
begin

text \<open>The struct inside the argument or the result struct of a method is read back as well.\<close>

lemma args_read_back:
  assumes "thrift_ok T" and "ok q"
  shows "fast_read T tn names
      (\<lambda>fid. if fid = 1 then Some (STRUCT, read_nested (rd T) new (\<lambda>v p. p\<lparr>Req := Some v\<rparr>)) else None) p
      (tWriteFieldBegin T STRUCT 1 @ wr T (Some q) @ tWriteFieldStop T @ rest) 0 =
    Some (p\<lparr>Req := Some q\<rparr>, length (tWriteFieldBegin T STRUCT 1 @ wr T (Some q) @ tWriteFieldStop T), None)"
  using fast_read_fields [OF assms(1), of tn names
      "\<lambda>fid. if fid = 1 then Some (STRUCT, read_nested (rd T) new (\<lambda>v p. p\<lparr>Req := Some v\<rparr>)) else None"
      "[(1, STRUCT, wr T (Some q), \<lambda>p. p\<lparr>Req := Some q\<rparr>)]" p rest]
  by (simp add: read_or_skip_def read_nested_def read_back [OF assms] ttypes)

lemma result_read_back:
  assumes "thrift_ok T" and "ok q"
  shows "fast_read T tn names
      (\<lambda>fid. if fid = 0 then Some (STRUCT, read_nested (rd T) new (\<lambda>v p. p\<lparr>Success := Some v\<rparr>)) else None) p
      (tWriteFieldBegin T STRUCT 0 @ wr T (Some q) @ tWriteFieldStop T @ rest) 0 =
    Some (p\<lparr>Success := Some q\<rparr>, length (tWriteFieldBegin T STRUCT 0 @ wr T (Some q) @ tWriteFieldStop T), None)"
  using fast_read_fields [OF assms(1), of tn names
      "\<lambda>fid. if fid = 0 then Some (STRUCT, read_nested (rd T) new (\<lambda>v p. p\<lparr>Success := Some v\<rparr>)) else None"
      "[(0, STRUCT, wr T (Some q), \<lambda>p. p\<lparr>Success := Some q\<rparr>)]" p rest]
  by (simp add: read_or_skip_def read_nested_def read_back [OF assms] ttypes)

end

end
