(* ===== verification/ThriftBinary.thy ===== *)
theory ThriftBinary
  imports ThriftCodec
begin

text \<open>
  The binary protocol of Thrift as its specification describes it: big-endian integers, a
  field as its type and its 16-bit id, strings and byte strings with a 32-bit length. It
  satisfies what \<open>ThriftCodec\<close> asks of the library's primitives.
\<close>

section \<open>Big-endian numbers\<close>

definition be16 :: "nat \<Rightarrow> bytes" where
  "be16 n = [char_of (n div 256), char_of (n mod 256)]"

definition be32 :: "nat \<Rightarrow> bytes" where
  "be32 n = be16 (n div 65536) @ be16 (n mod 65536)"

fun be_val :: "bytes \<Rightarrow> nat" where
  "be_val [] = 0"
| "be_val (c # cs) = of_char c * 256 ^ length cs + be_val cs"

lemma length_be [simp]: "length (be16 n) = 2" "length (be32 n) = 4"
  by (simp_all add: be16_def be32_def)

lemma be_val_append: "be_val (a @ b) = be_val a * 256 ^ length b + be_val b"
  by (induction a) (simp_all add: power_add algebra_simps)

lemma be_val_be16: "n < 65536 \<Longrightarrow> be_val (be16 n) = n"
  by (simp add: be16_def)

lemma be_val_be32: "n < 4294967296 \<Longrightarrow> be_val (be32 n) = n"
proof -
  assume "n < 4294967296"
  then have "n div 65536 < 65536" by (simp add: div_less_iff_less_mult)
  then show ?thesis by (simp add: be32_def be_val_append be_val_be16)
qed

section \<open>The protocol\<close>

definition short_buffer :: go_error where
  "short_buffer = ExtError ''buf too short''"

definition read_field_begin :: "bytes \<Rightarrow> int \<times> int \<times> nat \<times> go_error option" where
  "read_field_begin b =
     (case b of
        [] \<Rightarrow> (0, 0, 0, Some short_buffer)
      | c # r \<Rightarrow>
          if of_char c = (0::nat) then (STOP, 0, 1, None)
          else if length r < 2 then (int (of_char c), 0, 0, Some short_buffer)
          else (int (of_char c), int (be_val (take 2 r)), 3, None))"

definition read_sized :: "bytes \<Rightarrow> (bytes \<times> nat) result" where
  "read_sized b =
     (if length b < 4 then Inl short_buffer
      else
        let n = be_val (take 4 b) in
        if n \<ge> 2 ^ 31 \<or> length b < 4 + n then Inl short_buffer
        else Inr (take n (drop 4 b), 4 + n))"

definition skip_value :: "bytes \<Rightarrow> int \<Rightarrow> nat \<times> go_error option" where
  "skip_value b t =
     (if t = BOOL then (if length b < 1 then (0, Some short_buffer) else (1, None))
      else if t = I32 then (if length b < 4 then (0, Some short_buffer) else (4, None))
      else if t = STRING then (case read_sized b of Inl e \<Rightarrow> (0, Some e) | Inr (s, l) \<Rightarrow> (l, None))
      else (0, Some (ExtError ''unknown type'')))"

definition binary :: thrift where
  "binary =
     \<lparr>tReadFieldBegin = read_field_begin,
      tSkip = skip_value,
      tReadString = read_sized,
      tReadBinary = read_sized,
      tReadI32 = (\<lambda>b. if length b < 4 then Inl short_buffer else Inr (word_of_nat (be_val (take 4 b)), 4)),
      tReadBool = (\<lambda>b. case b of [] \<Rightarrow> Inl short_buffer | c # r \<Rightarrow> Inr (of_char c = (1::nat), 1)),
      tWriteFieldBegin = (\<lambda>t fid. char_of (nat t) # be16 (nat fid)),
      tWriteFieldStop = [char_of (0::nat)],
      tWriteString = (\<lambda>s. be32 (length s) @ s),
      tWriteBinary = (\<lambda>s. be32 (length s) @ s),
      tWriteI32 = (\<lambda>i. be32 (unat i)),
      tWriteBool = (\<lambda>b. [char_of (if b then 1 else 0 :: nat)]),
      tFieldBeginLength = 3, tFieldStopLength = 1,
      tStringLength = (\<lambda>s. 4 + length s), tBinaryLength = (\<lambda>s. 4 + length s),
      tI32Length = 4, tBoolLength = 1,
      tPrependError = (\<lambda>p e. ExtError (p @ error_string e))\<rparr>"

lemma read_sized_be32:
  "size_ok s \<Longrightarrow> read_sized (be32 (length s) @ s @ rest) = Inr (s, 4 + length s)"
  by (simp add: read_sized_def be_val_be32 size_ok_def Let_def)

lemma read_sized_bound: "read_sized b = Inr (s, l) \<Longrightarrow> l \<le> length b"
  by (auto simp: read_sized_def Let_def split: if_splits)

lemma unat_bound: "unat (i :: 32 word) < 4294967296"
  using unsigned_less [of i, where 'a = nat] by simp

lemma binary_ok: "thrift_ok binary"
proof -
  have field: "read_field_begin ((char_of (nat t) # be16 (nat fid)) @ rest) = (t, fid, 3, None)"
    if "t \<noteq> STOP" "0 \<le> t" "t < 128" "0 \<le> fid" "fid < 32768" for t fid rest
    using that by (simp add: read_field_begin_def STOP_def be_val_be16 take_bit_eq_mod)
  have skip: "l \<le> length b" if "skip_value b t = (l, None)" for b t l
    using that read_sized_bound by (auto simp: skip_value_def Suc_le_eq split: if_splits sum.splits)
  have prog: "(t \<noteq> STOP \<longrightarrow> 0 < l) \<and> l \<le> length b" if "read_field_begin b = (t, fid, l, None)" for b t fid l
    using that by (auto simp: read_field_begin_def split: list.splits if_splits)
  have bounds: "tReadI32 binary b = Inr (i, l) \<Longrightarrow> l \<le> length b" "tReadBool binary b = Inr (x, l) \<Longrightarrow> l \<le> length b"
    for b i x l
    by (auto simp: binary_def split: if_splits list.splits)
  show ?thesis
    unfolding thrift_ok_def
    using bounds field skip prog read_sized_bound
    by (auto simp: binary_def read_sized_be32 be_val_be32 unat_bound skip_value_def ttypes
        read_field_begin_def)
qed

end
