(* ===== verification/KitexApi.thy ===== *)
theory KitexApi
  imports ThriftCodec WsState
begin

text \<open>
  The generated rpc types (\<^verbatim>\<open>kitex_gen/im/rpc/api.go\<close>, \<^verbatim>\<open>k-api.go\<close>):
  for every struct its constructor, the reading and writing of each
  field, the loop that reads the struct, the length and the bytes of the struct; the
  argument and result structs of the seven methods. A nil struct pointer is \<open>None\<close>.
\<close>

section \<open>Types\<close>

record rpc_request =
  rqMessage :: string

record rpc_response =
  rsMessage :: string


section \<open>Request\<close>

definition NewRpcRequest :: rpc_request where
  "NewRpcRequest = \<lparr>rqMessage = ''''\<rparr>"

definition fieldIDToName_Request :: "int \<Rightarrow> string" where
  "fieldIDToName_Request fid = (if fid = 1 then ''message'' else '''')"

definition Request_FastReadField1 :: "thrift \<Rightarrow> rpc_request \<Rightarrow> bytes \<Rightarrow> rpc_request \<times> nat \<times> go_error option" where
  "Request_FastReadField1 T p buf =
     (case tReadString T buf of Inl err \<Rightarrow> (p, 0, Some err) | Inr (v, l) \<Rightarrow> (p\<lparr>rqMessage := v\<rparr>, l, None))"

definition Request_fastWriteField1 :: "thrift \<Rightarrow> rpc_request \<Rightarrow> bytes" where
  "Request_fastWriteField1 T p = tWriteFieldBegin T STRING 1 @ tWriteString T (rqMessage p)"

definition Request_field1Length :: "thrift \<Rightarrow> rpc_request \<Rightarrow> nat" where
  "Request_field1Length T p = tFieldBeginLength T + tStringLength T (rqMessage p)"

definition Request_FastRead :: "thrift \<Rightarrow> rpc_request reader" where
  "Request_FastRead T p buf =
     fast_read T ''*rpc.Request'' fieldIDToName_Request (\<lambda>fid.
      if fid = 1 then Some (STRING, \<lambda>p b. Some (Request_FastReadField1 T p b))
      else None) p buf 0"

definition Request_FastWriteNocopy :: "thrift \<Rightarrow> rpc_request option \<Rightarrow> bytes" where
  "Request_FastWriteNocopy T q =
     (case q of None \<Rightarrow> [] | Some p \<Rightarrow> Request_fastWriteField1 T p) @ tWriteFieldStop T"

definition Request_BLength :: "thrift \<Rightarrow> rpc_request option \<Rightarrow> nat" where
  "Request_BLength T q =
     (case q of None \<Rightarrow> 0 | Some p \<Rightarrow> Request_field1Length T p) + tFieldStopLength T"

section \<open>Response\<close>

definition NewRpcResponse :: rpc_response where
  "NewRpcResponse = \<lparr>rsMessage = ''''\<rparr>"

definition fieldIDToName_Response :: "int \<Rightarrow> string" where
  "fieldIDToName_Response fid = (if fid = 1 then ''message'' else '''')"

definition Response_FastReadField1 :: "thrift \<Rightarrow> rpc_response \<Rightarrow> bytes \<Rightarrow> rpc_response \<times> nat \<times> go_error option" where
  "Response_FastReadField1 T p buf =
     (case tReadString T buf of Inl err \<Rightarrow> (p, 0, Some err) | Inr (v, l) \<Rightarrow> (p\<lparr>rsMessage := v\<rparr>, l, None))"

definition Response_fastWriteField1 :: "thrift \<Rightarrow> rpc_response \<Rightarrow> bytes" where
  "Response_fastWriteField1 T p = tWriteFieldBegin T STRING 1 @ tWriteString T (rsMessage p)"

definition Response_field1Length :: "thrift \<Rightarrow> rpc_response \<Rightarrow> nat" where
  "Response_field1Length T p = tFieldBeginLength T + tStringLength T (rsMessage p)"

definition Response_FastRead :: "thrift \<Rightarrow> rpc_response reader" where
  "Response_FastRead T p buf =
     fast_read T ''*rpc.Response'' fieldIDToName_Response (\<lambda>fid.
      if fid = 1 then Some (STRING, \<lambda>p b. Some (Response_FastReadField1 T p b))
      else None) p buf 0"

definition Response_FastWriteNocopy :: "thrift \<Rightarrow> rpc_response option \<Rightarrow> bytes" where
  "Response_FastWriteNocopy T q =
     (case q of None \<Rightarrow> [] | Some p \<Rightarrow> Response_fastWriteField1 T p) @ tWriteFieldStop T"

definition Response_BLength :: "thrift \<Rightarrow> rpc_response option \<Rightarrow> nat" where
  "Response_BLength T q =
     (case q of None \<Rightarrow> 0 | Some p \<Rightarrow> Response_field1Length T p) + tFieldStopLength T"

section \<open>SendMsgReq\<close>

definition NewSendMsgReq :: send_msg_req where
  "NewSendMsgReq = \<lparr>smqUid = '''', smqMsg = ''''\<rparr>"

definition fieldIDToName_SendMsgReq :: "int \<Rightarrow> string" where
  "fieldIDToName_SendMsgReq fid = (if fid = 1 then ''uid'' else if fid = 2 then ''msg'' else '''')"

definition SendMsgReq_FastReadField1 :: "thrift \<Rightarrow> send_msg_req \<Rightarrow> bytes \<Rightarrow> send_msg_req \<times> nat \<times> go_error option" where
  "SendMsgReq_FastReadField1 T p buf =
     (case tReadString T buf of Inl err \<Rightarrow> (p, 0, Some err) | Inr (v, l) \<Rightarrow> (p\<lparr>smqUid := v\<rparr>, l, None))"

definition SendMsgReq_fastWriteField1 :: "thrift \<Rightarrow> send_msg_req \<Rightarrow> bytes" where
  "SendMsgReq_fastWriteField1 T p = tWriteFieldBegin T STRING 1 @ tWriteString T (smqUid p)"

definition SendMsgReq_field1Length :: "thrift \<Rightarrow> send_msg_req \<Rightarrow> nat" where
  "SendMsgReq_field1Length T p = tFieldBeginLength T + tStringLength T (smqUid p)"

definition SendMsgReq_FastReadField2 :: "thrift \<Rightarrow> send_msg_req \<Rightarrow> bytes \<Rightarrow> send_msg_req \<times> nat \<times> go_error option" where
  "SendMsgReq_FastReadField2 T p buf =
     (case tReadBinary T buf of Inl err \<Rightarrow> (p, 0, Some err) | Inr (v, l) \<Rightarrow> (p\<lparr>smqMsg := v\<rparr>, l, None))"

definition SendMsgReq_fastWriteField2 :: "thrift \<Rightarrow> send_msg_req \<Rightarrow> bytes" where
  "SendMsgReq_fastWriteField2 T p = tWriteFieldBegin T STRING 2 @ tWriteBinary T (smqMsg p)"

definition SendMsgReq_field2Length :: "thrift \<Rightarrow> send_msg_req \<Rightarrow> nat" where
  "SendMsgReq_field2Length T p = tFieldBeginLength T + tBinaryLength T (smqMsg p)"

definition SendMsgReq_FastRead :: "thrift \<Rightarrow> send_msg_req reader" where
  "SendMsgReq_FastRead T p buf =
     fast_read T ''*rpc.SendMsgReq'' fieldIDToName_SendMsgReq (\<lambda>fid.
      if fid = 1 then Some (STRING, \<lambda>p b. Some (SendMsgReq_FastReadField1 T p b))
      else if fid = 2 then Some (STRING, \<lambda>p b. Some (SendMsgReq_FastReadField2 T p b))
      else None) p buf 0"

definition SendMsgReq_FastWriteNocopy :: "thrift \<Rightarrow> send_msg_req option \<Rightarrow> bytes" where
  "SendMsgReq_FastWriteNocopy T q =
     (case q of None \<Rightarrow> [] | Some p \<Rightarrow> SendMsgReq_fastWriteField1 T p @ SendMsgReq_fastWriteField2 T p) @ tWriteFieldStop T"

definition SendMsgReq_BLength :: "thrift \<Rightarrow> send_msg_req option \<Rightarrow> nat" where
  "SendMsgReq_BLength T q =
     (case q of None \<Rightarrow> 0 | Some p \<Rightarrow> SendMsgReq_field1Length T p + SendMsgReq_field2Length T p) + tFieldStopLength T"

section \<open>SendMsgRsp\<close>

definition NewSendMsgRsp :: send_msg_rsp where
  "NewSendMsgRsp = \<lparr>smrRetCode = 0\<rparr>"

definition fieldIDToName_SendMsgRsp :: "int \<Rightarrow> string" where
  "fieldIDToName_SendMsgRsp fid = (if fid = 1 then ''retCode'' else '''')"

definition SendMsgRsp_FastReadField1 :: "thrift \<Rightarrow> send_msg_rsp \<Rightarrow> bytes \<Rightarrow> send_msg_rsp \<times> nat \<times> go_error option" where
  "SendMsgRsp_FastReadField1 T p buf =
     (case tReadI32 T buf of Inl err \<Rightarrow> (p, 0, Some err) | Inr (v, l) \<Rightarrow> (p\<lparr>smrRetCode := v\<rparr>, l, None))"

definition SendMsgRsp_fastWriteField1 :: "thrift \<Rightarrow> send_msg_rsp \<Rightarrow> bytes" where
  "SendMsgRsp_fastWriteField1 T p = tWriteFieldBegin T I32 1 @ tWriteI32 T (smrRetCode p)"

definition SendMsgRsp_field1Length :: "thrift \<Rightarrow> send_msg_rsp \<Rightarrow> nat" where
  "SendMsgRsp_field1Length T p = tFieldBeginLength T + tI32Length T"

definition SendMsgRsp_FastRead :: "thrift \<Rightarrow> send_msg_rsp reader" where
  "SendMsgRsp_FastRead T p buf =
     fast_read T ''*rpc.SendMsgRsp'' fieldIDToName_SendMsgRsp (\<lambda>fid.
      if fid = 1 then Some (I32, \<lambda>p b. Some (SendMsgRsp_FastReadField1 T p b))
      else None) p buf 0"

definition SendMsgRsp_FastWriteNocopy :: "thrift \<Rightarrow> send_msg_rsp option \<Rightarrow> bytes" where
  "SendMsgRsp_FastWriteNocopy T q =
     (case q of None \<Rightarrow> [] | Some p \<Rightarrow> SendMsgRsp_fastWriteField1 T p) @ tWriteFieldStop T"

definition SendMsgRsp_BLength :: "thrift \<Rightarrow> send_msg_rsp option \<Rightarrow> nat" where
  "SendMsgRsp_BLength T q =
     (case q of None \<Rightarrow> 0 | Some p \<Rightarrow> SendMsgRsp_field1Length T p) + tFieldStopLength T"

section \<open>SendMsgByTgidReq\<close>

definition NewSendMsgByTgidReq :: send_msg_by_tgid_req where
  "NewSendMsgByTgidReq = \<lparr>sbtUid = '''', sbtTgid = '''', sbtMsg = ''''\<rparr>"

definition fieldIDToName_SendMsgByTgidReq :: "int \<Rightarrow> string" where
  "fieldIDToName_SendMsgByTgidReq fid = (if fid = 1 then ''uid'' else if fid = 2 then ''tgid'' else if fid = 3 then ''msg'' else '''')"

definition SendMsgByTgidReq_FastReadField1 :: "thrift \<Rightarrow> send_msg_by_tgid_req \<Rightarrow> bytes \<Rightarrow> send_msg_by_tgid_req \<times> nat \<times> go_error option" where
  "SendMsgByTgidReq_FastReadField1 T p buf =
     (case tReadString T buf of Inl err \<Rightarrow> (p, 0, Some err) | Inr (v, l) \<Rightarrow> (p\<lparr>sbtUid := v\<rparr>, l, None))"

definition SendMsgByTgidReq_fastWriteField1 :: "thrift \<Rightarrow> send_msg_by_tgid_req \<Rightarrow> bytes" where
  "SendMsgByTgidReq_fastWriteField1 T p = tWriteFieldBegin T STRING 1 @ tWriteString T (sbtUid p)"

definition SendMsgByTgidReq_field1Length :: "thrift \<Rightarrow> send_msg_by_tgid_req \<Rightarrow> nat" where
  "SendMsgByTgidReq_field1Length T p = tFieldBeginLength T + tStringLength T (sbtUid p)"

definition SendMsgByTgidReq_FastReadField2 :: "thrift \<Rightarrow> send_msg_by_tgid_req \<Rightarrow> bytes \<Rightarrow> send_msg_by_tgid_req \<times> nat \<times> go_error option" where
  "SendMsgByTgidReq_FastReadField2 T p buf =
     (case tReadString T buf of Inl err \<Rightarrow> (p, 0, Some err) | Inr (v, l) \<Rightarrow> (p\<lparr>sbtTgid := v\<rparr>, l, None))"

definition SendMsgByTgidReq_fastWriteField2 :: "thrift \<Rightarrow> send_msg_by_tgid_req \<Rightarrow> bytes" where
  "SendMsgByTgidReq_fastWriteField2 T p = tWriteFieldBegin T STRING 2 @ tWriteString T (sbtTgid p)"

definition SendMsgByTgidReq_field2Length :: "thrift \<Rightarrow> send_msg_by_tgid_req \<Rightarrow> nat" where
  "SendMsgByTgidReq_field2Length T p = tFieldBeginLength T + tStringLength T (sbtTgid p)"

definition SendMsgByTgidReq_FastReadField3 :: "thrift \<Rightarrow> send_msg_by_tgid_req \<Rightarrow> bytes \<Rightarrow> send_msg_by_tgid_req \<times> nat \<times> go_error option" where
  "SendMsgByTgidReq_FastReadField3 T p buf =
     (case tReadBinary T buf of Inl err \<Rightarrow> (p, 0, Some err) | Inr (v, l) \<Rightarrow> (p\<lparr>sbtMsg := v\<rparr>, l, None))"

definition SendMsgByTgidReq_fastWriteField3 :: "thrift \<Rightarrow> send_msg_by_tgid_req \<Rightarrow> bytes" where
  "SendMsgByTgidReq_fastWriteField3 T p = tWriteFieldBegin T STRING 3 @ tWriteBinary T (sbtMsg p)"

definition SendMsgByTgidReq_field3Length :: "thrift \<Rightarrow> send_msg_by_tgid_req \<Rightarrow> nat" where
  "SendMsgByTgidReq_field3Length T p = tFieldBeginLength T + tBinaryLength T (sbtMsg p)"

definition SendMsgByTgidReq_FastRead :: "thrift \<Rightarrow> send_msg_by_tgid_req reader" where
  "SendMsgByTgidReq_FastRead T p buf =
     fast_read T ''*rpc.SendMsgByTgidReq'' fieldIDToName_SendMsgByTgidReq (\<lambda>fid.
      if fid = 1 then Some (STRING, \<lambda>p b. Some (SendMsgByTgidReq_FastReadField1 T p b))
      else if fid = 2 then Some (STRING, \<lambda>p b. Some (SendMsgByTgidReq_FastReadField2 T p b))
      else if fid = 3 then Some (STRING, \<lambda>p b. Some (SendMsgByTgidReq_FastReadField3 T p b))
      else None) p buf 0"

definition SendMsgByTgidReq_FastWriteNocopy :: "thrift \<Rightarrow> send_msg_by_tgid_req option \<Rightarrow> bytes" where
  "SendMsgByTgidReq_FastWriteNocopy T q =
     (case q of None \<Rightarrow> [] | Some p \<Rightarrow> SendMsgByTgidReq_fastWriteField1 T p @ SendMsgByTgidReq_fastWriteField2 T p @ SendMsgByTgidReq_fastWriteField3 T p) @ tWriteFieldStop T"

definition SendMsgByTgidReq_BLength :: "thrift \<Rightarrow> send_msg_by_tgid_req option \<Rightarrow> nat" where
  "SendMsgByTgidReq_BLength T q =
     (case q of None \<Rightarrow> 0 | Some p \<Rightarrow> SendMsgByTgidReq_field1Length T p + SendMsgByTgidReq_field2Length T p + SendMsgByTgidReq_field3Length T p) + tFieldStopLength T"

section \<open>UserIdReq\<close>

definition NewUserIdReq :: user_id_req where
  "NewUserIdReq = \<lparr>uirUid = ''''\<rparr>"

definition fieldIDToName_UserIdReq :: "int \<Rightarrow> string" where
  "fieldIDToName_UserIdReq fid = (if fid = 1 then ''uid'' else '''')"

definition UserIdReq_FastReadField1 :: "thrift \<Rightarrow> user_id_req \<Rightarrow> bytes \<Rightarrow> user_id_req \<times> nat \<times> go_error option" where
  "UserIdReq_FastReadField1 T p buf =
     (case tReadString T buf of Inl err \<Rightarrow> (p, 0, Some err) | Inr (v, l) \<Rightarrow> (p\<lparr>uirUid := v\<rparr>, l, None))"

definition UserIdReq_fastWriteField1 :: "thrift \<Rightarrow> user_id_req \<Rightarrow> bytes" where
  "UserIdReq_fastWriteField1 T p = tWriteFieldBegin T STRING 1 @ tWriteString T (uirUid p)"

definition UserIdReq_field1Length :: "thrift \<Rightarrow> user_id_req \<Rightarrow> nat" where
  "UserIdReq_field1Length T p = tFieldBeginLength T + tStringLength T (uirUid p)"

definition UserIdReq_FastRead :: "thrift \<Rightarrow> user_id_req reader" where
  "UserIdReq_FastRead T p buf =
     fast_read T ''*rpc.UserIdReq'' fieldIDToName_UserIdReq (\<lambda>fid.
      if fid = 1 then Some (STRING, \<lambda>p b. Some (UserIdReq_FastReadField1 T p b))
      else None) p buf 0"

definition UserIdReq_FastWriteNocopy :: "thrift \<Rightarrow> user_id_req option \<Rightarrow> bytes" where
  "UserIdReq_FastWriteNocopy T q =
     (case q of None \<Rightarrow> [] | Some p \<Rightarrow> UserIdReq_fastWriteField1 T p) @ tWriteFieldStop T"

definition UserIdReq_BLength :: "thrift \<Rightarrow> user_id_req option \<Rightarrow> nat" where
  "UserIdReq_BLength T q =
     (case q of None \<Rightarrow> 0 | Some p \<Rightarrow> UserIdReq_field1Length T p) + tFieldStopLength T"

section \<open>StopUserClientRsp\<close>

definition NewStopUserClientRsp :: stop_user_client_rsp where
  "NewStopUserClientRsp = \<lparr>sucRes = False\<rparr>"

definition fieldIDToName_StopUserClientRsp :: "int \<Rightarrow> string" where
  "fieldIDToName_StopUserClientRsp fid = (if fid = 1 then ''res'' else '''')"

definition StopUserClientRsp_FastReadField1 :: "thrift \<Rightarrow> stop_user_client_rsp \<Rightarrow> bytes \<Rightarrow> stop_user_client_rsp \<times> nat \<times> go_error option" where
  "StopUserClientRsp_FastReadField1 T p buf =
     (case tReadBool T buf of Inl err \<Rightarrow> (p, 0, Some err) | Inr (v, l) \<Rightarrow> (p\<lparr>sucRes := v\<rparr>, l, None))"

definition StopUserClientRsp_fastWriteField1 :: "thrift \<Rightarrow> stop_user_client_rsp \<Rightarrow> bytes" where
  "StopUserClientRsp_fastWriteField1 T p = tWriteFieldBegin T BOOL 1 @ tWriteBool T (sucRes p)"

definition StopUserClientRsp_field1Length :: "thrift \<Rightarrow> stop_user_client_rsp \<Rightarrow> nat" where
  "StopUserClientRsp_field1Length T p = tFieldBeginLength T + tBoolLength T"

definition StopUserClientRsp_FastRead :: "thrift \<Rightarrow> stop_user_client_rsp reader" where
  "StopUserClientRsp_FastRead T p buf =
     fast_read T ''*rpc.StopUserClientRsp'' fieldIDToName_StopUserClientRsp (\<lambda>fid.
      if fid = 1 then Some (BOOL, \<lambda>p b. Some (StopUserClientRsp_FastReadField1 T p b))
      else None) p buf 0"

definition StopUserClientRsp_FastWriteNocopy :: "thrift \<Rightarrow> stop_user_client_rsp option \<Rightarrow> bytes" where
  "StopUserClientRsp_FastWriteNocopy T q =
     (case q of None \<Rightarrow> [] | Some p \<Rightarrow> StopUserClientRsp_fastWriteField1 T p) @ tWriteFieldStop T"

definition StopUserClientRsp_BLength :: "thrift \<Rightarrow> stop_user_client_rsp option \<Rightarrow> nat" where
  "StopUserClientRsp_BLength T q =
     (case q of None \<Rightarrow> 0 | Some p \<Rightarrow> StopUserClientRsp_field1Length T p) + tFieldStopLength T"

section \<open>BytesRsp\<close>

definition NewBytesRsp :: bytes_rsp where
  "NewBytesRsp = \<lparr>brData = ''''\<rparr>"

definition fieldIDToName_BytesRsp :: "int \<Rightarrow> string" where
  "fieldIDToName_BytesRsp fid = (if fid = 1 then ''data'' else '''')"

definition BytesRsp_FastReadField1 :: "thrift \<Rightarrow> bytes_rsp \<Rightarrow> bytes \<Rightarrow> bytes_rsp \<times> nat \<times> go_error option" where
  "BytesRsp_FastReadField1 T p buf =
     (case tReadBinary T buf of Inl err \<Rightarrow> (p, 0, Some err) | Inr (v, l) \<Rightarrow> (p\<lparr>brData := v\<rparr>, l, None))"

definition BytesRsp_fastWriteField1 :: "thrift \<Rightarrow> bytes_rsp \<Rightarrow> bytes" where
  "BytesRsp_fastWriteField1 T p = tWriteFieldBegin T STRING 1 @ tWriteBinary T (brData p)"

definition BytesRsp_field1Length :: "thrift \<Rightarrow> bytes_rsp \<Rightarrow> nat" where
  "BytesRsp_field1Length T p = tFieldBeginLength T + tBinaryLength T (brData p)"

definition BytesRsp_FastRead :: "thrift \<Rightarrow> bytes_rsp reader" where
  "BytesRsp_FastRead T p buf =
     fast_read T ''*rpc.BytesRsp'' fieldIDToName_BytesRsp (\<lambda>fid.
      if fid = 1 then Some (STRING, \<lambda>p b. Some (BytesRsp_FastReadField1 T p b))
      else None) p buf 0"

definition BytesRsp_FastWriteNocopy :: "thrift \<Rightarrow> bytes_rsp option \<Rightarrow> bytes" where
  "BytesRsp_FastWriteNocopy T q =
     (case q of None \<Rightarrow> [] | Some p \<Rightarrow> BytesRsp_fastWriteField1 T p) @ tWriteFieldStop T"

definition BytesRsp_BLength :: "thrift \<Rightarrow> bytes_rsp option \<Rightarrow> nat" where
  "BytesRsp_BLength T q =
     (case q of None \<Rightarrow> 0 | Some p \<Rightarrow> BytesRsp_field1Length T p) + tFieldStopLength T"

section \<open>JoinGroupReq\<close>

definition NewJoinGroupReq :: join_group_req where
  "NewJoinGroupReq = \<lparr>jgqUid = '''', jgqTgid = ''''\<rparr>"

definition fieldIDToName_JoinGroupReq :: "int \<Rightarrow> string" where
  "fieldIDToName_JoinGroupReq fid = (if fid = 1 then ''uid'' else if fid = 2 then ''tgid'' else '''')"

definition JoinGroupReq_FastReadField1 :: "thrift \<Rightarrow> join_group_req \<Rightarrow> bytes \<Rightarrow> join_group_req \<times> nat \<times> go_error option" where
  "JoinGroupReq_FastReadField1 T p buf =
     (case tReadString T buf of Inl err \<Rightarrow> (p, 0, Some err) | Inr (v, l) \<Rightarrow> (p\<lparr>jgqUid := v\<rparr>, l, None))"

definition JoinGroupReq_fastWriteField1 :: "thrift \<Rightarrow> join_group_req \<Rightarrow> bytes" where
  "JoinGroupReq_fastWriteField1 T p = tWriteFieldBegin T STRING 1 @ tWriteString T (jgqUid p)"

definition JoinGroupReq_field1Length :: "thrift \<Rightarrow> join_group_req \<Rightarrow> nat" where
  "JoinGroupReq_field1Length T p = tFieldBeginLength T + tStringLength T (jgqUid p)"

definition JoinGroupReq_FastReadField2 :: "thrift \<Rightarrow> join_group_req \<Rightarrow> bytes \<Rightarrow> join_group_req \<times> nat \<times> go_error option" where
  "JoinGroupReq_FastReadField2 T p buf =
     (case tReadString T buf of Inl err \<Rightarrow> (p, 0, Some err) | Inr (v, l) \<Rightarrow> (p\<lparr>jgqTgid := v\<rparr>, l, None))"

definition JoinGroupReq_fastWriteField2 :: "thrift \<Rightarrow> join_group_req \<Rightarrow> bytes" where
  "JoinGroupReq_fastWriteField2 T p = tWriteFieldBegin T STRING 2 @ tWriteString T (jgqTgid p)"

definition JoinGroupReq_field2Length :: "thrift \<Rightarrow> join_group_req \<Rightarrow> nat" where
  "JoinGroupReq_field2Length T p = tFieldBeginLength T + tStringLength T (jgqTgid p)"

definition JoinGroupReq_FastRead :: "thrift \<Rightarrow> join_group_req reader" where
  "JoinGroupReq_FastRead T p buf =
     fast_read T ''*rpc.JoinGroupReq'' fieldIDToName_JoinGroupReq (\<lambda>fid.
      if fid = 1 then Some (STRING, \<lambda>p b. Some (JoinGroupReq_FastReadField1 T p b))
      else if fid = 2 then Some (STRING, \<lambda>p b. Some (JoinGroupReq_FastReadField2 T p b))
      else None) p buf 0"

definition JoinGroupReq_FastWriteNocopy :: "thrift \<Rightarrow> join_group_req option \<Rightarrow> bytes" where
  "JoinGroupReq_FastWriteNocopy T q =
     (case q of None \<Rightarrow> [] | Some p \<Rightarrow> JoinGroupReq_fastWriteField1 T p @ JoinGroupReq_fastWriteField2 T p) @ tWriteFieldStop T"

definition JoinGroupReq_BLength :: "thrift \<Rightarrow> join_group_req option \<Rightarrow> nat" where
  "JoinGroupReq_BLength T q =
     (case q of None \<Rightarrow> 0 | Some p \<Rightarrow> JoinGroupReq_field1Length T p + JoinGroupReq_field2Length T p) + tFieldStopLength T"

section \<open>JoinGroupRes\<close>

definition NewJoinGroupRes :: join_group_res where
  "NewJoinGroupRes = \<lparr>jgrRes = False\<rparr>"

definition fieldIDToName_JoinGroupRes :: "int \<Rightarrow> string" where
  "fieldIDToName_JoinGroupRes fid = (if fid = 1 then ''res'' else '''')"

definition JoinGroupRes_FastReadField1 :: "thrift \<Rightarrow> join_group_res \<Rightarrow> bytes \<Rightarrow> join_group_res \<times> nat \<times> go_error option" where
  "JoinGroupRes_FastReadField1 T p buf =
     (case tReadBool T buf of Inl err \<Rightarrow> (p, 0, Some err) | Inr (v, l) \<Rightarrow> (p\<lparr>jgrRes := v\<rparr>, l, None))"

definition JoinGroupRes_fastWriteField1 :: "thrift \<Rightarrow> join_group_res \<Rightarrow> bytes" where
  "JoinGroupRes_fastWriteField1 T p = tWriteFieldBegin T BOOL 1 @ tWriteBool T (jgrRes p)"

definition JoinGroupRes_field1Length :: "thrift \<Rightarrow> join_group_res \<Rightarrow> nat" where
  "JoinGroupRes_field1Length T p = tFieldBeginLength T + tBoolLength T"

definition JoinGroupRes_FastRead :: "thrift \<Rightarrow> join_group_res reader" where
  "JoinGroupRes_FastRead T p buf =
     fast_read T ''*rpc.JoinGroupRes'' fieldIDToName_JoinGroupRes (\<lambda>fid.
      if fid = 1 then Some (BOOL, \<lambda>p b. Some (JoinGroupRes_FastReadField1 T p b))
      else None) p buf 0"

definition JoinGroupRes_FastWriteNocopy :: "thrift \<Rightarrow> join_group_res option \<Rightarrow> bytes" where
  "JoinGroupRes_FastWriteNocopy T q =
     (case q of None \<Rightarrow> [] | Some p \<Rightarrow> JoinGroupRes_fastWriteField1 T p) @ tWriteFieldStop T"

definition JoinGroupRes_BLength :: "thrift \<Rightarrow> join_group_res option \<Rightarrow> nat" where
  "JoinGroupRes_BLength T q =
     (case q of None \<Rightarrow> 0 | Some p \<Rightarrow> JoinGroupRes_field1Length T p) + tFieldStopLength T"

section \<open>Hello\<close>

definition NewImRpcHelloArgs :: "rpc_request rpc_args" where
  "NewImRpcHelloArgs = \<lparr>Req = None\<rparr>"

definition fieldIDToName_ImRpcHelloArgs :: "int \<Rightarrow> string" where
  "fieldIDToName_ImRpcHelloArgs fid = (if fid = 1 then ''req'' else '''')"

definition ImRpcHelloArgs_FastReadField1 :: "thrift \<Rightarrow> rpc_request rpc_args reader" where
  "ImRpcHelloArgs_FastReadField1 T = read_nested (Request_FastRead T) NewRpcRequest (\<lambda>v p. p\<lparr>Req := Some v\<rparr>)"

definition ImRpcHelloArgs_fastWriteField1 :: "thrift \<Rightarrow> rpc_request rpc_args \<Rightarrow> bytes" where
  "ImRpcHelloArgs_fastWriteField1 T p = tWriteFieldBegin T STRUCT 1 @ Request_FastWriteNocopy T (Req p)"

definition ImRpcHelloArgs_field1Length :: "thrift \<Rightarrow> rpc_request rpc_args \<Rightarrow> nat" where
  "ImRpcHelloArgs_field1Length T p = tFieldBeginLength T + Request_BLength T (Req p)"

definition ImRpcHelloArgs_FastRead :: "thrift \<Rightarrow> rpc_request rpc_args reader" where
  "ImRpcHelloArgs_FastRead T p buf =
     fast_read T ''*rpc.ImRpcHelloArgs'' fieldIDToName_ImRpcHelloArgs (\<lambda>fid.
      if fid = 1 then Some (STRUCT, ImRpcHelloArgs_FastReadField1 T) else None) p buf 0"

definition ImRpcHelloArgs_FastWriteNocopy :: "thrift \<Rightarrow> rpc_request rpc_args option \<Rightarrow> bytes" where
  "ImRpcHelloArgs_FastWriteNocopy T q =
     (case q of None \<Rightarrow> [] | Some p \<Rightarrow> ImRpcHelloArgs_fastWriteField1 T p) @ tWriteFieldStop T"

definition ImRpcHelloArgs_BLength :: "thrift \<Rightarrow> rpc_request rpc_args option \<Rightarrow> nat" where
  "ImRpcHelloArgs_BLength T q =
     (case q of None \<Rightarrow> 0 | Some p \<Rightarrow> ImRpcHelloArgs_field1Length T p) + tFieldStopLength T"

definition NewImRpcHelloResult :: "rpc_response rpc_result" where
  "NewImRpcHelloResult = \<lparr>Success = None\<rparr>"

definition fieldIDToName_ImRpcHelloResult :: "int \<Rightarrow> string" where
  "fieldIDToName_ImRpcHelloResult fid = (if fid = 0 then ''success'' else '''')"

definition ImRpcHelloResult_FastReadField0 :: "thrift \<Rightarrow> rpc_response rpc_result reader" where
  "ImRpcHelloResult_FastReadField0 T = read_nested (Response_FastRead T) NewRpcResponse (\<lambda>v p. p\<lparr>Success := Some v\<rparr>)"

definition ImRpcHelloResult_fastWriteField0 :: "thrift \<Rightarrow> rpc_response rpc_result \<Rightarrow> bytes" where
  "ImRpcHelloResult_fastWriteField0 T p =
     (if Success p \<noteq> None then tWriteFieldBegin T STRUCT 0 @ Response_FastWriteNocopy T (Success p) else [])"

definition ImRpcHelloResult_field0Length :: "thrift \<Rightarrow> rpc_response rpc_result \<Rightarrow> nat" where
  "ImRpcHelloResult_field0Length T p =
     (if Success p \<noteq> None then tFieldBeginLength T + Response_BLength T (Success p) else 0)"

definition ImRpcHelloResult_FastRead :: "thrift \<Rightarrow> rpc_response rpc_result reader" where
  "ImRpcHelloResult_FastRead T p buf =
     fast_read T ''*rpc.ImRpcHelloResult'' fieldIDToName_ImRpcHelloResult (\<lambda>fid.
      if fid = 0 then Some (STRUCT, ImRpcHelloResult_FastReadField0 T) else None) p buf 0"

definition ImRpcHelloResult_FastWriteNocopy :: "thrift \<Rightarrow> rpc_response rpc_result option \<Rightarrow> bytes" where
  "ImRpcHelloResult_FastWriteNocopy T q =
     (case q of None \<Rightarrow> [] | Some p \<Rightarrow> ImRpcHelloResult_fastWriteField0 T p) @ tWriteFieldStop T"

definition ImRpcHelloResult_BLength :: "thrift \<Rightarrow> rpc_response rpc_result option \<Rightarrow> nat" where
  "ImRpcHelloResult_BLength T q =
     (case q of None \<Rightarrow> 0 | Some p \<Rightarrow> ImRpcHelloResult_field0Length T p) + tFieldStopLength T"

section \<open>SendMsgToUser\<close>

definition NewImRpcSendMsgToUserArgs :: "send_msg_req rpc_args" where
  "NewImRpcSendMsgToUserArgs = \<lparr>Req = None\<rparr>"

definition fieldIDToName_ImRpcSendMsgToUserArgs :: "int \<Rightarrow> string" where
  "fieldIDToName_ImRpcSendMsgToUserArgs fid = (if fid = 1 then ''req'' else '''')"

definition ImRpcSendMsgToUserArgs_FastReadField1 :: "thrift \<Rightarrow> send_msg_req rpc_args reader" where
  "ImRpcSendMsgToUserArgs_FastReadField1 T = read_nested (SendMsgReq_FastRead T) NewSendMsgReq (\<lambda>v p. p\<lparr>Req := Some v\<rparr>)"

definition ImRpcSendMsgToUserArgs_fastWriteField1 :: "thrift \<Rightarrow> send_msg_req rpc_args \<Rightarrow> bytes" where
  "ImRpcSendMsgToUserArgs_fastWriteField1 T p = tWriteFieldBegin T STRUCT 1 @ SendMsgReq_FastWriteNocopy T (Req p)"

definition ImRpcSendMsgToUserArgs_field1Length :: "thrift \<Rightarrow> send_msg_req rpc_args \<Rightarrow> nat" where
  "ImRpcSendMsgToUserArgs_field1Length T p = tFieldBeginLength T + SendMsgReq_BLength T (Req p)"

definition ImRpcSendMsgToUserArgs_FastRead :: "thrift \<Rightarrow> send_msg_req rpc_args reader" where
  "ImRpcSendMsgToUserArgs_FastRead T p buf =
     fast_read T ''*rpc.ImRpcSendMsgToUserArgs'' fieldIDToName_ImRpcSendMsgToUserArgs (\<lambda>fid.
      if fid = 1 then Some (STRUCT, ImRpcSendMsgToUserArgs_FastReadField1 T) else None) p buf 0"

definition ImRpcSendMsgToUserArgs_FastWriteNocopy :: "thrift \<Rightarrow> send_msg_req rpc_args option \<Rightarrow> bytes" where
  "ImRpcSendMsgToUserArgs_FastWriteNocopy T q =
     (case q of None \<Rightarrow> [] | Some p \<Rightarrow> ImRpcSendMsgToUserArgs_fastWriteField1 T p) @ tWriteFieldStop T"

definition ImRpcSendMsgToUserArgs_BLength :: "thrift \<Rightarrow> send_msg_req rpc_args option \<Rightarrow> nat" where
  "ImRpcSendMsgToUserArgs_BLength T q =
     (case q of None \<Rightarrow> 0 | Some p \<Rightarrow> ImRpcSendMsgToUserArgs_field1Length T p) + tFieldStopLength T"

definition NewImRpcSendMsgToUserResult :: "send_msg_rsp rpc_result" where
  "NewImRpcSendMsgToUserResult = \<lparr>Success = None\<rparr>"

definition fieldIDToName_ImRpcSendMsgToUserResult :: "int \<Rightarrow> string" where
  "fieldIDToName_ImRpcSendMsgToUserResult fid = (if fid = 0 then ''success'' else '''')"

definition ImRpcSendMsgToUserResult_FastReadField0 :: "thrift \<Rightarrow> send_msg_rsp rpc_result reader" where
  "ImRpcSendMsgToUserResult_FastReadField0 T = read_nested (SendMsgRsp_FastRead T) NewSendMsgRsp (\<lambda>v p. p\<lparr>Success := Some v\<rparr>)"

definition ImRpcSendMsgToUserResult_fastWriteField0 :: "thrift \<Rightarrow> send_msg_rsp rpc_result \<Rightarrow> bytes" where
  "ImRpcSendMsgToUserResult_fastWriteField0 T p =
     (if Success p \<noteq> None then tWriteFieldBegin T STRUCT 0 @ SendMsgRsp_FastWriteNocopy T (Success p) else [])"

definition ImRpcSendMsgToUserResult_field0Length :: "thrift \<Rightarrow> send_msg_rsp rpc_result \<Rightarrow> nat" where
  "ImRpcSendMsgToUserResult_field0Length T p =
     (if Success p \<noteq> None then tFieldBeginLength T + SendMsgRsp_BLength T (Success p) else 0)"

definition ImRpcSendMsgToUserResult_FastRead :: "thrift \<Rightarrow> send_msg_rsp rpc_result reader" where
  "ImRpcSendMsgToUserResult_FastRead T p buf =
     fast_read T ''*rpc.ImRpcSendMsgToUserResult'' fieldIDToName_ImRpcSendMsgToUserResult (\<lambda>fid.
      if fid = 0 then Some (STRUCT, ImRpcSendMsgToUserResult_FastReadField0 T) else None) p buf 0"

definition ImRpcSendMsgToUserResult_FastWriteNocopy :: "thrift \<Rightarrow> send_msg_rsp rpc_result option \<Rightarrow> bytes" where
  "ImRpcSendMsgToUserResult_FastWriteNocopy T q =
     (case q of None \<Rightarrow> [] | Some p \<Rightarrow> ImRpcSendMsgToUserResult_fastWriteField0 T p) @ tWriteFieldStop T"

definition ImRpcSendMsgToUserResult_BLength :: "thrift \<Rightarrow> send_msg_rsp rpc_result option \<Rightarrow> nat" where
  "ImRpcSendMsgToUserResult_BLength T q =
     (case q of None \<Rightarrow> 0 | Some p \<Rightarrow> ImRpcSendMsgToUserResult_field0Length T p) + tFieldStopLength T"

section \<open>SendMsgToUserByTgid\<close>

definition NewImRpcSendMsgToUserByTgidArgs :: "send_msg_by_tgid_req rpc_args" where
  "NewImRpcSendMsgToUserByTgidArgs = \<lparr>Req = None\<rparr>"

definition fieldIDToName_ImRpcSendMsgToUserByTgidArgs :: "int \<Rightarrow> string" where
  "fieldIDToName_ImRpcSendMsgToUserByTgidArgs fid = (if fid = 1 then ''req'' else '''')"

definition ImRpcSendMsgToUserByTgidArgs_FastReadField1 :: "thrift \<Rightarrow> send_msg_by_tgid_req rpc_args reader" where
  "ImRpcSendMsgToUserByTgidArgs_FastReadField1 T = read_nested (SendMsgByTgidReq_FastRead T) NewSendMsgByTgidReq (\<lambda>v p. p\<lparr>Req := Some v\<rparr>)"

definition ImRpcSendMsgToUserByTgidArgs_fastWriteField1 :: "thrift \<Rightarrow> send_msg_by_tgid_req rpc_args \<Rightarrow> bytes" where
  "ImRpcSendMsgToUserByTgidArgs_fastWriteField1 T p = tWriteFieldBegin T STRUCT 1 @ SendMsgByTgidReq_FastWriteNocopy T (Req p)"

definition ImRpcSendMsgToUserByTgidArgs_field1Length :: "thrift \<Rightarrow> send_msg_by_tgid_req rpc_args \<Rightarrow> nat" where
  "ImRpcSendMsgToUserByTgidArgs_field1Length T p = tFieldBeginLength T + SendMsgByTgidReq_BLength T (Req p)"

definition ImRpcSendMsgToUserByTgidArgs_FastRead :: "thrift \<Rightarrow> send_msg_by_tgid_req rpc_args reader" where
  "ImRpcSendMsgToUserByTgidArgs_FastRead T p buf =
     fast_read T ''*rpc.ImRpcSendMsgToUserByTgidArgs'' fieldIDToName_ImRpcSendMsgToUserByTgidArgs (\<lambda>fid.
      if fid = 1 then Some (STRUCT, ImRpcSendMsgToUserByTgidArgs_FastReadField1 T) else None) p buf 0"

definition ImRpcSendMsgToUserByTgidArgs_FastWriteNocopy :: "thrift \<Rightarrow> send_msg_by_tgid_req rpc_args option \<Rightarrow> bytes" where
  "ImRpcSendMsgToUserByTgidArgs_FastWriteNocopy T q =
     (case q of None \<Rightarrow> [] | Some p \<Rightarrow> ImRpcSendMsgToUserByTgidArgs_fastWriteField1 T p) @ tWriteFieldStop T"

definition ImRpcSendMsgToUserByTgidArgs_BLength :: "thrift \<Rightarrow> send_msg_by_tgid_req rpc_args option \<Rightarrow> nat" where
  "ImRpcSendMsgToUserByTgidArgs_BLength T q =
     (case q of None \<Rightarrow> 0 | Some p \<Rightarrow> ImRpcSendMsgToUserByTgidArgs_field1Length T p) + tFieldStopLength T"

definition NewImRpcSendMsgToUserByTgidResult :: "send_msg_rsp rpc_result" where
  "NewImRpcSendMsgToUserByTgidResult = \<lparr>Success = None\<rparr>"

definition fieldIDToName_ImRpcSendMsgToUserByTgidResult :: "int \<Rightarrow> string" where
  "fieldIDToName_ImRpcSendMsgToUserByTgidResult fid = (if fid = 0 then ''success'' else '''')"

definition ImRpcSendMsgToUserByTgidResult_FastReadField0 :: "thrift \<Rightarrow> send_msg_rsp rpc_result reader" where
  "ImRpcSendMsgToUserByTgidResult_FastReadField0 T = read_nested (SendMsgRsp_FastRead T) NewSendMsgRsp (\<lambda>v p. p\<lparr>Success := Some v\<rparr>)"

definition ImRpcSendMsgToUserByTgidResult_fastWriteField0 :: "thrift \<Rightarrow> send_msg_rsp rpc_result \<Rightarrow> bytes" where
  "ImRpcSendMsgToUserByTgidResult_fastWriteField0 T p =
     (if Success p \<noteq> None then tWriteFieldBegin T STRUCT 0 @ SendMsgRsp_FastWriteNocopy T (Success p) else [])"

definition ImRpcSendMsgToUserByTgidResult_field0Length :: "thrift \<Rightarrow> send_msg_rsp rpc_result \<Rightarrow> nat" where
  "ImRpcSendMsgToUserByTgidResult_field0Length T p =
     (if Success p \<noteq> None then tFieldBeginLength T + SendMsgRsp_BLength T (Success p) else 0)"

definition ImRpcSendMsgToUserByTgidResult_FastRead :: "thrift \<Rightarrow> send_msg_rsp rpc_result reader" where
  "ImRpcSendMsgToUserByTgidResult_FastRead T p buf =
     fast_read T ''*rpc.ImRpcSendMsgToUserByTgidResult'' fieldIDToName_ImRpcSendMsgToUserByTgidResult (\<lambda>fid.
      if fid = 0 then Some (STRUCT, ImRpcSendMsgToUserByTgidResult_FastReadField0 T) else None) p buf 0"

definition ImRpcSendMsgToUserByTgidResult_FastWriteNocopy :: "thrift \<Rightarrow> send_msg_rsp rpc_result option \<Rightarrow> bytes" where
  "ImRpcSendMsgToUserByTgidResult_FastWriteNocopy T q =
     (case q of None \<Rightarrow> [] | Some p \<Rightarrow> ImRpcSendMsgToUserByTgidResult_fastWriteField0 T p) @ tWriteFieldStop T"

definition ImRpcSendMsgToUserByTgidResult_BLength :: "thrift \<Rightarrow> send_msg_rsp rpc_result option \<Rightarrow> nat" where
  "ImRpcSendMsgToUserByTgidResult_BLength T q =
     (case q of None \<Rightarrow> 0 | Some p \<Rightarrow> ImRpcSendMsgToUserByTgidResult_field0Length T p) + tFieldStopLength T"

section \<open>StopUserClient\<close>

definition NewImRpcStopUserClientArgs :: "user_id_req rpc_args" where
  "NewImRpcStopUserClientArgs = \<lparr>Req = None\<rparr>"

definition fieldIDToName_ImRpcStopUserClientArgs :: "int \<Rightarrow> string" where
  "fieldIDToName_ImRpcStopUserClientArgs fid = (if fid = 1 then ''req'' else '''')"

definition ImRpcStopUserClientArgs_FastReadField1 :: "thrift \<Rightarrow> user_id_req rpc_args reader" where
  "ImRpcStopUserClientArgs_FastReadField1 T = read_nested (UserIdReq_FastRead T) NewUserIdReq (\<lambda>v p. p\<lparr>Req := Some v\<rparr>)"

definition ImRpcStopUserClientArgs_fastWriteField1 :: "thrift \<Rightarrow> user_id_req rpc_args \<Rightarrow> bytes" where
  "ImRpcStopUserClientArgs_fastWriteField1 T p = tWriteFieldBegin T STRUCT 1 @ UserIdReq_FastWriteNocopy T (Req p)"

definition ImRpcStopUserClientArgs_field1Length :: "thrift \<Rightarrow> user_id_req rpc_args \<Rightarrow> nat" where
  "ImRpcStopUserClientArgs_field1Length T p = tFieldBeginLength T + UserIdReq_BLength T (Req p)"

definition ImRpcStopUserClientArgs_FastRead :: "thrift \<Rightarrow> user_id_req rpc_args reader" where
  "ImRpcStopUserClientArgs_FastRead T p buf =
     fast_read T ''*rpc.ImRpcStopUserClientArgs'' fieldIDToName_ImRpcStopUserClientArgs (\<lambda>fid.
      if fid = 1 then Some (STRUCT, ImRpcStopUserClientArgs_FastReadField1 T) else None) p buf 0"

definition ImRpcStopUserClientArgs_FastWriteNocopy :: "thrift \<Rightarrow> user_id_req rpc_args option \<Rightarrow> bytes" where
  "ImRpcStopUserClientArgs_FastWriteNocopy T q =
     (case q of None \<Rightarrow> [] | Some p \<Rightarrow> ImRpcStopUserClientArgs_fastWriteField1 T p) @ tWriteFieldStop T"

definition ImRpcStopUserClientArgs_BLength :: "thrift \<Rightarrow> user_id_req rpc_args option \<Rightarrow> nat" where
  "ImRpcStopUserClientArgs_BLength T q =
     (case q of None \<Rightarrow> 0 | Some p \<Rightarrow> ImRpcStopUserClientArgs_field1Length T p) + tFieldStopLength T"

definition NewImRpcStopUserClientResult :: "stop_user_client_rsp rpc_result" where
  "NewImRpcStopUserClientResult = \<lparr>Success = None\<rparr>"

definition fieldIDToName_ImRpcStopUserClientResult :: "int \<Rightarrow> string" where
  "fieldIDToName_ImRpcStopUserClientResult fid = (if fid = 0 then ''success'' else '''')"

definition ImRpcStopUserClientResult_FastReadField0 :: "thrift \<Rightarrow> stop_user_client_rsp rpc_result reader" where
  "ImRpcStopUserClientResult_FastReadField0 T = read_nested (StopUserClientRsp_FastRead T) NewStopUserClientRsp (\<lambda>v p. p\<lparr>Success := Some v\<rparr>)"

definition ImRpcStopUserClientResult_fastWriteField0 :: "thrift \<Rightarrow> stop_user_client_rsp rpc_result \<Rightarrow> bytes" where
  "ImRpcStopUserClientResult_fastWriteField0 T p =
     (if Success p \<noteq> None then tWriteFieldBegin T STRUCT 0 @ StopUserClientRsp_FastWriteNocopy T (Success p) else [])"

definition ImRpcStopUserClientResult_field0Length :: "thrift \<Rightarrow> stop_user_client_rsp rpc_result \<Rightarrow> nat" where
  "ImRpcStopUserClientResult_field0Length T p =
     (if Success p \<noteq> None then tFieldBeginLength T + StopUserClientRsp_BLength T (Success p) else 0)"

definition ImRpcStopUserClientResult_FastRead :: "thrift \<Rightarrow> stop_user_client_rsp rpc_result reader" where
  "ImRpcStopUserClientResult_FastRead T p buf =
     fast_read T ''*rpc.ImRpcStopUserClientResult'' fieldIDToName_ImRpcStopUserClientResult (\<lambda>fid.
      if fid = 0 then Some (STRUCT, ImRpcStopUserClientResult_FastReadField0 T) else None) p buf 0"

definition ImRpcStopUserClientResult_FastWriteNocopy :: "thrift \<Rightarrow> stop_user_client_rsp rpc_result option \<Rightarrow> bytes" where
  "ImRpcStopUserClientResult_FastWriteNocopy T q =
     (case q of None \<Rightarrow> [] | Some p \<Rightarrow> ImRpcStopUserClientResult_fastWriteField0 T p) @ tWriteFieldStop T"

definition ImRpcStopUserClientResult_BLength :: "thrift \<Rightarrow> stop_user_client_rsp rpc_result option \<Rightarrow> nat" where
  "ImRpcStopUserClientResult_BLength T q =
     (case q of None \<Rightarrow> 0 | Some p \<Rightarrow> ImRpcStopUserClientResult_field0Length T p) + tFieldStopLength T"

section \<open>GetSysInfo\<close>

text \<open>The struct without fields is the unit type; every field it meets is skipped.\<close>

definition ImRpcGetSysInfoArgs_FastRead :: "thrift \<Rightarrow> unit reader" where
  "ImRpcGetSysInfoArgs_FastRead T p buf = fast_read T ''*rpc.ImRpcGetSysInfoArgs'' (\<lambda>fid. '''') (\<lambda>fid. None) p buf 0"

definition ImRpcGetSysInfoArgs_FastWriteNocopy :: "thrift \<Rightarrow> unit option \<Rightarrow> bytes" where
  "ImRpcGetSysInfoArgs_FastWriteNocopy T q = tWriteFieldStop T"

definition ImRpcGetSysInfoArgs_BLength :: "thrift \<Rightarrow> unit option \<Rightarrow> nat" where
  "ImRpcGetSysInfoArgs_BLength T q = tFieldStopLength T"

definition NewImRpcGetSysInfoResult :: "bytes_rsp rpc_result" where
  "NewImRpcGetSysInfoResult = \<lparr>Success = None\<rparr>"

definition fieldIDToName_ImRpcGetSysInfoResult :: "int \<Rightarrow> string" where
  "fieldIDToName_ImRpcGetSysInfoResult fid = (if fid = 0 then ''success'' else '''')"

definition ImRpcGetSysInfoResult_FastReadField0 :: "thrift \<Rightarrow> bytes_rsp rpc_result reader" where
  "ImRpcGetSysInfoResult_FastReadField0 T = read_nested (BytesRsp_FastRead T) NewBytesRsp (\<lambda>v p. p\<lparr>Success := Some v\<rparr>)"

definition ImRpcGetSysInfoResult_fastWriteField0 :: "thrift \<Rightarrow> bytes_rsp rpc_result \<Rightarrow> bytes" where
  "ImRpcGetSysInfoResult_fastWriteField0 T p =
     (if Success p \<noteq> None then tWriteFieldBegin T STRUCT 0 @ BytesRsp_FastWriteNocopy T (Success p) else [])"

definition ImRpcGetSysInfoResult_field0Length :: "thrift \<Rightarrow> bytes_rsp rpc_result \<Rightarrow> nat" where
  "ImRpcGetSysInfoResult_field0Length T p =
     (if Success p \<noteq> None then tFieldBeginLength T + BytesRsp_BLength T (Success p) else 0)"

definition ImRpcGetSysInfoResult_FastRead :: "thrift \<Rightarrow> bytes_rsp rpc_result reader" where
  "ImRpcGetSysInfoResult_FastRead T p buf =
     fast_read T ''*rpc.ImRpcGetSysInfoResult'' fieldIDToName_ImRpcGetSysInfoResult (\<lambda>fid.
      if fid = 0 then Some (STRUCT, ImRpcGetSysInfoResult_FastReadField0 T) else None) p buf 0"

definition ImRpcGetSysInfoResult_FastWriteNocopy :: "thrift \<Rightarrow> bytes_rsp rpc_result option \<Rightarrow> bytes" where
  "ImRpcGetSysInfoResult_FastWriteNocopy T q =
     (case q of None \<Rightarrow> [] | Some p \<Rightarrow> ImRpcGetSysInfoResult_fastWriteField0 T p) @ tWriteFieldStop T"

definition ImRpcGetSysInfoResult_BLength :: "thrift \<Rightarrow> bytes_rsp rpc_result option \<Rightarrow> nat" where
  "ImRpcGetSysInfoResult_BLength T q =
     (case q of None \<Rightarrow> 0 | Some p \<Rightarrow> ImRpcGetSysInfoResult_field0Length T p) + tFieldStopLength T"

section \<open>JoinGroup\<close>

definition NewImRpcJoinGroupArgs :: "join_group_req rpc_args" where
  "NewImRpcJoinGroupArgs = \<lparr>Req = None\<rparr>"

definition fieldIDToName_ImRpcJoinGroupArgs :: "int \<Rightarrow> string" where
  "fieldIDToName_ImRpcJoinGroupArgs fid = (if fid = 1 then ''req'' else '''')"

definition ImRpcJoinGroupArgs_FastReadField1 :: "thrift \<Rightarrow> join_group_req rpc_args reader" where
  "ImRpcJoinGroupArgs_FastReadField1 T = read_nested (JoinGroupReq_FastRead T) NewJoinGroupReq (\<lambda>v p. p\<lparr>Req := Some v\<rparr>)"

definition ImRpcJoinGroupArgs_fastWriteField1 :: "thrift \<Rightarrow> join_group_req rpc_args \<Rightarrow> bytes" where
  "ImRpcJoinGroupArgs_fastWriteField1 T p = tWriteFieldBegin T STRUCT 1 @ JoinGroupReq_FastWriteNocopy T (Req p)"

definition ImRpcJoinGroupArgs_field1Length :: "thrift \<Rightarrow> join_group_req rpc_args \<Rightarrow> nat" where
  "ImRpcJoinGroupArgs_field1Length T p = tFieldBeginLength T + JoinGroupReq_BLength T (Req p)"

definition ImRpcJoinGroupArgs_FastRead :: "thrift \<Rightarrow> join_group_req rpc_args reader" where
  "ImRpcJoinGroupArgs_FastRead T p buf =
     fast_read T ''*rpc.ImRpcJoinGroupArgs'' fieldIDToName_ImRpcJoinGroupArgs (\<lambda>fid.
      if fid = 1 then Some (STRUCT, ImRpcJoinGroupArgs_FastReadField1 T) else None) p buf 0"

definition ImRpcJoinGroupArgs_FastWriteNocopy :: "thrift \<Rightarrow> join_group_req rpc_args option \<Rightarrow> bytes" where
  "ImRpcJoinGroupArgs_FastWriteNocopy T q =
     (case q of None \<Rightarrow> [] | Some p \<Rightarrow> ImRpcJoinGroupArgs_fastWriteField1 T p) @ tWriteFieldStop T"

definition ImRpcJoinGroupArgs_BLength :: "thrift \<Rightarrow> join_group_req rpc_args option \<Rightarrow> nat" where
  "ImRpcJoinGroupArgs_BLength T q =
     (case q of None \<Rightarrow> 0 | Some p \<Rightarrow> ImRpcJoinGroupArgs_field1Length T p) + tFieldStopLength T"

definition NewImRpcJoinGroupResult :: "join_group_res rpc_result" where
  "NewImRpcJoinGroupResult = \<lparr>Success = None\<rparr>"

definition fieldIDToName_ImRpcJoinGroupResult :: "int \<Rightarrow> string" where
  "fieldIDToName_ImRpcJoinGroupResult fid = (if fid = 0 then ''success'' else '''')"

definition ImRpcJoinGroupResult_FastReadField0 :: "thrift \<Rightarrow> join_group_res rpc_result reader" where
  "ImRpcJoinGroupResult_FastReadField0 T = read_nested (JoinGroupRes_FastRead T) NewJoinGroupRes (\<lambda>v p. p\<lparr>Success := Some v\<rparr>)"

definition ImRpcJoinGroupResult_fastWriteField0 :: "thrift \<Rightarrow> join_group_res rpc_result \<Rightarrow> bytes" where
  "ImRpcJoinGroupResult_fastWriteField0 T p =
     (if Success p \<noteq> None then tWriteFieldBegin T STRUCT 0 @ JoinGroupRes_FastWriteNocopy T (Success p) else [])"

definition ImRpcJoinGroupResult_field0Length :: "thrift \<Rightarrow> join_group_res rpc_result \<Rightarrow> nat" where
  "ImRpcJoinGroupResult_field0Length T p =
     (if Success p \<noteq> None then tFieldBeginLength T + JoinGroupRes_BLength T (Success p) else 0)"

definition ImRpcJoinGroupResult_FastRead :: "thrift \<Rightarrow> join_group_res rpc_result reader" where
  "ImRpcJoinGroupResult_FastRead T p buf =
     fast_read T ''*rpc.ImRpcJoinGroupResult'' fieldIDToName_ImRpcJoinGroupResult (\<lambda>fid.
      if fid = 0 then Some (STRUCT, ImRpcJoinGroupResult_FastReadField0 T) else None) p buf 0"

definition ImRpcJoinGroupResult_FastWriteNocopy :: "thrift \<Rightarrow> join_group_res rpc_result option \<Rightarrow> bytes" where
  "ImRpcJoinGroupResult_FastWriteNocopy T q =
     (case q of None \<Rightarrow> [] | Some p \<Rightarrow> ImRpcJoinGroupResult_fastWriteField0 T p) @ tWriteFieldStop T"

definition ImRpcJoinGroupResult_BLength :: "thrift \<Rightarrow> join_group_res rpc_result option \<Rightarrow> nat" where
  "ImRpcJoinGroupResult_BLength T q =
     (case q of None \<Rightarrow> 0 | Some p \<Rightarrow> ImRpcJoinGroupResult_field0Length T p) + tFieldStopLength T"

section \<open>OutGroup\<close>

definition NewImRpcOutGroupArgs :: "join_group_req rpc_args" where
  "NewImRpcOutGroupArgs = \<lparr>Req = None\<rparr>"

definition fieldIDToName_ImRpcOutGroupArgs :: "int \<Rightarrow> string" where
  "fieldIDToName_ImRpcOutGroupArgs fid = (if fid = 1 then ''req'' else '''')"

definition ImRpcOutGroupArgs_FastReadField1 :: "thrift \<Rightarrow> join_group_req rpc_args reader" where
  "ImRpcOutGroupArgs_FastReadField1 T = read_nested (JoinGroupReq_FastRead T) NewJoinGroupReq (\<lambda>v p. p\<lparr>Req := Some v\<rparr>)"

definition ImRpcOutGroupArgs_fastWriteField1 :: "thrift \<Rightarrow> join_group_req rpc_args \<Rightarrow> bytes" where
  "ImRpcOutGroupArgs_fastWriteField1 T p = tWriteFieldBegin T STRUCT 1 @ JoinGroupReq_FastWriteNocopy T (Req p)"

definition ImRpcOutGroupArgs_field1Length :: "thrift \<Rightarrow> join_group_req rpc_args \<Rightarrow> nat" where
  "ImRpcOutGroupArgs_field1Length T p = tFieldBeginLength T + JoinGroupReq_BLength T (Req p)"

definition ImRpcOutGroupArgs_FastRead :: "thrift \<Rightarrow> join_group_req rpc_args reader" where
  "ImRpcOutGroupArgs_FastRead T p buf =
     fast_read T ''*rpc.ImRpcOutGroupArgs'' fieldIDToName_ImRpcOutGroupArgs (\<lambda>fid.
      if fid = 1 then Some (STRUCT, ImRpcOutGroupArgs_FastReadField1 T) else None) p buf 0"

definition ImRpcOutGroupArgs_FastWriteNocopy :: "thrift \<Rightarrow> join_group_req rpc_args option \<Rightarrow> bytes" where
  "ImRpcOutGroupArgs_FastWriteNocopy T q =
     (case q of None \<Rightarrow> [] | Some p \<Rightarrow> ImRpcOutGroupArgs_fastWriteField1 T p) @ tWriteFieldStop T"

definition ImRpcOutGroupArgs_BLength :: "thrift \<Rightarrow> join_group_req rpc_args option \<Rightarrow> nat" where
  "ImRpcOutGroupArgs_BLength T q =
     (case q of None \<Rightarrow> 0 | Some p \<Rightarrow> ImRpcOutGroupArgs_field1Length T p) + tFieldStopLength T"

definition NewImRpcOutGroupResult :: "join_group_res rpc_result" where
  "NewImRpcOutGroupResult = \<lparr>Success = None\<rparr>"

definition fieldIDToName_ImRpcOutGroupResult :: "int \<Rightarrow> string" where
  "fieldIDToName_ImRpcOutGroupResult fid = (if fid = 0 then ''success'' else '''')"

definition ImRpcOutGroupResult_FastReadField0 :: "thrift \<Rightarrow> join_group_res rpc_result reader" where
  "ImRpcOutGroupResult_FastReadField0 T = read_nested (JoinGroupRes_FastRead T) NewJoinGroupRes (\<lambda>v p. p\<lparr>Success := Some v\<rparr>)"

definition ImRpcOutGroupResult_fastWriteField0 :: "thrift \<Rightarrow> join_group_res rpc_result \<Rightarrow> bytes" where
  "ImRpcOutGroupResult_fastWriteField0 T p =
     (if Success p \<noteq> None then tWriteFieldBegin T STRUCT 0 @ JoinGroupRes_FastWriteNocopy T (Success p) else [])"

definition ImRpcOutGroupResult_field0Length :: "thrift \<Rightarrow> join_group_res rpc_result \<Rightarrow> nat" where
  "ImRpcOutGroupResult_field0Length T p =
     (if Success p \<noteq> None then tFieldBeginLength T + JoinGroupRes_BLength T (Success p) else 0)"

definition ImRpcOutGroupResult_FastRead :: "thrift \<Rightarrow> join_group_res rpc_result reader" where
  "ImRpcOutGroupResult_FastRead T p buf =
     fast_read T ''*rpc.ImRpcOutGroupResult'' fieldIDToName_ImRpcOutGroupResult (\<lambda>fid.
      if fid = 0 then Some (STRUCT, ImRpcOutGroupResult_FastReadField0 T) else None) p buf 0"

definition ImRpcOutGroupResult_FastWriteNocopy :: "thrift \<Rightarrow> join_group_res rpc_result option \<Rightarrow> bytes" where
  "ImRpcOutGroupResult_FastWriteNocopy T q =
     (case q of None \<Rightarrow> [] | Some p \<Rightarrow> ImRpcOutGroupResult_fastWriteField0 T p) @ tWriteFieldStop T"

definition ImRpcOutGroupResult_BLength :: "thrift \<Rightarrow> join_group_res rpc_result option \<Rightarrow> nat" where
  "ImRpcOutGroupResult_BLength T q =
     (case q of None \<Rightarrow> 0 | Some p \<Rightarrow> ImRpcOutGroupResult_field0Length T p) + tFieldStopLength T"

section \<open>Every struct is read back\<close>

text \<open>A string or byte field is short enough for the 32-bit length of the protocol.\<close>

definition Request_ok :: "rpc_request \<Rightarrow> bool" where
  "Request_ok p \<longleftrightarrow> size_ok (rqMessage p)"

definition Response_ok :: "rpc_response \<Rightarrow> bool" where
  "Response_ok p \<longleftrightarrow> size_ok (rsMessage p)"

definition SendMsgReq_ok :: "send_msg_req \<Rightarrow> bool" where
  "SendMsgReq_ok p \<longleftrightarrow> size_ok (smqUid p) \<and> size_ok (smqMsg p)"

definition SendMsgRsp_ok :: "send_msg_rsp \<Rightarrow> bool" where
  "SendMsgRsp_ok p \<longleftrightarrow> True"

definition SendMsgByTgidReq_ok :: "send_msg_by_tgid_req \<Rightarrow> bool" where
  "SendMsgByTgidReq_ok p \<longleftrightarrow> size_ok (sbtUid p) \<and> size_ok (sbtTgid p) \<and> size_ok (sbtMsg p)"

definition UserIdReq_ok :: "user_id_req \<Rightarrow> bool" where
  "UserIdReq_ok p \<longleftrightarrow> size_ok (uirUid p)"

definition StopUserClientRsp_ok :: "stop_user_client_rsp \<Rightarrow> bool" where
  "StopUserClientRsp_ok p \<longleftrightarrow> True"

definition BytesRsp_ok :: "bytes_rsp \<Rightarrow> bool" where
  "BytesRsp_ok p \<longleftrightarrow> size_ok (brData p)"

definition JoinGroupReq_ok :: "join_group_req \<Rightarrow> bool" where
  "JoinGroupReq_ok p \<longleftrightarrow> size_ok (jgqUid p) \<and> size_ok (jgqTgid p)"

definition JoinGroupRes_ok :: "join_group_res \<Rightarrow> bool" where
  "JoinGroupRes_ok p \<longleftrightarrow> True"

lemmas Request_defs = NewRpcRequest_def Request_FastRead_def Request_FastWriteNocopy_def
  Request_BLength_def Request_FastReadField1_def Request_fastWriteField1_def
  Request_field1Length_def

lemma Request_read_back:
  assumes T: "thrift_ok T" and "Request_ok p"
  shows "Request_FastRead T NewRpcRequest (Request_FastWriteNocopy T (Some p) @ rest) =
     Some (p, length (Request_FastWriteNocopy T (Some p)), None)"
proof -
  have w: "Request_FastWriteNocopy T (Some p) = concat (map (field_bytes T)
     [(1, STRING, tWriteString T (rqMessage p), \<lambda>q :: rpc_request. q\<lparr>rqMessage := rqMessage p\<rparr>)]) @ tWriteFieldStop T"
    by (simp add: Request_defs)
  show ?thesis
    unfolding Request_FastRead_def w append_assoc
    using assms by (subst fast_read_fields [OF T])
      (simp_all add: Request_ok_def Request_defs read_or_skip_def thrift_okD(3-6) ttypes)
qed

lemma Request_BLength_eq: "thrift_ok T \<Longrightarrow> Request_BLength T q = length (Request_FastWriteNocopy T q)"
  by (simp add: Request_defs thrift_lengths split: option.split)

interpretation Request_codec: struct_codec Request_FastWriteNocopy Request_BLength Request_FastRead
  NewRpcRequest Request_ok
  by unfold_locales (simp_all only: Request_BLength_eq Request_read_back)

lemmas Response_defs = NewRpcResponse_def Response_FastRead_def Response_FastWriteNocopy_def
  Response_BLength_def Response_FastReadField1_def Response_fastWriteField1_def
  Response_field1Length_def

lemma Response_read_back:
  assumes T: "thrift_ok T" and "Response_ok p"
  shows "Response_FastRead T NewRpcResponse (Response_FastWriteNocopy T (Some p) @ rest) =
     Some (p, length (Response_FastWriteNocopy T (Some p)), None)"
proof -
  have w: "Response_FastWriteNocopy T (Some p) = concat (map (field_bytes T)
     [(1, STRING, tWriteString T (rsMessage p), \<lambda>q :: rpc_response. q\<lparr>rsMessage := rsMessage p\<rparr>)]) @ tWriteFieldStop T"
    by (simp add: Response_defs)
  show ?thesis
    unfolding Response_FastRead_def w append_assoc
    using assms by (subst fast_read_fields [OF T])
      (simp_all add: Response_ok_def Response_defs read_or_skip_def thrift_okD(3-6) ttypes)
qed

lemma Response_BLength_eq: "thrift_ok T \<Longrightarrow> Response_BLength T q = length (Response_FastWriteNocopy T q)"
  by (simp add: Response_defs thrift_lengths split: option.split)

interpretation Response_codec: struct_codec Response_FastWriteNocopy Response_BLength
  Response_FastRead NewRpcResponse Response_ok
  by unfold_locales (simp_all only: Response_BLength_eq Response_read_back)

lemmas SendMsgReq_defs = NewSendMsgReq_def SendMsgReq_FastRead_def SendMsgReq_FastWriteNocopy_def
  SendMsgReq_BLength_def SendMsgReq_FastReadField1_def SendMsgReq_fastWriteField1_def
  SendMsgReq_field1Length_def SendMsgReq_FastReadField2_def SendMsgReq_fastWriteField2_def
  SendMsgReq_field2Length_def

lemma SendMsgReq_read_back:
  assumes T: "thrift_ok T" and "SendMsgReq_ok p"
  shows "SendMsgReq_FastRead T NewSendMsgReq (SendMsgReq_FastWriteNocopy T (Some p) @ rest) =
     Some (p, length (SendMsgReq_FastWriteNocopy T (Some p)), None)"
proof -
  have w: "SendMsgReq_FastWriteNocopy T (Some p) = concat (map (field_bytes T)
     [(1, STRING, tWriteString T (smqUid p), \<lambda>q :: send_msg_req. q\<lparr>smqUid := smqUid p\<rparr>),
      (2, STRING, tWriteBinary T (smqMsg p), \<lambda>q :: send_msg_req. q\<lparr>smqMsg := smqMsg p\<rparr>)]) @ tWriteFieldStop T"
    by (simp add: SendMsgReq_defs)
  show ?thesis
    unfolding SendMsgReq_FastRead_def w append_assoc
    using assms by (subst fast_read_fields [OF T])
      (simp_all add: SendMsgReq_ok_def SendMsgReq_defs read_or_skip_def thrift_okD(3-6) ttypes)
qed

lemma SendMsgReq_BLength_eq: "thrift_ok T \<Longrightarrow> SendMsgReq_BLength T q = length (SendMsgReq_FastWriteNocopy T q)"
  by (simp add: SendMsgReq_defs thrift_lengths split: option.split)

interpretation SendMsgReq_codec: struct_codec SendMsgReq_FastWriteNocopy SendMsgReq_BLength
  SendMsgReq_FastRead NewSendMsgReq SendMsgReq_ok
  by unfold_locales (simp_all only: SendMsgReq_BLength_eq SendMsgReq_read_back)

lemmas SendMsgRsp_defs = NewSendMsgRsp_def SendMsgRsp_FastRead_def SendMsgRsp_FastWriteNocopy_def
  SendMsgRsp_BLength_def SendMsgRsp_FastReadField1_def SendMsgRsp_fastWriteField1_def
  SendMsgRsp_field1Length_def

lemma SendMsgRsp_read_back:
  assumes T: "thrift_ok T" and "SendMsgRsp_ok p"
  shows "SendMsgRsp_FastRead T NewSendMsgRsp (SendMsgRsp_FastWriteNocopy T (Some p) @ rest) =
     Some (p, length (SendMsgRsp_FastWriteNocopy T (Some p)), None)"
proof -
  have w: "SendMsgRsp_FastWriteNocopy T (Some p) = concat (map (field_bytes T)
     [(1, I32, tWriteI32 T (smrRetCode p), \<lambda>q :: send_msg_rsp. q\<lparr>smrRetCode := smrRetCode p\<rparr>)]) @ tWriteFieldStop T"
    by (simp add: SendMsgRsp_defs)
  show ?thesis
    unfolding SendMsgRsp_FastRead_def w append_assoc
    using assms by (subst fast_read_fields [OF T])
      (simp_all add: SendMsgRsp_ok_def SendMsgRsp_defs read_or_skip_def thrift_okD(3-6) ttypes)
qed

lemma SendMsgRsp_BLength_eq: "thrift_ok T \<Longrightarrow> SendMsgRsp_BLength T q = length (SendMsgRsp_FastWriteNocopy T q)"
  by (simp add: SendMsgRsp_defs thrift_lengths split: option.split)

interpretation SendMsgRsp_codec: struct_codec SendMsgRsp_FastWriteNocopy SendMsgRsp_BLength
  SendMsgRsp_FastRead NewSendMsgRsp SendMsgRsp_ok
  by unfold_locales (simp_all only: SendMsgRsp_BLength_eq SendMsgRsp_read_back)

lemmas SendMsgByTgidReq_defs = NewSendMsgByTgidReq_def SendMsgByTgidReq_FastRead_def
  SendMsgByTgidReq_FastWriteNocopy_def SendMsgByTgidReq_BLength_def
  SendMsgByTgidReq_FastReadField1_def SendMsgByTgidReq_fastWriteField1_def
  SendMsgByTgidReq_field1Length_def SendMsgByTgidReq_FastReadField2_def
  SendMsgByTgidReq_fastWriteField2_def SendMsgByTgidReq_field2Length_def
  SendMsgByTgidReq_FastReadField3_def SendMsgByTgidReq_fastWriteField3_def
  SendMsgByTgidReq_field3Length_def

lemma SendMsgByTgidReq_read_back:
  assumes T: "thrift_ok T" and "SendMsgByTgidReq_ok p"
  shows "SendMsgByTgidReq_FastRead T NewSendMsgByTgidReq (SendMsgByTgidReq_FastWriteNocopy T (Some p) @ rest) =
     Some (p, length (SendMsgByTgidReq_FastWriteNocopy T (Some p)), None)"
proof -
  have w: "SendMsgByTgidReq_FastWriteNocopy T (Some p) = concat (map (field_bytes T)
     [(1, STRING, tWriteString T (sbtUid p), \<lambda>q :: send_msg_by_tgid_req. q\<lparr>sbtUid := sbtUid p\<rparr>),
      (2, STRING, tWriteString T (sbtTgid p), \<lambda>q :: send_msg_by_tgid_req. q\<lparr>sbtTgid := sbtTgid p\<rparr>),
      (3, STRING, tWriteBinary T (sbtMsg p), \<lambda>q :: send_msg_by_tgid_req. q\<lparr>sbtMsg := sbtMsg p\<rparr>)]) @ tWriteFieldStop T"
    by (simp add: SendMsgByTgidReq_defs)
  show ?thesis
    unfolding SendMsgByTgidReq_FastRead_def w append_assoc
    using assms by (subst fast_read_fields [OF T])
      (simp_all add: SendMsgByTgidReq_ok_def SendMsgByTgidReq_defs read_or_skip_def thrift_okD(3-6)
      ttypes)
qed

lemma SendMsgByTgidReq_BLength_eq: "thrift_ok T \<Longrightarrow> SendMsgByTgidReq_BLength T q = length (SendMsgByTgidReq_FastWriteNocopy T q)"
  by (simp add: SendMsgByTgidReq_defs thrift_lengths split: option.split)

interpretation SendMsgByTgidReq_codec: struct_codec SendMsgByTgidReq_FastWriteNocopy
  SendMsgByTgidReq_BLength SendMsgByTgidReq_FastRead NewSendMsgByTgidReq SendMsgByTgidReq_ok
  by unfold_locales (simp_all only: SendMsgByTgidReq_BLength_eq SendMsgByTgidReq_read_back)

lemmas UserIdReq_defs = NewUserIdReq_def UserIdReq_FastRead_def UserIdReq_FastWriteNocopy_def
  UserIdReq_BLength_def UserIdReq_FastReadField1_def UserIdReq_fastWriteField1_def
  UserIdReq_field1Length_def

lemma UserIdReq_read_back:
  assumes T: "thrift_ok T" and "UserIdReq_ok p"
  shows "UserIdReq_FastRead T NewUserIdReq (UserIdReq_FastWriteNocopy T (Some p) @ rest) =
     Some (p, length (UserIdReq_FastWriteNocopy T (Some p)), None)"
proof -
  have w: "UserIdReq_FastWriteNocopy T (Some p) = concat (map (field_bytes T)
     [(1, STRING, tWriteString T (uirUid p), \<lambda>q :: user_id_req. q\<lparr>uirUid := uirUid p\<rparr>)]) @ tWriteFieldStop T"
    by (simp add: UserIdReq_defs)
  show ?thesis
    unfolding UserIdReq_FastRead_def w append_assoc
    using assms by (subst fast_read_fields [OF T])
      (simp_all add: UserIdReq_ok_def UserIdReq_defs read_or_skip_def thrift_okD(3-6) ttypes)
qed

lemma UserIdReq_BLength_eq: "thrift_ok T \<Longrightarrow> UserIdReq_BLength T q = length (UserIdReq_FastWriteNocopy T q)"
  by (simp add: UserIdReq_defs thrift_lengths split: option.split)

interpretation UserIdReq_codec: struct_codec UserIdReq_FastWriteNocopy UserIdReq_BLength
  UserIdReq_FastRead NewUserIdReq UserIdReq_ok
  by unfold_locales (simp_all only: UserIdReq_BLength_eq UserIdReq_read_back)

lemmas StopUserClientRsp_defs = NewStopUserClientRsp_def StopUserClientRsp_FastRead_def
  StopUserClientRsp_FastWriteNocopy_def StopUserClientRsp_BLength_def
  StopUserClientRsp_FastReadField1_def StopUserClientRsp_fastWriteField1_def
  StopUserClientRsp_field1Length_def

lemma StopUserClientRsp_read_back:
  assumes T: "thrift_ok T" and "StopUserClientRsp_ok p"
  shows "StopUserClientRsp_FastRead T NewStopUserClientRsp (StopUserClientRsp_FastWriteNocopy T (Some p) @ rest) =
     Some (p, length (StopUserClientRsp_FastWriteNocopy T (Some p)), None)"
proof -
  have w: "StopUserClientRsp_FastWriteNocopy T (Some p) = concat (map (field_bytes T)
     [(1, BOOL, tWriteBool T (sucRes p), \<lambda>q :: stop_user_client_rsp. q\<lparr>sucRes := sucRes p\<rparr>)]) @ tWriteFieldStop T"
    by (simp add: StopUserClientRsp_defs)
  show ?thesis
    unfolding StopUserClientRsp_FastRead_def w append_assoc
    using assms by (subst fast_read_fields [OF T])
      (simp_all add: StopUserClientRsp_ok_def StopUserClientRsp_defs read_or_skip_def
      thrift_okD(3-6) ttypes)
qed

lemma StopUserClientRsp_BLength_eq: "thrift_ok T \<Longrightarrow> StopUserClientRsp_BLength T q = length (StopUserClientRsp_FastWriteNocopy T q)"
  by (simp add: StopUserClientRsp_defs thrift_lengths split: option.split)

interpretation StopUserClientRsp_codec: struct_codec StopUserClientRsp_FastWriteNocopy
  StopUserClientRsp_BLength StopUserClientRsp_FastRead NewStopUserClientRsp StopUserClientRsp_ok
  by unfold_locales (simp_all only: StopUserClientRsp_BLength_eq StopUserClientRsp_read_back)

lemmas BytesRsp_defs = NewBytesRsp_def BytesRsp_FastRead_def BytesRsp_FastWriteNocopy_def
  BytesRsp_BLength_def BytesRsp_FastReadField1_def BytesRsp_fastWriteField1_def
  BytesRsp_field1Length_def

lemma BytesRsp_read_back:
  assumes T: "thrift_ok T" and "BytesRsp_ok p"
  shows "BytesRsp_FastRead T NewBytesRsp (BytesRsp_FastWriteNocopy T (Some p) @ rest) =
     Some (p, length (BytesRsp_FastWriteNocopy T (Some p)), None)"
proof -
  have w: "BytesRsp_FastWriteNocopy T (Some p) = concat (map (field_bytes T)
     [(1, STRING, tWriteBinary T (brData p), \<lambda>q :: bytes_rsp. q\<lparr>brData := brData p\<rparr>)]) @ tWriteFieldStop T"
    by (simp add: BytesRsp_defs)
  show ?thesis
    unfolding BytesRsp_FastRead_def w append_assoc
    using assms by (subst fast_read_fields [OF T])
      (simp_all add: BytesRsp_ok_def BytesRsp_defs read_or_skip_def thrift_okD(3-6) ttypes)
qed

lemma BytesRsp_BLength_eq: "thrift_ok T \<Longrightarrow> BytesRsp_BLength T q = length (BytesRsp_FastWriteNocopy T q)"
  by (simp add: BytesRsp_defs thrift_lengths split: option.split)

interpretation BytesRsp_codec: struct_codec BytesRsp_FastWriteNocopy BytesRsp_BLength
  BytesRsp_FastRead NewBytesRsp BytesRsp_ok
  by unfold_locales (simp_all only: BytesRsp_BLength_eq BytesRsp_read_back)

lemmas JoinGroupReq_defs = NewJoinGroupReq_def JoinGroupReq_FastRead_def
  JoinGroupReq_FastWriteNocopy_def JoinGroupReq_BLength_def JoinGroupReq_FastReadField1_def
  JoinGroupReq_fastWriteField1_def JoinGroupReq_field1Length_def JoinGroupReq_FastReadField2_def
  JoinGroupReq_fastWriteField2_def JoinGroupReq_field2Length_def

lemma JoinGroupReq_read_back:
  assumes T: "thrift_ok T" and "JoinGroupReq_ok p"
  shows "JoinGroupReq_FastRead T NewJoinGroupReq (JoinGroupReq_FastWriteNocopy T (Some p) @ rest) =
     Some (p, length (JoinGroupReq_FastWriteNocopy T (Some p)), None)"
proof -
  have w: "JoinGroupReq_FastWriteNocopy T (Some p) = concat (map (field_bytes T)
     [(1, STRING, tWriteString T (jgqUid p), \<lambda>q :: join_group_req. q\<lparr>jgqUid := jgqUid p\<rparr>),
      (2, STRING, tWriteString T (jgqTgid p), \<lambda>q :: join_group_req. q\<lparr>jgqTgid := jgqTgid p\<rparr>)]) @ tWriteFieldStop T"
    by (simp add: JoinGroupReq_defs)
  show ?thesis
    unfolding JoinGroupReq_FastRead_def w append_assoc
    using assms by (subst fast_read_fields [OF T])
      (simp_all add: JoinGroupReq_ok_def JoinGroupReq_defs read_or_skip_def thrift_okD(3-6) ttypes)
qed

lemma JoinGroupReq_BLength_eq: "thrift_ok T \<Longrightarrow> JoinGroupReq_BLength T q = length (JoinGroupReq_FastWriteNocopy T q)"
  by (simp add: JoinGroupReq_defs thrift_lengths split: option.split)

interpretation JoinGroupReq_codec: struct_codec JoinGroupReq_FastWriteNocopy JoinGroupReq_BLength
  JoinGroupReq_FastRead NewJoinGroupReq JoinGroupReq_ok
  by unfold_locales (simp_all only: JoinGroupReq_BLength_eq JoinGroupReq_read_back)

lemmas JoinGroupRes_defs = NewJoinGroupRes_def JoinGroupRes_FastRead_def
  JoinGroupRes_FastWriteNocopy_def JoinGroupRes_BLength_def JoinGroupRes_FastReadField1_def
  JoinGroupRes_fastWriteField1_def JoinGroupRes_field1Length_def

lemma JoinGroupRes_read_back:
  assumes T: "thrift_ok T" and "JoinGroupRes_ok p"
  shows "JoinGroupRes_FastRead T NewJoinGroupRes (JoinGroupRes_FastWriteNocopy T (Some p) @ rest) =
     Some (p, length (JoinGroupRes_FastWriteNocopy T (Some p)), None)"
proof -
  have w: "JoinGroupRes_FastWriteNocopy T (Some p) = concat (map (field_bytes T)
     [(1, BOOL, tWriteBool T (jgrRes p), \<lambda>q :: join_group_res. q\<lparr>jgrRes := jgrRes p\<rparr>)]) @ tWriteFieldStop T"
    by (simp add: JoinGroupRes_defs)
  show ?thesis
    unfolding JoinGroupRes_FastRead_def w append_assoc
    using assms by (subst fast_read_fields [OF T])
      (simp_all add: JoinGroupRes_ok_def JoinGroupRes_defs read_or_skip_def thrift_okD(3-6) ttypes)
qed

lemma JoinGroupRes_BLength_eq: "thrift_ok T \<Longrightarrow> JoinGroupRes_BLength T q = length (JoinGroupRes_FastWriteNocopy T q)"
  by (simp add: JoinGroupRes_defs thrift_lengths split: option.split)

interpretation JoinGroupRes_codec: struct_codec JoinGroupRes_FastWriteNocopy JoinGroupRes_BLength
  JoinGroupRes_FastRead NewJoinGroupRes JoinGroupRes_ok
  by unfold_locales (simp_all only: JoinGroupRes_BLength_eq JoinGroupRes_read_back)

lemma ImRpcHelloArgs_read_back:
  assumes "thrift_ok T" and "Request_ok q"
  shows "ImRpcHelloArgs_FastRead T NewImRpcHelloArgs (ImRpcHelloArgs_FastWriteNocopy T (Some \<lparr>Req = Some q\<rparr>) @ rest) =
     Some (\<lparr>Req = Some q\<rparr>, ImRpcHelloArgs_BLength T (Some \<lparr>Req = Some q\<rparr>), None)"
  using Request_codec.args_read_back [OF assms, of "''*rpc.ImRpcHelloArgs''" fieldIDToName_ImRpcHelloArgs NewImRpcHelloArgs rest]
  by (simp add: ImRpcHelloArgs_FastRead_def ImRpcHelloArgs_FastReadField1_def ImRpcHelloArgs_FastWriteNocopy_def ImRpcHelloArgs_fastWriteField1_def
      ImRpcHelloArgs_BLength_def ImRpcHelloArgs_field1Length_def NewImRpcHelloArgs_def Request_codec.blen assms(1) thrift_lengths add.assoc cong: if_cong)

lemma ImRpcHelloResult_read_back:
  assumes "thrift_ok T" and "Response_ok q"
  shows "ImRpcHelloResult_FastRead T NewImRpcHelloResult (ImRpcHelloResult_FastWriteNocopy T (Some \<lparr>Success = Some q\<rparr>) @ rest) =
     Some (\<lparr>Success = Some q\<rparr>, ImRpcHelloResult_BLength T (Some \<lparr>Success = Some q\<rparr>), None)"
  using Response_codec.result_read_back [OF assms, of "''*rpc.ImRpcHelloResult''" fieldIDToName_ImRpcHelloResult NewImRpcHelloResult rest]
  by (simp add: ImRpcHelloResult_FastRead_def ImRpcHelloResult_FastReadField0_def ImRpcHelloResult_FastWriteNocopy_def ImRpcHelloResult_fastWriteField0_def
      ImRpcHelloResult_BLength_def ImRpcHelloResult_field0Length_def NewImRpcHelloResult_def Response_codec.blen assms(1) thrift_lengths add.assoc cong: if_cong)

lemma ImRpcSendMsgToUserArgs_read_back:
  assumes "thrift_ok T" and "SendMsgReq_ok q"
  shows "ImRpcSendMsgToUserArgs_FastRead T NewImRpcSendMsgToUserArgs (ImRpcSendMsgToUserArgs_FastWriteNocopy T (Some \<lparr>Req = Some q\<rparr>) @ rest) =
     Some (\<lparr>Req = Some q\<rparr>, ImRpcSendMsgToUserArgs_BLength T (Some \<lparr>Req = Some q\<rparr>), None)"
  using SendMsgReq_codec.args_read_back [OF assms, of "''*rpc.ImRpcSendMsgToUserArgs''" fieldIDToName_ImRpcSendMsgToUserArgs NewImRpcSendMsgToUserArgs rest]
  by (simp add: ImRpcSendMsgToUserArgs_FastRead_def ImRpcSendMsgToUserArgs_FastReadField1_def ImRpcSendMsgToUserArgs_FastWriteNocopy_def ImRpcSendMsgToUserArgs_fastWriteField1_def
      ImRpcSendMsgToUserArgs_BLength_def ImRpcSendMsgToUserArgs_field1Length_def NewImRpcSendMsgToUserArgs_def SendMsgReq_codec.blen assms(1) thrift_lengths add.assoc cong: if_cong)

lemma ImRpcSendMsgToUserResult_read_back:
  assumes "thrift_ok T" and "SendMsgRsp_ok q"
  shows "ImRpcSendMsgToUserResult_FastRead T NewImRpcSendMsgToUserResult (ImRpcSendMsgToUserResult_FastWriteNocopy T (Some \<lparr>Success = Some q\<rparr>) @ rest) =
     Some (\<lparr>Success = Some q\<rparr>, ImRpcSendMsgToUserResult_BLength T (Some \<lparr>Success = Some q\<rparr>), None)"
  using SendMsgRsp_codec.result_read_back [OF assms, of "''*rpc.ImRpcSendMsgToUserResult''" fieldIDToName_ImRpcSendMsgToUserResult NewImRpcSendMsgToUserResult rest]
  by (simp add: ImRpcSendMsgToUserResult_FastRead_def ImRpcSendMsgToUserResult_FastReadField0_def ImRpcSendMsgToUserResult_FastWriteNocopy_def ImRpcSendMsgToUserResult_fastWriteField0_def
      ImRpcSendMsgToUserResult_BLength_def ImRpcSendMsgToUserResult_field0Length_def NewImRpcSendMsgToUserResult_def SendMsgRsp_codec.blen assms(1) thrift_lengths add.assoc cong: if_cong)

lemma ImRpcSendMsgToUserByTgidArgs_read_back:
  assumes "thrift_ok T" and "SendMsgByTgidReq_ok q"
  shows "ImRpcSendMsgToUserByTgidArgs_FastRead T NewImRpcSendMsgToUserByTgidArgs (ImRpcSendMsgToUserByTgidArgs_FastWriteNocopy T (Some \<lparr>Req = Some q\<rparr>) @ rest) =
     Some (\<lparr>Req = Some q\<rparr>, ImRpcSendMsgToUserByTgidArgs_BLength T (Some \<lparr>Req = Some q\<rparr>), None)"
  using SendMsgByTgidReq_codec.args_read_back [OF assms, of "''*rpc.ImRpcSendMsgToUserByTgidArgs''" fieldIDToName_ImRpcSendMsgToUserByTgidArgs NewImRpcSendMsgToUserByTgidArgs rest]
  by (simp add: ImRpcSendMsgToUserByTgidArgs_FastRead_def ImRpcSendMsgToUserByTgidArgs_FastReadField1_def ImRpcSendMsgToUserByTgidArgs_FastWriteNocopy_def ImRpcSendMsgToUserByTgidArgs_fastWriteField1_def
      ImRpcSendMsgToUserByTgidArgs_BLength_def ImRpcSendMsgToUserByTgidArgs_field1Length_def NewImRpcSendMsgToUserByTgidArgs_def SendMsgByTgidReq_codec.blen assms(1) thrift_lengths add.assoc cong: if_cong)

lemma ImRpcSendMsgToUserByTgidResult_read_back:
  assumes "thrift_ok T" and "SendMsgRsp_ok q"
  shows "ImRpcSendMsgToUserByTgidResult_FastRead T NewImRpcSendMsgToUserByTgidResult (ImRpcSendMsgToUserByTgidResult_FastWriteNocopy T (Some \<lparr>Success = Some q\<rparr>) @ rest) =
     Some (\<lparr>Success = Some q\<rparr>, ImRpcSendMsgToUserByTgidResult_BLength T (Some \<lparr>Success = Some q\<rparr>), None)"
  using SendMsgRsp_codec.result_read_back [OF assms, of "''*rpc.ImRpcSendMsgToUserByTgidResult''" fieldIDToName_ImRpcSendMsgToUserByTgidResult NewImRpcSendMsgToUserByTgidResult rest]
  by (simp add: ImRpcSendMsgToUserByTgidResult_FastRead_def ImRpcSendMsgToUserByTgidResult_FastReadField0_def ImRpcSendMsgToUserByTgidResult_FastWriteNocopy_def ImRpcSendMsgToUserByTgidResult_fastWriteField0_def
      ImRpcSendMsgToUserByTgidResult_BLength_def ImRpcSendMsgToUserByTgidResult_field0Length_def NewImRpcSendMsgToUserByTgidResult_def SendMsgRsp_codec.blen assms(1) thrift_lengths add.assoc cong: if_cong)

lemma ImRpcStopUserClientArgs_read_back:
  assumes "thrift_ok T" and "UserIdReq_ok q"
  shows "ImRpcStopUserClientArgs_FastRead T NewImRpcStopUserClientArgs (ImRpcStopUserClientArgs_FastWriteNocopy T (Some \<lparr>Req = Some q\<rparr>) @ rest) =
     Some (\<lparr>Req = Some q\<rparr>, ImRpcStopUserClientArgs_BLength T (Some \<lparr>Req = Some q\<rparr>), None)"
  using UserIdReq_codec.args_read_back [OF assms, of "''*rpc.ImRpcStopUserClientArgs''" fieldIDToName_ImRpcStopUserClientArgs NewImRpcStopUserClientArgs rest]
  by (simp add: ImRpcStopUserClientArgs_FastRead_def ImRpcStopUserClientArgs_FastReadField1_def ImRpcStopUserClientArgs_FastWriteNocopy_def ImRpcStopUserClientArgs_fastWriteField1_def
      ImRpcStopUserClientArgs_BLength_def ImRpcStopUserClientArgs_field1Length_def NewImRpcStopUserClientArgs_def UserIdReq_codec.blen assms(1) thrift_lengths add.assoc cong: if_cong)

lemma ImRpcStopUserClientResult_read_back:
  assumes "thrift_ok T" and "StopUserClientRsp_ok q"
  shows "ImRpcStopUserClientResult_FastRead T NewImRpcStopUserClientResult (ImRpcStopUserClientResult_FastWriteNocopy T (Some \<lparr>Success = Some q\<rparr>) @ rest) =
     Some (\<lparr>Success = Some q\<rparr>, ImRpcStopUserClientResult_BLength T (Some \<lparr>Success = Some q\<rparr>), None)"
  using StopUserClientRsp_codec.result_read_back [OF assms, of "''*rpc.ImRpcStopUserClientResult''" fieldIDToName_ImRpcStopUserClientResult NewImRpcStopUserClientResult rest]
  by (simp add: ImRpcStopUserClientResult_FastRead_def ImRpcStopUserClientResult_FastReadField0_def ImRpcStopUserClientResult_FastWriteNocopy_def ImRpcStopUserClientResult_fastWriteField0_def
      ImRpcStopUserClientResult_BLength_def ImRpcStopUserClientResult_field0Length_def NewImRpcStopUserClientResult_def StopUserClientRsp_codec.blen assms(1) thrift_lengths add.assoc cong: if_cong)

lemma ImRpcGetSysInfoResult_read_back:
  assumes "thrift_ok T" and "BytesRsp_ok q"
  shows "ImRpcGetSysInfoResult_FastRead T NewImRpcGetSysInfoResult (ImRpcGetSysInfoResult_FastWriteNocopy T (Some \<lparr>Success = Some q\<rparr>) @ rest) =
     Some (\<lparr>Success = Some q\<rparr>, ImRpcGetSysInfoResult_BLength T (Some \<lparr>Success = Some q\<rparr>), None)"
  using BytesRsp_codec.result_read_back [OF assms, of "''*rpc.ImRpcGetSysInfoResult''" fieldIDToName_ImRpcGetSysInfoResult NewImRpcGetSysInfoResult rest]
  by (simp add: ImRpcGetSysInfoResult_FastRead_def ImRpcGetSysInfoResult_FastReadField0_def ImRpcGetSysInfoResult_FastWriteNocopy_def ImRpcGetSysInfoResult_fastWriteField0_def
      ImRpcGetSysInfoResult_BLength_def ImRpcGetSysInfoResult_field0Length_def NewImRpcGetSysInfoResult_def BytesRsp_codec.blen assms(1) thrift_lengths add.assoc cong: if_cong)

lemma ImRpcJoinGroupArgs_read_back:
  assumes "thrift_ok T" and "JoinGroupReq_ok q"
  shows "ImRpcJoinGroupArgs_FastRead T NewImRpcJoinGroupArgs (ImRpcJoinGroupArgs_FastWriteNocopy T (Some \<lparr>Req = Some q\<rparr>) @ rest) =
     Some (\<lparr>Req = Some q\<rparr>, ImRpcJoinGroupArgs_BLength T (Some \<lparr>Req = Some q\<rparr>), None)"
  using JoinGroupReq_codec.args_read_back [OF assms, of "''*rpc.ImRpcJoinGroupArgs''" fieldIDToName_ImRpcJoinGroupArgs NewImRpcJoinGroupArgs rest]
  by (simp add: ImRpcJoinGroupArgs_FastRead_def ImRpcJoinGroupArgs_FastReadField1_def ImRpcJoinGroupArgs_FastWriteNocopy_def ImRpcJoinGroupArgs_fastWriteField1_def
      ImRpcJoinGroupArgs_BLength_def ImRpcJoinGroupArgs_field1Length_def NewImRpcJoinGroupArgs_def JoinGroupReq_codec.blen assms(1) thrift_lengths add.assoc cong: if_cong)

lemma ImRpcJoinGroupResult_read_back:
  assumes "thrift_ok T" and "JoinGroupRes_ok q"
  shows "ImRpcJoinGroupResult_FastRead T NewImRpcJoinGroupResult (ImRpcJoinGroupResult_FastWriteNocopy T (Some \<lparr>Success = Some q\<rparr>) @ rest) =
     Some (\<lparr>Success = Some q\<rparr>, ImRpcJoinGroupResult_BLength T (Some \<lparr>Success = Some q\<rparr>), None)"
  using JoinGroupRes_codec.result_read_back [OF assms, of "''*rpc.ImRpcJoinGroupResult''" fieldIDToName_ImRpcJoinGroupResult NewImRpcJoinGroupResult rest]
  by (simp add: ImRpcJoinGroupResult_FastRead_def ImRpcJoinGroupResult_FastReadField0_def ImRpcJoinGroupResult_FastWriteNocopy_def ImRpcJoinGroupResult_fastWriteField0_def
      ImRpcJoinGroupResult_BLength_def ImRpcJoinGroupResult_field0Length_def NewImRpcJoinGroupResult_def JoinGroupRes_codec.blen assms(1) thrift_lengths add.assoc cong: if_cong)

lemma ImRpcOutGroupArgs_read_back:
  assumes "thrift_ok T" and "JoinGroupReq_ok q"
  shows "ImRpcOutGroupArgs_FastRead T NewImRpcOutGroupArgs (ImRpcOutGroupArgs_FastWriteNocopy T (Some \<lparr>Req = Some q\<rparr>) @ rest) =
     Some (\<lparr>Req = Some q\<rparr>, ImRpcOutGroupArgs_BLength T (Some \<lparr>Req = Some q\<rparr>), None)"
  using JoinGroupReq_codec.args_read_back [OF assms, of "''*rpc.ImRpcOutGroupArgs''" fieldIDToName_ImRpcOutGroupArgs NewImRpcOutGroupArgs rest]
  by (simp add: ImRpcOutGroupArgs_FastRead_def ImRpcOutGroupArgs_FastReadField1_def ImRpcOutGroupArgs_FastWriteNocopy_def ImRpcOutGroupArgs_fastWriteField1_def
      ImRpcOutGroupArgs_BLength_def ImRpcOutGroupArgs_field1Length_def NewImRpcOutGroupArgs_def JoinGroupReq_codec.blen assms(1) thrift_lengths add.assoc cong: if_cong)

lemma ImRpcOutGroupResult_read_back:
  assumes "thrift_ok T" and "JoinGroupRes_ok q"
  shows "ImRpcOutGroupResult_FastRead T NewImRpcOutGroupResult (ImRpcOutGroupResult_FastWriteNocopy T (Some \<lparr>Success = Some q\<rparr>) @ rest) =
     Some (\<lparr>Success = Some q\<rparr>, ImRpcOutGroupResult_BLength T (Some \<lparr>Success = Some q\<rparr>), None)"
  using JoinGroupRes_codec.result_read_back [OF assms, of "''*rpc.ImRpcOutGroupResult''" fieldIDToName_ImRpcOutGroupResult NewImRpcOutGroupResult rest]
  by (simp add: ImRpcOutGroupResult_FastRead_def ImRpcOutGroupResult_FastReadField0_def ImRpcOutGroupResult_FastWriteNocopy_def ImRpcOutGroupResult_fastWriteField0_def
      ImRpcOutGroupResult_BLength_def ImRpcOutGroupResult_field0Length_def NewImRpcOutGroupResult_def JoinGroupRes_codec.blen assms(1) thrift_lengths add.assoc cong: if_cong)

end
