(* ===== verification/SysService.thy ===== *)
theory SysService
  imports GimServer
begin

text \<open>
  The state a node reports (\<^verbatim>\<open>service/sys/sys.go\<close>) and its way to another node
  (\<^verbatim>\<open>service/api/server/handler.go\<close>, \<^verbatim>\<open>service/api/client/client.go\<close>): one node's
  information, its JSON, and the sums over a cluster. What the machine reports is an
  argument.
\<close>

declare map_of_eq_Some_iff [simp del] Some_eq_map_of_iff [simp del]

section \<open>One node\<close>

record sys_reading =
  rdGoroutines :: int
  rdNumCPU :: int
  rdCPU :: "string result"
  rdMem :: "string result"

definition GetSysInfo ::
    "'q worker_env \<Rightarrow> 'q option \<Rightarrow> sys_reading \<Rightarrow> ('k, 'r, 'n) ws \<Rightarrow> sys_info" where
  "GetSysInfo wm mq rd w =
     \<lparr>NumGoroutine = rdGoroutines rd,
      CPUPercent = (case rdCPU rd of Inl err \<Rightarrow> ''0'' | Inr p \<Rightarrow> p),
      MemPercent = (case rdMem rd of Inl err \<Rightarrow> ''0'' | Inr p \<Rightarrow> p),
      NumCPU = rdNumCPU rd,
      ManagerInfo = Some (GetManagerInfo w),
      SubMsgList = Some (GetSubMsgList wm mq),
      Name = ServerName w,
      Version = cfgVersion (Config w)\<rparr>"

section \<open>The JSON of the information\<close>

definition manager_json :: "ws_manager_info \<Rightarrow> jval" where
  "manager_json m = JObj [(''clientsLen'', jint (ClientsLen m)), (''tGroupLen'', jint (TGroupLen m))]"

definition msg_list_json :: "ws_msg_list \<Rightarrow> jval" where
  "msg_list_json m =
     JObj [(''msgNum'', jint (MsgNum m)), (''consumeNum'', jint (ConsumeNum m)),
           (''freeCNum'', jint (FreeCNum m))]"

definition ptr_json :: "('a \<Rightarrow> jval) \<Rightarrow> 'a option \<Rightarrow> jval" where
  "ptr_json f p = (case p of None \<Rightarrow> JNull | Some x \<Rightarrow> f x)"

definition sys_info_members :: "sys_info \<Rightarrow> (string \<times> jval) list" where
  "sys_info_members s =
     [(''numGoroutine'', jint (NumGoroutine s)), (''cpuPercent'', JNum (CPUPercent s)),
      (''memPercent'', JNum (MemPercent s)), (''numCPU'', jint (NumCPU s)),
      (''managerInfo'', ptr_json manager_json (ManagerInfo s)),
      (''subMsgList'', ptr_json msg_list_json (SubMsgList s)),
      (''name'', JStr (Name s)), (''version'', JStr (Version s))]"

definition sys_info_json :: "sys_info \<Rightarrow> jval" where
  "sys_info_json s = JObj (sys_info_members s)"

text \<open>The embedded struct's fields are members of the outer object.\<close>

definition syc_collect_json :: "syc_collect_info \<Rightarrow> jval" where
  "syc_collect_json s =
     JObj (sys_info_members (scSysInfo s) @
       [(''nodeNum'', jint (NodeNum s)), (''nodeMap'', JArr (map sys_info_json (NodeList s)))])"

definition manager_set :: "string \<Rightarrow> jval \<Rightarrow> ws_manager_info \<Rightarrow> ws_manager_info \<times> go_error option" where
  "manager_set k v m =
     (if name_eq k ''clientsLen'' then
        (let (x, e) = dec_int 64 v (ClientsLen m) in (m\<lparr>ClientsLen := x\<rparr>, e))
      else if name_eq k ''tGroupLen'' then
        (let (x, e) = dec_int 64 v (TGroupLen m) in (m\<lparr>TGroupLen := x\<rparr>, e))
      else (m, None))"

definition msg_list_set :: "string \<Rightarrow> jval \<Rightarrow> ws_msg_list \<Rightarrow> ws_msg_list \<times> go_error option" where
  "msg_list_set k v m =
     (if name_eq k ''msgNum'' then (let (x, e) = dec_int 64 v (MsgNum m) in (m\<lparr>MsgNum := x\<rparr>, e))
      else if name_eq k ''consumeNum'' then
        (let (x, e) = dec_int 64 v (ConsumeNum m) in (m\<lparr>ConsumeNum := x\<rparr>, e))
      else if name_eq k ''freeCNum'' then
        (let (x, e) = dec_int 32 v (FreeCNum m) in (m\<lparr>FreeCNum := x\<rparr>, e))
      else (m, None))"

text \<open>A number into a \<^verbatim>\<open>float64\<close>, kept as the text it is printed as, and an object behind a pointer.\<close>

definition dec_float :: "jval \<Rightarrow> string \<Rightarrow> string \<times> go_error option" where
  "dec_float v old =
     (case v of
        JNum l \<Rightarrow> (case float_text l of Some t \<Rightarrow> (t, None) | None \<Rightarrow> (old, Some type_error))
      | JNull \<Rightarrow> (old, None)
      | _ \<Rightarrow> (old, Some type_error))"

definition dec_ptr ::
    "(string \<Rightarrow> jval \<Rightarrow> 's \<Rightarrow> 's \<times> go_error option) \<Rightarrow> 's \<Rightarrow> jval \<Rightarrow> 's option \<Rightarrow>
     's option \<times> go_error option" where
  "dec_ptr f zero v old =
     (if v = JNull then (None, None)
      else let (x, e) = dec_struct f v (case old of None \<Rightarrow> zero | Some y \<Rightarrow> y) in (Some x, e))"

definition sys_info_set :: "string \<Rightarrow> jval \<Rightarrow> sys_info \<Rightarrow> sys_info \<times> go_error option" where
  "sys_info_set k v s =
     (if name_eq k ''numGoroutine'' then
        (let (x, e) = dec_int 64 v (NumGoroutine s) in (s\<lparr>NumGoroutine := x\<rparr>, e))
      else if name_eq k ''cpuPercent'' then
        (let (x, e) = dec_float v (CPUPercent s) in (s\<lparr>CPUPercent := x\<rparr>, e))
      else if name_eq k ''memPercent'' then
        (let (x, e) = dec_float v (MemPercent s) in (s\<lparr>MemPercent := x\<rparr>, e))
      else if name_eq k ''numCPU'' then
        (let (x, e) = dec_int 64 v (NumCPU s) in (s\<lparr>NumCPU := x\<rparr>, e))
      else if name_eq k ''managerInfo'' then
        (let (x, e) = dec_ptr manager_set \<lparr>ClientsLen = 0, TGroupLen = 0\<rparr> v (ManagerInfo s)
         in (s\<lparr>ManagerInfo := x\<rparr>, e))
      else if name_eq k ''subMsgList'' then
        (let (x, e) = dec_ptr msg_list_set \<lparr>MsgNum = 0, ConsumeNum = 0, FreeCNum = 0\<rparr> v (SubMsgList s)
         in (s\<lparr>SubMsgList := x\<rparr>, e))
      else if name_eq k ''name'' then (let (x, e) = dec_str v (Name s) in (s\<lparr>Name := x\<rparr>, e))
      else if name_eq k ''version'' then
        (let (x, e) = dec_str v (Version s) in (s\<lparr>Version := x\<rparr>, e))
      else (s, None))"

section \<open>From node to node\<close>

definition ImRpc_GetSysInfo ::
    "'q worker_env \<Rightarrow> 'q option \<Rightarrow> sys_reading \<Rightarrow> ('k, 'r, 'n) ws \<Rightarrow> bytes_rsp result" where
  "ImRpc_GetSysInfo wm mq rd w =
     (case json_Marshal (sys_info_json (GetSysInfo wm mq rd w)) of
        Inl err \<Rightarrow> Inl err
      | Inr b \<Rightarrow> Inr \<lparr>brData = b\<rparr>)"

definition ImRpc_Hello :: string where
  "ImRpc_Hello = ''success:'' @ ''_aaaa''"

definition rpc_GetSysInfo ::
    "('k, 'r, 'n) ws_env \<Rightarrow> string \<Rightarrow> ('k, 'r, 'n) ws \<Rightarrow> ('k, 'r, 'n) ws \<times> sys_info result" where
  "rpc_GetSysInfo env client w =
     (let (n, res) = rpcGetSysInfo env client (net w); w1 = w\<lparr>net := n\<rparr> in
      case res of
        Inl err \<Rightarrow> (w1, Inl err)
      | Inr rsp \<Rightarrow>
          (case json_Unmarshal sys_info_set (brData rsp) sys_info0 of
             (sysInfo, Some err) \<Rightarrow> (w1, Inl err)
           | (sysInfo, None) \<Rightarrow> (w1, Inr sysInfo)))"

text \<open>The loop over the clients; a node that does not answer is left out.\<close>

fun collect_infos ::
    "('k, 'r, 'n) ws_env \<Rightarrow> string list \<Rightarrow> ('k, 'r, 'n) ws \<Rightarrow> ('k, 'r, 'n) ws \<times> sys_info list" where
  "collect_infos env [] w = (w, [])"
| "collect_infos env (key # keys) w =
     (case mget (rpcClients w) key of
        None \<Rightarrow> collect_infos env keys w
      | Some client \<Rightarrow>
          (case rpc_GetSysInfo env client w of
             (w1, Inl err) \<Rightarrow> collect_infos env keys w1
           | (w1, Inr sysInfo) \<Rightarrow>
               (let (w2, sysList) = collect_infos env keys w1 in (w2, sysInfo # sysList))))"

definition GetAllSysInfo ::
    "('k, 'r, 'n) ws_env \<Rightarrow> ('k, 'r, 'n) ws \<Rightarrow> ('k, 'r, 'n) ws \<times> sys_info list result" where
  "GetAllSysInfo env w =
     (let (w1, sysList) = collect_infos env (RangeOrder env (mkeys (rpcClients w))) w in
      if length sysList = 0 then (w1, Inl (FmtError ''rpcClient.GetAllSysInfo''))
      else (w1, Inr sysList))"

definition getAllNodeSysInfo ::
    "('k, 'r, 'n) ws_env \<Rightarrow> 'q worker_env \<Rightarrow> 'q option \<Rightarrow> sys_reading \<Rightarrow> ('k, 'r, 'n) ws \<Rightarrow>
     ('k, 'r, 'n) ws \<times> sys_info list result" where
  "getAllNodeSysInfo env wm mq rd w =
     (if cfgRunMode (Config w) = RunModeLocal then (w, Inr [GetSysInfo wm mq rd w])
      else GetAllSysInfo env w)"

text \<open>One round of the sums; a node without manager information is a nil dereference, \<open>None\<close>.\<close>

definition collect_step :: "sys_info \<Rightarrow> syc_collect_info \<Rightarrow> syc_collect_info option" where
  "collect_step sysInfo s =
     (case (ManagerInfo (scSysInfo s), ManagerInfo sysInfo) of
        (Some m, Some n) \<Rightarrow>
          Some (s\<lparr>NodeNum := wrap64 (NodeNum s + 1),
                  scSysInfo := (scSysInfo s)\<lparr>Version := Version sysInfo,
                    NumCPU := wrap64 (NumCPU (scSysInfo s) + NumCPU sysInfo),
                    NumGoroutine := wrap64 (NumGoroutine (scSysInfo s) + NumGoroutine sysInfo),
                    ManagerInfo := Some \<lparr>ClientsLen = wrap64 (ClientsLen m + ClientsLen n),
                      TGroupLen = wrap64 (TGroupLen m + TGroupLen n)\<rparr>\<rparr>\<rparr>)
      | _ \<Rightarrow> None)"

fun collect_all :: "sys_info list \<Rightarrow> syc_collect_info \<Rightarrow> syc_collect_info option" where
  "collect_all [] s = Some s"
| "collect_all (i # is) s = (case collect_step i s of None \<Rightarrow> None | Some s1 \<Rightarrow> collect_all is s1)"

definition GetSysCollectInfo ::
    "('k, 'r, 'n) ws_env \<Rightarrow> 'q worker_env \<Rightarrow> 'q option \<Rightarrow> sys_reading \<Rightarrow> ('k, 'r, 'n) ws \<Rightarrow>
     ('k, 'r, 'n) ws \<times> syc_collect_info option" where
  "GetSysCollectInfo env wm mq rd w =
     (case getAllNodeSysInfo env wm mq rd w of
        (w1, Inl err) \<Rightarrow> (w1, Some NewSycCollectInfo)
      | (w1, Inr allSysInfo) \<Rightarrow>
          (w1, collect_all allSysInfo (NewSycCollectInfo\<lparr>NodeList := allSysInfo\<rparr>)))"

section \<open>Facts\<close>

text \<open>What a node reports: its integers are those of the source, its two floats are printed floats.\<close>

definition reading_ok :: "sys_info \<Rightarrow> bool" where
  "reading_ok s \<longleftrightarrow>
     int_range 64 (NumGoroutine s) \<and> int_range 64 (NumCPU s) \<and>
     float_text (CPUPercent s) = Some (CPUPercent s) \<and> float_text (MemPercent s) = Some (MemPercent s) \<and>
     (\<forall>m. ManagerInfo s = Some m \<longrightarrow> int_range 64 (ClientsLen m) \<and> int_range 64 (TGroupLen m)) \<and>
     (\<forall>m. SubMsgList s = Some m \<longrightarrow>
        int_range 64 (MsgNum m) \<and> int_range 64 (ConsumeNum m) \<and> int_range 32 (FreeCNum m))"

lemma sys_info_json_good: "reading_ok s \<Longrightarrow> jgood (sys_info_json s)"
  by (auto simp: sys_info_json_def sys_info_members_def reading_ok_def ptr_json_def manager_json_def float_text_ok
      msg_list_json_def split: option.splits)

lemma dec_ptr_manager:
  "(\<And>m. p = Some m \<Longrightarrow> int_range 64 (ClientsLen m) \<and> int_range 64 (TGroupLen m)) \<Longrightarrow>
     dec_ptr manager_set \<lparr>ClientsLen = 0, TGroupLen = 0\<rparr> (ptr_json manager_json p) None = (p, None)"
  by (cases p) (simp_all add: dec_ptr_def ptr_json_def manager_json_def dec_struct_def manager_set_def
      name_eq_def to_lower_def Let_def)

lemma dec_ptr_msg_list:
  "(\<And>m. p = Some m \<Longrightarrow> int_range 64 (MsgNum m) \<and> int_range 64 (ConsumeNum m) \<and> int_range 32 (FreeCNum m)) \<Longrightarrow>
     dec_ptr msg_list_set \<lparr>MsgNum = 0, ConsumeNum = 0, FreeCNum = 0\<rparr> (ptr_json msg_list_json p) None = (p, None)"
  by (cases p) (simp_all add: dec_ptr_def ptr_json_def msg_list_json_def dec_struct_def msg_list_set_def
      name_eq_def to_lower_def Let_def)

lemma dec_float_num [simp]: "float_text l = Some l \<Longrightarrow> dec_float (JNum l) old = (l, None)"
  by (simp add: dec_float_def)

lemma sys_info_decode:
  assumes "reading_ok s"
  shows "json_Unmarshal sys_info_set (jprint (sys_info_json s)) sys_info0 = (s, None)"
proof -
  have "dec_struct sys_info_set (sys_info_json s) sys_info0 = (s, None)"
    using assms
    by (simp add: dec_struct_def sys_info_json_def sys_info_members_def sys_info_set_def sys_info0_def
        name_eq_def to_lower_def Let_def reading_ok_def dec_ptr_manager dec_ptr_msg_list)
  then show ?thesis by (simp add: json_Unmarshal_print sys_info_json_good assms)
qed

text \<open>The sums are the sums over the nodes that answered, in the 64 bits of the source's integers.\<close>

lemma collect_all_sums:
  assumes "\<forall>i \<in> set is. ManagerInfo i \<noteq> None"
    and "NodeNum s = wrap64 n" "NumCPU (scSysInfo s) = wrap64 c" "NumGoroutine (scSysInfo s) = wrap64 g"
    and "ManagerInfo (scSysInfo s) = Some \<lparr>ClientsLen = wrap64 k, TGroupLen = wrap64 t\<rparr>"
  shows "\<exists>s'. collect_all is s = Some s' \<and> NodeNum s' = wrap64 (n + int (length is)) \<and>
     NodeList s' = NodeList s \<and>
     NumCPU (scSysInfo s') = wrap64 (c + sum_list (map NumCPU is)) \<and>
     NumGoroutine (scSysInfo s') = wrap64 (g + sum_list (map NumGoroutine is)) \<and>
     ManagerInfo (scSysInfo s') =
       Some \<lparr>ClientsLen = wrap64 (k + sum_list (map (ClientsLen \<circ> the \<circ> ManagerInfo) is)),
             TGroupLen = wrap64 (t + sum_list (map (TGroupLen \<circ> the \<circ> ManagerInfo) is))\<rparr>"
  using assms
proof (induction "is" arbitrary: s n c g k t)
  case (Cons i "is")
  then obtain m where m: "ManagerInfo i = Some m" by auto
  with Cons.prems obtain s1 where s1: "collect_step i s = Some s1" "NodeList s1 = NodeList s"
    and f: "NodeNum s1 = wrap64 (n + 1)" "NumCPU (scSysInfo s1) = wrap64 (c + NumCPU i)"
      "NumGoroutine (scSysInfo s1) = wrap64 (g + NumGoroutine i)"
      "ManagerInfo (scSysInfo s1) = Some \<lparr>ClientsLen = wrap64 (k + ClientsLen m), TGroupLen = wrap64 (t + TGroupLen m)\<rparr>"
    by (simp add: collect_step_def)
  from Cons.IH [OF _ f] Cons.prems(1) s1 m show ?case by (auto simp: add.assoc)
qed simp

text \<open>The rpc library brings every client's answer; no node's state changes on the way.\<close>

definition rpc_infos_ok ::
    "('k, 'r, 'n) ws_env \<Rightarrow> (string \<Rightarrow> sys_info) \<Rightarrow> bool" where
  "rpc_infos_ok env info \<longleftrightarrow>
     (\<forall>addr n. rpcGetSysInfo env addr n = (n, Inr \<lparr>brData = jprint (sys_info_json (info addr))\<rparr>))"

lemma rpc_GetSysInfo_ok:
  "rpc_infos_ok env info \<Longrightarrow> reading_ok (info addr) \<Longrightarrow> rpc_GetSysInfo env addr w = (w, Inr (info addr))"
  by (simp add: rpc_GetSysInfo_def rpc_infos_ok_def sys_info_decode Let_def)

lemma collect_infos_ok:
  assumes "rpc_infos_ok env info" and "\<And>a. reading_ok (info a)"
    and "set keys \<subseteq> set (mkeys (rpcClients w))"
  shows "collect_infos env keys w = (w, map (\<lambda>k. info (the (mget (rpcClients w) k))) keys)"
  using assms(3)
proof (induction keys)
  case (Cons k keys)
  then have "mget (rpcClients w) k \<noteq> None" by (auto simp: map_of_eq_None_iff)
  with Cons assms(1,2) show ?case by (auto simp: rpc_GetSysInfo_ok)
qed simp

lemma GetAllSysInfo_ok:
  assumes "rpc_infos_ok env info" and "\<And>a. reading_ok (info a)" and "range_ok env"
    and "rpcClients w \<noteq> []" and "mwf (rpcClients w)"
  shows "\<exists>is. GetAllSysInfo env w = (w, Inr is) \<and> mset is = mset (map (info \<circ> snd) (rpcClients w))"
proof -
  let ?ks = "RangeOrder env (mkeys (rpcClients w))"
  let ?is = "map (\<lambda>k. info (the (mget (rpcClients w) k))) ?ks"
  have "collect_infos env ?ks w = (w, ?is)"
    by (rule collect_infos_ok [OF assms(1,2)]) (simp add: range_ok_set [OF assms(3)])
  moreover have "?ks \<noteq> []"
    using assms(3,4) range_ok_set [of env "mkeys (rpcClients w)"] by auto
  moreover have "map (\<lambda>k. info (the (mget (rpcClients w) k))) (mkeys (rpcClients w)) =
      map (info \<circ> snd) (rpcClients w)"
    using assms(5) by (auto simp: map_of_is_SomeI)
  then have "mset ?is = mset (map (info \<circ> snd) (rpcClients w))"
    using assms(3) by (metis mset_map range_ok_def)
  ultimately show ?thesis by (simp add: GetAllSysInfo_def Let_def)
qed

end
