(* ===== verification/RpcStubs.thy ===== *)
theory RpcStubs
  imports KitexApi SysService
begin

text \<open>
  The generated stubs of the rpc service (\<^verbatim>\<open>kitex_gen/im/rpc/imrpc/imrpc.go\<close>): the server's
  handler of each method, which runs the node's implementation and fills in the result
  struct, and the client's methods over the call of the rpc library, a parameter. \<open>None\<close> is
  a panic or a call that does not return; a nil request is dereferenced by the
  implementation.
\<close>

declare map_of_eq_Some_iff [simp del] Some_eq_map_of_iff [simp del]

section \<open>Results\<close>

definition GetSuccess :: "'a rpc_result \<Rightarrow> 'a option" where
  "GetSuccess p = (if Success p = None then None else Success p)"

text \<open>What a handler does with the outcome of the implementation.\<close>

definition fill_result ::
    "'a rpc_result \<Rightarrow> 'w \<times> 'a \<times> go_error option \<Rightarrow> 'w \<times> 'a rpc_result \<times> go_error option" where
  "fill_result realResult x =
     (case x of (w, success, err) \<Rightarrow>
        (case err of
           Some e \<Rightarrow> (w, realResult, Some e)
         | None \<Rightarrow> (w, realResult\<lparr>Success := Some success\<rparr>, None)))"

section \<open>The server's handlers\<close>

definition helloHandler ::
    "rpc_request rpc_args \<Rightarrow> rpc_response rpc_result \<Rightarrow> 'w \<Rightarrow> ('w \<times> rpc_response rpc_result \<times> go_error option) option" where
  "helloHandler arg result w = Some (fill_result result (w, \<lparr>rsMessage = ImRpc_Hello\<rparr>, None))"

definition sendMsgToUserHandler ::
    "('k, 'r, 'n) ws_env \<Rightarrow> send_msg_req rpc_args \<Rightarrow> send_msg_rsp rpc_result \<Rightarrow> ('k, 'r, 'n) ws \<Rightarrow>
     (('k, 'r, 'n) ws \<times> send_msg_rsp rpc_result \<times> go_error option) option" where
  "sendMsgToUserHandler env arg result w =
     (case Req arg of
        None \<Rightarrow> None
      | Some req \<Rightarrow> map_option (fill_result result) (Some (ImRpc_SendMsgToUser env req w)))"

definition sendMsgToUserByTgidHandler ::
    "('k, 'r, 'n) ws_env \<Rightarrow> send_msg_by_tgid_req rpc_args \<Rightarrow> send_msg_rsp rpc_result \<Rightarrow> ('k, 'r, 'n) ws \<Rightarrow>
     (('k, 'r, 'n) ws \<times> send_msg_rsp rpc_result \<times> go_error option) option" where
  "sendMsgToUserByTgidHandler env arg result w =
     (case Req arg of
        None \<Rightarrow> None
      | Some req \<Rightarrow> map_option (fill_result result) (Some (ImRpc_SendMsgToUserByTgid env req w)))"

definition stopUserClientHandler ::
    "('k, 'r, 'n) ws_env \<Rightarrow> user_id_req rpc_args \<Rightarrow> stop_user_client_rsp rpc_result \<Rightarrow> ('k, 'r, 'n) ws \<Rightarrow>
     (('k, 'r, 'n) ws \<times> stop_user_client_rsp rpc_result \<times> go_error option) option" where
  "stopUserClientHandler env arg result w =
     (case Req arg of
        None \<Rightarrow> None
      | Some req \<Rightarrow> map_option (fill_result result) (Some (ImRpc_StopUserClient env req w)))"

definition joinGroupHandler ::
    "join_group_req rpc_args \<Rightarrow> join_group_res rpc_result \<Rightarrow> ('k, 'r, 'n) ws \<Rightarrow>
     (('k, 'r, 'n) ws \<times> join_group_res rpc_result \<times> go_error option) option" where
  "joinGroupHandler arg result w =
     (case Req arg of
        None \<Rightarrow> None
      | Some req \<Rightarrow> map_option (fill_result result) (ImRpc_JoinGroup req w))"

definition outGroupHandler ::
    "join_group_req rpc_args \<Rightarrow> join_group_res rpc_result \<Rightarrow> ('k, 'r, 'n) ws \<Rightarrow>
     (('k, 'r, 'n) ws \<times> join_group_res rpc_result \<times> go_error option) option" where
  "outGroupHandler arg result w =
     (case Req arg of
        None \<Rightarrow> None
      | Some req \<Rightarrow> map_option (fill_result result) (Some (ImRpc_OutGroup req w)))"

definition getSysInfoHandler ::
    "'q worker_env \<Rightarrow> 'q option \<Rightarrow> sys_reading \<Rightarrow> unit \<Rightarrow> bytes_rsp rpc_result \<Rightarrow> ('k, 'r, 'n) ws \<Rightarrow>
     ('k, 'r, 'n) ws \<times> bytes_rsp rpc_result \<times> go_error option" where
  "getSysInfoHandler wm mq rd arg result w =
     (case ImRpc_GetSysInfo wm mq rd w of
        Inl e \<Rightarrow> (w, result, Some e)
      | Inr success \<Rightarrow> (w, result\<lparr>Success := Some success\<rparr>, None))"

section \<open>The client's methods\<close>

text \<open>The library's call of a method: it fills in the result struct or reports an error.\<close>

type_synonym ('a, 'b, 'n) kitex_call =
  "string \<Rightarrow> 'a \<Rightarrow> 'b rpc_result \<Rightarrow> 'n \<Rightarrow> 'n \<times> 'b rpc_result \<times> go_error option"

definition call_result ::
    "'n \<times> 'b rpc_result \<times> go_error option \<Rightarrow> 'n \<times> 'b option result" where
  "call_result x =
     (case x of (n, r, err) \<Rightarrow>
        (case err of Some e \<Rightarrow> (n, Inl e) | None \<Rightarrow> (n, Inr (GetSuccess r))))"

definition kClient_Hello ::
    "(rpc_request rpc_args, rpc_response, 'n) kitex_call \<Rightarrow> rpc_request \<Rightarrow> 'n \<Rightarrow> 'n \<times> rpc_response option result" where
  "kClient_Hello call req n =
     call_result (call ''hello'' \<lparr>Req = Some req\<rparr> NewImRpcHelloResult n)"

definition kClient_SendMsgToUser ::
    "(send_msg_req rpc_args, send_msg_rsp, 'n) kitex_call \<Rightarrow> send_msg_req \<Rightarrow> 'n \<Rightarrow> 'n \<times> send_msg_rsp option result" where
  "kClient_SendMsgToUser call req n =
     call_result (call ''SendMsgToUser'' \<lparr>Req = Some req\<rparr> NewImRpcSendMsgToUserResult n)"

definition kClient_SendMsgToUserByTgid ::
    "(send_msg_by_tgid_req rpc_args, send_msg_rsp, 'n) kitex_call \<Rightarrow> send_msg_by_tgid_req \<Rightarrow> 'n \<Rightarrow> 'n \<times> send_msg_rsp option result" where
  "kClient_SendMsgToUserByTgid call req n =
     call_result (call ''SendMsgToUserByTgid'' \<lparr>Req = Some req\<rparr> NewImRpcSendMsgToUserByTgidResult n)"

definition kClient_StopUserClient ::
    "(user_id_req rpc_args, stop_user_client_rsp, 'n) kitex_call \<Rightarrow> user_id_req \<Rightarrow> 'n \<Rightarrow> 'n \<times> stop_user_client_rsp option result" where
  "kClient_StopUserClient call req n =
     call_result (call ''StopUserClient'' \<lparr>Req = Some req\<rparr> NewImRpcStopUserClientResult n)"

definition kClient_JoinGroup ::
    "(join_group_req rpc_args, join_group_res, 'n) kitex_call \<Rightarrow> join_group_req \<Rightarrow> 'n \<Rightarrow> 'n \<times> join_group_res option result" where
  "kClient_JoinGroup call req n =
     call_result (call ''JoinGroup'' \<lparr>Req = Some req\<rparr> NewImRpcJoinGroupResult n)"

definition kClient_OutGroup ::
    "(join_group_req rpc_args, join_group_res, 'n) kitex_call \<Rightarrow> join_group_req \<Rightarrow> 'n \<Rightarrow> 'n \<times> join_group_res option result" where
  "kClient_OutGroup call req n =
     call_result (call ''OutGroup'' \<lparr>Req = Some req\<rparr> NewImRpcOutGroupResult n)"

definition kClient_GetSysInfo ::
    "(unit, bytes_rsp, 'n) kitex_call \<Rightarrow> 'n \<Rightarrow> 'n \<times> bytes_rsp option result" where
  "kClient_GetSysInfo call n = call_result (call ''GetSysInfo'' () NewImRpcGetSysInfoResult n)"

end
