(* ===== verification/CodecProps.thy ===== *)
theory CodecProps
  imports ThriftBinary RpcStubs WsInstance
begin

text \<open>
  Properties of the wire formats: the generated thrift codec of the rpc structs, and the
  JSON of what goes through redis.
\<close>

declare map_of_eq_Some_iff [simp del] Some_eq_map_of_iff [simp del]

section \<open>The rpc structs\<close>

text \<open>
  C18: The arguments of an rpc call are read back as they were written: whatever follows
  them in the buffer, the reader takes exactly the bytes that were written, as many as the
  length that was announced, and the request inside is the one that was sent.
\<close>

theorem rpc_args_round_trip:
  assumes "thrift_ok T" and "SendMsgByTgidReq_ok q"
  shows "ImRpcSendMsgToUserByTgidArgs_FastRead T NewImRpcSendMsgToUserByTgidArgs
       (ImRpcSendMsgToUserByTgidArgs_FastWriteNocopy T (Some \<lparr>Req = Some q\<rparr>) @ rest) =
     Some (\<lparr>Req = Some q\<rparr>, ImRpcSendMsgToUserByTgidArgs_BLength T (Some \<lparr>Req = Some q\<rparr>), None) \<and>
     length (ImRpcSendMsgToUserByTgidArgs_FastWriteNocopy T (Some \<lparr>Req = Some q\<rparr>)) =
       ImRpcSendMsgToUserByTgidArgs_BLength T (Some \<lparr>Req = Some q\<rparr>)"
  using ImRpcSendMsgToUserByTgidArgs_read_back [OF assms, of rest] assms(1)
  by (simp add: ImRpcSendMsgToUserByTgidArgs_FastWriteNocopy_def ImRpcSendMsgToUserByTgidArgs_fastWriteField1_def
      ImRpcSendMsgToUserByTgidArgs_BLength_def ImRpcSendMsgToUserByTgidArgs_field1Length_def
      SendMsgByTgidReq_codec.blen thrift_lengths)

theorem rpc_args_round_trip_witness:
  "\<exists>n. ImRpcSendMsgToUserByTgidArgs_FastRead binary NewImRpcSendMsgToUserByTgidArgs
       (ImRpcSendMsgToUserByTgidArgs_FastWriteNocopy binary
          (Some \<lparr>Req = Some \<lparr>sbtUid = ''bob'', sbtTgid = ''room'', sbtMsg = ''hi''\<rparr>\<rparr>)) =
     Some (\<lparr>Req = Some \<lparr>sbtUid = ''bob'', sbtTgid = ''room'', sbtMsg = ''hi''\<rparr>\<rparr>, n, None)"
  using rpc_args_round_trip [OF binary_ok, of "\<lparr>sbtUid = ''bob'', sbtTgid = ''room'', sbtMsg = ''hi''\<rparr>" "[]"]
  by (simp add: SendMsgByTgidReq_ok_def size_ok_def)

text \<open>
  A reader ignores what a newer version of the peer adds: a text field with an id it
  does not know, before its own fields, is skipped, and the request is read as if
  the field were not there.
\<close>

lemma unknown_field_skipped:
  assumes T: "thrift_ok T" and q: "SendMsgReq_ok q" and s: "size_ok s"
    and fid: "2 < fid" "fid < 32768"
  shows "\<exists>l. SendMsgReq_FastRead T NewSendMsgReq
       (tWriteFieldBegin T STRING fid @ tWriteString T s @ SendMsgReq_FastWriteNocopy T (Some q) @ rest) =
     Some (q, l, None)"
proof -
  let ?fs = "[(fid, STRING, tWriteString T s, \<lambda>q :: send_msg_req. q),
      (1, STRING, tWriteString T (smqUid q), \<lambda>r. r\<lparr>smqUid := smqUid q\<rparr>),
      (2, STRING, tWriteBinary T (smqMsg q), \<lambda>r. r\<lparr>smqMsg := smqMsg q\<rparr>)]"
  have w: "tWriteFieldBegin T STRING fid @ tWriteString T s @ SendMsgReq_FastWriteNocopy T (Some q) @ rest =
      concat (map (field_bytes T) ?fs) @ tWriteFieldStop T @ rest"
    by (simp add: SendMsgReq_defs)
  show ?thesis
    unfolding SendMsgReq_FastRead_def w
    using assms by (subst fast_read_fields [OF T])
      (simp_all add: SendMsgReq_ok_def SendMsgReq_defs read_or_skip_def skip_field_def thrift_okD(3-6)
        thrift_okD(13) [unfolded STRING_def] ttypes)
qed

text \<open>
  C28: Reading the arguments of a call returns on every buffer, however it was cut or
  garbled, and with every state of the struct: the loop over the fields ends, the nested
  one too, no offset is beyond the end of the buffer, and a read that succeeds has taken no
  more bytes than there are.
\<close>

theorem rpc_args_read_returns:
  assumes T: "thrift_ok T"
  shows "\<exists>p' l e. ImRpcSendMsgToUserByTgidArgs_FastRead T p buf = Some (p', l, e) \<and> (e = None \<longrightarrow> l \<le> length buf)"
proof -
  have req: "reader_ends (SendMsgByTgidReq_FastRead T)"
    unfolding SendMsgByTgidReq_FastRead_def
    by (intro fast_read_ends [OF T])
      (auto simp: table_ends_def reader_ends_def SendMsgByTgidReq_defs thrift_ok_bounds [OF T]
        split: if_splits sum.split)
  have "reader_ends (ImRpcSendMsgToUserByTgidArgs_FastReadField1 T)"
    unfolding ImRpcSendMsgToUserByTgidArgs_FastReadField1_def by (rule read_nested_ends [OF req])
  then have "reader_ends (ImRpcSendMsgToUserByTgidArgs_FastRead T)"
    unfolding ImRpcSendMsgToUserByTgidArgs_FastRead_def
    by (intro fast_read_ends [OF T]) (auto simp: table_ends_def split: if_splits)
  then show ?thesis unfolding reader_ends_def by blast
qed

theorem rpc_args_read_returns_witness:
  "\<exists>p' l e. ImRpcSendMsgToUserByTgidArgs_FastRead binary \<lparr>Req = None\<rparr> ''garbage'' = Some (p', l, e)"
  using rpc_args_read_returns [OF binary_ok] by blast

section \<open>What goes through redis\<close>

lemma GetUserOnlineInfo_read:
  assumes "redis_ok env kv"
  shows "snd (GetUserOnlineInfo env uid w) =
     (case kv (redis w) (getUserOnlineKey uid w) of
        None \<Rightarrow> (None, Some RedisNil)
      | Some b \<Rightarrow> (let (u, e) = json_Unmarshal user_online_set b user_online0 in (Some u, e)))"
proof -
  obtain r res where g: "redisGet env (getUserOnlineKey uid w) (redis w) = (r, res)" by fastforce
  show ?thesis
    using redis_ok_dests(6) [OF assms g] g
    by (auto simp: GetUserOnlineInfo_def Let_def split: option.splits prod.splits)
qed

text \<open>
  C27: The online entry of a user is read back from redis as it was set, also when its
  fields hold quotes, control characters or markup, and setting it returns the entry that
  was there; reading another user's entry is not affected; after the entry is deleted it
  is not found.
\<close>

theorem online_entry_round_trip:
  assumes r: "redis_ok env kv"
    and old: "kv (redis w) (getUserOnlineKey uid w) = map_option (\<lambda>u. jprint (user_online_json u)) old"
    and w1: "GetSetUserOnlineInfo env uid u w = (w1, old', e)"
  shows "old' = old \<and> e = None \<and> snd (GetUserOnlineInfo env uid w1) = (Some u, None) \<and>
     (\<forall>v. v \<noteq> uid \<longrightarrow> snd (GetUserOnlineInfo env v w1) = snd (GetUserOnlineInfo env v w)) \<and>
     snd (GetUserOnlineInfo env uid (fst (DelUserOnlineInfo env uid w1))) = (None, Some RedisNil)"
proof -
  note s = GetSetUserOnlineInfo_spec [OF r old, of u]
  have k: "getUserOnlineKey v w1 = getUserOnlineKey v w" for v
    using GetSetUserOnlineInfo_frame(1) [of env uid u w] w1 by (intro getUserOnlineKey_cong) simp
  have k2: "getUserOnlineKey v (fst (DelUserOnlineInfo env uid w1)) = getUserOnlineKey v w" for v
    unfolding k [symmetric] by (intro getUserOnlineKey_cong) simp
  have kv1: "kv (redis w1) = (kv (redis w))(getUserOnlineKey uid w \<mapsto> jprint (user_online_json u))"
    using s(2) w1 by simp
  have "old' = old" "e = None" using s(1) w1 by simp_all
  moreover have "snd (GetUserOnlineInfo env uid w1) = (Some u, None)"
    unfolding GetUserOnlineInfo_read [OF r] k kv1 by (simp add: user_online_decode)
  moreover have "snd (GetUserOnlineInfo env v w1) = snd (GetUserOnlineInfo env v w)" if "v \<noteq> uid" for v
    unfolding GetUserOnlineInfo_read [OF r] k kv1 using that by simp
  moreover have "snd (GetUserOnlineInfo env uid (fst (DelUserOnlineInfo env uid w1))) = (None, Some RedisNil)"
    unfolding GetUserOnlineInfo_read [OF r] k2 DelUserOnlineInfo_kv [OF r] k by simp
  ultimately show ?thesis by blast
qed

definition ex_entry :: user_online where
  "ex_entry = \<lparr>AccIp = ''10.0.0.7'', ClientArr = ''c'', AccPort = ''8080'', RpcPort = ''8889'',
     UserId = ''carol'', RandUuid = ''id0''\<rparr>"

theorem online_entry_round_trip_witness:
  "snd (GetUserOnlineInfo ex_env ''carol'' (fst (GetSetUserOnlineInfo ex_env ''carol'' ex_entry ex_ws))) =
     (Some ex_entry, None)"
proof -
  obtain w1 o1 e where w1: "GetSetUserOnlineInfo ex_env ''carol'' ex_entry ex_ws = (w1, o1, e)"
    by (metis surj_pair)
  show ?thesis using online_entry_round_trip [OF ex_redis_ok _ w1, of None] w1 by simp
qed

end
