(* ===== verification/RpcService.thy ===== *)
theory RpcService
  imports RpcStubs
begin

text \<open>
  The description of the rpc service that the generated code gives to the rpc library
  (\<^verbatim>\<open>kitex_gen/im/rpc/imrpc/imrpc.go\<close>): the table of methods and its selection for servers,
  clients and streaming clients. A handler and the constructors of its structs are
  represented by the method they belong to. Whether a mode is a streaming mode is asked of
  the library, the parameter \<open>streaming\<close>.
\<close>

section \<open>The table of methods\<close>

datatype rpc_name = Hello | SendMsgToUser | SendMsgToUserByTgid | StopUserClient | GetSysInfo | JoinGroup | OutGroup

datatype streaming_mode = StreamingNone | StreamingUnary | StreamingClient | StreamingServer | StreamingBidirectional

text \<open>What the library keeps of a method: the arguments of \<^verbatim>\<open>NewMethodInfo\<close>.\<close>

record method_info =
  miHandler :: rpc_name
  miNewArgs :: rpc_name
  miNewResult :: rpc_name
  miOneWay :: bool
  miStreaming :: streaming_mode

abbreviation plain_method :: "rpc_name \<Rightarrow> method_info" where
  "plain_method n \<equiv>
     \<lparr>miHandler = n, miNewArgs = n, miNewResult = n, miOneWay = False, miStreaming = StreamingNone\<rparr>"

definition serviceMethods :: "(string, method_info) gomap" where
  "serviceMethods =
     [(''hello'', plain_method Hello), (''SendMsgToUser'', plain_method SendMsgToUser),
      (''SendMsgToUserByTgid'', plain_method SendMsgToUserByTgid),
      (''StopUserClient'', plain_method StopUserClient), (''GetSysInfo'', plain_method GetSysInfo),
      (''JoinGroup'', plain_method JoinGroup), (''OutGroup'', plain_method OutGroup)]"

section \<open>The service\<close>

record service_info =
  siServiceName :: string
  siMethods :: "(string, method_info) gomap"
  siPackageName :: string
  siExtraStreaming :: "bool option"

fun keep_methods :: "(streaming_mode \<Rightarrow> bool) \<Rightarrow> bool \<Rightarrow> bool \<Rightarrow> (string \<times> method_info) list \<Rightarrow>
    (string, method_info) gomap \<Rightarrow> (string, method_info) gomap" where
  "keep_methods streaming ks kn [] methods = methods"
| "keep_methods streaming ks kn ((name, m) # ms) methods =
     (if streaming (miStreaming m) \<and> \<not> ks then keep_methods streaming ks kn ms methods
      else if \<not> streaming (miStreaming m) \<and> \<not> kn then keep_methods streaming ks kn ms methods
      else keep_methods streaming ks kn ms (mput name m methods))"

definition newServiceInfo :: "(streaming_mode \<Rightarrow> bool) \<Rightarrow> bool \<Rightarrow> bool \<Rightarrow> bool \<Rightarrow> service_info" where
  "newServiceInfo streaming hasStreaming keepStreamingMethods keepNonStreamingMethods =
     \<lparr>siServiceName = ''ImRpc'',
      siMethods = keep_methods streaming keepStreamingMethods keepNonStreamingMethods serviceMethods [],
      siPackageName = ''rpc'',
      siExtraStreaming = (if hasStreaming then Some hasStreaming else None)\<rparr>"

definition NewServiceInfo :: "(streaming_mode \<Rightarrow> bool) \<Rightarrow> service_info" where
  "NewServiceInfo streaming = newServiceInfo streaming False True True"

definition NewServiceInfoForClient :: "(streaming_mode \<Rightarrow> bool) \<Rightarrow> service_info" where
  "NewServiceInfoForClient streaming = newServiceInfo streaming False False True"

definition NewServiceInfoForStreamClient :: "(streaming_mode \<Rightarrow> bool) \<Rightarrow> service_info" where
  "NewServiceInfoForStreamClient streaming = newServiceInfo streaming True True False"

text \<open>The package variables, set once, and the functions that return them.\<close>

definition serviceInfo :: "(streaming_mode \<Rightarrow> bool) \<Rightarrow> service_info" where
  "serviceInfo streaming = NewServiceInfo streaming"

definition serviceInfoForStreamClient :: "(streaming_mode \<Rightarrow> bool) \<Rightarrow> service_info" where
  "serviceInfoForStreamClient streaming = NewServiceInfoForStreamClient streaming"

definition serviceInfoForClient :: "(streaming_mode \<Rightarrow> bool) \<Rightarrow> service_info" where
  "serviceInfoForClient streaming = NewServiceInfoForClient streaming"

section \<open>Facts\<close>

lemma keep_methods_get:
  "distinct (map fst ms) \<Longrightarrow>
   mget (keep_methods streaming ks kn ms acc) name =
     (case mget ms name of
        None \<Rightarrow> mget acc name
      | Some m \<Rightarrow> if if streaming (miStreaming m) then ks else kn then Some m else mget acc name)"
proof (induction streaming ks kn ms acc rule: keep_methods.induct)
  case (2 streaming ks kn n m ms methods)
  then have "mget ms n = None" by (simp add: map_of_eq_None_iff)
  with 2 show ?case by (cases "n = name"; cases "mget ms name") auto
qed simp

text \<open>
  The server and the client know the same methods, all of the table; each name selects the
  handler and the structs of one method, and a streaming client has none.
\<close>

lemma service_methods:
  "distinct (map fst serviceMethods)"
  "mget serviceMethods name = Some m \<Longrightarrow>
     miStreaming m = StreamingNone \<and> miNewArgs m = miHandler m \<and> miNewResult m = miHandler m \<and> \<not> miOneWay m"
  by (auto simp: serviceMethods_def split: if_splits)

lemma client_methods_served:
  assumes "\<not> streaming StreamingNone"
  shows "mget (siMethods (serviceInfoForClient streaming)) name = mget serviceMethods name"
    and "mget (siMethods (serviceInfo streaming)) name = mget serviceMethods name"
    and "mget (siMethods (serviceInfoForStreamClient streaming)) name = None"
  using assms service_methods(2) [of name]
  by (auto simp: serviceInfo_def serviceInfoForClient_def serviceInfoForStreamClient_def NewServiceInfoForClient_def NewServiceInfo_def NewServiceInfoForStreamClient_def
      newServiceInfo_def keep_methods_get service_methods(1) split: option.splits)

end
