(* ===== verification/RpcDispatch.thy ===== *)
theory RpcDispatch
  imports RpcService
begin

text \<open>
  From a request to the handler and back: the generated code gives the rpc library functions
  over \<^verbatim>\<open>interface{}\<close> values, and the handlers assert the types they expect. Here the structs of all
  methods are one type, an assertion that does not hold is a panic, and it is shown that the
  table never leads to one.
\<close>

declare map_of_eq_Some_iff [simp del] Some_eq_map_of_iff [simp del]

section \<open>Values behind an interface\<close>

datatype rpc_arg =
    HelloArgs "rpc_request rpc_args"
  | SendMsgToUserArgs "send_msg_req rpc_args"
  | SendMsgToUserByTgidArgs "send_msg_by_tgid_req rpc_args"
  | StopUserClientArgs "user_id_req rpc_args"
  | GetSysInfoArgs "unit"
  | JoinGroupArgs "join_group_req rpc_args"
  | OutGroupArgs "join_group_req rpc_args"

datatype rpc_res =
    HelloResult "rpc_response rpc_result"
  | SendMsgToUserResult "send_msg_rsp rpc_result"
  | SendMsgToUserByTgidResult "send_msg_rsp rpc_result"
  | StopUserClientResult "stop_user_client_rsp rpc_result"
  | GetSysInfoResult "bytes_rsp rpc_result"
  | JoinGroupResult "join_group_res rpc_result"
  | OutGroupResult "join_group_res rpc_result"

section \<open>The constructors in the table\<close>

definition NewImRpcGetSysInfoArgs :: unit where
  "NewImRpcGetSysInfoArgs = ()"

definition newImRpcHelloArgs :: rpc_arg where
  "newImRpcHelloArgs = HelloArgs NewImRpcHelloArgs"

definition newImRpcHelloResult :: rpc_res where
  "newImRpcHelloResult = HelloResult NewImRpcHelloResult"

definition newImRpcSendMsgToUserArgs :: rpc_arg where
  "newImRpcSendMsgToUserArgs = SendMsgToUserArgs NewImRpcSendMsgToUserArgs"

definition newImRpcSendMsgToUserResult :: rpc_res where
  "newImRpcSendMsgToUserResult = SendMsgToUserResult NewImRpcSendMsgToUserResult"

definition newImRpcSendMsgToUserByTgidArgs :: rpc_arg where
  "newImRpcSendMsgToUserByTgidArgs = SendMsgToUserByTgidArgs NewImRpcSendMsgToUserByTgidArgs"

definition newImRpcSendMsgToUserByTgidResult :: rpc_res where
  "newImRpcSendMsgToUserByTgidResult = SendMsgToUserByTgidResult NewImRpcSendMsgToUserByTgidResult"

definition newImRpcStopUserClientArgs :: rpc_arg where
  "newImRpcStopUserClientArgs = StopUserClientArgs NewImRpcStopUserClientArgs"

definition newImRpcStopUserClientResult :: rpc_res where
  "newImRpcStopUserClientResult = StopUserClientResult NewImRpcStopUserClientResult"

definition newImRpcGetSysInfoArgs :: rpc_arg where
  "newImRpcGetSysInfoArgs = GetSysInfoArgs NewImRpcGetSysInfoArgs"

definition newImRpcGetSysInfoResult :: rpc_res where
  "newImRpcGetSysInfoResult = GetSysInfoResult NewImRpcGetSysInfoResult"

definition newImRpcJoinGroupArgs :: rpc_arg where
  "newImRpcJoinGroupArgs = JoinGroupArgs NewImRpcJoinGroupArgs"

definition newImRpcJoinGroupResult :: rpc_res where
  "newImRpcJoinGroupResult = JoinGroupResult NewImRpcJoinGroupResult"

definition newImRpcOutGroupArgs :: rpc_arg where
  "newImRpcOutGroupArgs = OutGroupArgs NewImRpcOutGroupArgs"

definition newImRpcOutGroupResult :: rpc_res where
  "newImRpcOutGroupResult = OutGroupResult NewImRpcOutGroupResult"

text \<open>The function a row of the table holds.\<close>

fun new_args :: "rpc_name \<Rightarrow> rpc_arg" where
  "new_args Hello = newImRpcHelloArgs"
| "new_args SendMsgToUser = newImRpcSendMsgToUserArgs"
| "new_args SendMsgToUserByTgid = newImRpcSendMsgToUserByTgidArgs"
| "new_args StopUserClient = newImRpcStopUserClientArgs"
| "new_args GetSysInfo = newImRpcGetSysInfoArgs"
| "new_args JoinGroup = newImRpcJoinGroupArgs"
| "new_args OutGroup = newImRpcOutGroupArgs"

fun new_result :: "rpc_name \<Rightarrow> rpc_res" where
  "new_result Hello = newImRpcHelloResult"
| "new_result SendMsgToUser = newImRpcSendMsgToUserResult"
| "new_result SendMsgToUserByTgid = newImRpcSendMsgToUserByTgidResult"
| "new_result StopUserClient = newImRpcStopUserClientResult"
| "new_result GetSysInfo = newImRpcGetSysInfoResult"
| "new_result JoinGroup = newImRpcJoinGroupResult"
| "new_result OutGroup = newImRpcOutGroupResult"

section \<open>The handlers with their assertions\<close>

datatype 'w outcome = AssertionPanic | NoReturn | Returned 'w rpc_res "go_error option"

text \<open>\<open>asArg\<close> and \<open>asRes\<close> are the two type assertions a handler begins with.\<close>

definition asserted ::
    "(rpc_arg \<Rightarrow> 'a option) \<Rightarrow> (rpc_res \<Rightarrow> 'b option) \<Rightarrow> ('b \<Rightarrow> rpc_res) \<Rightarrow>
     ('a \<Rightarrow> 'b \<Rightarrow> 'w \<Rightarrow> ('w \<times> 'b \<times> go_error option) option) \<Rightarrow> rpc_arg \<Rightarrow> rpc_res \<Rightarrow> 'w \<Rightarrow> 'w outcome" where
  "asserted asArg asRes mkRes handler arg result w =
     (case asArg arg of
        None \<Rightarrow> AssertionPanic
      | Some realArg \<Rightarrow>
          (case asRes result of
             None \<Rightarrow> AssertionPanic
           | Some realResult \<Rightarrow>
               (case handler realArg realResult w of
                  None \<Rightarrow> NoReturn
                | Some (w1, r, e) \<Rightarrow> Returned w1 (mkRes r) e)))"

text \<open>What the handlers use of the node: the libraries, the worker pool and the readings of the runtime.\<close>

record ('k, 'r, 'n, 'q) served_node =
  snEnv :: "('k, 'r, 'n) ws_env"
  snPool :: "'q worker_env"
  snQueue :: "'q option"
  snReading :: sys_reading

definition run_handler ::
    "('k, 'r, 'n, 'q) served_node \<Rightarrow> rpc_name \<Rightarrow> rpc_arg \<Rightarrow> rpc_res \<Rightarrow> ('k, 'r, 'n) ws \<Rightarrow> ('k, 'r, 'n) ws outcome" where
  "run_handler x n =
     (case n of
        Hello \<Rightarrow>
          asserted (\<lambda>v. case v of HelloArgs a \<Rightarrow> Some a | _ \<Rightarrow> None) (\<lambda>v. case v of HelloResult r \<Rightarrow> Some r | _ \<Rightarrow> None)
            HelloResult helloHandler
      | SendMsgToUser \<Rightarrow>
          asserted (\<lambda>v. case v of SendMsgToUserArgs a \<Rightarrow> Some a | _ \<Rightarrow> None) (\<lambda>v. case v of SendMsgToUserResult r \<Rightarrow> Some r | _ \<Rightarrow> None)
            SendMsgToUserResult (sendMsgToUserHandler (snEnv x))
      | SendMsgToUserByTgid \<Rightarrow>
          asserted (\<lambda>v. case v of SendMsgToUserByTgidArgs a \<Rightarrow> Some a | _ \<Rightarrow> None) (\<lambda>v. case v of SendMsgToUserByTgidResult r \<Rightarrow> Some r | _ \<Rightarrow> None)
            SendMsgToUserByTgidResult (sendMsgToUserByTgidHandler (snEnv x))
      | StopUserClient \<Rightarrow>
          asserted (\<lambda>v. case v of StopUserClientArgs a \<Rightarrow> Some a | _ \<Rightarrow> None) (\<lambda>v. case v of StopUserClientResult r \<Rightarrow> Some r | _ \<Rightarrow> None)
            StopUserClientResult (stopUserClientHandler (snEnv x))
      | GetSysInfo \<Rightarrow>
          asserted (\<lambda>v. case v of GetSysInfoArgs a \<Rightarrow> Some a | _ \<Rightarrow> None) (\<lambda>v. case v of GetSysInfoResult r \<Rightarrow> Some r | _ \<Rightarrow> None)
            GetSysInfoResult (\<lambda>a r w. Some (getSysInfoHandler (snPool x) (snQueue x) (snReading x) a r w))
      | JoinGroup \<Rightarrow>
          asserted (\<lambda>v. case v of JoinGroupArgs a \<Rightarrow> Some a | _ \<Rightarrow> None) (\<lambda>v. case v of JoinGroupResult r \<Rightarrow> Some r | _ \<Rightarrow> None)
            JoinGroupResult joinGroupHandler
      | OutGroup \<Rightarrow>
          asserted (\<lambda>v. case v of OutGroupArgs a \<Rightarrow> Some a | _ \<Rightarrow> None) (\<lambda>v. case v of OutGroupResult r \<Rightarrow> Some r | _ \<Rightarrow> None)
            OutGroupResult outGroupHandler)"

section \<open>A request at the serving node\<close>

text \<open>The codec of the struct behind an interface.\<close>

fun arg_read :: "thrift \<Rightarrow> rpc_arg reader" where
  "arg_read T (HelloArgs a) b = map_option (map_prod HelloArgs id) (ImRpcHelloArgs_FastRead T a b)"
| "arg_read T (SendMsgToUserArgs a) b = map_option (map_prod SendMsgToUserArgs id) (ImRpcSendMsgToUserArgs_FastRead T a b)"
| "arg_read T (SendMsgToUserByTgidArgs a) b = map_option (map_prod SendMsgToUserByTgidArgs id) (ImRpcSendMsgToUserByTgidArgs_FastRead T a b)"
| "arg_read T (StopUserClientArgs a) b = map_option (map_prod StopUserClientArgs id) (ImRpcStopUserClientArgs_FastRead T a b)"
| "arg_read T (GetSysInfoArgs a) b = map_option (map_prod GetSysInfoArgs id) (ImRpcGetSysInfoArgs_FastRead T a b)"
| "arg_read T (JoinGroupArgs a) b = map_option (map_prod JoinGroupArgs id) (ImRpcJoinGroupArgs_FastRead T a b)"
| "arg_read T (OutGroupArgs a) b = map_option (map_prod OutGroupArgs id) (ImRpcOutGroupArgs_FastRead T a b)"

fun res_write :: "thrift \<Rightarrow> rpc_res \<Rightarrow> bytes" where
  "res_write T (HelloResult r) = ImRpcHelloResult_FastWriteNocopy T (Some r)"
| "res_write T (SendMsgToUserResult r) = ImRpcSendMsgToUserResult_FastWriteNocopy T (Some r)"
| "res_write T (SendMsgToUserByTgidResult r) = ImRpcSendMsgToUserByTgidResult_FastWriteNocopy T (Some r)"
| "res_write T (StopUserClientResult r) = ImRpcStopUserClientResult_FastWriteNocopy T (Some r)"
| "res_write T (GetSysInfoResult r) = ImRpcGetSysInfoResult_FastWriteNocopy T (Some r)"
| "res_write T (JoinGroupResult r) = ImRpcJoinGroupResult_FastWriteNocopy T (Some r)"
| "res_write T (OutGroupResult r) = ImRpcOutGroupResult_FastWriteNocopy T (Some r)"

definition unknown_method :: go_error where
  "unknown_method = ExtError ''unknown method''"

datatype 'w reply = ReplyPanic | NoReply | Reply 'w "bytes result"

text \<open>
  What the library does with a request: the method is looked up by its name, its structs are
  made by the constructors of the table, the arguments read, the handler run, the result
  written.
\<close>

definition serve_rpc ::
    "thrift \<Rightarrow> ('k, 'r, 'n, 'q) served_node \<Rightarrow> service_info \<Rightarrow> string \<Rightarrow> bytes \<Rightarrow> ('k, 'r, 'n) ws \<Rightarrow>
     ('k, 'r, 'n) ws reply" where
  "serve_rpc T x svc name b w =
     (case mget (siMethods svc) name of
        None \<Rightarrow> Reply w (Inl unknown_method)
      | Some m \<Rightarrow>
          (case arg_read T (new_args (miNewArgs m)) b of
             None \<Rightarrow> NoReply
           | Some (args, l, Some e) \<Rightarrow> Reply w (Inl e)
           | Some (args, l, None) \<Rightarrow>
               (case run_handler x (miHandler m) args (new_result (miNewResult m)) w of
                  AssertionPanic \<Rightarrow> ReplyPanic
                | NoReturn \<Rightarrow> NoReply
                | Returned w1 r (Some e) \<Rightarrow> Reply w1 (Inl e)
                | Returned w1 r None \<Rightarrow> Reply w1 (Inr (res_write T r)))))"

section \<open>One method\<close>

text \<open>A method on the serving side: the arguments are read, the handler runs, the result is written.\<close>

definition run_method ::
    "'a reader \<Rightarrow> 'a \<Rightarrow> ('a \<Rightarrow> 'b \<Rightarrow> 'w \<Rightarrow> ('w \<times> 'b \<times> go_error option) option) \<Rightarrow> 'b \<Rightarrow> ('b option \<Rightarrow> bytes) \<Rightarrow>
     bytes \<Rightarrow> 'w \<Rightarrow> ('w \<times> bytes result) option" where
  "run_method readA newA handler newR wrR b w =
     (case readA newA b of
        None \<Rightarrow> None
      | Some (args, l, Some e) \<Rightarrow> Some (w, Inl e)
      | Some (args, l, None) \<Rightarrow>
          (case handler args newR w of
             None \<Rightarrow> None
           | Some (w1, r, Some e) \<Rightarrow> Some (w1, Inl e)
           | Some (w1, r, None) \<Rightarrow> Some (w1, Inr (wrR (Some r)))))"

section \<open>Facts\<close>

definition reply_of :: "('w \<times> bytes result) option \<Rightarrow> 'w reply" where
  "reply_of x = (case x of None \<Rightarrow> NoReply | Some (w, r) \<Rightarrow> Reply w r)"

lemma reply_of_no_panic [simp]: "reply_of r \<noteq> ReplyPanic"
  by (simp add: reply_of_def split: option.split prod.split)

text \<open>
  A request under a name of the table is served by the structs and the handler of that method;
  under another name it is refused.
\<close>

lemmas new_defs = newImRpcHelloArgs_def newImRpcHelloResult_def newImRpcSendMsgToUserArgs_def newImRpcSendMsgToUserResult_def newImRpcSendMsgToUserByTgidArgs_def newImRpcSendMsgToUserByTgidResult_def newImRpcStopUserClientArgs_def newImRpcStopUserClientResult_def newImRpcGetSysInfoArgs_def newImRpcGetSysInfoResult_def newImRpcJoinGroupArgs_def newImRpcJoinGroupResult_def newImRpcOutGroupArgs_def newImRpcOutGroupResult_def

lemma serve_Hello:
  assumes "\<not> streaming StreamingNone"
  shows "serve_rpc T x (serviceInfo streaming) ''hello'' b w =
     reply_of (run_method (ImRpcHelloArgs_FastRead T) NewImRpcHelloArgs helloHandler NewImRpcHelloResult
       (ImRpcHelloResult_FastWriteNocopy T) b w)"
  by (auto simp: serve_rpc_def client_methods_served(2) assms serviceMethods_def run_method_def reply_of_def
      run_handler_def asserted_def new_defs split: option.split prod.split)

lemma serve_SendMsgToUser:
  assumes "\<not> streaming StreamingNone"
  shows "serve_rpc T x (serviceInfo streaming) ''SendMsgToUser'' b w =
     reply_of (run_method (ImRpcSendMsgToUserArgs_FastRead T) NewImRpcSendMsgToUserArgs (sendMsgToUserHandler (snEnv x)) NewImRpcSendMsgToUserResult
       (ImRpcSendMsgToUserResult_FastWriteNocopy T) b w)"
  by (auto simp: serve_rpc_def client_methods_served(2) assms serviceMethods_def run_method_def reply_of_def
      run_handler_def asserted_def new_defs split: option.split prod.split)

lemma serve_SendMsgToUserByTgid:
  assumes "\<not> streaming StreamingNone"
  shows "serve_rpc T x (serviceInfo streaming) ''SendMsgToUserByTgid'' b w =
     reply_of (run_method (ImRpcSendMsgToUserByTgidArgs_FastRead T) NewImRpcSendMsgToUserByTgidArgs (sendMsgToUserByTgidHandler (snEnv x)) NewImRpcSendMsgToUserByTgidResult
       (ImRpcSendMsgToUserByTgidResult_FastWriteNocopy T) b w)"
  by (auto simp: serve_rpc_def client_methods_served(2) assms serviceMethods_def run_method_def reply_of_def
      run_handler_def asserted_def new_defs split: option.split prod.split)

lemma serve_StopUserClient:
  assumes "\<not> streaming StreamingNone"
  shows "serve_rpc T x (serviceInfo streaming) ''StopUserClient'' b w =
     reply_of (run_method (ImRpcStopUserClientArgs_FastRead T) NewImRpcStopUserClientArgs (stopUserClientHandler (snEnv x)) NewImRpcStopUserClientResult
       (ImRpcStopUserClientResult_FastWriteNocopy T) b w)"
  by (auto simp: serve_rpc_def client_methods_served(2) assms serviceMethods_def run_method_def reply_of_def
      run_handler_def asserted_def new_defs split: option.split prod.split)

lemma serve_GetSysInfo:
  assumes "\<not> streaming StreamingNone"
  shows "serve_rpc T x (serviceInfo streaming) ''GetSysInfo'' b w =
     reply_of (run_method (ImRpcGetSysInfoArgs_FastRead T) NewImRpcGetSysInfoArgs (\<lambda>a r w. Some (getSysInfoHandler (snPool x) (snQueue x) (snReading x) a r w)) NewImRpcGetSysInfoResult
       (ImRpcGetSysInfoResult_FastWriteNocopy T) b w)"
  by (auto simp: serve_rpc_def client_methods_served(2) assms serviceMethods_def run_method_def reply_of_def
      run_handler_def asserted_def new_defs split: option.split prod.split)

lemma serve_JoinGroup:
  assumes "\<not> streaming StreamingNone"
  shows "serve_rpc T x (serviceInfo streaming) ''JoinGroup'' b w =
     reply_of (run_method (ImRpcJoinGroupArgs_FastRead T) NewImRpcJoinGroupArgs joinGroupHandler NewImRpcJoinGroupResult
       (ImRpcJoinGroupResult_FastWriteNocopy T) b w)"
  by (auto simp: serve_rpc_def client_methods_served(2) assms serviceMethods_def run_method_def reply_of_def
      run_handler_def asserted_def new_defs split: option.split prod.split)

lemma serve_OutGroup:
  assumes "\<not> streaming StreamingNone"
  shows "serve_rpc T x (serviceInfo streaming) ''OutGroup'' b w =
     reply_of (run_method (ImRpcOutGroupArgs_FastRead T) NewImRpcOutGroupArgs outGroupHandler NewImRpcOutGroupResult
       (ImRpcOutGroupResult_FastWriteNocopy T) b w)"
  by (auto simp: serve_rpc_def client_methods_served(2) assms serviceMethods_def run_method_def reply_of_def
      run_handler_def asserted_def new_defs split: option.split prod.split)

lemmas serve_known = serve_Hello serve_SendMsgToUser serve_SendMsgToUserByTgid serve_StopUserClient serve_GetSysInfo serve_JoinGroup serve_OutGroup

lemma serve_unknown:
  assumes "\<not> streaming StreamingNone" and "mget serviceMethods name = None"
  shows "serve_rpc T x (serviceInfo streaming) name b w = Reply w (Inl unknown_method)"
  using assms by (simp add: serve_rpc_def client_methods_served(2))

text \<open>No request, whatever its name and its bytes, leads to an assertion that does not hold.\<close>

lemma serve_no_panic:
  assumes "\<not> streaming StreamingNone"
  shows "serve_rpc T x (serviceInfo streaming) name b w \<noteq> ReplyPanic"
proof (cases "mget serviceMethods name")
  case None
  then show ?thesis by (simp add: serve_unknown assms)
next
  case (Some m)
  then have "name \<in> fst ` set serviceMethods" by (metis domI dom_map_of_conv_image_fst)
  then show ?thesis by (auto simp: serviceMethods_def serve_known assms)
qed

end
