(* ===== verification/Cluster.thy ===== *)
theory Cluster
  imports RpcDispatch WsDelivery
begin

text \<open>
  Several nodes: a node finds another through etcd, and a call to it travels as the bytes
  of the generated codec and runs the other node's handler. The other nodes are the state
  of the network, by the address they serve.
\<close>

declare map_of_eq_Some_iff [simp del] Some_eq_map_of_iff [simp del]

type_synonym ('k, 'r) node = "('k, 'r, unit) ws"

type_synonym ('k, 'r) network = "string \<Rightarrow> ('k, 'r) node option"

section \<open>What is used of the rpc library\<close>

definition short_read :: go_error where
  "short_read = ExtError ''result could not be read''"

text \<open>
  The documented behaviour of a call: no streaming is no streaming mode; the name of a method
  the client knows and the bytes of the arguments are brought to the node that serves the
  address, which serves the request by that name, once; the bytes of the result are brought
  back and read into the caller's result struct, an error is reported as an error.
\<close>

definition kitex_ok ::
    "thrift \<Rightarrow> ('k, 'r, unit, 'p) served_node \<Rightarrow> (streaming_mode \<Rightarrow> bool) \<Rightarrow> ('a option \<Rightarrow> bytes) \<Rightarrow>
     'b rpc_result \<Rightarrow> 'b rpc_result reader \<Rightarrow> (go_error \<Rightarrow> go_error) \<Rightarrow>
     (string \<Rightarrow> ('a, 'b, ('k, 'r) network) kitex_call) \<Rightarrow> bool" where
  "kitex_ok T x streaming wrA newR readR remote call \<longleftrightarrow>
     \<not> streaming StreamingNone \<and>
     (\<forall>addr m args n node node' res.
        mget (siMethods (serviceInfoForClient streaming)) m \<noteq> None \<longrightarrow> n addr = Some node \<longrightarrow>
        serve_rpc T x (serviceInfo streaming) m (wrA (Some args)) node = Reply node' res \<longrightarrow>
        call addr m args newR n =
          (n(addr \<mapsto> node'),
           (case res of
              Inl e \<Rightarrow> (newR, Some (remote e))
            | Inr b \<Rightarrow> (case readR newR b of None \<Rightarrow> (newR, Some (remote short_read))
                       | Some (r, l, e) \<Rightarrow> (r, e)))))"

text \<open>
  A method of the service, by its name, its handler and its codecs: a request under the name
  is served by the handler, and the arguments and the result survive the wire. Then a call
  of that name to a node that serves the address gives what the node's handler gave.
\<close>

locale rpc_method =
  fixes name :: string
    and handler :: "('k, 'r, unit, 'p) served_node \<Rightarrow> 'q rpc_args \<Rightarrow> 's rpc_result \<Rightarrow> ('k, 'r) node \<Rightarrow>
      (('k, 'r) node \<times> 's rpc_result \<times> go_error option) option"
    and wrA :: "thrift \<Rightarrow> 'q rpc_args option \<Rightarrow> bytes"
    and readA :: "thrift \<Rightarrow> 'q rpc_args reader"
    and newA :: "'q rpc_args"
    and wrR :: "thrift \<Rightarrow> 's rpc_result option \<Rightarrow> bytes"
    and readR :: "thrift \<Rightarrow> 's rpc_result reader"
    and newR :: "'s rpc_result"
    and okQ :: "'q \<Rightarrow> bool"
    and okS :: "'s \<Rightarrow> bool"
  assumes known: "mget serviceMethods name \<noteq> None"
    and served: "\<not> streaming StreamingNone \<Longrightarrow>
      serve_rpc T x (serviceInfo streaming) name b w =
        reply_of (run_method (readA T) newA (handler x) newR (wrR T) b w)"
    and args_back: "thrift_ok T \<Longrightarrow> okQ q \<Longrightarrow>
      \<exists>l. readA T newA (wrA T (Some \<lparr>Req = Some q\<rparr>)) = Some (\<lparr>Req = Some q\<rparr>, l, None)"
    and result_back: "thrift_ok T \<Longrightarrow> okS r \<Longrightarrow>
      \<exists>l. readR T newR (wrR T (Some \<lparr>Success = Some r\<rparr>)) = Some (\<lparr>Success = Some r\<rparr>, l, None)"
begin

lemma call_serves:
  assumes call: "kitex_ok T x streaming (wrA T) newR (readR T) remote call" and n: "n addr = Some node"
    and run: "run_method (readA T) newA (handler x) newR (wrR T) (wrA T (Some args)) node = Some (node', res)"
  shows "call addr name args newR n =
          (n(addr \<mapsto> node'),
           (case res of
              Inl e \<Rightarrow> (newR, Some (remote e))
            | Inr b \<Rightarrow> (case readR T newR b of None \<Rightarrow> (newR, Some (remote short_read))
                       | Some (r, l, e) \<Rightarrow> (r, e))))"
proof -
  have s: "\<not> streaming StreamingNone" using call by (simp add: kitex_ok_def)
  then have "mget (siMethods (serviceInfoForClient streaming)) name \<noteq> None"
    using known by (simp add: client_methods_served(1))
  moreover have "serve_rpc T x (serviceInfo streaming) name (wrA T (Some args)) node = Reply node' res"
    using run s by (simp add: served reply_of_def)
  ultimately show ?thesis using call n unfolding kitex_ok_def by blast
qed

lemma call_runs_handler:
  assumes T: "thrift_ok T" and call: "kitex_ok T x streaming (wrA T) newR (readR T) remote call"
    and q: "okQ q" and n: "n addr = Some node"
    and h: "handler x \<lparr>Req = Some q\<rparr> newR node = Some (node', \<lparr>Success = Some r\<rparr>, None)" and r: "okS r"
  shows "call_result (call addr name \<lparr>Req = Some q\<rparr> newR n) = (n(addr \<mapsto> node'), Inr (Some r))"
proof -
  obtain l where a: "readA T newA (wrA T (Some \<lparr>Req = Some q\<rparr>)) = Some (\<lparr>Req = Some q\<rparr>, l, None)"
    using args_back [OF T q] by blast
  obtain l' where b: "readR T newR (wrR T (Some \<lparr>Success = Some r\<rparr>)) = Some (\<lparr>Success = Some r\<rparr>, l', None)"
    using result_back [OF T r] by blast
  have "run_method (readA T) newA (handler x) newR (wrR T) (wrA T (Some \<lparr>Req = Some q\<rparr>)) node =
      Some (node', Inr (wrR T (Some \<lparr>Success = Some r\<rparr>)))"
    using a h by (simp add: run_method_def)
  from call_serves [where n = n, OF call n this] b show ?thesis
    by (simp add: call_result_def GetSuccess_def)
qed

text \<open>An error of the handler comes back as the error the library makes of it.\<close>

lemma call_reports_error:
  assumes T: "thrift_ok T" and call: "kitex_ok T x streaming (wrA T) newR (readR T) remote call"
    and q: "okQ q" and n: "n addr = Some node"
    and h: "handler x \<lparr>Req = Some q\<rparr> newR node = Some (node', res, Some e)"
  shows "call_result (call addr name \<lparr>Req = Some q\<rparr> newR n) = (n(addr \<mapsto> node'), Inl (remote e))"
proof -
  obtain l where a: "readA T newA (wrA T (Some \<lparr>Req = Some q\<rparr>)) = Some (\<lparr>Req = Some q\<rparr>, l, None)"
    using args_back [OF T q] by blast
  have "run_method (readA T) newA (handler x) newR (wrR T) (wrA T (Some \<lparr>Req = Some q\<rparr>)) node =
      Some (node', Inl e)"
    using a h by (simp add: run_method_def)
  from call_serves [where n = n, OF call n this] show ?thesis by (simp add: call_result_def)
qed

end

interpretation hello_rpc: rpc_method
  "''hello''" "\<lambda>x. helloHandler"
  ImRpcHelloArgs_FastWriteNocopy ImRpcHelloArgs_FastRead NewImRpcHelloArgs
  ImRpcHelloResult_FastWriteNocopy ImRpcHelloResult_FastRead NewImRpcHelloResult
  Request_ok Response_ok
  using ImRpcHelloArgs_read_back [where rest = "[]"]
    ImRpcHelloResult_read_back [where rest = "[]"]
  by unfold_locales (auto simp: serviceMethods_def serve_Hello)

interpretation send_rpc: rpc_method
  "''SendMsgToUser''" "\<lambda>x. sendMsgToUserHandler (snEnv x)"
  ImRpcSendMsgToUserArgs_FastWriteNocopy ImRpcSendMsgToUserArgs_FastRead NewImRpcSendMsgToUserArgs
  ImRpcSendMsgToUserResult_FastWriteNocopy ImRpcSendMsgToUserResult_FastRead NewImRpcSendMsgToUserResult
  SendMsgReq_ok SendMsgRsp_ok
  using ImRpcSendMsgToUserArgs_read_back [where rest = "[]"]
    ImRpcSendMsgToUserResult_read_back [where rest = "[]"]
  by unfold_locales (auto simp: serviceMethods_def serve_SendMsgToUser)

interpretation send_tgid_rpc: rpc_method
  "''SendMsgToUserByTgid''" "\<lambda>x. sendMsgToUserByTgidHandler (snEnv x)"
  ImRpcSendMsgToUserByTgidArgs_FastWriteNocopy ImRpcSendMsgToUserByTgidArgs_FastRead NewImRpcSendMsgToUserByTgidArgs
  ImRpcSendMsgToUserByTgidResult_FastWriteNocopy ImRpcSendMsgToUserByTgidResult_FastRead NewImRpcSendMsgToUserByTgidResult
  SendMsgByTgidReq_ok SendMsgRsp_ok
  using ImRpcSendMsgToUserByTgidArgs_read_back [where rest = "[]"]
    ImRpcSendMsgToUserByTgidResult_read_back [where rest = "[]"]
  by unfold_locales (auto simp: serviceMethods_def serve_SendMsgToUserByTgid)

interpretation stop_rpc: rpc_method
  "''StopUserClient''" "\<lambda>x. stopUserClientHandler (snEnv x)"
  ImRpcStopUserClientArgs_FastWriteNocopy ImRpcStopUserClientArgs_FastRead NewImRpcStopUserClientArgs
  ImRpcStopUserClientResult_FastWriteNocopy ImRpcStopUserClientResult_FastRead NewImRpcStopUserClientResult
  UserIdReq_ok StopUserClientRsp_ok
  using ImRpcStopUserClientArgs_read_back [where rest = "[]"]
    ImRpcStopUserClientResult_read_back [where rest = "[]"]
  by unfold_locales (auto simp: serviceMethods_def serve_StopUserClient)

interpretation join_rpc: rpc_method
  "''JoinGroup''" "\<lambda>x. joinGroupHandler"
  ImRpcJoinGroupArgs_FastWriteNocopy ImRpcJoinGroupArgs_FastRead NewImRpcJoinGroupArgs
  ImRpcJoinGroupResult_FastWriteNocopy ImRpcJoinGroupResult_FastRead NewImRpcJoinGroupResult
  JoinGroupReq_ok JoinGroupRes_ok
  using ImRpcJoinGroupArgs_read_back [where rest = "[]"]
    ImRpcJoinGroupResult_read_back [where rest = "[]"]
  by unfold_locales (auto simp: serviceMethods_def serve_JoinGroup)

interpretation out_rpc: rpc_method
  "''OutGroup''" "\<lambda>x. outGroupHandler"
  ImRpcOutGroupArgs_FastWriteNocopy ImRpcOutGroupArgs_FastRead NewImRpcOutGroupArgs
  ImRpcOutGroupResult_FastWriteNocopy ImRpcOutGroupResult_FastRead NewImRpcOutGroupResult
  JoinGroupReq_ok JoinGroupRes_ok
  using ImRpcOutGroupArgs_read_back [where rest = "[]"]
    ImRpcOutGroupResult_read_back [where rest = "[]"]
  by unfold_locales (auto simp: serviceMethods_def serve_OutGroup)

definition kitex_send_ok ::
    "thrift \<Rightarrow> ('k, 'r, unit, 'p) served_node \<Rightarrow> (streaming_mode \<Rightarrow> bool) \<Rightarrow> (go_error \<Rightarrow> go_error) \<Rightarrow>
     (string \<Rightarrow> (send_msg_req rpc_args, send_msg_rsp, ('k, 'r) network) kitex_call) \<Rightarrow> bool" where
  "kitex_send_ok T x streaming remote call \<longleftrightarrow>
     kitex_ok T x streaming (ImRpcSendMsgToUserArgs_FastWriteNocopy T) NewImRpcSendMsgToUserResult
       (ImRpcSendMsgToUserResult_FastRead T) remote call"

definition kitex_join_ok ::
    "thrift \<Rightarrow> ('k, 'r, unit, 'p) served_node \<Rightarrow> (streaming_mode \<Rightarrow> bool) \<Rightarrow> (go_error \<Rightarrow> go_error) \<Rightarrow>
     (string \<Rightarrow> (join_group_req rpc_args, join_group_res, ('k, 'r) network) kitex_call) \<Rightarrow> bool" where
  "kitex_join_ok T x streaming remote call \<longleftrightarrow>
     kitex_ok T x streaming (ImRpcJoinGroupArgs_FastWriteNocopy T) NewImRpcJoinGroupResult
       (ImRpcJoinGroupResult_FastRead T) remote call"

text \<open>
  The environment of a node whose rpc client is the generated one over such calls. A nil
  answer without an error would be dereferenced by the caller.
\<close>

definition nil_answer :: "'n \<times> 'b option result \<Rightarrow> 'n \<times> 'b result" where
  "nil_answer x =
     (case x of
        (n, Inl e) \<Rightarrow> (n, Inl e)
      | (n, Inr None) \<Rightarrow> (n, Inl (ExtError ''invalid memory address or nil pointer dereference''))
      | (n, Inr (Some rsp)) \<Rightarrow> (n, Inr rsp))"

definition with_rpc ::
    "(string \<Rightarrow> (send_msg_req rpc_args, send_msg_rsp, 'n) kitex_call) \<Rightarrow> ('k, 'r, 'n) ws_env \<Rightarrow>
     ('k, 'r, 'n) ws_env" where
  "with_rpc call env = env\<lparr>rpcSendMsgToUser := \<lambda>addr req n. nil_answer (kClient_SendMsgToUser (call addr) req n)\<rparr>"

definition with_rpc_join ::
    "(string \<Rightarrow> (join_group_req rpc_args, join_group_res, 'n) kitex_call) \<Rightarrow> ('k, 'r, 'n) ws_env \<Rightarrow>
     ('k, 'r, 'n) ws_env" where
  "with_rpc_join call env = env\<lparr>rpcJoinGroup := \<lambda>addr req n. nil_answer (kClient_JoinGroup (call addr) req n)\<rparr>"

section \<open>A call runs the handler\<close>

lemma SendMsgRsp_ok_any [simp]: "SendMsgRsp_ok r"
  by (simp add: SendMsgRsp_ok_def)

lemma JoinGroupRes_ok_any [simp]: "JoinGroupRes_ok r"
  by (simp add: JoinGroupRes_ok_def)

lemma remote_send:
  assumes T: "thrift_ok T" and call: "kitex_send_ok T x streaming remote call" and ok: "SendMsgReq_ok req"
    and n: "n addr = Some node" and h: "ImRpc_SendMsgToUser (snEnv x) req node = (node', rsp, None)"
  shows "kClient_SendMsgToUser (call addr) req n = (n(addr \<mapsto> node'), Inr (Some rsp))"
  unfolding kClient_SendMsgToUser_def
  by (rule send_rpc.call_runs_handler [where n = n and addr = addr, OF T call [unfolded kitex_send_ok_def] ok n _ SendMsgRsp_ok_any])
    (simp add: h sendMsgToUserHandler_def fill_result_def NewImRpcSendMsgToUserResult_def)

lemma remote_join:
  assumes T: "thrift_ok T" and call: "kitex_join_ok T x streaming remote call" and ok: "JoinGroupReq_ok req"
    and n: "n addr = Some node" and h: "ImRpc_JoinGroup req node = Some (node', rsp, None)"
  shows "kClient_JoinGroup (call addr) req n = (n(addr \<mapsto> node'), Inr (Some rsp))"
  unfolding kClient_JoinGroup_def
  by (rule join_rpc.call_runs_handler [where n = n and addr = addr, OF T call [unfolded kitex_join_ok_def] ok n _ JoinGroupRes_ok_any])
    (simp add: h joinGroupHandler_def fill_result_def NewImRpcJoinGroupResult_def)

section \<open>A message to a user of another node\<close>

lemma GetUserRpcServer_ok:
  assumes "redis_ok env kv"
    and "kv (redis w) (getUserOnlineKey uid w) = Some (jprint (user_online_json u))"
    and "AccIp u \<noteq> ''''" and "RpcPort u \<noteq> ''''"
  shows "\<exists>r. GetUserRpcServer env uid w = (w\<lparr>redis := r\<rparr>, Inr (NewServer (AccIp u) (RpcPort u)))"
proof -
  obtain r res where g: "redisGet env (getUserOnlineKey uid w) (redis w) = (r, res)" by fastforce
  then have "res = Inr (jprint (user_online_json u))"
    using redis_ok_dests(6) [OF assms(1) g] assms(2) by simp
  then show ?thesis
    using g assms(3,4)
    by (auto simp: GetUserRpcServer_def GetUserOnlineInfo_def user_online_decode Let_def)
qed

lemma local_send_ok:
  assumes "ws_inv node" and "GetClient uid node = Some c" and "cState (clients node c) = StateOnline"
    and "length (cbuf (cSendChan (clients node c))) < ccap (cSendChan (clients node c))"
  shows "\<exists>node'. ImRpc_SendMsgToUser renv \<lparr>smqUid = uid, smqMsg = msg\<rparr> node =
       (node', \<lparr>smrRetCode = word_of_int OK\<rparr>, None) \<and>
     clients node' = (clients node)(c := (clients node c)\<lparr>cSendChan :=
       (cSendChan (clients node c))\<lparr>cbuf := cbuf (cSendChan (clients node c)) @ [msg]\<rparr>\<rparr>)"
proof -
  have c: "mget (Clients node) uid = Some c" using assms(2) by (simp add: GetClient_def)
  have "client_ok (clients node c)"
    using clients_invD(3) [OF ws_invD(1) [OF assms(1)] c] clients_invD(10) [OF ws_invD(1) [OF assms(1)]]
    by blast
  then show ?thesis
    using assms(2-4) SafeSendMsg_async_error [of node c renv msg] SafeSendMsg_deliver [of renv c msg node]
    by (simp add: ImRpc_SendMsgToUser_def LP_SendMsgToLocalUser_def ClientM_SendMsgToUser_def
        deliver_room Let_def case_prod_unfold)
qed

lemma sint_OK: "sint (word_of_int OK :: 32 word) = OK"
  by (simp add: OK_def)

lemma with_rpc_simps [simp]:
  "redis_ok (with_rpc call env) kv = redis_ok env kv"
  "GetUserRpcServer (with_rpc call env) uid w = GetUserRpcServer env uid w"
  by (simp_all add: with_rpc_def redis_ok_def GetUserRpcServer_def GetUserOnlineInfo_def)

lemma with_rpc_join_simps [simp]:
  "GetUserRpcServer (with_rpc_join call env) uid w = GetUserRpcServer env uid w"
  by (simp_all add: with_rpc_join_def GetUserRpcServer_def GetUserOnlineInfo_def)

lemma remote_user_gets_message:
  assumes T: "thrift_ok T" and call: "kitex_send_ok T x streaming remote call" and r: "redis_ok env kv"
    and away: "\<not> HasUser uid w"
    and entry: "kv (redis w) (getUserOnlineKey uid w) = Some (jprint (user_online_json u))"
      "AccIp u \<noteq> ''''" "RpcPort u \<noteq> ''''"
    and addr: "GetClientByAddr (AccIp u @ '':'' @ RpcPort u) w = Inr addr"
    and node: "net w addr = Some node" "ws_inv node" "GetClient uid node = Some c"
      "cState (clients node c) = StateOnline"
      "length (cbuf (cSendChan (clients node c))) < ccap (cSendChan (clients node c))"
    and sizes: "size_ok uid" "size_ok msg"
  shows "\<exists>w' node'. RP_SendMsgToUser (with_rpc call env) uid msg w = (w', None) \<and>
     net w' = (net w)(addr \<mapsto> node') \<and> clients w' = clients w \<and>
     clients node' = (clients node)(c := (clients node c)\<lparr>cSendChan :=
       (cSendChan (clients node c))\<lparr>cbuf := cbuf (cSendChan (clients node c)) @ [msg]\<rparr>\<rparr>)"
proof -
  obtain r1 where g: "GetUserRpcServer env uid w = (w\<lparr>redis := r1\<rparr>, Inr (NewServer (AccIp u) (RpcPort u)))"
    using GetUserRpcServer_ok [OF r entry] by blast
  let ?req = "\<lparr>smqUid = uid, smqMsg = msg\<rparr>"
  obtain node' where h: "ImRpc_SendMsgToUser (snEnv x) ?req node = (node', \<lparr>smrRetCode = word_of_int OK\<rparr>, None)"
    and cl: "clients node' = (clients node)(c := (clients node c)\<lparr>cSendChan :=
       (cSendChan (clients node c))\<lparr>cbuf := cbuf (cSendChan (clients node c)) @ [msg]\<rparr>\<rparr>)"
    using local_send_ok [OF node(2-5)] by blast
  have k: "kClient_SendMsgToUser (call addr) ?req (net w) =
      ((net w)(addr \<mapsto> node'), Inr (Some \<lparr>smrRetCode = word_of_int OK\<rparr>))"
    using sizes by (intro remote_send [where n = "net w", OF T call _ node(1) h]) (simp add: SendMsgReq_ok_def)
  have "GetClientByAddr (AccIp u @ '':'' @ RpcPort u) (w\<lparr>redis := r1\<rparr>) = Inr addr"
    using addr by (simp add: GetClientByAddr_def)
  then show ?thesis
    using away g k cl
    by (simp add: RP_SendMsgToUser_def rpc_SendMsgToUser_def Server_String_def NewServer_def Let_def sint_OK)
      (auto simp: with_rpc_def nil_answer_def)
qed

section \<open>A user of another node joins a group\<close>

lemma remote_user_joins:
  assumes T: "thrift_ok T" and call: "kitex_join_ok T x streaming remote call" and r: "redis_ok env kv"
    and away: "\<not> HasUser uid w"
    and entry: "kv (redis w) (getUserOnlineKey uid w) = Some (jprint (user_online_json u))"
      "AccIp u \<noteq> ''''" "RpcPort u \<noteq> ''''"
    and addr: "GetClientByAddr (AccIp u @ '':'' @ RpcPort u) w = Inr addr"
    and node: "net w addr = Some node" "ws_inv node" "HasUser uid node"
    and sizes: "size_ok uid" "size_ok gid"
  shows "\<exists>w' node'. RP_JoinGroup (with_rpc_join call env) uid gid w = Some (w', True) \<and>
     net w' = (net w)(addr \<mapsto> node') \<and> ws_inv node' \<and> members w' = members w \<and>
     members node' = (members node)(gid := insert uid (members node gid))"
proof -
  obtain r1 where g: "GetUserRpcServer env uid w = (w\<lparr>redis := r1\<rparr>, Inr (NewServer (AccIp u) (RpcPort u)))"
    using GetUserRpcServer_ok [OF r entry] by blast
  let ?req = "\<lparr>jgqUid = uid, jgqTgid = gid\<rparr>"
  obtain node' where j: "JoinLockGroup uid gid node = Some (node', True)" "ws_inv node'"
    "members node' = (members node)(gid := insert uid (members node gid))"
    using JoinLockGroup_ok [OF node(2,3), of gid] by blast
  then have h: "ImRpc_JoinGroup ?req node = Some (node', \<lparr>jgrRes = True\<rparr>, None)"
    by (simp add: ImRpc_JoinGroup_def)
  have k: "kClient_JoinGroup (call addr) ?req (net w) =
      ((net w)(addr \<mapsto> node'), Inr (Some \<lparr>jgrRes = True\<rparr>))"
    using sizes by (intro remote_join [where n = "net w", OF T call _ node(1) h]) (simp add: JoinGroupReq_ok_def)
  have a: "GetClientByAddr (AccIp u @ '':'' @ RpcPort u) (w\<lparr>redis := r1\<rparr>) = Inr addr"
    using addr by (simp add: GetClientByAddr_def)
  have "RP_JoinGroup (with_rpc_join call env) uid gid w =
      Some (w\<lparr>redis := r1, net := (net w)(addr \<mapsto> node')\<rparr>, True)"
    using away g k a
    by (simp add: RP_JoinGroup_def rpc_JoinGroup_def Server_String_def NewServer_def Let_def)
      (simp add: with_rpc_join_def nil_answer_def)
  moreover have "members (w\<lparr>redis := r1, net := (net w)(addr \<mapsto> node')\<rparr>) = members w"
    by (rule members_cong) simp_all
  ultimately show ?thesis using j(2,3) by auto
qed

section \<open>A node that registered is found\<close>

lemma registered_node_found:
  assumes "rpc_InitServer (rpc_service_name cB) (ip @ '':'' @ port) a = Inr reg"
    and "registry h (srName reg) = Some (srAddr reg)"
    and "rpc_dial_ok env" and "etcd_get_ok h r E" and "r + 1 < 2 ^ 63" and "etcd_watch_ok h E"
    and "cfgRedisPrefix cA = cfgRedisPrefix cB"
  shows "GetClientByAddr (Server_String (Some (NewServer ip port)))
     (InitClient env (rpc_service_name cA) E w) = Inr (ip @ '':'' @ port)"
proof -
  have n: "rpc_service_name cA = rpc_service_name cB"
    using assms(7) by (simp add: rpc_service_name_def)
  show ?thesis
    using rpc_InitServer_key(1,2) [OF assms(1)] assms(2)
    by (simp add: GetClientByAddr_def InitClient_ServiceName Server_String_def NewServer_def n
        InitClient_table [OF assms(3-6)] registry_under Let_def)
qed

end
