(* ===== verification/ClusterProps.thy ===== *)
theory ClusterProps
  imports Cluster CodecProps LoginProps
begin

text \<open>
  Properties of a cluster: a message to a user of another node, joining a group there, a
  message to a group with members on many nodes, discovery and registration, the queue of
  the subscription.
\<close>

declare map_of_eq_Some_iff [simp del] Some_eq_map_of_iff [simp del]

section \<open>A network that behaves as documented\<close>

definition ex_worker :: "bytes chan worker_env" where
  "ex_worker = \<lparr>wmChan = id, wmSetChan = (\<lambda>ch q. ch),
     wmPushMsg = (\<lambda>m q. case try_send q m of Sent ch \<Rightarrow> Some ch | _ \<Rightarrow> None), wmStop = id,
     wmGetChanMsgLen = (\<lambda>q. int (length (cbuf q))), wmGetTotalCNum = (\<lambda>q. 2), wmGetFreeCNum = (\<lambda>q. 2)\<rparr>"

lemma ex_worker_ok: "worker_ok ex_worker"
  by (simp add: worker_ok_def ex_worker_def)

definition ex_reading :: sys_reading where
  "ex_reading = \<lparr>rdGoroutines = 1, rdNumCPU = 4, rdCPU = Inr ''0'', rdMem = Inr ''0''\<rparr>"

definition run_call ::
    "thrift \<Rightarrow> ('k, 'r, unit, 'p) served_node \<Rightarrow> (streaming_mode \<Rightarrow> bool) \<Rightarrow> ('a option \<Rightarrow> bytes) \<Rightarrow>
     'b rpc_result reader \<Rightarrow> string \<Rightarrow> ('a, 'b, ('k, 'r) network) kitex_call" where
  "run_call T x streaming wrA readR addr m args r n =
     (case n addr of
        None \<Rightarrow> (n, r, Some (ExtError ''no connection''))
      | Some node \<Rightarrow>
          (case serve_rpc T x (serviceInfo streaming) m (wrA (Some args)) node of
             Reply node' res \<Rightarrow>
               (n(addr \<mapsto> node'),
                (case res of
                   Inl e \<Rightarrow> (r, Some e)
                 | Inr b \<Rightarrow> (case readR r b of None \<Rightarrow> (r, Some short_read) | Some (y, l, e) \<Rightarrow> (y, e))))
           | _ \<Rightarrow> (n, r, Some (ExtError ''timeout''))))"

lemma run_call_ok:
  "\<not> streaming StreamingNone \<Longrightarrow> kitex_ok T x streaming wrA newR readR id (run_call T x streaming wrA readR)"
  unfolding kitex_ok_def run_call_def id_def by simp

definition ex_served :: "(ex_conn, (string, bytes) gomap, unit, bytes chan) served_node" where
  "ex_served = \<lparr>snEnv = ex_env, snPool = ex_worker, snQueue = None, snReading = ex_reading\<rparr>"

definition ex_streaming :: "streaming_mode \<Rightarrow> bool" where
  "ex_streaming m \<longleftrightarrow> m \<noteq> StreamingNone"

definition ex_send_call :: "string \<Rightarrow> (send_msg_req rpc_args, send_msg_rsp, (ex_conn, (string, bytes) gomap) network) kitex_call" where
  "ex_send_call = run_call binary ex_served ex_streaming (ImRpcSendMsgToUserArgs_FastWriteNocopy binary)
     (ImRpcSendMsgToUserResult_FastRead binary)"

definition ex_join_call :: "string \<Rightarrow> (join_group_req rpc_args, join_group_res, (ex_conn, (string, bytes) gomap) network) kitex_call" where
  "ex_join_call = run_call binary ex_served ex_streaming (ImRpcJoinGroupArgs_FastWriteNocopy binary)
     (ImRpcJoinGroupResult_FastRead binary)"

lemma ex_send_call_ok: "kitex_send_ok binary ex_served ex_streaming id ex_send_call"
  unfolding kitex_send_ok_def ex_send_call_def by (rule run_call_ok) (simp add: ex_streaming_def)

lemma ex_join_call_ok: "kitex_join_ok binary ex_served ex_streaming id ex_join_call"
  unfolding kitex_join_ok_def ex_join_call_def by (rule run_call_ok) (simp add: ex_streaming_def)

text \<open>
  Another node of the example's cluster: nobody is connected to it, its network has the
  example node, and redis knows that bob is there. Its environment differs in the type of
  the network only.
\<close>

definition ex_entry_bob :: user_online where
  "ex_entry_bob = \<lparr>AccIp = ''10.0.0.7'', ClientArr = ''c'', AccPort = ''8080'', RpcPort = ''8889'',
     UserId = ''bob'', RandUuid = ''r''\<rparr>"

definition ex_far :: "(ex_conn, (string, bytes) gomap, (ex_conn, (string, bytes) gomap) network) ws" where
  "ex_far =
     \<lparr>Config = ex_cfg, serverIp = ''10.0.0.8'', ServerName = ''8:8080'', connKeepTime = 60000000000,
      conns = (\<lambda>k. \<lparr>xUid = '''', xOut = [], xClosed = False\<rparr>), clients = (\<lambda>c. client0), nextClient = 0,
      tgroups = (\<lambda>g. tgroup0), nextGroup = 0, Clients = [], ConnClientIdx = [], TGroups = [],
      ServiceName = ''im/rpc/'', rpcClients = [(''im/rpc/10.0.0.7:8889'', ''10.0.0.7:8889'')],
      redis = [(''im_mws:user:online:bob'', jprint (user_online_json ex_entry_bob))],
      net = [''10.0.0.7:8889'' \<mapsto> ex_ws], gos = [], clock = 1700000000000\<rparr>"

definition ex_far_env :: "(ex_conn, (string, bytes) gomap, (ex_conn, (string, bytes) gomap) network) ws_env" where
  "ex_far_env =
     \<lparr>WriteMessage = WriteMessage ex_env, NetConnClose = NetConnClose ex_env,
      SetReadDeadline = SetReadDeadline ex_env, SessionLoad = SessionLoad ex_env,
      RemoteAddr = RemoteAddr ex_env, RangeOrder = RangeOrder ex_env,
      redisGetSet = redisGetSet ex_env, redisExpire = redisExpire ex_env, redisDel = redisDel ex_env,
      redisGet = redisGet ex_env, redisPublish = redisPublish ex_env,
      rpcNewClient = rpcNewClient ex_env,
      rpcSendMsgToUser = (\<lambda>a q n. (n, Inl (ExtError ''no answer''))),
      rpcSendMsgToUserByTgid = (\<lambda>a q n. (n, Inl (ExtError ''no answer''))),
      rpcStopUserClient = (\<lambda>a q n. (n, Inl (ExtError ''no answer''))),
      rpcJoinGroup = (\<lambda>a q n. (n, Inl (ExtError ''no answer''))),
      rpcOutGroup = (\<lambda>a q n. (n, Inl (ExtError ''no answer''))),
      rpcGetSysInfo = (\<lambda>a n. (n, Inl (ExtError ''no answer'')))\<rparr>"

lemma ex_far_redis_ok: "redis_ok ex_far_env mget"
  using ex_redis_ok unfolding redis_ok_def ex_far_env_def by simp

lemma ex_far_facts:
  "\<not> HasUser ''bob'' ex_far"
  "mget (redis ex_far) (getUserOnlineKey ''bob'' ex_far) = Some (jprint (user_online_json ex_entry_bob))"
  "AccIp ex_entry_bob \<noteq> ''''" "RpcPort ex_entry_bob \<noteq> ''''"
  "GetClientByAddr (AccIp ex_entry_bob @ '':'' @ RpcPort ex_entry_bob) ex_far = Inr ''10.0.0.7:8889''"
  "net ex_far ''10.0.0.7:8889'' = Some ex_ws"
  by (simp_all add: ex_far_def HasUser_iff getUserOnlineKey_def userOnlinePrefix_def ex_entry_bob_def
      GetClientByAddr_def)

section \<open>Users of other nodes\<close>

text \<open>
  C6: A message to a user who is connected to another node reaches the queue of that
  user's connection there: the node is found through the entry in redis and the table of
  rpc clients, the request crosses the network as the bytes of the generated codec, the
  other node's handler queues the message, and its answer comes back as no error. Nobody
  else's queue changes on either node.
\<close>

theorem cluster_send_reaches_user:
  assumes "thrift_ok T" and "kitex_send_ok T x streaming remote call" and "redis_ok env kv"
    and "\<not> HasUser uid w"
    and "kv (redis w) (getUserOnlineKey uid w) = Some (jprint (user_online_json u))"
      "AccIp u \<noteq> ''''" "RpcPort u \<noteq> ''''"
    and "GetClientByAddr (AccIp u @ '':'' @ RpcPort u) w = Inr addr"
    and "net w addr = Some node" "ws_inv node" "GetClient uid node = Some c"
      "cState (clients node c) = StateOnline"
      "length (cbuf (cSendChan (clients node c))) < ccap (cSendChan (clients node c))"
    and "size_ok uid" "size_ok msg"
  shows "\<exists>w' node'. RP_SendMsgToUser (with_rpc call env) uid msg w = (w', None) \<and>
     net w' = (net w)(addr \<mapsto> node') \<and> clients w' = clients w \<and>
     clients node' = (clients node)(c := (clients node c)\<lparr>cSendChan :=
       (cSendChan (clients node c))\<lparr>cbuf := cbuf (cSendChan (clients node c)) @ [msg]\<rparr>\<rparr>)"
  using remote_user_gets_message [OF assms] .

theorem cluster_send_reaches_user_witness:
  "\<exists>w' node'. RP_SendMsgToUser (with_rpc ex_send_call ex_far_env) ''bob'' ''hi'' ex_far = (w', None) \<and>
     net w' ''10.0.0.7:8889'' = Some node' \<and> cbuf (cSendChan (clients node' 1)) = [''hi'']"
proof -
  obtain w' node' where "RP_SendMsgToUser (with_rpc ex_send_call ex_far_env) ''bob'' ''hi'' ex_far = (w', None)"
    "net w' = (net ex_far)(''10.0.0.7:8889'' \<mapsto> node')"
    "clients node' = (clients ex_ws)(1 := (clients ex_ws 1)\<lparr>cSendChan :=
       (cSendChan (clients ex_ws 1))\<lparr>cbuf := cbuf (cSendChan (clients ex_ws 1)) @ [''hi'']\<rparr>\<rparr>)"
    using cluster_send_reaches_user [OF binary_ok ex_send_call_ok ex_far_redis_ok ex_far_facts ex_ws_inv,
        of 1 "''hi''"]
    by (auto simp: GetClient_def size_ok_def)
  then show ?thesis by auto
qed

text \<open>
  C25: A user who is connected to another node joins a group through any node: the call
  returns true, and on the user's node the user is a member of that group, and nothing
  else changed in its groups; the node the call came from has no member more.
\<close>

theorem cluster_join:
  assumes "thrift_ok T" and "kitex_join_ok T x streaming remote call" and "redis_ok env kv"
    and "\<not> HasUser uid w"
    and "kv (redis w) (getUserOnlineKey uid w) = Some (jprint (user_online_json u))"
      "AccIp u \<noteq> ''''" "RpcPort u \<noteq> ''''"
    and "GetClientByAddr (AccIp u @ '':'' @ RpcPort u) w = Inr addr"
    and "net w addr = Some node" "ws_inv node" "HasUser uid node"
    and "size_ok uid" "size_ok gid"
  shows "\<exists>w' node'. RP_JoinGroup (with_rpc_join call env) uid gid w = Some (w', True) \<and>
     net w' = (net w)(addr \<mapsto> node') \<and> ws_inv node' \<and> members w' = members w \<and>
     members node' = (members node)(gid := insert uid (members node gid))"
  using remote_user_joins [OF assms] .

theorem cluster_join_witness:
  "\<exists>w' node'. RP_JoinGroup (with_rpc_join ex_join_call ex_far_env) ''bob'' ''game'' ex_far = Some (w', True) \<and>
     net w' ''10.0.0.7:8889'' = Some node' \<and> members node' ''game'' = {''bob''}"
proof -
  obtain w' node' where "RP_JoinGroup (with_rpc_join ex_join_call ex_far_env) ''bob'' ''game'' ex_far = Some (w', True)"
    "net w' = (net ex_far)(''10.0.0.7:8889'' \<mapsto> node')"
    "members node' = (members ex_ws)(''game'' := insert ''bob'' (members ex_ws ''game''))"
    using cluster_join [OF binary_ok ex_join_call_ok ex_far_redis_ok ex_far_facts ex_ws_inv, of "''game''"]
    by (auto simp: HasUser_iff size_ok_def)
  then show ?thesis by (auto simp: ex_members)
qed

section \<open>Groups with members on several nodes\<close>

text \<open>
  The message a group's members get for response data: the status is always 1, and a number is
  what is left of it in a \<^verbatim>\<open>float64\<close>.
\<close>

definition group_text :: "response_data \<Rightarrow> bytes" where
  "group_text d =
     jprint (response_json \<lparr>rSeq = '''', rCmd = '''', rMsgType = 2,
       rRData = Some (d\<lparr>rdS := 1, rdA := adata_floats (rdA d)\<rparr>)\<rparr>)"

lemma group_text_msg:
  "adata_ok (rdA d) \<Longrightarrow>
   GetResDataGroupMsg (d\<lparr>rdS := 1, rdA := adata_floats (rdA d)\<rparr>) ex = Inr \<lparr>gmExceptUid = ex, gmMsg = group_text d\<rparr>"
  by (simp add: GetResDataGroupMsg_def Response_Bytes_def json_Marshal_def response_json_good adata_json_good
      adata_ok_floats NewResponse_def NewGroupMsg_def MSG_TYPE_GROUP_def group_text_def)

text \<open>Data without numbers, or with integers below \<open>2 ^ 53\<close> only, reaches the members as it was.\<close>

lemma group_text_small_ints:
  assumes "\<forall>m. rdA d = Some m \<longrightarrow> small_ints (JObj m)"
  shows "adata_floats_ok (rdA d)"
    and "group_text d = jprint (response_json \<lparr>rSeq = '''', rCmd = '''', rMsgType = 2, rRData = Some (d\<lparr>rdS := 1\<rparr>)\<rparr>)"
proof -
  have "adata_floats_ok (rdA d) \<and> adata_floats (rdA d) = rdA d"
  proof (cases "rdA d")
    case (Some m)
    then have "floats (JObj m) = JObj m" "floats_ok (JObj m)" using assms floats_small_ints [of "JObj m"] by auto
    then show ?thesis using Some by (simp add: adata_floats_ok_def adata_floats_def)
  qed (simp add: adata_floats_ok_def adata_floats_def)
  then show "adata_floats_ok (rdA d)"
    "group_text d = jprint (response_json \<lparr>rSeq = '''', rCmd = '''', rMsgType = 2, rRData = Some (d\<lparr>rdS := 1\<rparr>)\<rparr>)"
    by (simp_all add: group_text_def response_json_def response_data_json_def)
qed

text \<open>
  C5: A message to a group in a cluster reaches the members on every node: what the
  sending node publishes, any node that has the group turns into a message of the group,
  and when the group's listener there has run, every connected member but the excepted
  user has it at the end of the queue. The status of the response data does not survive:
  the members get status 1 whatever the sender passed; and the numbers in the data are
  rounded to a \<^verbatim>\<open>float64\<close> each, if they are in its range, so that an integer from \<open>2 ^ 53\<close> on may be
  another one.
\<close>

theorem cluster_group_message:
  assumes d: "adata_ok (rdA d)" and f: "adata_floats_ok (rdA d)"
    and t: "int_range 64 (clock w)" and gid: "gid \<noteq> ''''"
    and inv: "ws_inv node" and r: "range_ok renv" and g: "GetTGroup gid node = Some g"
    and room: "length (cbuf (gSend (tgroups node g))) < ccap (gSend (tgroups node g))"
    and n: "length (cbuf (gSend (tgroups node g))) + 1 < n"
  shows "\<exists>b node1 node2.
     RP_SendResDataToGroup env gid d ex w =
       (let (x, e) = redisPublish env (GlobalKey w) b (redis w) in (w\<lparr>redis := x\<rparr>, e)) \<and>
     handleSubMsg renv b node = Some node1 \<and>
     ListenSendChan renv n g node1 = (node2, LoopWaiting) \<and> ws_inv node2 \<and>
     (\<forall>uid c. GetClient uid node = Some c \<longrightarrow> clients node2 c =
        (if uid \<in> members node gid
         then fold deliver (for_user uid (cbuf (gSend (tgroups node g)) @
                [\<lparr>gmExceptUid = ex, gmMsg = group_text d\<rparr>])) (clients node c)
         else clients node c))"
proof -
  let ?b = "jprint (sub_msg_json (group_sub_msg gid d ex (clock w)))"
  let ?m = "\<lparr>gmExceptUid = ex, gmMsg = group_text d\<rparr>"
  obtain w1 w2 where s: "SendMessageToTGroup gid ?m node = Some (w1, None)"
    and l: "ListenSendChan renv n g w1 = (w2, LoopWaiting)" "ws_inv w2"
    and c: "\<forall>uid c. GetClient uid node = Some c \<longrightarrow> clients w2 c =
        (if uid \<in> members node gid
         then fold deliver (for_user uid (cbuf (gSend (tgroups node g)) @ [?m])) (clients node c)
         else clients node c)"
    using group_send_delivers [OF inv r g room n, of ?m] by blast
  have "handleSubMsg renv ?b node = Some w1"
    using handleSubMsg_group [OF d f t gid, of renv ex node] s group_text_msg [OF d, of ex]
    by (simp add: LP_SendResDataToLocalGroup_def)
  then show ?thesis
    using RP_SendResDataToGroup_publishes [OF d, of env gid ex w] l c by blast
qed

text \<open>At the witness the data holds an integer beyond \<open>2 ^ 53\<close>, and bob gets another one.\<close>

definition ex_data :: response_data where
  "ex_data = \<lparr>rdS = 5, rdA = Some [(''n'', jint (2 ^ 53 + 1))]\<rparr>"

lemma ex_data_text: "group_text ex_data = group_text \<lparr>rdS = 1, rdA = Some [(''n'', jint (2 ^ 53))]\<rparr>"
  using float_text_collides
  by (simp add: group_text_def ex_data_def adata_floats_def jint_def response_json_def response_data_json_def)

theorem cluster_group_message_witness:
  "\<exists>b node1 node2. handleSubMsg ex_env b ex_ws = Some node1 \<and>
     ListenSendChan ex_env 2 0 node1 = (node2, LoopWaiting) \<and>
     clients node2 1 = deliver (group_text \<lparr>rdS = 1, rdA = Some [(''n'', jint (2 ^ 53))]\<rparr>) (ex_client ''bob'' 1 [])"
proof -
  have "float_text (int_lit (2 ^ 53 + 1)) \<noteq> None" by (rule float_text_beyond)
  then have "adata_ok (rdA ex_data)" "adata_floats_ok (rdA ex_data)"
    by (simp_all add: ex_data_def adata_ok_def adata_floats_ok_def jint_def number_ok_int_lit num_char_int_lit)
  then obtain b node1 node2 where b: "handleSubMsg ex_env b ex_ws = Some node1"
      "ListenSendChan ex_env 2 0 node1 = (node2, LoopWaiting)"
    and c: "\<forall>uid c. GetClient uid ex_ws = Some c \<longrightarrow> clients node2 c =
        (if uid \<in> members ex_ws ''room''
         then fold deliver (for_user uid (cbuf (gSend (tgroups ex_ws 0)) @
           [\<lparr>gmExceptUid = ''alice'', gmMsg = group_text ex_data\<rparr>])) (clients ex_ws c)
         else clients ex_ws c)"
    using cluster_group_message [of ex_data ex_far "''room''" ex_ws ex_env 0 2 ex_far_env "''alice''"]
    by (auto simp: int_range_def ex_far_def GetTGroup_def ex_group_def)
  show ?thesis
    using b c [rule_format, of "''bob''" 1]
    by (auto simp: GetClient_def ex_members for_user_def ex_group_def ex_data_text)
qed

section \<open>Discovery and registration\<close>

text \<open>
  C24: After discovery the table of rpc clients is exactly what is registered in etcd under
  the name of the service: the keys of the query, and every change since, each once and in
  order, with nothing missed between the query and the watch, which is started at the revision
  after the one of the query.
\<close>

theorem discovery_is_registry:
  assumes "rpc_dial_ok env" and "etcd_get_ok h r E" and "r + 1 < 2 ^ 63" and "etcd_watch_ok h E"
  shows "mget (rpcClients (InitClient env name E w)) = registry (under_prefix name h)"
  using InitClient_table [OF assms] .

text \<open>
  A history in which a foreign key is put as well, an etcd that was queried at revision 1, and
  the etcd of a start at which nothing is registered.
\<close>

definition ex_history :: history where
  "ex_history = [(1, \<lparr>evType = PUT, evKv = \<lparr>kvKey = ''im/rpc/a'', kvValue = ''a''\<rparr>\<rparr>),
     (2, \<lparr>evType = PUT, evKv = \<lparr>kvKey = ''im/rpc/b'', kvValue = ''b''\<rparr>\<rparr>),
     (3, \<lparr>evType = PUT, evKv = \<lparr>kvKey = ''other/c'', kvValue = ''c''\<rparr>\<rparr>),
     (4, \<lparr>evType = DELETE, evKv = \<lparr>kvKey = ''im/rpc/a'', kvValue = ''''\<rparr>\<rparr>)]"

definition ex_reads :: "history \<Rightarrow> int \<Rightarrow> etcd_reads" where
  "ex_reads h r =
     \<lparr>etcdGet = (\<lambda>p. Inr (map (evKv \<circ> snd) (upto_rev r (under_prefix p h)), r)),
      etcdWatch = (\<lambda>p from. map (\<lambda>x. [snd x]) (filter (\<lambda>(r, ev). from \<le> r) (under_prefix p h)))\<rparr>"

lemma ex_reads_ok: "etcd_get_ok ex_history 1 (ex_reads ex_history 1)" "etcd_watch_ok ex_history (ex_reads ex_history 1)"
proof -
  show "etcd_get_ok ex_history 1 (ex_reads ex_history 1)"
    by (simp add: etcd_get_ok_def ex_reads_def ex_history_def under_prefix_def upto_rev_def registry_def)
  have "concat (map (\<lambda>x. [snd x]) xs) = map snd xs" for xs :: history by (induction xs) auto
  then show "etcd_watch_ok ex_history (ex_reads ex_history 1)"
    by (simp add: etcd_watch_ok_def ex_reads_def) (simp add: ex_history_def)
qed

theorem discovery_is_registry_witness:
  "mget (rpcClients (InitClient ex_env ''im/rpc/'' (ex_reads ex_history 1) ex_ws)) = [''im/rpc/b'' \<mapsto> ''b'']"
  by (subst discovery_is_registry [OF ex_dial_ok ex_reads_ok(1) _ ex_reads_ok(2)])
    (auto simp: ex_history_def registry_def under_prefix_def)

text \<open>The first error of an attempt, if it fails.\<close>

definition attempt_error :: "lease_answers \<Rightarrow> go_error option" where
  "attempt_error a =
     (case laGrant a of
        Inl e \<Rightarrow> Some e
      | Inr lid \<Rightarrow> (case laPut a of Some e \<Rightarrow> Some e | None \<Rightarrow> laKeepAlive a))"

definition attempt_fails :: "lease_answers \<Rightarrow> bool" where
  "attempt_fails a \<longleftrightarrow> attempt_error a \<noteq> None"


text \<open>What an attempt puts into etcd, whether or not it succeeds in the end.\<close>

definition put_by :: "service_register \<Rightarrow> lease_answers \<Rightarrow> (string \<times> string \<times> int) list" where
  "put_by s a =
     (case laGrant a of
        Inl e \<Rightarrow> []
      | Inr lid \<Rightarrow> if laPut a = None then [(srName s, srAddr s, lid)] else [])"

lemma put_by_upd [simp]:
  "put_by (s\<lparr>srLog := l\<rparr>) = put_by s" "put_by (s\<lparr>srStatus := n\<rparr>) = put_by s"
  by (auto simp: put_by_def fun_eq_iff split: sum.split)

lemma putKeyWithLease_fails:
  "attempt_fails a \<Longrightarrow> \<exists>e. putKeyWithLease a s = (s\<lparr>srLog := srLog s @ put_by s a\<rparr>, Some e)"
  by (auto simp: putKeyWithLease_def attempt_fails_def attempt_error_def put_by_def Let_def split: sum.splits option.splits)

lemma putKeyWithLease_succeeds:
  "\<not> attempt_fails a \<Longrightarrow> \<exists>lid. laGrant a = Inr lid \<and>
     putKeyWithLease a s = (s\<lparr>srLog := srLog s @ put_by s a, srLeaseID := lid, srStatus := 2\<rparr>, None)"
  by (auto simp: putKeyWithLease_def attempt_fails_def attempt_error_def put_by_def Let_def split: sum.splits option.splits)

lemma relisten_skips:
  assumes "\<forall>a \<in> set fs. attempt_fails a" and "srStatus s \<noteq> 3"
  shows "relisten (map (Pair NotClosed) fs @ rs) s = relisten rs (s\<lparr>srLog := srLog s @ concat (map (put_by s) fs)\<rparr>)"
  using assms
proof (induction fs arbitrary: s)
  case (Cons a fs)
  obtain e where p: "putKeyWithLease a s = (s\<lparr>srLog := srLog s @ put_by s a\<rparr>, Some e)"
    using putKeyWithLease_fails [of a s] Cons.prems by auto
  with Cons.IH [of "s\<lparr>srLog := srLog s @ put_by s a\<rparr>"] p Cons.prems show ?case by (simp add: close_if_def)
qed simp

text \<open>
  C32: When the lease of a registration is lost, the node registers again: the retry loop
  goes through any number of failing attempts and ends at the first round in which an attempt
  succeeds, with the address put under the name with the new lease and a new listener started,
  or at the round after a close. Every attempt whose put was answered leaves its key in etcd. A
  close before a round looks at the status ends the loop with nothing more put, and a close
  during an attempt that fails ends it at the next round; a close during an attempt that
  succeeds is lost: the node is registered, its listener runs and its status is 2.
\<close>

theorem lost_lease_registers_again:
  assumes "\<forall>a \<in> set fs. attempt_fails a" and "srStatus s \<noteq> 3" and "p = NotClosed \<Longrightarrow> \<not> attempt_fails a"
  shows "let started = (p \<noteq> ClosedBefore \<and> \<not> attempt_fails a) in
     \<exists>s'. relisten (map (Pair NotClosed) fs @ (p, a) # (q, b) # rest) s = Some (s', started) \<and>
     srStatus s' = (if started \<and> p \<noteq> ClosedAfter then 2 else 3) \<and>
     (if started then laGrant a = Inr (srLeaseID s') else srLeaseID s' = srLeaseID s) \<and>
     srLog s' = srLog s @ concat (map (put_by s) (fs @ (if p = ClosedBefore then [] else [a]))) \<and>
     srName s' = srName s \<and> srAddr s' = srAddr s"
proof -
  let ?s = "s\<lparr>srLog := srLog s @ concat (map (put_by s) fs)\<rparr>"
  have r: "relisten (map (Pair NotClosed) fs @ (p, a) # (q, b) # rest) s = relisten ((p, a) # (q, b) # rest) ?s"
    by (rule relisten_skips [OF assms(1,2)])
  show ?thesis
  proof (cases "attempt_fails a")
    case True
    obtain e where "putKeyWithLease a (close_if (p = ClosedDuring) ?s) =
        ((close_if (p = ClosedDuring) ?s)\<lparr>srLog := srLog ?s @ put_by s a\<rparr>, Some e)"
      using putKeyWithLease_fails [OF True, of "close_if (p = ClosedDuring) ?s"] by (auto simp: close_if_def)
    moreover have "p \<noteq> NotClosed" using True assms(3) by blast
    ultimately show ?thesis using True assms(2) unfolding r by (cases p) (simp_all add: close_if_def Let_def)
  next
    case False
    obtain lid where "laGrant a = Inr lid" "putKeyWithLease a (close_if (p = ClosedDuring) ?s) =
        (?s\<lparr>srLog := srLog ?s @ put_by s a, srLeaseID := lid, srStatus := 2\<rparr>, None)"
      using putKeyWithLease_succeeds [OF False, of "close_if (p = ClosedDuring) ?s"] by (auto simp: close_if_def)
    with False assms(2) show ?thesis unfolding r by (cases p) (simp_all add: close_if_def Let_def)
  qed
qed

text \<open>At the witness the first attempt fails, and a close during the second, which succeeds, is lost.\<close>

theorem lost_lease_registers_again_witness:
  "\<exists>s'. relisten [(NotClosed, \<lparr>laGrant = Inl (ExtError ''down''), laPut = None, laKeepAlive = None\<rparr>),
        (ClosedDuring, \<lparr>laGrant = Inr 8, laPut = None, laKeepAlive = None\<rparr>),
        (NotClosed, \<lparr>laGrant = Inr 9, laPut = None, laKeepAlive = None\<rparr>)]
      \<lparr>srLease = 5, srStatus = 2, srLeaseID = 7, srName = ''n'', srAddr = ''a'', srLog = []\<rparr> = Some (s', True) \<and>
     srStatus s' = 2 \<and> srLeaseID s' = 8 \<and> srLog s' = [(''n'', ''a'', 8)]"
  using lost_lease_registers_again [of "[\<lparr>laGrant = Inl (ExtError ''down''), laPut = None, laKeepAlive = None\<rparr>]"
      "\<lparr>srLease = 5, srStatus = 2, srLeaseID = 7, srName = ''n'', srAddr = ''a'', srLog = []\<rparr>" ClosedDuring
      "\<lparr>laGrant = Inr 8, laPut = None, laKeepAlive = None\<rparr>" NotClosed
      "\<lparr>laGrant = Inr 9, laPut = None, laKeepAlive = None\<rparr>" "[]"]
  by (auto simp: attempt_fails_def attempt_error_def put_by_def)

section \<open>The queue of the subscription\<close>

text \<open>
  C33: The reader of the subscription loses nothing while its queue has room: the messages
  it receives are queued once each and in the order in which they came, whatever errors
  come in between.
\<close>

theorem subscription_keeps_order:
  assumes "worker_ok wm" and "\<forall>e \<in> set es. e = SubError \<or> is_recv e"
    and "\<not> cclosed (wmChan wm (srQueue s))"
    and "length (cbuf (wmChan wm (srQueue s))) + length (filter is_recv es) \<le> ccap (wmChan wm (srQueue s))"
    and "ccap (wmChan wm (srQueue s)) \<le> msgChanMaxLen"
  shows "snd (readSubMsg wm es s) = LoopRunning \<and>
     cbuf (wmChan wm (srQueue (fst (readSubMsg wm es s)))) =
       cbuf (wmChan wm (srQueue s)) @ map payload (filter is_recv es)"
  using readSubMsg_queues [OF assms] .

theorem subscription_keeps_order_witness:
  "cbuf (srQueue (fst (readSubMsg ex_worker [SubRecv ''a'' id False, SubError, SubError, SubRecv ''b'' id False]
     \<lparr>srErrCount = 0, srSleeps = 0, srQueue = \<lparr>cbuf = [], ccap = 2, cclosed = False\<rparr>\<rparr>))) = [''a'', ''b'']"
  using subscription_keeps_order [OF ex_worker_ok, of
      "[SubRecv ''a'' id False, SubError, SubError, SubRecv ''b'' id False]"
      "\<lparr>srErrCount = 0, srSleeps = 0, srQueue = \<lparr>cbuf = [], ccap = 2, cclosed = False\<rparr>\<rparr>"]
  by (simp add: ex_worker_def is_recv_def msgChanMaxLen_def)

section \<open>The state of the cluster\<close>

text \<open>
  C34: The collected information of a cluster is the sum over its nodes: every node of the
  table of rpc clients is counted once, the numbers of clients, groups, processors and
  goroutines are the sums of what the nodes report, which each node's answer carries
  through JSON unchanged. The sums are those of the source's 64-bit integers, which wrap around.
\<close>

theorem collected_info_sums:
  assumes i: "rpc_infos_ok env info" "\<And>a. reading_ok (info a)" "\<And>a. ManagerInfo (info a) \<noteq> None"
    and w: "range_ok env" "rpcClients w \<noteq> []" "mwf (rpcClients w)" "cfgRunMode (Config w) = RunModeRedis"
  shows "\<exists>s m. GetSysCollectInfo env wm mq rd w = (w, Some s) \<and> NodeNum s = wrap64 (int (length (rpcClients w))) \<and>
     mset (NodeList s) = mset (map (info \<circ> snd) (rpcClients w)) \<and>
     NumCPU (scSysInfo s) = wrap64 (sum_list (map (NumCPU \<circ> info \<circ> snd) (rpcClients w))) \<and>
     NumGoroutine (scSysInfo s) = wrap64 (sum_list (map (NumGoroutine \<circ> info \<circ> snd) (rpcClients w))) \<and>
     ManagerInfo (scSysInfo s) = Some m \<and>
     ClientsLen m = wrap64 (sum_list (map (ClientsLen \<circ> the \<circ> ManagerInfo \<circ> info \<circ> snd) (rpcClients w))) \<and>
     TGroupLen m = wrap64 (sum_list (map (TGroupLen \<circ> the \<circ> ManagerInfo \<circ> info \<circ> snd) (rpcClients w)))"
proof -
  obtain js where js: "GetAllSysInfo env w = (w, Inr js)"
    and ms: "mset js = mset (map (info \<circ> snd) (rpcClients w))"
    using GetAllSysInfo_ok [OF i(1,2) w(1-3)] by blast
  have len: "length js = length (rpcClients w)" using ms by (metis length_map mset_eq_length)
  have sums: "sum_list (map f js) = sum_list (map (f \<circ> info \<circ> snd) (rpcClients w))" for f :: "sys_info \<Rightarrow> int"
    using arg_cong [OF ms, of "\<lambda>M. sum_mset (image_mset f M)"]
    by (simp add: sum_mset_sum_list flip: mset_map) (simp add: comp_def)
  have "set js \<subseteq> range info" using ms by (metis (no_types) image_comp image_mono list.set_map mset_eq_setD subset_UNIV)
  then have m: "\<forall>j \<in> set js. ManagerInfo j \<noteq> None" using i(3) by auto
  obtain s where "collect_all js (NewSycCollectInfo\<lparr>NodeList := js\<rparr>) = Some s" "NodeNum s = wrap64 (int (length js))"
    "NodeList s = js" "NumCPU (scSysInfo s) = wrap64 (sum_list (map NumCPU js))"
    "NumGoroutine (scSysInfo s) = wrap64 (sum_list (map NumGoroutine js))"
    "ManagerInfo (scSysInfo s) = Some \<lparr>ClientsLen = wrap64 (sum_list (map (ClientsLen \<circ> the \<circ> ManagerInfo) js)),
       TGroupLen = wrap64 (sum_list (map (TGroupLen \<circ> the \<circ> ManagerInfo) js))\<rparr>"
    using collect_all_sums [OF m, of "NewSycCollectInfo\<lparr>NodeList := js\<rparr>" 0 0 0 0 0]
    by (auto simp: NewSycCollectInfo_def NewSysInfo_def sys_info0_def wrap64_id)
  then show ?thesis
    using js w(4) ms by (simp add: GetSysCollectInfo_def getAllNodeSysInfo_def len sums comp_assoc)
qed

definition ex_info :: sys_info where
  "ex_info = sys_info0\<lparr>NumCPU := 4, ManagerInfo := Some \<lparr>ClientsLen = 3, TGroupLen = 1\<rparr>\<rparr>"

definition ex_sys_env :: "(ex_conn, (string, bytes) gomap, unit) ws_env" where
  "ex_sys_env = ex_env\<lparr>rpcGetSysInfo := \<lambda>a n. (n, Inr \<lparr>brData = jprint (sys_info_json ex_info)\<rparr>)\<rparr>"

definition ex_three :: "(ex_conn, (string, bytes) gomap, unit) ws" where
  "ex_three = ex_ws\<lparr>rpcClients := [(''im/rpc/a'', ''a''), (''im/rpc/b'', ''b''), (''im/rpc/c'', ''c'')]\<rparr>"

theorem collected_info_sums_witness:
  "\<exists>s. GetSysCollectInfo ex_sys_env ex_worker None ex_reading ex_three =
     (ex_three, Some s) \<and> NodeNum s = 3 \<and> NumCPU (scSysInfo s) = 12"
proof -
  have "rpc_infos_ok ex_sys_env (\<lambda>_. ex_info)" by (simp add: rpc_infos_ok_def ex_sys_env_def)
  moreover have "reading_ok ex_info" "ManagerInfo ex_info \<noteq> None"
    by (simp_all add: reading_ok_def ex_info_def sys_info0_def int_range_def float_text_zero)
  moreover have "range_ok ex_sys_env" by (simp add: range_ok_def ex_sys_env_def)
  ultimately show ?thesis
    using collected_info_sums [of ex_sys_env "\<lambda>_. ex_info" ex_three ex_worker None ex_reading]
    by (auto simp: ex_three_def ex_info_def wrap64_id)
qed

section \<open>The start of a node\<close>




end
