(* ===== verification/WsConcurrency.thy ===== *)
theory WsConcurrency
  imports WsGroupSpec
begin

text \<open>
  Joining and leaving at the grain of the locks. \<^verbatim>\<open>UserJoinTGroup\<close> and \<^verbatim>\<open>UserOutTGroup\<close> take
  the lock of the group table and the lock of a group's users one after another, so
  threads can interleave between them: a group can be deleted between its lookup and the
  join. The steps here are the critical sections; a thread that empties a group holds the
  group's lock while it takes the table's lock, then closes the group. The sections of the
  table's lock take no other lock and are one step each.
\<close>

declare map_of_eq_Some_iff [simp del] Some_eq_map_of_iff [simp del]

section \<open>Threads\<close>

datatype pc =
    JGet string string
  | JCreate string string
  | JUser string string gptr
  | JDone string string gptr
  | LGet string string
  | LEnter string string gptr
  | LTable string string gptr
  | LClose string string gptr
  | LDone

record ('k, 'r, 'n) cstate =
  cW :: "('k, 'r, 'n) ws"
  cPc :: "nat \<Rightarrow> pc"
  cLock :: "gptr \<Rightarrow> nat option"

fun finished :: "pc \<Rightarrow> bool" where
  "finished (JDone gid uid g) = True"
| "finished LDone = True"
| "finished _ = False"

text \<open>The second half of \<^verbatim>\<open>GetOrCreateTGroup\<close>, under the write lock of the table.\<close>

definition create_locked :: "string \<Rightarrow> ('k, 'r, 'n) ws \<Rightarrow> ('k, 'r, 'n) ws \<times> gptr" where
  "create_locked gid w =
     (case mget (TGroups w) gid of
        Some tGroup \<Rightarrow> (w, tGroup)
      | None \<Rightarrow>
          (let (w1, tGroup) = NewTGroup gid w
           in (w1\<lparr>TGroups := mput gid tGroup (TGroups w1)\<rparr>, tGroup)))"

lemma GetOrCreateTGroup_halves:
  "GetOrCreateTGroup gid w =
     (case GetTGroup gid w of Some g \<Rightarrow> (w, g) | None \<Rightarrow> create_locked gid w)"
  by (simp add: GetOrCreateTGroup_def create_locked_def split: option.split)

text \<open>The first part of \<^verbatim>\<open>UserLeave\<close>, under the lock of the group's users.\<close>

definition drop_user :: "gptr \<Rightarrow> string \<Rightarrow> ('k, 'r, 'n) ws \<Rightarrow> ('k, 'r, 'n) ws" where
  "drop_user g uid w = upd_group g (\<lambda>x. x\<lparr>gUsers := mdel uid (gUsers x)\<rparr>) w"

lemma UserLeave_parts:
  "UserLeave g uid w =
     (let w1 = drop_user g uid w in
      if gUsers (tgroups w1 g) = [] then CloseSend g (TGroupM_DeleteTGroup g w1) else w1)"
  by (simp add: UserLeave_def drop_user_def DeleteTGroup_def Let_def)

section \<open>Steps\<close>

inductive cstep :: "nat \<Rightarrow> ('k, 'r, 'n) cstate \<Rightarrow> ('k, 'r, 'n) cstate \<Rightarrow> bool" for t where
  start_join: "finished (cPc s t) \<Longrightarrow> cstep t s (s\<lparr>cPc := (cPc s)(t := JGet gid uid)\<rparr>)"
| start_leave: "finished (cPc s t) \<Longrightarrow> cstep t s (s\<lparr>cPc := (cPc s)(t := LGet gid uid)\<rparr>)"
| join_hit: "cPc s t = JGet gid uid \<Longrightarrow> GetTGroup gid (cW s) = Some g \<Longrightarrow>
    cstep t s (s\<lparr>cPc := (cPc s)(t := JUser gid uid g)\<rparr>)"
| join_miss: "cPc s t = JGet gid uid \<Longrightarrow> GetTGroup gid (cW s) = None \<Longrightarrow>
    cstep t s (s\<lparr>cPc := (cPc s)(t := JCreate gid uid)\<rparr>)"
| join_create: "cPc s t = JCreate gid uid \<Longrightarrow> create_locked gid (cW s) = (w, g) \<Longrightarrow>
    cstep t s (s\<lparr>cW := w, cPc := (cPc s)(t := JUser gid uid g)\<rparr>)"
| join_ok: "cPc s t = JUser gid uid g \<Longrightarrow> cLock s g = None \<Longrightarrow> UserJoin g uid (cW s) = (w, True) \<Longrightarrow>
    cstep t s (s\<lparr>cW := w, cPc := (cPc s)(t := JDone gid uid g)\<rparr>)"
| join_retry: "cPc s t = JUser gid uid g \<Longrightarrow> cLock s g = None \<Longrightarrow> UserJoin g uid (cW s) = (w, False) \<Longrightarrow>
    cstep t s (s\<lparr>cW := w, cPc := (cPc s)(t := JGet gid uid)\<rparr>)"
| leave_hit: "cPc s t = LGet gid uid \<Longrightarrow> GetTGroup gid (cW s) = Some g \<Longrightarrow>
    cstep t s (s\<lparr>cPc := (cPc s)(t := LEnter gid uid g)\<rparr>)"
| leave_miss: "cPc s t = LGet gid uid \<Longrightarrow> GetTGroup gid (cW s) = None \<Longrightarrow>
    cstep t s (s\<lparr>cPc := (cPc s)(t := LDone)\<rparr>)"
| leave_some: "cPc s t = LEnter gid uid g \<Longrightarrow> cLock s g = None \<Longrightarrow>
    gUsers (tgroups (drop_user g uid (cW s)) g) \<noteq> [] \<Longrightarrow>
    cstep t s (s\<lparr>cW := drop_user g uid (cW s), cPc := (cPc s)(t := LDone)\<rparr>)"
| leave_last: "cPc s t = LEnter gid uid g \<Longrightarrow> cLock s g = None \<Longrightarrow>
    gUsers (tgroups (drop_user g uid (cW s)) g) = [] \<Longrightarrow>
    cstep t s (s\<lparr>cW := drop_user g uid (cW s), cPc := (cPc s)(t := LTable gid uid g),
      cLock := (cLock s)(g := Some t)\<rparr>)"
| leave_table: "cPc s t = LTable gid uid g \<Longrightarrow>
    cstep t s (s\<lparr>cW := TGroupM_DeleteTGroup g (cW s), cPc := (cPc s)(t := LClose gid uid g)\<rparr>)"
| leave_close: "cPc s t = LClose gid uid g \<Longrightarrow>
    cstep t s (s\<lparr>cW := CloseSend g (cW s), cPc := (cPc s)(t := LDone), cLock := (cLock s)(g := None)\<rparr>)"

definition creachable :: "('k, 'r, 'n) cstate \<Rightarrow> bool" where
  "creachable s \<longleftrightarrow>
     (\<exists>w. TGroups w = [] \<and> nextGroup w = 0 \<and>
        (\<lambda>a b. \<exists>t. cstep t a b)\<^sup>*\<^sup>* \<lparr>cW = w, cPc = (\<lambda>_. LDone), cLock = (\<lambda>_. None)\<rparr> s)"

section \<open>The invariant\<close>

text \<open>The group a program counter refers to, with its id.\<close>

fun pc_group :: "pc \<Rightarrow> (string \<times> gptr) option" where
  "pc_group (JUser gid uid g) = Some (gid, g)"
| "pc_group (LEnter gid uid g) = Some (gid, g)"
| "pc_group (LTable gid uid g) = Some (gid, g)"
| "pc_group (LClose gid uid g) = Some (gid, g)"
| "pc_group _ = None"

text \<open>The group whose lock the thread holds.\<close>

fun holds :: "pc \<Rightarrow> gptr option" where
  "holds (LTable gid uid g) = Some g"
| "holds (LClose gid uid g) = Some g"
| "holds _ = None"

fun closing :: "pc \<Rightarrow> gptr option" where
  "closing (LClose gid uid g) = Some g"
| "closing _ = None"

definition closers :: "(nat \<Rightarrow> pc) \<Rightarrow> gptr set" where
  "closers p = {g. \<exists>t. closing (p t) = Some g}"

lemma closers_same: "closing (p t) = closing q \<Longrightarrow> closers (p(t := q)) = closers p"
proof -
  assume "closing (p t) = closing q"
  then have "closing ((p(t := q)) u) = closing (p u)" for u by simp
  then show ?thesis unfolding closers_def by (simp only:)
qed

lemma closers_add:
  assumes "closing (p t) = None" and "closing q = Some g"
  shows "closers (p(t := q)) = insert g (closers p)"
proof (rule set_eqI)
  fix i
  have "(\<exists>u. closing ((p(t := q)) u) = Some i) \<longleftrightarrow> i = g \<or> (\<exists>u. u \<noteq> t \<and> closing (p u) = Some i)"
    using assms(2) by auto
  also have "\<dots> \<longleftrightarrow> i = g \<or> (\<exists>u. closing (p u) = Some i)"
    using assms(1) by (metis option.distinct(1))
  finally show "i \<in> closers (p(t := q)) \<longleftrightarrow> i \<in> insert g (closers p)"
    by (simp add: closers_def)
qed

lemma closers_del:
  assumes "closing (p t) = Some g" and "closing q = None" and "\<And>u. closing (p u) = Some g \<Longrightarrow> u = t"
  shows "closers (p(t := q)) = closers p - {g}"
proof (rule set_eqI)
  fix i
  have "(\<exists>u. closing ((p(t := q)) u) = Some i) \<longleftrightarrow> (\<exists>u. u \<noteq> t \<and> closing (p u) = Some i)"
    using assms(2) by auto
  also have "\<dots> \<longleftrightarrow> i \<noteq> g \<and> (\<exists>u. closing (p u) = Some i)"
    using assms(1,3) by (metis option.inject)
  finally show "i \<in> closers (p(t := q)) \<longleftrightarrow> i \<in> closers p - {g}"
    by (auto simp: closers_def)
qed

text \<open>
  The table holds live groups under their ids; a live group is in the table unless the
  thread that emptied it is about to close it; a lock is held by the thread that is in the
  section; a group about to be closed is not in the table any more.
\<close>

definition cgroup_ok :: "('k, 'r, 'n) cstate \<Rightarrow> gptr \<Rightarrow> bool" where
  "cgroup_ok s g \<longleftrightarrow>
     gState (tgroups (cW s) g) \<in> {1, 2} \<and>
     (gState (tgroups (cW s) g) = 1 \<longrightarrow>
        mget (TGroups (cW s)) (gGid (tgroups (cW s) g)) = Some g \<or> g \<in> closers (cPc s))"

definition cinv :: "('k, 'r, 'n) cstate \<Rightarrow> bool" where
  "cinv s \<longleftrightarrow>
     (\<forall>gid g. mget (TGroups (cW s)) gid = Some g \<longrightarrow>
        g < nextGroup (cW s) \<and> gGid (tgroups (cW s) g) = gid \<and> gState (tgroups (cW s) g) = 1 \<and>
        g \<notin> closers (cPc s)) \<and>
     (\<forall>g < nextGroup (cW s). cgroup_ok s g) \<and>
     (\<forall>t g. holds (cPc s t) = Some g \<longleftrightarrow> cLock s g = Some t) \<and>
     (\<forall>t gid g. pc_group (cPc s t) = Some (gid, g) \<longrightarrow>
        g < nextGroup (cW s) \<and> gGid (tgroups (cW s) g) = gid)"

lemma cinvD:
  assumes "cinv s"
  shows "mget (TGroups (cW s)) gid = Some g \<Longrightarrow> g < nextGroup (cW s)"
    and "mget (TGroups (cW s)) gid = Some g \<Longrightarrow> gGid (tgroups (cW s) g) = gid"
    and "mget (TGroups (cW s)) gid = Some g \<Longrightarrow> gState (tgroups (cW s) g) = 1"
    and "mget (TGroups (cW s)) gid = Some g \<Longrightarrow> g \<notin> closers (cPc s)"
    and "g < nextGroup (cW s) \<Longrightarrow> cgroup_ok s g"
    and "holds (cPc s t) = Some g \<longleftrightarrow> cLock s g = Some t"
    and "pc_group (cPc s t) = Some (gid, g) \<Longrightarrow> g < nextGroup (cW s) \<and> gGid (tgroups (cW s) g) = gid"
  using assms unfolding cinv_def by blast+

lemma cinvI:
  assumes "\<And>gid g. mget (TGroups (cW s)) gid = Some g \<Longrightarrow>
        g < nextGroup (cW s) \<and> gGid (tgroups (cW s) g) = gid \<and> gState (tgroups (cW s) g) = 1 \<and>
        g \<notin> closers (cPc s)"
    and "\<And>g. g < nextGroup (cW s) \<Longrightarrow> cgroup_ok s g"
    and "\<And>t g. holds (cPc s t) = Some g \<longleftrightarrow> cLock s g = Some t"
    and "\<And>t gid g. pc_group (cPc s t) = Some (gid, g) \<Longrightarrow>
        g < nextGroup (cW s) \<and> gGid (tgroups (cW s) g) = gid"
  shows "cinv s"
  using assms unfolding cinv_def by blast

lemma closing_holds: "closing p = Some g \<Longrightarrow> holds p = Some g"
  by (cases p) auto

lemma closing_group: "closing p = Some g \<Longrightarrow> \<exists>gid. pc_group p = Some (gid, g)"
  by (cases p) auto

lemma closers_bound: "cinv s \<Longrightarrow> g \<in> closers (cPc s) \<Longrightarrow> g < nextGroup (cW s)"
  using closing_group cinvD(7) unfolding closers_def by blast

text \<open>A step that only moves a thread to a place where it holds no lock.\<close>

lemma cinv_move:
  assumes inv: "cinv s" and h: "holds (cPc s t) = None" "holds p = None"
    and p: "\<And>gid g. pc_group p = Some (gid, g) \<Longrightarrow> g < nextGroup (cW s) \<and> gGid (tgroups (cW s) g) = gid"
  shows "cinv (s\<lparr>cPc := (cPc s)(t := p)\<rparr>)" (is "cinv ?s")
proof -
  have "closing p = closing (cPc s t)"
    using h closing_holds by (metis option.distinct(1) option.exhaust)
  then have cl: "closers (cPc ?s) = closers (cPc s)" by (simp add: closers_same)
  show ?thesis
  proof (rule cinvI)
    show "cgroup_ok ?s g" if "g < nextGroup (cW ?s)" for g
      using cinvD(5) [OF inv, of g] that unfolding cgroup_ok_def cl by simp
    show "holds (cPc ?s u) = Some g \<longleftrightarrow> cLock ?s g = Some u" for u g
      using cinvD(6) [OF inv, of u g] h by (cases "u = t") auto
    show "g < nextGroup (cW ?s) \<and> gGid (tgroups (cW ?s) g) = gid"
      if "pc_group (cPc ?s u) = Some (gid, g)" for u gid g
      using that cinvD(7) [OF inv, of u gid g] p by (cases "u = t") auto
  qed (use cinvD(1-4) [OF inv] cl in auto)
qed

text \<open>A step that changes the members of groups only.\<close>

lemma cinv_users:
  assumes "cinv s" and "TGroups w = TGroups (cW s)" and "nextGroup w = nextGroup (cW s)"
    and "\<And>g. gState (tgroups w g) = gState (tgroups (cW s) g)"
    and "\<And>g. gGid (tgroups w g) = gGid (tgroups (cW s) g)"
  shows "cinv (s\<lparr>cW := w\<rparr>)"
  using assms unfolding cinv_def cgroup_ok_def by simp

lemma create_locked_new:
  assumes "mget (TGroups w) gid = None" and "create_locked gid w = (w', g)"
  shows "g = nextGroup w" and "nextGroup w' = Suc (nextGroup w)"
    and "TGroups w' = mput gid (nextGroup w) (TGroups w)"
    and "tgroups w' = (tgroups w)(nextGroup w := tgroups w' (nextGroup w))"
    and "gState (tgroups w' (nextGroup w)) = 1" and "gGid (tgroups w' (nextGroup w)) = gid"
  using assms by (auto simp: create_locked_def NewTGroup_def Let_def)

lemma create_locked_inv:
  assumes inv: "cinv s" and c: "create_locked gid (cW s) = (w, g)"
  shows "cinv (s\<lparr>cW := w\<rparr>) \<and> g < nextGroup w \<and> gGid (tgroups w g) = gid"
proof (cases "mget (TGroups (cW s)) gid")
  case None
  let ?n = "nextGroup (cW s)" and ?s = "s\<lparr>cW := w\<rparr>"
  note new = create_locked_new [OF None c]
  have old: "tgroups w i = tgroups (cW s) i" if "i < ?n" for i
    using that new(4) by (metis fun_upd_other nat_neq_iff)
  have "cinv ?s"
  proof (rule cinvI)
    show "i < nextGroup (cW ?s) \<and> gGid (tgroups (cW ?s) i) = gid' \<and> gState (tgroups (cW ?s) i) = 1 \<and>
        i \<notin> closers (cPc ?s)" if "mget (TGroups (cW ?s)) gid' = Some i" for gid' i
    proof (cases "gid' = gid")
      case True
      then have "i = ?n" using that new(3) by simp
      then show ?thesis using True new closers_bound [OF inv, of ?n] by auto
    next
      case False
      then have m: "mget (TGroups (cW s)) gid' = Some i" using that new(3) by simp
      then show ?thesis using cinvD(1-4) [OF inv m] old [of i] new(2) by simp
    qed
    show "cgroup_ok ?s i" if "i < nextGroup (cW ?s)" for i
    proof (cases "i = ?n")
      case False
      then have i: "i < ?n" using that new(2) by simp
      have "mget (TGroups (cW s)) gid \<noteq> Some i" using None by simp
      then show ?thesis using cinvD(5) [OF inv i] old [OF i] None new(3) by (auto simp: cgroup_ok_def)
    qed (use new in \<open>simp add: cgroup_ok_def\<close>)
    show "holds (cPc ?s u) = Some i \<longleftrightarrow> cLock ?s i = Some u" for u i using cinvD(6) [OF inv] by simp
    show "i < nextGroup (cW ?s) \<and> gGid (tgroups (cW ?s) i) = gid'"
      if "pc_group (cPc ?s u) = Some (gid', i)" for u gid' i
      using cinvD(7) [OF inv, of u gid' i] that old [of i] new(2) by simp
  qed
  then show ?thesis using new by simp
next
  case (Some g')
  with c have "w = cW s" "g' = g" by (simp_all add: create_locked_def)
  with inv Some cinvD(1,2) [OF inv, of gid g] show ?thesis by simp
qed

lemma cinv_table:
  assumes inv: "cinv s" and pc: "cPc s t = LTable gid uid g"
  shows "cinv (s\<lparr>cW := TGroupM_DeleteTGroup g (cW s), cPc := (cPc s)(t := LClose gid uid g)\<rparr>)" (is "cinv ?s")
proof -
  let ?w = "TGroupM_DeleteTGroup g (cW s)"
  have g: "g < nextGroup (cW s)" "gGid (tgroups (cW s) g) = gid" using cinvD(7) [OF inv, of t] pc by auto
  have tab: "mget (TGroups ?w) i = (if i = gid \<and> mget (TGroups (cW s)) gid = Some g then None
      else mget (TGroups (cW s)) i)" for i
    using g by (auto simp: TGroupM_DeleteTGroup_def split: option.split)
  have cl: "closers (cPc ?s) = insert g (closers (cPc s))" using pc by (simp add: closers_add)
  show ?thesis
  proof (rule cinvI)
    show "i < nextGroup (cW ?s) \<and> gGid (tgroups (cW ?s) i) = gid' \<and> gState (tgroups (cW ?s) i) = 1 \<and>
        i \<notin> closers (cPc ?s)" if "mget (TGroups (cW ?s)) gid' = Some i" for gid' i
    proof -
      have m: "mget (TGroups (cW s)) gid' = Some i" using that by (simp add: tab split: if_splits)
      then have "i \<noteq> g" using that g cinvD(2) [OF inv m] by (auto simp: tab split: if_splits)
      then show ?thesis using cinvD(1-4) [OF inv m] unfolding cl by simp
    qed
    show "cgroup_ok ?s i" if "i < nextGroup (cW ?s)" for i
      using cinvD(5) [OF inv, of i] that unfolding cgroup_ok_def cl by (auto simp: tab)
    show "holds (cPc ?s u) = Some i \<longleftrightarrow> cLock ?s i = Some u" for u i
      using cinvD(6) [OF inv, of u i] pc by (cases "u = t") auto
    show "i < nextGroup (cW ?s) \<and> gGid (tgroups (cW ?s) i) = gid'"
      if "pc_group (cPc ?s u) = Some (gid', i)" for u gid' i
      using cinvD(7) [OF inv, of u gid' i] that g by (cases "u = t") auto
  qed
qed

lemma cinv_close:
  assumes inv: "cinv s" and pc: "cPc s t = LClose gid uid g"
  shows "cinv (s\<lparr>cW := CloseSend g (cW s), cPc := (cPc s)(t := LDone), cLock := (cLock s)(g := None)\<rparr>)"
    (is "cinv ?s")
proof -
  let ?w = "CloseSend g (cW s)"
  have tg: "tgroups ?w i = tgroups (cW s) i" if "i \<noteq> g" for i
    using that by (simp add: CloseSend_def Let_def split: option.split)
  have st: "gState (tgroups ?w g) = 2" "gGid (tgroups ?w i) = gGid (tgroups (cW s) i)" for i
    by (auto simp: CloseSend_def Let_def split: option.split)
  have lock: "cLock s g = Some t" using cinvD(6) [OF inv, of t g] pc by simp
  have only: "u = t" if "closing (cPc s u) = Some g" for u
    using closing_holds [OF that] cinvD(6) [OF inv, of u g] lock by simp
  have cl: "closers (cPc ?s) = closers (cPc s) - {g}"
    using pc only by (simp add: closers_del)
  have "g \<in> closers (cPc s)" using pc unfolding closers_def by (auto intro: exI [of _ t])
  then have gone: "mget (TGroups (cW s)) i \<noteq> Some g" for i using cinvD(4) [OF inv, of i g] by auto
  show ?thesis
  proof (rule cinvI)
    show "i < nextGroup (cW ?s) \<and> gGid (tgroups (cW ?s) i) = gid' \<and> gState (tgroups (cW ?s) i) = 1 \<and>
        i \<notin> closers (cPc ?s)" if "mget (TGroups (cW ?s)) gid' = Some i" for gid' i
    proof -
      have m: "mget (TGroups (cW s)) gid' = Some i" "i \<noteq> g" using that gone by auto
      then show ?thesis using cinvD(1-4) [OF inv m(1)] tg [OF m(2)] unfolding cl by simp
    qed
    show "cgroup_ok ?s i" if "i < nextGroup (cW ?s)" for i
      using cinvD(5) [OF inv, of i] that tg [of i] st(1) unfolding cgroup_ok_def cl
      by (cases "i = g") auto
    show "holds (cPc ?s u) = Some i \<longleftrightarrow> cLock ?s i = Some u" for u i
      using cinvD(6) [OF inv, of u i] cinvD(6) [OF inv, of t i] pc lock
      by (cases "u = t"; cases "i = g") auto
    show "i < nextGroup (cW ?s) \<and> gGid (tgroups (cW ?s) i) = gid'"
      if "pc_group (cPc ?s u) = Some (gid', i)" for u gid' i
      using cinvD(7) [OF inv, of u gid' i] that st(2) [of i] by (cases "u = t") auto
  qed
qed

lemma cinv_lock:
  assumes inv: "cinv s" and pc: "cPc s t = LEnter gid uid g" and free: "cLock s g = None"
  shows "cinv (s\<lparr>cPc := (cPc s)(t := LTable gid uid g), cLock := (cLock s)(g := Some t)\<rparr>)" (is "cinv ?s")
proof -
  have cl: "closers (cPc ?s) = closers (cPc s)" using pc by (simp add: closers_same)
  have no: "holds (cPc s u) \<noteq> Some g" for u using cinvD(6) [OF inv, of u g] free by simp
  show ?thesis
  proof (rule cinvI)
    show "cgroup_ok ?s i" if "i < nextGroup (cW ?s)" for i
      using cinvD(5) [OF inv, of i] that unfolding cgroup_ok_def cl by simp
    show "holds (cPc ?s u) = Some i \<longleftrightarrow> cLock ?s i = Some u" for u i
      using cinvD(6) [OF inv, of u i] cinvD(6) [OF inv, of t i] pc no [of u]
      by (cases "u = t"; cases "i = g") auto
    show "i < nextGroup (cW ?s) \<and> gGid (tgroups (cW ?s) i) = gid'"
      if "pc_group (cPc ?s u) = Some (gid', i)" for u gid' i
      using cinvD(7) [OF inv, of u gid' i] cinvD(7) [OF inv, of t] that pc by (cases "u = t") auto
  qed (use cinvD(1-4) [OF inv] cl in auto)
qed

lemma finished_holds: "finished p \<Longrightarrow> holds p = None"
  by (cases p) auto

lemma cinv_drop_user: "cinv s \<Longrightarrow> cinv (s\<lparr>cW := drop_user g uid (cW s)\<rparr>)"
  by (rule cinv_users) (simp_all add: drop_user_def)

lemma cinv_UserJoin: "cinv s \<Longrightarrow> UserJoin g uid (cW s) = (w, ok) \<Longrightarrow> cinv (s\<lparr>cW := w\<rparr>)"
  by (rule cinv_users) (auto simp: UserJoin_def split: if_splits)

lemma cstep_inv: "cstep t s s' \<Longrightarrow> cinv s \<Longrightarrow> cinv s'"
proof (induction rule: cstep.induct)
  case (join_hit s gid uid g)
  then show ?case using cinvD(1,2) by (intro cinv_move) (auto simp: GetTGroup_def)
next
  case (join_create s gid uid w g)
  from create_locked_inv [OF join_create(3,2)]
  show ?case using cinv_move [of "s\<lparr>cW := w\<rparr>" t "JUser gid uid g"] join_create(1) by simp
next
  case (join_ok s gid uid g w)
  then show ?case
    using cinv_move [of "s\<lparr>cW := w\<rparr>" t "JDone gid uid g"] cinv_UserJoin [OF join_ok(4,3)] by simp
next
  case (join_retry s gid uid g w)
  then show ?case
    using cinv_move [of "s\<lparr>cW := w\<rparr>" t "JGet gid uid"] cinv_UserJoin [OF join_retry(4,3)] by simp
next
  case (leave_hit s gid uid g)
  then show ?case using cinvD(1,2) by (intro cinv_move) (auto simp: GetTGroup_def)
next
  case (leave_some s gid uid g)
  then show ?case
    using cinv_move [of "s\<lparr>cW := drop_user g uid (cW s)\<rparr>" t LDone] cinv_drop_user [OF leave_some(4)] by simp
next
  case (leave_last s gid uid g)
  then show ?case
    using cinv_lock [of "s\<lparr>cW := drop_user g uid (cW s)\<rparr>" t gid uid g] cinv_drop_user [OF leave_last(4)] by simp
qed (auto intro!: cinv_move cinv_table cinv_close simp: finished_holds)

lemma creachable_inv: "creachable s \<Longrightarrow> cinv s"
proof -
  assume "creachable s"
  then obtain w where w: "TGroups w = []" "nextGroup w = 0"
    and steps: "(\<lambda>a b. \<exists>t. cstep t a b)\<^sup>*\<^sup>* \<lparr>cW = w, cPc = (\<lambda>_. LDone), cLock = (\<lambda>_. None)\<rparr> s"
    by (auto simp: creachable_def)
  have "cinv \<lparr>cW = w, cPc = (\<lambda>_. LDone), cLock = (\<lambda>_. None)\<rparr>"
    using w by (intro cinvI) simp_all
  with steps show ?thesis
    by (induction rule: rtranclp_induct) (auto intro: cstep_inv)
qed

section \<open>What the locks guarantee\<close>

text \<open>A join that succeeds has put the user into the group the table holds.\<close>

lemma join_lands:
  assumes inv: "cinv s" and pc: "cPc s t = JUser gid uid g" and free: "cLock s g = None"
    and ok: "UserJoin g uid (cW s) = (w, True)"
  shows "mget (TGroups w) gid = Some g \<and> uid \<in> members w gid"
proof -
  have g: "g < nextGroup (cW s)" "gGid (tgroups (cW s) g) = gid" using cinvD(7) [OF inv, of t] pc by auto
  have "g \<notin> closers (cPc s)"
    using cinvD(6) [OF inv, of _ g] free closing_holds unfolding closers_def by fastforce
  moreover have "gState (tgroups (cW s) g) \<noteq> 2" using ok by (auto simp: UserJoin_def split: if_splits)
  ultimately have "mget (TGroups (cW s)) gid = Some g"
    using cinvD(5) [OF inv g(1)] g(2) by (auto simp: cgroup_ok_def)
  then show ?thesis using ok by (auto simp: UserJoin_def members_def split: if_splits)
qed

text \<open>A join that is refused finds another group, or none, at its next lookup.\<close>

lemma retry_sees_new_group:
  assumes inv: "cinv s" and no: "UserJoin g uid (cW s) = (w, False)"
  shows "GetTGroup gid w \<noteq> Some g"
  using no cinvD(3) [OF inv, of gid g] by (auto simp: UserJoin_def GetTGroup_def split: if_splits)

text \<open>A thread waits only for a lock whose holder can go on: there is no deadlock.\<close>

text \<open>A thread that holds a lock can go on.\<close>

lemma lock_holder_steps:
  assumes inv: "cinv s" and lock: "cLock s g = Some u"
  shows "\<exists>s'. \<not> finished (cPc s u) \<and> cstep u s s'"
proof -
  have "holds (cPc s u) = Some g" using cinvD(6) [OF inv, of u g] lock by simp
  then consider gid uid where "cPc s u = LTable gid uid g" | gid uid where "cPc s u = LClose gid uid g"
    by (cases "cPc s u") auto
  then show ?thesis
  proof cases
    case 1
    then show ?thesis using cstep.leave_table [OF 1] by auto
  next
    case 2
    then show ?thesis using cstep.leave_close [OF 2] by auto
  qed
qed

lemma no_deadlock:
  assumes inv: "cinv s" and t: "\<not> finished (cPc s t)"
  shows "\<exists>u s'. \<not> finished (cPc s u) \<and> cstep u s s'"
proof -
  have "\<exists>s'. cstep t s s'" if "\<And>g. g \<in> {g. \<exists>gid uid. cPc s t \<in> {JUser gid uid g, LEnter gid uid g}} \<Longrightarrow> cLock s g = None"
  proof (cases "cPc s t")
    case (JGet gid uid)
    then show ?thesis
      using cstep.join_hit [OF JGet] cstep.join_miss [OF JGet] by (cases "GetTGroup gid (cW s)") blast+
  next
    case (JCreate gid uid)
    then show ?thesis using cstep.join_create [OF JCreate] by (metis surj_pair)
  next
    case (JUser gid uid g)
    then have "cLock s g = None" using that by blast
    moreover obtain w ok where "UserJoin g uid (cW s) = (w, ok)" by fastforce
    ultimately show ?thesis
      using cstep.join_ok [OF JUser, of w] cstep.join_retry [OF JUser, of w] by (cases ok) auto
  next
    case (LGet gid uid)
    then show ?thesis
      using cstep.leave_hit [OF LGet] cstep.leave_miss [OF LGet] by (cases "GetTGroup gid (cW s)") blast+
  next
    case (LEnter gid uid g)
    then have "cLock s g = None" using that by blast
    then show ?thesis
      using cstep.leave_some [OF LEnter] cstep.leave_last [OF LEnter] by blast
  next
    case (LTable gid uid g)
    then show ?thesis using cstep.leave_table [OF LTable] by blast
  next
    case (LClose gid uid g)
    then show ?thesis using cstep.leave_close [OF LClose] by blast
  qed (use t in simp_all)
  then show ?thesis using lock_holder_steps [OF inv] t by (metis (mono_tags, lifting) option.exhaust)
qed

section \<open>The sets of members\<close>

text \<open>A group whose lock is held past the removal of a user is empty.\<close>

definition held_empty :: "('k, 'r, 'n) cstate \<Rightarrow> bool" where
  "held_empty s \<longleftrightarrow> (\<forall>t g. holds (cPc s t) = Some g \<longrightarrow> gUsers (tgroups (cW s) g) = [])"

lemma held_emptyI:
  assumes "\<And>t g. holds (cPc s t) = Some g \<Longrightarrow> gUsers (tgroups (cW s) g) = []"
  shows "held_empty s"
  using assms unfolding held_empty_def by blast

lemma held_emptyD: "held_empty s \<Longrightarrow> holds (cPc s t) = Some g \<Longrightarrow> gUsers (tgroups (cW s) g) = []"
  unfolding held_empty_def by blast

text \<open>A step that moves a thread to a place without a lock and keeps the users of held groups.\<close>

lemma held_empty_move:
  assumes h: "held_empty s" and p: "holds p = None"
    and u: "\<And>u g. u \<noteq> t \<Longrightarrow> holds (cPc s u) = Some g \<Longrightarrow> gUsers (tgroups (cW s) g) = [] \<Longrightarrow>
      gUsers (tgroups w g) = []"
  shows "held_empty (s\<lparr>cW := w, cPc := (cPc s)(t := p), cLock := l\<rparr>)"
proof (rule held_emptyI)
  fix v g
  assume v: "holds (cPc (s\<lparr>cW := w, cPc := (cPc s)(t := p), cLock := l\<rparr>) v) = Some g"
  then have "v \<noteq> t" using p by auto
  with v have "holds (cPc s v) = Some g" by simp
  with u [OF \<open>v \<noteq> t\<close> this held_emptyD [OF h this]]
  show "gUsers (tgroups (cW (s\<lparr>cW := w, cPc := (cPc s)(t := p), cLock := l\<rparr>)) g) = []" by simp
qed

lemma drop_user_empty: "gUsers (tgroups w g) = [] \<Longrightarrow> gUsers (tgroups (drop_user h uid w) g) = []"
  by (auto simp: drop_user_def)

lemma gUsers_delete [simp]:
  "gUsers (tgroups (TGroupM_DeleteTGroup h w) g) = gUsers (tgroups w g)"
  "gUsers (tgroups (CloseSend h w) g) = gUsers (tgroups w g)"
  by (simp_all add: TGroupM_DeleteTGroup_def CloseSend_def Let_def split: option.split)

lemma create_locked_users:
  assumes "create_locked gid w = (w', h)" and "g < nextGroup w"
  shows "tgroups w' g = tgroups w g"
  using assms by (auto simp: create_locked_def NewTGroup_def Let_def split: option.splits)

lemma held_bound: "cinv s \<Longrightarrow> holds (cPc s t) = Some g \<Longrightarrow> g < nextGroup (cW s)"
  using cinvD(7) [of s t] by (cases "cPc s t") auto

lemma held_empty_pc: "held_empty s \<Longrightarrow> holds p = None \<Longrightarrow> held_empty (s\<lparr>cPc := (cPc s)(t := p)\<rparr>)"
  using held_empty_move [of s p t "cW s" "cLock s"] by simp

lemma cstep_held_empty: "cstep t s s' \<Longrightarrow> cinv s \<Longrightarrow> held_empty s \<Longrightarrow> held_empty s'"
proof (induction rule: cstep.induct)
  case (join_create s gid uid w g)
  then show ?case
    using held_empty_move [of s "JUser gid uid g" t w "cLock s"] held_bound create_locked_users by fastforce
next
  case (join_ok s gid uid g w)
  have "gUsers (tgroups w h) = gUsers (tgroups (cW s) h)" if "holds (cPc s u) = Some h" for u h
    using that cinvD(6) [OF join_ok.prems(1), of u h] join_ok(2,3) by (auto simp: UserJoin_def split: if_splits)
  then show ?case using held_empty_move [of s "JDone gid uid g" t w "cLock s"] join_ok.prems by simp
next
  case (join_retry s gid uid g w)
  then have "w = cW s" by (auto simp: UserJoin_def split: if_splits)
  then show ?case using held_empty_move [of s "JGet gid uid" t w "cLock s"] join_retry.prems by simp
next
  case (leave_some s gid uid g)
  then show ?case
    using held_empty_move [of s LDone t "drop_user g uid (cW s)" "cLock s"] by (simp add: drop_user_empty)
next
  case (leave_last s gid uid g)
  then show ?case by (intro held_emptyI) (auto dest: held_emptyD drop_user_empty split: if_splits)
next
  case (leave_table s gid uid g)
  then show ?case by (intro held_emptyI) (auto dest: held_emptyD [of s t g] held_emptyD split: if_splits)
next
  case (leave_close s gid uid g)
  then show ?case using held_empty_move [of s LDone t "CloseSend g (cW s)" "(cLock s)(g := None)"] by simp
qed (auto intro: held_empty_pc)

lemma creachable_held: "creachable s \<Longrightarrow> held_empty s"
proof -
  assume "creachable s"
  then obtain w where w: "TGroups w = []" "nextGroup w = 0"
    and steps: "(\<lambda>a b. \<exists>t. cstep t a b)\<^sup>*\<^sup>* \<lparr>cW = w, cPc = (\<lambda>_. LDone), cLock = (\<lambda>_. None)\<rparr> s"
    by (auto simp: creachable_def)
  have "cinv s \<and> held_empty s"
    using steps
  proof (induction rule: rtranclp_induct)
    case base
    show ?case using w by (intro conjI cinvI held_emptyI) simp_all
  next
    case (step a b)
    then show ?case using cstep_inv cstep_held_empty by blast
  qed
  then show ?thesis by simp
qed

text \<open>What one step does to the sets.\<close>

lemma members_create_locked:
  assumes inv: "cinv s" and c: "create_locked gid (cW s) = (w, g)"
  shows "members w = members (cW s)"
proof (cases "mget (TGroups (cW s)) gid")
  case None
  have old: "tgroups w h = tgroups (cW s) h" if "mget (TGroups (cW s)) i = Some h" for i h
    using create_locked_users [OF c cinvD(1) [OF inv that]] .
  show ?thesis
  proof (rule ext)
    fix i
    have "gUsers (tgroups w (nextGroup (cW s))) = []"
      using c None by (auto simp: create_locked_def NewTGroup_def Let_def)
    then show "members w i = members (cW s) i"
      using None old [of i] create_locked_new(3) [OF None c]
      by (cases "i = gid"; cases "mget (TGroups (cW s)) i") (simp_all add: members_def)
  qed
qed (use c in \<open>simp add: create_locked_def\<close>)

lemma members_drop_user:
  assumes inv: "cinv s" and g: "gGid (tgroups (cW s) g) = gid"
  shows "members (drop_user g uid (cW s)) =
     (if mget (TGroups (cW s)) gid = Some g then (members (cW s))(gid := members (cW s) gid - {uid})
      else members (cW s))"
proof (rule ext)
  fix i
  have "h \<noteq> g" if "mget (TGroups (cW s)) i = Some h" "i \<noteq> gid" for h
    using cinvD(2) [OF inv that(1)] that(2) g by auto
  then show "members (drop_user g uid (cW s)) i =
     (if mget (TGroups (cW s)) gid = Some g then (members (cW s))(gid := members (cW s) gid - {uid})
      else members (cW s)) i"
    by (cases "i = gid") (auto simp: members_def drop_user_def split: option.splits)
qed

lemma members_table:
  assumes "gUsers (tgroups w g) = []"
  shows "members (TGroupM_DeleteTGroup g w) = members w"
  using assms by (auto simp: fun_eq_iff members_def TGroupM_DeleteTGroup_def split: option.splits)

lemma members_CloseSend: "members (CloseSend g w) = members w"
  by (auto simp: fun_eq_iff members_def CloseSend_def Let_def split: option.splits)

lemma members_UserJoin:
  assumes inv: "cinv s" and pc: "cPc s t = JUser gid uid g" and free: "cLock s g = None"
    and ok: "UserJoin g uid (cW s) = (w, True)"
  shows "members w = (members (cW s))(gid := insert uid (members (cW s) gid))"
proof -
  have tab: "mget (TGroups w) gid = Some g" "TGroups w = TGroups (cW s)"
    using join_lands [OF assms] ok by (auto simp: UserJoin_def split: if_splits)
  have other: "h \<noteq> g" if "mget (TGroups (cW s)) i = Some h" "i \<noteq> gid" for i h
    using cinvD(2) [OF inv that(1)] cinvD(2) [OF inv, of gid g] tab that(2) by auto
  have us: "gUsers (tgroups w g) = mput uid True (gUsers (tgroups (cW s) g))"
    "h \<noteq> g \<Longrightarrow> tgroups w h = tgroups (cW s) h" for h
    using ok by (auto simp: UserJoin_def split: if_splits)
  show ?thesis
  proof (rule ext)
    fix i
    show "members w i = ((members (cW s))(gid := insert uid (members (cW s) gid))) i"
      using tab us other [of i]
      by (cases "i = gid"; cases "mget (TGroups (cW s)) i") (simp_all add: members_def)
  qed
qed

end
