(* ===== verification/ConcProps.thy ===== *)
theory ConcProps
  imports WsConcurrency WsInstance
begin

text \<open>
  Properties of the groups as sets of members: sequences of joins and leaves refine
  operations on sets, and threads that interleave at the grain of the locks refine them
  too, without deadlock.
\<close>

declare map_of_eq_Some_iff [simp del] Some_eq_map_of_iff [simp del]

section \<open>Sequences of operations\<close>

datatype group_op = GJoin string string | GOut string string

fun run_op :: "group_op \<Rightarrow> ('k, 'r, 'n) ws \<Rightarrow> ('k, 'r, 'n) ws option" where
  "run_op (GJoin gid uid) w = map_option fst (UserJoinTGroup gid uid w)"
| "run_op (GOut gid uid) w = Some (fst (UserOutTGroup gid uid w))"

fun run_ops :: "group_op list \<Rightarrow> ('k, 'r, 'n) ws \<Rightarrow> ('k, 'r, 'n) ws option" where
  "run_ops [] w = Some w"
| "run_ops (x # xs) w = (case run_op x w of None \<Rightarrow> None | Some w1 \<Rightarrow> run_ops xs w1)"

fun set_op :: "group_op \<Rightarrow> (string \<Rightarrow> string set) \<Rightarrow> (string \<Rightarrow> string set)" where
  "set_op (GJoin gid uid) m = m(gid := insert uid (m gid))"
| "set_op (GOut gid uid) m = m(gid := m gid - {uid})"

lemma run_op_spec:
  "groups_inv w \<Longrightarrow> \<exists>w'. run_op x w = Some w' \<and> groups_inv w' \<and> members w' = set_op x (members w)"
  using tgm.join_spec [of w] tgm.out_inv [of w] tgm.out_mem [of w] by (cases x) auto

lemma run_ops_spec:
  "groups_inv w \<Longrightarrow> \<exists>w'. run_ops xs w = Some w' \<and> groups_inv w' \<and> members w' = fold set_op xs (members w)"
proof (induction xs arbitrary: w)
  case (Cons x xs)
  obtain w1 where w1: "run_op x w = Some w1" "groups_inv w1" "members w1 = set_op x (members w)"
    using run_op_spec [OF Cons.prems, of x] by blast
  from Cons.IH [OF w1(2)] w1 show ?case by auto
qed simp

lemma table_members: "groups_inv w \<Longrightarrow> GetTGroup gid w = None \<longleftrightarrow> members w gid = {}"
  using groups_invD(5) [of w gid] by (auto simp: GetTGroup_def members_def split: option.splits)

text \<open>
  C9: The group manager implements a table of sets: every sequence of joins and leaves
  returns, the members afterwards are those of the same sequence on sets, and a group is
  in the table exactly when its set is not empty, so no empty group is left behind.
\<close>

theorem groups_refine_sets:
  assumes "groups_inv w"
  shows "\<exists>w'. run_ops xs w = Some w' \<and> members w' = fold set_op xs (members w) \<and>
     (\<forall>gid. GetTGroup gid w' = None \<longleftrightarrow> fold set_op xs (members w) gid = {})"
proof -
  obtain w' where w': "run_ops xs w = Some w'" "groups_inv w'" "members w' = fold set_op xs (members w)"
    using run_ops_spec [OF assms] by blast
  then show ?thesis using table_members [OF w'(2)] by auto
qed

theorem groups_refine_sets_witness:
  "\<exists>w'. run_ops [GOut ''room'' ''alice'', GJoin ''game'' ''bob'', GOut ''room'' ''bob''] ex_ws = Some w' \<and>
     members w' ''game'' = {''bob''} \<and> GetTGroup ''room'' w' = None"
  using groups_refine_sets [OF ws_invD(2) [OF ex_ws_inv],
      of "[GOut ''room'' ''alice'', GJoin ''game'' ''bob'', GOut ''room'' ''bob'']"]
  by (auto simp: ex_members)

section \<open>Threads\<close>

lemma creachable_refl:
  "TGroups w = [] \<Longrightarrow> nextGroup w = 0 \<Longrightarrow>
     creachable \<lparr>cW = w, cPc = (\<lambda>_. LDone), cLock = (\<lambda>_. None)\<rparr>"
  unfolding creachable_def by blast

lemma creachable_step: "creachable s \<Longrightarrow> cstep t s s' \<Longrightarrow> creachable s'"
  unfolding creachable_def by (blast intro: rtranclp.rtrancl_into_rtrancl)

text \<open>
  C2: However threads that join and leave groups interleave between their locks, every
  step of one of them is, on the sets of members, nothing, one whole leave or one whole
  join: a step that ends a join with success adds the user to the group of that name, and
  it is the only kind of step that adds anybody; a user is removed only by the step in
  which a thread leaves for that user.
\<close>

theorem locks_refine_sets:
  assumes r: "creachable s" and st: "cstep t s s'"
  shows "(\<forall>gid uid g. cPc s' t = JDone gid uid g \<and> \<not> finished (cPc s t) \<longrightarrow>
        members (cW s') = set_op (GJoin gid uid) (members (cW s))) \<and>
     (members (cW s') = members (cW s) \<or>
      (\<exists>gid uid g. cPc s t = JUser gid uid g \<and> cPc s' t = JDone gid uid g) \<or>
      (\<exists>gid uid g. cPc s t = LEnter gid uid g \<and> members (cW s') = set_op (GOut gid uid) (members (cW s))))"
  using st
proof cases
  case (join_create gid uid w g)
  then show ?thesis using members_create_locked [OF creachable_inv [OF r]] by auto
next
  case (join_ok gid uid g w)
  then show ?thesis using members_UserJoin [OF creachable_inv [OF r]] by auto
next
  case (join_retry gid uid g w)
  then have "w = cW s" by (auto simp: UserJoin_def split: if_splits)
  with join_retry show ?thesis by auto
next
  case (leave_some gid uid g)
  then have "gGid (tgroups (cW s) g) = gid" using cinvD(7) [OF creachable_inv [OF r], of t] by simp
  with leave_some show ?thesis using members_drop_user [OF creachable_inv [OF r]] by auto
next
  case (leave_last gid uid g)
  then have "gGid (tgroups (cW s) g) = gid" using cinvD(7) [OF creachable_inv [OF r], of t] by simp
  with leave_last show ?thesis using members_drop_user [OF creachable_inv [OF r]] by auto
next
  case (leave_table gid uid g)
  then have "gUsers (tgroups (cW s) g) = []" using held_emptyD [OF creachable_held [OF r], of t g] by simp
  with leave_table show ?thesis using members_table by auto
next
  case (leave_close gid uid g)
  then show ?thesis using members_CloseSend by auto
qed auto

text \<open>A thread that joins a group which is not there, up to the step that ends the join.\<close>

definition ex_none :: "(ex_conn, (string, bytes) gomap, unit) ws" where
  "ex_none = ex_ws\<lparr>TGroups := [], nextGroup := 0\<rparr>"

definition ex_c0 :: "(ex_conn, (string, bytes) gomap, unit) cstate" where
  "ex_c0 = \<lparr>cW = ex_none, cPc = (\<lambda>_. LDone), cLock = (\<lambda>_. None)\<rparr>"

definition ex_c3 :: "(ex_conn, (string, bytes) gomap, unit) cstate" where
  "ex_c3 = ex_c0\<lparr>cW := fst (create_locked ''r'' ex_none), cPc := (\<lambda>_. LDone)(1 := JUser ''r'' ''u'' 0)\<rparr>"

lemma ex_c3_reachable: "creachable ex_c3"
proof -
  have 0: "creachable ex_c0" unfolding ex_c0_def by (rule creachable_refl) (simp_all add: ex_none_def)
  have 1: "creachable (ex_c0\<lparr>cPc := (cPc ex_c0)(1 := JGet ''r'' ''u'')\<rparr>)" (is "creachable ?s1")
    by (rule creachable_step [OF 0 cstep.start_join]) (simp add: ex_c0_def)
  have 2: "creachable (?s1\<lparr>cPc := (cPc ?s1)(1 := JCreate ''r'' ''u'')\<rparr>)" (is "creachable ?s2")
    by (rule creachable_step [OF 1 cstep.join_miss]) (simp_all add: ex_c0_def ex_none_def GetTGroup_def)
  have "creachable (?s2\<lparr>cW := fst (create_locked ''r'' ex_none), cPc := (cPc ?s2)(1 := JUser ''r'' ''u'' 0)\<rparr>)"
    by (rule creachable_step [OF 2 cstep.join_create])
      (simp_all add: ex_c0_def ex_none_def create_locked_def NewTGroup_def Let_def)
  then show ?thesis by (simp add: ex_c3_def ex_c0_def)
qed

theorem locks_refine_sets_witness:
  "\<exists>s'. cstep 1 ex_c3 s' \<and> members (cW s') ''r'' = {''u''}"
proof -
  obtain w where j: "UserJoin 0 ''u'' (cW ex_c3) = (w, True)"
    by (simp add: UserJoin_def ex_c3_def create_locked_def NewTGroup_def Let_def ex_none_def)
  have st: "cstep 1 ex_c3 (ex_c3\<lparr>cW := w, cPc := (cPc ex_c3)(1 := JDone ''r'' ''u'' 0)\<rparr>)"
    by (rule cstep.join_ok [OF _ _ j]) (simp_all add: ex_c3_def ex_c0_def)
  moreover have "members (cW ex_c3) ''r'' = {}"
    by (simp add: members_def ex_c3_def create_locked_def NewTGroup_def Let_def ex_none_def)
  moreover have "members w = set_op (GJoin ''r'' ''u'') (members (cW ex_c3))"
    using locks_refine_sets [OF ex_c3_reachable st, THEN conjunct1, rule_format, of "''r''" "''u''" 0]
    by (simp add: ex_c3_def)
  ultimately show ?thesis by (intro exI conjI) auto
qed

text \<open>
  C26: There is no deadlock: in every state the threads can reach, when one of them is in
  the middle of a join or a leave, some thread in the middle of one can take a step; and a
  join that was refused, because its group was deleted, finds another group or none at its
  next lookup, so that it does not meet the same refusal again.
\<close>

theorem no_group_deadlock:
  assumes r: "creachable s" and t: "\<not> finished (cPc s t)"
  shows "(\<exists>u s'. \<not> finished (cPc s u) \<and> cstep u s s') \<and>
     (\<forall>gid uid g w. UserJoin g uid (cW s) = (w, False) \<longrightarrow> GetTGroup gid w \<noteq> Some g)"
  using no_deadlock [OF creachable_inv [OF r] t] retry_sees_new_group [OF creachable_inv [OF r]] by blast

theorem no_group_deadlock_witness:
  "\<exists>u s'. \<not> finished (cPc ex_c3 u) \<and> cstep u ex_c3 s'"
  using no_group_deadlock [OF ex_c3_reachable, of 1] by (simp add: ex_c3_def)

end
