(* ===== verification/ThriftProto.thy ===== *)
theory ThriftProto
  imports ThriftCodec
begin

text \<open>
  The second codec of the generated rpc types (\<^verbatim>\<open>Read\<close> and \<^verbatim>\<open>Write\<close> in
  \<^verbatim>\<open>kitex_gen/im/rpc/api.go\<close>), over the library's protocol interface \<^verbatim>\<open>thrift.TProtocol\<close>,
  a parameter: its operations on the protocol's state, each of which may fail. The parts
  every struct shares are the steps that stop at the first error and the loop over the
  fields.
\<close>

section \<open>The protocol interface\<close>

record 's proto =
  pReadStructBegin :: "'s \<Rightarrow> 's \<times> go_error option"
  pReadStructEnd :: "'s \<Rightarrow> 's \<times> go_error option"
  pReadFieldBegin :: "'s \<Rightarrow> 's \<times> int \<times> int \<times> go_error option"
  pReadFieldEnd :: "'s \<Rightarrow> 's \<times> go_error option"
  pSkip :: "int \<Rightarrow> 's \<Rightarrow> 's \<times> go_error option"
  pReadString :: "'s \<Rightarrow> 's \<times> string result"
  pReadBinary :: "'s \<Rightarrow> 's \<times> bytes result"
  pReadI32 :: "'s \<Rightarrow> 's \<times> 32 word result"
  pReadBool :: "'s \<Rightarrow> 's \<times> bool result"
  pWriteStructBegin :: "string \<Rightarrow> 's \<Rightarrow> 's \<times> go_error option"
  pWriteStructEnd :: "'s \<Rightarrow> 's \<times> go_error option"
  pWriteFieldBegin :: "string \<Rightarrow> int \<Rightarrow> int \<Rightarrow> 's \<Rightarrow> 's \<times> go_error option"
  pWriteFieldEnd :: "'s \<Rightarrow> 's \<times> go_error option"
  pWriteFieldStop :: "'s \<Rightarrow> 's \<times> go_error option"
  pWriteString :: "string \<Rightarrow> 's \<Rightarrow> 's \<times> go_error option"
  pWriteBinary :: "bytes \<Rightarrow> 's \<Rightarrow> 's \<times> go_error option"
  pWriteI32 :: "32 word \<Rightarrow> 's \<Rightarrow> 's \<times> go_error option"
  pWriteBool :: "bool \<Rightarrow> 's \<Rightarrow> 's \<times> go_error option"
  pPrependError :: "string \<Rightarrow> go_error \<Rightarrow> go_error"

text \<open>Writing: a step that may fail, steps in a row, and a step with a text put before its error.\<close>

type_synonym 's step = "'s \<Rightarrow> 's \<times> go_error option"

definition skip_step :: "'s step" where
  "skip_step s = (s, None)"

definition seq_step :: "'s step \<Rightarrow> 's step \<Rightarrow> 's step" where
  "seq_step f g s = (case f s of (s1, Some e) \<Rightarrow> (s1, Some e) | (s1, None) \<Rightarrow> g s1)"

definition with_text :: "'s proto \<Rightarrow> string \<Rightarrow> 's step \<Rightarrow> 's step" where
  "with_text P etext f s = (case f s of (s1, e) \<Rightarrow> (s1, map_option (pPrependError P etext) e))"

text \<open>The error texts of the generated methods; \<open>tn\<close> is the printed type of the struct.\<close>

definition write_field_error :: "string \<Rightarrow> int \<Rightarrow> string" where
  "write_field_error tn fid = tn @ '' write field '' @ int_lit fid @ '' error: ''"

definition write_begin_error :: "string \<Rightarrow> int \<Rightarrow> string" where
  "write_begin_error tn fid = tn @ '' write field '' @ int_lit fid @ '' begin error: ''"

definition write_end_error :: "string \<Rightarrow> int \<Rightarrow> string" where
  "write_end_error tn fid = tn @ '' write field '' @ int_lit fid @ '' end error: ''"

text \<open>One field: its header, its value, whose error gets no text here, and its end.\<close>

definition write_field :: "'s proto \<Rightarrow> string \<Rightarrow> string \<Rightarrow> int \<Rightarrow> int \<Rightarrow> 's step \<Rightarrow> 's step" where
  "write_field P tn name t fid value =
     seq_step (with_text P (write_begin_error tn fid) (pWriteFieldBegin P name t fid))
       (seq_step value (with_text P (write_end_error tn fid) (pWriteFieldEnd P)))"

text \<open>A struct around its fields.\<close>

definition write_struct :: "'s proto \<Rightarrow> string \<Rightarrow> string \<Rightarrow> 's step \<Rightarrow> 's step" where
  "write_struct P tn name body =
     seq_step (with_text P (tn @ '' write struct begin error: '') (pWriteStructBegin P name))
       (seq_step body
         (seq_step (with_text P (tn @ '' write field stop error: '') (pWriteFieldStop P))
           (with_text P (tn @ '' write struct end error: '') (pWriteStructEnd P))))"

text \<open>
  Reading: the state of the protocol, the struct and the error; \<open>None\<close> is a call that does
  not return. A field whose value was read is set only when there was no error.
\<close>

type_synonym ('p, 's) preader = "'p \<Rightarrow> 's \<Rightarrow> ('s \<times> 'p \<times> go_error option) option"

type_synonym ('p, 's) pfield_table = "int \<Rightarrow> (int \<times> ('p, 's) preader) option"

definition read_value :: "('s \<Rightarrow> 's \<times> 'v result) \<Rightarrow> ('v \<Rightarrow> 'p \<Rightarrow> 'p) \<Rightarrow> ('p, 's) preader" where
  "read_value rd upd p s =
     (case rd s of (s1, Inl e) \<Rightarrow> Some (s1, p, Some e) | (s1, Inr v) \<Rightarrow> Some (s1, upd v p, None))"

definition read_struct_value :: "('a, 's) preader \<Rightarrow> 'a \<Rightarrow> ('a \<Rightarrow> 'p \<Rightarrow> 'p) \<Rightarrow> ('p, 's) preader" where
  "read_struct_value rd new upd p s =
     (case rd new s of
        None \<Rightarrow> None
      | Some (s1, v, Some e) \<Rightarrow> Some (s1, p, Some e)
      | Some (s1, v, None) \<Rightarrow> Some (s1, upd v p, None))"

definition pskip_field :: "'s proto \<Rightarrow> (int \<Rightarrow> int \<Rightarrow> string) \<Rightarrow> int \<Rightarrow> int \<Rightarrow> ('p, 's) preader" where
  "pskip_field P stxt ft fid p s =
     (case pSkip P ft s of (s1, e) \<Rightarrow> Some (s1, p, map_option (pPrependError P (stxt fid ft)) e))"

definition pread_or_skip ::
    "'s proto \<Rightarrow> string \<Rightarrow> (int \<Rightarrow> int \<Rightarrow> string) \<Rightarrow> (int \<Rightarrow> string) \<Rightarrow> ('p, 's) pfield_table \<Rightarrow>
     int \<Rightarrow> int \<Rightarrow> ('p, 's) preader" where
  "pread_or_skip P tn stxt names tbl ft fid p s =
     (case tbl fid of
        None \<Rightarrow> pskip_field P stxt ft fid p s
      | Some (t, rd) \<Rightarrow>
          if ft = t then
            (case rd p s of
               None \<Rightarrow> None
             | Some (s1, p1, e) \<Rightarrow>
                 Some (s1, p1, map_option (pPrependError P (field_error tn names fid)) e))
          else pskip_field P stxt ft fid p s)"

text \<open>The loop over the fields, up to the stop field and the end of the struct.\<close>

partial_function (option) read_fields ::
    "'s proto \<Rightarrow> string \<Rightarrow> (int \<Rightarrow> int \<Rightarrow> string) \<Rightarrow> (int \<Rightarrow> string) \<Rightarrow> ('p, 's) pfield_table \<Rightarrow>
     ('p, 's) preader" where
  "read_fields P tn stxt names tbl p s =
     (case pReadFieldBegin P s of
        (s1, ft, fid, Some e) \<Rightarrow> Some (s1, p, Some (pPrependError P (begin_error tn fid) e))
      | (s1, ft, fid, None) \<Rightarrow>
          if ft = STOP then
            (case pReadStructEnd P s1 of
               (s2, e) \<Rightarrow> Some (s2, p, map_option (pPrependError P (tn @ '' read struct end error: '')) e))
          else
            (case pread_or_skip P tn stxt names tbl ft fid p s1 of
               None \<Rightarrow> None
             | Some (s2, p1, Some e) \<Rightarrow> Some (s2, p1, Some e)
             | Some (s2, p1, None) \<Rightarrow>
                 (case pReadFieldEnd P s2 of
                    (s3, Some e) \<Rightarrow> Some (s3, p1, Some (pPrependError P (tn @ '' read field end error'') e))
                  | (s3, None) \<Rightarrow> read_fields P tn stxt names tbl p1 s3)))"

definition read_struct ::
    "'s proto \<Rightarrow> string \<Rightarrow> (int \<Rightarrow> int \<Rightarrow> string) \<Rightarrow> (int \<Rightarrow> string) \<Rightarrow> ('p, 's) pfield_table \<Rightarrow>
     ('p, 's) preader" where
  "read_struct P tn stxt names tbl p s =
     (case pReadStructBegin P s of
        (s1, Some e) \<Rightarrow> Some (s1, p, Some (pPrependError P (tn @ '' read struct begin error: '') e))
      | (s1, None) \<Rightarrow> read_fields P tn stxt names tbl p s1)"

section \<open>What is used of a protocol\<close>

text \<open>
  A protocol carries a sequence of tokens: \<open>toks\<close> gives the tokens of a state that are not
  read yet. Writing a token of a size the format allows appends it and does not fail;
  reading what is next takes it off; skipping a value takes the value off.
\<close>

datatype ptoken =
    TStructBegin | TStructEnd | TFieldBegin int int | TFieldEnd | TFieldStop
  | TStr string | TBin bytes | TI32 "32 word" | TBool bool

definition takes :: "('s \<Rightarrow> ptoken list) \<Rightarrow> ('s \<Rightarrow> 's \<times> 'x) \<Rightarrow> ptoken \<Rightarrow> 'x \<Rightarrow> bool" where
  "takes toks rd tk x \<longleftrightarrow> (\<forall>s ts. toks s = tk # ts \<longrightarrow> toks (fst (rd s)) = ts \<and> snd (rd s) = x)"

definition puts :: "('s \<Rightarrow> 'a list) \<Rightarrow> 's step \<Rightarrow> 'a list \<Rightarrow> bool" where
  "puts out wr xs \<longleftrightarrow> (\<forall>s. out (fst (wr s)) = out s @ xs \<and> snd (wr s) = None)"

definition head_ok :: "int \<Rightarrow> int \<Rightarrow> bool" where
  "head_ok t fid \<longleftrightarrow> t \<noteq> STOP \<and> 0 \<le> t \<and> t < 128 \<and> 0 \<le> fid \<and> fid < 32768"

definition proto_ok :: "'s proto \<Rightarrow> ('s \<Rightarrow> ptoken list) \<Rightarrow> bool" where
  "proto_ok P toks \<longleftrightarrow>
     takes toks (pReadStructBegin P) TStructBegin None \<and> takes toks (pReadStructEnd P) TStructEnd None \<and>
     (\<forall>t fid. head_ok t fid \<longrightarrow> takes toks (pReadFieldBegin P) (TFieldBegin t fid) (t, fid, None)) \<and>
     (\<exists>fid. takes toks (pReadFieldBegin P) TFieldStop (STOP, fid, None)) \<and>
     takes toks (pReadFieldEnd P) TFieldEnd None \<and>
     (\<forall>v. size_ok v \<longrightarrow> takes toks (pReadString P) (TStr v) (Inr v) \<and> takes toks (pSkip P STRING) (TStr v) None) \<and>
     (\<forall>v. size_ok v \<longrightarrow> takes toks (pReadBinary P) (TBin v) (Inr v) \<and> takes toks (pSkip P STRING) (TBin v) None) \<and>
     (\<forall>v. takes toks (pReadI32 P) (TI32 v) (Inr v) \<and> takes toks (pSkip P I32) (TI32 v) None) \<and>
     (\<forall>v. takes toks (pReadBool P) (TBool v) (Inr v) \<and> takes toks (pSkip P BOOL) (TBool v) None) \<and>
     (\<forall>n. puts toks (pWriteStructBegin P n) [TStructBegin]) \<and> puts toks (pWriteStructEnd P) [TStructEnd] \<and>
     (\<forall>n t fid. head_ok t fid \<longrightarrow> puts toks (pWriteFieldBegin P n t fid) [TFieldBegin t fid]) \<and>
     puts toks (pWriteFieldEnd P) [TFieldEnd] \<and> puts toks (pWriteFieldStop P) [TFieldStop] \<and>
     (\<forall>v. size_ok v \<longrightarrow> puts toks (pWriteString P v) [TStr v]) \<and>
     (\<forall>v. size_ok v \<longrightarrow> puts toks (pWriteBinary P v) [TBin v]) \<and>
     (\<forall>v. puts toks (pWriteI32 P v) [TI32 v]) \<and> (\<forall>v. puts toks (pWriteBool P v) [TBool v])"

lemma head_ok_struct: "head_ok STRUCT 0" "head_ok STRUCT 1"
  by (simp_all add: head_ok_def ttypes)

lemma takesD:
  assumes "takes toks rd tk x" and "toks s = tk # ts"
  shows "\<exists>s1. rd s = (s1, x) \<and> toks s1 = ts"
proof -
  have "toks (fst (rd s)) = ts" "snd (rd s) = x" using assms unfolding takes_def by blast+
  then show ?thesis by (metis prod.collapse)
qed

lemma proto_okD:
  assumes "proto_ok P toks"
  shows "takes toks (pReadStructBegin P) TStructBegin None" "takes toks (pReadStructEnd P) TStructEnd None"
    and "head_ok t fid \<Longrightarrow> takes toks (pReadFieldBegin P) (TFieldBegin t fid) (t, fid, None)"
    and "takes toks (pReadFieldEnd P) TFieldEnd None"
    and "size_ok v \<Longrightarrow> takes toks (pReadString P) (TStr v) (Inr v)"
    and "size_ok v \<Longrightarrow> takes toks (pReadBinary P) (TBin v) (Inr v)"
    and "takes toks (pReadI32 P) (TI32 i) (Inr i)" and "takes toks (pReadBool P) (TBool b) (Inr b)"
    and "size_ok v \<Longrightarrow> takes toks (pSkip P STRING) (TStr v) None"
    and "\<exists>fid. takes toks (pReadFieldBegin P) TFieldStop (STOP, fid, None)"
  using assms unfolding proto_ok_def by blast+

lemma proto_ok_puts [intro]:
  assumes "proto_ok P toks"
  shows "puts toks (pWriteStructBegin P n) [TStructBegin]" "puts toks (pWriteStructEnd P) [TStructEnd]"
    and "head_ok t fid \<Longrightarrow> puts toks (pWriteFieldBegin P n t fid) [TFieldBegin t fid]"
    and "puts toks (pWriteFieldEnd P) [TFieldEnd]" "puts toks (pWriteFieldStop P) [TFieldStop]"
    and "size_ok v \<Longrightarrow> puts toks (pWriteString P v) [TStr v]" "size_ok v \<Longrightarrow> puts toks (pWriteBinary P v) [TBin v]"
    and "puts toks (pWriteI32 P i) [TI32 i]" "puts toks (pWriteBool P b) [TBool b]"
  using assms unfolding proto_ok_def by blast+

section \<open>Writing puts the tokens\<close>

lemma puts_skip: "puts toks skip_step []"
  by (simp add: puts_def skip_step_def)

lemma puts_seq: "puts toks f xs \<Longrightarrow> puts toks g ys \<Longrightarrow> puts toks (seq_step f g) (xs @ ys)"
  unfolding puts_def seq_step_def by (metis (no_types, lifting) append_assoc case_prod_beta option.simps(4))

lemma puts_text: "puts toks f xs \<Longrightarrow> puts toks (with_text P etext f) xs"
  unfolding puts_def with_text_def by (simp add: case_prod_beta)

text \<open>The tokens of a field and of a struct.\<close>

fun field_toks :: "int \<times> int \<times> ptoken list \<Rightarrow> ptoken list" where
  "field_toks (fid, t, v) = TFieldBegin t fid # v @ [TFieldEnd]"

definition struct_toks :: "(int \<times> int \<times> ptoken list) list \<Rightarrow> ptoken list" where
  "struct_toks fs = TStructBegin # concat (map field_toks fs) @ [TFieldStop, TStructEnd]"

lemma puts_field:
  assumes "proto_ok P toks" and "head_ok t fid" and "puts toks value v"
  shows "puts toks (write_field P tn name t fid value) (field_toks (fid, t, v))"
  using puts_seq [OF puts_text [OF proto_ok_puts(3) [OF assms(1,2), of name], where P = P and etext = "write_begin_error tn fid"]
      puts_seq [OF assms(3) puts_text [OF proto_ok_puts(4) [OF assms(1)], where P = P and etext = "write_end_error tn fid"]]]
  by (simp add: write_field_def)

lemma puts_struct:
  assumes "proto_ok P toks" and "puts toks body (concat (map field_toks fs))"
  shows "puts toks (write_struct P tn name body) (struct_toks fs)"
  using puts_seq [OF puts_text [OF proto_ok_puts(1) [OF assms(1), of name], where P = P and etext = "tn @ '' write struct begin error: ''"]
      puts_seq [OF assms(2) puts_seq [OF
        puts_text [OF proto_ok_puts(5) [OF assms(1)], where P = P and etext = "tn @ '' write field stop error: ''"]
        puts_text [OF proto_ok_puts(2) [OF assms(1)], where P = P and etext = "tn @ '' write struct end error: ''"]]]]
  by (simp add: write_struct_def struct_toks_def)

section \<open>Reading the tokens\<close>

text \<open>A reader that takes the tokens of a value off and updates the struct.\<close>

definition reads :: "('s \<Rightarrow> ptoken list) \<Rightarrow> ('p, 's) preader \<Rightarrow> ptoken list \<Rightarrow> ('p \<Rightarrow> 'p) \<Rightarrow> bool" where
  "reads toks rd v f \<longleftrightarrow>
     (\<forall>p s ts. toks s = v @ ts \<longrightarrow> (\<exists>s1. rd p s = Some (s1, f p, None) \<and> toks s1 = ts))"

lemma readsD:
  "reads toks rd v f \<Longrightarrow> toks s = v @ ts \<Longrightarrow> f p = x \<Longrightarrow> \<exists>s1. rd p s = Some (s1, x, None) \<and> toks s1 = ts"
  unfolding reads_def by blast

lemma reads_value:
  assumes "takes toks rd tk (Inr v)"
  shows "reads toks (read_value rd upd) [tk] (upd v)"
  unfolding reads_def
proof (intro allI impI)
  fix p s ts
  assume "toks s = [tk] @ ts"
  then obtain s1 where "rd s = (s1, Inr v)" "toks s1 = ts" using takesD [OF assms] by fastforce
  then show "\<exists>s1. read_value rd upd p s = Some (s1, upd v p, None) \<and> toks s1 = ts"
    by (simp add: read_value_def)
qed

lemma reads_struct_value:
  assumes "\<And>s ts. toks s = v @ ts \<Longrightarrow> \<exists>s1. rd new s = Some (s1, x, None) \<and> toks s1 = ts"
  shows "reads toks (read_struct_value rd new upd) v (upd x)"
  unfolding reads_def
proof (intro allI impI)
  fix p s ts
  assume "toks s = v @ ts"
  then obtain s1 where "rd new s = Some (s1, x, None)" "toks s1 = ts" using assms by blast
  then show "\<exists>s1. read_struct_value rd new upd p s = Some (s1, upd x p, None) \<and> toks s1 = ts"
    by (simp add: read_struct_value_def)
qed

lemma reads_table:
  assumes "tbl fid = Some (t, rd)" and r: "reads toks rd v f"
  shows "reads toks (pread_or_skip P tn stxt names tbl t fid) v f"
  unfolding reads_def
proof (intro allI impI)
  fix p s ts
  assume "toks s = v @ ts"
  then obtain s1 where "rd p s = Some (s1, f p, None)" "toks s1 = ts" using r unfolding reads_def by blast
  then show "\<exists>s1. pread_or_skip P tn stxt names tbl t fid p s = Some (s1, f p, None) \<and> toks s1 = ts"
    using assms(1) by (simp add: pread_or_skip_def)
qed

lemma read_fields_toks:
  assumes P: "proto_ok P toks"
    and fs: "list_all (\<lambda>(fid, t, v, f). head_ok t fid \<and> reads toks (pread_or_skip P tn stxt names tbl t fid) v f) fs"
    and s: "toks s = concat (map (\<lambda>(fid, t, v, f). field_toks (fid, t, v)) fs) @ TFieldStop # TStructEnd # ts"
  shows "\<exists>s1. read_fields P tn stxt names tbl p s = Some (s1, fold (\<lambda>(fid, t, v, f). f) fs p, None) \<and> toks s1 = ts"
  using fs s
proof (induction fs arbitrary: p s)
  case Nil
  obtain fid where st: "takes toks (pReadFieldBegin P) TFieldStop (STOP, fid, None)" using proto_okD(10) [OF P] by blast
  obtain s1 where s1: "pReadFieldBegin P s = (s1, STOP, fid, None)" "toks s1 = TStructEnd # ts"
    using takesD [OF st, of s] Nil by auto
  obtain s2 where "pReadStructEnd P s1 = (s2, None)" "toks s2 = ts"
    using takesD [OF proto_okD(2) [OF P] s1(2)] by blast
  with s1 show ?case by (subst read_fields.simps) simp
next
  case (Cons x fs)
  obtain fid t v f where x: "x = (fid, t, v, f)" by (metis surj_pair)
  let ?r = "concat (map (\<lambda>(fid, t, v, f). field_toks (fid, t, v)) fs) @ TFieldStop # TStructEnd # ts"
  have t: "head_ok t fid" and r: "reads toks (pread_or_skip P tn stxt names tbl t fid) v f" using Cons.prems x by auto
  have s: "toks s = TFieldBegin t fid # v @ TFieldEnd # ?r" using Cons.prems(2) x by simp
  obtain s1 where s1: "pReadFieldBegin P s = (s1, t, fid, None)" "toks s1 = v @ TFieldEnd # ?r"
    using takesD [OF proto_okD(3) [OF P t] s] by blast
  obtain s2 where s2: "pread_or_skip P tn stxt names tbl t fid p s1 = Some (s2, f p, None)" "toks s2 = TFieldEnd # ?r"
    using r s1(2) unfolding reads_def by blast
  obtain s3 where s3: "pReadFieldEnd P s2 = (s3, None)" "toks s3 = ?r"
    using takesD [OF proto_okD(4) [OF P] s2(2)] by blast
  have "read_fields P tn stxt names tbl p s = read_fields P tn stxt names tbl (f p) s3"
    using s1 s2 s3 t unfolding head_ok_def by (subst read_fields.simps) simp
  with Cons.IH [OF _ s3(2), of "f p"] Cons.prems(1) x show ?case by simp
qed

lemma read_struct_toks:
  assumes P: "proto_ok P toks"
    and fs: "list_all (\<lambda>(fid, t, v, f). head_ok t fid \<and> reads toks (pread_or_skip P tn stxt names tbl t fid) v f) fs"
  shows "reads toks (read_struct P tn stxt names tbl) (struct_toks (map (\<lambda>(fid, t, v, f). (fid, t, v)) fs))
     (fold (\<lambda>(fid, t, v, f). f) fs)"
  unfolding reads_def
proof (intro allI impI)
  fix p s ts
  assume "toks s = struct_toks (map (\<lambda>(fid, t, v, f). (fid, t, v)) fs) @ ts"
  then have s: "toks s = TStructBegin # concat (map (\<lambda>(fid, t, v, f). field_toks (fid, t, v)) fs) @ TFieldStop # TStructEnd # ts"
    by (simp add: struct_toks_def comp_def case_prod_beta')
  obtain s1 where s1: "pReadStructBegin P s = (s1, None)"
    "toks s1 = concat (map (\<lambda>(fid, t, v, f). field_toks (fid, t, v)) fs) @ TFieldStop # TStructEnd # ts"
    using takesD [OF proto_okD(1) [OF P] s] by blast
  with read_fields_toks [OF P fs s1(2), of p]
  show "\<exists>s1. read_struct P tn stxt names tbl p s = Some (s1, fold (\<lambda>(fid, t, v, f). f) fs p, None) \<and> toks s1 = ts"
    by (simp add: read_struct_def)
qed

section \<open>The contract of a struct\<close>

text \<open>
  What the generated methods of a struct promise over every protocol that behaves: writing
  puts the tokens of the struct, reading them into a fresh struct gives the struct back
  and takes exactly those tokens.
\<close>

locale proto_codec =
  fixes wr :: "'s proto \<Rightarrow> 'p option \<Rightarrow> 's step"
    and rd :: "'s proto \<Rightarrow> ('p, 's) preader"
    and new :: 'p
    and toks_of :: "'p \<Rightarrow> ptoken list"
    and ok :: "'p \<Rightarrow> bool"
  assumes puts_wr: "proto_ok P toks \<Longrightarrow> ok p \<Longrightarrow> puts toks (wr P (Some p)) (toks_of p)"
    and reads_new: "proto_ok P toks \<Longrightarrow> ok p \<Longrightarrow> toks s = toks_of p @ ts \<Longrightarrow>
      \<exists>s1. rd P new s = Some (s1, p, None) \<and> toks s1 = ts"
begin

lemma written_is_read:
  assumes P: "proto_ok P toks" and p: "ok p" and e: "toks s = []"
  shows "\<exists>s1 s2. wr P (Some p) s = (s1, None) \<and> rd P new s1 = Some (s2, p, None) \<and> toks s2 = []"
proof -
  have "toks (fst (wr P (Some p) s)) = toks_of p @ []" "snd (wr P (Some p) s) = None"
    using puts_wr [OF P p] e unfolding puts_def by auto
  then show ?thesis using reads_new [OF P p] by (metis prod.collapse)
qed

text \<open>The struct inside the argument or the result struct of a method.\<close>

lemma arg_puts:
  assumes "proto_ok P toks" and "ok q" and "head_ok STRUCT fid"
  shows "puts toks (write_struct P tn n (with_text P etext (write_field P tn fname STRUCT fid (wr P (Some q)))))
     (struct_toks [(fid, STRUCT, toks_of q)])"
  using puts_struct [OF assms(1), of _ "[(fid, STRUCT, toks_of q)]"]
    puts_text [OF puts_field [OF assms(1,3) puts_wr [OF assms(1,2)]]] by simp

lemma arg_reads:
  assumes "proto_ok P toks" and "ok q" and "head_ok STRUCT fid"
  shows "reads toks (read_struct P tn stxt names
      (\<lambda>i. if i = fid then Some (STRUCT, read_struct_value (rd P) new upd) else None))
    (struct_toks [(fid, STRUCT, toks_of q)]) (upd q)"
proof -
  have "reads toks (read_struct_value (rd P) new upd) (toks_of q) (upd q)"
    by (rule reads_struct_value) (rule reads_new [OF assms(1,2)])
  then have "reads toks (pread_or_skip P tn stxt names
      (\<lambda>i. if i = fid then Some (STRUCT, read_struct_value (rd P) new upd) else None) STRUCT fid)
      (toks_of q) (upd q)"
    by (intro reads_table) simp_all
  then show ?thesis
    using read_struct_toks [OF assms(1), of tn stxt names
        "\<lambda>i. if i = fid then Some (STRUCT, read_struct_value (rd P) new upd) else None"
        "[(fid, STRUCT, toks_of q, upd q)]"]
    assms(3) by simp
qed

end

section \<open>The bytes of the two codecs\<close>

text \<open>
  A protocol with the wire format of the fast codec: \<open>out\<close> is what was written so far, and
  each operation adds the bytes of the corresponding primitive; the marks of a struct and
  the end of a field add nothing.
\<close>

definition same_wire :: "'s proto \<Rightarrow> thrift \<Rightarrow> ('s \<Rightarrow> bytes) \<Rightarrow> bool" where
  "same_wire P T out \<longleftrightarrow>
     (\<forall>n. puts out (pWriteStructBegin P n) []) \<and> puts out (pWriteStructEnd P) [] \<and>
     (\<forall>n t fid. head_ok t fid \<longrightarrow> puts out (pWriteFieldBegin P n t fid) (tWriteFieldBegin T t fid)) \<and>
     puts out (pWriteFieldEnd P) [] \<and> puts out (pWriteFieldStop P) (tWriteFieldStop T) \<and>
     (\<forall>v. size_ok v \<longrightarrow> puts out (pWriteString P v) (tWriteString T v)) \<and>
     (\<forall>v. size_ok v \<longrightarrow> puts out (pWriteBinary P v) (tWriteBinary T v)) \<and>
     (\<forall>v. puts out (pWriteI32 P v) (tWriteI32 T v)) \<and> (\<forall>v. puts out (pWriteBool P v) (tWriteBool T v))"

lemma same_wireD:
  assumes "same_wire P T out"
  shows "puts out (pWriteStructBegin P n) []" "puts out (pWriteStructEnd P) []"
    and "head_ok t fid \<Longrightarrow> puts out (pWriteFieldBegin P n t fid) (tWriteFieldBegin T t fid)"
    and "puts out (pWriteFieldEnd P) []" "puts out (pWriteFieldStop P) (tWriteFieldStop T)"
    and "size_ok v \<Longrightarrow> puts out (pWriteString P v) (tWriteString T v)"
    and "size_ok v \<Longrightarrow> puts out (pWriteBinary P v) (tWriteBinary T v)"
    and "puts out (pWriteI32 P i) (tWriteI32 T i)" "puts out (pWriteBool P b) (tWriteBool T b)"
  using assms unfolding same_wire_def by blast+

lemma wire_field:
  assumes "same_wire P T out" and "head_ok t fid" and "puts out value b"
  shows "puts out (write_field P tn name t fid value) (tWriteFieldBegin T t fid @ b)"
  using puts_seq [OF puts_text [OF same_wireD(3) [OF assms(1,2), of name], of P "write_begin_error tn fid"]
      puts_seq [OF assms(3) puts_text [OF same_wireD(4) [OF assms(1)], of P "write_end_error tn fid"]]]
  by (simp add: write_field_def)

lemma wire_struct:
  assumes "same_wire P T out" and "puts out body b"
  shows "puts out (write_struct P tn name body) (b @ tWriteFieldStop T)"
  using puts_seq [OF puts_text [OF same_wireD(1) [OF assms(1), of name], of P "tn @ '' write struct begin error: ''"]
      puts_seq [OF assms(2) puts_seq [OF
        puts_text [OF same_wireD(5) [OF assms(1)], of P "tn @ '' write field stop error: ''"]
        puts_text [OF same_wireD(2) [OF assms(1)], of P "tn @ '' write struct end error: ''"]]]]
  by (simp add: write_struct_def)

section \<open>Pointers\<close>

text \<open>
  The comparison of two struct pointers, a flag here, fits the structs: the same pointer is
  the same struct, and nil is nil.
\<close>

definition ptrs_ok :: "bool \<Rightarrow> 'p option \<Rightarrow> 'p option \<Rightarrow> bool" where
  "ptrs_ok same p q \<longleftrightarrow> (same \<longrightarrow> p = q) \<and> (p = None \<longrightarrow> q = None \<longrightarrow> same)"

end
