(* ===== verification/KitexProto.thy ===== *)
theory KitexProto
  imports ThriftProto KitexApi
begin

text \<open>
  The methods \<^verbatim>\<open>Read\<close>, \<^verbatim>\<open>Write\<close> and their field methods, and \<^verbatim>\<open>DeepEqual\<close>, of every generated
  rpc struct (\<^verbatim>\<open>kitex_gen/im/rpc/api.go\<close>). A nil struct pointer is \<open>None\<close>. In
  \<^verbatim>\<open>DeepEqual\<close> the flag \<open>same\<close> says whether the two pointers are the same.
\<close>

section \<open>Request\<close>

definition Request_ReadField1 :: "'s proto \<Rightarrow> (rpc_request, 's) preader" where
  "Request_ReadField1 P = read_value (pReadString P) (\<lambda>v p. p\<lparr>rqMessage := v\<rparr>)"

definition Request_writeField1 :: "'s proto \<Rightarrow> rpc_request \<Rightarrow> 's step" where
  "Request_writeField1 P p =
     write_field P ''*rpc.Request'' ''message'' STRING 1 (pWriteString P (rqMessage p))"

definition Request_Field1DeepEqual :: "rpc_request \<Rightarrow> string \<Rightarrow> bool" where
  "Request_Field1DeepEqual p src = (if rqMessage p \<noteq> src then False else True)"

definition Request_Read :: "'s proto \<Rightarrow> (rpc_request, 's) preader" where
  "Request_Read P =
     read_struct P ''*rpc.Request'' (skip_error ''*rpc.Request'') fieldIDToName_Request (\<lambda>fid.
      if fid = 1 then Some (STRING, Request_ReadField1 P) else None)"

definition Request_Write :: "'s proto \<Rightarrow> rpc_request option \<Rightarrow> 's step" where
  "Request_Write P q =
     write_struct P ''*rpc.Request'' ''Request''
       (case q of
          None \<Rightarrow> skip_step
        | Some p \<Rightarrow> with_text P (write_field_error ''*rpc.Request'' 1) (Request_writeField1 P p))"

definition Request_DeepEqual :: "bool \<Rightarrow> rpc_request option \<Rightarrow> rpc_request option \<Rightarrow> bool" where
  "Request_DeepEqual same q ano =
     (if same then True
      else
        case (q, ano) of
          (Some p, Some a) \<Rightarrow>
            (if \<not> Request_Field1DeepEqual p (rqMessage a) then False
             else True)
        | _ \<Rightarrow> False)"

section \<open>Response\<close>

definition Response_ReadField1 :: "'s proto \<Rightarrow> (rpc_response, 's) preader" where
  "Response_ReadField1 P = read_value (pReadString P) (\<lambda>v p. p\<lparr>rsMessage := v\<rparr>)"

definition Response_writeField1 :: "'s proto \<Rightarrow> rpc_response \<Rightarrow> 's step" where
  "Response_writeField1 P p =
     write_field P ''*rpc.Response'' ''message'' STRING 1 (pWriteString P (rsMessage p))"

definition Response_Field1DeepEqual :: "rpc_response \<Rightarrow> string \<Rightarrow> bool" where
  "Response_Field1DeepEqual p src = (if rsMessage p \<noteq> src then False else True)"

definition Response_Read :: "'s proto \<Rightarrow> (rpc_response, 's) preader" where
  "Response_Read P =
     read_struct P ''*rpc.Response'' (skip_error ''*rpc.Response'') fieldIDToName_Response (\<lambda>fid.
      if fid = 1 then Some (STRING, Response_ReadField1 P) else None)"

definition Response_Write :: "'s proto \<Rightarrow> rpc_response option \<Rightarrow> 's step" where
  "Response_Write P q =
     write_struct P ''*rpc.Response'' ''Response''
       (case q of
          None \<Rightarrow> skip_step
        | Some p \<Rightarrow> with_text P (write_field_error ''*rpc.Response'' 1) (Response_writeField1 P p))"

definition Response_DeepEqual :: "bool \<Rightarrow> rpc_response option \<Rightarrow> rpc_response option \<Rightarrow> bool" where
  "Response_DeepEqual same q ano =
     (if same then True
      else
        case (q, ano) of
          (Some p, Some a) \<Rightarrow>
            (if \<not> Response_Field1DeepEqual p (rsMessage a) then False
             else True)
        | _ \<Rightarrow> False)"

section \<open>SendMsgReq\<close>

definition SendMsgReq_ReadField1 :: "'s proto \<Rightarrow> (send_msg_req, 's) preader" where
  "SendMsgReq_ReadField1 P = read_value (pReadString P) (\<lambda>v p. p\<lparr>smqUid := v\<rparr>)"

definition SendMsgReq_writeField1 :: "'s proto \<Rightarrow> send_msg_req \<Rightarrow> 's step" where
  "SendMsgReq_writeField1 P p =
     write_field P ''*rpc.SendMsgReq'' ''uid'' STRING 1 (pWriteString P (smqUid p))"

definition SendMsgReq_Field1DeepEqual :: "send_msg_req \<Rightarrow> string \<Rightarrow> bool" where
  "SendMsgReq_Field1DeepEqual p src = (if smqUid p \<noteq> src then False else True)"

definition SendMsgReq_ReadField2 :: "'s proto \<Rightarrow> (send_msg_req, 's) preader" where
  "SendMsgReq_ReadField2 P = read_value (pReadBinary P) (\<lambda>v p. p\<lparr>smqMsg := v\<rparr>)"

definition SendMsgReq_writeField2 :: "'s proto \<Rightarrow> send_msg_req \<Rightarrow> 's step" where
  "SendMsgReq_writeField2 P p =
     write_field P ''*rpc.SendMsgReq'' ''msg'' STRING 2 (pWriteBinary P (smqMsg p))"

definition SendMsgReq_Field2DeepEqual :: "send_msg_req \<Rightarrow> bytes \<Rightarrow> bool" where
  "SendMsgReq_Field2DeepEqual p src = (if smqMsg p \<noteq> src then False else True)"

definition SendMsgReq_Read :: "'s proto \<Rightarrow> (send_msg_req, 's) preader" where
  "SendMsgReq_Read P =
     read_struct P ''*rpc.SendMsgReq'' (skip_error ''*rpc.SendMsgReq'') fieldIDToName_SendMsgReq (\<lambda>fid.
      if fid = 1 then Some (STRING, SendMsgReq_ReadField1 P) else if fid = 2 then Some (STRING, SendMsgReq_ReadField2 P) else None)"

definition SendMsgReq_Write :: "'s proto \<Rightarrow> send_msg_req option \<Rightarrow> 's step" where
  "SendMsgReq_Write P q =
     write_struct P ''*rpc.SendMsgReq'' ''SendMsgReq''
       (case q of
          None \<Rightarrow> skip_step
        | Some p \<Rightarrow> seq_step (with_text P (write_field_error ''*rpc.SendMsgReq'' 1) (SendMsgReq_writeField1 P p))
            (with_text P (write_field_error ''*rpc.SendMsgReq'' 2) (SendMsgReq_writeField2 P p)))"

definition SendMsgReq_DeepEqual :: "bool \<Rightarrow> send_msg_req option \<Rightarrow> send_msg_req option \<Rightarrow> bool" where
  "SendMsgReq_DeepEqual same q ano =
     (if same then True
      else
        case (q, ano) of
          (Some p, Some a) \<Rightarrow>
            (if \<not> SendMsgReq_Field1DeepEqual p (smqUid a) then False
             else if \<not> SendMsgReq_Field2DeepEqual p (smqMsg a) then False
             else True)
        | _ \<Rightarrow> False)"

section \<open>SendMsgRsp\<close>

definition SendMsgRsp_ReadField1 :: "'s proto \<Rightarrow> (send_msg_rsp, 's) preader" where
  "SendMsgRsp_ReadField1 P = read_value (pReadI32 P) (\<lambda>v p. p\<lparr>smrRetCode := v\<rparr>)"

definition SendMsgRsp_writeField1 :: "'s proto \<Rightarrow> send_msg_rsp \<Rightarrow> 's step" where
  "SendMsgRsp_writeField1 P p =
     write_field P ''*rpc.SendMsgRsp'' ''retCode'' I32 1 (pWriteI32 P (smrRetCode p))"

definition SendMsgRsp_Field1DeepEqual :: "send_msg_rsp \<Rightarrow> 32 word \<Rightarrow> bool" where
  "SendMsgRsp_Field1DeepEqual p src = (if smrRetCode p \<noteq> src then False else True)"

definition SendMsgRsp_Read :: "'s proto \<Rightarrow> (send_msg_rsp, 's) preader" where
  "SendMsgRsp_Read P =
     read_struct P ''*rpc.SendMsgRsp'' (skip_error ''*rpc.SendMsgRsp'') fieldIDToName_SendMsgRsp (\<lambda>fid.
      if fid = 1 then Some (I32, SendMsgRsp_ReadField1 P) else None)"

definition SendMsgRsp_Write :: "'s proto \<Rightarrow> send_msg_rsp option \<Rightarrow> 's step" where
  "SendMsgRsp_Write P q =
     write_struct P ''*rpc.SendMsgRsp'' ''SendMsgRsp''
       (case q of
          None \<Rightarrow> skip_step
        | Some p \<Rightarrow> with_text P (write_field_error ''*rpc.SendMsgRsp'' 1) (SendMsgRsp_writeField1 P p))"

definition SendMsgRsp_DeepEqual :: "bool \<Rightarrow> send_msg_rsp option \<Rightarrow> send_msg_rsp option \<Rightarrow> bool" where
  "SendMsgRsp_DeepEqual same q ano =
     (if same then True
      else
        case (q, ano) of
          (Some p, Some a) \<Rightarrow>
            (if \<not> SendMsgRsp_Field1DeepEqual p (smrRetCode a) then False
             else True)
        | _ \<Rightarrow> False)"

section \<open>SendMsgByTgidReq\<close>

definition SendMsgByTgidReq_ReadField1 :: "'s proto \<Rightarrow> (send_msg_by_tgid_req, 's) preader" where
  "SendMsgByTgidReq_ReadField1 P = read_value (pReadString P) (\<lambda>v p. p\<lparr>sbtUid := v\<rparr>)"

definition SendMsgByTgidReq_writeField1 :: "'s proto \<Rightarrow> send_msg_by_tgid_req \<Rightarrow> 's step" where
  "SendMsgByTgidReq_writeField1 P p =
     write_field P ''*rpc.SendMsgByTgidReq'' ''uid'' STRING 1 (pWriteString P (sbtUid p))"

definition SendMsgByTgidReq_Field1DeepEqual :: "send_msg_by_tgid_req \<Rightarrow> string \<Rightarrow> bool" where
  "SendMsgByTgidReq_Field1DeepEqual p src = (if sbtUid p \<noteq> src then False else True)"

definition SendMsgByTgidReq_ReadField2 :: "'s proto \<Rightarrow> (send_msg_by_tgid_req, 's) preader" where
  "SendMsgByTgidReq_ReadField2 P = read_value (pReadString P) (\<lambda>v p. p\<lparr>sbtTgid := v\<rparr>)"

definition SendMsgByTgidReq_writeField2 :: "'s proto \<Rightarrow> send_msg_by_tgid_req \<Rightarrow> 's step" where
  "SendMsgByTgidReq_writeField2 P p =
     write_field P ''*rpc.SendMsgByTgidReq'' ''tgid'' STRING 2 (pWriteString P (sbtTgid p))"

definition SendMsgByTgidReq_Field2DeepEqual :: "send_msg_by_tgid_req \<Rightarrow> string \<Rightarrow> bool" where
  "SendMsgByTgidReq_Field2DeepEqual p src = (if sbtTgid p \<noteq> src then False else True)"

definition SendMsgByTgidReq_ReadField3 :: "'s proto \<Rightarrow> (send_msg_by_tgid_req, 's) preader" where
  "SendMsgByTgidReq_ReadField3 P = read_value (pReadBinary P) (\<lambda>v p. p\<lparr>sbtMsg := v\<rparr>)"

definition SendMsgByTgidReq_writeField3 :: "'s proto \<Rightarrow> send_msg_by_tgid_req \<Rightarrow> 's step" where
  "SendMsgByTgidReq_writeField3 P p =
     write_field P ''*rpc.SendMsgByTgidReq'' ''msg'' STRING 3 (pWriteBinary P (sbtMsg p))"

definition SendMsgByTgidReq_Field3DeepEqual :: "send_msg_by_tgid_req \<Rightarrow> bytes \<Rightarrow> bool" where
  "SendMsgByTgidReq_Field3DeepEqual p src = (if sbtMsg p \<noteq> src then False else True)"

definition SendMsgByTgidReq_Read :: "'s proto \<Rightarrow> (send_msg_by_tgid_req, 's) preader" where
  "SendMsgByTgidReq_Read P =
     read_struct P ''*rpc.SendMsgByTgidReq'' (skip_error ''*rpc.SendMsgByTgidReq'') fieldIDToName_SendMsgByTgidReq (\<lambda>fid.
      if fid = 1 then Some (STRING, SendMsgByTgidReq_ReadField1 P) else if fid = 2 then Some (STRING, SendMsgByTgidReq_ReadField2 P) else if fid = 3 then Some (STRING, SendMsgByTgidReq_ReadField3 P) else None)"

definition SendMsgByTgidReq_Write :: "'s proto \<Rightarrow> send_msg_by_tgid_req option \<Rightarrow> 's step" where
  "SendMsgByTgidReq_Write P q =
     write_struct P ''*rpc.SendMsgByTgidReq'' ''SendMsgByTgidReq''
       (case q of
          None \<Rightarrow> skip_step
        | Some p \<Rightarrow> seq_step (with_text P (write_field_error ''*rpc.SendMsgByTgidReq'' 1) (SendMsgByTgidReq_writeField1 P p))
            (seq_step (with_text P (write_field_error ''*rpc.SendMsgByTgidReq'' 2) (SendMsgByTgidReq_writeField2 P p))
            (with_text P (write_field_error ''*rpc.SendMsgByTgidReq'' 3) (SendMsgByTgidReq_writeField3 P p))))"

definition SendMsgByTgidReq_DeepEqual :: "bool \<Rightarrow> send_msg_by_tgid_req option \<Rightarrow> send_msg_by_tgid_req option \<Rightarrow> bool" where
  "SendMsgByTgidReq_DeepEqual same q ano =
     (if same then True
      else
        case (q, ano) of
          (Some p, Some a) \<Rightarrow>
            (if \<not> SendMsgByTgidReq_Field1DeepEqual p (sbtUid a) then False
             else if \<not> SendMsgByTgidReq_Field2DeepEqual p (sbtTgid a) then False
             else if \<not> SendMsgByTgidReq_Field3DeepEqual p (sbtMsg a) then False
             else True)
        | _ \<Rightarrow> False)"

section \<open>UserIdReq\<close>

definition UserIdReq_ReadField1 :: "'s proto \<Rightarrow> (user_id_req, 's) preader" where
  "UserIdReq_ReadField1 P = read_value (pReadString P) (\<lambda>v p. p\<lparr>uirUid := v\<rparr>)"

definition UserIdReq_writeField1 :: "'s proto \<Rightarrow> user_id_req \<Rightarrow> 's step" where
  "UserIdReq_writeField1 P p =
     write_field P ''*rpc.UserIdReq'' ''uid'' STRING 1 (pWriteString P (uirUid p))"

definition UserIdReq_Field1DeepEqual :: "user_id_req \<Rightarrow> string \<Rightarrow> bool" where
  "UserIdReq_Field1DeepEqual p src = (if uirUid p \<noteq> src then False else True)"

definition UserIdReq_Read :: "'s proto \<Rightarrow> (user_id_req, 's) preader" where
  "UserIdReq_Read P =
     read_struct P ''*rpc.UserIdReq'' (skip_error ''*rpc.UserIdReq'') fieldIDToName_UserIdReq (\<lambda>fid.
      if fid = 1 then Some (STRING, UserIdReq_ReadField1 P) else None)"

definition UserIdReq_Write :: "'s proto \<Rightarrow> user_id_req option \<Rightarrow> 's step" where
  "UserIdReq_Write P q =
     write_struct P ''*rpc.UserIdReq'' ''UserIdReq''
       (case q of
          None \<Rightarrow> skip_step
        | Some p \<Rightarrow> with_text P (write_field_error ''*rpc.UserIdReq'' 1) (UserIdReq_writeField1 P p))"

definition UserIdReq_DeepEqual :: "bool \<Rightarrow> user_id_req option \<Rightarrow> user_id_req option \<Rightarrow> bool" where
  "UserIdReq_DeepEqual same q ano =
     (if same then True
      else
        case (q, ano) of
          (Some p, Some a) \<Rightarrow>
            (if \<not> UserIdReq_Field1DeepEqual p (uirUid a) then False
             else True)
        | _ \<Rightarrow> False)"

section \<open>StopUserClientRsp\<close>

definition StopUserClientRsp_ReadField1 :: "'s proto \<Rightarrow> (stop_user_client_rsp, 's) preader" where
  "StopUserClientRsp_ReadField1 P = read_value (pReadBool P) (\<lambda>v p. p\<lparr>sucRes := v\<rparr>)"

definition StopUserClientRsp_writeField1 :: "'s proto \<Rightarrow> stop_user_client_rsp \<Rightarrow> 's step" where
  "StopUserClientRsp_writeField1 P p =
     write_field P ''*rpc.StopUserClientRsp'' ''res'' BOOL 1 (pWriteBool P (sucRes p))"

definition StopUserClientRsp_Field1DeepEqual :: "stop_user_client_rsp \<Rightarrow> bool \<Rightarrow> bool" where
  "StopUserClientRsp_Field1DeepEqual p src = (if sucRes p \<noteq> src then False else True)"

definition StopUserClientRsp_Read :: "'s proto \<Rightarrow> (stop_user_client_rsp, 's) preader" where
  "StopUserClientRsp_Read P =
     read_struct P ''*rpc.StopUserClientRsp'' (skip_error ''*rpc.StopUserClientRsp'') fieldIDToName_StopUserClientRsp (\<lambda>fid.
      if fid = 1 then Some (BOOL, StopUserClientRsp_ReadField1 P) else None)"

definition StopUserClientRsp_Write :: "'s proto \<Rightarrow> stop_user_client_rsp option \<Rightarrow> 's step" where
  "StopUserClientRsp_Write P q =
     write_struct P ''*rpc.StopUserClientRsp'' ''StopUserClientRsp''
       (case q of
          None \<Rightarrow> skip_step
        | Some p \<Rightarrow> with_text P (write_field_error ''*rpc.StopUserClientRsp'' 1) (StopUserClientRsp_writeField1 P p))"

definition StopUserClientRsp_DeepEqual :: "bool \<Rightarrow> stop_user_client_rsp option \<Rightarrow> stop_user_client_rsp option \<Rightarrow> bool" where
  "StopUserClientRsp_DeepEqual same q ano =
     (if same then True
      else
        case (q, ano) of
          (Some p, Some a) \<Rightarrow>
            (if \<not> StopUserClientRsp_Field1DeepEqual p (sucRes a) then False
             else True)
        | _ \<Rightarrow> False)"

section \<open>BytesRsp\<close>

definition BytesRsp_ReadField1 :: "'s proto \<Rightarrow> (bytes_rsp, 's) preader" where
  "BytesRsp_ReadField1 P = read_value (pReadBinary P) (\<lambda>v p. p\<lparr>brData := v\<rparr>)"

definition BytesRsp_writeField1 :: "'s proto \<Rightarrow> bytes_rsp \<Rightarrow> 's step" where
  "BytesRsp_writeField1 P p =
     write_field P ''*rpc.BytesRsp'' ''data'' STRING 1 (pWriteBinary P (brData p))"

definition BytesRsp_Field1DeepEqual :: "bytes_rsp \<Rightarrow> bytes \<Rightarrow> bool" where
  "BytesRsp_Field1DeepEqual p src = (if brData p \<noteq> src then False else True)"

definition BytesRsp_Read :: "'s proto \<Rightarrow> (bytes_rsp, 's) preader" where
  "BytesRsp_Read P =
     read_struct P ''*rpc.BytesRsp'' (skip_error ''*rpc.BytesRsp'') fieldIDToName_BytesRsp (\<lambda>fid.
      if fid = 1 then Some (STRING, BytesRsp_ReadField1 P) else None)"

definition BytesRsp_Write :: "'s proto \<Rightarrow> bytes_rsp option \<Rightarrow> 's step" where
  "BytesRsp_Write P q =
     write_struct P ''*rpc.BytesRsp'' ''BytesRsp''
       (case q of
          None \<Rightarrow> skip_step
        | Some p \<Rightarrow> with_text P (write_field_error ''*rpc.BytesRsp'' 1) (BytesRsp_writeField1 P p))"

definition BytesRsp_DeepEqual :: "bool \<Rightarrow> bytes_rsp option \<Rightarrow> bytes_rsp option \<Rightarrow> bool" where
  "BytesRsp_DeepEqual same q ano =
     (if same then True
      else
        case (q, ano) of
          (Some p, Some a) \<Rightarrow>
            (if \<not> BytesRsp_Field1DeepEqual p (brData a) then False
             else True)
        | _ \<Rightarrow> False)"

section \<open>JoinGroupReq\<close>

definition JoinGroupReq_ReadField1 :: "'s proto \<Rightarrow> (join_group_req, 's) preader" where
  "JoinGroupReq_ReadField1 P = read_value (pReadString P) (\<lambda>v p. p\<lparr>jgqUid := v\<rparr>)"

definition JoinGroupReq_writeField1 :: "'s proto \<Rightarrow> join_group_req \<Rightarrow> 's step" where
  "JoinGroupReq_writeField1 P p =
     write_field P ''*rpc.JoinGroupReq'' ''uid'' STRING 1 (pWriteString P (jgqUid p))"

definition JoinGroupReq_Field1DeepEqual :: "join_group_req \<Rightarrow> string \<Rightarrow> bool" where
  "JoinGroupReq_Field1DeepEqual p src = (if jgqUid p \<noteq> src then False else True)"

definition JoinGroupReq_ReadField2 :: "'s proto \<Rightarrow> (join_group_req, 's) preader" where
  "JoinGroupReq_ReadField2 P = read_value (pReadString P) (\<lambda>v p. p\<lparr>jgqTgid := v\<rparr>)"

definition JoinGroupReq_writeField2 :: "'s proto \<Rightarrow> join_group_req \<Rightarrow> 's step" where
  "JoinGroupReq_writeField2 P p =
     write_field P ''*rpc.JoinGroupReq'' ''tgid'' STRING 2 (pWriteString P (jgqTgid p))"

definition JoinGroupReq_Field2DeepEqual :: "join_group_req \<Rightarrow> string \<Rightarrow> bool" where
  "JoinGroupReq_Field2DeepEqual p src = (if jgqTgid p \<noteq> src then False else True)"

definition JoinGroupReq_Read :: "'s proto \<Rightarrow> (join_group_req, 's) preader" where
  "JoinGroupReq_Read P =
     read_struct P ''*rpc.JoinGroupReq'' (skip_error ''*rpc.JoinGroupReq'') fieldIDToName_JoinGroupReq (\<lambda>fid.
      if fid = 1 then Some (STRING, JoinGroupReq_ReadField1 P) else if fid = 2 then Some (STRING, JoinGroupReq_ReadField2 P) else None)"

definition JoinGroupReq_Write :: "'s proto \<Rightarrow> join_group_req option \<Rightarrow> 's step" where
  "JoinGroupReq_Write P q =
     write_struct P ''*rpc.JoinGroupReq'' ''JoinGroupReq''
       (case q of
          None \<Rightarrow> skip_step
        | Some p \<Rightarrow> seq_step (with_text P (write_field_error ''*rpc.JoinGroupReq'' 1) (JoinGroupReq_writeField1 P p))
            (with_text P (write_field_error ''*rpc.JoinGroupReq'' 2) (JoinGroupReq_writeField2 P p)))"

definition JoinGroupReq_DeepEqual :: "bool \<Rightarrow> join_group_req option \<Rightarrow> join_group_req option \<Rightarrow> bool" where
  "JoinGroupReq_DeepEqual same q ano =
     (if same then True
      else
        case (q, ano) of
          (Some p, Some a) \<Rightarrow>
            (if \<not> JoinGroupReq_Field1DeepEqual p (jgqUid a) then False
             else if \<not> JoinGroupReq_Field2DeepEqual p (jgqTgid a) then False
             else True)
        | _ \<Rightarrow> False)"

section \<open>JoinGroupRes\<close>

definition JoinGroupRes_ReadField1 :: "'s proto \<Rightarrow> (join_group_res, 's) preader" where
  "JoinGroupRes_ReadField1 P = read_value (pReadBool P) (\<lambda>v p. p\<lparr>jgrRes := v\<rparr>)"

definition JoinGroupRes_writeField1 :: "'s proto \<Rightarrow> join_group_res \<Rightarrow> 's step" where
  "JoinGroupRes_writeField1 P p =
     write_field P ''*rpc.JoinGroupRes'' ''res'' BOOL 1 (pWriteBool P (jgrRes p))"

definition JoinGroupRes_Field1DeepEqual :: "join_group_res \<Rightarrow> bool \<Rightarrow> bool" where
  "JoinGroupRes_Field1DeepEqual p src = (if jgrRes p \<noteq> src then False else True)"

definition JoinGroupRes_Read :: "'s proto \<Rightarrow> (join_group_res, 's) preader" where
  "JoinGroupRes_Read P =
     read_struct P ''*rpc.JoinGroupRes'' (skip_error ''*rpc.JoinGroupRes'') fieldIDToName_JoinGroupRes (\<lambda>fid.
      if fid = 1 then Some (BOOL, JoinGroupRes_ReadField1 P) else None)"

definition JoinGroupRes_Write :: "'s proto \<Rightarrow> join_group_res option \<Rightarrow> 's step" where
  "JoinGroupRes_Write P q =
     write_struct P ''*rpc.JoinGroupRes'' ''JoinGroupRes''
       (case q of
          None \<Rightarrow> skip_step
        | Some p \<Rightarrow> with_text P (write_field_error ''*rpc.JoinGroupRes'' 1) (JoinGroupRes_writeField1 P p))"

definition JoinGroupRes_DeepEqual :: "bool \<Rightarrow> join_group_res option \<Rightarrow> join_group_res option \<Rightarrow> bool" where
  "JoinGroupRes_DeepEqual same q ano =
     (if same then True
      else
        case (q, ano) of
          (Some p, Some a) \<Rightarrow>
            (if \<not> JoinGroupRes_Field1DeepEqual p (jgrRes a) then False
             else True)
        | _ \<Rightarrow> False)"

section \<open>Request\<close>

definition Request_toks :: "rpc_request \<Rightarrow> ptoken list" where
  "Request_toks p = struct_toks [(1, STRING, [TStr (rqMessage p)])]"

lemma Request_writeField1_puts:
  "proto_ok P toks \<Longrightarrow> Request_ok p \<Longrightarrow> puts toks (Request_writeField1 P p) (field_toks (1, STRING, [TStr (rqMessage p)]))"
  unfolding Request_writeField1_def by (rule puts_field) (auto simp: Request_ok_def head_ok_def ttypes)

lemma Request_puts:
  assumes P: "proto_ok P toks" and ok: "Request_ok p"
  shows "puts toks (Request_Write P (Some p)) (Request_toks p)"
  unfolding Request_Write_def Request_toks_def option.simps
  by (rule puts_struct [OF P])
    (use puts_text [OF Request_writeField1_puts [OF P ok]] in simp)

lemma Request_ReadField1_reads:
  "proto_ok P toks \<Longrightarrow> size_ok v \<Longrightarrow> reads toks (Request_ReadField1 P) [TStr v] (\<lambda>p. p\<lparr>rqMessage := v\<rparr>)"
  unfolding Request_ReadField1_def by (rule reads_value [OF proto_okD(5)])

lemma Request_reads:
  assumes P: "proto_ok P toks" and ok: "Request_ok p" and s: "toks s = Request_toks p @ ts"
  shows "\<exists>s1. Request_Read P NewRpcRequest s = Some (s1, p, None) \<and> toks s1 = ts"
proof -
  let ?fs = "[(1 :: int, STRING, [TStr (rqMessage p)], \<lambda>q :: rpc_request. q\<lparr>rqMessage := rqMessage p\<rparr>)]"
  have "reads toks (Request_Read P) (struct_toks (map (\<lambda>(fid, t, v, f). (fid, t, v)) ?fs)) (fold (\<lambda>(fid, t, v, f). f) ?fs)"
    unfolding Request_Read_def
    by (rule read_struct_toks [OF P]) (use ok in \<open>simp add: Request_ok_def head_ok_def reads_table [OF _ Request_ReadField1_reads [OF P]] ttypes\<close>)
  from readsD [OF this, of s ts NewRpcRequest p] s show ?thesis by (cases p) (simp add: Request_toks_def NewRpcRequest_def)
qed

interpretation Request_proto: proto_codec Request_Write Request_Read NewRpcRequest Request_toks Request_ok
  by unfold_locales (rule Request_puts, assumption+, rule Request_reads)

lemma Request_writeField1_bytes:
  "same_wire P T out \<Longrightarrow> Request_ok p \<Longrightarrow> puts out (Request_writeField1 P p) (Request_fastWriteField1 T p)"
  unfolding Request_writeField1_def Request_fastWriteField1_def
  by (rule wire_field) (auto simp: Request_ok_def head_ok_def ttypes intro: same_wireD)

lemma Request_same_bytes:
  assumes W: "same_wire P T out" and q: "pred_option Request_ok q"
  shows "puts out (Request_Write P q) (Request_FastWriteNocopy T q)"
proof (cases q)
  case None
  then show ?thesis
    using wire_struct [OF W puts_skip] by (simp add: Request_Write_def Request_FastWriteNocopy_def)
next
  case (Some p)
  then have ok: "Request_ok p" using q by simp
  show ?thesis
    unfolding Some Request_Write_def Request_FastWriteNocopy_def option.simps
    by (rule wire_struct [OF W])
      (use puts_text [OF Request_writeField1_bytes [OF W ok]] in simp)
qed

lemma Request_DeepEqual_iff:
  "ptrs_ok same p q \<Longrightarrow> Request_DeepEqual same p q \<longleftrightarrow> p = q"
  by (cases p; cases q) (auto simp: ptrs_ok_def Request_DeepEqual_def Request_Field1DeepEqual_def)

section \<open>Response\<close>

definition Response_toks :: "rpc_response \<Rightarrow> ptoken list" where
  "Response_toks p = struct_toks [(1, STRING, [TStr (rsMessage p)])]"

lemma Response_writeField1_puts:
  "proto_ok P toks \<Longrightarrow> Response_ok p \<Longrightarrow> puts toks (Response_writeField1 P p) (field_toks (1, STRING, [TStr (rsMessage p)]))"
  unfolding Response_writeField1_def by (rule puts_field) (auto simp: Response_ok_def head_ok_def ttypes)

lemma Response_puts:
  assumes P: "proto_ok P toks" and ok: "Response_ok p"
  shows "puts toks (Response_Write P (Some p)) (Response_toks p)"
  unfolding Response_Write_def Response_toks_def option.simps
  by (rule puts_struct [OF P])
    (use puts_text [OF Response_writeField1_puts [OF P ok]] in simp)

lemma Response_ReadField1_reads:
  "proto_ok P toks \<Longrightarrow> size_ok v \<Longrightarrow> reads toks (Response_ReadField1 P) [TStr v] (\<lambda>p. p\<lparr>rsMessage := v\<rparr>)"
  unfolding Response_ReadField1_def by (rule reads_value [OF proto_okD(5)])

lemma Response_reads:
  assumes P: "proto_ok P toks" and ok: "Response_ok p" and s: "toks s = Response_toks p @ ts"
  shows "\<exists>s1. Response_Read P NewRpcResponse s = Some (s1, p, None) \<and> toks s1 = ts"
proof -
  let ?fs = "[(1 :: int, STRING, [TStr (rsMessage p)], \<lambda>q :: rpc_response. q\<lparr>rsMessage := rsMessage p\<rparr>)]"
  have "reads toks (Response_Read P) (struct_toks (map (\<lambda>(fid, t, v, f). (fid, t, v)) ?fs)) (fold (\<lambda>(fid, t, v, f). f) ?fs)"
    unfolding Response_Read_def
    by (rule read_struct_toks [OF P]) (use ok in \<open>simp add: Response_ok_def head_ok_def reads_table [OF _ Response_ReadField1_reads [OF P]] ttypes\<close>)
  from readsD [OF this, of s ts NewRpcResponse p] s show ?thesis by (cases p) (simp add: Response_toks_def NewRpcResponse_def)
qed

interpretation Response_proto: proto_codec Response_Write Response_Read NewRpcResponse Response_toks Response_ok
  by unfold_locales (rule Response_puts, assumption+, rule Response_reads)

lemma Response_writeField1_bytes:
  "same_wire P T out \<Longrightarrow> Response_ok p \<Longrightarrow> puts out (Response_writeField1 P p) (Response_fastWriteField1 T p)"
  unfolding Response_writeField1_def Response_fastWriteField1_def
  by (rule wire_field) (auto simp: Response_ok_def head_ok_def ttypes intro: same_wireD)

lemma Response_same_bytes:
  assumes W: "same_wire P T out" and q: "pred_option Response_ok q"
  shows "puts out (Response_Write P q) (Response_FastWriteNocopy T q)"
proof (cases q)
  case None
  then show ?thesis
    using wire_struct [OF W puts_skip] by (simp add: Response_Write_def Response_FastWriteNocopy_def)
next
  case (Some p)
  then have ok: "Response_ok p" using q by simp
  show ?thesis
    unfolding Some Response_Write_def Response_FastWriteNocopy_def option.simps
    by (rule wire_struct [OF W])
      (use puts_text [OF Response_writeField1_bytes [OF W ok]] in simp)
qed

lemma Response_DeepEqual_iff:
  "ptrs_ok same p q \<Longrightarrow> Response_DeepEqual same p q \<longleftrightarrow> p = q"
  by (cases p; cases q) (auto simp: ptrs_ok_def Response_DeepEqual_def Response_Field1DeepEqual_def)

section \<open>SendMsgReq\<close>

definition SendMsgReq_toks :: "send_msg_req \<Rightarrow> ptoken list" where
  "SendMsgReq_toks p = struct_toks [(1, STRING, [TStr (smqUid p)]), (2, STRING, [TBin (smqMsg p)])]"

lemma SendMsgReq_writeField1_puts:
  "proto_ok P toks \<Longrightarrow> SendMsgReq_ok p \<Longrightarrow> puts toks (SendMsgReq_writeField1 P p) (field_toks (1, STRING, [TStr (smqUid p)]))"
  unfolding SendMsgReq_writeField1_def by (rule puts_field) (auto simp: SendMsgReq_ok_def head_ok_def ttypes)

lemma SendMsgReq_writeField2_puts:
  "proto_ok P toks \<Longrightarrow> SendMsgReq_ok p \<Longrightarrow> puts toks (SendMsgReq_writeField2 P p) (field_toks (2, STRING, [TBin (smqMsg p)]))"
  unfolding SendMsgReq_writeField2_def by (rule puts_field) (auto simp: SendMsgReq_ok_def head_ok_def ttypes)

lemma SendMsgReq_puts:
  assumes P: "proto_ok P toks" and ok: "SendMsgReq_ok p"
  shows "puts toks (SendMsgReq_Write P (Some p)) (SendMsgReq_toks p)"
  unfolding SendMsgReq_Write_def SendMsgReq_toks_def option.simps
  by (rule puts_struct [OF P])
    (use puts_seq [OF puts_text [OF SendMsgReq_writeField1_puts [OF P ok]]
      puts_text [OF SendMsgReq_writeField2_puts [OF P ok]]] in simp)

lemma SendMsgReq_ReadField1_reads:
  "proto_ok P toks \<Longrightarrow> size_ok v \<Longrightarrow> reads toks (SendMsgReq_ReadField1 P) [TStr v] (\<lambda>p. p\<lparr>smqUid := v\<rparr>)"
  unfolding SendMsgReq_ReadField1_def by (rule reads_value [OF proto_okD(5)])

lemma SendMsgReq_ReadField2_reads:
  "proto_ok P toks \<Longrightarrow> size_ok v \<Longrightarrow> reads toks (SendMsgReq_ReadField2 P) [TBin v] (\<lambda>p. p\<lparr>smqMsg := v\<rparr>)"
  unfolding SendMsgReq_ReadField2_def by (rule reads_value [OF proto_okD(6)])

lemma SendMsgReq_reads:
  assumes P: "proto_ok P toks" and ok: "SendMsgReq_ok p" and s: "toks s = SendMsgReq_toks p @ ts"
  shows "\<exists>s1. SendMsgReq_Read P NewSendMsgReq s = Some (s1, p, None) \<and> toks s1 = ts"
proof -
  let ?fs = "[(1 :: int, STRING, [TStr (smqUid p)], \<lambda>q :: send_msg_req. q\<lparr>smqUid := smqUid p\<rparr>),
       (2 :: int, STRING, [TBin (smqMsg p)], \<lambda>q :: send_msg_req. q\<lparr>smqMsg := smqMsg p\<rparr>)]"
  have "reads toks (SendMsgReq_Read P) (struct_toks (map (\<lambda>(fid, t, v, f). (fid, t, v)) ?fs)) (fold (\<lambda>(fid, t, v, f). f) ?fs)"
    unfolding SendMsgReq_Read_def
    by (rule read_struct_toks [OF P]) (use ok in \<open>simp add: SendMsgReq_ok_def head_ok_def reads_table [OF _ SendMsgReq_ReadField1_reads [OF P]] reads_table [OF _ SendMsgReq_ReadField2_reads [OF P]] ttypes\<close>)
  from readsD [OF this, of s ts NewSendMsgReq p] s show ?thesis by (cases p) (simp add: SendMsgReq_toks_def NewSendMsgReq_def)
qed

interpretation SendMsgReq_proto: proto_codec SendMsgReq_Write SendMsgReq_Read NewSendMsgReq SendMsgReq_toks SendMsgReq_ok
  by unfold_locales (rule SendMsgReq_puts, assumption+, rule SendMsgReq_reads)

lemma SendMsgReq_writeField1_bytes:
  "same_wire P T out \<Longrightarrow> SendMsgReq_ok p \<Longrightarrow> puts out (SendMsgReq_writeField1 P p) (SendMsgReq_fastWriteField1 T p)"
  unfolding SendMsgReq_writeField1_def SendMsgReq_fastWriteField1_def
  by (rule wire_field) (auto simp: SendMsgReq_ok_def head_ok_def ttypes intro: same_wireD)

lemma SendMsgReq_writeField2_bytes:
  "same_wire P T out \<Longrightarrow> SendMsgReq_ok p \<Longrightarrow> puts out (SendMsgReq_writeField2 P p) (SendMsgReq_fastWriteField2 T p)"
  unfolding SendMsgReq_writeField2_def SendMsgReq_fastWriteField2_def
  by (rule wire_field) (auto simp: SendMsgReq_ok_def head_ok_def ttypes intro: same_wireD)

lemma SendMsgReq_same_bytes:
  assumes W: "same_wire P T out" and q: "pred_option SendMsgReq_ok q"
  shows "puts out (SendMsgReq_Write P q) (SendMsgReq_FastWriteNocopy T q)"
proof (cases q)
  case None
  then show ?thesis
    using wire_struct [OF W puts_skip] by (simp add: SendMsgReq_Write_def SendMsgReq_FastWriteNocopy_def)
next
  case (Some p)
  then have ok: "SendMsgReq_ok p" using q by simp
  show ?thesis
    unfolding Some SendMsgReq_Write_def SendMsgReq_FastWriteNocopy_def option.simps
    by (rule wire_struct [OF W])
      (use puts_seq [OF puts_text [OF SendMsgReq_writeField1_bytes [OF W ok]]
      puts_text [OF SendMsgReq_writeField2_bytes [OF W ok]]] in simp)
qed

lemma SendMsgReq_DeepEqual_iff:
  "ptrs_ok same p q \<Longrightarrow> SendMsgReq_DeepEqual same p q \<longleftrightarrow> p = q"
  by (cases p; cases q) (auto simp: ptrs_ok_def SendMsgReq_DeepEqual_def SendMsgReq_Field1DeepEqual_def SendMsgReq_Field2DeepEqual_def)

section \<open>SendMsgRsp\<close>

definition SendMsgRsp_toks :: "send_msg_rsp \<Rightarrow> ptoken list" where
  "SendMsgRsp_toks p = struct_toks [(1, I32, [TI32 (smrRetCode p)])]"

lemma SendMsgRsp_writeField1_puts:
  "proto_ok P toks \<Longrightarrow> SendMsgRsp_ok p \<Longrightarrow> puts toks (SendMsgRsp_writeField1 P p) (field_toks (1, I32, [TI32 (smrRetCode p)]))"
  unfolding SendMsgRsp_writeField1_def by (rule puts_field) (auto simp: SendMsgRsp_ok_def head_ok_def ttypes)

lemma SendMsgRsp_puts:
  assumes P: "proto_ok P toks" and ok: "SendMsgRsp_ok p"
  shows "puts toks (SendMsgRsp_Write P (Some p)) (SendMsgRsp_toks p)"
  unfolding SendMsgRsp_Write_def SendMsgRsp_toks_def option.simps
  by (rule puts_struct [OF P])
    (use puts_text [OF SendMsgRsp_writeField1_puts [OF P ok]] in simp)

lemma SendMsgRsp_ReadField1_reads:
  "proto_ok P toks \<Longrightarrow> reads toks (SendMsgRsp_ReadField1 P) [TI32 v] (\<lambda>p. p\<lparr>smrRetCode := v\<rparr>)"
  unfolding SendMsgRsp_ReadField1_def by (rule reads_value [OF proto_okD(7)])

lemma SendMsgRsp_reads:
  assumes P: "proto_ok P toks" and ok: "SendMsgRsp_ok p" and s: "toks s = SendMsgRsp_toks p @ ts"
  shows "\<exists>s1. SendMsgRsp_Read P NewSendMsgRsp s = Some (s1, p, None) \<and> toks s1 = ts"
proof -
  let ?fs = "[(1 :: int, I32, [TI32 (smrRetCode p)], \<lambda>q :: send_msg_rsp. q\<lparr>smrRetCode := smrRetCode p\<rparr>)]"
  have "reads toks (SendMsgRsp_Read P) (struct_toks (map (\<lambda>(fid, t, v, f). (fid, t, v)) ?fs)) (fold (\<lambda>(fid, t, v, f). f) ?fs)"
    unfolding SendMsgRsp_Read_def
    by (rule read_struct_toks [OF P]) (use ok in \<open>simp add: SendMsgRsp_ok_def head_ok_def reads_table [OF _ SendMsgRsp_ReadField1_reads [OF P]] ttypes\<close>)
  from readsD [OF this, of s ts NewSendMsgRsp p] s show ?thesis by (cases p) (simp add: SendMsgRsp_toks_def NewSendMsgRsp_def)
qed

interpretation SendMsgRsp_proto: proto_codec SendMsgRsp_Write SendMsgRsp_Read NewSendMsgRsp SendMsgRsp_toks SendMsgRsp_ok
  by unfold_locales (rule SendMsgRsp_puts, assumption+, rule SendMsgRsp_reads)

lemma SendMsgRsp_writeField1_bytes:
  "same_wire P T out \<Longrightarrow> SendMsgRsp_ok p \<Longrightarrow> puts out (SendMsgRsp_writeField1 P p) (SendMsgRsp_fastWriteField1 T p)"
  unfolding SendMsgRsp_writeField1_def SendMsgRsp_fastWriteField1_def
  by (rule wire_field) (auto simp: SendMsgRsp_ok_def head_ok_def ttypes intro: same_wireD)

lemma SendMsgRsp_same_bytes:
  assumes W: "same_wire P T out" and q: "pred_option SendMsgRsp_ok q"
  shows "puts out (SendMsgRsp_Write P q) (SendMsgRsp_FastWriteNocopy T q)"
proof (cases q)
  case None
  then show ?thesis
    using wire_struct [OF W puts_skip] by (simp add: SendMsgRsp_Write_def SendMsgRsp_FastWriteNocopy_def)
next
  case (Some p)
  then have ok: "SendMsgRsp_ok p" using q by simp
  show ?thesis
    unfolding Some SendMsgRsp_Write_def SendMsgRsp_FastWriteNocopy_def option.simps
    by (rule wire_struct [OF W])
      (use puts_text [OF SendMsgRsp_writeField1_bytes [OF W ok]] in simp)
qed

lemma SendMsgRsp_DeepEqual_iff:
  "ptrs_ok same p q \<Longrightarrow> SendMsgRsp_DeepEqual same p q \<longleftrightarrow> p = q"
  by (cases p; cases q) (auto simp: ptrs_ok_def SendMsgRsp_DeepEqual_def SendMsgRsp_Field1DeepEqual_def)

section \<open>SendMsgByTgidReq\<close>

definition SendMsgByTgidReq_toks :: "send_msg_by_tgid_req \<Rightarrow> ptoken list" where
  "SendMsgByTgidReq_toks p = struct_toks [(1, STRING, [TStr (sbtUid p)]), (2, STRING, [TStr (sbtTgid p)]), (3, STRING, [TBin (sbtMsg p)])]"

lemma SendMsgByTgidReq_writeField1_puts:
  "proto_ok P toks \<Longrightarrow> SendMsgByTgidReq_ok p \<Longrightarrow> puts toks (SendMsgByTgidReq_writeField1 P p) (field_toks (1, STRING, [TStr (sbtUid p)]))"
  unfolding SendMsgByTgidReq_writeField1_def by (rule puts_field) (auto simp: SendMsgByTgidReq_ok_def head_ok_def ttypes)

lemma SendMsgByTgidReq_writeField2_puts:
  "proto_ok P toks \<Longrightarrow> SendMsgByTgidReq_ok p \<Longrightarrow> puts toks (SendMsgByTgidReq_writeField2 P p) (field_toks (2, STRING, [TStr (sbtTgid p)]))"
  unfolding SendMsgByTgidReq_writeField2_def by (rule puts_field) (auto simp: SendMsgByTgidReq_ok_def head_ok_def ttypes)

lemma SendMsgByTgidReq_writeField3_puts:
  "proto_ok P toks \<Longrightarrow> SendMsgByTgidReq_ok p \<Longrightarrow> puts toks (SendMsgByTgidReq_writeField3 P p) (field_toks (3, STRING, [TBin (sbtMsg p)]))"
  unfolding SendMsgByTgidReq_writeField3_def by (rule puts_field) (auto simp: SendMsgByTgidReq_ok_def head_ok_def ttypes)

lemma SendMsgByTgidReq_puts:
  assumes P: "proto_ok P toks" and ok: "SendMsgByTgidReq_ok p"
  shows "puts toks (SendMsgByTgidReq_Write P (Some p)) (SendMsgByTgidReq_toks p)"
  unfolding SendMsgByTgidReq_Write_def SendMsgByTgidReq_toks_def option.simps
  by (rule puts_struct [OF P])
    (use puts_seq [OF puts_text [OF SendMsgByTgidReq_writeField1_puts [OF P ok]]
      puts_seq [OF puts_text [OF SendMsgByTgidReq_writeField2_puts [OF P ok]]
      puts_text [OF SendMsgByTgidReq_writeField3_puts [OF P ok]]]] in simp)

lemma SendMsgByTgidReq_ReadField1_reads:
  "proto_ok P toks \<Longrightarrow> size_ok v \<Longrightarrow> reads toks (SendMsgByTgidReq_ReadField1 P) [TStr v] (\<lambda>p. p\<lparr>sbtUid := v\<rparr>)"
  unfolding SendMsgByTgidReq_ReadField1_def by (rule reads_value [OF proto_okD(5)])

lemma SendMsgByTgidReq_ReadField2_reads:
  "proto_ok P toks \<Longrightarrow> size_ok v \<Longrightarrow> reads toks (SendMsgByTgidReq_ReadField2 P) [TStr v] (\<lambda>p. p\<lparr>sbtTgid := v\<rparr>)"
  unfolding SendMsgByTgidReq_ReadField2_def by (rule reads_value [OF proto_okD(5)])

lemma SendMsgByTgidReq_ReadField3_reads:
  "proto_ok P toks \<Longrightarrow> size_ok v \<Longrightarrow> reads toks (SendMsgByTgidReq_ReadField3 P) [TBin v] (\<lambda>p. p\<lparr>sbtMsg := v\<rparr>)"
  unfolding SendMsgByTgidReq_ReadField3_def by (rule reads_value [OF proto_okD(6)])

lemma SendMsgByTgidReq_reads:
  assumes P: "proto_ok P toks" and ok: "SendMsgByTgidReq_ok p" and s: "toks s = SendMsgByTgidReq_toks p @ ts"
  shows "\<exists>s1. SendMsgByTgidReq_Read P NewSendMsgByTgidReq s = Some (s1, p, None) \<and> toks s1 = ts"
proof -
  let ?fs = "[(1 :: int, STRING, [TStr (sbtUid p)], \<lambda>q :: send_msg_by_tgid_req. q\<lparr>sbtUid := sbtUid p\<rparr>),
       (2 :: int, STRING, [TStr (sbtTgid p)], \<lambda>q :: send_msg_by_tgid_req. q\<lparr>sbtTgid := sbtTgid p\<rparr>),
       (3 :: int, STRING, [TBin (sbtMsg p)], \<lambda>q :: send_msg_by_tgid_req. q\<lparr>sbtMsg := sbtMsg p\<rparr>)]"
  have "reads toks (SendMsgByTgidReq_Read P) (struct_toks (map (\<lambda>(fid, t, v, f). (fid, t, v)) ?fs)) (fold (\<lambda>(fid, t, v, f). f) ?fs)"
    unfolding SendMsgByTgidReq_Read_def
    by (rule read_struct_toks [OF P]) (use ok in \<open>simp add: SendMsgByTgidReq_ok_def head_ok_def reads_table [OF _ SendMsgByTgidReq_ReadField1_reads [OF P]] reads_table [OF _ SendMsgByTgidReq_ReadField2_reads [OF P]] reads_table [OF _ SendMsgByTgidReq_ReadField3_reads [OF P]] ttypes\<close>)
  from readsD [OF this, of s ts NewSendMsgByTgidReq p] s show ?thesis by (cases p) (simp add: SendMsgByTgidReq_toks_def NewSendMsgByTgidReq_def)
qed

interpretation SendMsgByTgidReq_proto: proto_codec SendMsgByTgidReq_Write SendMsgByTgidReq_Read NewSendMsgByTgidReq SendMsgByTgidReq_toks SendMsgByTgidReq_ok
  by unfold_locales (rule SendMsgByTgidReq_puts, assumption+, rule SendMsgByTgidReq_reads)

lemma SendMsgByTgidReq_writeField1_bytes:
  "same_wire P T out \<Longrightarrow> SendMsgByTgidReq_ok p \<Longrightarrow> puts out (SendMsgByTgidReq_writeField1 P p) (SendMsgByTgidReq_fastWriteField1 T p)"
  unfolding SendMsgByTgidReq_writeField1_def SendMsgByTgidReq_fastWriteField1_def
  by (rule wire_field) (auto simp: SendMsgByTgidReq_ok_def head_ok_def ttypes intro: same_wireD)

lemma SendMsgByTgidReq_writeField2_bytes:
  "same_wire P T out \<Longrightarrow> SendMsgByTgidReq_ok p \<Longrightarrow> puts out (SendMsgByTgidReq_writeField2 P p) (SendMsgByTgidReq_fastWriteField2 T p)"
  unfolding SendMsgByTgidReq_writeField2_def SendMsgByTgidReq_fastWriteField2_def
  by (rule wire_field) (auto simp: SendMsgByTgidReq_ok_def head_ok_def ttypes intro: same_wireD)

lemma SendMsgByTgidReq_writeField3_bytes:
  "same_wire P T out \<Longrightarrow> SendMsgByTgidReq_ok p \<Longrightarrow> puts out (SendMsgByTgidReq_writeField3 P p) (SendMsgByTgidReq_fastWriteField3 T p)"
  unfolding SendMsgByTgidReq_writeField3_def SendMsgByTgidReq_fastWriteField3_def
  by (rule wire_field) (auto simp: SendMsgByTgidReq_ok_def head_ok_def ttypes intro: same_wireD)

lemma SendMsgByTgidReq_same_bytes:
  assumes W: "same_wire P T out" and q: "pred_option SendMsgByTgidReq_ok q"
  shows "puts out (SendMsgByTgidReq_Write P q) (SendMsgByTgidReq_FastWriteNocopy T q)"
proof (cases q)
  case None
  then show ?thesis
    using wire_struct [OF W puts_skip] by (simp add: SendMsgByTgidReq_Write_def SendMsgByTgidReq_FastWriteNocopy_def)
next
  case (Some p)
  then have ok: "SendMsgByTgidReq_ok p" using q by simp
  show ?thesis
    unfolding Some SendMsgByTgidReq_Write_def SendMsgByTgidReq_FastWriteNocopy_def option.simps
    by (rule wire_struct [OF W])
      (use puts_seq [OF puts_text [OF SendMsgByTgidReq_writeField1_bytes [OF W ok]]
      puts_seq [OF puts_text [OF SendMsgByTgidReq_writeField2_bytes [OF W ok]]
      puts_text [OF SendMsgByTgidReq_writeField3_bytes [OF W ok]]]] in simp)
qed

lemma SendMsgByTgidReq_DeepEqual_iff:
  "ptrs_ok same p q \<Longrightarrow> SendMsgByTgidReq_DeepEqual same p q \<longleftrightarrow> p = q"
  by (cases p; cases q) (auto simp: ptrs_ok_def SendMsgByTgidReq_DeepEqual_def SendMsgByTgidReq_Field1DeepEqual_def SendMsgByTgidReq_Field2DeepEqual_def SendMsgByTgidReq_Field3DeepEqual_def)

section \<open>UserIdReq\<close>

definition UserIdReq_toks :: "user_id_req \<Rightarrow> ptoken list" where
  "UserIdReq_toks p = struct_toks [(1, STRING, [TStr (uirUid p)])]"

lemma UserIdReq_writeField1_puts:
  "proto_ok P toks \<Longrightarrow> UserIdReq_ok p \<Longrightarrow> puts toks (UserIdReq_writeField1 P p) (field_toks (1, STRING, [TStr (uirUid p)]))"
  unfolding UserIdReq_writeField1_def by (rule puts_field) (auto simp: UserIdReq_ok_def head_ok_def ttypes)

lemma UserIdReq_puts:
  assumes P: "proto_ok P toks" and ok: "UserIdReq_ok p"
  shows "puts toks (UserIdReq_Write P (Some p)) (UserIdReq_toks p)"
  unfolding UserIdReq_Write_def UserIdReq_toks_def option.simps
  by (rule puts_struct [OF P])
    (use puts_text [OF UserIdReq_writeField1_puts [OF P ok]] in simp)

lemma UserIdReq_ReadField1_reads:
  "proto_ok P toks \<Longrightarrow> size_ok v \<Longrightarrow> reads toks (UserIdReq_ReadField1 P) [TStr v] (\<lambda>p. p\<lparr>uirUid := v\<rparr>)"
  unfolding UserIdReq_ReadField1_def by (rule reads_value [OF proto_okD(5)])

lemma UserIdReq_reads:
  assumes P: "proto_ok P toks" and ok: "UserIdReq_ok p" and s: "toks s = UserIdReq_toks p @ ts"
  shows "\<exists>s1. UserIdReq_Read P NewUserIdReq s = Some (s1, p, None) \<and> toks s1 = ts"
proof -
  let ?fs = "[(1 :: int, STRING, [TStr (uirUid p)], \<lambda>q :: user_id_req. q\<lparr>uirUid := uirUid p\<rparr>)]"
  have "reads toks (UserIdReq_Read P) (struct_toks (map (\<lambda>(fid, t, v, f). (fid, t, v)) ?fs)) (fold (\<lambda>(fid, t, v, f). f) ?fs)"
    unfolding UserIdReq_Read_def
    by (rule read_struct_toks [OF P]) (use ok in \<open>simp add: UserIdReq_ok_def head_ok_def reads_table [OF _ UserIdReq_ReadField1_reads [OF P]] ttypes\<close>)
  from readsD [OF this, of s ts NewUserIdReq p] s show ?thesis by (cases p) (simp add: UserIdReq_toks_def NewUserIdReq_def)
qed

interpretation UserIdReq_proto: proto_codec UserIdReq_Write UserIdReq_Read NewUserIdReq UserIdReq_toks UserIdReq_ok
  by unfold_locales (rule UserIdReq_puts, assumption+, rule UserIdReq_reads)

lemma UserIdReq_writeField1_bytes:
  "same_wire P T out \<Longrightarrow> UserIdReq_ok p \<Longrightarrow> puts out (UserIdReq_writeField1 P p) (UserIdReq_fastWriteField1 T p)"
  unfolding UserIdReq_writeField1_def UserIdReq_fastWriteField1_def
  by (rule wire_field) (auto simp: UserIdReq_ok_def head_ok_def ttypes intro: same_wireD)

lemma UserIdReq_same_bytes:
  assumes W: "same_wire P T out" and q: "pred_option UserIdReq_ok q"
  shows "puts out (UserIdReq_Write P q) (UserIdReq_FastWriteNocopy T q)"
proof (cases q)
  case None
  then show ?thesis
    using wire_struct [OF W puts_skip] by (simp add: UserIdReq_Write_def UserIdReq_FastWriteNocopy_def)
next
  case (Some p)
  then have ok: "UserIdReq_ok p" using q by simp
  show ?thesis
    unfolding Some UserIdReq_Write_def UserIdReq_FastWriteNocopy_def option.simps
    by (rule wire_struct [OF W])
      (use puts_text [OF UserIdReq_writeField1_bytes [OF W ok]] in simp)
qed

lemma UserIdReq_DeepEqual_iff:
  "ptrs_ok same p q \<Longrightarrow> UserIdReq_DeepEqual same p q \<longleftrightarrow> p = q"
  by (cases p; cases q) (auto simp: ptrs_ok_def UserIdReq_DeepEqual_def UserIdReq_Field1DeepEqual_def)

section \<open>StopUserClientRsp\<close>

definition StopUserClientRsp_toks :: "stop_user_client_rsp \<Rightarrow> ptoken list" where
  "StopUserClientRsp_toks p = struct_toks [(1, BOOL, [TBool (sucRes p)])]"

lemma StopUserClientRsp_writeField1_puts:
  "proto_ok P toks \<Longrightarrow> StopUserClientRsp_ok p \<Longrightarrow> puts toks (StopUserClientRsp_writeField1 P p) (field_toks (1, BOOL, [TBool (sucRes p)]))"
  unfolding StopUserClientRsp_writeField1_def by (rule puts_field) (auto simp: StopUserClientRsp_ok_def head_ok_def ttypes)

lemma StopUserClientRsp_puts:
  assumes P: "proto_ok P toks" and ok: "StopUserClientRsp_ok p"
  shows "puts toks (StopUserClientRsp_Write P (Some p)) (StopUserClientRsp_toks p)"
  unfolding StopUserClientRsp_Write_def StopUserClientRsp_toks_def option.simps
  by (rule puts_struct [OF P])
    (use puts_text [OF StopUserClientRsp_writeField1_puts [OF P ok]] in simp)

lemma StopUserClientRsp_ReadField1_reads:
  "proto_ok P toks \<Longrightarrow> reads toks (StopUserClientRsp_ReadField1 P) [TBool v] (\<lambda>p. p\<lparr>sucRes := v\<rparr>)"
  unfolding StopUserClientRsp_ReadField1_def by (rule reads_value [OF proto_okD(8)])

lemma StopUserClientRsp_reads:
  assumes P: "proto_ok P toks" and ok: "StopUserClientRsp_ok p" and s: "toks s = StopUserClientRsp_toks p @ ts"
  shows "\<exists>s1. StopUserClientRsp_Read P NewStopUserClientRsp s = Some (s1, p, None) \<and> toks s1 = ts"
proof -
  let ?fs = "[(1 :: int, BOOL, [TBool (sucRes p)], \<lambda>q :: stop_user_client_rsp. q\<lparr>sucRes := sucRes p\<rparr>)]"
  have "reads toks (StopUserClientRsp_Read P) (struct_toks (map (\<lambda>(fid, t, v, f). (fid, t, v)) ?fs)) (fold (\<lambda>(fid, t, v, f). f) ?fs)"
    unfolding StopUserClientRsp_Read_def
    by (rule read_struct_toks [OF P]) (use ok in \<open>simp add: StopUserClientRsp_ok_def head_ok_def reads_table [OF _ StopUserClientRsp_ReadField1_reads [OF P]] ttypes\<close>)
  from readsD [OF this, of s ts NewStopUserClientRsp p] s show ?thesis by (cases p) (simp add: StopUserClientRsp_toks_def NewStopUserClientRsp_def)
qed

interpretation StopUserClientRsp_proto: proto_codec StopUserClientRsp_Write StopUserClientRsp_Read NewStopUserClientRsp StopUserClientRsp_toks StopUserClientRsp_ok
  by unfold_locales (rule StopUserClientRsp_puts, assumption+, rule StopUserClientRsp_reads)

lemma StopUserClientRsp_writeField1_bytes:
  "same_wire P T out \<Longrightarrow> StopUserClientRsp_ok p \<Longrightarrow> puts out (StopUserClientRsp_writeField1 P p) (StopUserClientRsp_fastWriteField1 T p)"
  unfolding StopUserClientRsp_writeField1_def StopUserClientRsp_fastWriteField1_def
  by (rule wire_field) (auto simp: StopUserClientRsp_ok_def head_ok_def ttypes intro: same_wireD)

lemma StopUserClientRsp_same_bytes:
  assumes W: "same_wire P T out" and q: "pred_option StopUserClientRsp_ok q"
  shows "puts out (StopUserClientRsp_Write P q) (StopUserClientRsp_FastWriteNocopy T q)"
proof (cases q)
  case None
  then show ?thesis
    using wire_struct [OF W puts_skip] by (simp add: StopUserClientRsp_Write_def StopUserClientRsp_FastWriteNocopy_def)
next
  case (Some p)
  then have ok: "StopUserClientRsp_ok p" using q by simp
  show ?thesis
    unfolding Some StopUserClientRsp_Write_def StopUserClientRsp_FastWriteNocopy_def option.simps
    by (rule wire_struct [OF W])
      (use puts_text [OF StopUserClientRsp_writeField1_bytes [OF W ok]] in simp)
qed

lemma StopUserClientRsp_DeepEqual_iff:
  "ptrs_ok same p q \<Longrightarrow> StopUserClientRsp_DeepEqual same p q \<longleftrightarrow> p = q"
  by (cases p; cases q) (auto simp: ptrs_ok_def StopUserClientRsp_DeepEqual_def StopUserClientRsp_Field1DeepEqual_def)

section \<open>BytesRsp\<close>

definition BytesRsp_toks :: "bytes_rsp \<Rightarrow> ptoken list" where
  "BytesRsp_toks p = struct_toks [(1, STRING, [TBin (brData p)])]"

lemma BytesRsp_writeField1_puts:
  "proto_ok P toks \<Longrightarrow> BytesRsp_ok p \<Longrightarrow> puts toks (BytesRsp_writeField1 P p) (field_toks (1, STRING, [TBin (brData p)]))"
  unfolding BytesRsp_writeField1_def by (rule puts_field) (auto simp: BytesRsp_ok_def head_ok_def ttypes)

lemma BytesRsp_puts:
  assumes P: "proto_ok P toks" and ok: "BytesRsp_ok p"
  shows "puts toks (BytesRsp_Write P (Some p)) (BytesRsp_toks p)"
  unfolding BytesRsp_Write_def BytesRsp_toks_def option.simps
  by (rule puts_struct [OF P])
    (use puts_text [OF BytesRsp_writeField1_puts [OF P ok]] in simp)

lemma BytesRsp_ReadField1_reads:
  "proto_ok P toks \<Longrightarrow> size_ok v \<Longrightarrow> reads toks (BytesRsp_ReadField1 P) [TBin v] (\<lambda>p. p\<lparr>brData := v\<rparr>)"
  unfolding BytesRsp_ReadField1_def by (rule reads_value [OF proto_okD(6)])

lemma BytesRsp_reads:
  assumes P: "proto_ok P toks" and ok: "BytesRsp_ok p" and s: "toks s = BytesRsp_toks p @ ts"
  shows "\<exists>s1. BytesRsp_Read P NewBytesRsp s = Some (s1, p, None) \<and> toks s1 = ts"
proof -
  let ?fs = "[(1 :: int, STRING, [TBin (brData p)], \<lambda>q :: bytes_rsp. q\<lparr>brData := brData p\<rparr>)]"
  have "reads toks (BytesRsp_Read P) (struct_toks (map (\<lambda>(fid, t, v, f). (fid, t, v)) ?fs)) (fold (\<lambda>(fid, t, v, f). f) ?fs)"
    unfolding BytesRsp_Read_def
    by (rule read_struct_toks [OF P]) (use ok in \<open>simp add: BytesRsp_ok_def head_ok_def reads_table [OF _ BytesRsp_ReadField1_reads [OF P]] ttypes\<close>)
  from readsD [OF this, of s ts NewBytesRsp p] s show ?thesis by (cases p) (simp add: BytesRsp_toks_def NewBytesRsp_def)
qed

interpretation BytesRsp_proto: proto_codec BytesRsp_Write BytesRsp_Read NewBytesRsp BytesRsp_toks BytesRsp_ok
  by unfold_locales (rule BytesRsp_puts, assumption+, rule BytesRsp_reads)

lemma BytesRsp_writeField1_bytes:
  "same_wire P T out \<Longrightarrow> BytesRsp_ok p \<Longrightarrow> puts out (BytesRsp_writeField1 P p) (BytesRsp_fastWriteField1 T p)"
  unfolding BytesRsp_writeField1_def BytesRsp_fastWriteField1_def
  by (rule wire_field) (auto simp: BytesRsp_ok_def head_ok_def ttypes intro: same_wireD)

lemma BytesRsp_same_bytes:
  assumes W: "same_wire P T out" and q: "pred_option BytesRsp_ok q"
  shows "puts out (BytesRsp_Write P q) (BytesRsp_FastWriteNocopy T q)"
proof (cases q)
  case None
  then show ?thesis
    using wire_struct [OF W puts_skip] by (simp add: BytesRsp_Write_def BytesRsp_FastWriteNocopy_def)
next
  case (Some p)
  then have ok: "BytesRsp_ok p" using q by simp
  show ?thesis
    unfolding Some BytesRsp_Write_def BytesRsp_FastWriteNocopy_def option.simps
    by (rule wire_struct [OF W])
      (use puts_text [OF BytesRsp_writeField1_bytes [OF W ok]] in simp)
qed

lemma BytesRsp_DeepEqual_iff:
  "ptrs_ok same p q \<Longrightarrow> BytesRsp_DeepEqual same p q \<longleftrightarrow> p = q"
  by (cases p; cases q) (auto simp: ptrs_ok_def BytesRsp_DeepEqual_def BytesRsp_Field1DeepEqual_def)

section \<open>JoinGroupReq\<close>

definition JoinGroupReq_toks :: "join_group_req \<Rightarrow> ptoken list" where
  "JoinGroupReq_toks p = struct_toks [(1, STRING, [TStr (jgqUid p)]), (2, STRING, [TStr (jgqTgid p)])]"

lemma JoinGroupReq_writeField1_puts:
  "proto_ok P toks \<Longrightarrow> JoinGroupReq_ok p \<Longrightarrow> puts toks (JoinGroupReq_writeField1 P p) (field_toks (1, STRING, [TStr (jgqUid p)]))"
  unfolding JoinGroupReq_writeField1_def by (rule puts_field) (auto simp: JoinGroupReq_ok_def head_ok_def ttypes)

lemma JoinGroupReq_writeField2_puts:
  "proto_ok P toks \<Longrightarrow> JoinGroupReq_ok p \<Longrightarrow> puts toks (JoinGroupReq_writeField2 P p) (field_toks (2, STRING, [TStr (jgqTgid p)]))"
  unfolding JoinGroupReq_writeField2_def by (rule puts_field) (auto simp: JoinGroupReq_ok_def head_ok_def ttypes)

lemma JoinGroupReq_puts:
  assumes P: "proto_ok P toks" and ok: "JoinGroupReq_ok p"
  shows "puts toks (JoinGroupReq_Write P (Some p)) (JoinGroupReq_toks p)"
  unfolding JoinGroupReq_Write_def JoinGroupReq_toks_def option.simps
  by (rule puts_struct [OF P])
    (use puts_seq [OF puts_text [OF JoinGroupReq_writeField1_puts [OF P ok]]
      puts_text [OF JoinGroupReq_writeField2_puts [OF P ok]]] in simp)

lemma JoinGroupReq_ReadField1_reads:
  "proto_ok P toks \<Longrightarrow> size_ok v \<Longrightarrow> reads toks (JoinGroupReq_ReadField1 P) [TStr v] (\<lambda>p. p\<lparr>jgqUid := v\<rparr>)"
  unfolding JoinGroupReq_ReadField1_def by (rule reads_value [OF proto_okD(5)])

lemma JoinGroupReq_ReadField2_reads:
  "proto_ok P toks \<Longrightarrow> size_ok v \<Longrightarrow> reads toks (JoinGroupReq_ReadField2 P) [TStr v] (\<lambda>p. p\<lparr>jgqTgid := v\<rparr>)"
  unfolding JoinGroupReq_ReadField2_def by (rule reads_value [OF proto_okD(5)])

lemma JoinGroupReq_reads:
  assumes P: "proto_ok P toks" and ok: "JoinGroupReq_ok p" and s: "toks s = JoinGroupReq_toks p @ ts"
  shows "\<exists>s1. JoinGroupReq_Read P NewJoinGroupReq s = Some (s1, p, None) \<and> toks s1 = ts"
proof -
  let ?fs = "[(1 :: int, STRING, [TStr (jgqUid p)], \<lambda>q :: join_group_req. q\<lparr>jgqUid := jgqUid p\<rparr>),
       (2 :: int, STRING, [TStr (jgqTgid p)], \<lambda>q :: join_group_req. q\<lparr>jgqTgid := jgqTgid p\<rparr>)]"
  have "reads toks (JoinGroupReq_Read P) (struct_toks (map (\<lambda>(fid, t, v, f). (fid, t, v)) ?fs)) (fold (\<lambda>(fid, t, v, f). f) ?fs)"
    unfolding JoinGroupReq_Read_def
    by (rule read_struct_toks [OF P]) (use ok in \<open>simp add: JoinGroupReq_ok_def head_ok_def reads_table [OF _ JoinGroupReq_ReadField1_reads [OF P]] reads_table [OF _ JoinGroupReq_ReadField2_reads [OF P]] ttypes\<close>)
  from readsD [OF this, of s ts NewJoinGroupReq p] s show ?thesis by (cases p) (simp add: JoinGroupReq_toks_def NewJoinGroupReq_def)
qed

interpretation JoinGroupReq_proto: proto_codec JoinGroupReq_Write JoinGroupReq_Read NewJoinGroupReq JoinGroupReq_toks JoinGroupReq_ok
  by unfold_locales (rule JoinGroupReq_puts, assumption+, rule JoinGroupReq_reads)

lemma JoinGroupReq_writeField1_bytes:
  "same_wire P T out \<Longrightarrow> JoinGroupReq_ok p \<Longrightarrow> puts out (JoinGroupReq_writeField1 P p) (JoinGroupReq_fastWriteField1 T p)"
  unfolding JoinGroupReq_writeField1_def JoinGroupReq_fastWriteField1_def
  by (rule wire_field) (auto simp: JoinGroupReq_ok_def head_ok_def ttypes intro: same_wireD)

lemma JoinGroupReq_writeField2_bytes:
  "same_wire P T out \<Longrightarrow> JoinGroupReq_ok p \<Longrightarrow> puts out (JoinGroupReq_writeField2 P p) (JoinGroupReq_fastWriteField2 T p)"
  unfolding JoinGroupReq_writeField2_def JoinGroupReq_fastWriteField2_def
  by (rule wire_field) (auto simp: JoinGroupReq_ok_def head_ok_def ttypes intro: same_wireD)

lemma JoinGroupReq_same_bytes:
  assumes W: "same_wire P T out" and q: "pred_option JoinGroupReq_ok q"
  shows "puts out (JoinGroupReq_Write P q) (JoinGroupReq_FastWriteNocopy T q)"
proof (cases q)
  case None
  then show ?thesis
    using wire_struct [OF W puts_skip] by (simp add: JoinGroupReq_Write_def JoinGroupReq_FastWriteNocopy_def)
next
  case (Some p)
  then have ok: "JoinGroupReq_ok p" using q by simp
  show ?thesis
    unfolding Some JoinGroupReq_Write_def JoinGroupReq_FastWriteNocopy_def option.simps
    by (rule wire_struct [OF W])
      (use puts_seq [OF puts_text [OF JoinGroupReq_writeField1_bytes [OF W ok]]
      puts_text [OF JoinGroupReq_writeField2_bytes [OF W ok]]] in simp)
qed

lemma JoinGroupReq_DeepEqual_iff:
  "ptrs_ok same p q \<Longrightarrow> JoinGroupReq_DeepEqual same p q \<longleftrightarrow> p = q"
  by (cases p; cases q) (auto simp: ptrs_ok_def JoinGroupReq_DeepEqual_def JoinGroupReq_Field1DeepEqual_def JoinGroupReq_Field2DeepEqual_def)

section \<open>JoinGroupRes\<close>

definition JoinGroupRes_toks :: "join_group_res \<Rightarrow> ptoken list" where
  "JoinGroupRes_toks p = struct_toks [(1, BOOL, [TBool (jgrRes p)])]"

lemma JoinGroupRes_writeField1_puts:
  "proto_ok P toks \<Longrightarrow> JoinGroupRes_ok p \<Longrightarrow> puts toks (JoinGroupRes_writeField1 P p) (field_toks (1, BOOL, [TBool (jgrRes p)]))"
  unfolding JoinGroupRes_writeField1_def by (rule puts_field) (auto simp: JoinGroupRes_ok_def head_ok_def ttypes)

lemma JoinGroupRes_puts:
  assumes P: "proto_ok P toks" and ok: "JoinGroupRes_ok p"
  shows "puts toks (JoinGroupRes_Write P (Some p)) (JoinGroupRes_toks p)"
  unfolding JoinGroupRes_Write_def JoinGroupRes_toks_def option.simps
  by (rule puts_struct [OF P])
    (use puts_text [OF JoinGroupRes_writeField1_puts [OF P ok]] in simp)

lemma JoinGroupRes_ReadField1_reads:
  "proto_ok P toks \<Longrightarrow> reads toks (JoinGroupRes_ReadField1 P) [TBool v] (\<lambda>p. p\<lparr>jgrRes := v\<rparr>)"
  unfolding JoinGroupRes_ReadField1_def by (rule reads_value [OF proto_okD(8)])

lemma JoinGroupRes_reads:
  assumes P: "proto_ok P toks" and ok: "JoinGroupRes_ok p" and s: "toks s = JoinGroupRes_toks p @ ts"
  shows "\<exists>s1. JoinGroupRes_Read P NewJoinGroupRes s = Some (s1, p, None) \<and> toks s1 = ts"
proof -
  let ?fs = "[(1 :: int, BOOL, [TBool (jgrRes p)], \<lambda>q :: join_group_res. q\<lparr>jgrRes := jgrRes p\<rparr>)]"
  have "reads toks (JoinGroupRes_Read P) (struct_toks (map (\<lambda>(fid, t, v, f). (fid, t, v)) ?fs)) (fold (\<lambda>(fid, t, v, f). f) ?fs)"
    unfolding JoinGroupRes_Read_def
    by (rule read_struct_toks [OF P]) (use ok in \<open>simp add: JoinGroupRes_ok_def head_ok_def reads_table [OF _ JoinGroupRes_ReadField1_reads [OF P]] ttypes\<close>)
  from readsD [OF this, of s ts NewJoinGroupRes p] s show ?thesis by (cases p) (simp add: JoinGroupRes_toks_def NewJoinGroupRes_def)
qed

interpretation JoinGroupRes_proto: proto_codec JoinGroupRes_Write JoinGroupRes_Read NewJoinGroupRes JoinGroupRes_toks JoinGroupRes_ok
  by unfold_locales (rule JoinGroupRes_puts, assumption+, rule JoinGroupRes_reads)

lemma JoinGroupRes_writeField1_bytes:
  "same_wire P T out \<Longrightarrow> JoinGroupRes_ok p \<Longrightarrow> puts out (JoinGroupRes_writeField1 P p) (JoinGroupRes_fastWriteField1 T p)"
  unfolding JoinGroupRes_writeField1_def JoinGroupRes_fastWriteField1_def
  by (rule wire_field) (auto simp: JoinGroupRes_ok_def head_ok_def ttypes intro: same_wireD)

lemma JoinGroupRes_same_bytes:
  assumes W: "same_wire P T out" and q: "pred_option JoinGroupRes_ok q"
  shows "puts out (JoinGroupRes_Write P q) (JoinGroupRes_FastWriteNocopy T q)"
proof (cases q)
  case None
  then show ?thesis
    using wire_struct [OF W puts_skip] by (simp add: JoinGroupRes_Write_def JoinGroupRes_FastWriteNocopy_def)
next
  case (Some p)
  then have ok: "JoinGroupRes_ok p" using q by simp
  show ?thesis
    unfolding Some JoinGroupRes_Write_def JoinGroupRes_FastWriteNocopy_def option.simps
    by (rule wire_struct [OF W])
      (use puts_text [OF JoinGroupRes_writeField1_bytes [OF W ok]] in simp)
qed

lemma JoinGroupRes_DeepEqual_iff:
  "ptrs_ok same p q \<Longrightarrow> JoinGroupRes_DeepEqual same p q \<longleftrightarrow> p = q"
  by (cases p; cases q) (auto simp: ptrs_ok_def JoinGroupRes_DeepEqual_def JoinGroupRes_Field1DeepEqual_def)

end
