(* ===== verification/KitexAccess.thy ===== *)
theory KitexAccess
  imports KitexApi
begin

text \<open>
  The accessors of the generated rpc structs (\<^verbatim>\<open>api.go\<close>, and at the end of \<^verbatim>\<open>k-api.go\<close> the
  two that the rpc library calls through an interface). A value of type \<^verbatim>\<open>interface{}\<close> holds
  a pointer to one of the structs or nothing; a type assertion that does not fit panics,
  which is \<open>None\<close>.
\<close>

section \<open>Interface values\<close>

datatype rpc_any =
    ANone
  | ARequest "rpc_request option"
  | AResponse "rpc_response option"
  | ASendMsgReq "send_msg_req option"
  | ASendMsgRsp "send_msg_rsp option"
  | ASendMsgByTgidReq "send_msg_by_tgid_req option"
  | AUserIdReq "user_id_req option"
  | AStopUserClientRsp "stop_user_client_rsp option"
  | ABytesRsp "bytes_rsp option"
  | AJoinGroupReq "join_group_req option"
  | AJoinGroupRes "join_group_res option"

section \<open>Request\<close>

definition Request_GetMessage :: "rpc_request \<Rightarrow> string" where
  "Request_GetMessage p = rqMessage p"

definition Request_SetMessage :: "string \<Rightarrow> rpc_request \<Rightarrow> rpc_request" where
  "Request_SetMessage val p = p\<lparr>rqMessage := val\<rparr>"

section \<open>Response\<close>

definition Response_GetMessage :: "rpc_response \<Rightarrow> string" where
  "Response_GetMessage p = rsMessage p"

definition Response_SetMessage :: "string \<Rightarrow> rpc_response \<Rightarrow> rpc_response" where
  "Response_SetMessage val p = p\<lparr>rsMessage := val\<rparr>"

section \<open>SendMsgReq\<close>

definition SendMsgReq_GetUid :: "send_msg_req \<Rightarrow> string" where
  "SendMsgReq_GetUid p = smqUid p"

definition SendMsgReq_SetUid :: "string \<Rightarrow> send_msg_req \<Rightarrow> send_msg_req" where
  "SendMsgReq_SetUid val p = p\<lparr>smqUid := val\<rparr>"

definition SendMsgReq_GetMsg :: "send_msg_req \<Rightarrow> bytes" where
  "SendMsgReq_GetMsg p = smqMsg p"

definition SendMsgReq_SetMsg :: "bytes \<Rightarrow> send_msg_req \<Rightarrow> send_msg_req" where
  "SendMsgReq_SetMsg val p = p\<lparr>smqMsg := val\<rparr>"

section \<open>SendMsgRsp\<close>

definition SendMsgRsp_GetRetCode :: "send_msg_rsp \<Rightarrow> 32 word" where
  "SendMsgRsp_GetRetCode p = smrRetCode p"

definition SendMsgRsp_SetRetCode :: "32 word \<Rightarrow> send_msg_rsp \<Rightarrow> send_msg_rsp" where
  "SendMsgRsp_SetRetCode val p = p\<lparr>smrRetCode := val\<rparr>"

section \<open>SendMsgByTgidReq\<close>

definition SendMsgByTgidReq_GetUid :: "send_msg_by_tgid_req \<Rightarrow> string" where
  "SendMsgByTgidReq_GetUid p = sbtUid p"

definition SendMsgByTgidReq_SetUid :: "string \<Rightarrow> send_msg_by_tgid_req \<Rightarrow> send_msg_by_tgid_req" where
  "SendMsgByTgidReq_SetUid val p = p\<lparr>sbtUid := val\<rparr>"

definition SendMsgByTgidReq_GetTgid :: "send_msg_by_tgid_req \<Rightarrow> string" where
  "SendMsgByTgidReq_GetTgid p = sbtTgid p"

definition SendMsgByTgidReq_SetTgid :: "string \<Rightarrow> send_msg_by_tgid_req \<Rightarrow> send_msg_by_tgid_req" where
  "SendMsgByTgidReq_SetTgid val p = p\<lparr>sbtTgid := val\<rparr>"

definition SendMsgByTgidReq_GetMsg :: "send_msg_by_tgid_req \<Rightarrow> bytes" where
  "SendMsgByTgidReq_GetMsg p = sbtMsg p"

definition SendMsgByTgidReq_SetMsg :: "bytes \<Rightarrow> send_msg_by_tgid_req \<Rightarrow> send_msg_by_tgid_req" where
  "SendMsgByTgidReq_SetMsg val p = p\<lparr>sbtMsg := val\<rparr>"

section \<open>UserIdReq\<close>

definition UserIdReq_GetUid :: "user_id_req \<Rightarrow> string" where
  "UserIdReq_GetUid p = uirUid p"

definition UserIdReq_SetUid :: "string \<Rightarrow> user_id_req \<Rightarrow> user_id_req" where
  "UserIdReq_SetUid val p = p\<lparr>uirUid := val\<rparr>"

section \<open>StopUserClientRsp\<close>

definition StopUserClientRsp_GetRes :: "stop_user_client_rsp \<Rightarrow> bool" where
  "StopUserClientRsp_GetRes p = sucRes p"

definition StopUserClientRsp_SetRes :: "bool \<Rightarrow> stop_user_client_rsp \<Rightarrow> stop_user_client_rsp" where
  "StopUserClientRsp_SetRes val p = p\<lparr>sucRes := val\<rparr>"

section \<open>BytesRsp\<close>

definition BytesRsp_GetData :: "bytes_rsp \<Rightarrow> bytes" where
  "BytesRsp_GetData p = brData p"

definition BytesRsp_SetData :: "bytes \<Rightarrow> bytes_rsp \<Rightarrow> bytes_rsp" where
  "BytesRsp_SetData val p = p\<lparr>brData := val\<rparr>"

section \<open>JoinGroupReq\<close>

definition JoinGroupReq_GetUid :: "join_group_req \<Rightarrow> string" where
  "JoinGroupReq_GetUid p = jgqUid p"

definition JoinGroupReq_SetUid :: "string \<Rightarrow> join_group_req \<Rightarrow> join_group_req" where
  "JoinGroupReq_SetUid val p = p\<lparr>jgqUid := val\<rparr>"

definition JoinGroupReq_GetTgid :: "join_group_req \<Rightarrow> string" where
  "JoinGroupReq_GetTgid p = jgqTgid p"

definition JoinGroupReq_SetTgid :: "string \<Rightarrow> join_group_req \<Rightarrow> join_group_req" where
  "JoinGroupReq_SetTgid val p = p\<lparr>jgqTgid := val\<rparr>"

section \<open>JoinGroupRes\<close>

definition JoinGroupRes_GetRes :: "join_group_res \<Rightarrow> bool" where
  "JoinGroupRes_GetRes p = jgrRes p"

definition JoinGroupRes_SetRes :: "bool \<Rightarrow> join_group_res \<Rightarrow> join_group_res" where
  "JoinGroupRes_SetRes val p = p\<lparr>jgrRes := val\<rparr>"

section \<open>ImRpcHelloArgs\<close>

definition ImRpcHelloArgs_IsSetReq :: "rpc_request rpc_args \<Rightarrow> bool" where
  "ImRpcHelloArgs_IsSetReq p \<longleftrightarrow> Req p \<noteq> None"

definition ImRpcHelloArgs_Req_DEFAULT :: "rpc_request option" where
  "ImRpcHelloArgs_Req_DEFAULT = None"

definition ImRpcHelloArgs_GetReq :: "rpc_request rpc_args \<Rightarrow> rpc_request option" where
  "ImRpcHelloArgs_GetReq p = (if \<not> ImRpcHelloArgs_IsSetReq p then ImRpcHelloArgs_Req_DEFAULT else Req p)"

definition ImRpcHelloArgs_SetReq :: "rpc_request option \<Rightarrow> rpc_request rpc_args \<Rightarrow> rpc_request rpc_args" where
  "ImRpcHelloArgs_SetReq val p = p\<lparr>Req := val\<rparr>"

definition ImRpcHelloArgs_GetFirstArgument :: "rpc_request rpc_args \<Rightarrow> rpc_any" where
  "ImRpcHelloArgs_GetFirstArgument p = ARequest (Req p)"

section \<open>ImRpcHelloResult\<close>

definition ImRpcHelloResult_IsSetSuccess :: "rpc_response rpc_result \<Rightarrow> bool" where
  "ImRpcHelloResult_IsSetSuccess p \<longleftrightarrow> Success p \<noteq> None"

definition ImRpcHelloResult_Success_DEFAULT :: "rpc_response option" where
  "ImRpcHelloResult_Success_DEFAULT = None"

definition ImRpcHelloResult_GetSuccess :: "rpc_response rpc_result \<Rightarrow> rpc_response option" where
  "ImRpcHelloResult_GetSuccess p = (if \<not> ImRpcHelloResult_IsSetSuccess p then ImRpcHelloResult_Success_DEFAULT else Success p)"

definition ImRpcHelloResult_SetSuccess :: "rpc_any \<Rightarrow> rpc_response rpc_result \<Rightarrow> rpc_response rpc_result option" where
  "ImRpcHelloResult_SetSuccess x p = (case x of AResponse v \<Rightarrow> Some (p\<lparr>Success := v\<rparr>) | _ \<Rightarrow> None)"

definition ImRpcHelloResult_GetResult :: "rpc_response rpc_result \<Rightarrow> rpc_any" where
  "ImRpcHelloResult_GetResult p = AResponse (Success p)"

section \<open>ImRpcSendMsgToUserArgs\<close>

definition ImRpcSendMsgToUserArgs_IsSetReq :: "send_msg_req rpc_args \<Rightarrow> bool" where
  "ImRpcSendMsgToUserArgs_IsSetReq p \<longleftrightarrow> Req p \<noteq> None"

definition ImRpcSendMsgToUserArgs_Req_DEFAULT :: "send_msg_req option" where
  "ImRpcSendMsgToUserArgs_Req_DEFAULT = None"

definition ImRpcSendMsgToUserArgs_GetReq :: "send_msg_req rpc_args \<Rightarrow> send_msg_req option" where
  "ImRpcSendMsgToUserArgs_GetReq p = (if \<not> ImRpcSendMsgToUserArgs_IsSetReq p then ImRpcSendMsgToUserArgs_Req_DEFAULT else Req p)"

definition ImRpcSendMsgToUserArgs_SetReq :: "send_msg_req option \<Rightarrow> send_msg_req rpc_args \<Rightarrow> send_msg_req rpc_args" where
  "ImRpcSendMsgToUserArgs_SetReq val p = p\<lparr>Req := val\<rparr>"

definition ImRpcSendMsgToUserArgs_GetFirstArgument :: "send_msg_req rpc_args \<Rightarrow> rpc_any" where
  "ImRpcSendMsgToUserArgs_GetFirstArgument p = ASendMsgReq (Req p)"

section \<open>ImRpcSendMsgToUserResult\<close>

definition ImRpcSendMsgToUserResult_IsSetSuccess :: "send_msg_rsp rpc_result \<Rightarrow> bool" where
  "ImRpcSendMsgToUserResult_IsSetSuccess p \<longleftrightarrow> Success p \<noteq> None"

definition ImRpcSendMsgToUserResult_Success_DEFAULT :: "send_msg_rsp option" where
  "ImRpcSendMsgToUserResult_Success_DEFAULT = None"

definition ImRpcSendMsgToUserResult_GetSuccess :: "send_msg_rsp rpc_result \<Rightarrow> send_msg_rsp option" where
  "ImRpcSendMsgToUserResult_GetSuccess p = (if \<not> ImRpcSendMsgToUserResult_IsSetSuccess p then ImRpcSendMsgToUserResult_Success_DEFAULT else Success p)"

definition ImRpcSendMsgToUserResult_SetSuccess :: "rpc_any \<Rightarrow> send_msg_rsp rpc_result \<Rightarrow> send_msg_rsp rpc_result option" where
  "ImRpcSendMsgToUserResult_SetSuccess x p = (case x of ASendMsgRsp v \<Rightarrow> Some (p\<lparr>Success := v\<rparr>) | _ \<Rightarrow> None)"

definition ImRpcSendMsgToUserResult_GetResult :: "send_msg_rsp rpc_result \<Rightarrow> rpc_any" where
  "ImRpcSendMsgToUserResult_GetResult p = ASendMsgRsp (Success p)"

section \<open>ImRpcSendMsgToUserByTgidArgs\<close>

definition ImRpcSendMsgToUserByTgidArgs_IsSetReq :: "send_msg_by_tgid_req rpc_args \<Rightarrow> bool" where
  "ImRpcSendMsgToUserByTgidArgs_IsSetReq p \<longleftrightarrow> Req p \<noteq> None"

definition ImRpcSendMsgToUserByTgidArgs_Req_DEFAULT :: "send_msg_by_tgid_req option" where
  "ImRpcSendMsgToUserByTgidArgs_Req_DEFAULT = None"

definition ImRpcSendMsgToUserByTgidArgs_GetReq :: "send_msg_by_tgid_req rpc_args \<Rightarrow> send_msg_by_tgid_req option" where
  "ImRpcSendMsgToUserByTgidArgs_GetReq p = (if \<not> ImRpcSendMsgToUserByTgidArgs_IsSetReq p then ImRpcSendMsgToUserByTgidArgs_Req_DEFAULT else Req p)"

definition ImRpcSendMsgToUserByTgidArgs_SetReq :: "send_msg_by_tgid_req option \<Rightarrow> send_msg_by_tgid_req rpc_args \<Rightarrow> send_msg_by_tgid_req rpc_args" where
  "ImRpcSendMsgToUserByTgidArgs_SetReq val p = p\<lparr>Req := val\<rparr>"

definition ImRpcSendMsgToUserByTgidArgs_GetFirstArgument :: "send_msg_by_tgid_req rpc_args \<Rightarrow> rpc_any" where
  "ImRpcSendMsgToUserByTgidArgs_GetFirstArgument p = ASendMsgByTgidReq (Req p)"

section \<open>ImRpcSendMsgToUserByTgidResult\<close>

definition ImRpcSendMsgToUserByTgidResult_IsSetSuccess :: "send_msg_rsp rpc_result \<Rightarrow> bool" where
  "ImRpcSendMsgToUserByTgidResult_IsSetSuccess p \<longleftrightarrow> Success p \<noteq> None"

definition ImRpcSendMsgToUserByTgidResult_Success_DEFAULT :: "send_msg_rsp option" where
  "ImRpcSendMsgToUserByTgidResult_Success_DEFAULT = None"

definition ImRpcSendMsgToUserByTgidResult_GetSuccess :: "send_msg_rsp rpc_result \<Rightarrow> send_msg_rsp option" where
  "ImRpcSendMsgToUserByTgidResult_GetSuccess p = (if \<not> ImRpcSendMsgToUserByTgidResult_IsSetSuccess p then ImRpcSendMsgToUserByTgidResult_Success_DEFAULT else Success p)"

definition ImRpcSendMsgToUserByTgidResult_SetSuccess :: "rpc_any \<Rightarrow> send_msg_rsp rpc_result \<Rightarrow> send_msg_rsp rpc_result option" where
  "ImRpcSendMsgToUserByTgidResult_SetSuccess x p = (case x of ASendMsgRsp v \<Rightarrow> Some (p\<lparr>Success := v\<rparr>) | _ \<Rightarrow> None)"

definition ImRpcSendMsgToUserByTgidResult_GetResult :: "send_msg_rsp rpc_result \<Rightarrow> rpc_any" where
  "ImRpcSendMsgToUserByTgidResult_GetResult p = ASendMsgRsp (Success p)"

section \<open>ImRpcStopUserClientArgs\<close>

definition ImRpcStopUserClientArgs_IsSetReq :: "user_id_req rpc_args \<Rightarrow> bool" where
  "ImRpcStopUserClientArgs_IsSetReq p \<longleftrightarrow> Req p \<noteq> None"

definition ImRpcStopUserClientArgs_Req_DEFAULT :: "user_id_req option" where
  "ImRpcStopUserClientArgs_Req_DEFAULT = None"

definition ImRpcStopUserClientArgs_GetReq :: "user_id_req rpc_args \<Rightarrow> user_id_req option" where
  "ImRpcStopUserClientArgs_GetReq p = (if \<not> ImRpcStopUserClientArgs_IsSetReq p then ImRpcStopUserClientArgs_Req_DEFAULT else Req p)"

definition ImRpcStopUserClientArgs_SetReq :: "user_id_req option \<Rightarrow> user_id_req rpc_args \<Rightarrow> user_id_req rpc_args" where
  "ImRpcStopUserClientArgs_SetReq val p = p\<lparr>Req := val\<rparr>"

definition ImRpcStopUserClientArgs_GetFirstArgument :: "user_id_req rpc_args \<Rightarrow> rpc_any" where
  "ImRpcStopUserClientArgs_GetFirstArgument p = AUserIdReq (Req p)"

section \<open>ImRpcStopUserClientResult\<close>

definition ImRpcStopUserClientResult_IsSetSuccess :: "stop_user_client_rsp rpc_result \<Rightarrow> bool" where
  "ImRpcStopUserClientResult_IsSetSuccess p \<longleftrightarrow> Success p \<noteq> None"

definition ImRpcStopUserClientResult_Success_DEFAULT :: "stop_user_client_rsp option" where
  "ImRpcStopUserClientResult_Success_DEFAULT = None"

definition ImRpcStopUserClientResult_GetSuccess :: "stop_user_client_rsp rpc_result \<Rightarrow> stop_user_client_rsp option" where
  "ImRpcStopUserClientResult_GetSuccess p = (if \<not> ImRpcStopUserClientResult_IsSetSuccess p then ImRpcStopUserClientResult_Success_DEFAULT else Success p)"

definition ImRpcStopUserClientResult_SetSuccess :: "rpc_any \<Rightarrow> stop_user_client_rsp rpc_result \<Rightarrow> stop_user_client_rsp rpc_result option" where
  "ImRpcStopUserClientResult_SetSuccess x p = (case x of AStopUserClientRsp v \<Rightarrow> Some (p\<lparr>Success := v\<rparr>) | _ \<Rightarrow> None)"

definition ImRpcStopUserClientResult_GetResult :: "stop_user_client_rsp rpc_result \<Rightarrow> rpc_any" where
  "ImRpcStopUserClientResult_GetResult p = AStopUserClientRsp (Success p)"

section \<open>ImRpcGetSysInfoArgs\<close>

definition ImRpcGetSysInfoArgs_GetFirstArgument :: "unit \<Rightarrow> rpc_any" where
  "ImRpcGetSysInfoArgs_GetFirstArgument p = ANone"

section \<open>ImRpcGetSysInfoResult\<close>

definition ImRpcGetSysInfoResult_IsSetSuccess :: "bytes_rsp rpc_result \<Rightarrow> bool" where
  "ImRpcGetSysInfoResult_IsSetSuccess p \<longleftrightarrow> Success p \<noteq> None"

definition ImRpcGetSysInfoResult_Success_DEFAULT :: "bytes_rsp option" where
  "ImRpcGetSysInfoResult_Success_DEFAULT = None"

definition ImRpcGetSysInfoResult_GetSuccess :: "bytes_rsp rpc_result \<Rightarrow> bytes_rsp option" where
  "ImRpcGetSysInfoResult_GetSuccess p = (if \<not> ImRpcGetSysInfoResult_IsSetSuccess p then ImRpcGetSysInfoResult_Success_DEFAULT else Success p)"

definition ImRpcGetSysInfoResult_SetSuccess :: "rpc_any \<Rightarrow> bytes_rsp rpc_result \<Rightarrow> bytes_rsp rpc_result option" where
  "ImRpcGetSysInfoResult_SetSuccess x p = (case x of ABytesRsp v \<Rightarrow> Some (p\<lparr>Success := v\<rparr>) | _ \<Rightarrow> None)"

definition ImRpcGetSysInfoResult_GetResult :: "bytes_rsp rpc_result \<Rightarrow> rpc_any" where
  "ImRpcGetSysInfoResult_GetResult p = ABytesRsp (Success p)"

section \<open>ImRpcJoinGroupArgs\<close>

definition ImRpcJoinGroupArgs_IsSetReq :: "join_group_req rpc_args \<Rightarrow> bool" where
  "ImRpcJoinGroupArgs_IsSetReq p \<longleftrightarrow> Req p \<noteq> None"

definition ImRpcJoinGroupArgs_Req_DEFAULT :: "join_group_req option" where
  "ImRpcJoinGroupArgs_Req_DEFAULT = None"

definition ImRpcJoinGroupArgs_GetReq :: "join_group_req rpc_args \<Rightarrow> join_group_req option" where
  "ImRpcJoinGroupArgs_GetReq p = (if \<not> ImRpcJoinGroupArgs_IsSetReq p then ImRpcJoinGroupArgs_Req_DEFAULT else Req p)"

definition ImRpcJoinGroupArgs_SetReq :: "join_group_req option \<Rightarrow> join_group_req rpc_args \<Rightarrow> join_group_req rpc_args" where
  "ImRpcJoinGroupArgs_SetReq val p = p\<lparr>Req := val\<rparr>"

definition ImRpcJoinGroupArgs_GetFirstArgument :: "join_group_req rpc_args \<Rightarrow> rpc_any" where
  "ImRpcJoinGroupArgs_GetFirstArgument p = AJoinGroupReq (Req p)"

section \<open>ImRpcJoinGroupResult\<close>

definition ImRpcJoinGroupResult_IsSetSuccess :: "join_group_res rpc_result \<Rightarrow> bool" where
  "ImRpcJoinGroupResult_IsSetSuccess p \<longleftrightarrow> Success p \<noteq> None"

definition ImRpcJoinGroupResult_Success_DEFAULT :: "join_group_res option" where
  "ImRpcJoinGroupResult_Success_DEFAULT = None"

definition ImRpcJoinGroupResult_GetSuccess :: "join_group_res rpc_result \<Rightarrow> join_group_res option" where
  "ImRpcJoinGroupResult_GetSuccess p = (if \<not> ImRpcJoinGroupResult_IsSetSuccess p then ImRpcJoinGroupResult_Success_DEFAULT else Success p)"

definition ImRpcJoinGroupResult_SetSuccess :: "rpc_any \<Rightarrow> join_group_res rpc_result \<Rightarrow> join_group_res rpc_result option" where
  "ImRpcJoinGroupResult_SetSuccess x p = (case x of AJoinGroupRes v \<Rightarrow> Some (p\<lparr>Success := v\<rparr>) | _ \<Rightarrow> None)"

definition ImRpcJoinGroupResult_GetResult :: "join_group_res rpc_result \<Rightarrow> rpc_any" where
  "ImRpcJoinGroupResult_GetResult p = AJoinGroupRes (Success p)"

section \<open>ImRpcOutGroupArgs\<close>

definition ImRpcOutGroupArgs_IsSetReq :: "join_group_req rpc_args \<Rightarrow> bool" where
  "ImRpcOutGroupArgs_IsSetReq p \<longleftrightarrow> Req p \<noteq> None"

definition ImRpcOutGroupArgs_Req_DEFAULT :: "join_group_req option" where
  "ImRpcOutGroupArgs_Req_DEFAULT = None"

definition ImRpcOutGroupArgs_GetReq :: "join_group_req rpc_args \<Rightarrow> join_group_req option" where
  "ImRpcOutGroupArgs_GetReq p = (if \<not> ImRpcOutGroupArgs_IsSetReq p then ImRpcOutGroupArgs_Req_DEFAULT else Req p)"

definition ImRpcOutGroupArgs_SetReq :: "join_group_req option \<Rightarrow> join_group_req rpc_args \<Rightarrow> join_group_req rpc_args" where
  "ImRpcOutGroupArgs_SetReq val p = p\<lparr>Req := val\<rparr>"

definition ImRpcOutGroupArgs_GetFirstArgument :: "join_group_req rpc_args \<Rightarrow> rpc_any" where
  "ImRpcOutGroupArgs_GetFirstArgument p = AJoinGroupReq (Req p)"

section \<open>ImRpcOutGroupResult\<close>

definition ImRpcOutGroupResult_IsSetSuccess :: "join_group_res rpc_result \<Rightarrow> bool" where
  "ImRpcOutGroupResult_IsSetSuccess p \<longleftrightarrow> Success p \<noteq> None"

definition ImRpcOutGroupResult_Success_DEFAULT :: "join_group_res option" where
  "ImRpcOutGroupResult_Success_DEFAULT = None"

definition ImRpcOutGroupResult_GetSuccess :: "join_group_res rpc_result \<Rightarrow> join_group_res option" where
  "ImRpcOutGroupResult_GetSuccess p = (if \<not> ImRpcOutGroupResult_IsSetSuccess p then ImRpcOutGroupResult_Success_DEFAULT else Success p)"

definition ImRpcOutGroupResult_SetSuccess :: "rpc_any \<Rightarrow> join_group_res rpc_result \<Rightarrow> join_group_res rpc_result option" where
  "ImRpcOutGroupResult_SetSuccess x p = (case x of AJoinGroupRes v \<Rightarrow> Some (p\<lparr>Success := v\<rparr>) | _ \<Rightarrow> None)"

definition ImRpcOutGroupResult_GetResult :: "join_group_res rpc_result \<Rightarrow> rpc_any" where
  "ImRpcOutGroupResult_GetResult p = AJoinGroupRes (Success p)"

section \<open>Facts\<close>

lemma ImRpcHelloArgs_GetReq_eq: "ImRpcHelloArgs_GetReq p = Req p"
  by (simp add: ImRpcHelloArgs_GetReq_def ImRpcHelloArgs_IsSetReq_def ImRpcHelloArgs_Req_DEFAULT_def)

lemma ImRpcHelloResult_SetSuccess_GetResult: "ImRpcHelloResult_SetSuccess (ImRpcHelloResult_GetResult q) p = Some q"
  by (cases q) (simp add: ImRpcHelloResult_SetSuccess_def ImRpcHelloResult_GetResult_def)

lemma ImRpcHelloResult_GetSuccess_eq: "ImRpcHelloResult_GetSuccess p = Success p"
  by (simp add: ImRpcHelloResult_GetSuccess_def ImRpcHelloResult_IsSetSuccess_def ImRpcHelloResult_Success_DEFAULT_def)

lemma ImRpcSendMsgToUserArgs_GetReq_eq: "ImRpcSendMsgToUserArgs_GetReq p = Req p"
  by (simp add: ImRpcSendMsgToUserArgs_GetReq_def ImRpcSendMsgToUserArgs_IsSetReq_def ImRpcSendMsgToUserArgs_Req_DEFAULT_def)

lemma ImRpcSendMsgToUserResult_SetSuccess_GetResult: "ImRpcSendMsgToUserResult_SetSuccess (ImRpcSendMsgToUserResult_GetResult q) p = Some q"
  by (cases q) (simp add: ImRpcSendMsgToUserResult_SetSuccess_def ImRpcSendMsgToUserResult_GetResult_def)

lemma ImRpcSendMsgToUserResult_GetSuccess_eq: "ImRpcSendMsgToUserResult_GetSuccess p = Success p"
  by (simp add: ImRpcSendMsgToUserResult_GetSuccess_def ImRpcSendMsgToUserResult_IsSetSuccess_def ImRpcSendMsgToUserResult_Success_DEFAULT_def)

lemma ImRpcSendMsgToUserByTgidArgs_GetReq_eq: "ImRpcSendMsgToUserByTgidArgs_GetReq p = Req p"
  by (simp add: ImRpcSendMsgToUserByTgidArgs_GetReq_def ImRpcSendMsgToUserByTgidArgs_IsSetReq_def ImRpcSendMsgToUserByTgidArgs_Req_DEFAULT_def)

lemma ImRpcSendMsgToUserByTgidResult_SetSuccess_GetResult: "ImRpcSendMsgToUserByTgidResult_SetSuccess (ImRpcSendMsgToUserByTgidResult_GetResult q) p = Some q"
  by (cases q) (simp add: ImRpcSendMsgToUserByTgidResult_SetSuccess_def ImRpcSendMsgToUserByTgidResult_GetResult_def)

lemma ImRpcSendMsgToUserByTgidResult_GetSuccess_eq: "ImRpcSendMsgToUserByTgidResult_GetSuccess p = Success p"
  by (simp add: ImRpcSendMsgToUserByTgidResult_GetSuccess_def ImRpcSendMsgToUserByTgidResult_IsSetSuccess_def ImRpcSendMsgToUserByTgidResult_Success_DEFAULT_def)

lemma ImRpcStopUserClientArgs_GetReq_eq: "ImRpcStopUserClientArgs_GetReq p = Req p"
  by (simp add: ImRpcStopUserClientArgs_GetReq_def ImRpcStopUserClientArgs_IsSetReq_def ImRpcStopUserClientArgs_Req_DEFAULT_def)

lemma ImRpcStopUserClientResult_SetSuccess_GetResult: "ImRpcStopUserClientResult_SetSuccess (ImRpcStopUserClientResult_GetResult q) p = Some q"
  by (cases q) (simp add: ImRpcStopUserClientResult_SetSuccess_def ImRpcStopUserClientResult_GetResult_def)

lemma ImRpcStopUserClientResult_GetSuccess_eq: "ImRpcStopUserClientResult_GetSuccess p = Success p"
  by (simp add: ImRpcStopUserClientResult_GetSuccess_def ImRpcStopUserClientResult_IsSetSuccess_def ImRpcStopUserClientResult_Success_DEFAULT_def)

lemma ImRpcGetSysInfoResult_SetSuccess_GetResult: "ImRpcGetSysInfoResult_SetSuccess (ImRpcGetSysInfoResult_GetResult q) p = Some q"
  by (cases q) (simp add: ImRpcGetSysInfoResult_SetSuccess_def ImRpcGetSysInfoResult_GetResult_def)

lemma ImRpcGetSysInfoResult_GetSuccess_eq: "ImRpcGetSysInfoResult_GetSuccess p = Success p"
  by (simp add: ImRpcGetSysInfoResult_GetSuccess_def ImRpcGetSysInfoResult_IsSetSuccess_def ImRpcGetSysInfoResult_Success_DEFAULT_def)

lemma ImRpcJoinGroupArgs_GetReq_eq: "ImRpcJoinGroupArgs_GetReq p = Req p"
  by (simp add: ImRpcJoinGroupArgs_GetReq_def ImRpcJoinGroupArgs_IsSetReq_def ImRpcJoinGroupArgs_Req_DEFAULT_def)

lemma ImRpcJoinGroupResult_SetSuccess_GetResult: "ImRpcJoinGroupResult_SetSuccess (ImRpcJoinGroupResult_GetResult q) p = Some q"
  by (cases q) (simp add: ImRpcJoinGroupResult_SetSuccess_def ImRpcJoinGroupResult_GetResult_def)

lemma ImRpcJoinGroupResult_GetSuccess_eq: "ImRpcJoinGroupResult_GetSuccess p = Success p"
  by (simp add: ImRpcJoinGroupResult_GetSuccess_def ImRpcJoinGroupResult_IsSetSuccess_def ImRpcJoinGroupResult_Success_DEFAULT_def)

lemma ImRpcOutGroupArgs_GetReq_eq: "ImRpcOutGroupArgs_GetReq p = Req p"
  by (simp add: ImRpcOutGroupArgs_GetReq_def ImRpcOutGroupArgs_IsSetReq_def ImRpcOutGroupArgs_Req_DEFAULT_def)

lemma ImRpcOutGroupResult_SetSuccess_GetResult: "ImRpcOutGroupResult_SetSuccess (ImRpcOutGroupResult_GetResult q) p = Some q"
  by (cases q) (simp add: ImRpcOutGroupResult_SetSuccess_def ImRpcOutGroupResult_GetResult_def)

lemma ImRpcOutGroupResult_GetSuccess_eq: "ImRpcOutGroupResult_GetSuccess p = Success p"
  by (simp add: ImRpcOutGroupResult_GetSuccess_def ImRpcOutGroupResult_IsSetSuccess_def ImRpcOutGroupResult_Success_DEFAULT_def)

end
