(* ===== verification/KitexCalls.thy ===== *)
theory KitexCalls
  imports KitexProto KitexAccess
begin

text \<open>
  The methods \<^verbatim>\<open>Read\<close>, \<^verbatim>\<open>Write\<close> and \<^verbatim>\<open>DeepEqual\<close> of the generated argument and result structs
  (\<^verbatim>\<open>kitex_gen/im/rpc/api.go\<close>), which hold one pointer to a request or a response. In
  \<^verbatim>\<open>DeepEqual\<close> the flags say whether the two pointers, and the two pointers inside, are the
  same.
\<close>

section \<open>ImRpcHelloArgs\<close>

definition ImRpcHelloArgs_ReadField1 :: "'s proto \<Rightarrow> (rpc_request rpc_args, 's) preader" where
  "ImRpcHelloArgs_ReadField1 P = read_struct_value (Request_Read P) NewRpcRequest (\<lambda>v p. p\<lparr>Req := Some v\<rparr>)"

definition ImRpcHelloArgs_writeField1 :: "'s proto \<Rightarrow> rpc_request rpc_args \<Rightarrow> 's step" where
  "ImRpcHelloArgs_writeField1 P p =
     write_field P ''*rpc.ImRpcHelloArgs'' ''req'' STRUCT 1 (Request_Write P (Req p))"

definition ImRpcHelloArgs_Read :: "'s proto \<Rightarrow> (rpc_request rpc_args, 's) preader" where
  "ImRpcHelloArgs_Read P =
     read_struct P ''*rpc.ImRpcHelloArgs'' (skip_error ''*rpc.ImRpcHelloArgs'') fieldIDToName_ImRpcHelloArgs (\<lambda>fid.
      if fid = 1 then Some (STRUCT, ImRpcHelloArgs_ReadField1 P) else None)"

definition ImRpcHelloArgs_Write :: "'s proto \<Rightarrow> rpc_request rpc_args option \<Rightarrow> 's step" where
  "ImRpcHelloArgs_Write P q =
     write_struct P ''*rpc.ImRpcHelloArgs'' ''hello_args''
       (case q of
          None \<Rightarrow> skip_step
        | Some p \<Rightarrow> with_text P (write_field_error ''*rpc.ImRpcHelloArgs'' 1) (ImRpcHelloArgs_writeField1 P p))"

definition ImRpcHelloArgs_Field1DeepEqual :: "bool \<Rightarrow> rpc_request rpc_args \<Rightarrow> rpc_request option \<Rightarrow> bool" where
  "ImRpcHelloArgs_Field1DeepEqual same p src =
     (if \<not> Request_DeepEqual same (Req p) src then False else True)"

definition ImRpcHelloArgs_DeepEqual :: "bool \<Rightarrow> bool \<Rightarrow> rpc_request rpc_args option \<Rightarrow> rpc_request rpc_args option \<Rightarrow> bool" where
  "ImRpcHelloArgs_DeepEqual same inner q ano =
     (if same then True
      else
        case (q, ano) of
          (Some p, Some a) \<Rightarrow>
            (if \<not> ImRpcHelloArgs_Field1DeepEqual inner p (Req a) then False else True)
        | _ \<Rightarrow> False)"

section \<open>ImRpcHelloResult\<close>

definition ImRpcHelloResult_ReadField0 :: "'s proto \<Rightarrow> (rpc_response rpc_result, 's) preader" where
  "ImRpcHelloResult_ReadField0 P = read_struct_value (Response_Read P) NewRpcResponse (\<lambda>v p. p\<lparr>Success := Some v\<rparr>)"

definition ImRpcHelloResult_writeField0 :: "'s proto \<Rightarrow> rpc_response rpc_result \<Rightarrow> 's step" where
  "ImRpcHelloResult_writeField0 P p =
     (if ImRpcHelloResult_IsSetSuccess p then write_field P ''*rpc.ImRpcHelloResult'' ''success'' STRUCT 0 (Response_Write P (Success p))
      else skip_step)"

definition ImRpcHelloResult_Read :: "'s proto \<Rightarrow> (rpc_response rpc_result, 's) preader" where
  "ImRpcHelloResult_Read P =
     read_struct P ''*rpc.ImRpcHelloResult'' (skip_error ''*rpc.ImRpcHelloResult'') fieldIDToName_ImRpcHelloResult (\<lambda>fid.
      if fid = 0 then Some (STRUCT, ImRpcHelloResult_ReadField0 P) else None)"

definition ImRpcHelloResult_Write :: "'s proto \<Rightarrow> rpc_response rpc_result option \<Rightarrow> 's step" where
  "ImRpcHelloResult_Write P q =
     write_struct P ''*rpc.ImRpcHelloResult'' ''hello_result''
       (case q of
          None \<Rightarrow> skip_step
        | Some p \<Rightarrow> with_text P (write_field_error ''*rpc.ImRpcHelloResult'' 0) (ImRpcHelloResult_writeField0 P p))"

definition ImRpcHelloResult_Field0DeepEqual :: "bool \<Rightarrow> rpc_response rpc_result \<Rightarrow> rpc_response option \<Rightarrow> bool" where
  "ImRpcHelloResult_Field0DeepEqual same p src =
     (if \<not> Response_DeepEqual same (Success p) src then False else True)"

definition ImRpcHelloResult_DeepEqual :: "bool \<Rightarrow> bool \<Rightarrow> rpc_response rpc_result option \<Rightarrow> rpc_response rpc_result option \<Rightarrow> bool" where
  "ImRpcHelloResult_DeepEqual same inner q ano =
     (if same then True
      else
        case (q, ano) of
          (Some p, Some a) \<Rightarrow>
            (if \<not> ImRpcHelloResult_Field0DeepEqual inner p (Success a) then False else True)
        | _ \<Rightarrow> False)"

section \<open>ImRpcSendMsgToUserArgs\<close>

definition ImRpcSendMsgToUserArgs_ReadField1 :: "'s proto \<Rightarrow> (send_msg_req rpc_args, 's) preader" where
  "ImRpcSendMsgToUserArgs_ReadField1 P = read_struct_value (SendMsgReq_Read P) NewSendMsgReq (\<lambda>v p. p\<lparr>Req := Some v\<rparr>)"

definition ImRpcSendMsgToUserArgs_writeField1 :: "'s proto \<Rightarrow> send_msg_req rpc_args \<Rightarrow> 's step" where
  "ImRpcSendMsgToUserArgs_writeField1 P p =
     write_field P ''*rpc.ImRpcSendMsgToUserArgs'' ''req'' STRUCT 1 (SendMsgReq_Write P (Req p))"

definition ImRpcSendMsgToUserArgs_Read :: "'s proto \<Rightarrow> (send_msg_req rpc_args, 's) preader" where
  "ImRpcSendMsgToUserArgs_Read P =
     read_struct P ''*rpc.ImRpcSendMsgToUserArgs'' (skip_error ''*rpc.ImRpcSendMsgToUserArgs'') fieldIDToName_ImRpcSendMsgToUserArgs (\<lambda>fid.
      if fid = 1 then Some (STRUCT, ImRpcSendMsgToUserArgs_ReadField1 P) else None)"

definition ImRpcSendMsgToUserArgs_Write :: "'s proto \<Rightarrow> send_msg_req rpc_args option \<Rightarrow> 's step" where
  "ImRpcSendMsgToUserArgs_Write P q =
     write_struct P ''*rpc.ImRpcSendMsgToUserArgs'' ''SendMsgToUser_args''
       (case q of
          None \<Rightarrow> skip_step
        | Some p \<Rightarrow> with_text P (write_field_error ''*rpc.ImRpcSendMsgToUserArgs'' 1) (ImRpcSendMsgToUserArgs_writeField1 P p))"

definition ImRpcSendMsgToUserArgs_Field1DeepEqual :: "bool \<Rightarrow> send_msg_req rpc_args \<Rightarrow> send_msg_req option \<Rightarrow> bool" where
  "ImRpcSendMsgToUserArgs_Field1DeepEqual same p src =
     (if \<not> SendMsgReq_DeepEqual same (Req p) src then False else True)"

definition ImRpcSendMsgToUserArgs_DeepEqual :: "bool \<Rightarrow> bool \<Rightarrow> send_msg_req rpc_args option \<Rightarrow> send_msg_req rpc_args option \<Rightarrow> bool" where
  "ImRpcSendMsgToUserArgs_DeepEqual same inner q ano =
     (if same then True
      else
        case (q, ano) of
          (Some p, Some a) \<Rightarrow>
            (if \<not> ImRpcSendMsgToUserArgs_Field1DeepEqual inner p (Req a) then False else True)
        | _ \<Rightarrow> False)"

section \<open>ImRpcSendMsgToUserResult\<close>

definition ImRpcSendMsgToUserResult_ReadField0 :: "'s proto \<Rightarrow> (send_msg_rsp rpc_result, 's) preader" where
  "ImRpcSendMsgToUserResult_ReadField0 P = read_struct_value (SendMsgRsp_Read P) NewSendMsgRsp (\<lambda>v p. p\<lparr>Success := Some v\<rparr>)"

definition ImRpcSendMsgToUserResult_writeField0 :: "'s proto \<Rightarrow> send_msg_rsp rpc_result \<Rightarrow> 's step" where
  "ImRpcSendMsgToUserResult_writeField0 P p =
     (if ImRpcSendMsgToUserResult_IsSetSuccess p then write_field P ''*rpc.ImRpcSendMsgToUserResult'' ''success'' STRUCT 0 (SendMsgRsp_Write P (Success p))
      else skip_step)"

definition ImRpcSendMsgToUserResult_Read :: "'s proto \<Rightarrow> (send_msg_rsp rpc_result, 's) preader" where
  "ImRpcSendMsgToUserResult_Read P =
     read_struct P ''*rpc.ImRpcSendMsgToUserResult'' (skip_error ''*rpc.ImRpcSendMsgToUserResult'') fieldIDToName_ImRpcSendMsgToUserResult (\<lambda>fid.
      if fid = 0 then Some (STRUCT, ImRpcSendMsgToUserResult_ReadField0 P) else None)"

definition ImRpcSendMsgToUserResult_Write :: "'s proto \<Rightarrow> send_msg_rsp rpc_result option \<Rightarrow> 's step" where
  "ImRpcSendMsgToUserResult_Write P q =
     write_struct P ''*rpc.ImRpcSendMsgToUserResult'' ''SendMsgToUser_result''
       (case q of
          None \<Rightarrow> skip_step
        | Some p \<Rightarrow> with_text P (write_field_error ''*rpc.ImRpcSendMsgToUserResult'' 0) (ImRpcSendMsgToUserResult_writeField0 P p))"

definition ImRpcSendMsgToUserResult_Field0DeepEqual :: "bool \<Rightarrow> send_msg_rsp rpc_result \<Rightarrow> send_msg_rsp option \<Rightarrow> bool" where
  "ImRpcSendMsgToUserResult_Field0DeepEqual same p src =
     (if \<not> SendMsgRsp_DeepEqual same (Success p) src then False else True)"

definition ImRpcSendMsgToUserResult_DeepEqual :: "bool \<Rightarrow> bool \<Rightarrow> send_msg_rsp rpc_result option \<Rightarrow> send_msg_rsp rpc_result option \<Rightarrow> bool" where
  "ImRpcSendMsgToUserResult_DeepEqual same inner q ano =
     (if same then True
      else
        case (q, ano) of
          (Some p, Some a) \<Rightarrow>
            (if \<not> ImRpcSendMsgToUserResult_Field0DeepEqual inner p (Success a) then False else True)
        | _ \<Rightarrow> False)"

section \<open>ImRpcSendMsgToUserByTgidArgs\<close>

definition ImRpcSendMsgToUserByTgidArgs_ReadField1 :: "'s proto \<Rightarrow> (send_msg_by_tgid_req rpc_args, 's) preader" where
  "ImRpcSendMsgToUserByTgidArgs_ReadField1 P = read_struct_value (SendMsgByTgidReq_Read P) NewSendMsgByTgidReq (\<lambda>v p. p\<lparr>Req := Some v\<rparr>)"

definition ImRpcSendMsgToUserByTgidArgs_writeField1 :: "'s proto \<Rightarrow> send_msg_by_tgid_req rpc_args \<Rightarrow> 's step" where
  "ImRpcSendMsgToUserByTgidArgs_writeField1 P p =
     write_field P ''*rpc.ImRpcSendMsgToUserByTgidArgs'' ''req'' STRUCT 1 (SendMsgByTgidReq_Write P (Req p))"

definition ImRpcSendMsgToUserByTgidArgs_Read :: "'s proto \<Rightarrow> (send_msg_by_tgid_req rpc_args, 's) preader" where
  "ImRpcSendMsgToUserByTgidArgs_Read P =
     read_struct P ''*rpc.ImRpcSendMsgToUserByTgidArgs'' (skip_error ''*rpc.ImRpcSendMsgToUserByTgidArgs'') fieldIDToName_ImRpcSendMsgToUserByTgidArgs (\<lambda>fid.
      if fid = 1 then Some (STRUCT, ImRpcSendMsgToUserByTgidArgs_ReadField1 P) else None)"

definition ImRpcSendMsgToUserByTgidArgs_Write :: "'s proto \<Rightarrow> send_msg_by_tgid_req rpc_args option \<Rightarrow> 's step" where
  "ImRpcSendMsgToUserByTgidArgs_Write P q =
     write_struct P ''*rpc.ImRpcSendMsgToUserByTgidArgs'' ''SendMsgToUserByTgid_args''
       (case q of
          None \<Rightarrow> skip_step
        | Some p \<Rightarrow> with_text P (write_field_error ''*rpc.ImRpcSendMsgToUserByTgidArgs'' 1) (ImRpcSendMsgToUserByTgidArgs_writeField1 P p))"

definition ImRpcSendMsgToUserByTgidArgs_Field1DeepEqual :: "bool \<Rightarrow> send_msg_by_tgid_req rpc_args \<Rightarrow> send_msg_by_tgid_req option \<Rightarrow> bool" where
  "ImRpcSendMsgToUserByTgidArgs_Field1DeepEqual same p src =
     (if \<not> SendMsgByTgidReq_DeepEqual same (Req p) src then False else True)"

definition ImRpcSendMsgToUserByTgidArgs_DeepEqual :: "bool \<Rightarrow> bool \<Rightarrow> send_msg_by_tgid_req rpc_args option \<Rightarrow> send_msg_by_tgid_req rpc_args option \<Rightarrow> bool" where
  "ImRpcSendMsgToUserByTgidArgs_DeepEqual same inner q ano =
     (if same then True
      else
        case (q, ano) of
          (Some p, Some a) \<Rightarrow>
            (if \<not> ImRpcSendMsgToUserByTgidArgs_Field1DeepEqual inner p (Req a) then False else True)
        | _ \<Rightarrow> False)"

section \<open>ImRpcSendMsgToUserByTgidResult\<close>

definition ImRpcSendMsgToUserByTgidResult_ReadField0 :: "'s proto \<Rightarrow> (send_msg_rsp rpc_result, 's) preader" where
  "ImRpcSendMsgToUserByTgidResult_ReadField0 P = read_struct_value (SendMsgRsp_Read P) NewSendMsgRsp (\<lambda>v p. p\<lparr>Success := Some v\<rparr>)"

definition ImRpcSendMsgToUserByTgidResult_writeField0 :: "'s proto \<Rightarrow> send_msg_rsp rpc_result \<Rightarrow> 's step" where
  "ImRpcSendMsgToUserByTgidResult_writeField0 P p =
     (if ImRpcSendMsgToUserByTgidResult_IsSetSuccess p then write_field P ''*rpc.ImRpcSendMsgToUserByTgidResult'' ''success'' STRUCT 0 (SendMsgRsp_Write P (Success p))
      else skip_step)"

definition ImRpcSendMsgToUserByTgidResult_Read :: "'s proto \<Rightarrow> (send_msg_rsp rpc_result, 's) preader" where
  "ImRpcSendMsgToUserByTgidResult_Read P =
     read_struct P ''*rpc.ImRpcSendMsgToUserByTgidResult'' (skip_error ''*rpc.ImRpcSendMsgToUserByTgidResult'') fieldIDToName_ImRpcSendMsgToUserByTgidResult (\<lambda>fid.
      if fid = 0 then Some (STRUCT, ImRpcSendMsgToUserByTgidResult_ReadField0 P) else None)"

definition ImRpcSendMsgToUserByTgidResult_Write :: "'s proto \<Rightarrow> send_msg_rsp rpc_result option \<Rightarrow> 's step" where
  "ImRpcSendMsgToUserByTgidResult_Write P q =
     write_struct P ''*rpc.ImRpcSendMsgToUserByTgidResult'' ''SendMsgToUserByTgid_result''
       (case q of
          None \<Rightarrow> skip_step
        | Some p \<Rightarrow> with_text P (write_field_error ''*rpc.ImRpcSendMsgToUserByTgidResult'' 0) (ImRpcSendMsgToUserByTgidResult_writeField0 P p))"

definition ImRpcSendMsgToUserByTgidResult_Field0DeepEqual :: "bool \<Rightarrow> send_msg_rsp rpc_result \<Rightarrow> send_msg_rsp option \<Rightarrow> bool" where
  "ImRpcSendMsgToUserByTgidResult_Field0DeepEqual same p src =
     (if \<not> SendMsgRsp_DeepEqual same (Success p) src then False else True)"

definition ImRpcSendMsgToUserByTgidResult_DeepEqual :: "bool \<Rightarrow> bool \<Rightarrow> send_msg_rsp rpc_result option \<Rightarrow> send_msg_rsp rpc_result option \<Rightarrow> bool" where
  "ImRpcSendMsgToUserByTgidResult_DeepEqual same inner q ano =
     (if same then True
      else
        case (q, ano) of
          (Some p, Some a) \<Rightarrow>
            (if \<not> ImRpcSendMsgToUserByTgidResult_Field0DeepEqual inner p (Success a) then False else True)
        | _ \<Rightarrow> False)"

section \<open>ImRpcStopUserClientArgs\<close>

definition ImRpcStopUserClientArgs_ReadField1 :: "'s proto \<Rightarrow> (user_id_req rpc_args, 's) preader" where
  "ImRpcStopUserClientArgs_ReadField1 P = read_struct_value (UserIdReq_Read P) NewUserIdReq (\<lambda>v p. p\<lparr>Req := Some v\<rparr>)"

definition ImRpcStopUserClientArgs_writeField1 :: "'s proto \<Rightarrow> user_id_req rpc_args \<Rightarrow> 's step" where
  "ImRpcStopUserClientArgs_writeField1 P p =
     write_field P ''*rpc.ImRpcStopUserClientArgs'' ''req'' STRUCT 1 (UserIdReq_Write P (Req p))"

definition ImRpcStopUserClientArgs_Read :: "'s proto \<Rightarrow> (user_id_req rpc_args, 's) preader" where
  "ImRpcStopUserClientArgs_Read P =
     read_struct P ''*rpc.ImRpcStopUserClientArgs'' (skip_error ''*rpc.ImRpcStopUserClientArgs'') fieldIDToName_ImRpcStopUserClientArgs (\<lambda>fid.
      if fid = 1 then Some (STRUCT, ImRpcStopUserClientArgs_ReadField1 P) else None)"

definition ImRpcStopUserClientArgs_Write :: "'s proto \<Rightarrow> user_id_req rpc_args option \<Rightarrow> 's step" where
  "ImRpcStopUserClientArgs_Write P q =
     write_struct P ''*rpc.ImRpcStopUserClientArgs'' ''StopUserClient_args''
       (case q of
          None \<Rightarrow> skip_step
        | Some p \<Rightarrow> with_text P (write_field_error ''*rpc.ImRpcStopUserClientArgs'' 1) (ImRpcStopUserClientArgs_writeField1 P p))"

definition ImRpcStopUserClientArgs_Field1DeepEqual :: "bool \<Rightarrow> user_id_req rpc_args \<Rightarrow> user_id_req option \<Rightarrow> bool" where
  "ImRpcStopUserClientArgs_Field1DeepEqual same p src =
     (if \<not> UserIdReq_DeepEqual same (Req p) src then False else True)"

definition ImRpcStopUserClientArgs_DeepEqual :: "bool \<Rightarrow> bool \<Rightarrow> user_id_req rpc_args option \<Rightarrow> user_id_req rpc_args option \<Rightarrow> bool" where
  "ImRpcStopUserClientArgs_DeepEqual same inner q ano =
     (if same then True
      else
        case (q, ano) of
          (Some p, Some a) \<Rightarrow>
            (if \<not> ImRpcStopUserClientArgs_Field1DeepEqual inner p (Req a) then False else True)
        | _ \<Rightarrow> False)"

section \<open>ImRpcStopUserClientResult\<close>

definition ImRpcStopUserClientResult_ReadField0 :: "'s proto \<Rightarrow> (stop_user_client_rsp rpc_result, 's) preader" where
  "ImRpcStopUserClientResult_ReadField0 P = read_struct_value (StopUserClientRsp_Read P) NewStopUserClientRsp (\<lambda>v p. p\<lparr>Success := Some v\<rparr>)"

definition ImRpcStopUserClientResult_writeField0 :: "'s proto \<Rightarrow> stop_user_client_rsp rpc_result \<Rightarrow> 's step" where
  "ImRpcStopUserClientResult_writeField0 P p =
     (if ImRpcStopUserClientResult_IsSetSuccess p then write_field P ''*rpc.ImRpcStopUserClientResult'' ''success'' STRUCT 0 (StopUserClientRsp_Write P (Success p))
      else skip_step)"

definition ImRpcStopUserClientResult_Read :: "'s proto \<Rightarrow> (stop_user_client_rsp rpc_result, 's) preader" where
  "ImRpcStopUserClientResult_Read P =
     read_struct P ''*rpc.ImRpcStopUserClientResult'' (skip_error ''*rpc.ImRpcStopUserClientResult'') fieldIDToName_ImRpcStopUserClientResult (\<lambda>fid.
      if fid = 0 then Some (STRUCT, ImRpcStopUserClientResult_ReadField0 P) else None)"

definition ImRpcStopUserClientResult_Write :: "'s proto \<Rightarrow> stop_user_client_rsp rpc_result option \<Rightarrow> 's step" where
  "ImRpcStopUserClientResult_Write P q =
     write_struct P ''*rpc.ImRpcStopUserClientResult'' ''StopUserClient_result''
       (case q of
          None \<Rightarrow> skip_step
        | Some p \<Rightarrow> with_text P (write_field_error ''*rpc.ImRpcStopUserClientResult'' 0) (ImRpcStopUserClientResult_writeField0 P p))"

definition ImRpcStopUserClientResult_Field0DeepEqual :: "bool \<Rightarrow> stop_user_client_rsp rpc_result \<Rightarrow> stop_user_client_rsp option \<Rightarrow> bool" where
  "ImRpcStopUserClientResult_Field0DeepEqual same p src =
     (if \<not> StopUserClientRsp_DeepEqual same (Success p) src then False else True)"

definition ImRpcStopUserClientResult_DeepEqual :: "bool \<Rightarrow> bool \<Rightarrow> stop_user_client_rsp rpc_result option \<Rightarrow> stop_user_client_rsp rpc_result option \<Rightarrow> bool" where
  "ImRpcStopUserClientResult_DeepEqual same inner q ano =
     (if same then True
      else
        case (q, ano) of
          (Some p, Some a) \<Rightarrow>
            (if \<not> ImRpcStopUserClientResult_Field0DeepEqual inner p (Success a) then False else True)
        | _ \<Rightarrow> False)"

section \<open>ImRpcGetSysInfoArgs\<close>

definition ImRpcGetSysInfoArgs_Read :: "'s proto \<Rightarrow> (unit, 's) preader" where
  "ImRpcGetSysInfoArgs_Read P =
     read_struct P ''*rpc.ImRpcGetSysInfoArgs''
       (\<lambda>fid ft. ''*rpc.ImRpcGetSysInfoArgs'' @ '' skip field type '' @ int_lit ft @ '' error'') (\<lambda>fid. [])
       (\<lambda>fid. None)"

definition ImRpcGetSysInfoArgs_Write :: "'s proto \<Rightarrow> unit option \<Rightarrow> 's step" where
  "ImRpcGetSysInfoArgs_Write P q =
     write_struct P ''*rpc.ImRpcGetSysInfoArgs'' ''GetSysInfo_args'' (case q of None \<Rightarrow> skip_step | Some p \<Rightarrow> skip_step)"

definition ImRpcGetSysInfoArgs_DeepEqual :: "bool \<Rightarrow> unit option \<Rightarrow> unit option \<Rightarrow> bool" where
  "ImRpcGetSysInfoArgs_DeepEqual same q ano =
     (if same then True else case (q, ano) of (Some p, Some a) \<Rightarrow> True | _ \<Rightarrow> False)"

section \<open>ImRpcGetSysInfoResult\<close>

definition ImRpcGetSysInfoResult_ReadField0 :: "'s proto \<Rightarrow> (bytes_rsp rpc_result, 's) preader" where
  "ImRpcGetSysInfoResult_ReadField0 P = read_struct_value (BytesRsp_Read P) NewBytesRsp (\<lambda>v p. p\<lparr>Success := Some v\<rparr>)"

definition ImRpcGetSysInfoResult_writeField0 :: "'s proto \<Rightarrow> bytes_rsp rpc_result \<Rightarrow> 's step" where
  "ImRpcGetSysInfoResult_writeField0 P p =
     (if ImRpcGetSysInfoResult_IsSetSuccess p then write_field P ''*rpc.ImRpcGetSysInfoResult'' ''success'' STRUCT 0 (BytesRsp_Write P (Success p))
      else skip_step)"

definition ImRpcGetSysInfoResult_Read :: "'s proto \<Rightarrow> (bytes_rsp rpc_result, 's) preader" where
  "ImRpcGetSysInfoResult_Read P =
     read_struct P ''*rpc.ImRpcGetSysInfoResult'' (skip_error ''*rpc.ImRpcGetSysInfoResult'') fieldIDToName_ImRpcGetSysInfoResult (\<lambda>fid.
      if fid = 0 then Some (STRUCT, ImRpcGetSysInfoResult_ReadField0 P) else None)"

definition ImRpcGetSysInfoResult_Write :: "'s proto \<Rightarrow> bytes_rsp rpc_result option \<Rightarrow> 's step" where
  "ImRpcGetSysInfoResult_Write P q =
     write_struct P ''*rpc.ImRpcGetSysInfoResult'' ''GetSysInfo_result''
       (case q of
          None \<Rightarrow> skip_step
        | Some p \<Rightarrow> with_text P (write_field_error ''*rpc.ImRpcGetSysInfoResult'' 0) (ImRpcGetSysInfoResult_writeField0 P p))"

definition ImRpcGetSysInfoResult_Field0DeepEqual :: "bool \<Rightarrow> bytes_rsp rpc_result \<Rightarrow> bytes_rsp option \<Rightarrow> bool" where
  "ImRpcGetSysInfoResult_Field0DeepEqual same p src =
     (if \<not> BytesRsp_DeepEqual same (Success p) src then False else True)"

definition ImRpcGetSysInfoResult_DeepEqual :: "bool \<Rightarrow> bool \<Rightarrow> bytes_rsp rpc_result option \<Rightarrow> bytes_rsp rpc_result option \<Rightarrow> bool" where
  "ImRpcGetSysInfoResult_DeepEqual same inner q ano =
     (if same then True
      else
        case (q, ano) of
          (Some p, Some a) \<Rightarrow>
            (if \<not> ImRpcGetSysInfoResult_Field0DeepEqual inner p (Success a) then False else True)
        | _ \<Rightarrow> False)"

section \<open>ImRpcJoinGroupArgs\<close>

definition ImRpcJoinGroupArgs_ReadField1 :: "'s proto \<Rightarrow> (join_group_req rpc_args, 's) preader" where
  "ImRpcJoinGroupArgs_ReadField1 P = read_struct_value (JoinGroupReq_Read P) NewJoinGroupReq (\<lambda>v p. p\<lparr>Req := Some v\<rparr>)"

definition ImRpcJoinGroupArgs_writeField1 :: "'s proto \<Rightarrow> join_group_req rpc_args \<Rightarrow> 's step" where
  "ImRpcJoinGroupArgs_writeField1 P p =
     write_field P ''*rpc.ImRpcJoinGroupArgs'' ''req'' STRUCT 1 (JoinGroupReq_Write P (Req p))"

definition ImRpcJoinGroupArgs_Read :: "'s proto \<Rightarrow> (join_group_req rpc_args, 's) preader" where
  "ImRpcJoinGroupArgs_Read P =
     read_struct P ''*rpc.ImRpcJoinGroupArgs'' (skip_error ''*rpc.ImRpcJoinGroupArgs'') fieldIDToName_ImRpcJoinGroupArgs (\<lambda>fid.
      if fid = 1 then Some (STRUCT, ImRpcJoinGroupArgs_ReadField1 P) else None)"

definition ImRpcJoinGroupArgs_Write :: "'s proto \<Rightarrow> join_group_req rpc_args option \<Rightarrow> 's step" where
  "ImRpcJoinGroupArgs_Write P q =
     write_struct P ''*rpc.ImRpcJoinGroupArgs'' ''JoinGroup_args''
       (case q of
          None \<Rightarrow> skip_step
        | Some p \<Rightarrow> with_text P (write_field_error ''*rpc.ImRpcJoinGroupArgs'' 1) (ImRpcJoinGroupArgs_writeField1 P p))"

definition ImRpcJoinGroupArgs_Field1DeepEqual :: "bool \<Rightarrow> join_group_req rpc_args \<Rightarrow> join_group_req option \<Rightarrow> bool" where
  "ImRpcJoinGroupArgs_Field1DeepEqual same p src =
     (if \<not> JoinGroupReq_DeepEqual same (Req p) src then False else True)"

definition ImRpcJoinGroupArgs_DeepEqual :: "bool \<Rightarrow> bool \<Rightarrow> join_group_req rpc_args option \<Rightarrow> join_group_req rpc_args option \<Rightarrow> bool" where
  "ImRpcJoinGroupArgs_DeepEqual same inner q ano =
     (if same then True
      else
        case (q, ano) of
          (Some p, Some a) \<Rightarrow>
            (if \<not> ImRpcJoinGroupArgs_Field1DeepEqual inner p (Req a) then False else True)
        | _ \<Rightarrow> False)"

section \<open>ImRpcJoinGroupResult\<close>

definition ImRpcJoinGroupResult_ReadField0 :: "'s proto \<Rightarrow> (join_group_res rpc_result, 's) preader" where
  "ImRpcJoinGroupResult_ReadField0 P = read_struct_value (JoinGroupRes_Read P) NewJoinGroupRes (\<lambda>v p. p\<lparr>Success := Some v\<rparr>)"

definition ImRpcJoinGroupResult_writeField0 :: "'s proto \<Rightarrow> join_group_res rpc_result \<Rightarrow> 's step" where
  "ImRpcJoinGroupResult_writeField0 P p =
     (if ImRpcJoinGroupResult_IsSetSuccess p then write_field P ''*rpc.ImRpcJoinGroupResult'' ''success'' STRUCT 0 (JoinGroupRes_Write P (Success p))
      else skip_step)"

definition ImRpcJoinGroupResult_Read :: "'s proto \<Rightarrow> (join_group_res rpc_result, 's) preader" where
  "ImRpcJoinGroupResult_Read P =
     read_struct P ''*rpc.ImRpcJoinGroupResult'' (skip_error ''*rpc.ImRpcJoinGroupResult'') fieldIDToName_ImRpcJoinGroupResult (\<lambda>fid.
      if fid = 0 then Some (STRUCT, ImRpcJoinGroupResult_ReadField0 P) else None)"

definition ImRpcJoinGroupResult_Write :: "'s proto \<Rightarrow> join_group_res rpc_result option \<Rightarrow> 's step" where
  "ImRpcJoinGroupResult_Write P q =
     write_struct P ''*rpc.ImRpcJoinGroupResult'' ''JoinGroup_result''
       (case q of
          None \<Rightarrow> skip_step
        | Some p \<Rightarrow> with_text P (write_field_error ''*rpc.ImRpcJoinGroupResult'' 0) (ImRpcJoinGroupResult_writeField0 P p))"

definition ImRpcJoinGroupResult_Field0DeepEqual :: "bool \<Rightarrow> join_group_res rpc_result \<Rightarrow> join_group_res option \<Rightarrow> bool" where
  "ImRpcJoinGroupResult_Field0DeepEqual same p src =
     (if \<not> JoinGroupRes_DeepEqual same (Success p) src then False else True)"

definition ImRpcJoinGroupResult_DeepEqual :: "bool \<Rightarrow> bool \<Rightarrow> join_group_res rpc_result option \<Rightarrow> join_group_res rpc_result option \<Rightarrow> bool" where
  "ImRpcJoinGroupResult_DeepEqual same inner q ano =
     (if same then True
      else
        case (q, ano) of
          (Some p, Some a) \<Rightarrow>
            (if \<not> ImRpcJoinGroupResult_Field0DeepEqual inner p (Success a) then False else True)
        | _ \<Rightarrow> False)"

section \<open>ImRpcOutGroupArgs\<close>

definition ImRpcOutGroupArgs_ReadField1 :: "'s proto \<Rightarrow> (join_group_req rpc_args, 's) preader" where
  "ImRpcOutGroupArgs_ReadField1 P = read_struct_value (JoinGroupReq_Read P) NewJoinGroupReq (\<lambda>v p. p\<lparr>Req := Some v\<rparr>)"

definition ImRpcOutGroupArgs_writeField1 :: "'s proto \<Rightarrow> join_group_req rpc_args \<Rightarrow> 's step" where
  "ImRpcOutGroupArgs_writeField1 P p =
     write_field P ''*rpc.ImRpcOutGroupArgs'' ''req'' STRUCT 1 (JoinGroupReq_Write P (Req p))"

definition ImRpcOutGroupArgs_Read :: "'s proto \<Rightarrow> (join_group_req rpc_args, 's) preader" where
  "ImRpcOutGroupArgs_Read P =
     read_struct P ''*rpc.ImRpcOutGroupArgs'' (skip_error ''*rpc.ImRpcOutGroupArgs'') fieldIDToName_ImRpcOutGroupArgs (\<lambda>fid.
      if fid = 1 then Some (STRUCT, ImRpcOutGroupArgs_ReadField1 P) else None)"

definition ImRpcOutGroupArgs_Write :: "'s proto \<Rightarrow> join_group_req rpc_args option \<Rightarrow> 's step" where
  "ImRpcOutGroupArgs_Write P q =
     write_struct P ''*rpc.ImRpcOutGroupArgs'' ''OutGroup_args''
       (case q of
          None \<Rightarrow> skip_step
        | Some p \<Rightarrow> with_text P (write_field_error ''*rpc.ImRpcOutGroupArgs'' 1) (ImRpcOutGroupArgs_writeField1 P p))"

definition ImRpcOutGroupArgs_Field1DeepEqual :: "bool \<Rightarrow> join_group_req rpc_args \<Rightarrow> join_group_req option \<Rightarrow> bool" where
  "ImRpcOutGroupArgs_Field1DeepEqual same p src =
     (if \<not> JoinGroupReq_DeepEqual same (Req p) src then False else True)"

definition ImRpcOutGroupArgs_DeepEqual :: "bool \<Rightarrow> bool \<Rightarrow> join_group_req rpc_args option \<Rightarrow> join_group_req rpc_args option \<Rightarrow> bool" where
  "ImRpcOutGroupArgs_DeepEqual same inner q ano =
     (if same then True
      else
        case (q, ano) of
          (Some p, Some a) \<Rightarrow>
            (if \<not> ImRpcOutGroupArgs_Field1DeepEqual inner p (Req a) then False else True)
        | _ \<Rightarrow> False)"

section \<open>ImRpcOutGroupResult\<close>

definition ImRpcOutGroupResult_ReadField0 :: "'s proto \<Rightarrow> (join_group_res rpc_result, 's) preader" where
  "ImRpcOutGroupResult_ReadField0 P = read_struct_value (JoinGroupRes_Read P) NewJoinGroupRes (\<lambda>v p. p\<lparr>Success := Some v\<rparr>)"

definition ImRpcOutGroupResult_writeField0 :: "'s proto \<Rightarrow> join_group_res rpc_result \<Rightarrow> 's step" where
  "ImRpcOutGroupResult_writeField0 P p =
     (if ImRpcOutGroupResult_IsSetSuccess p then write_field P ''*rpc.ImRpcOutGroupResult'' ''success'' STRUCT 0 (JoinGroupRes_Write P (Success p))
      else skip_step)"

definition ImRpcOutGroupResult_Read :: "'s proto \<Rightarrow> (join_group_res rpc_result, 's) preader" where
  "ImRpcOutGroupResult_Read P =
     read_struct P ''*rpc.ImRpcOutGroupResult'' (skip_error ''*rpc.ImRpcOutGroupResult'') fieldIDToName_ImRpcOutGroupResult (\<lambda>fid.
      if fid = 0 then Some (STRUCT, ImRpcOutGroupResult_ReadField0 P) else None)"

definition ImRpcOutGroupResult_Write :: "'s proto \<Rightarrow> join_group_res rpc_result option \<Rightarrow> 's step" where
  "ImRpcOutGroupResult_Write P q =
     write_struct P ''*rpc.ImRpcOutGroupResult'' ''OutGroup_result''
       (case q of
          None \<Rightarrow> skip_step
        | Some p \<Rightarrow> with_text P (write_field_error ''*rpc.ImRpcOutGroupResult'' 0) (ImRpcOutGroupResult_writeField0 P p))"

definition ImRpcOutGroupResult_Field0DeepEqual :: "bool \<Rightarrow> join_group_res rpc_result \<Rightarrow> join_group_res option \<Rightarrow> bool" where
  "ImRpcOutGroupResult_Field0DeepEqual same p src =
     (if \<not> JoinGroupRes_DeepEqual same (Success p) src then False else True)"

definition ImRpcOutGroupResult_DeepEqual :: "bool \<Rightarrow> bool \<Rightarrow> join_group_res rpc_result option \<Rightarrow> join_group_res rpc_result option \<Rightarrow> bool" where
  "ImRpcOutGroupResult_DeepEqual same inner q ano =
     (if same then True
      else
        case (q, ano) of
          (Some p, Some a) \<Rightarrow>
            (if \<not> ImRpcOutGroupResult_Field0DeepEqual inner p (Success a) then False else True)
        | _ \<Rightarrow> False)"

section \<open>ImRpcHelloArgs\<close>

lemma ImRpcHelloArgs_puts:
  "proto_ok P toks \<Longrightarrow> Request_ok q \<Longrightarrow>
   puts toks (ImRpcHelloArgs_Write P (Some \<lparr>Req = Some q\<rparr>)) (struct_toks [(1, STRUCT, Request_toks q)])"
  using Request_proto.arg_puts [OF _ _ head_ok_struct(2)] by (simp add: ImRpcHelloArgs_Write_def ImRpcHelloArgs_writeField1_def)

lemma ImRpcHelloArgs_reads:
  assumes P: "proto_ok P toks" and q: "Request_ok q" and s: "toks s = struct_toks [(1, STRUCT, Request_toks q)] @ ts"
  shows "\<exists>s1. ImRpcHelloArgs_Read P NewImRpcHelloArgs s = Some (s1, \<lparr>Req = Some q\<rparr>, None) \<and> toks s1 = ts"
  unfolding ImRpcHelloArgs_Read_def ImRpcHelloArgs_ReadField1_def
  by (rule readsD [OF Request_proto.arg_reads [OF P q head_ok_struct(2)] s]) (simp add: NewImRpcHelloArgs_def)

lemma ImRpcHelloArgs_same_bytes:
  assumes W: "same_wire P T out" and q: "pred_option (\<lambda>p. pred_option Request_ok (Req p)) q"
  shows "puts out (ImRpcHelloArgs_Write P q) (ImRpcHelloArgs_FastWriteNocopy T q)"
proof -
  have fw: "puts out (ImRpcHelloArgs_writeField1 P p) (ImRpcHelloArgs_fastWriteField1 T p)"
    if "pred_option Request_ok (Req p)" for p
    using wire_field [OF W head_ok_struct(2) Request_same_bytes [OF W that]]
    by (simp add: ImRpcHelloArgs_writeField1_def ImRpcHelloArgs_fastWriteField1_def)
  show ?thesis
    using q wire_struct [OF W puts_skip] wire_struct [OF W puts_text [OF fw]]
    by (cases q) (simp_all add: ImRpcHelloArgs_Write_def ImRpcHelloArgs_FastWriteNocopy_def)
qed

lemma ImRpcHelloArgs_DeepEqual_iff:
  assumes "ptrs_ok same p q"
    and "\<And>a b. p = Some a \<Longrightarrow> q = Some b \<Longrightarrow> ptrs_ok inner (Req a) (Req b)"
  shows "ImRpcHelloArgs_DeepEqual same inner p q \<longleftrightarrow> p = q"
proof (cases "\<exists>a b. p = Some a \<and> q = Some b")
  case True
  then obtain a b where pq: "p = Some a" "q = Some b" by blast
  have "Request_DeepEqual inner (Req a) (Req b) \<longleftrightarrow> Req a = Req b"
    by (rule Request_DeepEqual_iff) (rule assms(2) [OF pq])
  with pq assms(1) show ?thesis
    by (cases a; cases b) (simp add: ptrs_ok_def ImRpcHelloArgs_DeepEqual_def ImRpcHelloArgs_Field1DeepEqual_def)
next
  case False
  with assms(1) show ?thesis by (cases p; cases q) (simp_all add: ptrs_ok_def ImRpcHelloArgs_DeepEqual_def)
qed

section \<open>ImRpcHelloResult\<close>

lemma ImRpcHelloResult_puts:
  "proto_ok P toks \<Longrightarrow> Response_ok q \<Longrightarrow>
   puts toks (ImRpcHelloResult_Write P (Some \<lparr>Success = Some q\<rparr>)) (struct_toks [(0, STRUCT, Response_toks q)])"
  using Response_proto.arg_puts [OF _ _ head_ok_struct(1)] by (simp add: ImRpcHelloResult_Write_def ImRpcHelloResult_writeField0_def ImRpcHelloResult_IsSetSuccess_def)

lemma ImRpcHelloResult_reads:
  assumes P: "proto_ok P toks" and q: "Response_ok q" and s: "toks s = struct_toks [(0, STRUCT, Response_toks q)] @ ts"
  shows "\<exists>s1. ImRpcHelloResult_Read P NewImRpcHelloResult s = Some (s1, \<lparr>Success = Some q\<rparr>, None) \<and> toks s1 = ts"
  unfolding ImRpcHelloResult_Read_def ImRpcHelloResult_ReadField0_def
  by (rule readsD [OF Response_proto.arg_reads [OF P q head_ok_struct(1)] s]) (simp add: NewImRpcHelloResult_def)

lemma ImRpcHelloResult_same_bytes:
  assumes W: "same_wire P T out" and q: "pred_option (\<lambda>p. pred_option Response_ok (Success p)) q"
  shows "puts out (ImRpcHelloResult_Write P q) (ImRpcHelloResult_FastWriteNocopy T q)"
proof -
  have fw: "puts out (ImRpcHelloResult_writeField0 P p) (ImRpcHelloResult_fastWriteField0 T p)"
    if "pred_option Response_ok (Success p)" for p
    using wire_field [OF W head_ok_struct(1) Response_same_bytes [OF W that]] puts_skip
    by (cases "Success p") (simp_all add: ImRpcHelloResult_writeField0_def ImRpcHelloResult_fastWriteField0_def ImRpcHelloResult_IsSetSuccess_def)
  show ?thesis
    using q wire_struct [OF W puts_skip] wire_struct [OF W puts_text [OF fw]]
    by (cases q) (simp_all add: ImRpcHelloResult_Write_def ImRpcHelloResult_FastWriteNocopy_def)
qed

lemma ImRpcHelloResult_DeepEqual_iff:
  assumes "ptrs_ok same p q"
    and "\<And>a b. p = Some a \<Longrightarrow> q = Some b \<Longrightarrow> ptrs_ok inner (Success a) (Success b)"
  shows "ImRpcHelloResult_DeepEqual same inner p q \<longleftrightarrow> p = q"
proof (cases "\<exists>a b. p = Some a \<and> q = Some b")
  case True
  then obtain a b where pq: "p = Some a" "q = Some b" by blast
  have "Response_DeepEqual inner (Success a) (Success b) \<longleftrightarrow> Success a = Success b"
    by (rule Response_DeepEqual_iff) (rule assms(2) [OF pq])
  with pq assms(1) show ?thesis
    by (cases a; cases b) (simp add: ptrs_ok_def ImRpcHelloResult_DeepEqual_def ImRpcHelloResult_Field0DeepEqual_def)
next
  case False
  with assms(1) show ?thesis by (cases p; cases q) (simp_all add: ptrs_ok_def ImRpcHelloResult_DeepEqual_def)
qed

section \<open>ImRpcSendMsgToUserArgs\<close>

lemma ImRpcSendMsgToUserArgs_puts:
  "proto_ok P toks \<Longrightarrow> SendMsgReq_ok q \<Longrightarrow>
   puts toks (ImRpcSendMsgToUserArgs_Write P (Some \<lparr>Req = Some q\<rparr>)) (struct_toks [(1, STRUCT, SendMsgReq_toks q)])"
  using SendMsgReq_proto.arg_puts [OF _ _ head_ok_struct(2)] by (simp add: ImRpcSendMsgToUserArgs_Write_def ImRpcSendMsgToUserArgs_writeField1_def)

lemma ImRpcSendMsgToUserArgs_reads:
  assumes P: "proto_ok P toks" and q: "SendMsgReq_ok q" and s: "toks s = struct_toks [(1, STRUCT, SendMsgReq_toks q)] @ ts"
  shows "\<exists>s1. ImRpcSendMsgToUserArgs_Read P NewImRpcSendMsgToUserArgs s = Some (s1, \<lparr>Req = Some q\<rparr>, None) \<and> toks s1 = ts"
  unfolding ImRpcSendMsgToUserArgs_Read_def ImRpcSendMsgToUserArgs_ReadField1_def
  by (rule readsD [OF SendMsgReq_proto.arg_reads [OF P q head_ok_struct(2)] s]) (simp add: NewImRpcSendMsgToUserArgs_def)

lemma ImRpcSendMsgToUserArgs_same_bytes:
  assumes W: "same_wire P T out" and q: "pred_option (\<lambda>p. pred_option SendMsgReq_ok (Req p)) q"
  shows "puts out (ImRpcSendMsgToUserArgs_Write P q) (ImRpcSendMsgToUserArgs_FastWriteNocopy T q)"
proof -
  have fw: "puts out (ImRpcSendMsgToUserArgs_writeField1 P p) (ImRpcSendMsgToUserArgs_fastWriteField1 T p)"
    if "pred_option SendMsgReq_ok (Req p)" for p
    using wire_field [OF W head_ok_struct(2) SendMsgReq_same_bytes [OF W that]]
    by (simp add: ImRpcSendMsgToUserArgs_writeField1_def ImRpcSendMsgToUserArgs_fastWriteField1_def)
  show ?thesis
    using q wire_struct [OF W puts_skip] wire_struct [OF W puts_text [OF fw]]
    by (cases q) (simp_all add: ImRpcSendMsgToUserArgs_Write_def ImRpcSendMsgToUserArgs_FastWriteNocopy_def)
qed

lemma ImRpcSendMsgToUserArgs_DeepEqual_iff:
  assumes "ptrs_ok same p q"
    and "\<And>a b. p = Some a \<Longrightarrow> q = Some b \<Longrightarrow> ptrs_ok inner (Req a) (Req b)"
  shows "ImRpcSendMsgToUserArgs_DeepEqual same inner p q \<longleftrightarrow> p = q"
proof (cases "\<exists>a b. p = Some a \<and> q = Some b")
  case True
  then obtain a b where pq: "p = Some a" "q = Some b" by blast
  have "SendMsgReq_DeepEqual inner (Req a) (Req b) \<longleftrightarrow> Req a = Req b"
    by (rule SendMsgReq_DeepEqual_iff) (rule assms(2) [OF pq])
  with pq assms(1) show ?thesis
    by (cases a; cases b) (simp add: ptrs_ok_def ImRpcSendMsgToUserArgs_DeepEqual_def ImRpcSendMsgToUserArgs_Field1DeepEqual_def)
next
  case False
  with assms(1) show ?thesis by (cases p; cases q) (simp_all add: ptrs_ok_def ImRpcSendMsgToUserArgs_DeepEqual_def)
qed

section \<open>ImRpcSendMsgToUserResult\<close>

lemma ImRpcSendMsgToUserResult_puts:
  "proto_ok P toks \<Longrightarrow> SendMsgRsp_ok q \<Longrightarrow>
   puts toks (ImRpcSendMsgToUserResult_Write P (Some \<lparr>Success = Some q\<rparr>)) (struct_toks [(0, STRUCT, SendMsgRsp_toks q)])"
  using SendMsgRsp_proto.arg_puts [OF _ _ head_ok_struct(1)] by (simp add: ImRpcSendMsgToUserResult_Write_def ImRpcSendMsgToUserResult_writeField0_def ImRpcSendMsgToUserResult_IsSetSuccess_def)

lemma ImRpcSendMsgToUserResult_reads:
  assumes P: "proto_ok P toks" and q: "SendMsgRsp_ok q" and s: "toks s = struct_toks [(0, STRUCT, SendMsgRsp_toks q)] @ ts"
  shows "\<exists>s1. ImRpcSendMsgToUserResult_Read P NewImRpcSendMsgToUserResult s = Some (s1, \<lparr>Success = Some q\<rparr>, None) \<and> toks s1 = ts"
  unfolding ImRpcSendMsgToUserResult_Read_def ImRpcSendMsgToUserResult_ReadField0_def
  by (rule readsD [OF SendMsgRsp_proto.arg_reads [OF P q head_ok_struct(1)] s]) (simp add: NewImRpcSendMsgToUserResult_def)

lemma ImRpcSendMsgToUserResult_same_bytes:
  assumes W: "same_wire P T out" and q: "pred_option (\<lambda>p. pred_option SendMsgRsp_ok (Success p)) q"
  shows "puts out (ImRpcSendMsgToUserResult_Write P q) (ImRpcSendMsgToUserResult_FastWriteNocopy T q)"
proof -
  have fw: "puts out (ImRpcSendMsgToUserResult_writeField0 P p) (ImRpcSendMsgToUserResult_fastWriteField0 T p)"
    if "pred_option SendMsgRsp_ok (Success p)" for p
    using wire_field [OF W head_ok_struct(1) SendMsgRsp_same_bytes [OF W that]] puts_skip
    by (cases "Success p") (simp_all add: ImRpcSendMsgToUserResult_writeField0_def ImRpcSendMsgToUserResult_fastWriteField0_def ImRpcSendMsgToUserResult_IsSetSuccess_def)
  show ?thesis
    using q wire_struct [OF W puts_skip] wire_struct [OF W puts_text [OF fw]]
    by (cases q) (simp_all add: ImRpcSendMsgToUserResult_Write_def ImRpcSendMsgToUserResult_FastWriteNocopy_def)
qed

lemma ImRpcSendMsgToUserResult_DeepEqual_iff:
  assumes "ptrs_ok same p q"
    and "\<And>a b. p = Some a \<Longrightarrow> q = Some b \<Longrightarrow> ptrs_ok inner (Success a) (Success b)"
  shows "ImRpcSendMsgToUserResult_DeepEqual same inner p q \<longleftrightarrow> p = q"
proof (cases "\<exists>a b. p = Some a \<and> q = Some b")
  case True
  then obtain a b where pq: "p = Some a" "q = Some b" by blast
  have "SendMsgRsp_DeepEqual inner (Success a) (Success b) \<longleftrightarrow> Success a = Success b"
    by (rule SendMsgRsp_DeepEqual_iff) (rule assms(2) [OF pq])
  with pq assms(1) show ?thesis
    by (cases a; cases b) (simp add: ptrs_ok_def ImRpcSendMsgToUserResult_DeepEqual_def ImRpcSendMsgToUserResult_Field0DeepEqual_def)
next
  case False
  with assms(1) show ?thesis by (cases p; cases q) (simp_all add: ptrs_ok_def ImRpcSendMsgToUserResult_DeepEqual_def)
qed

section \<open>ImRpcSendMsgToUserByTgidArgs\<close>

lemma ImRpcSendMsgToUserByTgidArgs_puts:
  "proto_ok P toks \<Longrightarrow> SendMsgByTgidReq_ok q \<Longrightarrow>
   puts toks (ImRpcSendMsgToUserByTgidArgs_Write P (Some \<lparr>Req = Some q\<rparr>)) (struct_toks [(1, STRUCT, SendMsgByTgidReq_toks q)])"
  using SendMsgByTgidReq_proto.arg_puts [OF _ _ head_ok_struct(2)] by (simp add: ImRpcSendMsgToUserByTgidArgs_Write_def ImRpcSendMsgToUserByTgidArgs_writeField1_def)

lemma ImRpcSendMsgToUserByTgidArgs_reads:
  assumes P: "proto_ok P toks" and q: "SendMsgByTgidReq_ok q" and s: "toks s = struct_toks [(1, STRUCT, SendMsgByTgidReq_toks q)] @ ts"
  shows "\<exists>s1. ImRpcSendMsgToUserByTgidArgs_Read P NewImRpcSendMsgToUserByTgidArgs s = Some (s1, \<lparr>Req = Some q\<rparr>, None) \<and> toks s1 = ts"
  unfolding ImRpcSendMsgToUserByTgidArgs_Read_def ImRpcSendMsgToUserByTgidArgs_ReadField1_def
  by (rule readsD [OF SendMsgByTgidReq_proto.arg_reads [OF P q head_ok_struct(2)] s]) (simp add: NewImRpcSendMsgToUserByTgidArgs_def)

lemma ImRpcSendMsgToUserByTgidArgs_same_bytes:
  assumes W: "same_wire P T out" and q: "pred_option (\<lambda>p. pred_option SendMsgByTgidReq_ok (Req p)) q"
  shows "puts out (ImRpcSendMsgToUserByTgidArgs_Write P q) (ImRpcSendMsgToUserByTgidArgs_FastWriteNocopy T q)"
proof -
  have fw: "puts out (ImRpcSendMsgToUserByTgidArgs_writeField1 P p) (ImRpcSendMsgToUserByTgidArgs_fastWriteField1 T p)"
    if "pred_option SendMsgByTgidReq_ok (Req p)" for p
    using wire_field [OF W head_ok_struct(2) SendMsgByTgidReq_same_bytes [OF W that]]
    by (simp add: ImRpcSendMsgToUserByTgidArgs_writeField1_def ImRpcSendMsgToUserByTgidArgs_fastWriteField1_def)
  show ?thesis
    using q wire_struct [OF W puts_skip] wire_struct [OF W puts_text [OF fw]]
    by (cases q) (simp_all add: ImRpcSendMsgToUserByTgidArgs_Write_def ImRpcSendMsgToUserByTgidArgs_FastWriteNocopy_def)
qed

lemma ImRpcSendMsgToUserByTgidArgs_DeepEqual_iff:
  assumes "ptrs_ok same p q"
    and "\<And>a b. p = Some a \<Longrightarrow> q = Some b \<Longrightarrow> ptrs_ok inner (Req a) (Req b)"
  shows "ImRpcSendMsgToUserByTgidArgs_DeepEqual same inner p q \<longleftrightarrow> p = q"
proof (cases "\<exists>a b. p = Some a \<and> q = Some b")
  case True
  then obtain a b where pq: "p = Some a" "q = Some b" by blast
  have "SendMsgByTgidReq_DeepEqual inner (Req a) (Req b) \<longleftrightarrow> Req a = Req b"
    by (rule SendMsgByTgidReq_DeepEqual_iff) (rule assms(2) [OF pq])
  with pq assms(1) show ?thesis
    by (cases a; cases b) (simp add: ptrs_ok_def ImRpcSendMsgToUserByTgidArgs_DeepEqual_def ImRpcSendMsgToUserByTgidArgs_Field1DeepEqual_def)
next
  case False
  with assms(1) show ?thesis by (cases p; cases q) (simp_all add: ptrs_ok_def ImRpcSendMsgToUserByTgidArgs_DeepEqual_def)
qed

section \<open>ImRpcSendMsgToUserByTgidResult\<close>

lemma ImRpcSendMsgToUserByTgidResult_puts:
  "proto_ok P toks \<Longrightarrow> SendMsgRsp_ok q \<Longrightarrow>
   puts toks (ImRpcSendMsgToUserByTgidResult_Write P (Some \<lparr>Success = Some q\<rparr>)) (struct_toks [(0, STRUCT, SendMsgRsp_toks q)])"
  using SendMsgRsp_proto.arg_puts [OF _ _ head_ok_struct(1)] by (simp add: ImRpcSendMsgToUserByTgidResult_Write_def ImRpcSendMsgToUserByTgidResult_writeField0_def ImRpcSendMsgToUserByTgidResult_IsSetSuccess_def)

lemma ImRpcSendMsgToUserByTgidResult_reads:
  assumes P: "proto_ok P toks" and q: "SendMsgRsp_ok q" and s: "toks s = struct_toks [(0, STRUCT, SendMsgRsp_toks q)] @ ts"
  shows "\<exists>s1. ImRpcSendMsgToUserByTgidResult_Read P NewImRpcSendMsgToUserByTgidResult s = Some (s1, \<lparr>Success = Some q\<rparr>, None) \<and> toks s1 = ts"
  unfolding ImRpcSendMsgToUserByTgidResult_Read_def ImRpcSendMsgToUserByTgidResult_ReadField0_def
  by (rule readsD [OF SendMsgRsp_proto.arg_reads [OF P q head_ok_struct(1)] s]) (simp add: NewImRpcSendMsgToUserByTgidResult_def)

lemma ImRpcSendMsgToUserByTgidResult_same_bytes:
  assumes W: "same_wire P T out" and q: "pred_option (\<lambda>p. pred_option SendMsgRsp_ok (Success p)) q"
  shows "puts out (ImRpcSendMsgToUserByTgidResult_Write P q) (ImRpcSendMsgToUserByTgidResult_FastWriteNocopy T q)"
proof -
  have fw: "puts out (ImRpcSendMsgToUserByTgidResult_writeField0 P p) (ImRpcSendMsgToUserByTgidResult_fastWriteField0 T p)"
    if "pred_option SendMsgRsp_ok (Success p)" for p
    using wire_field [OF W head_ok_struct(1) SendMsgRsp_same_bytes [OF W that]] puts_skip
    by (cases "Success p") (simp_all add: ImRpcSendMsgToUserByTgidResult_writeField0_def ImRpcSendMsgToUserByTgidResult_fastWriteField0_def ImRpcSendMsgToUserByTgidResult_IsSetSuccess_def)
  show ?thesis
    using q wire_struct [OF W puts_skip] wire_struct [OF W puts_text [OF fw]]
    by (cases q) (simp_all add: ImRpcSendMsgToUserByTgidResult_Write_def ImRpcSendMsgToUserByTgidResult_FastWriteNocopy_def)
qed

lemma ImRpcSendMsgToUserByTgidResult_DeepEqual_iff:
  assumes "ptrs_ok same p q"
    and "\<And>a b. p = Some a \<Longrightarrow> q = Some b \<Longrightarrow> ptrs_ok inner (Success a) (Success b)"
  shows "ImRpcSendMsgToUserByTgidResult_DeepEqual same inner p q \<longleftrightarrow> p = q"
proof (cases "\<exists>a b. p = Some a \<and> q = Some b")
  case True
  then obtain a b where pq: "p = Some a" "q = Some b" by blast
  have "SendMsgRsp_DeepEqual inner (Success a) (Success b) \<longleftrightarrow> Success a = Success b"
    by (rule SendMsgRsp_DeepEqual_iff) (rule assms(2) [OF pq])
  with pq assms(1) show ?thesis
    by (cases a; cases b) (simp add: ptrs_ok_def ImRpcSendMsgToUserByTgidResult_DeepEqual_def ImRpcSendMsgToUserByTgidResult_Field0DeepEqual_def)
next
  case False
  with assms(1) show ?thesis by (cases p; cases q) (simp_all add: ptrs_ok_def ImRpcSendMsgToUserByTgidResult_DeepEqual_def)
qed

section \<open>ImRpcStopUserClientArgs\<close>

lemma ImRpcStopUserClientArgs_puts:
  "proto_ok P toks \<Longrightarrow> UserIdReq_ok q \<Longrightarrow>
   puts toks (ImRpcStopUserClientArgs_Write P (Some \<lparr>Req = Some q\<rparr>)) (struct_toks [(1, STRUCT, UserIdReq_toks q)])"
  using UserIdReq_proto.arg_puts [OF _ _ head_ok_struct(2)] by (simp add: ImRpcStopUserClientArgs_Write_def ImRpcStopUserClientArgs_writeField1_def)

lemma ImRpcStopUserClientArgs_reads:
  assumes P: "proto_ok P toks" and q: "UserIdReq_ok q" and s: "toks s = struct_toks [(1, STRUCT, UserIdReq_toks q)] @ ts"
  shows "\<exists>s1. ImRpcStopUserClientArgs_Read P NewImRpcStopUserClientArgs s = Some (s1, \<lparr>Req = Some q\<rparr>, None) \<and> toks s1 = ts"
  unfolding ImRpcStopUserClientArgs_Read_def ImRpcStopUserClientArgs_ReadField1_def
  by (rule readsD [OF UserIdReq_proto.arg_reads [OF P q head_ok_struct(2)] s]) (simp add: NewImRpcStopUserClientArgs_def)

lemma ImRpcStopUserClientArgs_same_bytes:
  assumes W: "same_wire P T out" and q: "pred_option (\<lambda>p. pred_option UserIdReq_ok (Req p)) q"
  shows "puts out (ImRpcStopUserClientArgs_Write P q) (ImRpcStopUserClientArgs_FastWriteNocopy T q)"
proof -
  have fw: "puts out (ImRpcStopUserClientArgs_writeField1 P p) (ImRpcStopUserClientArgs_fastWriteField1 T p)"
    if "pred_option UserIdReq_ok (Req p)" for p
    using wire_field [OF W head_ok_struct(2) UserIdReq_same_bytes [OF W that]]
    by (simp add: ImRpcStopUserClientArgs_writeField1_def ImRpcStopUserClientArgs_fastWriteField1_def)
  show ?thesis
    using q wire_struct [OF W puts_skip] wire_struct [OF W puts_text [OF fw]]
    by (cases q) (simp_all add: ImRpcStopUserClientArgs_Write_def ImRpcStopUserClientArgs_FastWriteNocopy_def)
qed

lemma ImRpcStopUserClientArgs_DeepEqual_iff:
  assumes "ptrs_ok same p q"
    and "\<And>a b. p = Some a \<Longrightarrow> q = Some b \<Longrightarrow> ptrs_ok inner (Req a) (Req b)"
  shows "ImRpcStopUserClientArgs_DeepEqual same inner p q \<longleftrightarrow> p = q"
proof (cases "\<exists>a b. p = Some a \<and> q = Some b")
  case True
  then obtain a b where pq: "p = Some a" "q = Some b" by blast
  have "UserIdReq_DeepEqual inner (Req a) (Req b) \<longleftrightarrow> Req a = Req b"
    by (rule UserIdReq_DeepEqual_iff) (rule assms(2) [OF pq])
  with pq assms(1) show ?thesis
    by (cases a; cases b) (simp add: ptrs_ok_def ImRpcStopUserClientArgs_DeepEqual_def ImRpcStopUserClientArgs_Field1DeepEqual_def)
next
  case False
  with assms(1) show ?thesis by (cases p; cases q) (simp_all add: ptrs_ok_def ImRpcStopUserClientArgs_DeepEqual_def)
qed

section \<open>ImRpcStopUserClientResult\<close>

lemma ImRpcStopUserClientResult_puts:
  "proto_ok P toks \<Longrightarrow> StopUserClientRsp_ok q \<Longrightarrow>
   puts toks (ImRpcStopUserClientResult_Write P (Some \<lparr>Success = Some q\<rparr>)) (struct_toks [(0, STRUCT, StopUserClientRsp_toks q)])"
  using StopUserClientRsp_proto.arg_puts [OF _ _ head_ok_struct(1)] by (simp add: ImRpcStopUserClientResult_Write_def ImRpcStopUserClientResult_writeField0_def ImRpcStopUserClientResult_IsSetSuccess_def)

lemma ImRpcStopUserClientResult_reads:
  assumes P: "proto_ok P toks" and q: "StopUserClientRsp_ok q" and s: "toks s = struct_toks [(0, STRUCT, StopUserClientRsp_toks q)] @ ts"
  shows "\<exists>s1. ImRpcStopUserClientResult_Read P NewImRpcStopUserClientResult s = Some (s1, \<lparr>Success = Some q\<rparr>, None) \<and> toks s1 = ts"
  unfolding ImRpcStopUserClientResult_Read_def ImRpcStopUserClientResult_ReadField0_def
  by (rule readsD [OF StopUserClientRsp_proto.arg_reads [OF P q head_ok_struct(1)] s]) (simp add: NewImRpcStopUserClientResult_def)

lemma ImRpcStopUserClientResult_same_bytes:
  assumes W: "same_wire P T out" and q: "pred_option (\<lambda>p. pred_option StopUserClientRsp_ok (Success p)) q"
  shows "puts out (ImRpcStopUserClientResult_Write P q) (ImRpcStopUserClientResult_FastWriteNocopy T q)"
proof -
  have fw: "puts out (ImRpcStopUserClientResult_writeField0 P p) (ImRpcStopUserClientResult_fastWriteField0 T p)"
    if "pred_option StopUserClientRsp_ok (Success p)" for p
    using wire_field [OF W head_ok_struct(1) StopUserClientRsp_same_bytes [OF W that]] puts_skip
    by (cases "Success p") (simp_all add: ImRpcStopUserClientResult_writeField0_def ImRpcStopUserClientResult_fastWriteField0_def ImRpcStopUserClientResult_IsSetSuccess_def)
  show ?thesis
    using q wire_struct [OF W puts_skip] wire_struct [OF W puts_text [OF fw]]
    by (cases q) (simp_all add: ImRpcStopUserClientResult_Write_def ImRpcStopUserClientResult_FastWriteNocopy_def)
qed

lemma ImRpcStopUserClientResult_DeepEqual_iff:
  assumes "ptrs_ok same p q"
    and "\<And>a b. p = Some a \<Longrightarrow> q = Some b \<Longrightarrow> ptrs_ok inner (Success a) (Success b)"
  shows "ImRpcStopUserClientResult_DeepEqual same inner p q \<longleftrightarrow> p = q"
proof (cases "\<exists>a b. p = Some a \<and> q = Some b")
  case True
  then obtain a b where pq: "p = Some a" "q = Some b" by blast
  have "StopUserClientRsp_DeepEqual inner (Success a) (Success b) \<longleftrightarrow> Success a = Success b"
    by (rule StopUserClientRsp_DeepEqual_iff) (rule assms(2) [OF pq])
  with pq assms(1) show ?thesis
    by (cases a; cases b) (simp add: ptrs_ok_def ImRpcStopUserClientResult_DeepEqual_def ImRpcStopUserClientResult_Field0DeepEqual_def)
next
  case False
  with assms(1) show ?thesis by (cases p; cases q) (simp_all add: ptrs_ok_def ImRpcStopUserClientResult_DeepEqual_def)
qed

section \<open>ImRpcGetSysInfoArgs\<close>

lemma ImRpcGetSysInfoArgs_same_bytes:
  assumes W: "same_wire P T out"
  shows "puts out (ImRpcGetSysInfoArgs_Write P q) (ImRpcGetSysInfoArgs_FastWriteNocopy T q)"
  using wire_struct [OF W puts_skip]
  by (simp add: ImRpcGetSysInfoArgs_Write_def ImRpcGetSysInfoArgs_FastWriteNocopy_def split: option.split)

section \<open>ImRpcGetSysInfoResult\<close>

lemma ImRpcGetSysInfoResult_puts:
  "proto_ok P toks \<Longrightarrow> BytesRsp_ok q \<Longrightarrow>
   puts toks (ImRpcGetSysInfoResult_Write P (Some \<lparr>Success = Some q\<rparr>)) (struct_toks [(0, STRUCT, BytesRsp_toks q)])"
  using BytesRsp_proto.arg_puts [OF _ _ head_ok_struct(1)] by (simp add: ImRpcGetSysInfoResult_Write_def ImRpcGetSysInfoResult_writeField0_def ImRpcGetSysInfoResult_IsSetSuccess_def)

lemma ImRpcGetSysInfoResult_reads:
  assumes P: "proto_ok P toks" and q: "BytesRsp_ok q" and s: "toks s = struct_toks [(0, STRUCT, BytesRsp_toks q)] @ ts"
  shows "\<exists>s1. ImRpcGetSysInfoResult_Read P NewImRpcGetSysInfoResult s = Some (s1, \<lparr>Success = Some q\<rparr>, None) \<and> toks s1 = ts"
  unfolding ImRpcGetSysInfoResult_Read_def ImRpcGetSysInfoResult_ReadField0_def
  by (rule readsD [OF BytesRsp_proto.arg_reads [OF P q head_ok_struct(1)] s]) (simp add: NewImRpcGetSysInfoResult_def)

lemma ImRpcGetSysInfoResult_same_bytes:
  assumes W: "same_wire P T out" and q: "pred_option (\<lambda>p. pred_option BytesRsp_ok (Success p)) q"
  shows "puts out (ImRpcGetSysInfoResult_Write P q) (ImRpcGetSysInfoResult_FastWriteNocopy T q)"
proof -
  have fw: "puts out (ImRpcGetSysInfoResult_writeField0 P p) (ImRpcGetSysInfoResult_fastWriteField0 T p)"
    if "pred_option BytesRsp_ok (Success p)" for p
    using wire_field [OF W head_ok_struct(1) BytesRsp_same_bytes [OF W that]] puts_skip
    by (cases "Success p") (simp_all add: ImRpcGetSysInfoResult_writeField0_def ImRpcGetSysInfoResult_fastWriteField0_def ImRpcGetSysInfoResult_IsSetSuccess_def)
  show ?thesis
    using q wire_struct [OF W puts_skip] wire_struct [OF W puts_text [OF fw]]
    by (cases q) (simp_all add: ImRpcGetSysInfoResult_Write_def ImRpcGetSysInfoResult_FastWriteNocopy_def)
qed

lemma ImRpcGetSysInfoResult_DeepEqual_iff:
  assumes "ptrs_ok same p q"
    and "\<And>a b. p = Some a \<Longrightarrow> q = Some b \<Longrightarrow> ptrs_ok inner (Success a) (Success b)"
  shows "ImRpcGetSysInfoResult_DeepEqual same inner p q \<longleftrightarrow> p = q"
proof (cases "\<exists>a b. p = Some a \<and> q = Some b")
  case True
  then obtain a b where pq: "p = Some a" "q = Some b" by blast
  have "BytesRsp_DeepEqual inner (Success a) (Success b) \<longleftrightarrow> Success a = Success b"
    by (rule BytesRsp_DeepEqual_iff) (rule assms(2) [OF pq])
  with pq assms(1) show ?thesis
    by (cases a; cases b) (simp add: ptrs_ok_def ImRpcGetSysInfoResult_DeepEqual_def ImRpcGetSysInfoResult_Field0DeepEqual_def)
next
  case False
  with assms(1) show ?thesis by (cases p; cases q) (simp_all add: ptrs_ok_def ImRpcGetSysInfoResult_DeepEqual_def)
qed

section \<open>ImRpcJoinGroupArgs\<close>

lemma ImRpcJoinGroupArgs_puts:
  "proto_ok P toks \<Longrightarrow> JoinGroupReq_ok q \<Longrightarrow>
   puts toks (ImRpcJoinGroupArgs_Write P (Some \<lparr>Req = Some q\<rparr>)) (struct_toks [(1, STRUCT, JoinGroupReq_toks q)])"
  using JoinGroupReq_proto.arg_puts [OF _ _ head_ok_struct(2)] by (simp add: ImRpcJoinGroupArgs_Write_def ImRpcJoinGroupArgs_writeField1_def)

lemma ImRpcJoinGroupArgs_reads:
  assumes P: "proto_ok P toks" and q: "JoinGroupReq_ok q" and s: "toks s = struct_toks [(1, STRUCT, JoinGroupReq_toks q)] @ ts"
  shows "\<exists>s1. ImRpcJoinGroupArgs_Read P NewImRpcJoinGroupArgs s = Some (s1, \<lparr>Req = Some q\<rparr>, None) \<and> toks s1 = ts"
  unfolding ImRpcJoinGroupArgs_Read_def ImRpcJoinGroupArgs_ReadField1_def
  by (rule readsD [OF JoinGroupReq_proto.arg_reads [OF P q head_ok_struct(2)] s]) (simp add: NewImRpcJoinGroupArgs_def)

lemma ImRpcJoinGroupArgs_same_bytes:
  assumes W: "same_wire P T out" and q: "pred_option (\<lambda>p. pred_option JoinGroupReq_ok (Req p)) q"
  shows "puts out (ImRpcJoinGroupArgs_Write P q) (ImRpcJoinGroupArgs_FastWriteNocopy T q)"
proof -
  have fw: "puts out (ImRpcJoinGroupArgs_writeField1 P p) (ImRpcJoinGroupArgs_fastWriteField1 T p)"
    if "pred_option JoinGroupReq_ok (Req p)" for p
    using wire_field [OF W head_ok_struct(2) JoinGroupReq_same_bytes [OF W that]]
    by (simp add: ImRpcJoinGroupArgs_writeField1_def ImRpcJoinGroupArgs_fastWriteField1_def)
  show ?thesis
    using q wire_struct [OF W puts_skip] wire_struct [OF W puts_text [OF fw]]
    by (cases q) (simp_all add: ImRpcJoinGroupArgs_Write_def ImRpcJoinGroupArgs_FastWriteNocopy_def)
qed

lemma ImRpcJoinGroupArgs_DeepEqual_iff:
  assumes "ptrs_ok same p q"
    and "\<And>a b. p = Some a \<Longrightarrow> q = Some b \<Longrightarrow> ptrs_ok inner (Req a) (Req b)"
  shows "ImRpcJoinGroupArgs_DeepEqual same inner p q \<longleftrightarrow> p = q"
proof (cases "\<exists>a b. p = Some a \<and> q = Some b")
  case True
  then obtain a b where pq: "p = Some a" "q = Some b" by blast
  have "JoinGroupReq_DeepEqual inner (Req a) (Req b) \<longleftrightarrow> Req a = Req b"
    by (rule JoinGroupReq_DeepEqual_iff) (rule assms(2) [OF pq])
  with pq assms(1) show ?thesis
    by (cases a; cases b) (simp add: ptrs_ok_def ImRpcJoinGroupArgs_DeepEqual_def ImRpcJoinGroupArgs_Field1DeepEqual_def)
next
  case False
  with assms(1) show ?thesis by (cases p; cases q) (simp_all add: ptrs_ok_def ImRpcJoinGroupArgs_DeepEqual_def)
qed

section \<open>ImRpcJoinGroupResult\<close>

lemma ImRpcJoinGroupResult_puts:
  "proto_ok P toks \<Longrightarrow> JoinGroupRes_ok q \<Longrightarrow>
   puts toks (ImRpcJoinGroupResult_Write P (Some \<lparr>Success = Some q\<rparr>)) (struct_toks [(0, STRUCT, JoinGroupRes_toks q)])"
  using JoinGroupRes_proto.arg_puts [OF _ _ head_ok_struct(1)] by (simp add: ImRpcJoinGroupResult_Write_def ImRpcJoinGroupResult_writeField0_def ImRpcJoinGroupResult_IsSetSuccess_def)

lemma ImRpcJoinGroupResult_reads:
  assumes P: "proto_ok P toks" and q: "JoinGroupRes_ok q" and s: "toks s = struct_toks [(0, STRUCT, JoinGroupRes_toks q)] @ ts"
  shows "\<exists>s1. ImRpcJoinGroupResult_Read P NewImRpcJoinGroupResult s = Some (s1, \<lparr>Success = Some q\<rparr>, None) \<and> toks s1 = ts"
  unfolding ImRpcJoinGroupResult_Read_def ImRpcJoinGroupResult_ReadField0_def
  by (rule readsD [OF JoinGroupRes_proto.arg_reads [OF P q head_ok_struct(1)] s]) (simp add: NewImRpcJoinGroupResult_def)

lemma ImRpcJoinGroupResult_same_bytes:
  assumes W: "same_wire P T out" and q: "pred_option (\<lambda>p. pred_option JoinGroupRes_ok (Success p)) q"
  shows "puts out (ImRpcJoinGroupResult_Write P q) (ImRpcJoinGroupResult_FastWriteNocopy T q)"
proof -
  have fw: "puts out (ImRpcJoinGroupResult_writeField0 P p) (ImRpcJoinGroupResult_fastWriteField0 T p)"
    if "pred_option JoinGroupRes_ok (Success p)" for p
    using wire_field [OF W head_ok_struct(1) JoinGroupRes_same_bytes [OF W that]] puts_skip
    by (cases "Success p") (simp_all add: ImRpcJoinGroupResult_writeField0_def ImRpcJoinGroupResult_fastWriteField0_def ImRpcJoinGroupResult_IsSetSuccess_def)
  show ?thesis
    using q wire_struct [OF W puts_skip] wire_struct [OF W puts_text [OF fw]]
    by (cases q) (simp_all add: ImRpcJoinGroupResult_Write_def ImRpcJoinGroupResult_FastWriteNocopy_def)
qed

lemma ImRpcJoinGroupResult_DeepEqual_iff:
  assumes "ptrs_ok same p q"
    and "\<And>a b. p = Some a \<Longrightarrow> q = Some b \<Longrightarrow> ptrs_ok inner (Success a) (Success b)"
  shows "ImRpcJoinGroupResult_DeepEqual same inner p q \<longleftrightarrow> p = q"
proof (cases "\<exists>a b. p = Some a \<and> q = Some b")
  case True
  then obtain a b where pq: "p = Some a" "q = Some b" by blast
  have "JoinGroupRes_DeepEqual inner (Success a) (Success b) \<longleftrightarrow> Success a = Success b"
    by (rule JoinGroupRes_DeepEqual_iff) (rule assms(2) [OF pq])
  with pq assms(1) show ?thesis
    by (cases a; cases b) (simp add: ptrs_ok_def ImRpcJoinGroupResult_DeepEqual_def ImRpcJoinGroupResult_Field0DeepEqual_def)
next
  case False
  with assms(1) show ?thesis by (cases p; cases q) (simp_all add: ptrs_ok_def ImRpcJoinGroupResult_DeepEqual_def)
qed

section \<open>ImRpcOutGroupArgs\<close>

lemma ImRpcOutGroupArgs_puts:
  "proto_ok P toks \<Longrightarrow> JoinGroupReq_ok q \<Longrightarrow>
   puts toks (ImRpcOutGroupArgs_Write P (Some \<lparr>Req = Some q\<rparr>)) (struct_toks [(1, STRUCT, JoinGroupReq_toks q)])"
  using JoinGroupReq_proto.arg_puts [OF _ _ head_ok_struct(2)] by (simp add: ImRpcOutGroupArgs_Write_def ImRpcOutGroupArgs_writeField1_def)

lemma ImRpcOutGroupArgs_reads:
  assumes P: "proto_ok P toks" and q: "JoinGroupReq_ok q" and s: "toks s = struct_toks [(1, STRUCT, JoinGroupReq_toks q)] @ ts"
  shows "\<exists>s1. ImRpcOutGroupArgs_Read P NewImRpcOutGroupArgs s = Some (s1, \<lparr>Req = Some q\<rparr>, None) \<and> toks s1 = ts"
  unfolding ImRpcOutGroupArgs_Read_def ImRpcOutGroupArgs_ReadField1_def
  by (rule readsD [OF JoinGroupReq_proto.arg_reads [OF P q head_ok_struct(2)] s]) (simp add: NewImRpcOutGroupArgs_def)

lemma ImRpcOutGroupArgs_same_bytes:
  assumes W: "same_wire P T out" and q: "pred_option (\<lambda>p. pred_option JoinGroupReq_ok (Req p)) q"
  shows "puts out (ImRpcOutGroupArgs_Write P q) (ImRpcOutGroupArgs_FastWriteNocopy T q)"
proof -
  have fw: "puts out (ImRpcOutGroupArgs_writeField1 P p) (ImRpcOutGroupArgs_fastWriteField1 T p)"
    if "pred_option JoinGroupReq_ok (Req p)" for p
    using wire_field [OF W head_ok_struct(2) JoinGroupReq_same_bytes [OF W that]]
    by (simp add: ImRpcOutGroupArgs_writeField1_def ImRpcOutGroupArgs_fastWriteField1_def)
  show ?thesis
    using q wire_struct [OF W puts_skip] wire_struct [OF W puts_text [OF fw]]
    by (cases q) (simp_all add: ImRpcOutGroupArgs_Write_def ImRpcOutGroupArgs_FastWriteNocopy_def)
qed

lemma ImRpcOutGroupArgs_DeepEqual_iff:
  assumes "ptrs_ok same p q"
    and "\<And>a b. p = Some a \<Longrightarrow> q = Some b \<Longrightarrow> ptrs_ok inner (Req a) (Req b)"
  shows "ImRpcOutGroupArgs_DeepEqual same inner p q \<longleftrightarrow> p = q"
proof (cases "\<exists>a b. p = Some a \<and> q = Some b")
  case True
  then obtain a b where pq: "p = Some a" "q = Some b" by blast
  have "JoinGroupReq_DeepEqual inner (Req a) (Req b) \<longleftrightarrow> Req a = Req b"
    by (rule JoinGroupReq_DeepEqual_iff) (rule assms(2) [OF pq])
  with pq assms(1) show ?thesis
    by (cases a; cases b) (simp add: ptrs_ok_def ImRpcOutGroupArgs_DeepEqual_def ImRpcOutGroupArgs_Field1DeepEqual_def)
next
  case False
  with assms(1) show ?thesis by (cases p; cases q) (simp_all add: ptrs_ok_def ImRpcOutGroupArgs_DeepEqual_def)
qed

section \<open>ImRpcOutGroupResult\<close>

lemma ImRpcOutGroupResult_puts:
  "proto_ok P toks \<Longrightarrow> JoinGroupRes_ok q \<Longrightarrow>
   puts toks (ImRpcOutGroupResult_Write P (Some \<lparr>Success = Some q\<rparr>)) (struct_toks [(0, STRUCT, JoinGroupRes_toks q)])"
  using JoinGroupRes_proto.arg_puts [OF _ _ head_ok_struct(1)] by (simp add: ImRpcOutGroupResult_Write_def ImRpcOutGroupResult_writeField0_def ImRpcOutGroupResult_IsSetSuccess_def)

lemma ImRpcOutGroupResult_reads:
  assumes P: "proto_ok P toks" and q: "JoinGroupRes_ok q" and s: "toks s = struct_toks [(0, STRUCT, JoinGroupRes_toks q)] @ ts"
  shows "\<exists>s1. ImRpcOutGroupResult_Read P NewImRpcOutGroupResult s = Some (s1, \<lparr>Success = Some q\<rparr>, None) \<and> toks s1 = ts"
  unfolding ImRpcOutGroupResult_Read_def ImRpcOutGroupResult_ReadField0_def
  by (rule readsD [OF JoinGroupRes_proto.arg_reads [OF P q head_ok_struct(1)] s]) (simp add: NewImRpcOutGroupResult_def)

lemma ImRpcOutGroupResult_same_bytes:
  assumes W: "same_wire P T out" and q: "pred_option (\<lambda>p. pred_option JoinGroupRes_ok (Success p)) q"
  shows "puts out (ImRpcOutGroupResult_Write P q) (ImRpcOutGroupResult_FastWriteNocopy T q)"
proof -
  have fw: "puts out (ImRpcOutGroupResult_writeField0 P p) (ImRpcOutGroupResult_fastWriteField0 T p)"
    if "pred_option JoinGroupRes_ok (Success p)" for p
    using wire_field [OF W head_ok_struct(1) JoinGroupRes_same_bytes [OF W that]] puts_skip
    by (cases "Success p") (simp_all add: ImRpcOutGroupResult_writeField0_def ImRpcOutGroupResult_fastWriteField0_def ImRpcOutGroupResult_IsSetSuccess_def)
  show ?thesis
    using q wire_struct [OF W puts_skip] wire_struct [OF W puts_text [OF fw]]
    by (cases q) (simp_all add: ImRpcOutGroupResult_Write_def ImRpcOutGroupResult_FastWriteNocopy_def)
qed

lemma ImRpcOutGroupResult_DeepEqual_iff:
  assumes "ptrs_ok same p q"
    and "\<And>a b. p = Some a \<Longrightarrow> q = Some b \<Longrightarrow> ptrs_ok inner (Success a) (Success b)"
  shows "ImRpcOutGroupResult_DeepEqual same inner p q \<longleftrightarrow> p = q"
proof (cases "\<exists>a b. p = Some a \<and> q = Some b")
  case True
  then obtain a b where pq: "p = Some a" "q = Some b" by blast
  have "JoinGroupRes_DeepEqual inner (Success a) (Success b) \<longleftrightarrow> Success a = Success b"
    by (rule JoinGroupRes_DeepEqual_iff) (rule assms(2) [OF pq])
  with pq assms(1) show ?thesis
    by (cases a; cases b) (simp add: ptrs_ok_def ImRpcOutGroupResult_DeepEqual_def ImRpcOutGroupResult_Field0DeepEqual_def)
next
  case False
  with assms(1) show ?thesis by (cases p; cases q) (simp_all add: ptrs_ok_def ImRpcOutGroupResult_DeepEqual_def)
qed

end
