(* ===== verification/ProtoProps.thy ===== *)
theory ProtoProps
  imports CodecProps KitexCalls ServerHelper
begin

text \<open>
  Properties of the second codec of the rpc structs, \<^verbatim>\<open>Read\<close> and \<^verbatim>\<open>Write\<close> over a protocol
  object, its agreement with the fast codec, the comparison of structs, and the address of
  the server. Two protocols show that what is asked of a protocol can hold: one that keeps
  the tokens, and the binary protocol over a buffer.
\<close>

declare map_of_eq_Some_iff [simp del] Some_eq_map_of_iff [simp del]

section \<open>Two protocols\<close>

text \<open>A protocol whose state is the tokens themselves; what does not fit is an error.\<close>

definition tok_read :: "(ptoken \<Rightarrow> 'v option) \<Rightarrow> ptoken list \<Rightarrow> ptoken list \<times> 'v result" where
  "tok_read f s =
     (case s of
        [] \<Rightarrow> (s, Inl (ExtError ''EOF''))
      | tk # ts \<Rightarrow> (case f tk of None \<Rightarrow> (s, Inl (ExtError ''unexpected token'')) | Some v \<Rightarrow> (ts, Inr v)))"

definition tok_mark :: "(ptoken \<Rightarrow> bool) \<Rightarrow> ptoken list \<Rightarrow> ptoken list \<times> go_error option" where
  "tok_mark f s =
     (case tok_read (\<lambda>tk. if f tk then Some () else None) s of
        (s1, Inl e) \<Rightarrow> (s1, Some e) | (s1, Inr u) \<Rightarrow> (s1, None))"

definition tok_field :: "ptoken list \<Rightarrow> ptoken list \<times> int \<times> int \<times> go_error option" where
  "tok_field s =
     (case s of
        TFieldBegin t fid # ts \<Rightarrow> (ts, t, fid, None)
      | TFieldStop # ts \<Rightarrow> (ts, STOP, 0, None)
      | _ \<Rightarrow> (s, STOP, 0, Some (ExtError ''no field'')))"

definition tok_proto :: "ptoken list proto" where
  "tok_proto =
     \<lparr>pReadStructBegin = tok_mark (\<lambda>tk. tk = TStructBegin), pReadStructEnd = tok_mark (\<lambda>tk. tk = TStructEnd),
      pReadFieldBegin = tok_field, pReadFieldEnd = tok_mark (\<lambda>tk. tk = TFieldEnd),
      pSkip = (\<lambda>t. tok_mark (\<lambda>tk. case tk of
         TStr v \<Rightarrow> t = STRING | TBin v \<Rightarrow> t = STRING | TI32 v \<Rightarrow> t = I32 | TBool v \<Rightarrow> t = BOOL | _ \<Rightarrow> False)),
      pReadString = tok_read (\<lambda>tk. case tk of TStr v \<Rightarrow> Some v | _ \<Rightarrow> None),
      pReadBinary = tok_read (\<lambda>tk. case tk of TBin v \<Rightarrow> Some v | _ \<Rightarrow> None),
      pReadI32 = tok_read (\<lambda>tk. case tk of TI32 v \<Rightarrow> Some v | _ \<Rightarrow> None),
      pReadBool = tok_read (\<lambda>tk. case tk of TBool v \<Rightarrow> Some v | _ \<Rightarrow> None),
      pWriteStructBegin = (\<lambda>n s. (s @ [TStructBegin], None)), pWriteStructEnd = (\<lambda>s. (s @ [TStructEnd], None)),
      pWriteFieldBegin = (\<lambda>n t fid s. (s @ [TFieldBegin t fid], None)),
      pWriteFieldEnd = (\<lambda>s. (s @ [TFieldEnd], None)), pWriteFieldStop = (\<lambda>s. (s @ [TFieldStop], None)),
      pWriteString = (\<lambda>v s. (s @ [TStr v], None)), pWriteBinary = (\<lambda>v s. (s @ [TBin v], None)),
      pWriteI32 = (\<lambda>v s. (s @ [TI32 v], None)), pWriteBool = (\<lambda>v s. (s @ [TBool v], None)),
      pPrependError = (\<lambda>p e. ExtError (p @ error_string e))\<rparr>"

lemma tok_proto_ok: "proto_ok tok_proto (\<lambda>s. s)"
  by (simp add: proto_ok_def tok_proto_def takes_def puts_def tok_mark_def tok_read_def tok_field_def ttypes)

text \<open>The protocol over a buffer, with the primitives of the fast codec.\<close>

definition buf_read :: "(bytes \<Rightarrow> ('v \<times> nat) result) \<Rightarrow> bytes \<Rightarrow> bytes \<times> 'v result" where
  "buf_read f s = (case f s of Inl e \<Rightarrow> (s, Inl e) | Inr (v, l) \<Rightarrow> (drop l s, Inr v))"

definition buf_proto :: "thrift \<Rightarrow> bytes proto" where
  "buf_proto T =
     \<lparr>pReadStructBegin = skip_step, pReadStructEnd = skip_step,
      pReadFieldBegin = (\<lambda>s. case tReadFieldBegin T s of (t, fid, l, e) \<Rightarrow> (drop l s, t, fid, e)),
      pReadFieldEnd = skip_step, pSkip = (\<lambda>t s. case tSkip T s t of (l, e) \<Rightarrow> (drop l s, e)),
      pReadString = buf_read (tReadString T), pReadBinary = buf_read (tReadBinary T),
      pReadI32 = buf_read (tReadI32 T), pReadBool = buf_read (tReadBool T),
      pWriteStructBegin = (\<lambda>n. skip_step), pWriteStructEnd = skip_step,
      pWriteFieldBegin = (\<lambda>n t fid s. (s @ tWriteFieldBegin T t fid, None)),
      pWriteFieldEnd = skip_step, pWriteFieldStop = (\<lambda>s. (s @ tWriteFieldStop T, None)),
      pWriteString = (\<lambda>v s. (s @ tWriteString T v, None)), pWriteBinary = (\<lambda>v s. (s @ tWriteBinary T v, None)),
      pWriteI32 = (\<lambda>v s. (s @ tWriteI32 T v, None)), pWriteBool = (\<lambda>v s. (s @ tWriteBool T v, None)),
      pPrependError = tPrependError T\<rparr>"

lemma buf_proto_same_wire: "same_wire (buf_proto T) T (\<lambda>s. s)"
  by (simp add: same_wire_def buf_proto_def puts_def skip_step_def)

text \<open>A machine with a loopback interface, one that is down, and one that is used.\<close>

definition ex_ifaces :: "iface list" where
  "ex_ifaces =
     [\<lparr>ifFlags = 5, ifAddrs = Inr [IPNet [127, 0, 0, 1]]\<rparr>,
      \<lparr>ifFlags = 0, ifAddrs = Inr [IPNet [10, 0, 0, 9]]\<rparr>,
      \<lparr>ifFlags = 1, ifAddrs = Inr [OtherAddr, IPNet [10, 0, 0, 7]]\<rparr>]"

section \<open>The two codecs\<close>

text \<open>
  C38: The two codecs of the rpc structs agree. Over a protocol with the same wire format,
  the arguments of a call written with \<^verbatim>\<open>Write\<close> are, byte for byte, those of the fast codec,
  and a peer that uses the fast codec reads the request out of them.
\<close>

theorem codecs_agree:
  assumes W: "same_wire P T out" and T: "thrift_ok T" and q: "SendMsgByTgidReq_ok q" and s: "out s = []"
  shows "\<exists>s1 n. ImRpcSendMsgToUserByTgidArgs_Write P (Some \<lparr>Req = Some q\<rparr>) s = (s1, None) \<and>
     out s1 = ImRpcSendMsgToUserByTgidArgs_FastWriteNocopy T (Some \<lparr>Req = Some q\<rparr>) \<and>
     ImRpcSendMsgToUserByTgidArgs_FastRead T NewImRpcSendMsgToUserByTgidArgs (out s1) =
       Some (\<lparr>Req = Some q\<rparr>, n, None)"
proof -
  let ?w = "ImRpcSendMsgToUserByTgidArgs_Write P (Some \<lparr>Req = Some q\<rparr>) s"
  have "puts out (ImRpcSendMsgToUserByTgidArgs_Write P (Some \<lparr>Req = Some q\<rparr>))
      (ImRpcSendMsgToUserByTgidArgs_FastWriteNocopy T (Some \<lparr>Req = Some q\<rparr>))"
    by (rule ImRpcSendMsgToUserByTgidArgs_same_bytes [OF W]) (simp add: q)
  then have "out (fst ?w) = ImRpcSendMsgToUserByTgidArgs_FastWriteNocopy T (Some \<lparr>Req = Some q\<rparr>)" "snd ?w = None"
    using s by (simp_all add: puts_def)
  then show ?thesis
    using ImRpcSendMsgToUserByTgidArgs_read_back [OF T q, of "[]"] by (metis append_Nil2 prod.collapse)
qed

theorem codecs_agree_witness:
  "\<exists>s1 n. ImRpcSendMsgToUserByTgidArgs_Write (buf_proto binary)
       (Some \<lparr>Req = Some \<lparr>sbtUid = ''bob'', sbtTgid = ''room'', sbtMsg = ''hi''\<rparr>\<rparr>) [] = (s1, None) \<and>
     ImRpcSendMsgToUserByTgidArgs_FastRead binary NewImRpcSendMsgToUserByTgidArgs s1 =
       Some (\<lparr>Req = Some \<lparr>sbtUid = ''bob'', sbtTgid = ''room'', sbtMsg = ''hi''\<rparr>\<rparr>, n, None)"
  using codecs_agree [OF buf_proto_same_wire binary_ok, of "\<lparr>sbtUid = ''bob'', sbtTgid = ''room'', sbtMsg = ''hi''\<rparr>" "[]"]
  by (auto simp: SendMsgByTgidReq_ok_def size_ok_def)

text \<open>
  C39: Over every protocol that gives back what was put into it, the result of a call that
  was written with \<^verbatim>\<open>Write\<close> is read back by \<^verbatim>\<open>Read\<close>, without an error on either side, and
  nothing is left over: the loop over the fields ends at the stop field of its own struct
  and not at the one of the struct inside.
\<close>

theorem result_round_trip:
  assumes P: "proto_ok P toks" and q: "BytesRsp_ok q" and s: "toks s = []"
  shows "\<exists>s1 s2. ImRpcGetSysInfoResult_Write P (Some \<lparr>Success = Some q\<rparr>) s = (s1, None) \<and>
     ImRpcGetSysInfoResult_Read P NewImRpcGetSysInfoResult s1 = Some (s2, \<lparr>Success = Some q\<rparr>, None) \<and>
     toks s2 = []"
proof -
  let ?w = "ImRpcGetSysInfoResult_Write P (Some \<lparr>Success = Some q\<rparr>) s"
  have "toks (fst ?w) = struct_toks [(0, STRUCT, BytesRsp_toks q)] @ []" "snd ?w = None"
    using ImRpcGetSysInfoResult_puts [OF P q] s by (simp_all add: puts_def)
  then show ?thesis using ImRpcGetSysInfoResult_reads [OF P q] by (metis prod.collapse)
qed

theorem result_round_trip_witness:
  "\<exists>s1 s2. ImRpcGetSysInfoResult_Write tok_proto (Some \<lparr>Success = Some \<lparr>brData = ''{}''\<rparr>\<rparr>) [] = (s1, None) \<and>
     ImRpcGetSysInfoResult_Read tok_proto NewImRpcGetSysInfoResult s1 =
       Some (s2, \<lparr>Success = Some \<lparr>brData = ''{}''\<rparr>\<rparr>, None) \<and> s2 = []"
  by (rule result_round_trip [OF tok_proto_ok]) (simp_all add: BytesRsp_ok_def size_ok_def)

section \<open>The address of the server\<close>

text \<open>
  C40: A machine whose interfaces can all be read announces the first IPv4 address, in the
  order of the interfaces and of their addresses, of an interface that is up and not a
  loopback: four numbers with dots, the first of them not 127, the last of them the name
  of the node. When there is no such address the announced text is \<^verbatim>\<open><nil>\<close>, not empty.
\<close>

theorem server_address:
  assumes "\<And>i. i \<in> set is \<Longrightarrow> \<exists>addrs. ifAddrs i = Inr addrs"
  shows "case usable_ips is of
     [] \<Rightarrow> GetServerIp (Inr is) = ''<nil>''
   | ip # _ \<Rightarrow> \<exists>a b c d. ip = [a, b, c, d] \<and> a \<noteq> 127 \<and>
       GetServerIp (Inr is) = nat_lit (unat a) @ ''.'' @ nat_lit (unat b) @ ''.'' @ nat_lit (unat c) @ ''.'' @ nat_lit (unat d) \<and>
       GetLastSegmentOfIP (GetServerIp (Inr is)) = nat_lit (unat d)"
proof (cases "usable_ips is")
  case Nil
  then show ?thesis
    using scan_ifaces_usable [OF assms] by (simp add: GetServerIp_def externalIP_def ip_String_def)
next
  case (Cons ip ips)
  then have sc: "scan_ifaces is = Inr ip" using scan_ifaces_usable [OF assms] by simp
  have "length ip = 4 \<and> ip ! 0 \<noteq> 127" using Cons usable_ip_ok [of ip "is"] by simp
  then obtain a b c d where ip: "ip = [a, b, c, d]" "a \<noteq> 127"
    by (auto simp: length_Suc_conv numeral_eq_Suc)
  then have g: "GetServerIp (Inr is) =
      (nat_lit (unat a) @ ''.'' @ nat_lit (unat b) @ ''.'' @ nat_lit (unat c)) @ CHR ''.'' # nat_lit (unat d)"
    using sc by (simp add: GetServerIp_def externalIP_def ip_String_def)
  have "GetLastSegmentOfIP (GetServerIp (Inr is)) = nat_lit (unat d)"
    unfolding g by (rule last_segment_append [OF dot_not_in_nat_lit])
  with ip Cons g show ?thesis by simp
qed

theorem server_address_witness:
  "GetServerIp (Inr ex_ifaces) = nat_lit 10 @ ''.'' @ nat_lit 0 @ ''.'' @ nat_lit 0 @ ''.'' @ nat_lit 7"
proof -
  have u: "usable_ips ex_ifaces = [[10, 0, 0, 7]]" by code_simp
  have "\<exists>addrs. ifAddrs i = Inr addrs" if "i \<in> set ex_ifaces" for i
    using that by (auto simp: ex_ifaces_def)
  from server_address [of ex_ifaces, OF this] u show ?thesis by (simp del: nat_lit.simps)
qed

end
