(* ===== verification/WsEntries.thy ===== *)
theory WsEntries
  imports WsSteps
begin

text \<open>
  What the events of a node do to the users' entries in redis. An event leaves an entry
  alone, removes it, or replaces it by an entry of this node: the only value a node ever
  stores under a user's key is an entry of that user that names the node itself.
\<close>

declare map_of_eq_Some_iff [simp del] Some_eq_map_of_iff [simp del]

section \<open>The relation between the states before and after\<close>

definition own_entry :: "user_online \<Rightarrow> ('k, 'r, 'n) ws \<Rightarrow> bool" where
  "own_entry u w \<longleftrightarrow>
     AccIp u = serverIp w \<and> AccPort u = cfgWsPort (Config w) \<and> RpcPort u = cfgRpcPort (Config w)"

definition entries_le ::
    "('r \<Rightarrow> string \<Rightarrow> bytes option) \<Rightarrow> ('k, 'r, 'n) ws \<Rightarrow> ('k, 'r, 'n) ws \<Rightarrow> bool" where
  "entries_le kv w w' \<longleftrightarrow>
     Config w' = Config w \<and> serverIp w' = serverIp w \<and>
     (\<forall>key. kv (redis w') key = kv (redis w) key \<or> kv (redis w') key = None \<or>
       (\<exists>u. key = getUserOnlineKey (UserId u) w \<and> own_entry u w \<and>
          kv (redis w') key = Some (jprint (user_online_json u))))"

lemma entries_le_same:
  "Config w' = Config w \<Longrightarrow> serverIp w' = serverIp w \<Longrightarrow> kv (redis w') = kv (redis w) \<Longrightarrow> entries_le kv w w'"
  by (simp add: entries_le_def)

lemma entries_le_refl [simp]: "entries_le kv w w"
  by (simp add: entries_le_same)

lemma entries_le_trans:
  assumes "entries_le kv w1 w2" and "entries_le kv w2 w3"
  shows "entries_le kv w1 w3"
proof -
  have c: "Config w2 = Config w1" "serverIp w2 = serverIp w1" using assms(1) by (simp_all add: entries_le_def)
  then have "getUserOnlineKey uid w2 = getUserOnlineKey uid w1" "own_entry u w2 = own_entry u w1" for uid u
    by (simp_all add: getUserOnlineKey_def own_entry_def)
  with assms c show ?thesis unfolding entries_le_def by metis
qed

lemma entries_le_del:
  "redis_ok env kv \<Longrightarrow> entries_le kv w (fst (DelUserOnlineInfo env uid w))"
  by (simp add: entries_le_def DelUserOnlineInfo_kv)

lemma GetSetUserOnlineInfo_store:
  assumes "redis_ok env kv"
  shows "kv (redis (fst (GetSetUserOnlineInfo env uid u w))) =
     (kv (redis w))(getUserOnlineKey uid w \<mapsto> jprint (user_online_json u))"
proof -
  let ?k = "getUserOnlineKey uid w" and ?v = "jprint (user_online_json u)"
  obtain r1 res where gs: "redisGetSet env ?k ?v (redis w) = (r1, res)" by fastforce
  obtain r2 x where ex: "redisExpire env ?k (GetUserOnlineExpTime (w\<lparr>redis := r1\<rparr>)) r1 = (r2, x)"
    by fastforce
  have "kv r2 = kv r1" by (rule redis_ok_dests(3) [OF assms ex GetUserOnlineExpTime_pos])
  moreover have "res = Inl RedisNil \<or> (\<exists>d. res = Inr d)"
    using redis_ok_dests(2) [OF assms gs] by (simp split: option.splits)
  ultimately show ?thesis
    using gs ex redis_ok_dests(1) [OF assms gs]
    by (auto simp: GetSetUserOnlineInfo_def json_Marshal_def Let_def split: prod.split)
qed

section \<open>Events that leave logins alone\<close>

text \<open>
  A quiet change leaves the values in redis and the table of clients as they are, and no client
  comes online.
\<close>

definition quiet ::
    "('r \<Rightarrow> string \<Rightarrow> bytes option) \<Rightarrow> ('k, 'r, 'n) ws \<Rightarrow> ('k, 'r, 'n) ws \<Rightarrow> bool" where
  "quiet kv w w' \<longleftrightarrow>
     Config w' = Config w \<and> serverIp w' = serverIp w \<and> kv (redis w') = kv (redis w) \<and>
     Clients w' = Clients w \<and>
     (\<forall>c. cState (clients w' c) = StateOnline \<longrightarrow> cState (clients w c) = StateOnline)"

lemma quiet_entries_le: "quiet kv w w' \<Longrightarrow> entries_le kv w w'"
  by (simp add: quiet_def entries_le_same)

lemma quiet_refl [simp]: "quiet kv w w"
  by (simp add: quiet_def)

lemma quiet_trans: "quiet kv w1 w2 \<Longrightarrow> quiet kv w2 w3 \<Longrightarrow> quiet kv w1 w3"
  by (simp add: quiet_def)

text \<open>What keeps the shape of the tables and the clients, and the values in redis, is quiet.\<close>

lemma quiet_le:
  assumes "ws_le w w'" and "Config w' = Config w" and "serverIp w' = serverIp w"
    and "kv (redis w') = kv (redis w)"
  shows "quiet kv w w'"
proof -
  have "cState (clients w' c) = StateOnline \<Longrightarrow> cState (clients w c) = StateOnline" for c
    using assms(1) unfolding ws_le_def client_le_def by (metis client_state.exhaust)
  with assms show ?thesis by (simp add: quiet_def ws_le_def)
qed

lemma quiet_redis: "kv r = kv (redis w) \<Longrightarrow> quiet kv w (w\<lparr>redis := r\<rparr>)"
  by (simp add: quiet_def)

lemma quiet_lookup:
  "redis_ok env kv \<Longrightarrow> GetUserRpcServer env uid w = (w1, r) \<Longrightarrow> quiet kv w w1"
proof (rule quiet_le)
  assume ok: "redis_ok env kv" and g: "GetUserRpcServer env uid w = (w1, r)"
  have w1: "w1 = fst (GetUserOnlineInfo env uid w)" using GetUserRpcServer_state [of env uid w] g by simp
  show "ws_le w w1" by (rule ws_le_GetUserRpcServerD [OF g])
  show "Config w1 = Config w" "serverIp w1 = serverIp w" by (simp_all add: w1)
  show "kv (redis w1) = kv (redis w)" unfolding w1 by (rule GetUserOnlineInfo_kv [OF ok])
qed

section \<open>The calls of the application\<close>

lemmas quiet_after_lookup = quiet_trans [OF quiet_lookup]

lemma quiet_rpc [simp]:
  "rpc_SendMsgToUser env s uid m w = (w', x) \<Longrightarrow> quiet kv w w'"
  "rpc_SendMsgToUserByTgid env s uid gid m w = (w', x) \<Longrightarrow> quiet kv w w'"
  "rpc_JoinGroup env s uid gid w = (w', x) \<Longrightarrow> quiet kv w w'"
  "rpc_OutGroup env s uid gid w = (w', x) \<Longrightarrow> quiet kv w w'"
  using rpc_SendMsgToUser_frame [of env s uid m w] rpc_SendMsgToUserByTgid_frame [of env s uid gid m w]
    rpc_JoinGroup_frame [of env s uid gid w] rpc_OutGroup_frame [of env s uid gid w]
  by (simp_all add: quiet_def)

lemma quiet_stop [simp]: "quiet kv w (fst (rpc_StopUserClient env s uid w))"
  by (simp add: quiet_def)

text \<open>What does not touch redis at all.\<close>

lemma quiet_local [simp]:
  "quiet kv w (fst (SafeSendMsg env c m t w))" "quiet kv w (Client_Close env c w)"
  "quiet kv w (fst (SendResponseMsg env c resp t w))" "quiet kv w (set_conn k x w)"
  "quiet kv w (fst (SendMsgLoop env n c w))" "quiet kv w (OutTGroup c gid w)"
  "quiet kv w (SendToUsers env g gm w)" "quiet kv w (DeleteTGroup g w)"
  "quiet kv w (upd_group g f w)"
  by (auto intro: quiet_le) (simp_all add: quiet_def)

lemma quiet_send_user [simp]:
  "quiet kv w (fst (ClientM_SendMsgToUser env uid m w))"
  "quiet kv w (fst (ClientM_SendMsgToUserByTgid env uid gid m w))"
  "quiet kv w (fst (SendResponseToUser env uid resp w))"
  "quiet kv w (fst (SendResponseToUserByTgid env uid gid resp w))"
  "quiet kv w (StopClient env uid w)" "quiet kv w (CloseClient env uid w)"
  "quiet kv w (fst (SendResponseData env c d sq cmd t w))"
  "quiet kv w (fst (SendErr env c em et sq cmd w))"
  by (simp_all add: ClientM_SendMsgToUser_def ClientM_SendMsgToUserByTgid_def SendResponseToUser_def
      SendResponseToUserByTgid_def StopClient_def CloseClient_def SendResponseData_def SendErr_def Let_def
      split: option.split)

lemma quiet_SendMessageToTGroup:
  "SendMessageToTGroup gid gm w = Some (w', e) \<Longrightarrow> quiet kv w w'"
  by (auto simp: SendMessageToTGroup_def SendChan_def split: option.splits if_splits send_result.splits)

lemma quiet_InTGroup:
  assumes "ws_inv w" and "InTGroup c gid w = Some w'"
  shows "quiet kv w w'"
  using assms UserJoinTGroup_frame [OF ws_invD(2) [OF assms(1)]]
  by (auto simp: InTGroup_def quiet_def split: option.splits if_splits)

lemma quiet_JoinLockGroup:
  "ws_inv w \<Longrightarrow> JoinLockGroup uid gid w = Some (w', ok) \<Longrightarrow> quiet kv w w'"
  by (auto simp: JoinLockGroup_def quiet_InTGroup split: option.splits)

lemma quiet_OutLockGroup [simp]: "quiet kv w (fst (OutLockGroup uid gid w))"
  by (simp add: OutLockGroup_def split: option.split)

lemma quiet_LP_group:
  "LP_SendResDataToLocalGroup gid d ex w = Some (w', e) \<Longrightarrow> quiet kv w w'"
  by (auto simp: LP_SendResDataToLocalGroup_def quiet_SendMessageToTGroup split: sum.splits)

lemma quiet_proxy:
  assumes "redis_ok env kv"
  shows "quiet kv w (fst (Proxy_SendMsgToUser env uid m w))"
    and "quiet kv w (fst (Proxy_SendMsgToUserByTgid env uid gid m w))"
    and "quiet kv w (fst (Proxy_SendResDataToUser env uid d w))"
    and "quiet kv w (fst (Proxy_SendResDataToUserByTgid env uid gid d w))"
    and "quiet kv w (fst (Proxy_OutGroup env uid gid w))"
    and "quiet kv w (Proxy_StopUserClient env u w)"
  using quiet_lookup [OF assms] quiet_after_lookup [OF assms]
  by (auto simp: Proxy_SendMsgToUser_def LP_SendMsgToUser_def LP_SendMsgToLocalUser_def RP_SendMsgToUser_def
      Proxy_SendMsgToUserByTgid_def LP_SendMsgToUserByTgid_def LP_SendMsgToLocalUserByTgid_def
      RP_SendMsgToUserByTgid_def Proxy_SendResDataToUser_def LP_SendResDataToUser_def
      LP_SendResDataToLocalUser_def RP_SendResDataToUser_def Proxy_SendResDataToUserByTgid_def
      LP_SendResDataToUserByTgid_def LP_SendResDataToLocalUserByTgid_def RP_SendResDataToUserByTgid_def
      Proxy_OutGroup_def LP_OutGroup_def RP_OutGroup_def Proxy_StopUserClient_def LP_StopUserClient_def
      RP_StopUserClient_def LP_StopLocalUserClient_def Let_def split: prod.splits sum.splits)

lemma quiet_Proxy_group:
  assumes "redis_ok env kv" and "Proxy_SendResDataToGroup env gid d ex w = Some (w', e)"
  shows "quiet kv w w'"
  using assms
  by (auto simp: Proxy_SendResDataToGroup_def LP_SendResDataToGroup_def quiet_LP_group RP_SendResDataToGroup_def
      PublishGlobalMsg_def Let_def redis_ok_dests intro!: quiet_redis split: if_splits sum.splits prod.splits)

lemma quiet_Proxy_JoinGroup:
  assumes "redis_ok env kv" and "ws_inv w" and "Proxy_JoinGroup env uid gid w = Some (w', ok)"
  shows "quiet kv w w'"
  using assms quiet_lookup [OF assms(1)] quiet_after_lookup [OF assms(1)]
  by (auto simp: Proxy_JoinGroup_def LP_JoinGroup_def RP_JoinGroup_def quiet_JoinLockGroup
      split: if_splits sum.splits prod.splits)

lemma quiet_api:
  "api_step env w w' \<Longrightarrow> redis_ok env kv \<Longrightarrow> ws_inv w \<Longrightarrow> quiet kv w w'"
  by (induction rule: api_step.induct)
    (auto simp: quiet_proxy LP_SendMsgToLocalGroup_def
      dest: quiet_Proxy_group quiet_SendMessageToTGroup quiet_Proxy_JoinGroup quiet_InTGroup)

lemma quiet_apis:
  assumes "(api_step env)\<^sup>*\<^sup>* w w'" and "redis_ok env kv" and "ws_inv w"
  shows "quiet kv w w' \<and> ws_inv w'"
  using assms
  by (induction rule: rtranclp_induct) (auto dest: api_step_inv quiet_api intro: quiet_trans)

section \<open>The events\<close>

lemma quiet_OnPing: "redis_ok env kv \<Longrightarrow> quiet kv w (Handler_OnPing env k w)"
  by (intro quiet_le ws_le_OnPing)
    (simp_all add: Handler_OnPing_def Heartbeat_def conn_close_def Let_def ResetUserOnlineExpTime_kv split: option.split)

lemma quiet_OnMessage:
  assumes "redis_ok env kv" and "handler_ok env h" and "ws_inv w"
  shows "quiet kv w (Handler_OnMessage env h k m w)"
proof -
  have f: "quiet kv w w'" if "h = Some f" "f c q w = HandleRet w' a e \<or> f c q w = HandlePanic w'" for f c q w' a e
  proof -
    have "(api_step env)\<^sup>*\<^sup>* w w'"
      using assms(2) that unfolding handler_ok_def by (metis handle_result.simps(5,6))
    then show ?thesis using quiet_apis assms by blast
  qed
  show ?thesis
    unfolding Handler_OnMessage_def Let_def conn_close_def
    by (auto split: option.split prod.split handle_result.split
        intro: f quiet_trans [OF _ quiet_send_user(7)] quiet_trans [OF _ quiet_send_user(8)])
qed

lemma quiet_ListenSendChan: "quiet kv w (fst (ListenSendChan env n g w))"
proof (induction n arbitrary: w)
  case (Suc n)
  have "quiet kv w (SendToUsers env g m (upd_group g f w))" for m f
    by (rule quiet_trans [OF quiet_local(9) quiet_local(7)])
  with Suc show ?case by (auto simp: Let_def intro: quiet_trans split: recv_result.split)
qed simp

lemma quiet_sendResDataToGroup:
  assumes "redis_ok env kv" and "sendResDataToGroup env gid d m w = Some w'"
  shows "quiet kv w w'"
  using assms quiet_proxy(4) [OF assms(1)]
  by (auto simp: sendResDataToGroup_def quiet_LP_group split: if_splits)

lemma quiet_send_group_list:
  "redis_ok env kv \<Longrightarrow> send_group_list env gids d m w = Some w' \<Longrightarrow> quiet kv w w'"
proof (induction gids arbitrary: w)
  case (Cons gid gids)
  then show ?case
    by (auto dest: quiet_sendResDataToGroup intro: quiet_trans split: if_splits option.splits)
qed simp

lemma quiet_handleSubMsg:
  "redis_ok env kv \<Longrightarrow> handleSubMsg env m w = Some w' \<Longrightarrow> quiet kv w w'"
  by (auto simp: handleSubMsg_def Let_def quiet_proxy(3)
      dest: quiet_sendResDataToGroup quiet_send_group_list split: prod.splits option.splits if_splits)

lemma quiet_ImRpc:
  "quiet kv w (fst (ImRpc_SendMsgToUser env q w))"
  "quiet kv w (fst (ImRpc_SendMsgToUserByTgid env q' w))"
  "quiet kv w (fst (ImRpc_StopUserClient env u w))" "quiet kv w (fst (ImRpc_OutGroup j w))"
  "ws_inv w \<Longrightarrow> ImRpc_JoinGroup j w = Some (w', r) \<Longrightarrow> quiet kv w w'"
  using quiet_JoinLockGroup
  by (auto simp: ImRpc_SendMsgToUser_def ImRpc_SendMsgToUserByTgid_def ImRpc_StopUserClient_def
      ImRpc_OutGroup_def ImRpc_JoinGroup_def LP_SendMsgToLocalUser_def LP_SendMsgToLocalUserByTgid_def
      LP_StopLocalUserClient_def Let_def case_prod_unfold)

lemma quiet_discovery [simp]: "quiet kv w (onRegister env x w)" "quiet kv w (onUnregister x w)"
  by (simp_all add: onRegister_def onUnregister_def Let_def quiet_def split: sum.split)


lemma quiet_event:
  assumes "inner_event env h w w'" and "redis_ok env kv" and "handler_ok env h" and "ws_inv w"
  shows "quiet kv w w'"
  using assms
proof (induction rule: inner_event.induct)
  case (api w w')
  then show ?case using quiet_api by blast
next
  case (sub_msg m w w')
  then show ?case using quiet_handleSubMsg by blast
next
  case (rpc_join j w w' r)
  then show ?case using quiet_ImRpc(5) by blast
qed (simp_all add: quiet_OnPing quiet_OnMessage quiet_ListenSendChan quiet_ImRpc)

section \<open>Logins and ends of connections\<close>

text \<open>A login stores the entry of this node, or removes what it found.\<close>

lemma entries_le_login:
  assumes "redis_ok env kv"
  shows "entries_le kv w (fst (uniqueLogin env ulid uid k w))"
proof -
  let ?u = "NewUserOnline uid ulid (RemoteAddr env (conns w k)) w"
  obtain w1 old e where g: "GetSetUserOnlineInfo env uid ?u w = (w1, old, e)" by (metis surj_pair)
  have u: "UserId ?u = uid" "own_entry ?u w" by (simp_all add: NewUserOnline_def own_entry_def)
  have "kv (redis w1) = (kv (redis w))(getUserOnlineKey uid w \<mapsto> jprint (user_online_json ?u))"
    using GetSetUserOnlineInfo_store [OF assms, of uid ?u w] g by simp
  moreover have "Config w1 = Config w" "serverIp w1 = serverIp w"
    using GetSetUserOnlineInfo_frame(1,2) [of env uid ?u w] g by simp_all
  ultimately have 1: "entries_le kv w w1" using u unfolding entries_le_def by (metis fun_upd_apply)
  then have 2: "entries_le kv w (fst (DelUserOnlineInfo env uid w1))"
    using entries_le_trans entries_le_del [OF assms] by blast
  then have "entries_le kv w (Proxy_StopUserClient env v (fst (DelUserOnlineInfo env uid w1)))" for v
    using entries_le_trans quiet_entries_le [OF quiet_proxy(6) [OF assms]] by blast
  with 1 2 show ?thesis by (simp add: uniqueLogin_def g Let_def quiet_entries_le split: option.split)
qed

lemma entries_le_HandlerUp:
  assumes "redis_ok env kv"
  shows "entries_le kv w (HandlerUp env ulid up mc w)"
proof (cases up)
  case (Inr k)
  obtain w1 r where l: "uniqueLogin env ulid (GetUid env k w) k w = (w1, r)" by fastforce
  have 1: "entries_le kv w w1" using entries_le_login [OF assms, of w ulid "GetUid env k w" k] l by simp
  have c: "entries_le kv v (conn_close env k v)" for v by (simp add: conn_close_def quiet_entries_le)
  have n: "entries_le kv v (fst (NewClient k uid rid mc' v))" for v uid rid mc'
    by (simp add: entries_le_def NewClient_def Let_def)
  have i: "entries_le kv v ((InitStart env d v)\<lparr>gos := gs\<rparr>)" for v d gs
    by (simp add: entries_le_def InitStart_def OnConnect_def AddClient_def AddClientConn_def Let_def)
  have ni: "entries_le kv v ((InitStart env d v')\<lparr>gos := gs\<rparr>)" if "NewClient k uid rid mc' v = (v', d)" for v v' d uid rid mc' gs
    using entries_le_trans [OF n [of v uid rid mc'] i] that by simp
  show ?thesis
  proof (cases r)
    case (Inl e)
    with \<open>up = Inr k\<close> l show ?thesis
      using c entries_le_trans [OF 1 c] by (simp add: HandlerUp_def Let_def)
  next
    case (Inr u)
    with \<open>up = Inr k\<close> l show ?thesis
      using c entries_le_trans [OF 1 ni] by (auto simp: HandlerUp_def Let_def split: prod.split)
  qed
qed (simp add: HandlerUp_def)

lemma closed_client_entries:
  assumes "redis_ok env kv" and "ws_inv w" and "mget (Clients w) uid = Some c"
  shows "entries_le kv w (closed_client env c w)"
proof -
  define v where "v uid' = DelClientConn c (DelClient uid' (OutAllTGroup env c
      (upd_client c (\<lambda>x. x\<lparr>cCloseOnce := True, cState := StateOffline\<rparr>) w)))" for uid'
  have "entries_le kv w (v uid')" for uid' by (simp add: v_def entries_le_def DelClientConn_def DelClient_def)
  then have d: "entries_le kv w (fst (DelUserOnlineInfo env uid'' (v uid')))" for uid' uid''
    using entries_le_trans entries_le_del [OF assms(1)] by blast
  have u: "entries_le kv v (upd_client c h v)" for v h by (simp add: entries_le_def)
  show ?thesis
    unfolding closed_client_def Client_OnClose_def Let_def
    by (auto intro: d [unfolded v_def] entries_le_trans [OF d [unfolded v_def] u]
        split: option.split)
qed

lemma entries_le_OnClose:
  assumes "redis_ok env kv" and "callback_ok env cb" and "range_ok env" and "ws_inv w"
  shows "entries_le kv w (fst (Handler_OnClose env cb k w))"
proof (cases "mget (Clients w) (GetUid env k w)")
  case (Some c)
  note inv = ws_inv_closed_client [OF assms(4) Some assms(3)]
    and le = closed_client_entries [OF assms(1,4) Some]
  have "entries_le kv w (f c (closed_client env c w))" if "cb = Some f" for f
    using assms(2) that quiet_apis [OF _ assms(1) inv] entries_le_trans [OF le quiet_entries_le]
    unfolding callback_ok_def by blast
  with le show ?thesis
    using Client_OnClose_cb [OF assms(4) Some, of env cb] Some
    by (auto simp: Handler_OnClose_def GetClient_def split: option.split)
qed (simp add: Handler_OnClose_def GetClient_def)

lemma entries_le_event:
  assumes "node_event env h cb w w'" and "redis_ok env kv" and "handler_ok env h" and "callback_ok env cb"
    and "range_ok env" and "ws_inv w"
  shows "entries_le kv w w'"
  using assms
proof (induction rule: node_event.induct)
  case (inner w w')
  then show ?case using quiet_entries_le quiet_event by blast
next
  case (up w k ulid mc x)
  then show ?case by (intro entries_le_trans [OF quiet_entries_le [OF quiet_local(4)] entries_le_HandlerUp])
qed (simp_all add: entries_le_OnClose entries_le_HandlerUp)

end
