(* ===== verification/ClusterSteps.thy ===== *)
theory ClusterSteps
  imports WsEntries
begin

text \<open>
  A cluster as a state machine: nodes with their own state and one redis they share. A step
  is an event of one node, on the redis that is there at that moment; an entry that
  expires; a node that is killed and started again; time and the network moving on. A call
  from one node to another is two steps, one at each node, so a call may also be lost, be
  late or arrive twice: nothing here depends on the order.
\<close>

declare map_of_eq_Some_iff [simp del] Some_eq_map_of_iff [simp del]

section \<open>The machine\<close>

record ('i, 'k, 'r, 'n) cluster =
  clNodes :: "'i \<Rightarrow> ('k, 'r, 'n) ws"
  clRedis :: 'r

text \<open>What is fixed: the libraries, the application and the start of each node.\<close>

record ('i, 'k, 'r, 'n) deployment =
  dEnv :: "'i \<Rightarrow> ('k, 'r, 'n) ws_env"
  dHandler :: "'i \<Rightarrow> ('k, 'r, 'n) ws request_handler"
  dOnClose :: "'i \<Rightarrow> (cptr \<Rightarrow> ('k, 'r, 'n) ws \<Rightarrow> ('k, 'r, 'n) ws) option"
  dIfaces :: "'i \<Rightarrow> iface list result"
  dConfig :: "'i \<Rightarrow> ws_config"

text \<open>A node as it sees the shared redis.\<close>

definition node_at :: "('i, 'k, 'r, 'n) cluster \<Rightarrow> 'i \<Rightarrow> ('k, 'r, 'n) ws" where
  "node_at s i = (clNodes s i)\<lparr>redis := clRedis s\<rparr>"

definition set_node :: "'i \<Rightarrow> ('k, 'r, 'n) ws \<Rightarrow> ('i, 'k, 'r, 'n) cluster \<Rightarrow> ('i, 'k, 'r, 'n) cluster" where
  "set_node i w s = s\<lparr>clNodes := (clNodes s)(i := w), clRedis := redis w\<rparr>"

definition starts :: "('i, 'k, 'r, 'n) deployment \<Rightarrow> 'i \<Rightarrow> ('k, 'r, 'n) ws \<Rightarrow> bool" where
  "starts D i w \<longleftrightarrow> (\<exists>ks r n t. InitWs (dIfaces D i) True (dConfig D i) (ws0 ks r n t) = Some w)"

inductive cluster_step ::
    "('i, 'k, 'r, 'n) deployment \<Rightarrow> ('r \<Rightarrow> string \<Rightarrow> bytes option) \<Rightarrow>
     ('i, 'k, 'r, 'n) cluster \<Rightarrow> ('i, 'k, 'r, 'n) cluster \<Rightarrow> bool"
  for D kv where
  event: "node_event (dEnv D i) (dHandler D i) (dOnClose D i) (node_at s i) w \<Longrightarrow>
    cluster_step D kv s (set_node i w s)"
| expire: "kv r = (kv (clRedis s))(key := None) \<Longrightarrow> cluster_step D kv s (s\<lparr>clRedis := r\<rparr>)"
| restart: "starts D i w \<Longrightarrow> cluster_step D kv s (s\<lparr>clNodes := (clNodes s)(i := w)\<rparr>)"
| world: "cluster_step D kv s (s\<lparr>clNodes := (clNodes s)(i := (clNodes s i)\<lparr>net := n, clock := t\<rparr>)\<rparr>)"

definition cluster_reachable ::
    "('i, 'k, 'r, 'n) deployment \<Rightarrow> ('r \<Rightarrow> string \<Rightarrow> bytes option) \<Rightarrow> ('i, 'k, 'r, 'n) cluster \<Rightarrow> bool" where
  "cluster_reachable D kv s \<longleftrightarrow>
     (\<exists>s0. (\<forall>i. starts D i (clNodes s0 i)) \<and> kv (clRedis s0) = Map.empty \<and> (cluster_step D kv)\<^sup>*\<^sup>* s0 s)"

text \<open>The libraries behave as documented, and the nodes share one prefix of the keys.\<close>

definition deployment_ok ::
    "('i, 'k, 'r, 'n) deployment \<Rightarrow> ('r \<Rightarrow> string \<Rightarrow> bytes option) \<Rightarrow> string \<Rightarrow> bool" where
  "deployment_ok D kv prefix \<longleftrightarrow>
     (\<forall>i. redis_ok (dEnv D i) kv \<and> range_ok (dEnv D i) \<and> handler_ok (dEnv D i) (dHandler D i) \<and>
        callback_ok (dEnv D i) (dOnClose D i) \<and> cfgRedisPrefix (dConfig D i) = prefix)"

section \<open>The invariant\<close>

definition entry_key :: "string \<Rightarrow> string \<Rightarrow> string" where
  "entry_key prefix uid = prefix @ userOnlinePrefix @ uid"

text \<open>An entry of a user that names a node of the deployment.\<close>

definition entry_of :: "('i, 'k, 'r, 'n) deployment \<Rightarrow> 'i \<Rightarrow> user_online \<Rightarrow> bool" where
  "entry_of D i u \<longleftrightarrow>
     AccIp u = GetServerIp (dIfaces D i) \<and> AccPort u = cfgWsPort (dConfig D i) \<and>
     RpcPort u = cfgRpcPort (dConfig D i)"

definition same_node :: "('i, 'k, 'r, 'n) deployment \<Rightarrow> 'i \<Rightarrow> ('k, 'r, 'n) ws \<Rightarrow> bool" where
  "same_node D i w \<longleftrightarrow>
     serverIp w = GetServerIp (dIfaces D i) \<and> cfgWsPort (Config w) = cfgWsPort (dConfig D i) \<and>
     cfgRpcPort (Config w) = cfgRpcPort (dConfig D i) \<and>
     cfgRedisPrefix (Config w) = cfgRedisPrefix (dConfig D i) \<and>
     cfgRunMode (Config w) = cfgRunMode (dConfig D i)"

definition cluster_inv ::
    "('i, 'k, 'r, 'n) deployment \<Rightarrow> ('r \<Rightarrow> string \<Rightarrow> bytes option) \<Rightarrow> string \<Rightarrow>
     ('i, 'k, 'r, 'n) cluster \<Rightarrow> bool" where
  "cluster_inv D kv prefix s \<longleftrightarrow>
     (\<forall>i. ws_inv (clNodes s i) \<and> same_node D i (clNodes s i)) \<and>
     (\<forall>uid d. kv (clRedis s) (entry_key prefix uid) = Some d \<longrightarrow>
        (\<exists>i u. d = jprint (user_online_json u) \<and> UserId u = uid \<and> entry_of D i u))"

lemma starts_inv: "starts D i w \<Longrightarrow> ws_inv w \<and> same_node D i w"
  using InitWs_fields ws_inv_InitWs by (fastforce simp: starts_def same_node_def)

lemma node_at_inv: "ws_inv (node_at s i) = ws_inv (clNodes s i)"
proof -
  have "ws_le (node_at s i) (clNodes s i)" "ws_le (clNodes s i) (node_at s i)"
    by (simp_all add: ws_le_def node_at_def)
  then show ?thesis using ws_inv_le by blast
qed

lemma node_at_same: "same_node D i (node_at s i) = same_node D i (clNodes s i)"
  by (simp add: same_node_def node_at_def)

lemma key_of_node: "same_node D i w \<Longrightarrow> cfgRedisPrefix (dConfig D i) = prefix \<Longrightarrow>
    getUserOnlineKey uid w = entry_key prefix uid"
  by (simp add: same_node_def getUserOnlineKey_def entry_key_def)

lemma entry_key_inject [simp]: "entry_key p a = entry_key p b \<longleftrightarrow> a = b"
  by (simp add: entry_key_def)

lemma own_entry_of: "same_node D i w \<Longrightarrow> own_entry u w = entry_of D i u"
  by (simp add: same_node_def own_entry_def entry_of_def)

text \<open>A node may change in any way that keeps its invariant and stores entries of its own only.\<close>

lemma cluster_node_inv:
  assumes D: "deployment_ok D kv prefix" and inv: "cluster_inv D kv prefix s"
    and w: "ws_inv w" and le: "entries_le kv (node_at s i) w"
  shows "cluster_inv D kv prefix (set_node i w s)"
proof -
  note ok = D [unfolded deployment_ok_def, THEN spec, of i]
  have n: "same_node D i (node_at s i)" using inv by (simp add: cluster_inv_def node_at_same)
  have sw: "same_node D i w" using le n by (simp add: entries_le_def same_node_def)
  have "\<exists>j u. d = jprint (user_online_json u) \<and> UserId u = uid \<and> entry_of D j u"
    if d: "kv (redis w) (entry_key prefix uid) = Some d" for uid d
  proof -
    have key: "getUserOnlineKey v (node_at s i) = entry_key prefix v" for v
      using key_of_node [OF n] ok by blast
    have r: "redis (node_at s i) = clRedis s" by (simp add: node_at_def)
    consider "kv (clRedis s) (entry_key prefix uid) = Some d"
      | u where "UserId u = uid" "own_entry u (node_at s i)" "d = jprint (user_online_json u)"
      using le d unfolding entries_le_def key r by (metis entry_key_inject option.distinct(1) option.inject)
    then show ?thesis
      using inv own_entry_of [OF n] unfolding cluster_inv_def by (cases; blast)
  qed
  with inv w sw show ?thesis by (simp add: cluster_inv_def set_node_def)
qed

lemma cluster_event_inv:
  assumes D: "deployment_ok D kv prefix" and inv: "cluster_inv D kv prefix s"
    and ev: "node_event (dEnv D i) (dHandler D i) (dOnClose D i) (node_at s i) w"
  shows "cluster_inv D kv prefix (set_node i w s)"
proof (rule cluster_node_inv [OF D inv])
  note ok = D [unfolded deployment_ok_def, THEN spec, of i]
  have n: "ws_inv (node_at s i)" using inv by (simp add: cluster_inv_def node_at_inv)
  show "ws_inv w" using node_event_inv [OF ev] ok n by blast
  show "entries_le kv (node_at s i) w" using entries_le_event [OF ev] ok n by blast
qed

lemma cluster_step_inv:
  assumes "cluster_step D kv s s'" and D: "deployment_ok D kv prefix" and "cluster_inv D kv prefix s"
  shows "cluster_inv D kv prefix s'"
  using assms(1,3)
proof (induction rule: cluster_step.induct)
  case (event i s w)
  then show ?case using cluster_event_inv [OF D] by blast
next
  case (expire r s key)
  then show ?case by (simp add: cluster_inv_def)
next
  case (restart i w s)
  then show ?case using starts_inv [of D i w] by (simp add: cluster_inv_def)
next
  case (world s i t n)
  have "ws_le (clNodes s i) ((clNodes s i)\<lparr>net := n, clock := t\<rparr>)" by (simp add: ws_le_def)
  with world show ?case by (auto simp: cluster_inv_def same_node_def intro: ws_inv_le)
qed

lemma cluster_reachable_inv:
  assumes "cluster_reachable D kv s" and "deployment_ok D kv prefix"
  shows "cluster_inv D kv prefix s"
proof -
  obtain s0 where s0: "\<And>i. starts D i (clNodes s0 i)" "kv (clRedis s0) = Map.empty"
    and steps: "(cluster_step D kv)\<^sup>*\<^sup>* s0 s"
    using assms(1) by (auto simp: cluster_reachable_def)
  have "cluster_inv D kv prefix s0" using s0 starts_inv by (fastforce simp: cluster_inv_def)
  with steps show ?thesis by (induction rule: rtranclp_induct) (auto intro: cluster_step_inv assms(2))
qed

end
