(* ===== verification/ClusterLogin.thy ===== *)
theory ClusterLogin
  imports LoginProps ClusterSteps
begin

text \<open>
  Logins of one user on several nodes of a cluster: what redis says of a user in every
  reachable state, and two orders of events that break the single login. The steps of a
  login, of the call that stops a client and of the end of a connection are described on the
  cluster first; the two runs are put together from them.
\<close>

declare map_of_eq_Some_iff [simp del] Some_eq_map_of_iff [simp del]

section \<open>The events of a login on the cluster\<close>

definition login_at ::
    "('i, 'k, 'r, 'n) deployment \<Rightarrow> 'i \<Rightarrow> string \<Rightarrow> kptr \<Rightarrow> 'k \<Rightarrow> string \<Rightarrow>
     ('i, 'k, 'r, 'n) cluster \<Rightarrow> ('i, 'k, 'r, 'n) cluster" where
  "login_at D i ulid k x mc s =
     set_node i (HandlerUp (dEnv D i) ulid (Inr k) mc (set_conn k x (node_at s i))) s"

definition stop_at ::
    "('i, 'k, 'r, 'n) deployment \<Rightarrow> 'i \<Rightarrow> string \<Rightarrow> ('i, 'k, 'r, 'n) cluster \<Rightarrow> ('i, 'k, 'r, 'n) cluster" where
  "stop_at D i uid s =
     set_node i (fst (ImRpc_StopUserClient (dEnv D i) \<lparr>uirUid = uid\<rparr> (node_at s i))) s"

definition close_at ::
    "('i, 'k, 'r, 'n) deployment \<Rightarrow> 'i \<Rightarrow> kptr \<Rightarrow> ('i, 'k, 'r, 'n) cluster \<Rightarrow> ('i, 'k, 'r, 'n) cluster" where
  "close_at D i k s = set_node i (fst (Handler_OnClose (dEnv D i) (dOnClose D i) k (node_at s i))) s"

text \<open>The user has a client on the node, and it is online.\<close>

definition online_at :: "string \<Rightarrow> 'i \<Rightarrow> ('i, 'k, 'r, 'n) cluster \<Rightarrow> bool" where
  "online_at uid i s \<longleftrightarrow>
     (\<exists>c. GetClient uid (clNodes s i) = Some c \<and> cState (clients (clNodes s i) c) = StateOnline)"

lemma node_at_simps [simp]:
  "redis (node_at s i) = clRedis s" "Clients (node_at s i) = Clients (clNodes s i)"
  "ConnClientIdx (node_at s i) = ConnClientIdx (clNodes s i)" "conns (node_at s i) = conns (clNodes s i)"
  "clients (node_at s i) = clients (clNodes s i)" "Config (node_at s i) = Config (clNodes s i)"
  "GetClient uid (node_at s i) = GetClient uid (clNodes s i)"
  "GetUid env k (node_at s i) = GetUid env k (clNodes s i)"
  by (simp_all add: node_at_def GetClient_def GetUid_def)

lemma set_node_simps [simp]:
  "clNodes (set_node i w s) j = (if j = i then w else clNodes s j)" "clRedis (set_node i w s) = redis w"
  by (simp_all add: set_node_def)

lemma cluster_events:
  "GetClientByConn k (clNodes s i) = None \<Longrightarrow> cluster_step D kv s (login_at D i ulid k x mc s)"
  "cluster_step D kv s (stop_at D i uid s)" "cluster_step D kv s (close_at D i k s)"
  unfolding login_at_def stop_at_def close_at_def
  by (auto intro!: cluster_step.event node_event.up node_event.inner [OF inner_event.rpc_stop] node_event.close
      simp: GetClientByConn_def)

lemma cluster_inv_node:
  assumes "deployment_ok D kv prefix" and "cluster_inv D kv prefix s"
  shows "ws_inv (node_at s i)" "redis_ok (dEnv D i) kv" "range_ok (dEnv D i)"
    "getUserOnlineKey uid (node_at s i) = entry_key prefix uid"
  using assms key_of_node [of D i "node_at s i" prefix uid]
  by (simp_all add: cluster_inv_def deployment_ok_def node_at_inv node_at_same)

lemma redis_StopUserClient [simp]: "redis (Proxy_StopUserClient env u w) = redis w"
  by (simp add: Proxy_StopUserClient_def LP_StopUserClient_def RP_StopUserClient_def
      LP_StopLocalUserClient_def StopClient_def Let_def split: option.split)

text \<open>A login of a user whom redis reports elsewhere: refused, and the entry is gone.\<close>

lemma HandlerUp_elsewhere:
  assumes "redis_ok env kv" and "GetUid env k w = uid" "uid \<noteq> ''''" and "GetClient uid w = None"
    and "kv (redis w) (getUserOnlineKey uid w) = Some (jprint (user_online_json old))"
    and "RandUuid old \<noteq> ulid"
  shows "ws_le w (HandlerUp env ulid (Inr k) mc w)"
    and "kv (redis (HandlerUp env ulid (Inr k) mc w)) = (kv (redis w))(getUserOnlineKey uid w := None)"
proof -
  obtain r where l: "uniqueLogin env ulid uid k w =
      (Proxy_StopUserClient env old (w\<lparr>redis := r\<rparr>), Inl (NewImError ErrUserOnline))"
    and r: "kv r = (kv (redis w))(getUserOnlineKey uid w := None)"
    using uniqueLogin_elsewhere [OF assms(1,4-6), of k] by blast
  have w': "HandlerUp env ulid (Inr k) mc w =
      conn_close env k (Proxy_StopUserClient env old (w\<lparr>redis := r\<rparr>))"
    using assms(2,3) l by (simp add: HandlerUp_def)
  have "ws_le w (w\<lparr>redis := r\<rparr>)" by (simp add: ws_le_def)
  then show "ws_le w (HandlerUp env ulid (Inr k) mc w)"
    unfolding w' using ws_le_trans ws_le_Proxy_StopUserClient ws_le_conn_close by blast
  show "kv (redis (HandlerUp env ulid (Inr k) mc w)) = (kv (redis w))(getUserOnlineKey uid w := None)"
    using r by (simp add: w' conn_close_def)
qed

lemma GetUid_new_conn:
  "SessionLoad env x ''uid'' = Some (SessionStr uid) \<Longrightarrow> GetUid env k (set_conn k x w) = uid"
  by (simp add: GetUid_def)

lemma login_refused:
  assumes D: "deployment_ok D kv prefix" and inv: "cluster_inv D kv prefix s"
    and x: "SessionLoad (dEnv D i) x ''uid'' = Some (SessionStr uid)" "uid \<noteq> ''''"
    and n: "GetClient uid (clNodes s i) = None"
    and e: "kv (clRedis s) (entry_key prefix uid) = Some (jprint (user_online_json old))"
    and u: "RandUuid old \<noteq> ulid" and s': "s' = login_at D i ulid k x mc s"
  shows "kv (clRedis s') (entry_key prefix uid) = None" and "GetClient uid (clNodes s' i) = None"
    and "GetClientByConn l (clNodes s' i) = GetClientByConn l (clNodes s i)"
    and "j \<noteq> i \<Longrightarrow> clNodes s' j = clNodes s j"
proof -
  let ?w = "set_conn k x (node_at s i)"
  note node = cluster_inv_node [OF D inv, where i = i]
  have key: "getUserOnlineKey uid ?w = entry_key prefix uid"
    using node(4) by (simp add: getUserOnlineKey_def)
  have n': "GetClient uid ?w = None" using n by (simp add: GetClient_def)
  have "kv (redis ?w) (getUserOnlineKey uid ?w) = Some (jprint (user_online_json old))"
    using e by (simp add: key)
  note up = HandlerUp_elsewhere [OF node(2) GetUid_new_conn [OF x(1)] x(2) n' this u]
  show "kv (clRedis s') (entry_key prefix uid) = None"
    using up(2) by (simp add: s' login_at_def key)
  show "GetClient uid (clNodes s' i) = None"
    "GetClientByConn l (clNodes s' i) = GetClientByConn l (clNodes s i)"
    "j \<noteq> i \<Longrightarrow> clNodes s' j = clNodes s j"
    using up(1) n by (simp_all add: s' login_at_def ws_le_def GetClient_def GetClientByConn_def)
qed

text \<open>A login of a user whom redis does not know.\<close>

lemma login_accepted:
  assumes D: "deployment_ok D kv prefix" and inv: "cluster_inv D kv prefix s"
    and x: "SessionLoad (dEnv D i) x ''uid'' = Some (SessionStr uid)" "uid \<noteq> ''''"
    and n: "GetClient uid (clNodes s i) = None" "GetClientByConn k (clNodes s i) = None"
    and e: "kv (clRedis s) (entry_key prefix uid) = None" and s': "s' = login_at D i ulid k x mc s"
  shows "online_at uid i s'" and "j \<noteq> i \<Longrightarrow> clNodes s' j = clNodes s j"
    and "kv (clRedis s') (entry_key prefix uid) \<noteq> None"
proof -
  let ?w = "set_conn k x (node_at s i)"
  note node = cluster_inv_node [OF D inv, where i = i]
  have key: "getUserOnlineKey uid ?w = entry_key prefix uid"
    using node(4) by (simp add: getUserOnlineKey_def)
  have inv': "ws_inv ?w" by (rule ws_inv_le [OF ws_le_set_conn node(1)])
  have "GetClient uid ?w = None" "kv (redis ?w) (getUserOnlineKey uid ?w) = None"
    "GetClientByConn k ?w = None"
    using n e by (simp_all add: key GetClient_def GetClientByConn_def)
  note up = HandlerUp_first [OF inv' node(2) GetUid_new_conn [OF x(1)] x(2) this refl, of ulid mc]
  then show "online_at uid i s'" "j \<noteq> i \<Longrightarrow> clNodes s' j = clNodes s j"
    "kv (clRedis s') (entry_key prefix uid) \<noteq> None"
    by (auto simp: online_at_def s' login_at_def key)
qed

text \<open>
  An entry that outlived its node costs its user one login: the first is refused and removes
  the entry, the second is accepted.
\<close>

lemma login_after_dead_node:
  assumes D: "deployment_ok D kv prefix" and inv: "cluster_inv D kv prefix s"
    and x: "SessionLoad (dEnv D i) x ''uid'' = Some (SessionStr uid)" "SessionLoad (dEnv D i) x' ''uid'' = Some (SessionStr uid)"
      "uid \<noteq> ''''"
    and n: "GetClient uid (clNodes s i) = None" "GetClientByConn k (clNodes s i) = None" "GetClientByConn k' (clNodes s i) = None"
    and e: "kv (clRedis s) (entry_key prefix uid) = Some (jprint (user_online_json old))" "RandUuid old \<noteq> ulid"
    and s1: "s1 = login_at D i ulid k x mc s" and s2: "s2 = login_at D i ulid' k' x' mc s1"
  shows "\<not> online_at uid i s1 \<and> online_at uid i s2"
proof -
  note 1 = login_refused [OF D inv x(1,3) n(1) e s1]
  have "cluster_inv D kv prefix s1" using cluster_step_inv [OF cluster_events(1) [OF n(2)] D inv] by (simp add: s1)
  moreover have "GetClientByConn k' (clNodes s1 i) = None" using 1(3) n(3) by simp
  ultimately show ?thesis
    using 1(2) login_accepted(1) [OF D _ x(2,3) 1(2) _ 1(1) s2] by (simp add: online_at_def)
qed

text \<open>The call that stops a client closes its socket; the client stays registered.\<close>

lemma stop_registered:
  assumes "s' = stop_at D i uid s"
    and "\<And>y n. SessionLoad (dEnv D i) (NetConnClose (dEnv D i) y) n = SessionLoad (dEnv D i) y n"
  shows "clRedis s' = clRedis s" "j \<noteq> i \<Longrightarrow> clNodes s' j = clNodes s j"
    "GetClient uid (clNodes s' i) = GetClient uid (clNodes s i)"
    "GetUid (dEnv D i) k (clNodes s' i) = GetUid (dEnv D i) k (clNodes s i)"
    "GetClientByConn k (clNodes s' i) = GetClientByConn k (clNodes s i)"
  by (auto simp: GetClientByConn_def assms stop_at_def ImRpc_StopUserClient_def LP_StopLocalUserClient_def StopClient_def
      Client_Close_def GetUid_def Let_def GetClient_def split: option.split)

text \<open>The end of a connection removes the user's entry, whoever wrote it.\<close>

lemma close_removes_entry:
  assumes D: "deployment_ok D kv prefix" and inv: "cluster_inv D kv prefix s"
    and cb: "dOnClose D i = None"
    and c: "GetClient uid (clNodes s i) = Some c" "GetUid (dEnv D i) k (clNodes s i) = uid"
    and s': "s' = close_at D i k s"
  shows "kv (clRedis s') (entry_key prefix uid) = None" and "j \<noteq> i \<Longrightarrow> clNodes s' j = clNodes s j"
proof -
  note node = cluster_inv_node [OF D inv, where i = i]
  have c': "mget (Clients (node_at s i)) uid = Some c" using c(1) by (simp add: GetClient_def)
  have "fst (Handler_OnClose (dEnv D i) (dOnClose D i) k (node_at s i)) = closed_client (dEnv D i) c (node_at s i)"
    using c cb by (simp add: Handler_OnClose_def closed_client_def)
  then show "kv (clRedis s') (entry_key prefix uid) = None" "j \<noteq> i \<Longrightarrow> clNodes s' j = clNodes s j"
    using closed_client_kv [OF node(1) c' node(2)] by (simp_all add: s' close_at_def node(4))
qed

section \<open>Redis and the nodes\<close>

text \<open>
  C8: In every state a cluster can reach, by any interleaving of the events of its nodes,
  with entries that expire and nodes that are killed and started again, every node keeps its
  invariant, and looking up the node of a user gives, on every node, either that the user has
  no entry or the rpc address of a node of the cluster: no event of any node leaves an entry
  that does not decode or that names a node outside the cluster.
\<close>

theorem cluster_lookup:
  assumes "cluster_reachable D kv s" and "deployment_ok D kv prefix"
    and "GetUserRpcServer (dEnv D i) uid (node_at s i) = (w, r)"
  shows "ws_inv (clNodes s i) \<and> kv (redis w) = kv (clRedis s) \<and>
     (r = Inl RedisNil \<and> kv (clRedis s) (entry_key prefix uid) = None \<or>
      (\<exists>j. r = (let ip = GetServerIp (dIfaces D j); port = cfgRpcPort (dConfig D j) in
             if ip = '''' \<or> port = '''' then Inl (NewImError ErrUserOffline) else Inr (NewServer ip port))))"
proof -
  have inv: "cluster_inv D kv prefix s" by (rule cluster_reachable_inv [OF assms(1,2)])
  note node = cluster_inv_node [OF assms(2) inv, where i = i]
  obtain x res where g: "redisGet (dEnv D i) (entry_key prefix uid) (clRedis s) = (x, res)" by fastforce
  have x: "kv x = kv (clRedis s)" by (rule redis_ok_dests(5) [OF node(2) g])
  have res: "res = (case kv (clRedis s) (entry_key prefix uid) of None \<Rightarrow> Inl RedisNil | Some d \<Rightarrow> Inr d)"
    by (rule redis_ok_dests(6) [OF node(2) g])
  have i: "ws_inv (clNodes s i)" using node(1) by (simp add: node_at_inv)
  show ?thesis
  proof (cases "kv (clRedis s) (entry_key prefix uid)")
    case None
    with i assms(3) g x res show ?thesis
      by (auto simp: GetUserRpcServer_def GetUserOnlineInfo_def node(4))
  next
    case (Some d)
    then obtain j u where "d = jprint (user_online_json u)" "entry_of D j u"
      using inv unfolding cluster_inv_def by blast
    with Some i assms(3) g x res show ?thesis
      by (auto simp: GetUserRpcServer_def GetUserOnlineInfo_def node(4) user_online_decode entry_of_def Let_def
          intro!: exI [of _ j] split: if_splits)
  qed
qed

text \<open>
  The example's cluster: nodes with addresses of their own, and no application. Bob has
  logged in on node 0.
\<close>

definition ex_deployment :: "(nat, ex_conn, (string, bytes) gomap, unit) deployment" where
  "ex_deployment = \<lparr>dEnv = (\<lambda>_. ex_env), dHandler = (\<lambda>_. None), dOnClose = (\<lambda>_. None),
     dIfaces = (\<lambda>i. Inr [\<lparr>ifFlags = 1, ifAddrs = Inr [IPNet [10, 0, 0, word_of_nat i]]\<rparr>]),
     dConfig = (\<lambda>_. ex_cfg)\<rparr>"

definition ex_sock :: ex_conn where
  "ex_sock = \<lparr>xUid = ''bob'', xOut = [], xClosed = False\<rparr>"

definition ex_idle :: "(nat, ex_conn, (string, bytes) gomap, unit) cluster" where
  "ex_idle = \<lparr>clNodes = (\<lambda>i. the (InitWs (dIfaces ex_deployment i) True ex_cfg (ws0 (\<lambda>_. ex_sock) [] () 0))),
     clRedis = []\<rparr>"

definition ex_bob_in :: "(nat, ex_conn, (string, bytes) gomap, unit) cluster" where
  "ex_bob_in = login_at ex_deployment 0 ''u1'' 0 ex_sock ''1'' ex_idle"

lemma ex_deployment_simps [simp]:
  "dEnv ex_deployment i = ex_env" "dHandler ex_deployment i = None" "dOnClose ex_deployment i = None"
  "dConfig ex_deployment i = ex_cfg"
  by (simp_all add: ex_deployment_def)

lemma ex_deployment_ok: "deployment_ok ex_deployment mget ''im''"
  by (simp add: deployment_ok_def handler_ok_def callback_ok_def)

lemma ex_idle_init:
  "InitWs (dIfaces ex_deployment i) True ex_cfg (ws0 (\<lambda>_. ex_sock) [] () 0) = Some (clNodes ex_idle i)"
  by (simp add: ex_idle_def InitWs_def Let_def)

lemma ex_idle_reachable: "cluster_reachable ex_deployment mget ex_idle"
  unfolding cluster_reachable_def starts_def
  by (rule exI [of _ ex_idle]) (use ex_idle_init in \<open>auto simp: ex_idle_def intro!: ext\<close>)

lemma ex_idle_tables: "GetClient v (clNodes ex_idle i) = None" "GetClientByConn k (clNodes ex_idle i) = None"
  "mget (clRedis ex_idle) key = None"
  using InitWs_fields [OF ex_idle_init, of i]
  by (simp_all add: GetClient_def GetClientByConn_def ex_idle_def)

lemma ex_idle_inv: "cluster_inv ex_deployment mget ''im'' ex_idle"
  by (rule cluster_reachable_inv [OF ex_idle_reachable ex_deployment_ok])

lemmas ex_bob_login = login_accepted [OF ex_deployment_ok ex_idle_inv _ _ ex_idle_tables ex_bob_in_def]

lemma ex_bob_in_facts:
  "online_at ''bob'' 0 ex_bob_in" "j \<noteq> 0 \<Longrightarrow> clNodes ex_bob_in j = clNodes ex_idle j"
  "mget (clRedis ex_bob_in) (entry_key ''im'' ''bob'') \<noteq> None"
  using ex_bob_login [of "''bob''"] by (simp_all add: ex_sock_def)

lemma cluster_reachable_step:
  "cluster_reachable D kv s \<Longrightarrow> (cluster_step D kv)\<^sup>*\<^sup>* s s' \<Longrightarrow> cluster_reachable D kv s'"
  unfolding cluster_reachable_def by (meson rtranclp_trans)

lemma ex_bob_in_reachable: "cluster_reachable ex_deployment mget ex_bob_in"
  by (rule cluster_reachable_step [OF ex_idle_reachable r_into_rtranclp])
    (simp add: ex_bob_in_def cluster_events ex_idle_tables)

theorem cluster_lookup_witness:
  "\<exists>j. snd (GetUserRpcServer ex_env ''bob'' (node_at ex_bob_in 1)) =
     Inr (NewServer (GetServerIp (dIfaces ex_deployment j)) ''8889'')"
proof -
  have "GetServerIp (dIfaces ex_deployment j) \<noteq> ''''" for j
    by (simp add: ex_deployment_def GetServerIp_def externalIP_def getIpFromAddr_def IsLoopback_def To4_def
        FlagUp_def FlagLoopback_def ip_String_def)
  then show ?thesis
    using cluster_lookup [OF ex_bob_in_reachable ex_deployment_ok, of 1 "''bob''"
        "fst (GetUserRpcServer ex_env ''bob'' (node_at ex_bob_in 1))"
        "snd (GetUserRpcServer ex_env ''bob'' (node_at ex_bob_in 1))"] ex_bob_in_facts(3)
    by (auto simp: Let_def)
qed

section \<open>Two orders of events that break the single login\<close>

text \<open>
  C15: The single login of a user can be broken by the end of an old connection. The user is
  online on node a and logs in on node b, which is refused; a is called to stop its client,
  the user logs in on node c, and only then a handles the end of its connection: it removes
  the entry that c has just written. A login on b is then accepted, and the user has an
  online client on b and on c at the same time. Every step is a step of the cluster.
\<close>

theorem two_logins_online:
  assumes D: "deployment_ok D kv prefix" and inv: "cluster_inv D kv prefix s"
    and cb: "dOnClose D a = None" and nodes: "a \<noteq> b" "a \<noteq> c" "b \<noteq> c"
    and ses: "\<And>y n. SessionLoad (dEnv D a) (NetConnClose (dEnv D a) y) n = SessionLoad (dEnv D a) y n"
    and uid: "uid \<noteq> ''''" "SessionLoad (dEnv D b) xb ''uid'' = Some (SessionStr uid)"
      "SessionLoad (dEnv D b) xb' ''uid'' = Some (SessionStr uid)"
      "SessionLoad (dEnv D c) xc ''uid'' = Some (SessionStr uid)"
    and at_a: "GetClient uid (clNodes s a) = Some d" "GetUid (dEnv D a) ka (clNodes s a) = uid"
    and entry: "kv (clRedis s) (entry_key prefix uid) = Some (jprint (user_online_json old))"
      "RandUuid old \<noteq> ulb"
    and at_b: "GetClient uid (clNodes s b) = None" "GetClientByConn kb (clNodes s b) = None"
      "GetClientByConn kb' (clNodes s b) = None"
    and at_c: "GetClient uid (clNodes s c) = None" "GetClientByConn kc (clNodes s c) = None"
    and s1: "s1 = login_at D b ulb kb xb mc s" and s2: "s2 = stop_at D a uid s1"
    and s3: "s3 = login_at D c ulc kc xc mc s2" and s4: "s4 = close_at D a ka s3"
    and s5: "s5 = login_at D b ulb' kb' xb' mc s4"
  shows "(cluster_step D kv)\<^sup>*\<^sup>* s s5 \<and> online_at uid b s5 \<and> online_at uid c s5"
proof -
  note keeps = cluster_step_inv [OF _ D]
  note 1 = login_refused [OF D inv uid(2,1) at_b(1) entry s1]
  have st1: "cluster_step D kv s s1" unfolding s1 by (rule cluster_events(1) [OF at_b(2)])
  note 2 = stop_registered [OF s2 ses]
  have st2: "cluster_step D kv s1 s2" unfolding s2 by (rule cluster_events(2))
  have inv2: "cluster_inv D kv prefix s2" using keeps [OF st1 inv] keeps [OF st2] by blast
  have c2: "GetClient uid (clNodes s2 c) = None" "GetClientByConn kc (clNodes s2 c) = None"
    "kv (clRedis s2) (entry_key prefix uid) = None"
    using at_c nodes 1 2 by simp_all
  note 3 = login_accepted [OF D inv2 uid(4,1) c2 s3]
  have st3: "cluster_step D kv s2 s3" unfolding s3 by (rule cluster_events(1) [OF c2(2)])
  have inv3: "cluster_inv D kv prefix s3" by (rule keeps [OF st3 inv2])
  have a3: "GetClient uid (clNodes s3 a) = Some d" "GetUid (dEnv D a) ka (clNodes s3 a) = uid"
    using at_a nodes 1(4) 2(3,4) 3(2) by simp_all
  note 4 = close_removes_entry [OF D inv3 cb a3 s4]
  have st4: "cluster_step D kv s3 s4" unfolding s4 by (rule cluster_events(3))
  have b4: "GetClient uid (clNodes s4 b) = None" "GetClientByConn kb' (clNodes s4 b) = None"
    using at_b nodes 1(2,3) 2(2) 3(2) 4(2) by simp_all
  note 5 = login_accepted [OF D keeps [OF st4 inv3] uid(3,1) b4 4(1) s5]
  have st5: "cluster_step D kv s4 s5" unfolding s5 by (rule cluster_events(1) [OF b4(2)])
  have "online_at uid c s5" using 3(1) 4(2) 5(2) nodes by (simp add: online_at_def)
  with 5(1) show ?thesis
    using st1 st2 st3 st4 st5 by (meson converse_rtranclp_into_rtranclp rtranclp.rtrancl_refl)
qed

lemma ex_bob_uid: "GetUid ex_env 0 (clNodes ex_bob_in 0) = ''bob''"
proof -
  have e: "GetUid ex_env 0 (set_conn 0 ex_sock (node_at ex_idle 0)) = ''bob''"
    by (simp add: GetUid_def ex_sock_def)
  show ?thesis
    using ex_idle_tables(1) [of "''bob''" 0] ex_idle_tables(3)
    by (simp add: ex_bob_in_def login_at_def HandlerUp_def e uniqueLogin_def GetClient_def Let_def
        GetSetUserOnlineInfo_def json_Marshal_def NewClient_def InitStart_def OnConnect_def
        AddClient_def AddClientConn_def GetUid_def ex_sock_def SetConnDeadLine_def)
qed

theorem two_logins_online_witness:
  "\<exists>s. cluster_reachable ex_deployment mget s \<and> online_at ''bob'' (Suc 0) s \<and> online_at ''bob'' 2 s"
proof -
  have inv: "cluster_inv ex_deployment mget ''im'' ex_bob_in"
    by (rule cluster_reachable_inv [OF ex_bob_in_reachable ex_deployment_ok])
  obtain d where d: "GetClient ''bob'' (clNodes ex_bob_in 0) = Some d"
    using ex_bob_in_facts(1) by (auto simp: online_at_def)
  obtain u where u: "mget (clRedis ex_bob_in) (entry_key ''im'' ''bob'') = Some (jprint (user_online_json u))"
    using inv ex_bob_in_facts(3) unfolding cluster_inv_def by blast
  have n: "clNodes ex_bob_in (Suc 0) = clNodes ex_idle (Suc 0)" "clNodes ex_bob_in 2 = clNodes ex_idle 2"
    using ex_bob_in_facts(2) by simp_all
  have x: "SessionLoad (dEnv ex_deployment i) ex_sock ''uid'' = Some (SessionStr ''bob'')" for i
    by (simp add: ex_sock_def)
  note two_logins_online [OF ex_deployment_ok inv, of 0 "Suc 0" 2 "''bob''" ex_sock ex_sock ex_sock d 0 u
      "CHR ''x'' # RandUuid u" 0 1 0, OF _ _ _ _ _ _ x x x d _ u _ _ _ _ _ _ refl refl refl refl refl,
      of "''1''" "''u2''" "''u3''"]
  note run = this [unfolded n ex_deployment_simps, OF refl _ _ _ ex_session _ ex_bob_uid _ ex_idle_tables(1,2,2,1,2)]
  then show ?thesis
    using cluster_reachable_step [OF ex_bob_in_reachable] by auto
qed

text \<open>
  A login is not one step of the program: \<^verbatim>\<open>HandlerUp\<close> writes the entry, and makes and
  registers the client after that. The second half is \<open>login_rest\<close>.
\<close>

definition login_rest ::
    "('k, 'r, 'n) ws_env \<Rightarrow> kptr \<Rightarrow> string \<Rightarrow> string \<Rightarrow> user_online \<Rightarrow> ('k, 'r, 'n) ws \<Rightarrow> ('k, 'r, 'n) ws" where
  "login_rest env socket getMsgCode uid userOnline w =
     (let msgCode = (if getMsgCode = ''1'' then OpcodeText else OpcodeBinary);
          (w1, client) = NewClient socket uid (RandUuid userOnline) msgCode w;
          w2 = InitStart env client w1
      in w2\<lparr>gos := gos w2 @ [GoReadLoop socket]\<rparr>)"

lemma HandlerUp_halves:
  "GetUid env k w \<noteq> '''' \<Longrightarrow> uniqueLogin env ulid (GetUid env k w) k w = (w1, Inr u) \<Longrightarrow>
     HandlerUp env ulid (Inr k) mc w = login_rest env k mc (GetUid env k w) u w1"
  by (simp add: HandlerUp_def login_rest_def Let_def)

lemma login_rest_registers:
  assumes "ws_inv w" and "GetClient uid w = None" and "GetClientByConn k w = None"
  shows "ws_inv (login_rest env k mc uid u w)" "redis (login_rest env k mc uid u w) = redis w"
    "entries_le kv w (login_rest env k mc uid u w)"
    "\<exists>c. GetClient uid (login_rest env k mc uid u w) = Some c \<and>
       cState (clients (login_rest env k mc uid u w) c) = StateOnline"
proof -
  let ?m = "if mc = ''1'' then OpcodeText else OpcodeBinary"
  obtain w1 c where nc: "NewClient k uid (RandUuid u) ?m w = (w1, c)" by fastforce
  have tabs: "mget (Clients w) uid = None" "mget (ConnClientIdx w) k = None"
    using assms(2,3) by (simp_all add: GetClient_def GetClientByConn_def)
  note e = login_rest_def [of env k mc uid u w] nc
  show "ws_inv (login_rest env k mc uid u w)"
    using ws_inv_register(1) [OF assms(1) tabs nc, of env] by (simp add: e ws_inv_gos Let_def)
  show r: "redis (login_rest env k mc uid u w) = redis w"
    and "\<exists>c. GetClient uid (login_rest env k mc uid u w) = Some c \<and>
       cState (clients (login_rest env k mc uid u w) c) = StateOnline"
    using nc by (auto simp: login_rest_def NewClient_def InitStart_def OnConnect_def AddClient_def
        AddClientConn_def GetClient_def Let_def)
  have "Config (login_rest env k mc uid u w) = Config w" "serverIp (login_rest env k mc uid u w) = serverIp w"
    using nc by (auto simp: login_rest_def NewClient_def InitStart_def OnConnect_def AddClient_def
        AddClientConn_def Let_def)
  with r show "entries_le kv w (login_rest env k mc uid u w)" by (simp add: entries_le_same)
qed

lemma OnPing_kv: "redis_ok env kv \<Longrightarrow> kv (redis (Handler_OnPing env k w)) = kv (redis w)"
  by (simp add: Handler_OnPing_def conn_close_def Heartbeat_def Let_def ResetUserOnlineExpTime_kv
      SetConnDeadLine_def split: option.split)

lemma lookup_without_entry:
  assumes D: "deployment_ok D kv prefix" and inv: "cluster_inv D kv prefix s"
    and e: "kv (clRedis s) (entry_key prefix uid) = None"
  shows "snd (GetUserRpcServer (dEnv D i) uid (node_at s i)) = Inl RedisNil"
proof -
  note node = cluster_inv_node [OF D inv, where i = i]
  obtain x res where g: "redisGet (dEnv D i) (entry_key prefix uid) (clRedis s) = (x, res)" by fastforce
  then show ?thesis
    using redis_ok_dests(6) [OF node(2) g] e by (simp add: GetUserRpcServer_def GetUserOnlineInfo_def node(4))
qed

text \<open>The first half of a login of a user whom redis does not know, as a change of the cluster.\<close>

lemma login_begins:
  assumes D: "deployment_ok D kv prefix" and inv: "cluster_inv D kv prefix s"
    and n: "GetClient uid (clNodes s a) = None" and e: "kv (clRedis s) (entry_key prefix uid) = None"
    and l: "uniqueLogin (dEnv D a) ulid uid k (node_at s a) = (w, r)" and s': "s' = set_node a w s"
  shows "cluster_inv D kv prefix s'"
    and "\<exists>u. r = Inr u \<and> RandUuid u = ulid \<and>
       kv (clRedis s') (entry_key prefix uid) = Some (jprint (user_online_json u))"
    and "GetClient v (clNodes s' j) = GetClient v (clNodes s j)"
      "GetClientByConn m (clNodes s' j) = GetClientByConn m (clNodes s j)"
proof -
  note node = cluster_inv_node [OF D inv, where i = a]
  have le: "ws_le (node_at s a) w" using ws_le_uniqueLogin l by (metis fst_conv)
  have "entries_le kv (node_at s a) w"
    using entries_le_login [OF node(2), of "node_at s a" ulid uid k] l by simp
  then show "cluster_inv D kv prefix s'"
    unfolding s' using cluster_node_inv [OF D inv] ws_inv_le [OF le node(1)] by blast
  let ?u = "NewUserOnline uid ulid (RemoteAddr (dEnv D a) (conns (node_at s a) k)) (node_at s a)"
  have "GetClient uid (node_at s a) = None" "kv (redis (node_at s a)) (getUserOnlineKey uid (node_at s a)) = None"
    using n e by (simp_all add: node(4))
  note f = uniqueLogin_first [OF node(2) this, of ulid k] and g = GetSetUserOnlineInfo_store [OF node(2)]
  have "r = Inr ?u" "w = fst (GetSetUserOnlineInfo (dEnv D a) uid ?u (node_at s a))"
    using f l by (simp_all add: Let_def)
  then show "\<exists>u. r = Inr u \<and> RandUuid u = ulid \<and>
       kv (clRedis s') (entry_key prefix uid) = Some (jprint (user_online_json u))"
    using g [of uid ?u "node_at s a"] by (simp add: s' node(4)) (simp add: NewUserOnline_def)
  show "GetClient v (clNodes s' j) = GetClient v (clNodes s j)"
    "GetClientByConn m (clNodes s' j) = GetClientByConn m (clNodes s j)"
    using le by (simp_all add: s' ws_le_def GetClient_def GetClientByConn_def)
qed

text \<open>
  C16: Two logins of one user that overlap can leave the user online and unreachable: node a
  has written the entry of its login and has not registered its client yet when the user logs
  in on node b (which may be the same node). The login on b is refused and removes the entry,
  and its call to stop the client on a finds none; a then registers its client. The user has
  an online client on a and no entry in redis, looking the user up fails on every node, and
  the user's pings do not bring the entry back.
\<close>

theorem login_race_loses_entry:
  assumes D: "deployment_ok D kv prefix" and inv: "cluster_inv D kv prefix s"
    and ses: "\<And>y n. SessionLoad (dEnv D a) (NetConnClose (dEnv D a) y) n = SessionLoad (dEnv D a) y n"
    and uid: "uid \<noteq> ''''" "SessionLoad (dEnv D b) x ''uid'' = Some (SessionStr uid)" "ul \<noteq> ul'"
    and entry: "kv (clRedis s) (entry_key prefix uid) = None"
    and at_a: "GetClient uid (clNodes s a) = None" "GetClientByConn k (clNodes s a) = None"
    and at_b: "GetClient uid (clNodes s b) = None" "GetClientByConn l (clNodes s b) = None"
    and first: "uniqueLogin (dEnv D a) ul uid k (node_at s a) = (w, r)" and s1: "s1 = set_node a w s"
    and s2: "s2 = login_at D b ul' l x mc s1" and s3: "s3 = stop_at D a uid s2"
    and s4: "s4 = set_node a (login_rest (dEnv D a) k mc uid (projr r) (node_at s3 a)) s3"
    and s5: "s5 = set_node a (Handler_OnPing (dEnv D a) p (node_at s4 a)) s4"
  shows "\<not> isl r \<and> online_at uid a s4 \<and>
     snd (GetUserRpcServer (dEnv D i) uid (node_at s4 i)) = Inl RedisNil \<and>
     snd (GetUserRpcServer (dEnv D i) uid (node_at s5 i)) = Inl RedisNil"
proof -
  note keeps = cluster_step_inv [OF _ D]
  note 1 = login_begins [OF D inv at_a(1) entry first s1]
  obtain u where u: "r = Inr u" "RandUuid u = ul"
      "kv (clRedis s1) (entry_key prefix uid) = Some (jprint (user_online_json u))"
    using 1(2) by blast
  have b1: "GetClient uid (clNodes s1 b) = None" "GetClientByConn l (clNodes s1 b) = None"
    using at_b 1(3,4) by simp_all
  have ul: "RandUuid u \<noteq> ul'" using u(2) uid(3) by simp
  note 2 = login_refused [OF D 1(1) uid(2,1) b1(1) u(3) ul s2]
  have inv2: "cluster_inv D kv prefix s2"
    using keeps [OF cluster_events(1) [OF b1(2)] 1(1)] by (simp add: s2)
  note 3 = stop_registered [OF s3 ses]
  have inv3: "cluster_inv D kv prefix s3" using keeps [OF cluster_events(2) inv2] by (simp add: s3)
  have a3: "GetClient uid (node_at s3 a) = None" "GetClientByConn k (node_at s3 a) = None"
    using at_a 1(3,4) 2(2,3) 2(4) [of a] 3(3,5) by (cases "a = b"; simp add: GetClientByConn_def)+
  note 4 = login_rest_registers [OF cluster_inv_node(1) [OF D inv3] a3]
  have inv4: "cluster_inv D kv prefix s4" unfolding s4 by (rule cluster_node_inv [OF D inv3 4(1,3)])
  have e4: "kv (clRedis s4) (entry_key prefix uid) = None" using 2(1) 3(1) 4(2) by (simp add: s4)
  have inv5: "cluster_inv D kv prefix s5"
    unfolding s5 by (rule keeps [OF cluster_step.event [OF node_event.inner [OF inner_event.ping]] inv4])
  have e5: "kv (clRedis s5) (entry_key prefix uid) = None"
    using e4 OnPing_kv [OF cluster_inv_node(2) [OF D inv4]] by (simp add: s5)
  have "online_at uid a s4" using 4(4) by (simp add: online_at_def s4)
  then show ?thesis
    using u(1) lookup_without_entry [OF D inv4 e4] lookup_without_entry [OF D inv5 e5] by simp
qed

theorem login_race_loses_entry_witness:
  "\<exists>s. online_at ''bob'' 0 s \<and> snd (GetUserRpcServer ex_env ''bob'' (node_at s (Suc 0))) = Inl RedisNil"
proof -
  note login_race_loses_entry [OF ex_deployment_ok ex_idle_inv, of 0 "''bob''" 1 ex_sock "''u1''" "''u2''" 0 0
      "fst (uniqueLogin ex_env ''u1'' ''bob'' 0 (node_at ex_idle 0))"
      "snd (uniqueLogin ex_env ''u1'' ''bob'' 0 (node_at ex_idle 0))", OF _ _ _ _ _ _ _ _ _ _ refl refl refl refl refl,
      where mc = "''1''" and p = 0 and i = 1]
  then show ?thesis using ex_session ex_idle_tables by (auto simp: ex_sock_def)
qed

end
