(* ===== verification/ClusterOrder.thy ===== *)
theory ClusterOrder
  imports ClusterLogin
begin

text \<open>
  When the single login of a user holds. \<open>orderly_step\<close> are the steps of a cluster without the
  two orders of events of \<open>ClusterLogin\<close>: the call that a refused login makes is carried out
  with it, the end of a connection is handled before another node has written its entry, and the
  entry of an online user does not expire. Then a user is online on one node at most.
\<close>

declare map_of_eq_Some_iff [simp del] Some_eq_map_of_iff [simp del]

section \<open>The machine\<close>

inductive orderly_step ::
    "('i, 'k, 'r, 'n) deployment \<Rightarrow> ('r \<Rightarrow> string \<Rightarrow> bytes option) \<Rightarrow> string \<Rightarrow>
     ('i, 'k, 'r, 'n) cluster \<Rightarrow> ('i, 'k, 'r, 'n) cluster \<Rightarrow> bool"
  for D kv prefix where
  inner: "inner_event (dEnv D i) (dHandler D i) (node_at s i) w \<Longrightarrow>
    orderly_step D kv prefix s (set_node i w s)"
| login: "GetClientByConn k (clNodes s i) = None \<Longrightarrow>
    GetUid (dEnv D i) k (set_conn k x (node_at s i)) = uid \<Longrightarrow>
    uid = '''' \<or> GetClient uid (clNodes s i) \<noteq> None \<or> kv (clRedis s) (entry_key prefix uid) = None \<Longrightarrow>
    orderly_step D kv prefix s (login_at D i ulid k x mc s)"
| refused: "GetClientByConn k (clNodes s i) = None \<Longrightarrow>
    GetUid (dEnv D i) k (set_conn k x (node_at s i)) = uid \<Longrightarrow> uid \<noteq> '''' \<Longrightarrow>
    GetClient uid (clNodes s i) = None \<Longrightarrow>
    kv (clRedis s) (entry_key prefix uid) = Some (jprint (user_online_json u)) \<Longrightarrow> RandUuid u \<noteq> ulid \<Longrightarrow>
    entry_of D j u \<Longrightarrow>
    orderly_step D kv prefix s (stop_at D j uid (login_at D i ulid k x mc s))"
| close: "GetUid (dEnv D i) k (clNodes s i) = uid \<Longrightarrow>
    (\<And>u. kv (clRedis s) (entry_key prefix uid) = Some (jprint (user_online_json u)) \<Longrightarrow> entry_of D i u) \<Longrightarrow>
    orderly_step D kv prefix s (close_at D i k s)"
| expire: "kv r = (kv (clRedis s))(key := None) \<Longrightarrow>
    (\<And>uid i. key = entry_key prefix uid \<Longrightarrow> \<not> online_at uid i s) \<Longrightarrow>
    orderly_step D kv prefix s (s\<lparr>clRedis := r\<rparr>)"
| restart: "starts D i w \<Longrightarrow> orderly_step D kv prefix s (s\<lparr>clNodes := (clNodes s)(i := w)\<rparr>)"
| world: "orderly_step D kv prefix s
    (s\<lparr>clNodes := (clNodes s)(i := (clNodes s i)\<lparr>net := n, clock := t\<rparr>)\<rparr>)"

definition orderly_reachable ::
    "('i, 'k, 'r, 'n) deployment \<Rightarrow> ('r \<Rightarrow> string \<Rightarrow> bytes option) \<Rightarrow> string \<Rightarrow>
     ('i, 'k, 'r, 'n) cluster \<Rightarrow> bool" where
  "orderly_reachable D kv prefix s \<longleftrightarrow>
     (\<exists>s0. (\<forall>i. starts D i (clNodes s0 i)) \<and> kv (clRedis s0) = Map.empty \<and>
        (orderly_step D kv prefix)\<^sup>*\<^sup>* s0 s)"

text \<open>The nodes have addresses of their own.\<close>

definition distinct_nodes :: "('i, 'k, 'r, 'n) deployment \<Rightarrow> bool" where
  "distinct_nodes D \<longleftrightarrow> (\<forall>i j u. entry_of D i u \<longrightarrow> entry_of D j u \<longrightarrow> i = j)"

lemma orderly_is_cluster: "orderly_step D kv prefix s s' \<Longrightarrow> (cluster_step D kv)\<^sup>*\<^sup>* s s'"
proof (induction rule: orderly_step.induct)
  case (refused k s i x uid u ulid j mc)
  then show ?case
    using cluster_events(1) [of k s i D kv ulid x mc] cluster_events(2)
    by (meson converse_rtranclp_into_rtranclp r_into_rtranclp)
qed (auto intro!: r_into_rtranclp cluster_events cluster_step.intros node_event.inner)

lemma orderly_step_inv:
  assumes "orderly_step D kv prefix s s'" and "deployment_ok D kv prefix" and "cluster_inv D kv prefix s"
  shows "cluster_inv D kv prefix s'"
  using orderly_is_cluster [OF assms(1)] assms(3)
  by (induction rule: rtranclp_induct) (auto intro: cluster_step_inv assms(2))

section \<open>The invariant\<close>

text \<open>A user who is online on a node has an entry, and it names that node.\<close>

definition backed ::
    "('i, 'k, 'r, 'n) deployment \<Rightarrow> ('r \<Rightarrow> string \<Rightarrow> bytes option) \<Rightarrow> string \<Rightarrow>
     ('i, 'k, 'r, 'n) cluster \<Rightarrow> bool" where
  "backed D kv prefix s \<longleftrightarrow>
     (\<forall>uid i. online_at uid i s \<longrightarrow>
        (\<exists>u. kv (clRedis s) (entry_key prefix uid) = Some (jprint (user_online_json u)) \<and> entry_of D i u))"

lemma backedD:
  assumes "backed D kv prefix s" and "online_at uid i s"
  obtains u where "kv (clRedis s) (entry_key prefix uid) = Some (jprint (user_online_json u))" "entry_of D i u"
  using assms unfolding backed_def by blast

lemma user_online_print_inject:
  "jprint (user_online_json u) = jprint (user_online_json v) \<longleftrightarrow> u = v"
  using user_online_decode [of u] user_online_decode [of v] by (metis prod.inject)

text \<open>
  A step that brings nobody online but users of its own entry: everybody online after it was
  online on the same node before and keeps the entry.
\<close>

lemma backed_step:
  assumes "backed D kv prefix s"
    and "\<And>uid i. online_at uid i s' \<Longrightarrow>
      online_at uid i s \<and> kv (clRedis s') (entry_key prefix uid) = kv (clRedis s) (entry_key prefix uid) \<or>
      (\<exists>u. kv (clRedis s') (entry_key prefix uid) = Some (jprint (user_online_json u)) \<and> entry_of D i u)"
  shows "backed D kv prefix s'"
  using assms unfolding backed_def by metis

lemma online_at_other: "j \<noteq> i \<Longrightarrow> online_at uid j (set_node i w s) = online_at uid j s"
  by (simp add: online_at_def)

lemma quiet_online: "quiet kv (node_at s i) w \<Longrightarrow> online_at uid j (set_node i w s) \<Longrightarrow> online_at uid j s"
  by (auto simp: quiet_def online_at_def GetClient_def split: if_splits)

lemma backed_quiet:
  assumes "backed D kv prefix s" and "quiet kv (node_at s i) w"
  shows "backed D kv prefix (set_node i w s)"
  using assms(1)
proof (rule backed_step)
  fix uid j assume "online_at uid j (set_node i w s)"
  with quiet_online [OF assms(2)] assms(2)
  show "online_at uid j s \<and> kv (clRedis (set_node i w s)) (entry_key prefix uid) = kv (clRedis s) (entry_key prefix uid) \<or>
      (\<exists>u. kv (clRedis (set_node i w s)) (entry_key prefix uid) = Some (jprint (user_online_json u)) \<and> entry_of D j u)"
    by (simp add: quiet_def)
qed

text \<open>What a login does to the clients of the other users.\<close>

lemma HandlerUp_first_others:
  assumes inv: "ws_inv w" and r: "redis_ok env kv" and u: "GetUid env k w = uid" "uid \<noteq> ''''"
    and n: "GetClient uid w = None" and e: "kv (redis w) (getUserOnlineKey uid w) = None"
    and v: "GetClient v w = Some d"
  shows "clients (HandlerUp env ulid (Inr k) mc w) d = clients w d"
proof -
  let ?u = "NewUserOnline uid ulid (RemoteAddr env (conns w k)) w"
  let ?w = "fst (GetSetUserOnlineInfo env uid ?u w)"
  let ?m = "if mc = ''1'' then OpcodeText else OpcodeBinary"
  obtain w1 c where nc: "NewClient k uid (RandUuid ?u) ?m ?w = (w1, c)" by fastforce
  have "uniqueLogin env ulid (GetUid env k w) k w = (?w, Inr ?u)"
    using uniqueLogin_first [OF r n e, of ulid k] u by (simp add: Let_def)
  then have w': "HandlerUp env ulid (Inr k) mc w = login_rest env k mc uid ?u ?w"
    using HandlerUp_halves u by metis
  have "d < nextClient w" using v clients_invD(3) [OF ws_invD(1) [OF inv]] by (simp add: GetClient_def)
  moreover have "c = nextClient w" using nc by (simp add: NewClient_def Let_def)
  ultimately show ?thesis using register_tables(7) [OF nc] nc by (simp add: w' login_rest_def Let_def)
qed

section \<open>The steps keep the invariant\<close>

lemma login_facts:
  assumes "deployment_ok D kv prefix" and "cluster_inv D kv prefix s" and "w = set_conn k x (node_at s i)"
  shows "ws_inv w" "redis_ok (dEnv D i) kv" "getUserOnlineKey uid w = entry_key prefix uid"
    "GetClient uid w = GetClient uid (clNodes s i)" "GetClientByConn k w = GetClientByConn k (clNodes s i)"
    "redis w = clRedis s" "clients w = clients (clNodes s i)" "same_node D i w" "quiet kv (node_at s i) w"
proof -
  note node = cluster_inv_node [OF assms(1,2), where i = i]
  show "ws_inv w" unfolding assms(3) by (rule ws_inv_le [OF ws_le_set_conn node(1)])
  have "same_node D i (node_at s i)" using assms(2) by (simp add: cluster_inv_def node_at_same)
  then show "same_node D i w" by (simp add: assms(3) same_node_def)
  show "getUserOnlineKey uid w = entry_key prefix uid" "redis_ok (dEnv D i) kv"
    using node(2) node(4) [of uid] by (simp_all add: assms(3) getUserOnlineKey_def)
  show "GetClient uid w = GetClient uid (clNodes s i)" "GetClientByConn k w = GetClientByConn k (clNodes s i)"
    "redis w = clRedis s" "clients w = clients (clNodes s i)" "quiet kv (node_at s i) w"
    by (simp_all add: assms(3) GetClient_def GetClientByConn_def)
qed

text \<open>A login that is accepted: nobody with that name is online, and the entry is of this node.\<close>

lemma backed_accepted:
  assumes D: "deployment_ok D kv prefix" and inv: "cluster_inv D kv prefix s" and b: "backed D kv prefix s"
    and k: "GetClientByConn k (clNodes s i) = None"
    and u: "GetUid (dEnv D i) k (set_conn k x (node_at s i)) = uid" "uid \<noteq> ''''"
    and n: "GetClient uid (clNodes s i) = None" and e: "kv (clRedis s) (entry_key prefix uid) = None"
  shows "backed D kv prefix (login_at D i ulid k x mc s)"
proof -
  define w where "w = set_conn k x (node_at s i)"
  note w = login_facts [OF D inv w_def]
  define w' where "w' = HandlerUp (dEnv D i) ulid (Inr k) mc w"
  define u0 where "u0 = NewUserOnline uid ulid (RemoteAddr (dEnv D i) (conns w k)) w"
  have pre: "GetUid (dEnv D i) k w = uid" "GetClient uid w = None" "kv (redis w) (getUserOnlineKey uid w) = None"
    "GetClientByConn k w = None"
    using u(1) n e k by (simp_all add: w w_def [symmetric])
  note up = HandlerUp_first [OF w(1,2) pre(1) u(2) pre(2-4) w'_def [symmetric]]
  have kv': "kv (redis w') = (kv (clRedis s))(entry_key prefix uid \<mapsto> jprint (user_online_json u0))"
    using up by (simp add: w u0_def)
  have own: "entry_of D i u0"
    using own_entry_of [OF w(8), of u0] by (simp add: u0_def NewUserOnline_def own_entry_def)
  have off: "\<not> online_at uid j s" for j using b e unfolding backed_def by (metis option.distinct(1))
  have others: "online_at v i s" if "v \<noteq> uid" "GetClient v w' = Some c" "cState (clients w' c) = StateOnline" for v c
  proof -
    have "GetClient v w = Some c" using up that by metis
    with HandlerUp_first_others [OF w(1,2) pre(1) u(2) pre(2,3) this, of ulid mc] that(3) show ?thesis
      by (simp add: online_at_def w'_def w)
  qed
  have "login_at D i ulid k x mc s = set_node i w' s" by (simp add: login_at_def w'_def w_def)
  moreover have "backed D kv prefix (set_node i w' s)"
  proof (rule backed_step [OF b])
    fix v j assume on: "online_at v j (set_node i w' s)"
    show "online_at v j s \<and> kv (clRedis (set_node i w' s)) (entry_key prefix v) = kv (clRedis s) (entry_key prefix v) \<or>
      (\<exists>u. kv (clRedis (set_node i w' s)) (entry_key prefix v) = Some (jprint (user_online_json u)) \<and> entry_of D j u)"
      using on own off others by (cases "j = i"; cases "v = uid") (auto simp: kv' online_at_def)
  qed
  ultimately show ?thesis by simp
qed

lemma backed_login:
  assumes D: "deployment_ok D kv prefix" and inv: "cluster_inv D kv prefix s" and b: "backed D kv prefix s"
    and k: "GetClientByConn k (clNodes s i) = None"
    and u: "GetUid (dEnv D i) k (set_conn k x (node_at s i)) = uid"
    and l: "uid = '''' \<or> GetClient uid (clNodes s i) \<noteq> None \<or> kv (clRedis s) (entry_key prefix uid) = None"
  shows "backed D kv prefix (login_at D i ulid k x mc s)"
proof -
  let ?w = "set_conn k x (node_at s i)"
  have "?w = set_conn k x (node_at s i)" ..
  note w = login_facts [OF D inv this]
  have c: "quiet kv v (conn_close env k v)" for env v by (simp add: conn_close_def)
  have q: "backed D kv prefix (login_at D i ulid k x mc s)"
    if "quiet kv ?w (HandlerUp (dEnv D i) ulid (Inr k) mc ?w)"
    unfolding login_at_def by (rule backed_quiet [OF b quiet_trans [OF w(9) that]])
  consider "uid = ''''" | c where "uid \<noteq> ''''" "GetClient uid (clNodes s i) = Some c"
    | "uid \<noteq> ''''" "GetClient uid (clNodes s i) = None" "kv (clRedis s) (entry_key prefix uid) = None"
    using l by fastforce
  then show ?thesis
  proof cases
    case 1
    then show ?thesis using u c by (intro q) (simp add: HandlerUp_def)
  next
    case (2 d)
    with w(4) have "GetClient uid ?w = Some d" by simp
    then show ?thesis
      using HandlerUp_local_duplicate [OF u 2(1), of d] quiet_trans [OF quiet_local(2) c] by (intro q) simp
  next
    case 3
    then show ?thesis by (rule backed_accepted [OF D inv b k u])
  qed
qed

text \<open>A login that is refused, and the call it makes to the node of the entry.\<close>

lemma stop_at_offline: "\<not> online_at uid i (stop_at D i uid s)"
  by (auto simp: online_at_def stop_at_def ImRpc_StopUserClient_def LP_StopLocalUserClient_def StopClient_def
      Client_Close_def GetClient_def Let_def split: option.splits if_splits)

lemma stop_at_quiet: "quiet kv (node_at s i) (clNodes (stop_at D i uid s) i)"
  by (simp add: stop_at_def quiet_ImRpc(3))

lemma backed_refused:
  assumes D: "deployment_ok D kv prefix" and inv: "cluster_inv D kv prefix s" and b: "backed D kv prefix s"
    and d: "distinct_nodes D"
    and u: "GetUid (dEnv D i) k (set_conn k x (node_at s i)) = uid" "uid \<noteq> ''''"
    and n: "GetClient uid (clNodes s i) = None"
    and e: "kv (clRedis s) (entry_key prefix uid) = Some (jprint (user_online_json old))"
      "RandUuid old \<noteq> ulid" "entry_of D j old"
  shows "backed D kv prefix (stop_at D j uid (login_at D i ulid k x mc s))"
proof -
  define w where "w = set_conn k x (node_at s i)"
  note w = login_facts [OF D inv w_def]
  define w' where "w' = HandlerUp (dEnv D i) ulid (Inr k) mc w"
  define s1 where "s1 = set_node i w' s"
  have s1: "login_at D i ulid k x mc s = s1" by (simp add: login_at_def w'_def w_def s1_def)
  have pre: "GetUid (dEnv D i) k w = uid" "GetClient uid w = None"
    "kv (redis w) (getUserOnlineKey uid w) = Some (jprint (user_online_json old))"
    using u(1) n e by (simp_all add: w w_def [symmetric])
  note up = HandlerUp_elsewhere [OF w(2) pre(1) u(2) pre(2,3) e(2), of mc, folded w'_def]
  have kv1: "kv (clRedis s1) = (kv (clRedis s))(entry_key prefix uid := None)"
    using up(2) by (simp add: s1_def w)
  have on1: "online_at v l s" if on: "online_at v l s1" for v l
  proof (cases "l = i")
    case True
    then obtain c where c: "GetClient v w' = Some c" "cState (clients w' c) = StateOnline"
      using on by (auto simp: online_at_def s1_def)
    have "GetClient v w = Some c" "cState (clients w c) = StateOnline"
      using up(1) c unfolding ws_le_def client_le_def GetClient_def by (metis client_state.exhaust)+
    then show ?thesis using True by (auto simp: online_at_def w)
  qed (use on in \<open>simp add: online_at_def s1_def\<close>)
  define s2 where "s2 = stop_at D j uid s1"
  have s2: "s2 = set_node j (clNodes s2 j) s1" by (simp add: s2_def stop_at_def)
  have "quiet kv (node_at s1 j) (clNodes s2 j)" unfolding s2_def by (rule stop_at_quiet)
  then have kv2: "kv (clRedis s2) = kv (clRedis s1)" and on2: "online_at v l s1" if "online_at v l s2" for v l
    using that quiet_online [of kv s1 j "clNodes s2 j" v l] s2 by (metis quiet_def node_at_simps(1) set_node_simps(2))+
  have "backed D kv prefix s2"
  proof (rule backed_step [OF b])
    fix v l assume on: "online_at v l s2"
    then have "online_at v l s" using on1 on2 by blast
    moreover have "v \<noteq> uid"
    proof
      assume "v = uid"
      then obtain u where "kv (clRedis s) (entry_key prefix uid) = Some (jprint (user_online_json u))" "entry_of D l u"
        using backedD [OF b \<open>online_at v l s\<close>] by blast
      with e have "l = j" using d by (metis distinct_nodes_def option.inject user_online_print_inject)
      with on \<open>v = uid\<close> stop_at_offline show False by (metis s2_def)
    qed
    ultimately show "online_at v l s \<and> kv (clRedis s2) (entry_key prefix v) = kv (clRedis s) (entry_key prefix v) \<or>
      (\<exists>u. kv (clRedis s2) (entry_key prefix v) = Some (jprint (user_online_json u)) \<and> entry_of D l u)"
      using on by (simp add: kv2 [OF on] kv1)
  qed
  then show ?thesis by (simp add: s1 s2_def)
qed

text \<open>The end of a connection, before another node has written its entry.\<close>

lemma OnClose_split:
  assumes inv: "ws_inv w" and r: "redis_ok env kv" and cb: "callback_ok env cb" and rg: "range_ok env"
    and c: "GetClient (GetUid env k w) w = Some c"
  shows "quiet kv (closed_client env c w) (fst (Handler_OnClose env cb k w))"
proof -
  have c': "mget (Clients w) (GetUid env k w) = Some c" using c by (simp add: GetClient_def)
  have "quiet kv (closed_client env c w) (f c (closed_client env c w))" if "cb = Some f" for f
    using cb that quiet_apis [OF _ r ws_inv_closed_client [OF inv c' rg]] unfolding callback_ok_def by blast
  then show ?thesis
    using Client_OnClose_cb [OF inv c', of env cb] c by (simp add: Handler_OnClose_def split: option.split)
qed

lemma backed_close:
  assumes D: "deployment_ok D kv prefix" and inv: "cluster_inv D kv prefix s" and b: "backed D kv prefix s"
    and d: "distinct_nodes D" and u: "GetUid (dEnv D i) k (clNodes s i) = uid"
    and g: "\<And>u. kv (clRedis s) (entry_key prefix uid) = Some (jprint (user_online_json u)) \<Longrightarrow> entry_of D i u"
  shows "backed D kv prefix (close_at D i k s)"
proof (cases "GetClient uid (clNodes s i)")
  case None
  then have "fst (Handler_OnClose (dEnv D i) (dOnClose D i) k (node_at s i)) = node_at s i"
    using u by (simp add: Handler_OnClose_def)
  then show ?thesis unfolding close_at_def by (intro backed_quiet [OF b]) simp
next
  case (Some c)
  define w1 where "w1 = closed_client (dEnv D i) c (node_at s i)"
  note node = cluster_inv_node [OF D inv, where i = i]
  have c: "mget (Clients (node_at s i)) uid = Some c" using Some by (simp add: GetClient_def)
  note t = closed_client_tables [OF node(1) c, where env = "dEnv D i", folded w1_def]
    and kv1 = closed_client_kv [OF node(1) c node(2), folded w1_def, unfolded node(4) node_at_simps]
  have mine: "c' \<noteq> c" if "GetClient v (clNodes s i) = Some c'" "v \<noteq> uid" for v c'
    using that clients_invD(4) [OF ws_invD(1) [OF node(1)]] c by (auto simp: GetClient_def)
  have own: "l = i" if "online_at uid l s" for l
    using backedD [OF b that] g d unfolding distinct_nodes_def by metis
  have 1: "backed D kv prefix (set_node i w1 s)"
  proof (rule backed_step [OF b])
    fix v l assume on: "online_at v l (set_node i w1 s)"
    have "v \<noteq> uid"
    proof
      assume v: "v = uid"
      then have "l \<noteq> i" using on t(1) by (auto simp: online_at_def GetClient_def)
      with on own v show False by (simp add: online_at_def)
    qed
    moreover have "online_at v l s"
      using on \<open>v \<noteq> uid\<close> mine [of v] t(1,4) by (auto simp: online_at_def GetClient_def split: if_splits)
    ultimately show "online_at v l s \<and> kv (clRedis (set_node i w1 s)) (entry_key prefix v) = kv (clRedis s) (entry_key prefix v) \<or>
      (\<exists>u. kv (clRedis (set_node i w1 s)) (entry_key prefix v) = Some (jprint (user_online_json u)) \<and> entry_of D l u)"
      by (simp add: kv1)
  qed
  have cl: "GetClient (GetUid (dEnv D i) k (node_at s i)) (node_at s i) = Some c" using Some u by simp
  have "node_at (set_node i w1 s) i = w1" by (simp add: node_at_def)
  then have "quiet kv (node_at (set_node i w1 s) i) (fst (Handler_OnClose (dEnv D i) (dOnClose D i) k (node_at s i)))"
    using OnClose_split [OF node(1,2) _ node(3) cl] D unfolding w1_def deployment_ok_def by auto
  then have "backed D kv prefix (set_node i (fst (Handler_OnClose (dEnv D i) (dOnClose D i) k (node_at s i)))
      (set_node i w1 s))"
    by (rule backed_quiet [OF 1])
  then show ?thesis by (simp add: close_at_def set_node_def)
qed

lemma backed_orderly:
  assumes st: "orderly_step D kv prefix s s'" and D: "deployment_ok D kv prefix" and d: "distinct_nodes D"
    and inv: "cluster_inv D kv prefix s" and b: "backed D kv prefix s"
  shows "backed D kv prefix s'"
  using st inv b
proof (induction rule: orderly_step.induct)
  case (inner i s w)
  note node = cluster_inv_node [OF D inner(2), where i = i]
  show ?case
    using quiet_event [OF inner(1) node(2) _ node(1)] D backed_quiet [OF inner(3)]
    unfolding deployment_ok_def by blast
next
  case (login k s i x uid ulid mc)
  then show ?case using backed_login [OF D] by blast
next
  case (refused k s i x uid u ulid j mc)
  then show ?case using backed_refused [OF D _ _ d] by blast
next
  case (close i k s uid)
  then show ?case using backed_close [OF D _ _ d] by blast
next
  case (expire r s key)
  then show ?case by (auto intro!: backed_step [OF expire.prems(2)] simp: online_at_def)
next
  case (restart i w s)
  then have "GetClient uid w = None" for uid
    using InitWs_fields(1) by (fastforce simp: starts_def GetClient_def)
  then show ?case using restart by (auto intro!: backed_step [OF restart.prems(2)] simp: online_at_def split: if_splits)
next
  case (world s i n t)
  then show ?case by (auto intro!: backed_step [OF world.prems(2)] simp: online_at_def GetClient_def split: if_splits)
qed

lemma orderly_reachable_inv:
  assumes "orderly_reachable D kv prefix s" and D: "deployment_ok D kv prefix" and d: "distinct_nodes D"
  shows "cluster_inv D kv prefix s \<and> backed D kv prefix s"
proof -
  obtain s0 where s0: "\<And>i. starts D i (clNodes s0 i)" "kv (clRedis s0) = Map.empty"
    and st: "(orderly_step D kv prefix)\<^sup>*\<^sup>* s0 s"
    using assms(1) unfolding orderly_reachable_def by blast
  have "GetClient uid (clNodes s0 i) = None" for uid i
    using s0(1) [of i] InitWs_fields(1) by (fastforce simp: starts_def GetClient_def)
  then have "backed D kv prefix s0" by (simp add: backed_def online_at_def)
  moreover have "cluster_inv D kv prefix s0"
    using s0(2) starts_inv [OF s0(1)] by (simp add: cluster_inv_def)
  ultimately have "cluster_inv D kv prefix s0 \<and> backed D kv prefix s0" by simp
  with st show ?thesis
    by (induction rule: rtranclp_induct) (use orderly_step_inv backed_orderly D d in blast)+
qed

lemma orderly_reachable_cluster: "orderly_reachable D kv prefix s \<Longrightarrow> cluster_reachable D kv s"
proof -
  have "(cluster_step D kv)\<^sup>*\<^sup>* s0 s" if "(orderly_step D kv prefix)\<^sup>*\<^sup>* s0 s" for s0
    using that by (induction rule: rtranclp_induct) (auto dest: orderly_is_cluster)
  then show "orderly_reachable D kv prefix s \<Longrightarrow> cluster_reachable D kv s"
    unfolding orderly_reachable_def cluster_reachable_def by blast
qed

section \<open>The single login\<close>

text \<open>
  C7: A user is online on one node of the cluster at most, and redis has the entry that names
  this node, in every state that is reached by any interleaving of the events of the nodes in
  which a refused login's call to stop the old client is carried out with the login, no node
  handles the end of a connection after another node wrote the user's entry, and the entries
  of online users do not expire. The nodes have different addresses.
\<close>

theorem single_login:
  assumes "orderly_reachable D kv prefix s" and "deployment_ok D kv prefix" and "distinct_nodes D"
    and "online_at uid i s"
  shows "cluster_reachable D kv s \<and> (\<forall>j. online_at uid j s \<longleftrightarrow> j = i) \<and>
     (\<exists>u. kv (clRedis s) (entry_key prefix uid) = Some (jprint (user_online_json u)) \<and> entry_of D i u)"
proof -
  have b: "backed D kv prefix s" using orderly_reachable_inv [OF assms(1-3)] by simp
  obtain u where u: "kv (clRedis s) (entry_key prefix uid) = Some (jprint (user_online_json u))" "entry_of D i u"
    using backedD [OF b assms(4)] .
  have "j = i" if "online_at uid j s" for j
    using backedD [OF b that] u assms(3) unfolding distinct_nodes_def
    by (metis option.inject user_online_print_inject)
  then show ?thesis using u assms(4) orderly_reachable_cluster [OF assms(1)] by blast
qed

text \<open>Nodes that differ in their ports; bob logs in on node 0.\<close>

definition ex_ports :: "(nat, ex_conn, (string, bytes) gomap, unit) deployment" where
  "ex_ports = ex_deployment\<lparr>dConfig := (\<lambda>i. ex_cfg\<lparr>cfgWsPort := nat_lit i\<rparr>)\<rparr>"

definition ex_ports_idle :: "(nat, ex_conn, (string, bytes) gomap, unit) cluster" where
  "ex_ports_idle = \<lparr>clNodes = (\<lambda>i. the (InitWs (dIfaces ex_ports i) True (dConfig ex_ports i) (ws0 (\<lambda>_. ex_sock) [] () 0))),
     clRedis = []\<rparr>"

lemma ex_ports_ok: "deployment_ok ex_ports mget ''im''"
  using ex_deployment_ok by (simp add: ex_ports_def deployment_ok_def)

lemma ex_ports_distinct: "distinct_nodes ex_ports"
  using digits_val_nat_lit by (auto simp: distinct_nodes_def entry_of_def ex_ports_def) (metis)

lemma ex_ports_starts: "starts ex_ports i (clNodes ex_ports_idle i)"
  unfolding starts_def ex_ports_idle_def ex_ports_def
  by (intro exI) (auto simp: InitWs_def Let_def ex_deployment_def)

lemma ex_ports_tables: "GetClient v (clNodes ex_ports_idle i) = None" "GetClientByConn k (clNodes ex_ports_idle i) = None"
  "mget (clRedis ex_ports_idle) key = None"
  using ex_ports_starts [of i] InitWs_fields(1,2)
  by (fastforce simp: starts_def GetClient_def GetClientByConn_def ex_ports_idle_def)+

lemma ex_ports_idle_reachable: "orderly_reachable ex_ports mget ''im'' ex_ports_idle"
  unfolding orderly_reachable_def
  by (rule exI [of _ ex_ports_idle]) (use ex_ports_starts in \<open>auto simp: ex_ports_idle_def intro!: ext\<close>)

theorem single_login_witness:
  "\<exists>s. orderly_reachable ex_ports mget ''im'' s \<and> (\<forall>j. online_at ''bob'' j s \<longleftrightarrow> j = 3)"
proof -
  let ?s = "login_at ex_ports 3 ''u1'' 0 ex_sock ''1'' ex_ports_idle"
  have x: "SessionLoad (dEnv ex_ports 3) ex_sock ''uid'' = Some (SessionStr ''bob'')"
    by (simp add: ex_ports_def ex_sock_def)
  have "orderly_step ex_ports mget ''im'' ex_ports_idle ?s"
    by (rule orderly_step.login [OF _ GetUid_new_conn [OF x]]) (simp_all add: ex_ports_tables)
  then have r: "orderly_reachable ex_ports mget ''im'' ?s"
    using ex_ports_idle_reachable unfolding orderly_reachable_def by (meson rtranclp.rtrancl_into_rtrancl)
  have inv: "cluster_inv ex_ports mget ''im'' ex_ports_idle"
    using orderly_reachable_inv [OF ex_ports_idle_reachable ex_ports_ok ex_ports_distinct] by simp
  have "online_at ''bob'' 3 ?s"
    by (rule login_accepted(1) [OF ex_ports_ok inv x _ ex_ports_tables refl]) simp
  with single_login [OF r ex_ports_ok ex_ports_distinct this] r show ?thesis by blast
qed

end
