(* ===== verification/LoginOverlap.thy ===== *)
theory LoginOverlap
  imports ClusterLogin
begin

text \<open>
  Logins of one user that overlap on one node. \<^verbatim>\<open>HandlerUp\<close> looks for a client of the user, writes
  the entry in redis, and registers the new client after that, each under its own lock: a
  second login that is accepted in between replaces the client of the first in the table of
  users. The node is then outside its invariant, which speaks of whole calls.
\<close>

declare map_of_eq_Some_iff [simp del] Some_eq_map_of_iff [simp del]

text \<open>What the second half of a login does, whatever the tables hold.\<close>

lemma login_rest_tables:
  assumes "w' = login_rest env k mc uid u w"
  shows "Clients w' = mput uid (nextClient w) (Clients w)"
    "ConnClientIdx w' = mput k (nextClient w) (ConnClientIdx w)" "nextClient w' = Suc (nextClient w)"
    "d \<noteq> nextClient w \<Longrightarrow> clients w' d = clients w d" "redis w' = redis w" "Config w' = Config w"
    "cState (clients w' (nextClient w)) = StateOnline" "cUserId (clients w' (nextClient w)) = uid"
    "cSocket (clients w' (nextClient w)) = k" "cTGroup (clients w' (nextClient w)) = []"
    "\<not> cCloseOnce (clients w' (nextClient w))" "\<not> cclosed (cSendChan (clients w' (nextClient w)))"
  by (simp_all add: assms login_rest_def NewClient_def InitStart_def OnConnect_def AddClient_def
      AddClientConn_def make_chan_def Let_def)

lemma uniqueLogin_tables:
  assumes "redis_ok env kv" and "GetClient uid w = None" and "kv (redis w) (getUserOnlineKey uid w) = None"
    and "uniqueLogin env ulid uid k w = (w', r)"
  shows "ws_le w w'" "conns w' = conns w" "Config w' = Config w"
    "\<exists>u. r = Inr u \<and> RandUuid u = ulid \<and>
       kv (redis w') (getUserOnlineKey uid w) = Some (jprint (user_online_json u))"
proof -
  let ?u = "NewUserOnline uid ulid (RemoteAddr env (conns w k)) w"
  have l: "w' = fst (GetSetUserOnlineInfo env uid ?u w)" "r = Inr ?u"
    using uniqueLogin_first [OF assms(1-3), of ulid k] assms(4) by (simp_all add: Let_def)
  show "ws_le w w'" "conns w' = conns w" "Config w' = Config w" by (simp_all add: l)
  show "\<exists>u. r = Inr u \<and> RandUuid u = ulid \<and>
       kv (redis w') (getUserOnlineKey uid w) = Some (jprint (user_online_json u))"
    using GetSetUserOnlineInfo_store [OF assms(1), of uid ?u w]
    by (simp add: l) (simp add: NewUserOnline_def)
qed

text \<open>The end of a client that is in no group, with the tables in any state.\<close>

lemma OnClose_no_groups:
  assumes "range_ok env" and "GetClient (GetUid env k w) w = Some c" and "cUserId (clients w c) = GetUid env k w"
    and "cTGroup (clients w c) = []" "\<not> cCloseOnce (clients w c)" "\<not> cclosed (cSendChan (clients w c))"
    and "w' = fst (Handler_OnClose env None k w)"
  shows "Clients w' = mdel (GetUid env k w) (Clients w)" "conns w' = conns w"
    "ConnClientIdx w' = mdel (cSocket (clients w c)) (ConnClientIdx w)"
    "cState (clients w' c) = StateOffline" "cclosed (cSendChan (clients w' c))"
proof -
  have "RangeOrder env [] = []" using range_ok_set [OF assms(1), of "[]"] by simp
  then have o: "OutAllTGroup env c v = v" if "cTGroup (clients v c) = []" for v
    using that by (simp add: OutAllTGroup_def)
  show "Clients w' = mdel (GetUid env k w) (Clients w)" "conns w' = conns w"
    "ConnClientIdx w' = mdel (cSocket (clients w c)) (ConnClientIdx w)"
    "cState (clients w' c) = StateOffline" "cclosed (cSendChan (clients w' c))"
    using assms(2-6)
    by (simp_all add: assms(7) Handler_OnClose_def Client_OnClose_def o close_chan_def GetKey_def
        DelClient_def DelClientConn_def Let_def)
qed

text \<open>
  C17: Three logins of one user on one node that overlap: a has written its entry when b comes; b
  is refused, removes the entry and finds no client to stop; c writes its entry; then a and c
  register their clients. Both are accepted and online, but the table of users has only the
  client of c. When the socket of a ends, the client of c is ended in its place: it is offline
  and in no table, its queue is closed, while its socket stays open; and the client of a stays
  in the table of sockets.
\<close>

theorem overlapping_logins_end_the_wrong_client:
  assumes r: "redis_ok env kv" and rg: "range_ok env" and uid: "uid \<noteq> ''''" and ids: "ulid \<noteq> ulid'"
    and new: "GetClient uid w = None" and entry: "kv (redis w) (getUserOnlineKey uid w) = None"
    and socks: "ka \<noteq> kc"
    and a: "uniqueLogin env ulid uid ka w = (w1, ra)"
    and b: "GetUid env kb w1 = uid" "w2 = HandlerUp env ulid' (Inr kb) mc w1"
    and c: "uniqueLogin env ulid'' uid kc w2 = (w3, rc)"
    and rest: "w4 = login_rest env ka mc uid (projr ra) w3" "w5 = login_rest env kc mc uid (projr rc) w4"
    and close: "GetUid env ka w5 = uid" "w6 = fst (Handler_OnClose env None ka w5)"
  shows "\<not> isl ra \<and> \<not> isl rc \<and>
     (\<exists>d e. d \<noteq> e \<and> GetClientByConn ka w5 = Some d \<and> GetClientByConn kc w5 = Some e \<and> GetClient uid w5 = Some e \<and>
        cState (clients w5 d) = StateOnline \<and> cState (clients w5 e) = StateOnline \<and> \<not> ws_inv w5 \<and>
        cState (clients w6 e) = StateOffline \<and> cclosed (cSendChan (clients w6 e)) \<and>
        GetClientByConn ka w6 = Some d) \<and>
     GetClient uid w6 = None \<and> GetClientByConn kc w6 = None \<and> conns w6 kc = conns w5 kc"
proof -
  note 1 = uniqueLogin_tables [OF r new entry a]
  obtain u where u: "ra = Inr u" "RandUuid u \<noteq> ulid'"
      "kv (redis w1) (getUserOnlineKey uid w1) = Some (jprint (user_online_json u))"
    using 1(3,4) ids by (auto simp: getUserOnlineKey_def)
  have n1: "GetClient uid w1 = None" using new 1(1) by (simp add: ws_le_def GetClient_def)
  note 2 = HandlerUp_elsewhere [OF r b(1) uid n1 u(3,2), of mc, folded b(2)]
  have "Config w2 = Config w1" using entries_le_HandlerUp [OF r, of w1 ulid' "Inr kb" mc] by (simp add: b(2) entries_le_def)
  then have "kv (redis w2) (getUserOnlineKey uid w2) = None" "GetClient uid w2 = None"
    using 2 n1 by (simp_all add: getUserOnlineKey_def ws_le_def GetClient_def)
  note 3 = uniqueLogin_tables [OF r this(2,1) c]
  note 4 = login_rest_tables [OF rest(1)] and 5 = login_rest_tables [OF rest(2)]
  let ?d = "nextClient w3" and ?e = "nextClient w4"
  have de: "?d \<noteq> ?e" using 4(3) by simp
  have at5: "GetClientByConn ka w5 = Some ?d" "GetClientByConn kc w5 = Some ?e" "GetClient uid w5 = Some ?e"
    using 4(2) 5(1,2) socks by (simp_all add: GetClientByConn_def GetClient_def)
  have on5: "cState (clients w5 ?d) = StateOnline" "cUserId (clients w5 ?d) = uid" using 4(7,8) 5(4) [OF de] by simp_all
  have "\<not> ws_inv w5"
    using at5 on5(2) de clients_invD(9) [OF ws_invD(1), of w5 ka ?d] by (auto simp: GetClientByConn_def GetClient_def)
  moreover have "GetClient (GetUid env ka w5) w5 = Some ?e" "cUserId (clients w5 ?e) = GetUid env ka w5"
    using at5(3) 5(8) close(1) by simp_all
  note 6 = OnClose_no_groups [OF rg this 5(10-12) close(2)]
  have "GetClientByConn ka w6 = Some ?d" "GetClient uid w6 = None" "GetClientByConn kc w6 = None" "conns w6 kc = conns w5 kc"
    using 6(1-3) at5(1) 5(9) close(1) socks by (simp_all add: GetClientByConn_def GetClient_def)
  ultimately show ?thesis using u(1) 3(4) de at5 on5(1) 5(7) 6(4,5) by auto
qed

text \<open>In the instance a socket keeps its user.\<close>

lemma ex_GetUid: "GetUid ex_env k w = xUid (conns w k)"
  by (simp add: GetUid_def)

lemma ex_uid_kept:
  "xUid (conns (Client_Close ex_env c w) k) = xUid (conns w k)"
  "xUid (conns (Proxy_StopUserClient ex_env u w) k) = xUid (conns w k)"
  "xUid (conns (login_rest ex_env l mc uid u w) k) = xUid (conns w k)"
  by (auto simp: Client_Close_def Proxy_StopUserClient_def LP_StopUserClient_def LP_StopLocalUserClient_def
      RP_StopUserClient_def StopClient_def login_rest_def NewClient_def InitStart_def OnConnect_def
      AddClient_def AddClientConn_def SetConnDeadLine_def Let_def split: option.split)

lemma ex_uid_login: "xUid (conns (fst (uniqueLogin ex_env ulid uid l w)) k) = xUid (conns w k)"
  by (auto simp: uniqueLogin_def ex_uid_kept Let_def case_prod_unfold split: option.split)

lemma ex_uid_up: "xUid (conns (HandlerUp ex_env ulid (Inr l) mc w) k) = xUid (conns w k)"
proof -
  obtain w1 r where l: "uniqueLogin ex_env ulid (GetUid ex_env l w) l w = (w1, r)" by fastforce
  have "xUid (conns w1 k) = xUid (conns w k)" using ex_uid_login [of ulid "GetUid ex_env l w" l w k] l by simp
  then show ?thesis
    using HandlerUp_halves [of ex_env l w ulid w1 _ mc] l
    by (cases r; cases "GetUid ex_env l w = ''''") (auto simp: HandlerUp_def conn_close_def ex_uid_kept)
qed

theorem overlapping_logins_end_the_wrong_client_witness:
  "\<exists>w d e. GetClientByConn 1 w = Some d \<and> GetClientByConn 3 w = Some e \<and> d \<noteq> e \<and>
     GetClientByConn 3 (fst (Handler_OnClose ex_env None 1 w)) = None"
proof -
  define w where "w = set_conn 1 ex_sock (set_conn 2 ex_sock (set_conn 3 ex_sock (node_at ex_idle 0)))"
  obtain w1 ra where a: "uniqueLogin ex_env ''u1'' ''bob'' 1 w = (w1, ra)" by fastforce
  define w2 where "w2 = HandlerUp ex_env ''u2'' (Inr 2) ''1'' w1"
  obtain w3 rc where c: "uniqueLogin ex_env ''u3'' ''bob'' 3 w2 = (w3, rc)" by fastforce
  define w4 where "w4 = login_rest ex_env 1 ''1'' ''bob'' (projr ra) w3"
  define w5 where "w5 = login_rest ex_env 3 ''1'' ''bob'' (projr rc) w4"
  have n: "GetClient ''bob'' w = None" "mget (redis w) (getUserOnlineKey ''bob'' w) = None"
    using ex_idle_tables by (simp_all add: w_def GetClient_def)
  have b: "GetUid ex_env 2 w1 = ''bob''"
    using ex_uid_login [of "''u1''" "''bob''" 1 w 2] a by (simp add: ex_GetUid w_def ex_sock_def)
  have "xUid (conns w5 1) = xUid (conns w 1)"
    using ex_uid_login [of "''u1''" "''bob''" 1 w 1] ex_uid_login [of "''u3''" "''bob''" 3 w2 1] a c
    by (simp add: w5_def w4_def w2_def ex_uid_kept ex_uid_up)
  then have "GetUid ex_env 1 w5 = ''bob''" by (simp add: ex_GetUid w_def ex_sock_def)
  from overlapping_logins_end_the_wrong_client [OF ex_redis_ok ex_range_ok _ _ n _ a b w2_def c w4_def w5_def this refl]
  show ?thesis by fastforce
qed

end
