(* ===== verification/GimProcess.thy ===== *)
theory GimProcess
  imports GimServer
begin

text \<open>
  The process around a node: the logger (\<^verbatim>\<open>pkg/logger\<close>, \<^verbatim>\<open>pkg/im_err/err_log.go\<close>), the redis
  and etcd clients (\<^verbatim>\<open>pkg/redis_client\<close>, \<^verbatim>\<open>pkg/etcd_client\<close>), the log file of the rpc library,
  and the start and the end of everything (\<^verbatim>\<open>server.go\<close>). The package variables are the fields
  of one record; the calls that only libraries see are kept in the order they are made. What
  the libraries answer are arguments. An operation returns the panic it ends with, if any,
  beside the state it leaves.
\<close>

section \<open>The state\<close>

record log_config =
  lcLevel :: string
  lcFileName :: string
  lcFilePath :: string
  lcMaxSize :: int
  lcMaxAge :: int
  lcMaxBackups :: int
  lcCompress :: bool

text \<open>What the code sets of the libraries' structs; \<open>'e\<close> is the rest of zap's configuration.\<close>

record encoder_config =
  ecTimeLayout :: string
  ecTimeKey :: string
  ecCapitalLevel :: bool
  ecShortCaller :: bool

record log_writer =
  lwFilename :: string
  lwMaxSize :: int
  lwMaxAge :: int
  lwMaxBackups :: int
  lwCompress :: bool

record ('e, 'l) zap_logger =
  zlEncoder :: "'e encoder_config_scheme"
  zlWriter :: log_writer
  zlLevel :: 'l
  zlCaller :: bool

text \<open>A file is a handle of the operating system; a nil file is \<open>None\<close>.\<close>

datatype klog_output = KlogDefault | KlogFile "nat option"

datatype lib_call =
    CancelContext | StopPool | RevokeLease | CloseEtcd | StopRpcServer | CloseRedis | SyncLog
  | ZapError string string | CloseFile nat | SleepSeconds nat | ShutdownHttp | CancelShutdown

record ('e, 'l, 'q) proc =
  pL :: "('e, 'l) zap_logger option"
  pZapGlobal :: "('e, 'l) zap_logger option"
  pIsInitLogger :: bool
  pRunMode :: run_mode
  pRpcFile :: "nat option"
  pKlog :: klog_output
  pSerCancel :: bool
  pRedisClient :: bool
  pEtcdClient :: bool
  pEtcdRegistry :: "service_register option"
  pSvr :: bool
  pMq :: "'q option"
  pCalls :: "lib_call list"

datatype proc_panic =
    LoggerInit go_error | RedisPing go_error | EtcdNew go_error | EtcdStatus string go_error
  | Start init_panic | RpcRun go_error | NilDereference | CloseOfClosed

abbreviation call_lib :: "lib_call \<Rightarrow> ('e, 'l, 'q) proc \<Rightarrow> ('e, 'l, 'q) proc" where
  "call_lib x p \<equiv> p\<lparr>pCalls := pCalls p @ [x]\<rparr>"

section \<open>The logger\<close>

text \<open>The argument is zap's configuration for production, which the code changes.\<close>

definition getEncoder :: "'e encoder_config_scheme \<Rightarrow> 'e encoder_config_scheme" where
  "getEncoder encodeConfig =
     encodeConfig\<lparr>ecTimeLayout := ''2006-01-02 15:04:05'' @ ''.000000'', ecTimeKey := ''time'',
       ecCapitalLevel := True, ecShortCaller := True\<rparr>"

definition getLogWriter :: "log_config \<Rightarrow> log_writer" where
  "getLogWriter config =
     \<lparr>lwFilename = lcFilePath config @ lcFileName config, lwMaxSize = lcMaxSize config,
      lwMaxAge = lcMaxAge config, lwMaxBackups = lcMaxBackups config, lwCompress = lcCompress config\<rparr>"

definition logger_InitLogger ::
    "(string \<Rightarrow> 'l result) \<Rightarrow> 'e encoder_config_scheme \<Rightarrow> log_config \<Rightarrow> ('e, 'l, 'q) proc \<Rightarrow>
     ('e, 'l, 'q) proc \<times> go_error option" where
  "logger_InitLogger parseLevel production config p =
     (let writeSyncer = getLogWriter config; encoder = getEncoder production in
      case parseLevel (lcLevel config) of
        Inl err \<Rightarrow> (p, Some err)
      | Inr l \<Rightarrow>
          (let lg = \<lparr>zlEncoder = encoder, zlWriter = writeSyncer, zlLevel = l, zlCaller = True\<rparr>
           in (p\<lparr>pL := Some lg, pZapGlobal := Some lg\<rparr>, None)))"

definition logger_OnClose :: "('e, 'l, 'q) proc \<Rightarrow> ('e, 'l, 'q) proc \<times> proc_panic option" where
  "logger_OnClose p =
     (case pL p of None \<Rightarrow> (p, Some NilDereference) | Some l \<Rightarrow> (call_lib SyncLog p, None))"

text \<open>The adapter the websocket library logs through; \<open>v\<close> is the text of what is logged.\<close>

definition errLog_Error :: "string \<Rightarrow> ('e, 'l, 'q) proc \<Rightarrow> ('e, 'l, 'q) proc \<times> proc_panic option" where
  "errLog_Error v p =
     (case pL p of None \<Rightarrow> (p, Some NilDereference) | Some l \<Rightarrow> (call_lib (ZapError ''gim_sys_error'' v) p, None))"

section \<open>The log file of the rpc library\<close>

text \<open>
  The operating system: whether a path is missing, the outcome of making a directory, which is
  not looked at, and of opening a file.
\<close>

record 'f os_env =
  osNotExist :: "string \<Rightarrow> 'f \<Rightarrow> bool"
  osMkdirAll :: "string \<Rightarrow> 'f \<Rightarrow> 'f"
  osOpenFile :: "string \<Rightarrow> 'f \<Rightarrow> 'f \<times> nat result"

text \<open>
  The file is assigned with \<^verbatim>\<open>:=\<close>, to a new variable of the function: the package variable
  \<open>pRpcFile\<close> keeps its value.
\<close>

definition InitKLog ::
    "'f os_env \<Rightarrow> log_config \<Rightarrow> 'f \<times> ('e, 'l, 'q) proc \<Rightarrow> 'f \<times> ('e, 'l, 'q) proc" where
  "InitKLog os config s =
     (let (fs, p) = s;
          fs1 = (if osNotExist os (lcFilePath config) fs then osMkdirAll os (lcFilePath config) fs else fs);
          (fs2, opened) = osOpenFile os (lcFilePath config @ ''rpc.log'') fs1;
          rpcFile = (case opened of Inl err \<Rightarrow> None | Inr f \<Rightarrow> Some f)
      in (fs2, p\<lparr>pKlog := KlogFile rpcFile\<rparr>))"

definition gim_InitLogger ::
    "'f os_env \<Rightarrow> (string \<Rightarrow> 'l result) \<Rightarrow> 'e encoder_config_scheme \<Rightarrow> log_config \<Rightarrow>
     'f \<times> ('e, 'l, 'q) proc \<Rightarrow> ('f \<times> ('e, 'l, 'q) proc) \<times> proc_panic option" where
  "gim_InitLogger os parseLevel production config s =
     (case logger_InitLogger parseLevel production config (snd s) of
        (p1, Some err) \<Rightarrow> ((fst s, p1), Some (LoggerInit err))
      | (p1, None) \<Rightarrow> (InitKLog os config (fst s, p1\<lparr>pIsInitLogger := True\<rparr>), None))"

section \<open>The redis client\<close>

definition redis_CreateClient ::
    "string result \<Rightarrow> ('e, 'l, 'q) proc \<Rightarrow> ('e, 'l, 'q) proc \<times> proc_panic option" where
  "redis_CreateClient pong p =
     (p\<lparr>pRedisClient := True\<rparr>, case pong of Inl err \<Rightarrow> Some (RedisPing err) | Inr _ \<Rightarrow> None)"

definition redis_GetClient :: "('e, 'l, 'q) proc \<Rightarrow> bool" where
  "redis_GetClient p = pRedisClient p"

definition redis_Close :: "('e, 'l, 'q) proc \<Rightarrow> ('e, 'l, 'q) proc" where
  "redis_Close p = (if \<not> pRedisClient p then p else call_lib CloseRedis p)"

section \<open>The etcd client\<close>

text \<open>The endpoints are asked in order; the first that does not answer is the panic.\<close>

fun check_endpoints :: "(string \<Rightarrow> go_error option) \<Rightarrow> string list \<Rightarrow> proc_panic option" where
  "check_endpoints status [] = None"
| "check_endpoints status (ep # eps) =
     (case status ep of Some err \<Rightarrow> Some (EtcdStatus ep err) | None \<Rightarrow> check_endpoints status eps)"

definition etcd_CreateClient ::
    "go_error option \<Rightarrow> (string \<Rightarrow> go_error option) \<Rightarrow> string list \<Rightarrow> ('e, 'l, 'q) proc \<Rightarrow>
     ('e, 'l, 'q) proc \<times> proc_panic option" where
  "etcd_CreateClient newErr status endpoints p =
     (case newErr of
        Some err \<Rightarrow> (p\<lparr>pEtcdClient := False\<rparr>, Some (EtcdNew err))
      | None \<Rightarrow> (p\<lparr>pEtcdClient := True\<rparr>, check_endpoints status endpoints))"

definition etcd_GetClient :: "('e, 'l, 'q) proc \<Rightarrow> bool" where
  "etcd_GetClient p = pEtcdClient p"

definition etcd_Close :: "('e, 'l, 'q) proc \<Rightarrow> ('e, 'l, 'q) proc" where
  "etcd_Close p = (if \<not> pEtcdClient p then p else call_lib CloseEtcd p)"

section \<open>The subscription's worker pool\<close>

record worker_conf =
  wcMinWorker :: int
  wcMaxWorker :: int
  wcAddWorker :: int
  wcWaitNum :: int
  wcFreeTimes :: int
  wcName :: string
  wcChanSize :: nat

text \<open>
  The pool is made by the library, \<open>newWorkerM\<close>; its handler is \<open>handleSubMsg\<close>, the keys of the
  subscription are \<open>subMsg_keys\<close>, and the reader that is started is \<open>readSubMsg\<close>.
\<close>

definition NewProxyMsgQueue :: "(worker_conf \<Rightarrow> 'q) \<Rightarrow> 'q" where
  "NewProxyMsgQueue newWorkerM =
     newWorkerM \<lparr>wcMinWorker = 2, wcMaxWorker = 100, wcAddWorker = 10, wcWaitNum = 2, wcFreeTimes = 10,
       wcName = ''imMsgQueue'', wcChanSize = msgChanMaxLen\<rparr>"

section \<open>The start\<close>

definition proc0 :: "('e, 'l, 'q) proc" where
  "proc0 = \<lparr>pL = None, pZapGlobal = None, pIsInitLogger = False, pRunMode = RunModeLocal, pRpcFile = None,
     pKlog = KlogDefault, pSerCancel = False, pRedisClient = False, pEtcdClient = False,
     pEtcdRegistry = None, pSvr = False, pMq = None, pCalls = []\<rparr>"

text \<open>The node and the variables of the process that the start sets.\<close>

definition gim_InitServer ::
    "('k, 'r, 'n) ws_env \<Rightarrow> (worker_conf \<Rightarrow> 'q) \<Rightarrow> iface list result \<Rightarrow> bool \<Rightarrow> ws_config \<Rightarrow> bool \<Rightarrow>
     lease_answers \<Rightarrow> etcd_reads \<Rightarrow> ('k, 'r, 'n) ws \<times> ('e, 'l, 'q) proc \<Rightarrow>
     proc_panic + ('k, 'r, 'n) ws \<times> ('e, 'l, 'q) proc" where
  "gim_InitServer env newWorkerM ifaces optionSet config etcdSet a E s =
     (let (w, p) = s in
      case InitServer env (pIsInitLogger p) ifaces optionSet config etcdSet a E w of
        Inl e \<Rightarrow> Inl (Start e)
      | Inr (w1, reg) \<Rightarrow>
          (let p1 = p\<lparr>pSerCancel := True, pMq := Some (NewProxyMsgQueue newWorkerM),
                       pRunMode := cfgRunMode config\<rparr>
           in Inr (w1, case reg of
                None \<Rightarrow> p1
              | Some r \<Rightarrow> p1\<lparr>pSvr := True, pEtcdRegistry := Some r\<rparr>)))"

text \<open>The goroutine that serves the rpc port: an error ends the process.\<close>

definition startServer :: "go_error option \<Rightarrow> proc_panic option" where
  "startServer run = (case run of Some err \<Rightarrow> Some (RpcRun err) | None \<Rightarrow> None)"

section \<open>The end\<close>

text \<open>The arguments are the answers of revoking the lease and of closing the etcd client.\<close>

definition rpc_OnShutdown ::
    "go_error option \<Rightarrow> go_error option \<Rightarrow> ('e, 'l, 'q) proc \<Rightarrow> ('e, 'l, 'q) proc \<times> proc_panic option" where
  "rpc_OnShutdown revoke cliClose p =
     (case pEtcdRegistry p of
        None \<Rightarrow> (p, Some NilDereference)
      | Some reg \<Rightarrow>
          (let p1 = p\<lparr>pEtcdRegistry := Some (fst (ServiceRegister_Close revoke cliClose reg))\<rparr>;
               p2 = call_lib RevokeLease p1;
               p3 = (if revoke = None then call_lib CloseEtcd p2 else p2)
           in if \<not> pSvr p3 then (p3, Some NilDereference) else (call_lib StopRpcServer p3, None)))"

text \<open>Closing a nil file is an error that is not looked at.\<close>

definition File_Close :: "nat option \<Rightarrow> ('e, 'l, 'q) proc \<Rightarrow> ('e, 'l, 'q) proc" where
  "File_Close f p = (case f of None \<Rightarrow> p | Some h \<Rightarrow> call_lib (CloseFile h) p)"

definition CloseServer ::
    "'q worker_env \<Rightarrow> go_error option \<Rightarrow> go_error option \<Rightarrow> ('e, 'l, 'q) proc \<Rightarrow>
     ('e, 'l, 'q) proc \<times> proc_panic option" where
  "CloseServer wm revoke cliClose p =
     (if \<not> pSerCancel p then (p, Some NilDereference)
      else
        let p1 = call_lib CancelContext p in
        case ws_CloseServer wm (pMq p1) of
          None \<Rightarrow> (p1, Some CloseOfClosed)
        | Some mq \<Rightarrow>
            (let p2 = (if pMq p1 = None then p1 else call_lib StopPool p1)\<lparr>pMq := mq\<rparr> in
             case (if pRunMode p2 = RunModeRedis then rpc_OnShutdown revoke cliClose p2 else (p2, None)) of
               (p3, Some e) \<Rightarrow> (p3, Some e)
             | (p3, None) \<Rightarrow>
                 (case logger_OnClose (etcd_Close p3) of
                    (p4, Some e) \<Rightarrow> (p4, Some e)
                  | (p4, None) \<Rightarrow> (call_lib (SleepSeconds 2) (File_Close (pRpcFile p4) p4), None))))"

section \<open>Facts\<close>

text \<open>A start that sets the logger up leaves the package variable of the rpc log file alone.\<close>

lemma gim_InitLogger_ok:
  assumes "gim_InitLogger os parseLevel production config (fs, p) = ((fs1, p1), None)"
  shows "\<exists>l f. p1 = p\<lparr>pL := Some l, pZapGlobal := Some l, pIsInitLogger := True, pKlog := KlogFile f\<rparr> \<and>
     zlWriter l = getLogWriter config \<and> parseLevel (lcLevel config) = Inr (zlLevel l)"
  using assms
  by (auto simp: gim_InitLogger_def logger_InitLogger_def InitKLog_def Let_def split: sum.splits prod.splits)

lemma gim_InitServer_ok:
  assumes "gim_InitServer env newWorkerM ifaces opt c etcdSet a E (w, p) = Inr (w1, p1)"
  shows "\<exists>reg. InitServer env (pIsInitLogger p) ifaces opt c etcdSet a E w = Inr (w1, reg) \<and>
     p1 = p\<lparr>pSerCancel := True, pMq := Some (NewProxyMsgQueue newWorkerM), pRunMode := cfgRunMode c,
       pSvr := (reg \<noteq> None \<or> pSvr p),
       pEtcdRegistry := (case reg of None \<Rightarrow> pEtcdRegistry p | Some r \<Rightarrow> Some r)\<rparr> \<and>
     (cfgRunMode c = RunModeRedis \<longrightarrow> reg \<noteq> None)"
  using assms
  by (auto simp: gim_InitServer_def InitServer_def Let_def split: sum.splits option.splits if_splits)

lemma stopProxyWM_open:
  "\<not> cclosed (wmChan wm q) \<Longrightarrow>
     stopProxyWM wm (Some q) = Some (Some (wmStop wm (wmSetChan wm ((wmChan wm q)\<lparr>cclosed := True\<rparr>) q)))"
  by (simp add: stopProxyWM_def StopWorkerM_def close_chan_def)

text \<open>The end of a process that was started completely, and a second end after it.\<close>

lemma CloseServer_started:
  assumes "pSerCancel p" and "pL p \<noteq> None" and "pMq p = Some q" and "\<not> cclosed (wmChan wm q)"
    and "pRunMode p = RunModeRedis \<Longrightarrow> pSvr p \<and> pEtcdRegistry p \<noteq> None" and "pRpcFile p = None"
    and "CloseServer wm revoke cliClose p = (p', e)"
  shows "e = None \<and> pKlog p' = pKlog p \<and> pSerCancel p' \<and>
     pMq p' = Some (wmStop wm (wmSetChan wm ((wmChan wm q)\<lparr>cclosed := True\<rparr>) q)) \<and>
     pCalls p' = pCalls p @ [CancelContext, StopPool] @
       (if pRunMode p = RunModeRedis
        then RevokeLease # (if revoke = None then [CloseEtcd] else []) @ [StopRpcServer] else []) @
       (if pEtcdClient p then [CloseEtcd] else []) @ [SyncLog, SleepSeconds 2] \<and>
     (pRunMode p = RunModeRedis \<longrightarrow> (\<exists>r. pEtcdRegistry p' = Some r \<and> srStatus r = 3))"
  using assms(1-3,5-7) stopProxyWM_open [OF assms(4)]
  by (cases "pRunMode p"; cases revoke)
    (auto simp: CloseServer_def ws_CloseServer_def rpc_OnShutdown_def logger_OnClose_def etcd_Close_def
      File_Close_def ServiceRegister_Close_def Let_def)

lemma CloseServer_again:
  assumes "pSerCancel p" and "pMq p = Some q" and "cclosed (wmChan wm q)"
  shows "snd (CloseServer wm revoke cliClose p) = Some CloseOfClosed"
  using assms by (simp add: CloseServer_def ws_CloseServer_def stopProxyWM_def StopWorkerM_def close_chan_def Let_def)

end
