(* ===== verification/ExampleApp.thy ===== *)
theory ExampleApp
  imports LoginProps WsEntries GimProcess
begin

text \<open>
  The example server (\<^verbatim>\<open>examples/local/server/main.go\<close>): its configuration, the check of a
  connection's user, the groups a connection joins when it is opened, and the handler of
  requests. The handler and the close callback of a node are parameters of the model of the
  library; here is an application that meets what is assumed of them.
\<close>

declare map_of_eq_Some_iff [simp del] Some_eq_map_of_iff [simp del]

section \<open>The application\<close>

definition logConfig :: log_config where
  "logConfig = \<lparr>lcLevel = ''debug'', lcFileName = ''gim.log'', lcFilePath = ''./examples/local/server/logs/'',
     lcMaxSize = 100, lcMaxAge = 10, lcMaxBackups = 10, lcCompress = False\<rparr>"

text \<open>The options of the libraries that the example sets; a duration is in nanoseconds.\<close>

record redis_options =
  roAddr :: string
  roPassword :: string
  roDB :: int
  roPoolSize :: int
  roMinIdleConns :: int

definition redisConf :: redis_options where
  "redisConf = \<lparr>roAddr = ''192.168.1.191:1079'', roPassword = ''123456'', roDB = 0, roPoolSize = 256, roMinIdleConns = 32\<rparr>"

record etcd_options =
  eoEndpoints :: "string list"
  eoDialTimeout :: int

definition etcdConf :: etcd_options where
  "etcdConf = \<lparr>eoEndpoints = [''192.168.1.191:2379''], eoDialTimeout = 5 * 1000000000\<rparr>"

definition wsConf :: ws_config where
  "wsConf = \<lparr>cfgRunMode = RunModeRedis, cfgRedisPrefix = ''test'', cfgRpcPort = ''8091'', cfgWsPort = ''8080'',
     cfgKeepTime = keep_of 3000, cfgClientMsgChanMax = 1000, cfgGroupMsgChanMax = 0, cfgVersion = ''''\<rparr>"

text \<open>The argument is the query parameter of the request; the session is a map.\<close>

definition Authorize :: "string \<Rightarrow> (string \<rightharpoonup> session_value) \<Rightarrow> (string \<rightharpoonup> session_value) \<times> bool" where
  "Authorize uidStr session =
     (if uidStr = '''' then (session, False) else (session(''uid'' \<mapsto> SessionStr uidStr), True))"

text \<open>The options of the websocket library; \<open>goRecovery\<close> says that the library's own recovery is set.\<close>

record gws_option =
  goCheckUtf8Enabled :: bool
  goRecovery :: bool
  goDeflateEnabled :: bool
  goServerContextTakeover :: bool
  goClientContextTakeover :: bool
  goWriteBufferSize :: int
  goAuthorize :: "string \<Rightarrow> (string \<rightharpoonup> session_value) \<Rightarrow> (string \<rightharpoonup> session_value) \<times> bool"

definition gwsOption :: gws_option where
  "gwsOption = \<lparr>goCheckUtf8Enabled = True, goRecovery = True, goDeflateEnabled = False, goServerContextTakeover = True,
     goClientContextTakeover = True, goWriteBufferSize = 4096 * 100, goAuthorize = Authorize\<rparr>"

text \<open>\<open>None\<close> when a join does not return.\<close>

definition OnOpen :: "kptr \<Rightarrow> ('k, 'r, 'n) ws \<Rightarrow> ('k, 'r, 'n) ws option" where
  "OnOpen socket w =
     (case GetClientByConn socket w of
        None \<Rightarrow> Some w
      | Some client \<Rightarrow>
          (case InTGroup client ''ccc'' w of
             None \<Rightarrow> None
           | Some w1 \<Rightarrow> InTGroup client ''ccc1'' w1))"

definition handleRequestMsg ::
    "('k, 'r, 'n) ws_env \<Rightarrow> cptr \<Rightarrow> request \<Rightarrow> ('k, 'r, 'n) ws \<Rightarrow> ('k, 'r, 'n) ws handle_result option" where
  "handleRequestMsg env client request w =
     (let aData = HandleAData (JStr ''tttt'') ''mol'' ''ctrl'';
          w1 = fst (Proxy_SendResDataToUserByTgid env ''123'' ''ccc'' (NewResponseData (Some aData) []) w);
          w2 = fst (Proxy_SendResDataToUser env ''123'' (NewResponseData (Some aData) []) w1)
      in case Proxy_SendResDataToGroup env ''ccc'' (NewResponseData (Some aData) []) '''' w2 of
           None \<Rightarrow> None
         | Some (w3, _) \<Rightarrow> Some (HandleRet w3 (Some aData) None))"

text \<open>
  The example's server: the log, the two clients, the node. \<open>None\<close> in the result is a panic of
  one of them.
\<close>

definition main_start ::
    "'f os_env \<Rightarrow> (string \<Rightarrow> 'l result) \<Rightarrow> 'e encoder_config_scheme \<Rightarrow> (redis_options \<Rightarrow> string result) \<Rightarrow>
     (etcd_options \<Rightarrow> go_error option) \<Rightarrow> (etcd_options \<Rightarrow> string \<Rightarrow> go_error option) \<Rightarrow> ('k, 'r, 'n) ws_env \<Rightarrow> (worker_conf \<Rightarrow> 'q) \<Rightarrow> iface list result \<Rightarrow>
     lease_answers \<Rightarrow> etcd_reads \<Rightarrow> 'f \<Rightarrow> ('k, 'r, 'n) ws \<Rightarrow>
     proc_panic + 'f \<times> ('k, 'r, 'n) ws \<times> ('e, 'l, 'q) proc" where
  "main_start os parseLevel production pong newErr status env newWorkerM ifaces a E fs w =
     (case gim_InitLogger os parseLevel production logConfig (fs, proc0) of
        (_, Some e) \<Rightarrow> Inl e
      | ((fs1, p1), None) \<Rightarrow>
          (case redis_CreateClient (pong redisConf) p1 of
             (_, Some e) \<Rightarrow> Inl e
           | (p2, None) \<Rightarrow>
               (case etcd_CreateClient (newErr etcdConf) (status etcdConf) (eoEndpoints etcdConf) p2 of
                  (_, Some e) \<Rightarrow> Inl e
                | (p3, None) \<Rightarrow>
                    (case gim_InitServer env newWorkerM ifaces True wsConf (etcd_GetClient p3) a E (w, p3) of
                       Inl e \<Rightarrow> Inl e
                     | Inr (w4, p4) \<Rightarrow> Inr (fs1, w4, p4)))))"

section \<open>The handler\<close>

text \<open>The handler as the node takes it; in a cluster it always returns, so the second case does not arise.\<close>

definition app_handler :: "('k, 'r, 'n) ws_env \<Rightarrow> ('k, 'r, 'n) ws request_handler" where
  "app_handler env =
     Some (\<lambda>c q w. case handleRequestMsg env c q w of Some r \<Rightarrow> r | None \<Rightarrow> HandlePanic w)"

lemma handleRequestMsg_steps:
  assumes "handleRequestMsg env c q w = Some r"
  shows "\<exists>w'. r = HandleRet w' (Some (HandleAData (JStr ''tttt'') ''mol'' ''ctrl'')) None \<and> (api_step env)\<^sup>*\<^sup>* w w'"
proof -
  let ?a = "NewResponseData (Some (HandleAData (JStr ''tttt'') ''mol'' ''ctrl'')) []"
  let ?w1 = "fst (Proxy_SendResDataToUserByTgid env ''123'' ''ccc'' ?a w)"
  let ?w2 = "fst (Proxy_SendResDataToUser env ''123'' ?a ?w1)"
  obtain w3 e where g: "Proxy_SendResDataToGroup env ''ccc'' ?a '''' ?w2 = Some (w3, e)"
    and r: "r = HandleRet w3 (Some (HandleAData (JStr ''tttt'') ''mol'' ''ctrl'')) None"
    using assms by (auto simp: handleRequestMsg_def Let_def split: option.splits)
  have "api_step env w ?w1" "api_step env ?w1 ?w2" "api_step env ?w2 w3"
    using g by (auto intro: api_step.intros)
  then have "(api_step env)\<^sup>*\<^sup>* w w3" by (meson converse_rtranclp_into_rtranclp rtranclp.rtrancl_refl)
  with r show ?thesis by blast
qed

lemma handleRequestMsg_returns:
  assumes "redis_ok env kv" and "cfgRunMode (Config w) = RunModeRedis"
  shows "\<exists>r. handleRequestMsg env c q w = Some r"
proof -
  let ?a = "NewResponseData (Some (HandleAData (JStr ''tttt'') ''mol'' ''ctrl'')) []"
  let ?w1 = "fst (Proxy_SendResDataToUserByTgid env ''123'' ''ccc'' ?a w)"
  let ?w2 = "fst (Proxy_SendResDataToUser env ''123'' ?a ?w1)"
  have "quiet kv w ?w1" "quiet kv ?w1 ?w2" using quiet_proxy(3,4) [OF assms(1)] by blast+
  then have "cfgRunMode (Config ?w2) = RunModeRedis" using assms(2) by (simp add: quiet_def)
  then show ?thesis by (simp add: handleRequestMsg_def Proxy_SendResDataToGroup_def Let_def split: prod.split)
qed

lemma app_handler_ok: "handler_ok env (app_handler env)"
proof -
  have "case (case handleRequestMsg env c q w of Some r \<Rightarrow> r | None \<Rightarrow> HandlePanic w) of
      HandleRet w' a e \<Rightarrow> (api_step env)\<^sup>*\<^sup>* w w' | HandlePanic w' \<Rightarrow> (api_step env)\<^sup>*\<^sup>* w w'" for c q w
    using handleRequestMsg_steps [of env c q w] by (cases "handleRequestMsg env c q w") auto
  then show ?thesis by (simp add: handler_ok_def app_handler_def)
qed

section \<open>Opening a connection\<close>

lemma OnOpen_joins:
  assumes "ws_inv w" and "GetClientByConn k w = Some c" and "cUserId (clients w c) = uid"
  shows "\<exists>w'. OnOpen k w = Some w' \<and> ws_inv w' \<and> (api_step env)\<^sup>*\<^sup>* w w' \<and> Clients w' = Clients w \<and>
     members w' = (members w)(''ccc'' := insert uid (members w ''ccc''), ''ccc1'' := insert uid (members w ''ccc1''))"
proof -
  have c: "mget (Clients w) uid = Some c"
    using clients_invD ws_invD(1) [OF assms(1)] assms(2,3) by (metis GetClientByConn_def)
  obtain w1 where w1: "InTGroup c ''ccc'' w = Some w1" "ws_inv w1"
    "members w1 = (members w)(''ccc'' := insert uid (members w ''ccc''))" "Clients w1 = Clients w"
    using ws_inv_InTGroup [OF assms(1) c, of "''ccc''"] by blast
  then have c1: "mget (Clients w1) uid = Some c" using c by simp
  obtain w2 where w2: "InTGroup c ''ccc1'' w1 = Some w2" "ws_inv w2"
    "members w2 = (members w1)(''ccc1'' := insert uid (members w1 ''ccc1''))" "Clients w2 = Clients w1"
    using ws_inv_InTGroup [OF w1(2) c1, of "''ccc1''"] by blast
  have "api_step env w w1" "api_step env w1 w2"
    using w1(1) w2(1) c c1 by (auto intro: api_step.client_in [of uid] simp: GetClient_def)
  then show ?thesis
    using w1 w2 assms(2) by (auto simp: OnOpen_def intro: converse_rtranclp_into_rtranclp)
qed

end
