(* ===== verification/HttpPages.thy ===== *)
theory HttpPages
  imports SysService
begin

text \<open>
  The http pages (\<^verbatim>\<open>service/http/home.go\<close>): what the handlers write. Both write with
  \<^verbatim>\<open>fmt.Fprintf\<close> and no operands, so the text is a format: \<open>directive\<close> is what the library
  writes for the rest of a directive after its percent sign, and how much of the text the
  directive takes.
\<close>

section \<open>Formats without operands\<close>

function Fprintf0 :: "(string \<Rightarrow> string \<times> nat) \<Rightarrow> string \<Rightarrow> string" where
  "Fprintf0 directive [] = []"
| "Fprintf0 directive (c # s) =
     (if c \<noteq> CHR ''%'' then c # Fprintf0 directive s
      else (let (out, n) = directive s in out @ Fprintf0 directive (drop n s)))"
  by pat_completeness auto
termination by (relation "measure (\<lambda>(d, s). length s)") auto

text \<open>The documented output for a verb that is a letter when the operands are used up.\<close>

definition missing_operand :: "(string \<Rightarrow> string \<times> nat) \<Rightarrow> bool" where
  "missing_operand directive \<longleftrightarrow>
     (\<forall>v s. v \<in> set ''abcdefghijklmnopqrstuvwxyz'' \<longrightarrow> directive (v # s) = (''%!'' @ [v] @ ''(MISSING)'', 1))"

section \<open>The pages\<close>

definition HomePage :: "(string \<Rightarrow> string \<times> nat) \<Rightarrow> string" where
  "HomePage directive = Fprintf0 directive ''Home Page''"

text \<open>The Chinese text of the failure, in UTF-8.\<close>

definition sys_info_failed :: string where
  "sys_info_failed = map char_of
     [0xE8, 0x8E, 0xB7, 0xE5, 0x8F, 0x96, 0xE7, 0xB3, 0xBB, 0xE7, 0xBB, 0x9F,
      0xE4, 0xBF, 0xA1, 0xE6, 0x81, 0xAF, 0xE5, 0xA4, 0xB1, 0xE8, 0xB4, 0xA5 :: nat]"

text \<open>\<open>None\<close> is the panic of the collection. After a failure the code goes on with no bytes.\<close>

definition http_GetSysInfo ::
    "(string \<Rightarrow> string \<times> nat) \<Rightarrow> ('k, 'r, 'n) ws_env \<Rightarrow> 'q worker_env \<Rightarrow> 'q option \<Rightarrow> sys_reading \<Rightarrow>
     ('k, 'r, 'n) ws \<Rightarrow> ('k, 'r, 'n) ws \<times> string option" where
  "http_GetSysInfo directive env wm mq rd w =
     (let (w1, info) = GetSysCollectInfo env wm mq rd w in
      (w1, map_option (\<lambda>sysInfo.
         case json_Marshal (syc_collect_json sysInfo) of
           Inl err \<Rightarrow> Fprintf0 directive sys_info_failed @ Fprintf0 directive []
         | Inr bytes \<Rightarrow> Fprintf0 directive bytes) info))"

section \<open>Facts\<close>

lemma Fprintf0_plain: "CHR ''%'' \<notin> set s \<Longrightarrow> Fprintf0 directive s = s"
  by (induction s) auto

lemma HomePage_text: "HomePage directive = ''Home Page''"
  by (simp add: HomePage_def)

text \<open>A percent sign before a letter is not printed as it is.\<close>

lemma Fprintf0_garbles:
  assumes "missing_operand directive" and "CHR ''%'' \<notin> set s" and "v \<in> set ''abcdefghijklmnopqrstuvwxyz''"
  shows "Fprintf0 directive (s @ CHR ''%'' # v # t) = s @ ''%!'' @ [v] @ ''(MISSING)'' @ Fprintf0 directive t"
proof -
  have "directive (v # t) = (''%!'' @ [v] @ ''(MISSING)'', 1)" using assms(1,3) unfolding missing_operand_def by blast
  with assms(2) show ?thesis by (induction s) auto
qed

text \<open>A page without a percent sign is the JSON of the collected information.\<close>

lemma http_GetSysInfo_json:
  assumes "GetSysCollectInfo env wm mq rd w = (w', Some info)"
    and "json_Marshal (syc_collect_json info) = Inr b" and "CHR ''%'' \<notin> set b"
  shows "http_GetSysInfo directive env wm mq rd w = (w', Some b)"
  using assms by (simp add: http_GetSysInfo_def Fprintf0_plain)

end
