(* ===== verification/ExampleMain.thy ===== *)
theory ExampleMain
  imports ExampleApp HttpPages
begin

text \<open>
  The rest of the example server (\<^verbatim>\<open>examples/local/server/main.go\<close>): its http server with the
  routes, and the run of \<^verbatim>\<open>main\<close> from the start to the signal and the end. What the http
  library answers are arguments.
\<close>

declare map_of_eq_Some_iff [simp del] Some_eq_map_of_iff [simp del]

section \<open>The http server\<close>

definition server_Addr :: "iface list result \<Rightarrow> string" where
  "server_Addr ifaces = (let ip = GetServerIp ifaces in ip @ '':8080'')"

datatype page = PageUp | PageHome | PageSysInfo

definition http_routes :: "(string \<times> page) list" where
  "http_routes = [(''/acc'', PageUp), (''/'', PageHome), (''/sysinfo'', PageSysInfo)]"

text \<open>
  The choice of \<^verbatim>\<open>http.ServeMux\<close> for a clean path: a pattern that ends with a slash takes every
  path below it, another one its own path, and the longest wins.
\<close>

definition mux_match :: "string \<Rightarrow> string \<Rightarrow> bool" where
  "mux_match pattern path \<longleftrightarrow>
     (if pattern \<noteq> [] \<and> last pattern = CHR ''/'' then take (length pattern) path = pattern else path = pattern)"

fun mux_handler :: "(string \<times> 'h) list \<Rightarrow> string \<Rightarrow> (string \<times> 'h) option" where
  "mux_handler [] path = None"
| "mux_handler ((pattern, h) # rs) path =
     (let r = mux_handler rs path in
      if mux_match pattern path \<and> (\<forall>q. r = Some q \<longrightarrow> length (fst q) < length pattern) then Some (pattern, h) else r)"

section \<open>The run\<close>

datatype main_end = MainReturned | MainPanicked proc_panic | MainFatal string

definition ErrServerClosed :: go_error where
  "ErrServerClosed = ExtError ''http: Server closed''"

text \<open>The goroutine that serves the pages; \<^verbatim>\<open>log.Fatalf\<close> ends the process, and nothing deferred runs.\<close>

definition main_listen :: "string \<Rightarrow> go_error option \<Rightarrow> main_end option" where
  "main_listen addr listened =
     (case listened of
        None \<Rightarrow> None
      | Some err \<Rightarrow>
          if err \<noteq> ErrServerClosed
          then Some (MainFatal (''Could not listen on '' @ addr @ '': '' @ error_string err @ [CHR 0x0A]))
          else None)"

text \<open>
  After the signal: the http server is shut down within a time; then what is deferred runs, the
  last first: the context of the shutdown is cancelled, the server ended.
\<close>

definition main_stop ::
    "'q worker_env \<Rightarrow> go_error option \<Rightarrow> go_error option \<Rightarrow> go_error option \<Rightarrow> ('e, 'l, 'q) proc \<Rightarrow>
     ('e, 'l, 'q) proc \<times> main_end" where
  "main_stop wm shutdown revoke cliClose p =
     (let p1 = call_lib ShutdownHttp p in
      case shutdown of
        Some err \<Rightarrow> (p1, MainFatal (''Server forced to shutdown: '' @ error_string err))
      | None \<Rightarrow>
          (let p2 = call_lib CancelShutdown p1 in
           case CloseServer wm revoke cliClose p2 of
             (p3, Some e) \<Rightarrow> (p3, MainPanicked e)
           | (p3, None) \<Rightarrow> (p3, MainReturned)))"

section \<open>Facts\<close>

text \<open>Two paths have pages of their own; every other one is the home page.\<close>

lemma http_routes_choice:
  "path \<noteq> [] \<Longrightarrow> hd path = CHR ''/'' \<Longrightarrow>
     map_option snd (mux_handler http_routes path) =
       Some (if path = ''/acc'' then PageUp else if path = ''/sysinfo'' then PageSysInfo else PageHome)"
  by (cases path) (auto simp: http_routes_def mux_match_def)

text \<open>The entry of a user names the address the pages are served on.\<close>

lemma server_Addr_entry:
  assumes "InitWs ifaces opt wsConf w = Some w1"
  shows "AccIp (NewUserOnline uid rid a w1) @ '':'' @ AccPort (NewUserOnline uid rid a w1) = server_Addr ifaces"
  using InitWs_fields(4,11) [OF assms] by (simp add: NewUserOnline_def server_Addr_def wsConf_def)

text \<open>What a start leaves in the variables of the process.\<close>

lemma main_start_proc:
  fixes p :: "('e, 'l, 'q) proc"
  assumes "main_start os parseLevel production pong newErr status env newWorkerM ifaces a E fs w = Inr (fs1, w1, p)"
  shows "pSerCancel p \<and> pL p \<noteq> None \<and> pMq p = Some (NewProxyMsgQueue newWorkerM) \<and> pRunMode p = RunModeRedis \<and>
     pSvr p \<and> (\<exists>reg. pEtcdRegistry p = Some reg \<and> srStatus reg = 2) \<and> pRpcFile p = None \<and> pEtcdClient p \<and>
     pRedisClient p \<and> pCalls p = []"
proof -
  obtain p1 :: "('e, 'l, 'q) proc" where log: "gim_InitLogger os parseLevel production logConfig (fs, proc0) = ((fs1, p1), None)"
    using assms by (auto simp: main_start_def split: prod.splits option.splits sum.splits)
  with assms have init: "gim_InitServer env newWorkerM ifaces True wsConf True a E
      (w, p1\<lparr>pRedisClient := True, pEtcdClient := True\<rparr>) = Inr (w1, p)"
    by (auto simp: main_start_def redis_CreateClient_def etcd_CreateClient_def etcd_GetClient_def
        split: prod.splits option.splits sum.splits)
  obtain l f where p1: "p1 = proc0\<lparr>pL := Some l, pZapGlobal := Some l, pIsInitLogger := True, pKlog := KlogFile f\<rparr>"
    using gim_InitLogger_ok [OF log] by blast
  show ?thesis
    using init
    by (auto simp: p1 proc0_def gim_InitServer_def InitServer_def wsConf_def Let_def dest: rpc_InitServer_key(3)
        split: sum.splits option.splits if_splits)
qed

text \<open>
  After a shutdown in time everything is ended in order. After one that took too long the
  process ends at once: the registration of the node is left to the end of its lease, and the
  log is not written out.
\<close>

lemma main_stop_in_time:
  assumes "main_start os parseLevel production pong newErr status env newWorkerM ifaces a E fs w = Inr (fs1, w1, p)"
    and "\<not> cclosed (wmChan wm (NewProxyMsgQueue newWorkerM))" and "main_stop wm None revoke cliClose p = (p', e)"
  shows "e = MainReturned \<and>
     pCalls p' = [ShutdownHttp, CancelShutdown, CancelContext, StopPool, RevokeLease] @
       (if revoke = None then [CloseEtcd] else []) @ [StopRpcServer, CloseEtcd, SyncLog, SleepSeconds 2] \<and>
     CloseRedis \<notin> set (pCalls p')"
proof -
  define p2 where "p2 = call_lib CancelShutdown (call_lib ShutdownHttp p)"
  note p = main_start_proc [OF assms(1)]
  obtain p3 x where c: "CloseServer wm revoke cliClose p2 = (p3, x)" by fastforce
  have "pSerCancel p2" "pL p2 \<noteq> None" "pMq p2 = Some (NewProxyMsgQueue newWorkerM)"
    "pRunMode p2 = RunModeRedis \<Longrightarrow> pSvr p2 \<and> pEtcdRegistry p2 \<noteq> None" "pRpcFile p2 = None"
    using p by (auto simp: p2_def)
  note s = CloseServer_started [OF this(1-3) assms(2) this(4,5) c]
  have "pRunMode p2 = RunModeRedis" "pEtcdClient p2" "pCalls p2 = [ShutdownHttp, CancelShutdown]"
    using p by (auto simp: p2_def)
  moreover have "main_stop wm None revoke cliClose p =
      (case CloseServer wm revoke cliClose p2 of (p3, Some e) \<Rightarrow> (p3, MainPanicked e) | (p3, None) \<Rightarrow> (p3, MainReturned))"
    by (simp add: main_stop_def p2_def)
  ultimately show ?thesis using s assms(3) c by auto
qed

lemma main_stop_late:
  assumes "main_start os parseLevel production pong newErr status env newWorkerM ifaces a E fs w = Inr (fs1, w1, p)"
    and "main_stop wm (Some err) revoke cliClose p = (p', e)"
  shows "e = MainFatal (''Server forced to shutdown: '' @ error_string err) \<and> pCalls p' = [ShutdownHttp] \<and>
     (\<exists>reg. pEtcdRegistry p' = Some reg \<and> srStatus reg = 2)"
  using main_start_proc [OF assms(1)] assms(2) by (auto simp: main_stop_def Let_def)

end
