(* ===== verification/ExampleBench.thy ===== *)
theory ExampleBench
  imports ServerHelper
begin

text \<open>
  The example benchmark (\<^verbatim>\<open>examples/local/test/main.go\<close>): a struct filled from a map a million
  times with \<^verbatim>\<open>helper.MapToStruct\<close>, and the helper beside it that goes through JSON. A float is
  kept as the decimal text the language prints for it, without an exponent.
\<close>

declare map_of_eq_Some_iff [simp del] Some_eq_map_of_iff [simp del]

section \<open>Values\<close>

datatype go_value = GoString string | GoInt int | GoFloat string

datatype go_type = TypeString | TypeInt

record my_struct =
  msName :: string
  msAge :: int

text \<open>A conversion to int cuts the part behind the point off.\<close>

definition trunc_lit :: "string \<Rightarrow> int" where
  "trunc_lit l =
     (case l of
        c # r \<Rightarrow> if c = CHR ''-'' then - int (digits_val (takeWhile is_digit r)) else int (digits_val (takeWhile is_digit l))
      | [] \<Rightarrow> 0)"

text \<open>A conversion from an integer to a text takes it as a code point.\<close>

definition rune_string :: "int \<Rightarrow> string" where
  "rune_string i =
     utf8 (if i < 0 \<or> 0x10FFFF < i \<or> (0xD800 \<le> i \<and> i \<le> 0xDFFF) then 0xFFFD else nat i)"

fun go_convert :: "go_value \<Rightarrow> go_type \<Rightarrow> go_value conversion" where
  "go_convert (GoString s) TypeString = Converted (GoString s)"
| "go_convert (GoString s) TypeInt = NotConvertible"
| "go_convert (GoInt i) TypeInt = Converted (GoInt i)"
| "go_convert (GoInt i) TypeString = Converted (GoString (rune_string i))"
| "go_convert (GoFloat l) TypeInt = Converted (GoInt (trunc_lit l))"
| "go_convert (GoFloat l) TypeString = NotConvertible"

definition MyStruct_fields :: "my_struct \<Rightarrow> (go_type, go_value) go_field list" where
  "MyStruct_fields s =
     [\<lparr>fName = ''Name'', fCanSet = True, fType = TypeString, fValue = GoString (msName s)\<rparr>,
      \<lparr>fName = ''Age'', fCanSet = True, fType = TypeInt, fValue = GoInt (msAge s)\<rparr>]"

section \<open>Through JSON\<close>

fun go_value_json :: "go_value \<Rightarrow> jval" where
  "go_value_json (GoString s) = JStr s"
| "go_value_json (GoInt i) = jint i"
| "go_value_json (GoFloat l) = JNum l"

definition my_struct_set :: "string \<Rightarrow> jval \<Rightarrow> my_struct \<Rightarrow> my_struct \<times> go_error option" where
  "my_struct_set k v s =
     (if name_eq k ''Name'' then (let (x, e) = dec_str v (msName s) in (s\<lparr>msName := x\<rparr>, e))
      else if name_eq k ''Age'' then (let (x, e) = dec_int 64 v (msAge s) in (s\<lparr>msAge := x\<rparr>, e))
      else (s, None))"

text \<open>The error of the reading is not looked at.\<close>

definition mapToStruct2 :: "(string, go_value) gomap \<Rightarrow> my_struct \<Rightarrow> my_struct \<times> go_error option" where
  "mapToStruct2 m s =
     (case json_Marshal (jmap (map (map_prod id go_value_json) m)) of
        Inl err \<Rightarrow> (s, Some err)
      | Inr bytes \<Rightarrow> (fst (json_Unmarshal my_struct_set bytes s), None))"

section \<open>The benchmark\<close>

definition bench_data :: "(string, go_value) gomap" where
  "bench_data = [(''Name'', GoString ''lizi''), (''Age'', GoFloat ''30.2'')]"

primrec bench_loop ::
    "nat \<Rightarrow> (string \<rightharpoonup> go_value option) \<Rightarrow> (go_type, go_value) go_field list \<Rightarrow>
     (go_type, go_value) go_field list option" where
  "bench_loop 0 data s = Some s"
| "bench_loop (Suc n) data s =
     (case MapToStruct go_convert data s of None \<Rightarrow> None | Some s1 \<Rightarrow> bench_loop n data s1)"

text \<open>What is printed at the end, beside the time; \<open>None\<close> would be a panic.\<close>

definition bench_main :: "(go_type, go_value) go_field list option" where
  "bench_main =
     bench_loop 1000000 (\<lambda>k. map_option Some (mget bench_data k)) (MyStruct_fields \<lparr>msName = '''', msAge = 0\<rparr>)"

section \<open>Facts\<close>

text \<open>Filling a struct again from the same map changes nothing.\<close>

lemma set_field_again: "set_field conv m f = Some f' \<Longrightarrow> set_field conv m f' = Some f'"
  by (auto simp: set_field_def split: option.splits if_splits conversion.splits)

lemma MapToStruct_again: "MapToStruct conv m fs = Some fs' \<Longrightarrow> MapToStruct conv m fs' = Some fs'"
  by (induction fs arbitrary: fs') (auto dest: set_field_again split: option.splits)

lemma bench_loop_once:
  assumes "MapToStruct go_convert m s = Some s'" and "0 < n"
  shows "bench_loop n m s = Some s'"
proof -
  have "bench_loop i m s' = Some s'" for i
    by (induction i) (simp_all add: MapToStruct_again [OF assms(1)])
  with assms show ?thesis by (cases n) simp_all
qed

text \<open>The two ways differ: the number with a fraction does not fit into the field for JSON, and the field stays.\<close>

lemma bench_result: "bench_main = Some (MyStruct_fields \<lparr>msName = ''lizi'', msAge = 30\<rparr>)"
  unfolding bench_main_def
  by (rule bench_loop_once)
    (simp_all add: MyStruct_fields_def bench_data_def set_field_def trunc_lit_def is_digit_def digits_val_def)

lemma mapToStruct2_result:
  "mapToStruct2 bench_data s = (s\<lparr>msName := ''lizi''\<rparr>, None)"
  by code_simp simp

end
