(* ===== verification/RpcWiring.thy ===== *)
theory RpcWiring
  imports RpcService
begin

text \<open>
  The constructors of the rpc client and server and the methods of the client
  (\<^verbatim>\<open>kitex_gen/im/rpc/imrpc/client.go\<close>, \<^verbatim>\<open>server.go\<close>). The library's constructors, its options
  and its call are parameters. A call runs in a context that carries the call's options.
\<close>

section \<open>The client\<close>

text \<open>The client wraps the library's client, whose call the methods use.\<close>

definition imrpc_NewClient ::
    "(service_info \<Rightarrow> 'o list \<Rightarrow> 'c result) \<Rightarrow> (string \<Rightarrow> 'o) \<Rightarrow> (streaming_mode \<Rightarrow> bool) \<Rightarrow> string \<Rightarrow>
     'o list \<Rightarrow> 'c result" where
  "imrpc_NewClient newClient withDestService streaming destService opts =
     (let options = [withDestService destService] @ opts in
      case newClient (serviceInfoForClient streaming) options of
        Inl err \<Rightarrow> Inl err
      | Inr kc \<Rightarrow> Inr kc)"

text \<open>An error is a panic: the left side.\<close>

definition MustNewClient ::
    "(service_info \<Rightarrow> 'o list \<Rightarrow> 'c result) \<Rightarrow> (string \<Rightarrow> 'o) \<Rightarrow> (streaming_mode \<Rightarrow> bool) \<Rightarrow> string \<Rightarrow>
     'o list \<Rightarrow> 'c result" where
  "MustNewClient newClient withDestService streaming destService opts =
     (case imrpc_NewClient newClient withDestService streaming destService opts of
        Inl err \<Rightarrow> Inl err
      | Inr kc \<Rightarrow> Inr kc)"

definition kImRpcClient_Hello ::
    "('t \<Rightarrow> 'o list \<Rightarrow> 't) \<Rightarrow> ('t \<Rightarrow> (rpc_request rpc_args, rpc_response, 'n) kitex_call) \<Rightarrow> 't \<Rightarrow>
     rpc_request \<Rightarrow> 'o list \<Rightarrow> 'n \<Rightarrow> 'n \<times> rpc_response option result" where
  "kImRpcClient_Hello newCtx call ctx req callOptions =
     (let ctx1 = newCtx ctx callOptions in kClient_Hello (call ctx1) req)"

definition kImRpcClient_SendMsgToUser ::
    "('t \<Rightarrow> 'o list \<Rightarrow> 't) \<Rightarrow> ('t \<Rightarrow> (send_msg_req rpc_args, send_msg_rsp, 'n) kitex_call) \<Rightarrow> 't \<Rightarrow>
     send_msg_req \<Rightarrow> 'o list \<Rightarrow> 'n \<Rightarrow> 'n \<times> send_msg_rsp option result" where
  "kImRpcClient_SendMsgToUser newCtx call ctx req callOptions =
     (let ctx1 = newCtx ctx callOptions in kClient_SendMsgToUser (call ctx1) req)"

definition kImRpcClient_SendMsgToUserByTgid ::
    "('t \<Rightarrow> 'o list \<Rightarrow> 't) \<Rightarrow> ('t \<Rightarrow> (send_msg_by_tgid_req rpc_args, send_msg_rsp, 'n) kitex_call) \<Rightarrow> 't \<Rightarrow>
     send_msg_by_tgid_req \<Rightarrow> 'o list \<Rightarrow> 'n \<Rightarrow> 'n \<times> send_msg_rsp option result" where
  "kImRpcClient_SendMsgToUserByTgid newCtx call ctx req callOptions =
     (let ctx1 = newCtx ctx callOptions in kClient_SendMsgToUserByTgid (call ctx1) req)"

definition kImRpcClient_StopUserClient ::
    "('t \<Rightarrow> 'o list \<Rightarrow> 't) \<Rightarrow> ('t \<Rightarrow> (user_id_req rpc_args, stop_user_client_rsp, 'n) kitex_call) \<Rightarrow> 't \<Rightarrow>
     user_id_req \<Rightarrow> 'o list \<Rightarrow> 'n \<Rightarrow> 'n \<times> stop_user_client_rsp option result" where
  "kImRpcClient_StopUserClient newCtx call ctx req callOptions =
     (let ctx1 = newCtx ctx callOptions in kClient_StopUserClient (call ctx1) req)"

definition kImRpcClient_GetSysInfo ::
    "('t \<Rightarrow> 'o list \<Rightarrow> 't) \<Rightarrow> ('t \<Rightarrow> (unit, bytes_rsp, 'n) kitex_call) \<Rightarrow> 't \<Rightarrow>
     'o list \<Rightarrow> 'n \<Rightarrow> 'n \<times> bytes_rsp option result" where
  "kImRpcClient_GetSysInfo newCtx call ctx callOptions =
     (let ctx1 = newCtx ctx callOptions in kClient_GetSysInfo (call ctx1))"

definition kImRpcClient_JoinGroup ::
    "('t \<Rightarrow> 'o list \<Rightarrow> 't) \<Rightarrow> ('t \<Rightarrow> (join_group_req rpc_args, join_group_res, 'n) kitex_call) \<Rightarrow> 't \<Rightarrow>
     join_group_req \<Rightarrow> 'o list \<Rightarrow> 'n \<Rightarrow> 'n \<times> join_group_res option result" where
  "kImRpcClient_JoinGroup newCtx call ctx req callOptions =
     (let ctx1 = newCtx ctx callOptions in kClient_JoinGroup (call ctx1) req)"

definition kImRpcClient_OutGroup ::
    "('t \<Rightarrow> 'o list \<Rightarrow> 't) \<Rightarrow> ('t \<Rightarrow> (join_group_req rpc_args, join_group_res, 'n) kitex_call) \<Rightarrow> 't \<Rightarrow>
     join_group_req \<Rightarrow> 'o list \<Rightarrow> 'n \<Rightarrow> 'n \<times> join_group_res option result" where
  "kImRpcClient_OutGroup newCtx call ctx req callOptions =
     (let ctx1 = newCtx ctx callOptions in kClient_OutGroup (call ctx1) req)"

section \<open>The server\<close>

text \<open>A registration that fails is a panic: the left side.\<close>

definition imrpc_NewServer ::
    "('o list \<Rightarrow> 's) \<Rightarrow> 'o \<Rightarrow> ('s \<Rightarrow> service_info \<Rightarrow> 's \<times> go_error option) \<Rightarrow> (streaming_mode \<Rightarrow> bool) \<Rightarrow>
     'o list \<Rightarrow> 's result" where
  "imrpc_NewServer newServer withCompatibleMiddleware registerService streaming opts =
     (let options = opts @ [withCompatibleMiddleware]; svr = newServer options in
      case registerService svr (serviceInfo streaming) of
        (svr1, Some err) \<Rightarrow> Inl err
      | (svr1, None) \<Rightarrow> Inr svr1)"

definition imrpc_RegisterService ::
    "('s \<Rightarrow> service_info \<Rightarrow> 'o list \<Rightarrow> 's \<times> go_error option) \<Rightarrow> (streaming_mode \<Rightarrow> bool) \<Rightarrow> 'o list \<Rightarrow> 's \<Rightarrow>
     's \<times> go_error option" where
  "imrpc_RegisterService registerService streaming opts svr = registerService svr (serviceInfo streaming) opts"

section \<open>Facts\<close>

text \<open>
  The table of rpc clients dials with this constructor: where the library makes a client for
  every address, dialling never fails, which is what discovery relies on.
\<close>

definition dial_with ::
    "(service_info \<Rightarrow> 'o list \<Rightarrow> 'c result) \<Rightarrow> (string \<Rightarrow> 'o) \<Rightarrow> (string \<Rightarrow> 'o) \<Rightarrow> (streaming_mode \<Rightarrow> bool) \<Rightarrow>
     ('k, 'r, 'n) ws_env \<Rightarrow> ('k, 'r, 'n) ws_env" where
  "dial_with newClient withDestService withHostPorts streaming env =
     env\<lparr>rpcNewClient := \<lambda>s a. map_sum id (\<lambda>_. ())
       (imrpc_NewClient newClient withDestService streaming s [withHostPorts a])\<rparr>"

lemma dial_with_ok:
  assumes "\<And>i os. \<exists>c. newClient i os = Inr c"
  shows "rpc_dial_ok (dial_with newClient withDestService withHostPorts streaming env)"
proof -
  have "map_sum id (\<lambda>_. ()) (imrpc_NewClient newClient withDestService streaming s os) = Inr ()" for s os
  proof -
    obtain c where "newClient (serviceInfoForClient streaming) ([withDestService s] @ os) = Inr c"
      using assms by blast
    then show ?thesis by (simp add: imrpc_NewClient_def)
  qed
  then show ?thesis by (simp add: rpc_dial_ok_def dial_with_def)
qed

text \<open>A server that was made knows every method a client may call.\<close>

lemma NewServer_methods:
  assumes "imrpc_NewServer newServer compat registerService streaming opts = Inr svr"
    and "\<And>s i s'. registerService s i = (s', None) \<Longrightarrow> methods_of s' = siMethods i"
    and "\<not> streaming StreamingNone"
  shows "mget (methods_of svr) name = mget (siMethods (serviceInfoForClient streaming)) name"
  using assms client_methods_served [where streaming = streaming and name = name]
  by (auto simp: imrpc_NewServer_def Let_def split: prod.splits option.splits)

end
