(* ===== verification/AppProps.thy ===== *)
theory AppProps
  imports ExampleMain ExampleBench RpcWiring
begin

text \<open>
  Properties of the process and of the example server: the end of a server that was started,
  and the way of a user of the example from the request to the groups.
\<close>

declare map_of_eq_Some_iff [simp del] Some_eq_map_of_iff [simp del]

section \<open>The end of a server\<close>

text \<open>
  C36: A server that was started ends without a panic, in one order: its context is cancelled,
  the worker pool stopped, in a cluster the lease revoked, the etcd client closed and the rpc
  server stopped and the registration marked as closed, then the etcd client of the process is
  closed, if there is one, and the log is written out. The log file of the rpc library, opened
  at the start, is never closed, and a second end panics.
\<close>

theorem server_stop:
  assumes log: "gim_InitLogger os parseLevel production lc (fs, proc0) = ((fs1, p1), None)"
    and p2: "p2 = p1\<lparr>pRedisClient := rc, pEtcdClient := ec\<rparr>"
    and start: "gim_InitServer env newWorkerM ifaces opt c etcdSet a E (w, p2) = Inr (w3, p3)"
    and pool: "\<not> cclosed (wmChan wm (NewProxyMsgQueue newWorkerM))"
      "\<And>ch q. wmChan wm (wmStop wm (wmSetChan wm ch q)) = ch"
    and stop: "CloseServer wm revoke cliClose p3 = (p4, e)"
  shows "e = None \<and>
     pCalls p4 = [CancelContext, StopPool] @
       (if cfgRunMode c = RunModeRedis
        then RevokeLease # (if revoke = None then [CloseEtcd] else []) @ [StopRpcServer] else []) @
       (if ec then [CloseEtcd] else []) @ [SyncLog, SleepSeconds 2] \<and>
     (cfgRunMode c = RunModeRedis \<longrightarrow> (\<exists>r. pEtcdRegistry p4 = Some r \<and> srStatus r = 3)) \<and>
     (\<exists>f. pKlog p4 = KlogFile f) \<and> (\<forall>f. CloseFile f \<notin> set (pCalls p4)) \<and>
     snd (CloseServer wm revoke cliClose p4) = Some CloseOfClosed"
proof -
  obtain l f where p1: "p1 = proc0\<lparr>pL := Some l, pZapGlobal := Some l, pIsInitLogger := True, pKlog := KlogFile f\<rparr>"
    using gim_InitLogger_ok [OF log] by blast
  obtain reg where p3: "p3 = p2\<lparr>pSerCancel := True, pMq := Some (NewProxyMsgQueue newWorkerM), pRunMode := cfgRunMode c,
       pSvr := (reg \<noteq> None \<or> pSvr p2),
       pEtcdRegistry := (case reg of None \<Rightarrow> pEtcdRegistry p2 | Some r \<Rightarrow> Some r)\<rparr>"
    and reg: "cfgRunMode c = RunModeRedis \<Longrightarrow> reg \<noteq> None"
    using gim_InitServer_ok [OF start] by blast
  have "pSerCancel p3" "pL p3 \<noteq> None" "pMq p3 = Some (NewProxyMsgQueue newWorkerM)"
    "pRunMode p3 = RunModeRedis \<Longrightarrow> pSvr p3 \<and> pEtcdRegistry p3 \<noteq> None" "pRpcFile p3 = None"
    and f: "pKlog p3 = KlogFile f" "pCalls p3 = []" "pRunMode p3 = cfgRunMode c" "pEtcdClient p3 = ec"
    using reg by (auto simp: p1 p2 p3 proc0_def)
  note s = CloseServer_started [OF this(1-3) pool(1) this(4,5) stop]
  then have "snd (CloseServer wm revoke cliClose p4) = Some CloseOfClosed"
    using pool(2) by (intro CloseServer_again) auto
  with s f show ?thesis by auto
qed

text \<open>A file system that opens every file, and a pool that is only its channel.\<close>

definition ex_os :: "unit os_env" where
  "ex_os = \<lparr>osNotExist = (\<lambda>_ _. True), osMkdirAll = (\<lambda>_ fs. fs), osOpenFile = (\<lambda>_ fs. (fs, Inr 3))\<rparr>"

definition ex_pool :: "bytes chan worker_env" where
  "ex_pool = \<lparr>wmChan = id, wmSetChan = (\<lambda>ch _. ch), wmPushMsg = (\<lambda>_ q. Some q), wmStop = id,
     wmGetChanMsgLen = (\<lambda>_. 0), wmGetTotalCNum = (\<lambda>_. 0), wmGetFreeCNum = (\<lambda>_. 0)\<rparr>"

definition ex_production :: encoder_config where
  "ex_production = \<lparr>ecTimeLayout = '''', ecTimeKey = ''ts'', ecCapitalLevel = False, ecShortCaller = True\<rparr>"

theorem server_stop_witness:
  "\<exists>p. snd (CloseServer ex_pool None None (p :: (unit, nat, bytes chan) proc)) = None \<and> pKlog p = KlogFile (Some 3) \<and>
     pCalls (fst (CloseServer ex_pool None None p)) =
       [CancelContext, StopPool, RevokeLease, CloseEtcd, StopRpcServer, CloseEtcd, SyncLog, SleepSeconds 2]"
proof -
  obtain p1 where log: "gim_InitLogger ex_os (\<lambda>_. Inr (0 :: nat)) ex_production logConfig
      ((), proc0 :: (unit, nat, bytes chan) proc) = (((), p1), None)"
    and p1: "pKlog p1 = KlogFile (Some 3)" "pIsInitLogger p1"
    by (simp add: gim_InitLogger_def logger_InitLogger_def InitKLog_def ex_os_def Let_def)
  define p2 where "p2 = p1\<lparr>pRedisClient := True, pEtcdClient := True\<rparr>"
  obtain w3 p3 where start: "gim_InitServer ex_env (\<lambda>c. make_chan (wcChanSize c)) (Inr []) True wsConf True
      \<lparr>laGrant = Inr 1, laPut = None, laKeepAlive = None\<rparr> \<lparr>etcdGet = (\<lambda>_. Inr ([], 1)), etcdWatch = (\<lambda>_ _. [])\<rparr>
      (ws0 (\<lambda>_. \<lparr>xUid = '''', xOut = [], xClosed = False\<rparr>) [] () 0, p2) = Inr (w3, p3)"
    and p3: "pKlog p3 = KlogFile (Some 3)"
    using p1
    by (simp add: p2_def gim_InitServer_def InitServer_def InitWs_def rpc_InitServer_def NewServiceRegister_def
        putKeyWithLease_def wsConf_def Let_def)
  have "\<not> cclosed (wmChan ex_pool (NewProxyMsgQueue (\<lambda>c. make_chan (wcChanSize c))))"
    "\<And>ch q. wmChan ex_pool (wmStop ex_pool (wmSetChan ex_pool ch q)) = ch"
    by (simp_all add: ex_pool_def NewProxyMsgQueue_def make_chan_def)
  from server_stop [OF log p2_def start this prod.collapse [symmetric], of None None] p3
  show ?thesis by (intro exI [of _ p3]) (simp add: wsConf_def)
qed

section \<open>A user of the example server\<close>

text \<open>
  A user of the example server: a request with a user id is authorized; when the
  connection is accepted and opened, the user is connected and a member of the two groups of
  the example, and of no other group more, nobody else's membership changes, and the node keeps
  its invariant.
\<close>

lemma example_login:
  assumes inv: "ws_inv w" and r: "redis_ok env kv" and auth: "Authorize uid ses = (ses', True)"
    and session: "SessionLoad env (conns w k) = ses'" and new: "GetClient uid w = None" "GetClientByConn k w = None"
    and entry: "kv (redis w) (getUserOnlineKey uid w) = None" and w1: "HandlerUp env ulid (Inr k) mc w = w1"
  shows "\<exists>w2. OnOpen k w1 = Some w2 \<and> ws_inv w2 \<and> HasUser uid w2 \<and>
     members w2 = (members w)(''ccc'' := insert uid (members w ''ccc''), ''ccc1'' := insert uid (members w ''ccc1''))"
proof -
  have uid: "uid \<noteq> ''''" and ses': "ses' = ses(''uid'' \<mapsto> SessionStr uid)"
    using auth by (auto simp: Authorize_def split: if_splits)
  then have k: "GetUid env k w = uid" using session by (simp add: GetUid_def)
  note up = HandlerUp_first [OF inv r k uid new(1) entry new(2) w1]
  then obtain c where c: "GetClient uid w1 = Some c" "GetClientByConn k w1 = Some c" "cUserId (clients w1 c) = uid"
    by blast
  from up have "ws_inv w1" "members w1 = members w" by blast+
  then obtain w2 where "OnOpen k w1 = Some w2" "ws_inv w2" "Clients w2 = Clients w1"
    "members w2 = (members w1)(''ccc'' := insert uid (members w1 ''ccc''), ''ccc1'' := insert uid (members w1 ''ccc1''))"
    using OnOpen_joins [OF _ c(2,3)] by blast
  with c(1) \<open>members w1 = members w\<close> show ?thesis by (auto simp: HasUser_iff GetClient_def)
qed

end
