(* ===== verification/KitexString.thy ===== *)
theory KitexString
  imports KitexApi
begin

text \<open>
  The texts the generated rpc structs are logged with: \<^verbatim>\<open>String\<close> in \<^verbatim>\<open>api.go\<close>, which prints the
  struct with the verb \<^verbatim>\<open>%+v\<close>. A struct is printed as its fields with their names, a text as
  it is, bytes as their numbers, and a pointer to a struct that has a \<^verbatim>\<open>String\<close> method by that
  method, also when it is nil.
\<close>

section \<open>The verb for the types of the fields\<close>

definition fmt_bool :: "bool \<Rightarrow> string" where
  "fmt_bool b = (if b then ''true'' else ''false'')"

fun join_spaces :: "string list \<Rightarrow> string" where
  "join_spaces [] = ''''"
| "join_spaces [s] = s"
| "join_spaces (s # t # ss) = s @ '' '' @ join_spaces (t # ss)"

definition fmt_bytes :: "bytes \<Rightarrow> string" where
  "fmt_bytes b = ''['' @ join_spaces (map (\<lambda>c. nat_lit (of_char c)) b) @ '']''"

definition fmt_struct :: "(string \<times> string) list \<Rightarrow> string" where
  "fmt_struct fs = ''{'' @ join_spaces (map (\<lambda>(n, v). n @ '':'' @ v) fs) @ ''}''"

section \<open>The structs\<close>

definition RpcRequest_String :: "rpc_request option \<Rightarrow> string" where
  "RpcRequest_String p =
     (case p of
        None \<Rightarrow> ''<nil>''
      | Some v \<Rightarrow> ''Request('' @ fmt_struct [(''Message'', rqMessage v)] @ '')'')"

definition RpcResponse_String :: "rpc_response option \<Rightarrow> string" where
  "RpcResponse_String p =
     (case p of
        None \<Rightarrow> ''<nil>''
      | Some v \<Rightarrow> ''Response('' @ fmt_struct [(''Message'', rsMessage v)] @ '')'')"

definition SendMsgReq_String :: "send_msg_req option \<Rightarrow> string" where
  "SendMsgReq_String p =
     (case p of
        None \<Rightarrow> ''<nil>''
      | Some v \<Rightarrow> ''SendMsgReq('' @ fmt_struct [(''Uid'', smqUid v), (''Msg'', fmt_bytes (smqMsg v))] @ '')'')"

definition SendMsgRsp_String :: "send_msg_rsp option \<Rightarrow> string" where
  "SendMsgRsp_String p =
     (case p of
        None \<Rightarrow> ''<nil>''
      | Some v \<Rightarrow> ''SendMsgRsp('' @ fmt_struct [(''RetCode'', int_lit (sint (smrRetCode v)))] @ '')'')"

definition SendMsgByTgidReq_String :: "send_msg_by_tgid_req option \<Rightarrow> string" where
  "SendMsgByTgidReq_String p =
     (case p of
        None \<Rightarrow> ''<nil>''
      | Some v \<Rightarrow> ''SendMsgByTgidReq('' @ fmt_struct [(''Uid'', sbtUid v), (''Tgid'', sbtTgid v), (''Msg'', fmt_bytes (sbtMsg v))] @ '')'')"

definition UserIdReq_String :: "user_id_req option \<Rightarrow> string" where
  "UserIdReq_String p =
     (case p of
        None \<Rightarrow> ''<nil>''
      | Some v \<Rightarrow> ''UserIdReq('' @ fmt_struct [(''Uid'', uirUid v)] @ '')'')"

definition StopUserClientRsp_String :: "stop_user_client_rsp option \<Rightarrow> string" where
  "StopUserClientRsp_String p =
     (case p of
        None \<Rightarrow> ''<nil>''
      | Some v \<Rightarrow> ''StopUserClientRsp('' @ fmt_struct [(''Res'', fmt_bool (sucRes v))] @ '')'')"

definition BytesRsp_String :: "bytes_rsp option \<Rightarrow> string" where
  "BytesRsp_String p =
     (case p of
        None \<Rightarrow> ''<nil>''
      | Some v \<Rightarrow> ''BytesRsp('' @ fmt_struct [(''Data'', fmt_bytes (brData v))] @ '')'')"

definition JoinGroupReq_String :: "join_group_req option \<Rightarrow> string" where
  "JoinGroupReq_String p =
     (case p of
        None \<Rightarrow> ''<nil>''
      | Some v \<Rightarrow> ''JoinGroupReq('' @ fmt_struct [(''Uid'', jgqUid v), (''Tgid'', jgqTgid v)] @ '')'')"

definition JoinGroupRes_String :: "join_group_res option \<Rightarrow> string" where
  "JoinGroupRes_String p =
     (case p of
        None \<Rightarrow> ''<nil>''
      | Some v \<Rightarrow> ''JoinGroupRes('' @ fmt_struct [(''Res'', fmt_bool (jgrRes v))] @ '')'')"

definition ImRpcHelloArgs_String :: "rpc_request rpc_args option \<Rightarrow> string" where
  "ImRpcHelloArgs_String p =
     (case p of
        None \<Rightarrow> ''<nil>''
      | Some v \<Rightarrow> ''ImRpcHelloArgs('' @ fmt_struct [(''Req'', RpcRequest_String (Req v))] @ '')'')"

definition ImRpcHelloResult_String :: "rpc_response rpc_result option \<Rightarrow> string" where
  "ImRpcHelloResult_String p =
     (case p of
        None \<Rightarrow> ''<nil>''
      | Some v \<Rightarrow> ''ImRpcHelloResult('' @ fmt_struct [(''Success'', RpcResponse_String (Success v))] @ '')'')"

definition ImRpcSendMsgToUserArgs_String :: "send_msg_req rpc_args option \<Rightarrow> string" where
  "ImRpcSendMsgToUserArgs_String p =
     (case p of
        None \<Rightarrow> ''<nil>''
      | Some v \<Rightarrow> ''ImRpcSendMsgToUserArgs('' @ fmt_struct [(''Req'', SendMsgReq_String (Req v))] @ '')'')"

definition ImRpcSendMsgToUserResult_String :: "send_msg_rsp rpc_result option \<Rightarrow> string" where
  "ImRpcSendMsgToUserResult_String p =
     (case p of
        None \<Rightarrow> ''<nil>''
      | Some v \<Rightarrow> ''ImRpcSendMsgToUserResult('' @ fmt_struct [(''Success'', SendMsgRsp_String (Success v))] @ '')'')"

definition ImRpcSendMsgToUserByTgidArgs_String :: "send_msg_by_tgid_req rpc_args option \<Rightarrow> string" where
  "ImRpcSendMsgToUserByTgidArgs_String p =
     (case p of
        None \<Rightarrow> ''<nil>''
      | Some v \<Rightarrow> ''ImRpcSendMsgToUserByTgidArgs('' @ fmt_struct [(''Req'', SendMsgByTgidReq_String (Req v))] @ '')'')"

definition ImRpcSendMsgToUserByTgidResult_String :: "send_msg_rsp rpc_result option \<Rightarrow> string" where
  "ImRpcSendMsgToUserByTgidResult_String p =
     (case p of
        None \<Rightarrow> ''<nil>''
      | Some v \<Rightarrow> ''ImRpcSendMsgToUserByTgidResult('' @ fmt_struct [(''Success'', SendMsgRsp_String (Success v))] @ '')'')"

definition ImRpcStopUserClientArgs_String :: "user_id_req rpc_args option \<Rightarrow> string" where
  "ImRpcStopUserClientArgs_String p =
     (case p of
        None \<Rightarrow> ''<nil>''
      | Some v \<Rightarrow> ''ImRpcStopUserClientArgs('' @ fmt_struct [(''Req'', UserIdReq_String (Req v))] @ '')'')"

definition ImRpcStopUserClientResult_String :: "stop_user_client_rsp rpc_result option \<Rightarrow> string" where
  "ImRpcStopUserClientResult_String p =
     (case p of
        None \<Rightarrow> ''<nil>''
      | Some v \<Rightarrow> ''ImRpcStopUserClientResult('' @ fmt_struct [(''Success'', StopUserClientRsp_String (Success v))] @ '')'')"

definition ImRpcGetSysInfoArgs_String :: "unit option \<Rightarrow> string" where
  "ImRpcGetSysInfoArgs_String p =
     (case p of
        None \<Rightarrow> ''<nil>''
      | Some v \<Rightarrow> ''ImRpcGetSysInfoArgs('' @ fmt_struct [] @ '')'')"

definition ImRpcGetSysInfoResult_String :: "bytes_rsp rpc_result option \<Rightarrow> string" where
  "ImRpcGetSysInfoResult_String p =
     (case p of
        None \<Rightarrow> ''<nil>''
      | Some v \<Rightarrow> ''ImRpcGetSysInfoResult('' @ fmt_struct [(''Success'', BytesRsp_String (Success v))] @ '')'')"

definition ImRpcJoinGroupArgs_String :: "join_group_req rpc_args option \<Rightarrow> string" where
  "ImRpcJoinGroupArgs_String p =
     (case p of
        None \<Rightarrow> ''<nil>''
      | Some v \<Rightarrow> ''ImRpcJoinGroupArgs('' @ fmt_struct [(''Req'', JoinGroupReq_String (Req v))] @ '')'')"

definition ImRpcJoinGroupResult_String :: "join_group_res rpc_result option \<Rightarrow> string" where
  "ImRpcJoinGroupResult_String p =
     (case p of
        None \<Rightarrow> ''<nil>''
      | Some v \<Rightarrow> ''ImRpcJoinGroupResult('' @ fmt_struct [(''Success'', JoinGroupRes_String (Success v))] @ '')'')"

definition ImRpcOutGroupArgs_String :: "join_group_req rpc_args option \<Rightarrow> string" where
  "ImRpcOutGroupArgs_String p =
     (case p of
        None \<Rightarrow> ''<nil>''
      | Some v \<Rightarrow> ''ImRpcOutGroupArgs('' @ fmt_struct [(''Req'', JoinGroupReq_String (Req v))] @ '')'')"

definition ImRpcOutGroupResult_String :: "join_group_res rpc_result option \<Rightarrow> string" where
  "ImRpcOutGroupResult_String p =
     (case p of
        None \<Rightarrow> ''<nil>''
      | Some v \<Rightarrow> ''ImRpcOutGroupResult('' @ fmt_struct [(''Success'', JoinGroupRes_String (Success v))] @ '')'')"

section \<open>A nil pointer is told from every struct\<close>

lemma String_nil:
  "RpcRequest_String p0 = ''<nil>'' \<longleftrightarrow> p0 = None"
  "RpcResponse_String p1 = ''<nil>'' \<longleftrightarrow> p1 = None"
  "SendMsgReq_String p2 = ''<nil>'' \<longleftrightarrow> p2 = None"
  "SendMsgRsp_String p3 = ''<nil>'' \<longleftrightarrow> p3 = None"
  "SendMsgByTgidReq_String p4 = ''<nil>'' \<longleftrightarrow> p4 = None"
  "UserIdReq_String p5 = ''<nil>'' \<longleftrightarrow> p5 = None"
  "StopUserClientRsp_String p6 = ''<nil>'' \<longleftrightarrow> p6 = None"
  "BytesRsp_String p7 = ''<nil>'' \<longleftrightarrow> p7 = None"
  "JoinGroupReq_String p8 = ''<nil>'' \<longleftrightarrow> p8 = None"
  "JoinGroupRes_String p9 = ''<nil>'' \<longleftrightarrow> p9 = None"
  "ImRpcHelloArgs_String p10 = ''<nil>'' \<longleftrightarrow> p10 = None"
  "ImRpcHelloResult_String p11 = ''<nil>'' \<longleftrightarrow> p11 = None"
  "ImRpcSendMsgToUserArgs_String p12 = ''<nil>'' \<longleftrightarrow> p12 = None"
  "ImRpcSendMsgToUserResult_String p13 = ''<nil>'' \<longleftrightarrow> p13 = None"
  "ImRpcSendMsgToUserByTgidArgs_String p14 = ''<nil>'' \<longleftrightarrow> p14 = None"
  "ImRpcSendMsgToUserByTgidResult_String p15 = ''<nil>'' \<longleftrightarrow> p15 = None"
  "ImRpcStopUserClientArgs_String p16 = ''<nil>'' \<longleftrightarrow> p16 = None"
  "ImRpcStopUserClientResult_String p17 = ''<nil>'' \<longleftrightarrow> p17 = None"
  "ImRpcGetSysInfoArgs_String p18 = ''<nil>'' \<longleftrightarrow> p18 = None"
  "ImRpcGetSysInfoResult_String p19 = ''<nil>'' \<longleftrightarrow> p19 = None"
  "ImRpcJoinGroupArgs_String p20 = ''<nil>'' \<longleftrightarrow> p20 = None"
  "ImRpcJoinGroupResult_String p21 = ''<nil>'' \<longleftrightarrow> p21 = None"
  "ImRpcOutGroupArgs_String p22 = ''<nil>'' \<longleftrightarrow> p22 = None"
  "ImRpcOutGroupResult_String p23 = ''<nil>'' \<longleftrightarrow> p23 = None"
  by (simp_all add: RpcRequest_String_def RpcResponse_String_def SendMsgReq_String_def
      SendMsgRsp_String_def SendMsgByTgidReq_String_def UserIdReq_String_def
      StopUserClientRsp_String_def BytesRsp_String_def JoinGroupReq_String_def
      JoinGroupRes_String_def ImRpcHelloArgs_String_def ImRpcHelloResult_String_def
      ImRpcSendMsgToUserArgs_String_def ImRpcSendMsgToUserResult_String_def ImRpcSendMsgToUserByTgidArgs_String_def
      ImRpcSendMsgToUserByTgidResult_String_def ImRpcStopUserClientArgs_String_def ImRpcStopUserClientResult_String_def
      ImRpcGetSysInfoArgs_String_def ImRpcGetSysInfoResult_String_def ImRpcJoinGroupArgs_String_def
      ImRpcJoinGroupResult_String_def ImRpcOutGroupArgs_String_def ImRpcOutGroupResult_String_def split: option.split)

end
