(* ===== verification/Spec2Isabelle.thy ===== *)
theory Spec2Isabelle
  imports WsProps LoginProps CodecProps ClusterProps ConcProps ProtoProps ClusterOrder LoginOverlap AppProps KitexString
begin

text \<open>
  gim is a library for instant messaging servers in Go. A process (a node) upgrades http
  requests to websocket connections, keeps one client per user, lets users join temporary
  groups and delivers messages to users and groups. In cluster mode several nodes share
  redis (who is connected where, and a subscription for group messages) and etcd (which
  nodes there are), and call each other by rpc.

  \<^bold>\<open>The parts, their sources and their theories.\<close>

  \<^item> Shared: \<open>GimPrelude\<close> (Go maps as association lists, the locale \<open>finite_map\<close>, the wrap-around of \<^verbatim>\<open>int\<close>), \<open>GoChan\<close>
  (buffered channels, the locale \<open>bounded_fifo\<close>), \<open>GoJson\<close>, \<open>GoLits\<close>, \<open>GoFloat\<close> and
  \<open>GoJsonFields\<close> (what is used of \<^verbatim>\<open>encoding/json\<close>, with the rounding of numbers to \<^verbatim>\<open>float64\<close>), \<open>ImErr\<close> (\<^verbatim>\<open>pkg/im_err\<close>), \<open>MsgTypes\<close> (\<^verbatim>\<open>pkg/types\<close>), \<open>ServerHelper\<close>
  (\<^verbatim>\<open>pkg/helper\<close>).
  \<^item> A node (\<^verbatim>\<open>service/ws\<close>): \<open>WsState\<close> has the state of a node, one record \<open>ws\<close> with the heap of
  clients and groups, the tables of the two managers, the sockets, redis and the network;
  \<open>WsCache\<close> is \<^verbatim>\<open>cache.go\<close>, \<open>WsClient\<close> is \<^verbatim>\<open>client.go\<close> and \<^verbatim>\<open>client_manager.go\<close>, \<open>WsGroup\<close> is
  \<^verbatim>\<open>tgroup.go\<close>, \<^verbatim>\<open>tgroup_manager.go\<close> and the group part of \<^verbatim>\<open>client.go\<close>, \<open>WsProxy\<close> is
  \<^verbatim>\<open>local_proxy.go\<close>, \<^verbatim>\<open>redis_proxy.go\<close>, \<^verbatim>\<open>proxy.go\<close> and the rpc implementation in
  \<^verbatim>\<open>service/api/server/handler.go\<close>, \<open>WsHandler\<close> is \<^verbatim>\<open>handler_ws.go\<close>, \<open>WsQueue\<close> is
  \<^verbatim>\<open>proxy_msg_queue.go\<close>, \<open>GimServer\<close> is the start in \<^verbatim>\<open>init_ws.go\<close>, \<^verbatim>\<open>service/api/server/server.go\<close>
  and \<^verbatim>\<open>server.go\<close>. Each method is a function on \<open>ws\<close>; the libraries are a record \<open>ws_env\<close> of
  functions, its first argument. A pointer is an address in the heap.
  \<^item> Cluster: \<open>EtcdRegistry\<close> (\<^verbatim>\<open>pkg/etcd_registry\<close>), \<open>ApiClient\<close> (\<^verbatim>\<open>service/api/client\<close>),
  \<open>SysService\<close> (\<^verbatim>\<open>service/sys\<close>), \<open>RpcStubs\<close> and \<open>RpcService\<close> (\<^verbatim>\<open>imrpc.go\<close>),
  \<open>RpcDispatch\<close>, the way of a request through the table of methods by its name, with the type
  assertions of the handlers, and \<open>Cluster\<close>, which puts them together: a call of one node is
  encoded, decoded, dispatched and run by another; \<open>RpcWiring\<close> has the constructors of the rpc
  client and server (\<^verbatim>\<open>imrpc/client.go\<close>, \<^verbatim>\<open>imrpc/server.go\<close>).
  \<^item> The process: \<open>GimProcess\<close> is the rest of \<^verbatim>\<open>server.go\<close> with \<^verbatim>\<open>pkg/logger\<close>, \<^verbatim>\<open>err_log.go\<close>,
  \<^verbatim>\<open>pkg/redis_client\<close> and \<^verbatim>\<open>pkg/etcd_client\<close>: the package variables are a record \<open>proc\<close>, and the
  calls that only libraries see are listed in it in their order. \<open>HttpPages\<close> is
  \<^verbatim>\<open>service/http\<close>, \<open>ExampleApp\<close> the server of \<^verbatim>\<open>examples/local\<close>, whose handler meets what is
  assumed of an application, \<open>ExampleMain\<close> its http routes and its run to the end, \<open>ExampleBench\<close> the
  benchmark beside it.
  \<^item> The generated rpc structs (\<^verbatim>\<open>kitex_gen/im/rpc\<close>): \<open>ThriftCodec\<close> has the loop and the contract
  (locale \<open>struct_codec\<close>) of the fast codec, \<open>KitexApi\<close> the structs with it (\<^verbatim>\<open>k-api.go\<close>),
  \<open>ThriftBinary\<close> an instance of the binary protocol; \<open>ThriftProto\<close> has the loop and the
  contract (locale \<open>proto_codec\<close>) of the codec over a protocol object, \<open>KitexProto\<close> and
  \<open>KitexCalls\<close> the structs with it and with \<^verbatim>\<open>DeepEqual\<close> (\<^verbatim>\<open>api.go\<close>), \<open>KitexAccess\<close> the accessors,
  \<open>KitexString\<close> the texts for logs.
  \<^item> Beside the code: \<open>WsGroupSpec\<close> (groups as sets, locale \<open>group_registry\<close>), \<open>WsInvariant\<close> and
  \<open>WsSteps\<close> (the invariant of a node and the node as a state machine), \<open>WsDelivery\<close> (what the
  loops deliver), \<open>WsEntries\<close> (what an event does to the users' entries in redis; an event that is not a login or
  the end of a connection is \<open>quiet\<close>),
  \<open>ClusterSteps\<close> (a cluster as a state machine: nodes that interleave over one redis, with
  entries that expire and nodes that are killed and started again), \<open>WsConcurrency\<close> (joins and leaves at the grain of the locks), \<open>WsInstance\<close>
  (a concrete node for the hypotheses).

  \<^bold>\<open>How the parts interact.\<close> The websocket library calls the handler; the handler logs a user
  in (redis, and a call to the node where the user was), and registers a client with the
  client manager. The application joins users to groups and sends through the proxy: the
  local proxy uses the two managers, the cluster proxy first tries the node itself, then
  asks redis for the user's node and calls it through the client table; group messages are
  published and every node's subscription hands them to its groups. The client table
  follows etcd, where every node registers under its address. The end of a connection
  removes the client from the tables, its groups and redis.

  \<^bold>\<open>What the theorems show.\<close>

  \<^item> \<open>WsProps\<close>: every reachable state of a node keeps the invariant; group messages, joins and
  leaves; the end of a connection; the send loop and a burst of sends; a group
  message blocks exactly while the group's queue is full.
  \<^item> \<open>LoginProps\<close>: the single login of a user on one node and across nodes, the answers to
  requests and to bad ones, the heartbeat, and a fault: a join that is overtaken by the end
  of its client leaves the user in the group.
  \<^item> \<open>ClusterLogin\<close>: in every reachable state of a cluster a lookup of a user finds no entry or a
  node of the cluster; and two runs that break the single login: the end of an old connection
  deletes the entry of a newer login, and a login that overlaps with another loses its entry.
  \<^item> \<open>ClusterOrder\<close>: without these orders of events the single login holds. \<open>orderly_step\<close> are the
  steps of a cluster in which a refused login's call to stop the old client is carried out with
  it, no node handles the end of a connection after another node wrote the user's entry, and the
  entry of an online user does not expire; then a user is online on one node at most.
  \<^item> \<open>LoginOverlap\<close>: a third run, on one node: of two clients that overlapping logins register the
  table of users keeps the later one, and the end of the first socket ends the wrong client.
  \<^item> \<open>ConcProps\<close>: the groups refine sets of users, for sequences of whole calls and for threads
  that interleave between their locks, without deadlock.
  \<^item> \<open>ClusterProps\<close>: messages, joins and group messages across nodes, down to the bytes of the
  rpc codec; discovery, registration and its renewal; the subscription keeps the order; the
  collected information; the start of a node.
  \<^item> \<open>AppProps\<close>: the end of a server, its order, and what it leaves open. The lemmas of \<open>ExampleMain\<close>
  and \<open>RpcDispatch\<close> show the end of the example in time and too late, and that no request leads to
  a type assertion that does not hold.
  \<^item> \<open>CodecProps\<close>, \<open>ProtoProps\<close>: round trips of the rpc structs and of the redis entry; reading ends on every buffer; the two codecs agree byte for byte;
  the address of a node.

  \<^bold>\<open>Interfaces.\<close> The contracts are locales, each interpreted on the definitions of the code:
  maps, channels, the group manager, the two proxies (\<open>run_proxy\<close>), the client of the
  discovery, an rpc method, and the two codecs of every struct.

  \<^bold>\<open>Loops.\<close> The loops that wait for messages, \<^verbatim>\<open>SendMsgLoop\<close> and \<^verbatim>\<open>ListenSendChan\<close>, take a number
  of rounds: the theorems about them hold for every number larger than the length of the
  queue, and a loop with nothing to receive waits. The subscription reader, the watch and
  the renewal of a lease run over the list of events that arrived so far. The retry of
  \<^verbatim>\<open>UserJoinTGroup\<close> and the two reading loops are \<open>partial_function\<close>s, where \<open>None\<close> is a call that does not
  return; that they return is proved. The JSON reader starts with more fuel than the text
  has characters.

  \<^bold>\<open>Hypotheses on what is outside the repository.\<close> \<open>redis_ok\<close>: a value set is read until it
  expires, other keys are kept. \<open>range_ok\<close>: ranging over a map visits every key once, in some
  order. \<open>thrift_ok\<close>, \<open>proto_ok\<close>, \<open>same_wire\<close>: the thrift library reads what it wrote, for texts
  shorter than two gigabytes, and both interfaces have one wire format. \<open>kitex_ok\<close>: a call
  reaches the serving node, which serves the request by the name of its method, and its answer
  comes back. \<open>etcd_get_ok\<close>, \<open>etcd_watch_ok\<close>: a query for a prefix gives what is registered under it at
  a revision, and a watch of a prefix from a revision gives the changes from that revision on.
  Similar ones for the worker pool and the websocket library. Every theorem with a hypothesis has an instance.

  \<^bold>\<open>Limits.\<close> The invariant of a node is at the grain of whole calls: each method between lock
  and unlock is one step, and a method that takes several locks is one step too;
  \<open>WsConcurrency\<close> and the theorem on late joins treat the finer interleavings of the groups, and
  the theorem on overlapping logins those of a login. In \<open>ClusterSteps\<close> an event of a node is one
  step on the shared redis; a call between nodes is a step at each of them, so calls may be lost,
  late or doubled.
  Texts are taken to be valid UTF-8, and nil and empty byte slices are not told apart. A keep
  time is not one of the ten largest values of \<^verbatim>\<open>int\<close>. A node is started with a redis client.

  \<^bold>\<open>Not modelled.\<close> \<^verbatim>\<open>InitDefault\<close>, \<^verbatim>\<open>OnPong\<close> and \<^verbatim>\<open>rePushMsg\<close> are empty, \<^verbatim>\<open>FastWrite\<close> returns 0 and writes
  nothing, \<^verbatim>\<open>k-consts.go\<close> keeps an import; \<^verbatim>\<open>CreateUniqueId\<close> is the answer of the ulid library, an argument
  of the login; types without a use (\<^verbatim>\<open>RequestProxy\<close>, \<^verbatim>\<open>SysTime\<close>, \<^verbatim>\<open>UserServer\<close>); the clock of the
  benchmark and its unused function; what goes to the log.
\<close>

end
